(* ===== verification/Prelude.thy ===== *)
theory Prelude
  imports Complex_Main "HOL-Library.AList" "HOL-Library.Char_ord" "HOL-Library.List_Lexorder" "HOL-Library.Multiset"
begin

text \<open>
  What every component theory shares: the Python errors a component can raise and the result
  type they travel in, insertion-ordered dictionaries, and the string methods the source calls.

  A Python \<open>str\<close> is modelled by a HOL \<open>string\<close> whose characters are the code points below 256
  (Latin-1), so the methods below follow what Python does on that range and \<open>length\<close> counts
  code points. A Python \<open>dict\<close> is an association list in insertion order with distinct keys.
\<close>

section \<open>Errors and results\<close>

text \<open>The exceptions the modelled code raises; pydantic's \<open>ValidationError\<close> is a \<open>ValueError\<close>, and
  \<open>IntegrityError\<close> is SQLite's, for a constraint of the schema.\<close>

datatype py_error =
    ValueError string
  | KeyError string
  | TypeError string
  | RuntimeError string
  | OverflowError string
  | ScopeViolation string
  | OSError string
  | IntegrityError string
  | AttributeError string

type_synonym 'a res = "py_error + 'a"

text \<open>\<open>str(exc)\<close> and \<open>type(exc).__name__\<close>.\<close>

fun error_text :: "py_error \<Rightarrow> string" where
  "error_text (ValueError m) = m"
| "error_text (KeyError m) = CHR 0x27 # m @ [CHR 0x27]"
| "error_text (TypeError m) = m"
| "error_text (RuntimeError m) = m"
| "error_text (OverflowError m) = m"
| "error_text (ScopeViolation m) = m"
| "error_text (OSError m) = m"
| "error_text (IntegrityError m) = m"
| "error_text (AttributeError m) = m"

fun error_name :: "py_error \<Rightarrow> string" where
  "error_name (ValueError m) = ''ValueError''"
| "error_name (KeyError m) = ''KeyError''"
| "error_name (TypeError m) = ''TypeError''"
| "error_name (RuntimeError m) = ''RuntimeError''"
| "error_name (OverflowError m) = ''OverflowError''"
| "error_name (ScopeViolation m) = ''ScopeViolation''"
| "error_name (OSError m) = ''OSError''"
| "error_name (IntegrityError m) = ''IntegrityError''"
| "error_name (AttributeError m) = ''AttributeError''"

named_theorems res_simps \<open>equations and inversions of the result combinators\<close>

definition res_bind :: "'e + 'a \<Rightarrow> ('a \<Rightarrow> 'e + 'b) \<Rightarrow> 'e + 'b" where
  "res_bind m f = (case m of Inl e \<Rightarrow> Inl e | Inr x \<Rightarrow> f x)"

text \<open>\<open>ensure b e\<close> is the Python \<open>if not b: raise e\<close>.\<close>

definition ensure :: "bool \<Rightarrow> 'e \<Rightarrow> 'e + unit" where
  "ensure b e = (if b then Inr () else Inl e)"

definition is_ok :: "'e + 'a \<Rightarrow> bool" where
  "is_ok r = (case r of Inl _ \<Rightarrow> False | Inr _ \<Rightarrow> True)"

fun map_res :: "('a \<Rightarrow> 'e + 'b) \<Rightarrow> 'a list \<Rightarrow> 'e + 'b list" where
  "map_res f [] = Inr []"
| "map_res f (x # xs) =
     res_bind (f x) (\<lambda>y. res_bind (map_res f xs) (\<lambda>ys. Inr (y # ys)))"

fun iter_res :: "('a \<Rightarrow> 'e + unit) \<Rightarrow> 'a list \<Rightarrow> 'e + unit" where
  "iter_res f [] = Inr ()"
| "iter_res f (x # xs) = res_bind (f x) (\<lambda>_. iter_res f xs)"

lemma res_bind_Inl [simp, res_simps]: "res_bind (Inl e) f = Inl e"
  by (simp add: res_bind_def)

lemma res_bind_Inr [simp, res_simps]: "res_bind (Inr x) f = f x"
  by (simp add: res_bind_def)

lemma res_bind_eq_Inr [res_simps]:
  "res_bind m f = Inr y \<longleftrightarrow> (\<exists>x. m = Inr x \<and> f x = Inr y)"
  by (cases m) auto

lemma res_bind_eq_Inl [res_simps]:
  "res_bind m f = Inl e \<longleftrightarrow> m = Inl e \<or> (\<exists>x. m = Inr x \<and> f x = Inl e)"
  by (cases m) auto

lemma res_bind_InrE:
  assumes "res_bind m f = Inr y"
  obtains x where "m = Inr x" and "f x = Inr y"
  using assms by (auto simp: res_bind_eq_Inr)

lemma res_bind_assoc: "res_bind (res_bind m f) g = res_bind m (\<lambda>x. res_bind (f x) g)"
  by (cases m) simp_all

lemma res_bind_cong [fundef_cong]:
  "m = m' \<Longrightarrow> (\<And>x. m' = Inr x \<Longrightarrow> f x = f' x) \<Longrightarrow> res_bind m f = res_bind m' f'"
  by (cases m') auto

lemma ensure_eq_Inr [simp, res_simps]: "ensure b e = Inr u \<longleftrightarrow> b"
  by (simp add: ensure_def)

lemma ensure_eq_Inl [simp, res_simps]: "ensure b e = Inl e' \<longleftrightarrow> \<not> b \<and> e = e'"
  by (auto simp: ensure_def)

lemma ensure_True [simp]: "ensure True e = Inr ()"
  by (simp add: ensure_def)

lemma ensure_False [simp]: "ensure False e = Inl e"
  by (simp add: ensure_def)

lemma is_ok_simps [simp]: "is_ok (Inl e) = False" "is_ok (Inr x) = True"
  by (simp_all add: is_ok_def)

lemma is_ok_iff: "is_ok r \<longleftrightarrow> (\<exists>x. r = Inr x)"
  by (cases r) auto

lemma is_ok_bind [simp]: "is_ok (res_bind m f) \<longleftrightarrow> (\<exists>x. m = Inr x \<and> is_ok (f x))"
  by (cases m) auto

lemma is_ok_ensure [simp]: "is_ok (ensure b e) \<longleftrightarrow> b"
  by (simp add: ensure_def)

lemma iter_res_ok: "iter_res f xs = Inr () \<longleftrightarrow> (\<forall>x \<in> set xs. f x = Inr ())"
  by (induction xs) (auto simp: res_bind_eq_Inr)

lemma map_res_ok:
  "map_res f xs = Inr ys \<longleftrightarrow> length xs = length ys \<and> (\<forall>i < length xs. f (xs ! i) = Inr (ys ! i))"
proof (induction xs arbitrary: ys)
  case Nil
  then show ?case by auto
next
  case (Cons x xs)
  show ?case
    by (cases ys) (auto simp: res_bind_eq_Inr Cons.IH nth_Cons split: nat.splits)
qed

section \<open>Insertion-ordered dictionaries\<close>

text \<open>
  \<open>d[k] = v\<close> keeps the position of an existing key and appends a new one, which is what
  \<open>AList.update\<close> does; \<open>d.get(k)\<close> is \<open>map_of d k\<close>; \<open>d.pop(k, None)\<close> is \<open>AList.delete\<close>.
\<close>

type_synonym ('k, 'v) dict = "('k \<times> 'v) list"

abbreviation dict_get :: "('k, 'v) dict \<Rightarrow> 'k \<Rightarrow> 'v option" where
  "dict_get d k \<equiv> map_of d k"

definition dict_set :: "'k \<Rightarrow> 'v \<Rightarrow> ('k, 'v) dict \<Rightarrow> ('k, 'v) dict" where
  "dict_set k v d = AList.update k v d"

definition dict_setdefault :: "'k \<Rightarrow> 'v \<Rightarrow> ('k, 'v) dict \<Rightarrow> ('k, 'v) dict" where
  "dict_setdefault k v d = (case map_of d k of None \<Rightarrow> d @ [(k, v)] | Some _ \<Rightarrow> d)"

definition dict_pop :: "'k \<Rightarrow> ('k, 'v) dict \<Rightarrow> ('k, 'v) dict" where
  "dict_pop k d = AList.delete k d"

abbreviation dict_keys :: "('k, 'v) dict \<Rightarrow> 'k list" where
  "dict_keys d \<equiv> map fst d"

definition wf_dict :: "('k, 'v) dict \<Rightarrow> bool" where
  "wf_dict d \<longleftrightarrow> distinct (map fst d)"

text \<open>
  The interface a keyed table offers its clients: what a lookup returns after a store, and
  that every operation keeps the table's invariant. The clients' derived facts are proved once.
\<close>

locale keyed_table =
  fixes look :: "'t \<Rightarrow> 'k \<Rightarrow> 'v option"
    and store :: "'k \<Rightarrow> 'v \<Rightarrow> 't \<Rightarrow> 't"
    and inv :: "'t \<Rightarrow> bool"
  assumes look_store: "inv t \<Longrightarrow> look (store k v t) = (look t)(k \<mapsto> v)"
    and inv_store: "inv t \<Longrightarrow> inv (store k v t)"
begin

lemma look_store_same: "inv t \<Longrightarrow> look (store k v t) k = Some v"
  by (simp add: look_store)

lemma look_store_other: "inv t \<Longrightarrow> k' \<noteq> k \<Longrightarrow> look (store k v t) k' = look t k'"
  by (simp add: look_store)

lemma store_store_same: "inv t \<Longrightarrow> look (store k v (store k w t)) = look (store k v t)"
  by (simp add: look_store inv_store)

lemma store_commute:
  "inv t \<Longrightarrow> k \<noteq> k' \<Longrightarrow> look (store k v (store k' w t)) = look (store k' w (store k v t))"
  by (simp add: look_store inv_store fun_upd_twist)

lemma inv_fold: "inv t \<Longrightarrow> inv (fold (\<lambda>(k, v). store k v) kvs t)"
  by (induction kvs arbitrary: t) (auto intro: inv_store)

lemma look_fold_notin:
  "inv t \<Longrightarrow> k \<notin> fst ` set kvs \<Longrightarrow> look (fold (\<lambda>(k, v). store k v) kvs t) k = look t k"
  by (induction kvs arbitrary: t) (auto simp: inv_store look_store)

end

lemma map_of_dict_set [simp]: "map_of (dict_set k v d) = (map_of d)(k \<mapsto> v)"
  by (simp add: dict_set_def update_conv')

lemma wf_dict_set [simp, intro]: "wf_dict d \<Longrightarrow> wf_dict (dict_set k v d)"
  by (simp add: wf_dict_def dict_set_def distinct_update)

lemma wf_dict_Nil [simp]: "wf_dict []"
  by (simp add: wf_dict_def)

interpretation pydict: keyed_table map_of dict_set wf_dict
  by unfold_locales simp_all

lemma keys_dict_set: "set (dict_keys (dict_set k v d)) = insert k (set (dict_keys d))"
  by (induction d) (auto simp: dict_set_def)

lemma dict_keys_set_known: "k \<in> set (dict_keys d) \<Longrightarrow> dict_keys (dict_set k v d) = dict_keys d"
  by (induction d) (auto simp: dict_set_def)

lemma dict_keys_set_new: "k \<notin> set (dict_keys d) \<Longrightarrow> dict_set k v d = d @ [(k, v)]"
  by (induction d) (auto simp: dict_set_def)

lemma map_of_dict_pop [simp]: "map_of (dict_pop k d) = (map_of d)(k := None)"
  by (simp add: dict_pop_def delete_conv')

lemma wf_dict_pop [simp, intro]: "wf_dict d \<Longrightarrow> wf_dict (dict_pop k d)"
  by (simp add: wf_dict_def dict_pop_def distinct_delete)

lemma map_of_setdefault:
  "map_of (dict_setdefault k v d) = (if map_of d k = None then (map_of d)(k \<mapsto> v) else map_of d)"
  by (cases "map_of d k")
     (auto simp: dict_setdefault_def map_add_def fun_eq_iff split: option.splits)

lemma wf_dict_setdefault [simp, intro]: "wf_dict d \<Longrightarrow> wf_dict (dict_setdefault k v d)"
  by (auto simp: wf_dict_def dict_setdefault_def map_of_eq_None_iff split: option.splits)

lemma dict_get_in: "wf_dict d \<Longrightarrow> (k, v) \<in> set d \<Longrightarrow> map_of d k = Some v"
  by (simp add: wf_dict_def)

lemma wf_dict_map_vals: "wf_dict (map (\<lambda>(k, v). (k, f k v)) d) \<longleftrightarrow> wf_dict d"
  by (induction d) (auto simp: wf_dict_def comp_def case_prod_unfold image_image)

section \<open>Strings\<close>

definition code_point :: "char \<Rightarrow> nat" where
  "code_point c = of_char c"

text \<open>\<open>str.isspace\<close>, \<open>str.lower\<close>, \<open>str.isdigit\<close> and \<open>str.isalnum\<close> on Latin-1.\<close>

definition is_space :: "char \<Rightarrow> bool" where
  "is_space c = (let n = code_point c in
     9 \<le> n \<and> n \<le> 13 \<or> 28 \<le> n \<and> n \<le> 32 \<or> n = 133 \<or> n = 160)"

definition lower_char :: "char \<Rightarrow> char" where
  "lower_char c = (let n = code_point c in
     if 65 \<le> n \<and> n \<le> 90 \<or> 192 \<le> n \<and> n \<le> 222 \<and> n \<noteq> 215 then char_of (n + 32) else c)"

definition lower :: "string \<Rightarrow> string" where
  "lower = map lower_char"

definition is_dec :: "char \<Rightarrow> bool" where
  "is_dec c = (let n = code_point c in 48 \<le> n \<and> n \<le> 57)"

definition is_digit_char :: "char \<Rightarrow> bool" where
  "is_digit_char c = (is_dec c \<or> code_point c \<in> {178, 179, 185})"

definition is_lower_ascii :: "char \<Rightarrow> bool" where
  "is_lower_ascii c = (let n = code_point c in 97 \<le> n \<and> n \<le> 122)"

definition is_alnum_char :: "char \<Rightarrow> bool" where
  "is_alnum_char c = (let n = code_point c in
     is_digit_char c \<or> 65 \<le> n \<and> n \<le> 90 \<or> 97 \<le> n \<and> n \<le> 122 \<or> n = 170 \<or> n = 181 \<or> n = 186
     \<or> 188 \<le> n \<and> n \<le> 190 \<or> 192 \<le> n \<and> n \<noteq> 215 \<and> n \<noteq> 247)"

definition lstrip :: "string \<Rightarrow> string" where
  "lstrip = dropWhile is_space"

definition rstrip :: "string \<Rightarrow> string" where
  "rstrip s = rev (dropWhile is_space (rev s))"

definition strip :: "string \<Rightarrow> string" where
  "strip s = rstrip (lstrip s)"

definition starts_with :: "string \<Rightarrow> string \<Rightarrow> bool" where
  "starts_with s p = (take (length p) s = p)"

definition ends_with :: "string \<Rightarrow> string \<Rightarrow> bool" where
  "ends_with s p = starts_with (rev s) (rev p)"

fun has_sub :: "string \<Rightarrow> string \<Rightarrow> bool" where
  "has_sub [] p = (p = [])"
| "has_sub (c # s) p = (starts_with (c # s) p \<or> has_sub s p)"

text \<open>\<open>s.split(c)\<close> for a one-character separator.\<close>

fun split_on :: "char \<Rightarrow> string \<Rightarrow> string list" where
  "split_on c [] = [[]]"
| "split_on c (x # xs) =
     (if x = c then [] # split_on c xs
      else (case split_on c xs of [] \<Rightarrow> [[x]] | w # ws \<Rightarrow> (x # w) # ws))"

text \<open>\<open>s.split(c, 1)\<close>: at most one cut, at the first separator.\<close>

definition split_once :: "char \<Rightarrow> string \<Rightarrow> string list" where
  "split_once c s =
     (if c \<in> set s then [takeWhile (\<lambda>x. x \<noteq> c) s, tl (dropWhile (\<lambda>x. x \<noteq> c) s)] else [s])"

fun join_with :: "string \<Rightarrow> string list \<Rightarrow> string" where
  "join_with sep [] = []"
| "join_with sep [w] = w"
| "join_with sep (w # v # ws) = w @ sep @ join_with sep (v # ws)"

text \<open>\<open>s.count(p)\<close> for a non-empty \<open>p\<close>: matches that do not overlap.\<close>

fun count_sub :: "nat \<Rightarrow> string \<Rightarrow> string \<Rightarrow> nat" where
  "count_sub skip p [] = 0"
| "count_sub skip p (c # cs) =
     (if 0 < skip then count_sub (skip - 1) p cs
      else if starts_with (c # cs) p then Suc (count_sub (length p - 1) p cs) else count_sub 0 p cs)"

text \<open>\<open>str.splitlines\<close> on Latin-1.\<close>

definition line_end :: "char \<Rightarrow> bool" where
  "line_end c = (let n = code_point c in 10 \<le> n \<and> n \<le> 13 \<or> 28 \<le> n \<and> n \<le> 30 \<or> n = 133)"

fun lines_from :: "string \<Rightarrow> string \<Rightarrow> string list" where
  "lines_from w [] = (if w = [] then [] else [w])"
| "lines_from w (c # cs) =
     (if line_end c then w # (if c = CHR 0x0D \<and> starts_with cs [CHR 0x0A] then lines_from [] (tl cs) else lines_from [] cs)
      else lines_from (w @ [c]) cs)"

definition splitlines :: "string \<Rightarrow> string list" where
  "splitlines s = lines_from [] s"

fun show_nat :: "nat \<Rightarrow> string" where
  "show_nat n = (if n < 10 then [char_of (48 + n)] else show_nat (n div 10) @ [char_of (48 + n mod 10)])"

declare show_nat.simps [simp del]

definition show_int :: "int \<Rightarrow> string" where
  "show_int i = (if i < 0 then CHR ''-'' # show_nat (nat (- i)) else show_nat (nat i))"

text \<open>\<open>int(s)\<close> for an ASCII digit string.\<close>

definition read_int :: "string \<Rightarrow> int" where
  "read_int s = foldl (\<lambda>n c. 10 * n + int (code_point c - 48)) 0 s"

text \<open>A name between single quotes, as the messages of the source show it.\<close>

definition quoted :: "string \<Rightarrow> string" where
  "quoted s = CHR 0x27 # s @ [CHR 0x27]"

text \<open>The hexadecimal SHA-256 shape that the schemas' \<open>pattern\<close> fields require.\<close>

definition is_hex64 :: "string \<Rightarrow> bool" where
  "is_hex64 s = (length s = 64 \<and> list_all (\<lambda>c. is_dec c \<or> (let n = code_point c in 97 \<le> n \<and> n \<le> 102)) s)"

text \<open>The identifier pattern \<open>^[a-z][a-z0-9_-]{0,63}$\<close>, matched against the whole string.\<close>

definition is_identifier :: "string \<Rightarrow> bool" where
  "is_identifier s = (case s of [] \<Rightarrow> False | c # cs \<Rightarrow>
     is_lower_ascii c \<and> length cs \<le> 63
     \<and> list_all (\<lambda>x. is_lower_ascii x \<or> is_dec x \<or> x = CHR ''_'' \<or> x = CHR ''-'') cs)"

lemma split_on_ne [simp]: "split_on c s \<noteq> []"
  by (induction s) (auto split: list.splits)

lemma join_split_on: "join_with [c] (split_on c s) = s"
proof (induction s)
  case Nil
  then show ?case by simp
next
  case (Cons x xs)
  show ?case
  proof (cases "split_on c xs")
    case Nil
    then show ?thesis by simp
  next
    case (Cons w ws)
    with Cons.IH show ?thesis by (cases ws) auto
  qed
qed

lemma starts_with_refl [simp]: "starts_with s s"
  by (simp add: starts_with_def)

lemma starts_with_append [simp]: "starts_with (p @ s) p"
  by (simp add: starts_with_def)

lemma lower_length [simp]: "length (lower s) = length s"
  by (simp add: lower_def)

lemma set_strip: "set (strip s) \<subseteq> set s"
proof -
  have "set (dropWhile is_space xs) \<subseteq> set xs" for xs
    by (auto dest: set_dropWhileD)
  then show ?thesis
    unfolding strip_def rstrip_def lstrip_def by (metis set_rev subset_trans)
qed

end
