(* ===== verification/PyValue.thy ===== *)
theory PyValue
  imports Prelude
begin

text \<open>
  Python values as far as the modelled code inspects them: the JSON-shaped values that travel in
  \<open>dict[str, Any]\<close> fields, with Python's truth value and its cross-type numeric equality, and
  the redaction of secrets (\<open>redact_sensitive\<close> of \<open>runtime/coordinator.py\<close>).

  A float is an exact rational or one of the three non-finite values: the code compares floats,
  and never relies on how arithmetic rounds them.
\<close>

section \<open>Values\<close>

datatype pyfloat = Fin rat | PosInf | NegInf | NaN

datatype jval =
    JNull
  | JBool bool
  | JInt int
  | JFloat pyfloat
  | JStr string
  | JList "jval list"
  | JDict "(string \<times> jval) list"

type_synonym jdict = "(string, jval) dict"

text \<open>\<open>bool(v)\<close>.\<close>

fun truthy :: "jval \<Rightarrow> bool" where
  "truthy JNull = False"
| "truthy (JBool b) = b"
| "truthy (JInt i) = (i \<noteq> 0)"
| "truthy (JFloat f) = (f \<noteq> Fin 0)"
| "truthy (JStr s) = (s \<noteq> [])"
| "truthy (JList xs) = (xs \<noteq> [])"
| "truthy (JDict d) = (d \<noteq> [])"

fun is_dict :: "jval \<Rightarrow> bool" where
  "is_dict (JDict _) = True"
| "is_dict _ = False"

fun is_str :: "jval \<Rightarrow> bool" where
  "is_str (JStr _) = True"
| "is_str _ = False"

fun is_bool :: "jval \<Rightarrow> bool" where
  "is_bool (JBool _) = True"
| "is_bool _ = False"

text \<open>The numeric value of a number; a \<open>bool\<close> is an \<open>int\<close> in Python.\<close>

fun num_of :: "jval \<Rightarrow> pyfloat option" where
  "num_of (JBool b) = Some (Fin (if b then 1 else 0))"
| "num_of (JInt i) = Some (Fin (of_int i))"
| "num_of (JFloat f) = Some f"
| "num_of _ = None"

text \<open>\<open>isinstance(v, (int, float)) and not isinstance(v, bool)\<close>.\<close>

fun is_number :: "jval \<Rightarrow> bool" where
  "is_number (JInt _) = True"
| "is_number (JFloat _) = True"
| "is_number _ = False"

text \<open>
  \<open>==\<close>: numbers compare by value across \<open>bool\<close>, \<open>int\<close> and \<open>float\<close>, a NaN equals nothing, and
  dictionaries compare without regard to the order of their keys.
\<close>

definition float_eq :: "pyfloat \<Rightarrow> pyfloat \<Rightarrow> bool" where
  "float_eq x y = (x = y \<and> x \<noteq> NaN)"

function (sequential) py_eq :: "jval \<Rightarrow> jval \<Rightarrow> bool" where
  "py_eq JNull JNull = True"
| "py_eq (JStr s) (JStr t) = (s = t)"
| "py_eq (JList xs) (JList ys) =
     (length xs = length ys \<and> list_all (\<lambda>(x, y). py_eq x y) (zip xs ys))"
| "py_eq (JDict c) (JDict d) =
     (length c = length d \<and>
      list_all (\<lambda>(k, v). case map_of d k of None \<Rightarrow> False | Some w \<Rightarrow> py_eq v w) c)"
| "py_eq v w =
     (case (num_of v, num_of w) of (Some x, Some y) \<Rightarrow> float_eq x y | _ \<Rightarrow> False)"
  by pat_completeness auto
termination
proof (relation "measure (\<lambda>(v, w). size v)", goal_cases)
  case 1
  then show ?case by simp
next
  case (2 xs ys z x y)
  then have "x \<in> set xs" by (auto dest: set_zip_leftD)
  then have "size x \<le> size_list size xs" by (simp add: size_list_estimation')
  then show ?case by simp
next
  case (3 c d z k v w)
  then have "size v < Suc (size_list (size_prod (\<lambda>_. 0) size) c)"
    by (induction c) auto
  then show ?case by simp
qed

text \<open>\<open>math.isfinite\<close>, which raises \<open>OverflowError\<close> on an integer too large for a double.\<close>

definition double_limit :: int where
  "double_limit = 2 ^ 1024 - 2 ^ 970"

fun is_finite_num :: "jval \<Rightarrow> bool res" where
  "is_finite_num (JInt i) =
     (if \<bar>i\<bar> < double_limit then Inr True else Inl (OverflowError ''int too large to convert to float''))"
| "is_finite_num (JFloat f) = Inr (case f of Fin _ \<Rightarrow> True | _ \<Rightarrow> False)"
| "is_finite_num (JBool _) = Inr True"
| "is_finite_num _ = Inl (TypeError ''must be real number'')"

text \<open>\<open><\<close> on two finite numbers; Python compares an int with a float exactly.\<close>

definition num_less :: "jval \<Rightarrow> jval \<Rightarrow> bool" where
  "num_less v w = (case (num_of v, num_of w) of (Some (Fin x), Some (Fin y)) \<Rightarrow> x < y | _ \<Rightarrow> False)"

text \<open>
  \<open>json.dumps(..., sort_keys=True)\<close>: the order in which a dictionary's keys were inserted is
  forgotten, at every depth.
\<close>

fun canon :: "jval \<Rightarrow> jval" where
  "canon (JList xs) = JList (map canon xs)"
| "canon (JDict d) = JDict (sort_key fst (map (\<lambda>(k, v). (k, canon v)) d))"
| "canon v = v"

definition canon_dict :: "jdict \<Rightarrow> jdict" where
  "canon_dict d = sort_key fst (map (\<lambda>(k, v). (k, canon v)) d)"

lemma insort_fst_map:
  "insort_key fst (k, f v) (map (\<lambda>(k, v). (k, f v)) ys) = map (\<lambda>(k, v). (k, f v)) (insort_key fst (k, v) ys)"
  by (induction ys) auto

lemma sort_key_fst_map: "sort_key fst (map (\<lambda>(k, v). (k, f v)) d) = map (\<lambda>(k, v). (k, f v)) (sort_key fst d)"
proof (induction d)
  case (Cons x d)
  then show ?case by (cases x) (simp add: insort_fst_map)
qed simp

lemma sort_key_idem: "sort_key f (sort_key f xs) = sort_key f xs"
  by (rule sort_key_id_if_sorted) simp

lemma canon_idem [simp]: "canon (canon v) = canon v"
proof (induction v rule: canon.induct)
  case (2 d)
  have "map (\<lambda>(k, v). (k, canon v)) (sort_key fst (map (\<lambda>(k, v). (k, canon v)) d))
    = sort_key fst (map (\<lambda>(k, v). (k, canon v)) (map (\<lambda>(k, v). (k, canon v)) d))"
    by (rule sort_key_fst_map [symmetric])
  also have "map (\<lambda>(k, v). (k, canon v)) (map (\<lambda>(k, v). (k, canon v)) d) = map (\<lambda>(k, v). (k, canon v)) d"
    using 2 by (auto simp: comp_def)
  finally show ?case by (simp add: sort_key_idem)
qed auto

lemma canon_dict_idem [simp]: "canon_dict (canon_dict d) = canon_dict d"
  using canon_idem [of "JDict d"] by (simp add: canon_dict_def)

lemma keys_canon_dict: "set (dict_keys (canon_dict d)) = set (dict_keys d)"
  by (force simp: canon_dict_def)

section \<open>Redaction of secrets\<close>

text \<open>
  The three patterns of \<open>runtime/coordinator.py\<close> are matched by hand. Their alternatives are
  prefix-free, their \<open>\\s*\<close> groups are followed by a non-space character, and their last group ends
  the pattern, so a leftmost greedy match never backtracks.
\<close>

definition secret_keyword :: "string \<Rightarrow> nat option" where
  "secret_keyword s = (let l = lower s in
     if starts_with l ''apikey'' then Some 6
     else if starts_with l ''api_key'' \<or> starts_with l ''api-key'' then Some 7
     else if starts_with l ''authorization'' then Some 13
     else if starts_with l ''password'' then Some 8
     else if starts_with l ''secret'' then Some 6
     else if starts_with l ''token'' then Some 5
     else None)"

definition value_char :: "char \<Rightarrow> bool" where
  "value_char c = (\<not> is_space c \<and> c \<noteq> CHR '','' \<and> c \<noteq> CHR '';'')"

text \<open>A match of \<open>_SECRET_PATTERN\<close> at the start of \<open>s\<close>: the keyword and what follows the match.\<close>

definition secret_at :: "string \<Rightarrow> (string \<times> string) option" where
  "secret_at s = (case secret_keyword s of
     None \<Rightarrow> None
   | Some n \<Rightarrow> (case lstrip (drop n s) of
       [] \<Rightarrow> None
     | c # r \<Rightarrow>
         if c = CHR '':'' \<or> c = CHR ''='' then
           (let v = lstrip r; rest = dropWhile value_char v in
            if length rest < length v then Some (take n s, rest) else None)
         else None))"

definition bearer_char :: "char \<Rightarrow> bool" where
  "bearer_char c = (is_lower_ascii (lower_char c) \<and> code_point c < 128 \<or> is_dec c
     \<or> c \<in> set ''._~+/=-'')"

definition bearer_at :: "string \<Rightarrow> string option" where
  "bearer_at s =
     (if starts_with (lower s) ''bearer'' then
        (let r = drop 6 s; a = lstrip r; rest = dropWhile bearer_char a in
         if length a < length r \<and> length rest < length a then Some rest else None)
      else None)"

lemma length_dropWhile_less: "length (dropWhile P xs) \<le> length xs"
  by (rule length_dropWhile_le)

lemma secret_keyword_pos: "secret_keyword s = Some n \<Longrightarrow> 0 < n"
  by (auto simp: secret_keyword_def Let_def split: if_splits)

lemma secret_at_shorter: "secret_at s = Some (k, rest) \<Longrightarrow> length rest < length s"
proof -
  assume h: "secret_at s = Some (k, rest)"
  then obtain n where n: "secret_keyword s = Some n" by (auto simp: secret_at_def split: option.splits)
  with h obtain c r where cr: "lstrip (drop n s) = c # r"
    and le: "length rest < length (lstrip r)"
    by (auto simp: secret_at_def Let_def split: list.splits if_splits)
  have "length (lstrip (drop n s)) \<le> length s"
    unfolding lstrip_def by (rule order_trans [OF length_dropWhile_le]) simp
  with cr have "length r < length s" by simp
  moreover have "length (lstrip r) \<le> length r"
    unfolding lstrip_def by (rule length_dropWhile_le)
  ultimately show ?thesis using le by linarith
qed

lemma bearer_at_shorter: "bearer_at s = Some rest \<Longrightarrow> length rest < length s"
proof -
  assume "bearer_at s = Some rest"
  then have "length rest < length (lstrip (drop 6 s))" and "length (lstrip (drop 6 s)) < length (drop 6 s)"
    by (auto simp: bearer_at_def Let_def split: if_splits)
  moreover have "length (drop 6 s) \<le> length s" by simp
  ultimately show ?thesis by linarith
qed

definition redacted :: string where
  "redacted = ''[REDACTED]''"

function sub_secret :: "string \<Rightarrow> string" where
  "sub_secret s = (case s of [] \<Rightarrow> [] | c # cs \<Rightarrow>
     (case secret_at s of
        Some (k, rest) \<Rightarrow> k @ ''='' @ redacted @ sub_secret rest
      | None \<Rightarrow> c # sub_secret cs))"
  by pat_completeness auto
termination
  by (relation "measure length") (auto dest: secret_at_shorter)

function sub_bearer :: "string \<Rightarrow> string" where
  "sub_bearer s = (case s of [] \<Rightarrow> [] | c # cs \<Rightarrow>
     (case bearer_at s of
        Some rest \<Rightarrow> ''Bearer '' @ redacted @ sub_bearer rest
      | None \<Rightarrow> c # sub_bearer cs))"
  by pat_completeness auto
termination
  by (relation "measure length") (auto dest: bearer_at_shorter)

declare sub_secret.simps [simp del] sub_bearer.simps [simp del]

definition redact_text :: "string \<Rightarrow> string" where
  "redact_text s = sub_bearer (sub_secret s)"

text \<open>\<open>_SECRET_NAME_PATTERN.search(key)\<close>.\<close>

definition secret_name :: "string \<Rightarrow> bool" where
  "secret_name key = (let l = lower key in
     has_sub l ''apikey'' \<or> has_sub l ''api_key'' \<or> has_sub l ''api-key'' \<or> has_sub l ''authorization''
     \<or> has_sub l ''credential'' \<or> has_sub l ''password'' \<or> has_sub l ''secret'' \<or> has_sub l ''token'')"

text \<open>\<open>redact_sensitive(value, key)\<close>.\<close>

fun redact_sensitive :: "string \<Rightarrow> jval \<Rightarrow> jval" where
  "redact_sensitive key v =
     (if secret_name key then JStr redacted
      else case v of
        JDict d \<Rightarrow> JDict (map (\<lambda>(k, w). (k, redact_sensitive k w)) d)
      | JList xs \<Rightarrow> JList (map (redact_sensitive []) xs)
      | JStr s \<Rightarrow> JStr (redact_text s)
      | w \<Rightarrow> w)"

declare redact_sensitive.simps [simp del]

text \<open>Every dictionary entry with a secret name, at any depth, holds the mask.\<close>

fun masked :: "jval \<Rightarrow> bool" where
  "masked (JDict d) = list_all (\<lambda>(k, w). (secret_name k \<longrightarrow> w = JStr redacted) \<and> masked w) d"
| "masked (JList xs) = list_all masked xs"
| "masked _ = True"

lemma secret_name_Nil [simp]: "\<not> secret_name []"
  by (simp add: secret_name_def lower_def)

lemma redact_secret_name [simp]: "secret_name k \<Longrightarrow> redact_sensitive k v = JStr redacted"
  by (simp add: redact_sensitive.simps)

lemma redact_plain:
  assumes "\<not> secret_name k"
  shows "redact_sensitive k (JDict d) = JDict (map (\<lambda>(k, w). (k, redact_sensitive k w)) d)"
    and "redact_sensitive k (JList xs) = JList (map (redact_sensitive []) xs)"
    and "redact_sensitive k (JStr s) = JStr (redact_text s)"
    and "redact_sensitive k (JInt i) = JInt i"
    and "redact_sensitive k (JBool b) = JBool b"
    and "redact_sensitive k JNull = JNull"
    and "redact_sensitive k (JFloat f) = JFloat f"
  using assms by (simp_all add: redact_sensitive.simps)

lemma redact_masks: "masked (redact_sensitive key v)"
proof (induction key v rule: redact_sensitive.induct)
  case (1 key v)
  show ?case
  proof (cases "secret_name key")
    case True
    then show ?thesis by simp
  next
    case False
    with 1 show ?thesis
      by (cases v) (auto simp: redact_plain list_all_iff)
  qed
qed

lemma sub_secret_Nil [simp]: "sub_secret [] = []"
  by (simp add: sub_secret.simps)

lemma sub_bearer_Nil [simp]: "sub_bearer [] = []"
  by (simp add: sub_bearer.simps)

lemma redact_text_Nil [simp]: "redact_text [] = []"
  by (simp add: redact_text_def)

lemma sub_secret_Cons:
  "sub_secret (c # cs) = (case secret_at (c # cs) of
     Some (k, rest) \<Rightarrow> k @ ''='' @ redacted @ sub_secret rest | None \<Rightarrow> c # sub_secret cs)"
  by (subst sub_secret.simps) simp

lemma sub_bearer_Cons:
  "sub_bearer (c # cs) = (case bearer_at (c # cs) of
     Some rest \<Rightarrow> ''Bearer '' @ redacted @ sub_bearer rest | None \<Rightarrow> c # sub_bearer cs)"
  by (subst sub_bearer.simps) simp

text \<open>A text without a colon, an equals sign or white space holds nothing to redact.\<close>

lemma secret_at_needs_separator:
  assumes "secret_at s = Some p"
  shows "CHR '':'' \<in> set s \<or> CHR ''='' \<in> set s"
proof -
  from assms obtain n c r where "lstrip (drop n s) = c # r" and c: "c = CHR '':'' \<or> c = CHR ''=''"
    by (auto simp: secret_at_def split: option.splits list.splits if_split_asm)
  then have "c \<in> set (lstrip (drop n s))" by simp
  then have "c \<in> set s" unfolding lstrip_def by (meson in_set_dropD set_dropWhileD)
  with c show ?thesis by auto
qed

lemma bearer_at_needs_space: "bearer_at s = Some r \<Longrightarrow> \<exists>c \<in> set s. is_space c"
proof -
  assume "bearer_at s = Some r"
  then have "length (lstrip (drop 6 s)) < length (drop 6 s)"
    by (auto simp: bearer_at_def Let_def split: if_split_asm)
  then have "dropWhile is_space (drop 6 s) \<noteq> drop 6 s" by (auto simp: lstrip_def)
  then have "\<not> (\<forall>c \<in> set (drop 6 s). \<not> is_space c)" by (metis dropWhile_eq_self_iff hd_in_set)
  then show ?thesis by (metis in_set_dropD)
qed

lemma sub_secret_clean: "CHR '':'' \<notin> set s \<Longrightarrow> CHR ''='' \<notin> set s \<Longrightarrow> sub_secret s = s"
  by (induction s) (auto simp: sub_secret_Cons split: option.splits dest!: secret_at_needs_separator)

lemma sub_bearer_clean: "\<forall>c \<in> set s. \<not> is_space c \<Longrightarrow> sub_bearer s = s"
  by (induction s) (auto simp: sub_bearer_Cons split: option.splits dest!: bearer_at_needs_space)

lemma redact_text_clean:
  "list_all (\<lambda>c. \<not> is_space c \<and> c \<noteq> CHR '':'' \<and> c \<noteq> CHR ''='') s \<Longrightarrow> redact_text s = s"
  unfolding redact_text_def by (subst sub_secret_clean) (auto simp: list_all_iff sub_bearer_clean)

section \<open>Properties\<close>

text \<open>
  Redaction leaves no secret behind a telling name: in its result every dictionary entry, at
  any depth, whose key contains one of the secret names holds only the mask.
\<close>
theorem redaction_masks_secrets: "masked (redact_sensitive key value)"
  by (rule redact_masks)

end
