(* ===== verification/Dag.thy ===== *)
theory Dag
  imports PyValue
begin

text \<open>
  The plan graph of \<open>planner/dag.py\<close>: completion criteria, plan nodes, and the graph with its
  edge validation, readiness, depth-first topological order and completion check. The lemmas show
  that the order the code computes is a dependency order of exactly the plan's nodes, and that it
  exists exactly when the dependencies are known and acyclic.
\<close>

section \<open>Completion criteria\<close>

record criterion =
  c_kind :: string
  c_field :: string
  c_expected :: jval
  c_required :: bool

text \<open>The walk along a dotted field; a missing part or a non-dictionary gives \<open>None\<close>.\<close>

fun walk_field :: "string list \<Rightarrow> jval \<Rightarrow> jval" where
  "walk_field [] v = v"
| "walk_field (p # ps) v = (case v of
     JDict d \<Rightarrow> (case map_of d p of None \<Rightarrow> JNull | Some w \<Rightarrow> walk_field ps w)
   | _ \<Rightarrow> JNull)"

definition as_mapping :: "jval \<Rightarrow> jval" where
  "as_mapping values = (if is_dict values then values else JDict [(''value'', values)])"

definition is_blank :: "jval \<Rightarrow> bool" where
  "is_blank v = (v \<in> {JNull, JStr [], JList [], JDict []})"

text \<open>The \<open>at_least\<close> test, in the order of the source's \<open>or\<close> chain.\<close>

definition below_minimum :: "jval \<Rightarrow> jval \<Rightarrow> bool res" where
  "below_minimum actual expected =
     (if \<not> is_number actual then Inr True
      else if \<not> is_number expected then Inr True
      else res_bind (is_finite_num actual) (\<lambda>fa.
        if \<not> fa then Inr True
        else res_bind (is_finite_num expected) (\<lambda>fe.
          if \<not> fe then Inr True else Inr (num_less actual expected))))"

definition criterion_actual :: "criterion \<Rightarrow> jval \<Rightarrow> jval" where
  "criterion_actual c values =
     (if c_field c = [] then as_mapping values
      else walk_field (split_on CHR ''.'' (c_field c)) (as_mapping values))"

definition criterion_check :: "criterion \<Rightarrow> jval \<Rightarrow> (bool \<times> string) res" where
  "criterion_check c values =
     (if \<not> c_required c then Inr (True, [])
      else (let actual = criterion_actual c values in
        if c_kind c = ''equals'' \<and> \<not> py_eq actual (c_expected c) then
          Inr (False, ''completion criterion failed: '' @ c_field c @ '' must equal expected value'')
        else if c_kind c = ''present'' \<and> is_blank actual then
          Inr (False, ''completion criterion failed: '' @ c_field c @ '' is required'')
        else res_bind
          (if c_kind c = ''at_least'' then below_minimum actual (c_expected c) else Inr False)
          (\<lambda>low.
            if low then
              Inr (False, ''completion criterion failed: '' @ c_field c @ '' is below the required minimum'')
            else if c_kind c \<notin> {''equals'', ''present'', ''at_least''} then
              Inr (False, ''unsupported completion criterion: '' @ c_kind c)
            else Inr (True, []))))"

section \<open>Nodes and graphs\<close>

datatype retry_category = Never | TransientRead | ManualReview

fun retry_value :: "retry_category \<Rightarrow> string" where
  "retry_value Never = ''never''"
| "retry_value TransientRead = ''transient_read''"
| "retry_value ManualReview = ''manual_review''"

record plan_node =
  n_id :: string
  n_capability :: string
  n_description :: string
  n_params :: jdict
  n_depends_on :: "string list"
  n_completion :: "criterion list"
  n_retry :: retry_category
  n_max_attempts :: int
  n_idempotency_key :: string
  n_status :: string
  n_result_summary :: string

text \<open>The field constraints of \<open>PlanNode\<close> and \<open>validate_idempotency_key\<close>.\<close>

definition valid_idempotency_key :: "string \<Rightarrow> bool" where
  "valid_idempotency_key value =
     (value = [] \<or>
      (let rest = filter (\<lambda>c. c \<noteq> CHR ''-'' \<and> c \<noteq> CHR ''_'') value
       in rest \<noteq> [] \<and> list_all is_alnum_char rest))"

definition valid_criterion :: "criterion \<Rightarrow> bool" where
  "valid_criterion c = (1 \<le> length (c_kind c) \<and> length (c_kind c) \<le> 64 \<and> length (c_field c) \<le> 128)"

definition validate_plan_node :: "plan_node \<Rightarrow> plan_node res" where
  "validate_plan_node n =
     res_bind (ensure (list_all valid_criterion (n_completion n)) (ValueError ''completion'')) (\<lambda>_.
     res_bind (ensure (1 \<le> n_max_attempts n \<and> n_max_attempts n \<le> 3) (ValueError ''max_attempts'')) (\<lambda>_.
     res_bind (ensure (length (n_idempotency_key n) \<le> 128) (ValueError ''idempotency_key'')) (\<lambda>_.
     res_bind (ensure (valid_idempotency_key (n_idempotency_key n))
                 (ValueError ''idempotency_key must be an identifier'')) (\<lambda>_. Inr n))))"

text \<open>
  The fields whose change requires a fresh approval, as canonical JSON has them (sorted keys).
  \<open>sha\<close> stands for the SHA-256 of that text: it is a parameter, and the code relies only on its
  being a function of it.
\<close>

type_synonym node_material =
  "string \<times> jdict \<times> criterion list \<times> string \<times> string"

definition canon_criterion :: "criterion \<Rightarrow> criterion" where
  "canon_criterion c = c\<lparr>c_expected := canon (c_expected c)\<rparr>"

definition node_material_of :: "plan_node \<Rightarrow> node_material" where
  "node_material_of n =
     (n_capability n, canon_dict (n_params n), map canon_criterion (n_completion n),
      retry_value (n_retry n), n_idempotency_key n)"

definition material_fingerprint :: "(node_material \<Rightarrow> string) \<Rightarrow> plan_node \<Rightarrow> string" where
  "material_fingerprint sha n = sha (node_material_of n)"

record plan_graph =
  g_goal :: string
  g_nodes :: "(string, plan_node) dict"
  g_reasoning :: string

definition add_node :: "plan_node \<Rightarrow> plan_graph \<Rightarrow> plan_graph" where
  "add_node n g = g\<lparr>g_nodes := dict_set (n_id n) n (g_nodes g)\<rparr>"

definition node_at :: "plan_graph \<Rightarrow> string \<Rightarrow> plan_node res" where
  "node_at g k = (case map_of (g_nodes g) k of None \<Rightarrow> Inl (KeyError k) | Some n \<Rightarrow> Inr n)"

text \<open>\<open>mark\<close>: the summary is replaced only by a nonempty one.\<close>

definition mark_node :: "string \<Rightarrow> string \<Rightarrow> plan_node \<Rightarrow> plan_node" where
  "mark_node status summary n =
     n\<lparr>n_status := status,
       n_result_summary := (if summary \<noteq> [] then summary else n_result_summary n)\<rparr>"

definition mark :: "string \<Rightarrow> string \<Rightarrow> string \<Rightarrow> plan_graph \<Rightarrow> plan_graph res" where
  "mark node_id status summary g =
     res_bind (node_at g node_id) (\<lambda>n.
       Inr (g\<lparr>g_nodes := dict_set node_id (mark_node status summary n) (g_nodes g)\<rparr>))"

definition is_complete :: "plan_graph \<Rightarrow> bool" where
  "is_complete g =
     list_all (\<lambda>(k, n). n_status n \<in> {''success'', ''error'', ''skipped'', ''needs_review''}) (g_nodes g)"

text \<open>
  \<open>all(self.nodes[d].status == "success" for d in ...)\<close>: the generator stops at the first
  dependency that is not successful, and an unknown one before that raises \<open>KeyError\<close>.
\<close>

fun deps_success :: "plan_graph \<Rightarrow> string list \<Rightarrow> bool res" where
  "deps_success g [] = Inr True"
| "deps_success g (d # ds) =
     res_bind (node_at g d) (\<lambda>n. if n_status n = ''success'' then deps_success g ds else Inr False)"

fun ready_among :: "plan_graph \<Rightarrow> plan_node list \<Rightarrow> plan_node list res" where
  "ready_among g [] = Inr []"
| "ready_among g (n # ns) =
     res_bind (if n_status n = ''pending'' then deps_success g (n_depends_on n) else Inr False) (\<lambda>ok.
     res_bind (ready_among g ns) (\<lambda>rest. Inr (if ok then n # rest else rest)))"

definition ready_nodes :: "plan_graph \<Rightarrow> plan_node list res" where
  "ready_nodes g = ready_among g (map snd (g_nodes g))"

section \<open>Topological order\<close>

text \<open>
  \<open>visit\<close> keeps a set of nodes on the current path (\<open>temporary\<close>, restored when a visit returns, so
  here an argument), a set of finished nodes (\<open>permanent\<close>) and the order built so far. The path can
  only grow by known nodes, which bounds the recursion.
\<close>

type_synonym visit_state = "string list \<times> plan_node list"

function (sequential) visit :: "plan_graph \<Rightarrow> string list \<Rightarrow> string \<Rightarrow> visit_state \<Rightarrow> visit_state res"
  and visit_all :: "plan_graph \<Rightarrow> string list \<Rightarrow> string list \<Rightarrow> visit_state \<Rightarrow> visit_state res" where
  "visit g temporary node_id (permanent, order) =
     (if node_id \<in> set permanent then Inr (permanent, order)
      else if node_id \<in> set temporary then
        Inl (ValueError (''cycle detected involving node '' @ quoted node_id))
      else (case map_of (g_nodes g) node_id of
          None \<Rightarrow> Inl (KeyError node_id)
        | Some n \<Rightarrow>
            res_bind (visit_all g (node_id # temporary) (n_depends_on n) (permanent, order))
              (\<lambda>(permanent', order'). Inr (node_id # permanent', order' @ [n]))))"
| "visit_all g temporary [] st = Inr st"
| "visit_all g temporary (d # ds) st =
     res_bind (visit g temporary d st) (\<lambda>st'. visit_all g temporary ds st')"
  by pat_completeness auto
termination
proof (relation "measures [
        \<lambda>x. case x of Inl (g, t, _, _) \<Rightarrow> card (fst ` set (g_nodes g) - set t)
                    | Inr (g, t, _, _) \<Rightarrow> card (fst ` set (g_nodes g) - set t),
        \<lambda>x. case x of Inl _ \<Rightarrow> 0 | Inr (_, _, ds, _) \<Rightarrow> Suc (length ds)]", goal_cases)
  case (2 g t k perm order n)
  then have "k \<in> fst ` set (g_nodes g)" by (auto dest!: map_of_SomeD intro: rev_image_eqI)
  with 2 have "fst ` set (g_nodes g) - set (k # t) \<subset> fst ` set (g_nodes g) - set t" by auto
  then have "card (fst ` set (g_nodes g) - set (k # t)) < card (fst ` set (g_nodes g) - set t)"
    by (rule psubset_card_mono [rotated]) simp
  then show ?case by simp
qed auto

definition topological_order :: "plan_graph \<Rightarrow> plan_node list res" where
  "topological_order g =
     res_bind (visit_all g [] (dict_keys (g_nodes g)) ([], [])) (\<lambda>(permanent, order). Inr order)"

fun check_deps :: "plan_graph \<Rightarrow> string \<Rightarrow> string list \<Rightarrow> unit res" where
  "check_deps g node_id [] = Inr ()"
| "check_deps g node_id (d # ds) =
     (if d \<notin> set (dict_keys (g_nodes g))
      then Inl (ValueError (''node '' @ quoted node_id @ '' depends on unknown node '' @ quoted d))
      else check_deps g node_id ds)"

definition validate_edges :: "plan_graph \<Rightarrow> unit res" where
  "validate_edges g =
     res_bind (iter_res (\<lambda>n. check_deps g (n_id n) (n_depends_on n)) (map snd (g_nodes g))) (\<lambda>_.
     res_bind (topological_order g) (\<lambda>_. Inr ()))"

text \<open>\<open>validate_completion\<close> stops at the first criterion that fails.\<close>

fun check_all :: "criterion list \<Rightarrow> jval \<Rightarrow> (bool \<times> string) res" where
  "check_all [] values = Inr (True, [])"
| "check_all (c # cs) values =
     res_bind (criterion_check c values) (\<lambda>(ok, reason).
       if \<not> ok then Inr (False, reason) else check_all cs values)"

definition validate_completion :: "plan_graph \<Rightarrow> string \<Rightarrow> jval \<Rightarrow> (bool \<times> string) res" where
  "validate_completion g node_id result =
     res_bind (node_at g node_id) (\<lambda>n. check_all (n_completion n) (as_mapping result))"


section \<open>What the order is: dependency graphs\<close>

definition node_deps :: "plan_graph \<Rightarrow> string \<Rightarrow> string list" where
  "node_deps g k = (case map_of (g_nodes g) k of None \<Rightarrow> [] | Some n \<Rightarrow> n_depends_on n)"

definition dep_rel :: "plan_graph \<Rightarrow> (string \<times> string) set" where
  "dep_rel g = {(d, k). k \<in> set (dict_keys (g_nodes g)) \<and> d \<in> set (node_deps g k)}"

definition deps_known :: "plan_graph \<Rightarrow> bool" where
  "deps_known g \<longleftrightarrow>
     (\<forall>k \<in> set (dict_keys (g_nodes g)). set (node_deps g k) \<subseteq> set (dict_keys (g_nodes g)))"

definition wf_graph :: "plan_graph \<Rightarrow> bool" where
  "wf_graph g \<longleftrightarrow> wf_dict (g_nodes g) \<and> (\<forall>(k, n) \<in> set (g_nodes g). n_id n = k)"

definition valid_graph :: "plan_graph \<Rightarrow> bool" where
  "valid_graph g \<longleftrightarrow> wf_dict (g_nodes g) \<and> deps_known g \<and> acyclic (dep_rel g)"

text \<open>Finished nodes, newest first: each is a known node whose dependencies finished before it.\<close>

fun topo_rev :: "plan_graph \<Rightarrow> string list \<Rightarrow> bool" where
  "topo_rev g [] = True"
| "topo_rev g (k # ks) =
     (k \<in> set (dict_keys (g_nodes g)) \<and> set (node_deps g k) \<subseteq> set ks \<and> k \<notin> set ks \<and> topo_rev g ks)"

definition node_of :: "plan_graph \<Rightarrow> string \<Rightarrow> plan_node" where
  "node_of g k = the (map_of (g_nodes g) k)"

lemma topo_rev_distinct: "topo_rev g ks \<Longrightarrow> distinct ks"
  by (induction ks) auto

lemma topo_rev_keys: "topo_rev g ks \<Longrightarrow> set ks \<subseteq> set (dict_keys (g_nodes g))"
  by (induction ks) auto

lemma topo_rev_append: "topo_rev g (xs @ ys) \<Longrightarrow> topo_rev g ys"
  by (induction xs) auto

lemma topo_rev_dep:
  assumes "topo_rev g (xs @ k # ys)" and "d \<in> set (node_deps g k)"
  shows "d \<in> set ys"
  using topo_rev_append [OF assms(1)] assms(2) by auto

lemma topo_rev_trancl:
  "(a, b) \<in> (dep_rel g)\<^sup>+ \<Longrightarrow> topo_rev g ks \<Longrightarrow> b \<in> set ks \<Longrightarrow> \<exists>xs ys. ks = xs @ b # ys \<and> a \<in> set ys"
proof (induction arbitrary: ks rule: trancl_induct)
  case (base b)
  then obtain xs ys where "ks = xs @ b # ys" by (auto simp: in_set_conv_decomp)
  with base topo_rev_dep show ?case by (fastforce simp: dep_rel_def)
next
  case (step b c)
  then obtain xs ys where ks: "ks = xs @ c # ys" by (auto simp: in_set_conv_decomp)
  with step have b: "b \<in> set ys" by (auto simp: dep_rel_def intro: topo_rev_dep)
  have "topo_rev g ys" using ks step.prems(1) topo_rev_append [of g "xs @ [c]" ys] by simp
  from step.IH [OF this b] have "a \<in> set ys" by auto
  with ks show ?case by blast
qed

lemma topo_rev_acyclic:
  assumes "topo_rev g ks" and "set ks = set (dict_keys (g_nodes g))"
  shows "acyclic (dep_rel g)"
  unfolding acyclic_def
proof (intro allI notI)
  fix a assume a: "(a, a) \<in> (dep_rel g)\<^sup>+"
  then have "a \<in> set ks" by (cases rule: tranclE) (auto simp: dep_rel_def assms(2))
  from topo_rev_trancl [OF a assms(1) this] topo_rev_distinct [OF assms(1)] show False by auto
qed

lemma node_deps_at: "map_of (g_nodes g) k = Some n \<Longrightarrow> node_deps g k = n_depends_on n"
  by (simp add: node_deps_def)

lemma map_of_key: "map_of d k = Some v \<Longrightarrow> k \<in> set (dict_keys d)"
  by (auto dest!: map_of_SomeD intro: rev_image_eqI)

lemma key_map_of: "k \<in> set (dict_keys d) \<Longrightarrow> \<exists>v. map_of d k = Some v"
  using map_of_eq_None_iff [of d k] by (cases "map_of d k") auto

text \<open>A visit extends the finished nodes by new ones off the path, keeping the order a dependency order.\<close>

lemma visit_extends:
  "visit g t k (perm, order) = Inr (perm', order') \<Longrightarrow> topo_rev g perm \<Longrightarrow>
     \<exists>new. perm' = new @ perm \<and> order' = order @ map (node_of g) (rev new) \<and> topo_rev g perm'
       \<and> set new \<inter> set t = {} \<and> k \<in> set perm'"
  "visit_all g t ds st = Inr (perm', order') \<Longrightarrow> topo_rev g (fst st) \<Longrightarrow>
     \<exists>new. perm' = new @ fst st \<and> order' = snd st @ map (node_of g) (rev new) \<and> topo_rev g perm'
       \<and> set new \<inter> set t = {} \<and> set ds \<subseteq> set perm'"
proof (induction g t k "(perm, order)" and g t ds st arbitrary: perm order perm' order' and perm' order'
       rule: visit_visit_all.induct)
  case (1 g t k perm order)
  show ?case
  proof (cases "k \<in> set perm")
    case True
    with 1 show ?thesis by auto
  next
    case False
    with "1.prems" obtain n p1 o1 where n: "map_of (g_nodes g) k = Some n" "k \<notin> set t"
      and v: "visit_all g (k # t) (n_depends_on n) (perm, order) = Inr (p1, o1)"
      and p: "perm' = k # p1" "order' = o1 @ [n]"
      by (auto simp: res_bind_eq_Inr split: if_splits option.splits)
    from "1.hyps" [OF False n(2,1) v] "1.prems"(2) obtain new where
      new: "p1 = new @ perm" "o1 = order @ map (node_of g) (rev new)" "topo_rev g p1"
        "set new \<inter> set (k # t) = {}" "set (n_depends_on n) \<subseteq> set p1" by auto
    have "topo_rev g (k # p1)"
      using new n False by (auto simp: node_deps_at dest: map_of_key)
    with p new n show ?thesis
      by (intro exI [of _ "k # new"]) (auto simp: node_of_def)
  qed
next
  case (2 g t st)
  then show ?case by (cases st) auto
next
  case (3 g t d ds st)
  obtain pm od where st: "st = (pm, od)" by (cases st)
  with "3.prems" obtain p1 o1 where v: "visit g t d (pm, od) = Inr (p1, o1)"
    and w: "visit_all g t ds (p1, o1) = Inr (perm', order')" by (auto simp: res_bind_eq_Inr)
  from "3.hyps"(1) [OF st v] "3.prems"(2) st obtain n1 where
    n1: "p1 = n1 @ pm" "o1 = od @ map (node_of g) (rev n1)" "topo_rev g p1" "set n1 \<inter> set t = {}" "d \<in> set p1"
    by auto
  from "3.hyps"(2) [of "(p1, o1)"] v w n1(3) st obtain n2 where
    n2: "perm' = n2 @ p1" "order' = o1 @ map (node_of g) (rev n2)" "topo_rev g perm'" "set n2 \<inter> set t = {}"
      "set ds \<subseteq> set perm'" by auto
  with n1 st show ?case by (intro exI [of _ "n2 @ n1"]) auto
qed


text \<open>With known, acyclic dependencies a visit cannot fail: what is on the path depends on the node.\<close>

lemma visit_succeeds:
  "deps_known g \<Longrightarrow> acyclic (dep_rel g) \<Longrightarrow> k \<in> set (dict_keys (g_nodes g)) \<Longrightarrow>
     \<forall>x \<in> set t. (k, x) \<in> (dep_rel g)\<^sup>+ \<Longrightarrow> is_ok (visit g t k st)"
  "deps_known g \<Longrightarrow> acyclic (dep_rel g) \<Longrightarrow> set ds \<subseteq> set (dict_keys (g_nodes g)) \<Longrightarrow>
     \<forall>d \<in> set ds. \<forall>x \<in> set t. (d, x) \<in> (dep_rel g)\<^sup>+ \<Longrightarrow> is_ok (visit_all g t ds st)"
proof (induction g t k st and g t ds st rule: visit_visit_all.induct)
  case (1 g t k perm order)
  show ?case
  proof (cases "k \<in> set perm")
    case False
    from "1.prems" have nt: "k \<notin> set t" by (auto simp: acyclic_def)
    from "1.prems"(3) obtain n where n: "map_of (g_nodes g) k = Some n" using key_map_of by metis
    then have nd: "node_deps g k = n_depends_on n" by (rule node_deps_at)
    have edge: "(d, k) \<in> dep_rel g" if "d \<in> set (n_depends_on n)" for d
      using that "1.prems"(3) nd by (auto simp: dep_rel_def)
    have "is_ok (visit_all g (k # t) (n_depends_on n) (perm, order))"
    proof (rule "1.IH" [OF False nt n "1.prems"(1,2)])
      show "set (n_depends_on n) \<subseteq> set (dict_keys (g_nodes g))"
        using "1.prems"(1,3) unfolding nd [symmetric] deps_known_def by blast
      show "\<forall>d \<in> set (n_depends_on n). \<forall>x \<in> set (k # t). (d, x) \<in> (dep_rel g)\<^sup>+"
        using edge "1.prems"(4) by (auto intro: trancl_into_trancl2)
    qed
    with False nt n show ?thesis by (auto simp: is_ok_iff)
  qed simp
next
  case (2 g t st)
  then show ?case by simp
next
  case (3 g t d ds st)
  have "is_ok (visit g t d st)" using "3.prems" by (intro "3.IH"(1)) auto
  then obtain st' where "visit g t d st = Inr st'" by (auto simp: is_ok_iff)
  moreover from "3.IH"(2) [OF this] "3.prems" have "is_ok (visit_all g t ds st')" by auto
  ultimately show ?case by simp
qed

lemma topological_order_rev:
  assumes "topological_order g = Inr order"
  shows "\<exists>ks. order = map (node_of g) (rev ks) \<and> topo_rev g ks \<and> set ks = set (dict_keys (g_nodes g))"
proof -
  from assms obtain ks where v: "visit_all g [] (dict_keys (g_nodes g)) ([], []) = Inr (ks, order)"
    by (auto simp: topological_order_def res_bind_eq_Inr)
  from visit_extends(2) [OF this] have "topo_rev g ks" "order = map (node_of g) (rev ks)"
    "set (dict_keys (g_nodes g)) \<subseteq> set ks" by auto
  with topo_rev_keys [of g ks] show ?thesis by auto
qed

lemma topological_order_ok_iff: "is_ok (topological_order g) \<longleftrightarrow> deps_known g \<and> acyclic (dep_rel g)"
proof
  assume "is_ok (topological_order g)"
  then obtain order where "topological_order g = Inr order" by (auto simp: is_ok_iff)
  from topological_order_rev [OF this] obtain ks where
    ks: "topo_rev g ks" "set ks = set (dict_keys (g_nodes g))" by blast
  have "deps_known g"
    unfolding deps_known_def
  proof (intro ballI subsetI)
    fix k d assume "k \<in> set (dict_keys (g_nodes g))" and d: "d \<in> set (node_deps g k)"
    with ks(2) have "k \<in> set ks" by blast
    then obtain xs ys where s: "ks = xs @ k # ys" by (meson split_list)
    with topo_rev_dep ks(1) d have "d \<in> set ys" by blast
    with s have "d \<in> set ks" by simp
    with ks(2) show "d \<in> set (dict_keys (g_nodes g))" by simp
  qed
  with topo_rev_acyclic [OF ks] show "deps_known g \<and> acyclic (dep_rel g)" by simp
next
  assume "deps_known g \<and> acyclic (dep_rel g)"
  then have "is_ok (visit_all g [] (dict_keys (g_nodes g)) ([], []))"
    by (intro visit_succeeds(2)) auto
  then show "is_ok (topological_order g)" by (auto simp: topological_order_def is_ok_iff)
qed

lemma check_deps_ok_iff:
  "is_ok (check_deps g k ds) \<longleftrightarrow> set ds \<subseteq> set (dict_keys (g_nodes g))"
  by (induction ds) auto

lemma check_deps_Inr_iff:
  "check_deps g k ds = Inr () \<longleftrightarrow> set ds \<subseteq> set (dict_keys (g_nodes g))"
  by (induction ds) auto

lemma deps_known_nodes:
  assumes "wf_dict (g_nodes g)"
  shows "deps_known g \<longleftrightarrow>
    (\<forall>n \<in> snd ` set (g_nodes g). set (n_depends_on n) \<subseteq> set (dict_keys (g_nodes g)))"
proof -
  have "node_deps g k = n_depends_on n" if "(k, n) \<in> set (g_nodes g)" for k n
    using that assms by (simp add: node_deps_def dict_get_in)
  then show ?thesis unfolding deps_known_def by fastforce
qed

lemma res_unit_ok: "is_ok (r :: 'e + unit) \<longleftrightarrow> r = Inr ()"
  by (cases r) auto

lemma validate_edges_ok_iff:
  assumes "wf_dict (g_nodes g)"
  shows "is_ok (validate_edges g) \<longleftrightarrow> valid_graph g"
proof -
  have "is_ok (validate_edges g) \<longleftrightarrow>
    iter_res (\<lambda>n. check_deps g (n_id n) (n_depends_on n)) (map snd (g_nodes g)) = Inr ()
      \<and> is_ok (topological_order g)"
    by (simp add: validate_edges_def is_ok_iff [of "topological_order g"])
  also have "iter_res (\<lambda>n. check_deps g (n_id n) (n_depends_on n)) (map snd (g_nodes g)) = Inr ()
    \<longleftrightarrow> deps_known g"
    unfolding deps_known_nodes [OF assms] iter_res_ok check_deps_Inr_iff by simp
  finally show ?thesis using assms by (simp add: valid_graph_def topological_order_ok_iff)
qed

section \<open>Readiness and progress\<close>

definition status_of :: "plan_graph \<Rightarrow> string \<Rightarrow> string" where
  "status_of g k = n_status (node_of g k)"

definition deps_done :: "plan_graph \<Rightarrow> string list \<Rightarrow> bool" where
  "deps_done g ds \<longleftrightarrow> (\<forall>d \<in> set ds. status_of g d = ''success'')"

lemma node_at_known: "k \<in> set (dict_keys (g_nodes g)) \<Longrightarrow> node_at g k = Inr (node_of g k)"
  using key_map_of [of k "g_nodes g"] by (auto simp: node_at_def node_of_def)

lemma deps_success_known:
  "set ds \<subseteq> set (dict_keys (g_nodes g)) \<Longrightarrow> deps_success g ds = Inr (deps_done g ds)"
  by (induction ds) (auto simp: node_at_known deps_done_def status_of_def)

lemma ready_among_known:
  "\<forall>n \<in> set ns. set (n_depends_on n) \<subseteq> set (dict_keys (g_nodes g)) \<Longrightarrow>
     ready_among g ns = Inr (filter (\<lambda>n. n_status n = ''pending'' \<and> deps_done g (n_depends_on n)) ns)"
  by (induction ns) (auto simp: deps_success_known)

lemma ready_nodes_known:
  assumes "wf_dict (g_nodes g)" and "deps_known g"
  shows "ready_nodes g =
    Inr (filter (\<lambda>n. n_status n = ''pending'' \<and> deps_done g (n_depends_on n)) (map snd (g_nodes g)))"
  unfolding ready_nodes_def
  using assms deps_known_nodes by (intro ready_among_known) auto

lemma node_of_in: "wf_dict (g_nodes g) \<Longrightarrow> (k, n) \<in> set (g_nodes g) \<Longrightarrow> node_of g k = n"
  by (simp add: node_of_def dict_get_in)

text \<open>A dependency order has a first unfinished node; all it depends on is finished.\<close>

lemma minimal_unfinished:
  assumes "valid_graph g" and "k \<in> set (dict_keys (g_nodes g))" and "P k"
  shows "\<exists>m \<in> set (dict_keys (g_nodes g)). P m \<and> (\<forall>d \<in> set (node_deps g m). \<not> P d)"
proof -
  have "dep_rel g \<subseteq> set (dict_keys (g_nodes g)) \<times> set (dict_keys (g_nodes g))"
    using assms(1) by (auto simp: valid_graph_def dep_rel_def deps_known_def)
  then have "finite (dep_rel g)" by (rule finite_subset) simp
  then have "wf (dep_rel g)" using assms(1) by (auto simp: valid_graph_def intro: finite_acyclic_wf)
  then obtain m where m: "m \<in> {x \<in> set (dict_keys (g_nodes g)). P x}"
    and least: "\<And>y. (y, m) \<in> dep_rel g \<Longrightarrow> y \<notin> {x \<in> set (dict_keys (g_nodes g)). P x}"
    using assms(2,3) wfE_min [of "dep_rel g" k "{x \<in> set (dict_keys (g_nodes g)). P x}"] by blast
  have "\<not> P d" if "d \<in> set (node_deps g m)" for d
  proof -
    from that m have "(d, m) \<in> dep_rel g" by (simp add: dep_rel_def)
    moreover have "d \<in> set (dict_keys (g_nodes g))"
      using assms(1) that m by (auto simp: valid_graph_def deps_known_def)
    ultimately show ?thesis using least by blast
  qed
  with m show ?thesis by auto
qed

lemma ready_exists:
  assumes g: "valid_graph g" and k: "(k, n) \<in> set (g_nodes g)" "n_status n \<noteq> ''success''"
    and only: "\<forall>n \<in> snd ` set (g_nodes g). n_status n \<in> {''pending'', ''success''}"
  shows "\<exists>ns. ready_nodes g = Inr ns \<and> ns \<noteq> []"
proof -
  have wf: "wf_dict (g_nodes g)" "deps_known g" using g by (auto simp: valid_graph_def)
  have kk: "k \<in> set (dict_keys (g_nodes g))" using k(1) by (auto intro: rev_image_eqI)
  have "status_of g k \<noteq> ''success''" using k wf by (simp add: status_of_def node_of_in)
  from minimal_unfinished [where P = "\<lambda>x. status_of g x \<noteq> ''success''", OF g kk this]
  obtain m where m: "m \<in> set (dict_keys (g_nodes g))" "status_of g m \<noteq> ''success''"
    "\<forall>d \<in> set (node_deps g m). status_of g d = ''success''" by auto
  then obtain nm where nm: "map_of (g_nodes g) m = Some nm" using key_map_of by metis
  then have mem: "(m, nm) \<in> set (g_nodes g)" by (rule map_of_SomeD)
  with only m(2) nm have "n_status nm = ''pending''" by (auto simp: status_of_def node_of_def)
  moreover have "deps_done g (n_depends_on nm)" using m(3) nm by (simp add: deps_done_def node_deps_def)
  ultimately show ?thesis
    using mem ready_nodes_known [OF wf] by (force simp: filter_empty_conv)
qed

section \<open>Marking keeps the graph\<close>

lemma mark_Inr:
  "mark k st sm g = Inr g' \<Longrightarrow>
     \<exists>n. map_of (g_nodes g) k = Some n \<and> g' = g\<lparr>g_nodes := dict_set k (mark_node st sm n) (g_nodes g)\<rparr>"
  by (auto simp: mark_def res_bind_eq_Inr node_at_def split: option.splits)

lemma mark_keys: "mark k st sm g = Inr g' \<Longrightarrow> dict_keys (g_nodes g') = dict_keys (g_nodes g)"
  using mark_Inr [of k st sm g g'] by (auto simp: dict_keys_set_known dest: map_of_key)

lemma mark_node_deps: "mark k st sm g = Inr g' \<Longrightarrow> node_deps g' x = node_deps g x"
  using mark_Inr [of k st sm g g'] by (auto simp: node_deps_def mark_node_def)

lemma mark_dep_rel: "mark k st sm g = Inr g' \<Longrightarrow> dep_rel g' = dep_rel g"
  by (simp add: dep_rel_def mark_keys mark_node_deps)

lemma mark_valid: "mark k st sm g = Inr g' \<Longrightarrow> valid_graph g \<Longrightarrow> valid_graph g'"
  using mark_Inr [of k st sm g g']
  by (auto simp: valid_graph_def mark_dep_rel deps_known_def mark_keys mark_node_deps)

lemma mark_status:
  "mark k st sm g = Inr g' \<Longrightarrow> status_of g' x = (if x = k then st else status_of g x)"
  using mark_Inr [of k st sm g g'] by (auto simp: status_of_def node_of_def mark_node_def)

lemma mark_material:
  "mark k st sm g = Inr g' \<Longrightarrow>
     map_option node_material_of (map_of (g_nodes g') x) = map_option node_material_of (map_of (g_nodes g) x)"
  using mark_Inr [of k st sm g g'] by (auto simp: node_material_of_def mark_node_def)

lemma mark_known: "k \<in> set (dict_keys (g_nodes g)) \<Longrightarrow> \<exists>g'. mark k st sm g = Inr g'"
  by (simp add: mark_def node_at_known)

lemmas mark_facts = mark_keys mark_node_deps mark_dep_rel mark_valid mark_status mark_material


section \<open>Properties\<close>

lemma topo_rev_nth:
  assumes "topo_rev g ks" and "i < length ks" and "d \<in> set (node_deps g (rev ks ! i))"
  shows "\<exists>j < i. rev ks ! j = d"
proof -
  let ?k = "rev ks ! i"
  have s: "rev ks = take i (rev ks) @ ?k # drop (Suc i) (rev ks)"
    using assms(2) by (simp add: id_take_nth_drop)
  then have "ks = rev (drop (Suc i) (rev ks)) @ ?k # rev (take i (rev ks))"
    by (metis append.assoc append_Cons append_Nil rev.simps(2) rev_append rev_rev_ident)
  with assms(1,3) have "d \<in> set (rev (take i (rev ks)))" by (metis topo_rev_dep)
  then have "d \<in> set (take i (rev ks))" by simp
  then show ?thesis using assms(2) by (auto simp: in_set_conv_nth)
qed

lemma map_node_of_keys: "wf_dict (g_nodes g) \<Longrightarrow> map (node_of g) (dict_keys (g_nodes g)) = map snd (g_nodes g)"
  by (auto simp: node_of_in)

lemma topological_order_mset:
  assumes "wf_dict (g_nodes g)" and "topological_order g = Inr order"
  shows "mset order = mset (map snd (g_nodes g))"
proof -
  from topological_order_rev [OF assms(2)] obtain ks where
    ks: "order = map (node_of g) (rev ks)" "topo_rev g ks" "set ks = set (dict_keys (g_nodes g))" by blast
  have "mset ks = mset (dict_keys (g_nodes g))"
    using ks(2,3) assms(1) set_eq_iff_mset_eq_distinct topo_rev_distinct unfolding wf_dict_def by blast
  then have "image_mset (node_of g) (mset ks) = image_mset (node_of g) (mset (dict_keys (g_nodes g)))"
    by simp
  then show ?thesis
    unfolding ks(1) map_node_of_keys [OF assms(1), symmetric] by (simp only: mset_map mset_rev)
qed

text \<open>
  The topological order lists every node of the plan exactly once, and each node comes after
  all the nodes it depends on.
\<close>
theorem topological_order_correct:
  assumes "wf_dict (g_nodes g)" and "topological_order g = Inr order"
  shows "mset order = mset (map snd (g_nodes g))
    \<and> (\<forall>i < length order. \<forall>d \<in> set (n_depends_on (order ! i)). \<exists>j < i. order ! j = node_of g d)"
proof -
  from topological_order_rev [OF assms(2)] obtain ks where
    ks: "order = map (node_of g) (rev ks)" "topo_rev g ks" "set ks = set (dict_keys (g_nodes g))" by blast
  note topological_order_mset [OF assms]
  moreover have "\<exists>j < i. order ! j = node_of g d"
    if i: "i < length order" and d: "d \<in> set (n_depends_on (order ! i))" for i d
  proof -
    have il: "i < length ks" using i ks(1) by simp
    have "rev ks ! i \<in> set ks" using il by (metis length_rev nth_mem set_rev)
    then have "rev ks ! i \<in> set (dict_keys (g_nodes g))" using ks(3) by simp
    then obtain n where "map_of (g_nodes g) (rev ks ! i) = Some n" using key_map_of by metis
    then have "n_depends_on (order ! i) = node_deps g (rev ks ! i)"
      using il ks(1) by (simp add: node_of_def node_deps_def)
    with d topo_rev_nth [OF ks(2) il] obtain j where "j < i" "rev ks ! j = d" by auto
    with il ks(1) show ?thesis by (intro exI [of _ j]) simp
  qed
  ultimately show ?thesis by blast
qed

definition sample_node :: "string \<Rightarrow> string list \<Rightarrow> string \<Rightarrow> plan_node" where
  "sample_node k ds st = \<lparr>n_id = k, n_capability = ''workflow_stage'', n_description = k, n_params = [],
     n_depends_on = ds, n_completion = [], n_retry = Never, n_max_attempts = 1,
     n_idempotency_key = [], n_status = st, n_result_summary = []\<rparr>"

definition sample_graph :: plan_graph where
  "sample_graph = \<lparr>g_goal = ''goal'', g_nodes =
     [(''report'', sample_node ''report'' [''scan''] ''pending''), (''scan'', sample_node ''scan'' [] ''success'')],
     g_reasoning = []\<rparr>"

lemma sample_graph_order:
  "topological_order sample_graph =
     Inr [sample_node ''scan'' [] ''success'', sample_node ''report'' [''scan''] ''pending'']"
  by (simp add: topological_order_def sample_graph_def sample_node_def)

lemma sample_graph_wf: "wf_dict (g_nodes sample_graph)"
  by (simp add: wf_dict_def sample_graph_def)

theorem topological_order_correct_witness:
  "mset [sample_node ''scan'' [] ''success'', sample_node ''report'' [''scan''] ''pending''] =
     mset (map snd (g_nodes sample_graph))"
  using topological_order_correct [OF sample_graph_wf sample_graph_order] by blast

text \<open>
  C39: Edge validation accepts a plan exactly when every dependency names a node of the plan and
  the dependency relation has no cycle.
\<close>
theorem validate_edges_iff:
  assumes "wf_dict (g_nodes g)"
  shows "validate_edges g = Inr () \<longleftrightarrow> deps_known g \<and> acyclic (dep_rel g)"
  using validate_edges_ok_iff [OF assms] assms by (simp add: valid_graph_def flip: res_unit_ok)

theorem validate_edges_iff_witness: "deps_known sample_graph \<and> acyclic (dep_rel sample_graph)"
proof -
  have "validate_edges sample_graph = Inr ()"
    by (simp add: validate_edges_def sample_graph_order) (simp add: sample_graph_def sample_node_def)
  then show ?thesis using validate_edges_iff [OF sample_graph_wf] by simp
qed

text \<open>
  A validated plan never deadlocks: while some node is not successful and every node is
  pending or successful, the readiness scan returns without error a nonempty list, of exactly the
  pending nodes all of whose dependencies succeeded.
\<close>
theorem ready_progress:
  assumes "valid_graph g" and "(k, n) \<in> set (g_nodes g)" and "n_status n \<noteq> ''success''"
    and "\<forall>m \<in> snd ` set (g_nodes g). n_status m = ''pending'' \<or> n_status m = ''success''"
  shows "\<exists>ns. ready_nodes g = Inr ns \<and> ns \<noteq> []
    \<and> set ns = {m \<in> snd ` set (g_nodes g). n_status m = ''pending''
                  \<and> (\<forall>d \<in> set (n_depends_on m). status_of g d = ''success'')}"
  using ready_exists [OF assms(1-3)] assms(4) ready_nodes_known [of g] assms(1)
  by (auto simp: valid_graph_def deps_done_def)

lemma sample_graph_valid: "valid_graph sample_graph"
  unfolding validate_edges_ok_iff [OF sample_graph_wf, symmetric]
  by (simp add: validate_edges_def sample_graph_order) (simp add: sample_graph_def sample_node_def)

theorem ready_progress_witness: "\<exists>ns. ready_nodes sample_graph = Inr ns \<and> ns \<noteq> []"
proof -
  have "(''report'', sample_node ''report'' [''scan''] ''pending'') \<in> set (g_nodes sample_graph)"
    "n_status (sample_node ''report'' [''scan''] ''pending'') \<noteq> ''success''"
    "\<forall>m \<in> snd ` set (g_nodes sample_graph). n_status m = ''pending'' \<or> n_status m = ''success''"
    by (simp_all add: sample_graph_def sample_node_def)
  from ready_progress [OF sample_graph_valid this] show ?thesis by blast
qed

text \<open>
  A required criterion passes exactly in the three known kinds: equality in Python's sense, a
  value that is present, or a finite number not below a finite minimum; any other kind fails.
\<close>
theorem criterion_pass_iff:
  assumes "c_required c" and "criterion_check c values = Inr (ok, reason)"
  shows "ok \<longleftrightarrow>
    (let v = criterion_actual c values in
      c_kind c = ''equals'' \<and> py_eq v (c_expected c)
      \<or> c_kind c = ''present'' \<and> \<not> is_blank v
      \<or> c_kind c = ''at_least'' \<and> below_minimum v (c_expected c) = Inr False)"
  using assms
  by (auto simp: criterion_check_def Let_def res_bind_eq_Inr split: if_split_asm)

theorem criterion_pass_iff_witness:
  "criterion_check \<lparr>c_kind = ''at_least'', c_field = ''a.b'', c_expected = JInt 2, c_required = True\<rparr>
     (JDict [(''a'', JDict [(''b'', JInt 1)])]) =
   Inr (False, ''completion criterion failed: a.b is below the required minimum'') \<and>
   below_minimum (JInt 1) (JInt 2) \<noteq> Inr False"
proof -
  let ?c = "\<lparr>c_kind = ''at_least'', c_field = ''a.b'', c_expected = JInt 2, c_required = True\<rparr>"
  let ?v = "JDict [(''a'', JDict [(''b'', JInt 1)])]"
  have e: "criterion_check ?c ?v = Inr (False, ''completion criterion failed: a.b is below the required minimum'')"
    by code_simp
  have a: "criterion_actual ?c ?v = JInt 1" by code_simp
  from criterion_pass_iff [OF _ e] show ?thesis using e by (simp add: a)
qed

end
