(* ===== verification/TaskState.thy ===== *)
theory TaskState
  imports Dag
begin

text \<open>
  The live task state of \<open>schema/task_state.py\<close>: the enumerations, the typed Active records with
  the validators pydantic runs on construction, and the mutation helpers. The type of the
  \<open>environment\<close> dictionary is a type parameter, instantiated by the workflow theories.

  Left out: generated uuids and timestamps, which no modelled operation reads, and the prompt
  rendering. The lemmas give the log invariant (consecutive step numbers, artifacts that refer to
  recorded observations), its preservation, and the growth of \<open>revision\<close>.
\<close>

section \<open>Enumerations\<close>

datatype task_mode = Coding | Security | Hybrid

datatype task_status = Investigating | TaskBlocked | TaskComplete | TaskFailed

datatype active_outcome = Completed | NeedsReplan | OutcomeBlocked | OutcomeFailed

datatype escalation_kind =
    EscPolicy | EscApproval | EscDependency | EscVerification | EscTimeout | EscCancellation
  | EscSafety | EscExecution | EscBudget | EscMaterialChange | EscLegacyUnclassified

text \<open>The \<open>Literal\<close> values of \<open>status\<close> and \<open>error_category\<close>; the empty category is \<open>None\<close>.\<close>

datatype exec_status = ExSuccess | ExDenied | ExBlocked | ExError | ExTimeout | ExCancelled

datatype error_category =
    PolicyDenial | ApprovalRequired | ApprovalRejected | ApprovalInvalid | ApprovalExpired
  | MissingDependency | TimeoutCategory | CancellationCategory | ExecutionFailure
  | TelemetryFailure | UnsupportedAction

section \<open>Active records and their validators\<close>

record escalation =
  esc_kind :: escalation_kind
  esc_request_id :: string

record active_obs =
  ob_request_id :: string
  ob_capability :: string
  ob_provider :: string
  ob_status :: exec_status
  ob_success :: bool
  ob_error :: "error_category option"
  ob_evidence_id :: string
  ob_evidence_hash :: string
  ob_signals :: "(string, string) dict"

definition hex64_or_empty :: "string \<Rightarrow> bool" where
  "hex64_or_empty s = (s = [] \<or> is_hex64 s)"

text \<open>\<open>0|[1-9][0-9]*\<close>, at most 19 digits, at most \<open>2**63 - 1\<close>.\<close>

definition size_text :: "string \<Rightarrow> bool" where
  "size_text v =
     ((v = ''0'' \<or> v \<noteq> [] \<and> list_all is_dec v \<and> hd v \<noteq> CHR ''0'')
      \<and> length v \<le> 19 \<and> read_int v \<le> 2 ^ 63 - 1)"

definition known_signal :: "string \<times> string \<Rightarrow> bool" where
  "known_signal kv = (case kv of (name, value) \<Rightarrow>
     name = ''file_sha256'' \<and> is_hex64 value
     \<or> name = ''file_path_sha256'' \<and> is_hex64 value
     \<or> name = ''file_size_bytes'' \<and> size_text value)"

definition has_evidence :: "active_obs \<Rightarrow> bool" where
  "has_evidence ob = (ob_evidence_id ob \<noteq> [] \<and> ob_evidence_hash ob \<noteq> [])"

definition protected_success :: "active_obs \<Rightarrow> bool" where
  "protected_success ob = (ob_success ob \<and> has_evidence ob)"

definition bounded_text :: "nat \<Rightarrow> nat \<Rightarrow> string \<Rightarrow> bool" where
  "bounded_text lo hi s = (lo \<le> length s \<and> length s \<le> hi)"

definition validate_active_obs :: "active_obs \<Rightarrow> active_obs res" where
  "validate_active_obs ob =
     res_bind (ensure (bounded_text 1 128 (ob_request_id ob) \<and> bounded_text 1 128 (ob_capability ob)
                 \<and> bounded_text 1 128 (ob_provider ob) \<and> bounded_text 0 128 (ob_evidence_id ob)
                 \<and> hex64_or_empty (ob_evidence_hash ob)) (ValueError ''field'')) (\<lambda>_.
     res_bind (ensure ((ob_evidence_id ob \<noteq> []) = (ob_evidence_hash ob \<noteq> []))
                 (ValueError ''active observation evidence id and hash must be paired'')) (\<lambda>_.
     res_bind (ensure (ob_success ob \<longrightarrow> ob_status ob = ExSuccess)
                 (ValueError ''active observation success requires execution success'')) (\<lambda>_.
     res_bind (ensure (list_all known_signal (ob_signals ob))
                 (ValueError ''active observation signals must be known file metadata'')) (\<lambda>_. Inr ob))))"

record active_result =
  ar_session_id :: string
  ar_node_id :: string
  ar_workflow_fp :: string
  ar_node_fp :: string
  ar_outcome :: active_outcome
  ar_gate_passed :: bool
  ar_attempts :: int
  ar_observations :: "active_obs list"
  ar_failed_criteria :: "string list"
  ar_escalation :: "escalation option"

definition validate_active_result :: "active_result \<Rightarrow> active_result res" where
  "validate_active_result r =
     res_bind (ensure (ar_session_id r \<noteq> [] \<and> ar_node_id r \<noteq> [] \<and> is_hex64 (ar_workflow_fp r)
                 \<and> is_hex64 (ar_node_fp r) \<and> 0 \<le> ar_attempts r \<and> ar_attempts r \<le> 32
                 \<and> length (ar_observations r) \<le> 32) (ValueError ''field'')) (\<lambda>_.
     res_bind (ensure (\<not> (ar_outcome r = Completed
                  \<and> (\<not> ar_gate_passed r \<or> \<not> list_ex protected_success (ar_observations r)
                     \<or> ar_failed_criteria r \<noteq> [] \<or> ar_escalation r \<noteq> None)))
                 (ValueError ''active completion requires a successful gated protected observation'')) (\<lambda>_.
     res_bind (ensure (\<not> (ar_outcome r \<noteq> Completed \<and> ar_escalation r = None))
                 (ValueError ''incomplete active result requires typed escalation'')) (\<lambda>_.
     res_bind (ensure (case ar_escalation r of
                    None \<Rightarrow> True
                  | Some e \<Rightarrow> esc_request_id e = []
                      \<or> list_ex (\<lambda>ob. ob_request_id ob = esc_request_id e) (ar_observations r))
                 (ValueError ''active escalation must refer to an observed request'')) (\<lambda>_.
     res_bind (ensure (int (length (filter (\<lambda>ob. ob_status ob \<noteq> ExBlocked) (ar_observations r)))
                  \<le> ar_attempts r)
                 (ValueError ''active attempts cannot be below observed executions'')) (\<lambda>_. Inr r)))))"

lemma validate_active_obs_Inr: "validate_active_obs ob = Inr ob' \<Longrightarrow> ob' = ob"
  by (auto simp: validate_active_obs_def res_bind_eq_Inr)

lemma validate_active_result_Inr: "validate_active_result r = Inr r' \<Longrightarrow> r' = r"
  by (auto simp: validate_active_result_def res_bind_eq_Inr)

lemma validated_completion:
  "validate_active_result r = Inr r' \<Longrightarrow> ar_outcome r = Completed \<Longrightarrow>
     ar_gate_passed r \<and> list_ex protected_success (ar_observations r)
       \<and> ar_failed_criteria r = [] \<and> ar_escalation r = None"
  by (auto simp: validate_active_result_def res_bind_eq_Inr)

lemma validated_incomplete:
  "validate_active_result r = Inr r' \<Longrightarrow> ar_outcome r \<noteq> Completed \<Longrightarrow> ar_escalation r \<noteq> None"
  by (auto simp: validate_active_result_def res_bind_eq_Inr)

section \<open>The task state\<close>

record hypothesis =
  hy_statement :: string
  hy_status :: string
  hy_confidence :: rat

record action_record =
  ac_step :: nat
  ac_tool :: string
  ac_params :: jdict
  ac_thought :: string

record observation =
  os_step :: nat
  os_tool :: string
  os_success :: bool
  os_summary :: string
  os_data :: jdict
  os_evidence_ref :: string
  os_evidence_hash :: string

record artifact =
  at_source :: string
  at_action :: string
  at_related_step :: nat
  at_summary :: string
  at_evidence_id :: string
  at_evidence_hash :: string
  at_confidence :: string

record finding =
  fi_title :: string
  fi_detail :: string
  fi_severity :: string
  fi_confidence :: string
  fi_evidence_ref :: string
  fi_related_action :: string

record scope_view =
  sv_read_roots :: "string list"
  sv_write_roots :: "string list"
  sv_targets :: "string list"
  sv_allow_destructive :: bool

record 'env task_state =
  ts_session_id :: string
  ts_revision :: nat
  ts_objective :: string
  ts_mode :: task_mode
  ts_scope :: scope_view
  ts_constraints :: "string list"
  ts_env :: 'env
  ts_hypotheses :: "hypothesis list"
  ts_plan :: plan_graph
  ts_actions :: "action_record list"
  ts_observations :: "observation list"
  ts_findings :: "finding list"
  ts_artifacts :: "artifact list"
  ts_active_nodes :: "(string, active_result) dict"
  ts_questions :: "string list"
  ts_completion :: "criterion list"
  ts_status :: task_status

text \<open>
  The dictionary that \<open>record_observation\<close> reads, with its defaults applied: \<open>bool(success)\<close>,
  \<open>str(summary)\<close>, \<open>data or {}\<close>, and the id and digest of \<open>evidence or {}\<close> (empty when absent).
\<close>

record obs_input =
  oi_success :: bool
  oi_summary :: string
  oi_data :: jdict
  oi_evidence_id :: string
  oi_evidence_sha :: string

subsection \<open>Mutation\<close>

definition touch :: "'env task_state \<Rightarrow> 'env task_state" where
  "touch s = s\<lparr>ts_revision := Suc (ts_revision s)\<rparr>"

definition record_action :: "string \<Rightarrow> jdict \<Rightarrow> string \<Rightarrow> 'env task_state \<Rightarrow> 'env task_state" where
  "record_action tool params thought s = touch
     (s\<lparr>ts_actions := ts_actions s
         @ [\<lparr>ac_step = length (ts_actions s) + 1, ac_tool = tool, ac_params = params, ac_thought = thought\<rparr>]\<rparr>)"

definition add_artifact :: "artifact \<Rightarrow> 'env task_state \<Rightarrow> 'env task_state" where
  "add_artifact a s = touch (s\<lparr>ts_artifacts := ts_artifacts s @ [a]\<rparr>)"

definition record_observation :: "string \<Rightarrow> obs_input \<Rightarrow> 'env task_state \<Rightarrow> 'env task_state" where
  "record_observation tool oi s =
     (let ob = \<lparr>os_step = length (ts_observations s) + 1, os_tool = tool, os_success = oi_success oi,
                os_summary = take 400 (oi_summary oi), os_data = oi_data oi,
                os_evidence_ref = oi_evidence_id oi, os_evidence_hash = oi_evidence_sha oi\<rparr>;
          s1 = s\<lparr>ts_observations := ts_observations s @ [ob]\<rparr>;
          s2 = (if os_evidence_ref ob \<noteq> [] then
                  add_artifact \<lparr>at_source = tool, at_action = tool, at_related_step = os_step ob,
                    at_summary = os_summary ob, at_evidence_id = os_evidence_ref ob,
                    at_evidence_hash = os_evidence_hash ob, at_confidence = ''medium''\<rparr> s1
                else s1)
      in touch s2)"

definition add_hypothesis :: "string \<Rightarrow> rat \<Rightarrow> 'env task_state \<Rightarrow> 'env task_state res" where
  "add_hypothesis statement confidence s =
     res_bind (ensure (0 \<le> confidence \<and> confidence \<le> 1) (ValueError ''confidence'')) (\<lambda>_.
       Inr (touch (s\<lparr>ts_hypotheses := ts_hypotheses s
         @ [\<lparr>hy_statement = statement, hy_status = ''open'', hy_confidence = confidence\<rparr>]\<rparr>)))"

definition add_finding :: "finding \<Rightarrow> 'env task_state \<Rightarrow> 'env task_state" where
  "add_finding f s = touch (s\<lparr>ts_findings := ts_findings s @ [f]\<rparr>)"

definition add_question :: "string \<Rightarrow> 'env task_state \<Rightarrow> 'env task_state" where
  "add_question q s =
     (if q \<noteq> [] \<and> q \<notin> set (ts_questions s)
      then touch (s\<lparr>ts_questions := ts_questions s @ [q]\<rparr>) else s)"

definition resolve_question :: "string \<Rightarrow> 'env task_state \<Rightarrow> 'env task_state" where
  "resolve_question q s =
     (if q \<in> set (ts_questions s)
      then touch (s\<lparr>ts_questions := remove1 q (ts_questions s)\<rparr>) else s)"

definition mark_task :: "task_status \<Rightarrow> 'env task_state \<Rightarrow> 'env task_state" where
  "mark_task st s = touch (s\<lparr>ts_status := st\<rparr>)"

subsection \<open>Completion\<close>

fun completion_failures :: "criterion list \<Rightarrow> jval \<Rightarrow> string list res" where
  "completion_failures [] values = Inr []"
| "completion_failures (c # cs) values =
     res_bind (criterion_check c values) (\<lambda>(ok, reason).
     res_bind (completion_failures cs values) (\<lambda>rest. Inr (if ok then rest else reason # rest)))"

definition evaluate_completion :: "'env task_state \<Rightarrow> jval \<Rightarrow> (bool \<times> string list) res" where
  "evaluate_completion s values =
     (if ts_completion s = [] then Inr (False, [''no completion conditions declared''])
      else res_bind (completion_failures (ts_completion s) values) (\<lambda>failures. Inr (failures = [], failures)))"

section \<open>The log invariant\<close>

definition log_inv :: "'env task_state \<Rightarrow> bool" where
  "log_inv s \<longleftrightarrow>
     map ac_step (ts_actions s) = [1 ..< Suc (length (ts_actions s))]
     \<and> map os_step (ts_observations s) = [1 ..< Suc (length (ts_observations s))]
     \<and> list_all (\<lambda>a. at_related_step a \<le> length (ts_observations s)) (ts_artifacts s)
     \<and> distinct (ts_questions s) \<and> [] \<notin> set (ts_questions s)
     \<and> list_all (\<lambda>ob. length (os_summary ob) \<le> 400) (ts_observations s)"

lemma touch_simps [simp]:
  "ts_revision (touch s) = Suc (ts_revision s)" "ts_session_id (touch s) = ts_session_id s"
  "ts_objective (touch s) = ts_objective s" "ts_mode (touch s) = ts_mode s"
  "ts_scope (touch s) = ts_scope s" "ts_constraints (touch s) = ts_constraints s"
  "ts_env (touch s) = ts_env s" "ts_hypotheses (touch s) = ts_hypotheses s"
  "ts_plan (touch s) = ts_plan s" "ts_actions (touch s) = ts_actions s"
  "ts_observations (touch s) = ts_observations s" "ts_findings (touch s) = ts_findings s"
  "ts_artifacts (touch s) = ts_artifacts s" "ts_active_nodes (touch s) = ts_active_nodes s"
  "ts_questions (touch s) = ts_questions s" "ts_completion (touch s) = ts_completion s"
  "ts_status (touch s) = ts_status s"
  by (simp_all add: touch_def)

lemmas mutation_defs =
  record_action_def record_observation_def add_artifact_def add_finding_def add_question_def
  resolve_question_def mark_task_def Let_def

lemma log_inv_touch [simp]: "log_inv (touch s) = log_inv s"
  by (simp add: log_inv_def)

lemma log_inv_record_action: "log_inv s \<Longrightarrow> log_inv (record_action tool params thought s)"
  by (simp add: log_inv_def record_action_def)

lemma log_inv_add_artifact:
  "log_inv s \<Longrightarrow> at_related_step a \<le> length (ts_observations s) \<Longrightarrow> log_inv (add_artifact a s)"
  by (simp add: log_inv_def add_artifact_def)

lemma log_inv_record_observation: "log_inv s \<Longrightarrow> log_inv (record_observation tool oi s)"
  by (auto simp: log_inv_def record_observation_def add_artifact_def Let_def list_all_iff)

lemma log_inv_add_question: "log_inv s \<Longrightarrow> log_inv (add_question q s)"
  by (auto simp: log_inv_def add_question_def)

lemma log_inv_resolve_question: "log_inv s \<Longrightarrow> log_inv (resolve_question q s)"
  by (auto simp: log_inv_def resolve_question_def dest: notin_set_remove1)

lemma log_inv_mark_task: "log_inv s \<Longrightarrow> log_inv (mark_task st s)"
  by (simp add: log_inv_def mark_task_def)

lemma log_inv_add_finding: "log_inv s \<Longrightarrow> log_inv (add_finding f s)"
  by (simp add: log_inv_def add_finding_def)

lemmas log_inv_intros =
  log_inv_record_action log_inv_add_artifact log_inv_record_observation log_inv_add_question
  log_inv_resolve_question log_inv_mark_task log_inv_add_finding

lemma record_observation_frame [simp]:
  "ts_session_id (record_observation t oi s) = ts_session_id s"
  "ts_plan (record_observation t oi s) = ts_plan s" "ts_env (record_observation t oi s) = ts_env s"
  "ts_status (record_observation t oi s) = ts_status s" "ts_scope (record_observation t oi s) = ts_scope s"
  "ts_active_nodes (record_observation t oi s) = ts_active_nodes s"
  "ts_objective (record_observation t oi s) = ts_objective s" "ts_mode (record_observation t oi s) = ts_mode s"
  "ts_constraints (record_observation t oi s) = ts_constraints s"
  "ts_completion (record_observation t oi s) = ts_completion s"
  "ts_questions (record_observation t oi s) = ts_questions s"
  "ts_hypotheses (record_observation t oi s) = ts_hypotheses s"
  "ts_findings (record_observation t oi s) = ts_findings s"
  "ts_actions (record_observation t oi s) = ts_actions s"
  by (simp_all add: record_observation_def add_artifact_def Let_def)

lemma record_action_frame [simp]:
  "ts_session_id (record_action t p h s) = ts_session_id s"
  "ts_plan (record_action t p h s) = ts_plan s" "ts_env (record_action t p h s) = ts_env s"
  "ts_status (record_action t p h s) = ts_status s" "ts_scope (record_action t p h s) = ts_scope s"
  "ts_active_nodes (record_action t p h s) = ts_active_nodes s"
  "ts_objective (record_action t p h s) = ts_objective s" "ts_mode (record_action t p h s) = ts_mode s"
  "ts_constraints (record_action t p h s) = ts_constraints s"
  "ts_completion (record_action t p h s) = ts_completion s"
  "ts_questions (record_action t p h s) = ts_questions s"
  "ts_observations (record_action t p h s) = ts_observations s"
  "ts_artifacts (record_action t p h s) = ts_artifacts s"
  by (simp_all add: record_action_def)

lemma add_artifact_frame [simp]:
  "ts_session_id (add_artifact a s) = ts_session_id s"
  "ts_plan (add_artifact a s) = ts_plan s" "ts_env (add_artifact a s) = ts_env s"
  "ts_status (add_artifact a s) = ts_status s" "ts_scope (add_artifact a s) = ts_scope s"
  "ts_active_nodes (add_artifact a s) = ts_active_nodes s"
  "ts_objective (add_artifact a s) = ts_objective s" "ts_mode (add_artifact a s) = ts_mode s"
  "ts_constraints (add_artifact a s) = ts_constraints s" "ts_completion (add_artifact a s) = ts_completion s"
  "ts_questions (add_artifact a s) = ts_questions s" "ts_observations (add_artifact a s) = ts_observations s"
  by (simp_all add: add_artifact_def)

lemma mark_task_frame [simp]:
  "ts_session_id (mark_task st s) = ts_session_id s" "ts_status (mark_task st s) = st"
  "ts_plan (mark_task st s) = ts_plan s" "ts_env (mark_task st s) = ts_env s"
  "ts_scope (mark_task st s) = ts_scope s" "ts_active_nodes (mark_task st s) = ts_active_nodes s"
  "ts_objective (mark_task st s) = ts_objective s" "ts_mode (mark_task st s) = ts_mode s"
  "ts_constraints (mark_task st s) = ts_constraints s" "ts_completion (mark_task st s) = ts_completion s"
  "ts_questions (mark_task st s) = ts_questions s" "ts_observations (mark_task st s) = ts_observations s"
  by (simp_all add: mark_task_def)

lemma revision_record_observation: "ts_revision s < ts_revision (record_observation t oi s)"
  by (simp add: record_observation_def add_artifact_def Let_def)

lemma revision_record_action: "ts_revision s < ts_revision (record_action t p h s)"
  by (simp add: record_action_def)

section \<open>Properties\<close>

text \<open>The operations on a task state, and the states reachable by them from a given one.\<close>

inductive task_step :: "'env task_state \<Rightarrow> 'env task_state \<Rightarrow> bool" where
  action: "task_step s (record_action tool params thought s)"
| observation: "task_step s (record_observation tool oi s)"
| hypothesis: "add_hypothesis st conf s = Inr s' \<Longrightarrow> task_step s s'"
| finding: "task_step s (add_finding f s)"
| question: "task_step s (add_question q s)"
| resolved: "task_step s (resolve_question q s)"
| marked: "task_step s (mark_task st s)"

lemma add_hypothesis_Inr:
  "add_hypothesis st conf s = Inr s' \<Longrightarrow> \<exists>h. s' = touch (s\<lparr>ts_hypotheses := ts_hypotheses s @ [h]\<rparr>)"
  by (auto simp: add_hypothesis_def res_bind_eq_Inr)

lemma add_hypothesis_log: "add_hypothesis st conf s = Inr s' \<Longrightarrow> log_inv s' = log_inv s"
  using add_hypothesis_Inr [of st conf s s'] by (auto simp: log_inv_def)

lemma task_step_log: "task_step s s' \<Longrightarrow> log_inv s \<Longrightarrow> log_inv s'"
  by (induction rule: task_step.induct) (auto intro: log_inv_intros simp: add_hypothesis_log)

definition extends_log :: "'env task_state \<Rightarrow> 'env task_state \<Rightarrow> bool" where
  "extends_log s s' \<longleftrightarrow>
     (\<exists>xs ys zs. ts_actions s' = ts_actions s @ xs \<and> ts_observations s' = ts_observations s @ ys
        \<and> ts_artifacts s' = ts_artifacts s @ zs)
     \<and> ts_revision s \<le> ts_revision s'
     \<and> (ts_revision s' = ts_revision s \<longrightarrow> s' = s)"

lemma task_step_extends: "task_step s s' \<Longrightarrow> extends_log s s'"
  by (induction rule: task_step.induct)
     (auto simp: extends_log_def mutation_defs dest!: add_hypothesis_Inr)

lemma extends_log_trans: "extends_log a b \<Longrightarrow> extends_log b c \<Longrightarrow> extends_log a c"
  unfolding extends_log_def by fastforce

text \<open>
  Any sequence of task-state operations keeps the log well formed (action and observation
  steps numbered consecutively from 1, every artifact tied to a recorded observation, no empty or
  duplicate question), only appends to it, and changes the state only with a larger revision.
\<close>
theorem task_log_invariant:
  assumes "task_step\<^sup>*\<^sup>* s s'" and "log_inv s"
  shows "log_inv s' \<and> extends_log s s'"
  using assms
  by (induction rule: rtranclp_induct)
     (auto intro: task_step_log extends_log_trans dest: task_step_extends simp: extends_log_def [of s s])

definition sample_state :: "unit task_state" where
  "sample_state = \<lparr>ts_session_id = ''s1'', ts_revision = 0, ts_objective = ''goal'', ts_mode = Coding,
     ts_scope = \<lparr>sv_read_roots = [], sv_write_roots = [], sv_targets = [], sv_allow_destructive = False\<rparr>,
     ts_constraints = [], ts_env = (), ts_hypotheses = [], ts_plan = sample_graph, ts_actions = [],
     ts_observations = [], ts_findings = [], ts_artifacts = [], ts_active_nodes = [], ts_questions = [],
     ts_completion = [], ts_status = Investigating\<rparr>"

theorem task_log_invariant_witness:
  "log_inv (record_action ''read'' [] [] sample_state)"
proof -
  have inv: "log_inv sample_state" by (simp add: log_inv_def sample_state_def)
  have steps: "task_step\<^sup>*\<^sup>* sample_state (record_action ''read'' [] [] sample_state)"
    by (rule r_into_rtranclp) (rule task_step.action)
  from task_log_invariant [OF steps inv] show ?thesis by (rule conjunct1)
qed

text \<open>
  A validated Active result that claims completion passed its gate, has a successful
  observation with a protected evidence reference, and carries neither a failed criterion nor an
  escalation; one that does not claim completion carries a typed escalation, and the request an
  escalation names was observed.
\<close>
theorem active_result_completion:
  assumes "validate_active_result r = Inr r'"
  shows "r' = r
    \<and> (if ar_outcome r = Completed
       then ar_gate_passed r \<and> (\<exists>ob \<in> set (ar_observations r). protected_success ob)
         \<and> ar_failed_criteria r = [] \<and> ar_escalation r = None
       else \<exists>e. ar_escalation r = Some e \<and>
         (esc_request_id e = [] \<or> (\<exists>ob \<in> set (ar_observations r). ob_request_id ob = esc_request_id e)))"
  using assms
  by (auto simp: validate_active_result_def res_bind_eq_Inr list_ex_iff split: option.splits)

definition sample_hash :: string where
  "sample_hash = replicate 64 CHR ''a''"

definition sample_obs :: active_obs where
  "sample_obs = \<lparr>ob_request_id = ''r1'', ob_capability = ''file_read'', ob_provider = ''files'',
     ob_status = ExSuccess, ob_success = True, ob_error = None, ob_evidence_id = ''E1'',
     ob_evidence_hash = sample_hash, ob_signals = []\<rparr>"

definition sample_active :: active_result where
  "sample_active = \<lparr>ar_session_id = ''s1'', ar_node_id = ''scan'', ar_workflow_fp = sample_hash,
     ar_node_fp = sample_hash, ar_outcome = Completed, ar_gate_passed = True, ar_attempts = 1,
     ar_observations = [sample_obs], ar_failed_criteria = [], ar_escalation = None\<rparr>"

lemma is_hex64_sample [simp]: "is_hex64 sample_hash"
  by code_simp

lemma sample_active_valid: "validate_active_result sample_active = Inr sample_active"
  by (simp add: validate_active_result_def sample_active_def sample_obs_def protected_success_def
      has_evidence_def sample_hash_def [symmetric]) (simp add: sample_hash_def)

theorem active_result_completion_witness: "\<exists>ob \<in> set (ar_observations sample_active). protected_success ob"
  using active_result_completion [OF sample_active_valid] by (simp add: sample_active_def)

lemma completion_failures_Inr:
  "completion_failures cs v = Inr fs \<Longrightarrow>
     fs = [] \<longleftrightarrow> (\<forall>c \<in> set cs. \<exists>reason. criterion_check c v = Inr (True, reason))"
proof (induction cs arbitrary: fs)
  case (Cons c cs)
  then obtain ok reason rest where c: "criterion_check c v = Inr (ok, reason)"
    "completion_failures cs v = Inr rest" "fs = (if ok then rest else reason # rest)"
    by (auto simp: res_bind_eq_Inr)
  with Cons.IH [OF c(2)] show ?case by auto
qed simp

text \<open>
  A task with declared completion conditions is judged complete exactly when every condition
  passes; a task without conditions is never judged complete.
\<close>
theorem completion_evaluated:
  assumes "evaluate_completion s values = Inr (ok, failures)"
  shows "ok \<longleftrightarrow> ts_completion s \<noteq> []
    \<and> (\<forall>c \<in> set (ts_completion s). \<exists>reason. criterion_check c values = Inr (True, reason))"
  using assms completion_failures_Inr [of "ts_completion s" "values"]
  by (auto simp: evaluate_completion_def res_bind_eq_Inr split: if_split_asm)

theorem completion_evaluated_witness:
  "evaluate_completion sample_state JNull = Inr (False, [''no completion conditions declared''])
     \<and> ts_completion sample_state = []"
proof -
  have e: "evaluate_completion sample_state JNull = Inr (False, [''no completion conditions declared''])"
    by (simp add: evaluate_completion_def sample_state_def)
  from completion_evaluated [OF e] have "ts_completion sample_state = [] \<or> \<not> (\<forall>c \<in> set (ts_completion sample_state).
      \<exists>reason. criterion_check c JNull = Inr (True, reason))" by simp
  with e show ?thesis by (simp add: sample_state_def)
qed

end
