(* ===== verification/Risk.thy ===== *)
theory Risk
  imports Prelude
begin

text \<open>
  Risk levels (\<open>RiskLevel\<close> of \<open>skills/base.py\<close>) with the order READ < WRITE < DESTRUCTIVE that
  \<open>agents/descriptor.py\<close> gives them, as an instance of the library's linear orders; and agent
  descriptors with least-privilege delegation. The lemmas show that a delegated descriptor never
  exceeds its parent, that this composes along chains, and that chains are finite.
\<close>

section \<open>Risk levels\<close>

datatype risk_level = Read | Write | Destructive

fun risk_value :: "risk_level \<Rightarrow> string" where
  "risk_value Read = ''READ''"
| "risk_value Write = ''WRITE''"
| "risk_value Destructive = ''DESTRUCTIVE''"

fun risk_order :: "risk_level \<Rightarrow> nat" where
  "risk_order Read = 0"
| "risk_order Write = 1"
| "risk_order Destructive = 2"

lemma risk_order_inj: "risk_order a = risk_order b \<Longrightarrow> a = b"
  by (cases a; cases b) auto

instantiation risk_level :: linorder
begin

definition less_eq_risk_level :: "risk_level \<Rightarrow> risk_level \<Rightarrow> bool" where
  "less_eq_risk_level a b = (risk_order a \<le> risk_order b)"

definition less_risk_level :: "risk_level \<Rightarrow> risk_level \<Rightarrow> bool" where
  "less_risk_level a b = (risk_order a < risk_order b)"

instance
  by intro_classes (auto simp: less_eq_risk_level_def less_risk_level_def dest: risk_order_inj)

end

definition risk_at_most :: "risk_level \<Rightarrow> risk_level \<Rightarrow> bool" where
  "risk_at_most candidate limit = (risk_order candidate \<le> risk_order limit)"

text \<open>\<open>max(risks, key=...)\<close> returns the first of the greatest, READ for an empty list.\<close>

fun max_risk :: "risk_level list \<Rightarrow> risk_level" where
  "max_risk [] = Read"
| "max_risk (r # rs) = foldl (\<lambda>best x. if risk_order best < risk_order x then x else best) r rs"

lemma risk_at_most_le [simp]: "risk_at_most a b \<longleftrightarrow> a \<le> b"
  by (simp add: risk_at_most_def less_eq_risk_level_def)

lemma foldl_max_risk: "foldl (\<lambda>best x. if risk_order best < risk_order x then x else best) r rs = fold max rs r"
  by (induction rs arbitrary: r) (auto simp: max_def less_eq_risk_level_def not_le)

lemma max_risk_ge: "r \<in> set rs \<Longrightarrow> r \<le> max_risk rs"
proof (cases rs)
  case (Cons a as)
  assume "r \<in> set rs"
  moreover have "fold max as a = Max (set (a # as))" by (rule Max.set_eq_fold [symmetric])
  ultimately show ?thesis using Cons by (simp only: max_risk.simps foldl_max_risk) simp
qed simp

section \<open>Agent descriptors\<close>

record permissions =
  pm_maximum_risk :: risk_level
  pm_network :: string

record memory_scopes =
  ms_read :: "string list"
  ms_write :: "string list"

record model_requirements =
  mq_capabilities :: "string list"
  mq_max_classification :: string
  mq_pinned_model :: string

record agent_limits =
  li_timeout :: int
  li_retries :: int
  li_token_budget :: int
  li_depth :: int

record descriptor =
  de_id :: string
  de_version :: int
  de_purpose :: string
  de_capabilities :: "string list"
  de_permissions :: permissions
  de_allow :: "string list"
  de_memory :: memory_scopes
  de_models :: model_requirements
  de_limits :: agent_limits

text \<open>Construction: the field bounds, the default of \<open>allow_capabilities\<close>, and the envelope check.\<close>

definition validate_limits :: "agent_limits \<Rightarrow> unit res" where
  "validate_limits l =
     ensure (1 \<le> li_timeout l \<and> li_timeout l \<le> 86400 \<and> 0 \<le> li_retries l \<and> li_retries l \<le> 5
       \<and> 0 \<le> li_token_budget l \<and> 0 \<le> li_depth l \<and> li_depth l \<le> 4) (ValueError ''limits'')"

definition validate_descriptor :: "descriptor \<Rightarrow> descriptor res" where
  "validate_descriptor d =
     res_bind (ensure (1 \<le> length (de_id d) \<and> length (de_id d) \<le> 64 \<and> 1 \<le> de_version d)
                 (ValueError ''field'')) (\<lambda>_.
     res_bind (validate_limits (de_limits d)) (\<lambda>_.
       let allow = (if de_allow d = [] then de_capabilities d else de_allow d) in
       if set (de_capabilities d) \<subseteq> set allow then Inr (d\<lparr>de_allow := allow\<rparr>)
       else Inl (ValueError ''capabilities not permitted by allow_capabilities'')))"

definition permits :: "descriptor \<Rightarrow> string \<Rightarrow> bool" where
  "permits d capability = (capability \<in> set (de_allow d))"

text \<open>\<open>list(dict.fromkeys(xs))\<close>: the first occurrences, in order.\<close>

fun from_keys :: "'a list \<Rightarrow> 'a list" where
  "from_keys [] = []"
| "from_keys (x # xs) = x # filter (\<lambda>y. y \<noteq> x) (from_keys xs)"

definition delegate ::
  "descriptor \<Rightarrow> string \<Rightarrow> string list \<Rightarrow> risk_level option \<Rightarrow> int option
     \<Rightarrow> string list option \<Rightarrow> string list option \<Rightarrow> descriptor res" where
  "delegate d child_id capabilities maximum_risk token_budget memory_read memory_write =
     (if li_depth (de_limits d) \<le> 0 then Inl (ValueError ''this descriptor may not delegate further'')
      else
       let requested = from_keys capabilities;
           child_risk = (case maximum_risk of None \<Rightarrow> pm_maximum_risk (de_permissions d) | Some r \<Rightarrow> r);
           child_budget = (case token_budget of None \<Rightarrow> li_token_budget (de_limits d) | Some b \<Rightarrow> b);
           rd = (case memory_read of None \<Rightarrow> ms_read (de_memory d) | Some x \<Rightarrow> x);
           wr = (case memory_write of None \<Rightarrow> ms_write (de_memory d) | Some x \<Rightarrow> x) in
       if \<not> set requested \<subseteq> set (de_allow d) then Inl (ValueError ''delegation cannot add capabilities'')
       else if \<not> risk_at_most child_risk (pm_maximum_risk (de_permissions d)) then
         Inl (ValueError ''delegation cannot raise maximum risk'')
       else if li_token_budget (de_limits d) < child_budget then
         Inl (ValueError ''delegation cannot raise the token budget'')
       else if \<not> set rd \<subseteq> set (ms_read (de_memory d)) then
         Inl (ValueError ''delegation cannot add memory read scopes'')
       else if \<not> set wr \<subseteq> set (ms_write (de_memory d)) then
         Inl (ValueError ''delegation cannot add memory write scopes'')
       else validate_descriptor
         \<lparr>de_id = child_id, de_version = de_version d, de_purpose = ''delegated by '' @ de_id d,
          de_capabilities = requested,
          de_permissions = \<lparr>pm_maximum_risk = child_risk, pm_network = pm_network (de_permissions d)\<rparr>,
          de_allow = requested, de_memory = \<lparr>ms_read = rd, ms_write = wr\<rparr>, de_models = de_models d,
          de_limits = \<lparr>li_timeout = li_timeout (de_limits d), li_retries = li_retries (de_limits d),
            li_token_budget = child_budget, li_depth = li_depth (de_limits d) - 1\<rparr>\<rparr>)"

text \<open>The order of authority: every dimension the envelope bounds.\<close>

definition narrower :: "descriptor \<Rightarrow> descriptor \<Rightarrow> bool" where
  "narrower c p \<longleftrightarrow>
     set (de_allow c) \<subseteq> set (de_allow p)
     \<and> pm_maximum_risk (de_permissions c) \<le> pm_maximum_risk (de_permissions p)
     \<and> pm_network (de_permissions c) = pm_network (de_permissions p)
     \<and> set (ms_read (de_memory c)) \<subseteq> set (ms_read (de_memory p))
     \<and> set (ms_write (de_memory c)) \<subseteq> set (ms_write (de_memory p))
     \<and> li_token_budget (de_limits c) \<le> li_token_budget (de_limits p)
     \<and> li_timeout (de_limits c) = li_timeout (de_limits p)
     \<and> li_retries (de_limits c) = li_retries (de_limits p)
     \<and> li_depth (de_limits c) \<le> li_depth (de_limits p)"

text \<open>One delegation step, and the descriptors derived from a root by any number of them.\<close>

inductive delegates :: "descriptor \<Rightarrow> descriptor \<Rightarrow> bool" where
  step: "delegate p cid caps r b mr mw = Inr c \<Longrightarrow> delegates p c"

inductive derived :: "descriptor \<Rightarrow> nat \<Rightarrow> descriptor \<Rightarrow> bool" where
  root: "derived d 0 d"
| child: "derived d n p \<Longrightarrow> delegates p c \<Longrightarrow> derived d (Suc n) c"

inductive_cases delegatesE: "delegates p c"

lemma narrower_refl: "narrower d d"
  by (simp add: narrower_def)

lemma narrower_trans: "narrower a b \<Longrightarrow> narrower b c \<Longrightarrow> narrower a c"
  by (auto simp: narrower_def)

lemma validate_descriptor_Inr:
  "validate_descriptor d = Inr d' \<Longrightarrow>
     d' = d\<lparr>de_allow := (if de_allow d = [] then de_capabilities d else de_allow d)\<rparr>
       \<and> set (de_capabilities d) \<subseteq> set (de_allow d')"
  by (auto simp: validate_descriptor_def res_bind_eq_Inr Let_def split: if_splits)

lemma delegate_narrower:
  assumes "delegate p cid caps r b mr mw = Inr c"
  shows "narrower c p \<and> li_depth (de_limits c) = li_depth (de_limits p) - 1 \<and> 0 < li_depth (de_limits p)
    \<and> set (de_capabilities c) \<subseteq> set (de_allow c)"
proof -
  note unf = assms [unfolded delegate_def Let_def]
  show ?thesis
    using unf
    by (fastforce simp: narrower_def split: if_split_asm dest!: validate_descriptor_Inr)
qed

lemma delegates_narrower: "delegates p c \<Longrightarrow> narrower c p \<and> li_depth (de_limits c) = li_depth (de_limits p) - 1 \<and> 0 < li_depth (de_limits p)"
  by (auto elim!: delegatesE dest: delegate_narrower)

lemma derived_narrower: "derived d n c \<Longrightarrow> narrower c d \<and> li_depth (de_limits c) = li_depth (de_limits d) - int n"
proof (induction rule: derived.induct)
  case (root d)
  then show ?case by (simp add: narrower_refl)
next
  case (child d n p c)
  with delegates_narrower [of p c] show ?case by (auto intro: narrower_trans)
qed

lemma derived_depth: "derived d n c \<Longrightarrow> 0 \<le> li_depth (de_limits d) \<Longrightarrow> int n \<le> li_depth (de_limits d)"
proof (induction rule: derived.induct)
  case (child d n p c)
  with delegates_narrower [of p c] derived_narrower [of d n p] show ?case by linarith
qed simp

section \<open>Properties\<close>

text \<open>
  However many times a descriptor is delegated, the descendant's capabilities, maximum risk,
  network, memory scopes, token budget and time limits stay within the root's, and there are at
  most as many generations as the root's delegation depth.
\<close>
theorem delegation_chain_narrows:
  assumes "derived origin n d" and "0 \<le> li_depth (de_limits origin)"
  shows "narrower d origin \<and> int n \<le> li_depth (de_limits origin)
    \<and> li_depth (de_limits d) = li_depth (de_limits origin) - int n
    \<and> (0 < n \<longrightarrow> set (de_capabilities d) \<subseteq> set (de_allow origin))"
proof -
  have "set (de_capabilities d) \<subseteq> set (de_allow d)" if "0 < n"
    using assms(1) that by cases (auto elim!: delegatesE dest: delegate_narrower)
  with derived_narrower [OF assms(1)] derived_depth [OF assms] show ?thesis
    by (auto simp: narrower_def)
qed

definition sample_descriptor :: descriptor where
  "sample_descriptor = \<lparr>de_id = ''lead'', de_version = 1, de_purpose = [],
     de_capabilities = [''file_read'', ''file_write''],
     de_permissions = \<lparr>pm_maximum_risk = Write, pm_network = ''none''\<rparr>,
     de_allow = [''file_read'', ''file_write''], de_memory = \<lparr>ms_read = [''task''], ms_write = []\<rparr>,
     de_models = \<lparr>mq_capabilities = [], mq_max_classification = ''internal'', mq_pinned_model = []\<rparr>,
     de_limits = \<lparr>li_timeout = 60, li_retries = 0, li_token_budget = 100, li_depth = 1\<rparr>\<rparr>"

definition sample_child :: descriptor where
  "sample_child = sample_descriptor\<lparr>de_id := ''helper'', de_purpose := ''delegated by lead'',
     de_capabilities := [''file_read''], de_allow := [''file_read''],
     de_permissions := \<lparr>pm_maximum_risk = Read, pm_network = ''none''\<rparr>,
     de_limits := \<lparr>li_timeout = 60, li_retries = 0, li_token_budget = 50, li_depth = 0\<rparr>\<rparr>"

lemma sample_delegation:
  "delegate sample_descriptor ''helper'' [''file_read''] (Some Read) (Some 50) None None = Inr sample_child"
  by (simp add: delegate_def sample_descriptor_def sample_child_def validate_descriptor_def
      validate_limits_def risk_at_most_def Let_def del: risk_at_most_le)

theorem delegation_chain_narrows_witness: "narrower sample_child sample_descriptor"
proof -
  have d: "derived sample_descriptor (Suc 0) sample_child"
    by (rule derived.child [OF derived.root delegates.step [OF sample_delegation]])
  have "0 \<le> li_depth (de_limits sample_descriptor)" by (simp add: sample_descriptor_def)
  from delegation_chain_narrows [OF d this] show ?thesis by simp
qed

end
