(* ===== verification/WorkflowModels.thy ===== *)
theory WorkflowModels
  imports TaskState Risk
begin

text \<open>
  The declarative contracts of \<open>workflows/models.py\<close>: gates, stages, specifications, and the typed
  Core records (selection, strategy, budget, decision, review, stop, replacement) with the
  validators that run when each is constructed. A \<open>Literal\<close> of the source is a datatype with a
  function that gives its text. The environment of a workflow's task state is the record
  \<open>core_env\<close>: a field is \<open>None\<close> when its key is absent from the dictionary.
\<close>

section \<open>Digests\<close>

text \<open>
  Every fingerprint is the SHA-256 of the canonical JSON of some material. The digest functions
  are parameters on that material; the code relies on their being functions of it, and compares
  their values.
\<close>

datatype stage_execution = Agent | Human

fun execution_value :: "stage_execution \<Rightarrow> string" where
  "execution_value Agent = ''agent''"
| "execution_value Human = ''human''"

section \<open>Gates, stages and specifications\<close>

record workflow_gate =
  ga_require_final :: bool
  ga_min_actions :: int
  ga_require_evidence :: bool
  ga_file_sha256 :: string
  ga_file_path :: string
  ga_file_size :: "int option"

definition default_gate :: workflow_gate where
  "default_gate = \<lparr>ga_require_final = True, ga_min_actions = 0, ga_require_evidence = False,
     ga_file_sha256 = [], ga_file_path = [], ga_file_size = None\<rparr>"

text \<open>
  The gate's validators. \<open>resolve\<close> is the file system's path resolution, \<open>None\<close> where it raises;
  on POSIX a path is absolute when it starts with a slash.
\<close>

definition absolute_file_path :: "(string \<Rightarrow> string option) \<Rightarrow> string \<Rightarrow> string res" where
  "absolute_file_path resolve value =
     (if value = [] then Inr value
      else if CHR 0x00 \<in> set value \<or> \<not> starts_with value ''/'' then
        Inl (ValueError ''expected file path must be absolute'')
      else (case resolve value of
          None \<Rightarrow> Inl (ValueError ''expected file path cannot be resolved'')
        | Some p \<Rightarrow> Inr p))"

definition validate_gate :: "(string \<Rightarrow> string option) \<Rightarrow> workflow_gate \<Rightarrow> workflow_gate res" where
  "validate_gate resolve g =
     res_bind (ensure (0 \<le> ga_min_actions g \<and> ga_min_actions g \<le> 100
                 \<and> hex64_or_empty (ga_file_sha256 g) \<and> length (ga_file_path g) \<le> 4096
                 \<and> (case ga_file_size g of None \<Rightarrow> True | Some n \<Rightarrow> 0 \<le> n \<and> n \<le> 2 ^ 63 - 1))
                 (ValueError ''field'')) (\<lambda>_.
     res_bind (absolute_file_path resolve (ga_file_path g)) (\<lambda>p.
     res_bind (ensure (p = [] \<or> ga_file_sha256 g \<noteq> [])
                 (ValueError ''expected file path requires an exact file SHA-256'')) (\<lambda>_.
       Inr (g\<lparr>ga_file_path := p\<rparr>))))"

definition at_least_criterion :: "string \<Rightarrow> int \<Rightarrow> criterion" where
  "at_least_criterion f n =
     \<lparr>c_kind = ''at_least'', c_field = f, c_expected = JInt n, c_required = True\<rparr>"

definition completion_conditions :: "workflow_gate \<Rightarrow> criterion list" where
  "completion_conditions g =
     (if ga_min_actions g \<noteq> 0 then [at_least_criterion ''successful_actions'' (ga_min_actions g)] else [])
     @ (if ga_require_evidence g then [at_least_criterion ''evidence_count'' 1] else [])"

record evidence_link =
  el_id :: string
  el_sha256 :: string
  el_summary :: string

record stage_result =
  sr_success :: bool
  sr_outcome :: active_outcome
  sr_final :: string
  sr_summary :: string
  sr_actions :: int
  sr_evidence :: "evidence_link list"
  sr_data :: jdict
  sr_error :: string
  sr_failed :: "string list"
  sr_active :: "active_result option"

text \<open>\<open>validate_outcome\<close>; the first argument is the outcome field as given, \<open>None\<close> by default.\<close>

definition count_success :: "active_obs list \<Rightarrow> int" where
  "count_success obs = int (length (filter ob_success obs))"

definition validate_stage_result :: "active_outcome option \<Rightarrow> stage_result \<Rightarrow> stage_result res" where
  "validate_stage_result given r =
     (let outcome = (case given of Some x \<Rightarrow> x
                     | None \<Rightarrow> if sr_success r then Completed else OutcomeFailed) in
      res_bind (ensure (0 \<le> sr_actions r) (ValueError ''successful_actions'')) (\<lambda>_.
      res_bind (ensure (sr_success r = (outcome = Completed))
                  (ValueError ''stage success and outcome disagree'')) (\<lambda>_.
      res_bind (case sr_active r of
            None \<Rightarrow> Inr ()
          | Some a \<Rightarrow>
              res_bind (ensure (ar_outcome a = outcome)
                (ValueError ''active node and stage outcomes disagree'')) (\<lambda>_.
              res_bind (ensure (sr_actions r = count_success (ar_observations a))
                (ValueError ''stage action count differs from active observations'')) (\<lambda>_.
              ensure (list_all (\<lambda>l. (el_id l, el_sha256 l)
                          \<in> (\<lambda>ob. (ob_evidence_id ob, ob_evidence_hash ob))
                              ` set (filter has_evidence (ar_observations a))) (sr_evidence r))
                (ValueError ''stage evidence is not linked to an active observation''))))
        (\<lambda>_. Inr (r\<lparr>sr_outcome := outcome\<rparr>)))))"

text \<open>
  \<open>WorkflowGate.check\<close>. \<open>path_fp\<close> is \<open>file_path_fingerprint\<close>: the digest of the canonical path.
\<close>

definition gate_reads :: "active_obs list option \<Rightarrow> active_obs list" where
  "gate_reads trusted = filter (\<lambda>ob. ob_success ob \<and> ob_capability ob = ''file_read'' \<and> has_evidence ob)
     (case trusted of None \<Rightarrow> [] | Some obs \<Rightarrow> obs)"

definition signal_is :: "string \<Rightarrow> string \<Rightarrow> active_obs \<Rightarrow> bool" where
  "signal_is name value ob = (map_of (ob_signals ob) name = Some value)"

definition gate_failures ::
  "(string \<Rightarrow> string) \<Rightarrow> workflow_gate \<Rightarrow> stage_result \<Rightarrow> active_obs list option \<Rightarrow> string list" where
  "gate_failures path_fp g r trusted =
     (let protected = (case trusted of
            Some obs \<Rightarrow> list_ex protected_success obs
          | None \<Rightarrow> list_ex (\<lambda>l. el_id l \<noteq> [] \<and> el_sha256 l \<noteq> []) (sr_evidence r));
          reads = gate_reads trusted;
          path_hash = (if ga_file_path g \<noteq> [] then path_fp (ga_file_path g) else []);
          sized = (\<lambda>ob. case ga_file_size g of None \<Rightarrow> True
                        | Some n \<Rightarrow> signal_is ''file_size_bytes'' (show_int n) ob) in
      (if \<not> sr_success r then [if sr_error r \<noteq> [] then sr_error r else ''stage executor reported failure''] else [])
      @ (if ga_require_final g \<and> strip (sr_final r) = [] then [''stage did not produce a final result''] else [])
      @ (if sr_actions r < ga_min_actions g then
           [''stage requires at least '' @ show_int (ga_min_actions g) @ '' successful governed action(s)''] else [])
      @ (if ga_require_evidence g \<and> \<not> protected then [''stage produced no protected evidence reference''] else [])
      @ (if path_hash \<noteq> [] \<and> \<not> list_ex (signal_is ''file_path_sha256'' path_hash) reads then
           [''governed file path does not match the expected artifact''] else [])
      @ (if ga_file_sha256 g \<noteq> [] \<and> \<not> list_ex (signal_is ''file_sha256'' (ga_file_sha256 g)) reads then
           [''governed file digest does not match the expected SHA-256''] else [])
      @ (if ga_file_size g \<noteq> None \<and> \<not> list_ex sized reads then
           [''governed file size does not match the expected bytes''] else [])
      @ (if ga_file_sha256 g \<noteq> [] \<and> ga_file_size g \<noteq> None
            \<and> \<not> list_ex (\<lambda>ob. signal_is ''file_sha256'' (ga_file_sha256 g) ob \<and> sized ob) reads then
           [''governed file digest and size were not observed together''] else [])
      @ (if path_hash \<noteq> []
            \<and> \<not> list_ex (\<lambda>ob. signal_is ''file_path_sha256'' path_hash ob
                  \<and> signal_is ''file_sha256'' (ga_file_sha256 g) ob \<and> sized ob) reads then
           [''governed file artifact criteria were not observed together''] else []))"

definition gate_check ::
  "(string \<Rightarrow> string) \<Rightarrow> workflow_gate \<Rightarrow> stage_result \<Rightarrow> active_obs list option \<Rightarrow> bool \<times> string list" where
  "gate_check path_fp g r observations =
     (let trusted = (case observations of
            Some obs \<Rightarrow> Some obs
          | None \<Rightarrow> (case sr_active r of None \<Rightarrow> None | Some a \<Rightarrow> Some (ar_observations a)));
          failures = gate_failures path_fp g r trusted
      in (failures = [], failures))"

record workflow_stage =
  st_id :: string
  st_title :: string
  st_objective :: string
  st_depends_on :: "string list"
  st_execution :: stage_execution
  st_model_role :: string
  st_risk :: risk_level
  st_max_steps :: int
  st_instructions :: "string list"
  st_deliverables :: "string list"
  st_gate :: workflow_gate

definition validate_stage :: "(string \<Rightarrow> string option) \<Rightarrow> workflow_stage \<Rightarrow> workflow_stage res" where
  "validate_stage resolve st =
     res_bind (ensure (is_identifier (st_id st)) (ValueError ''stage id must be a lowercase identifier'')) (\<lambda>_.
     res_bind (ensure (st_model_role st \<in> {''planner'', ''worker'', ''reviewer'', ''coder''})
                 (ValueError ''unsupported workflow model role'')) (\<lambda>_.
     res_bind (ensure (1 \<le> st_max_steps st \<and> st_max_steps st \<le> 32) (ValueError ''max_steps'')) (\<lambda>_.
     res_bind (validate_gate resolve (st_gate st)) (\<lambda>g. Inr (st\<lparr>st_gate := g\<rparr>)))))"

record workflow_spec =
  sp_name :: string
  sp_description :: string
  sp_version :: string
  sp_mode :: task_mode
  sp_target_required :: bool
  sp_stages :: "workflow_stage list"
  sp_guidance :: string
  sp_source :: string

definition gate_dump :: "workflow_gate \<Rightarrow> jval" where
  "gate_dump g = JDict
     [(''require_final'', JBool (ga_require_final g)),
      (''min_successful_actions'', JInt (ga_min_actions g)),
      (''require_evidence'', JBool (ga_require_evidence g)),
      (''expected_file_sha256'', JStr (ga_file_sha256 g)),
      (''expected_file_path'', JStr (ga_file_path g)),
      (''expected_file_size_bytes'', (case ga_file_size g of None \<Rightarrow> JNull | Some n \<Rightarrow> JInt n))]"

text \<open>The parameters of a stage's plan node.\<close>

definition stage_params :: "string \<Rightarrow> string \<Rightarrow> workflow_stage \<Rightarrow> jdict" where
  "stage_params name version st =
     [(''workflow'', JStr name), (''workflow_version'', JStr version),
      (''objective'', JStr (st_objective st)),
      (''execution'', JStr (execution_value (st_execution st))),
      (''model_role'', JStr (st_model_role st)), (''risk'', JStr (risk_value (st_risk st))),
      (''max_steps'', JInt (st_max_steps st)),
      (''instructions'', JList (map JStr (st_instructions st))),
      (''deliverables'', JList (map JStr (st_deliverables st))),
      (''gate'', gate_dump (st_gate st))]"

definition stage_node :: "workflow_spec \<Rightarrow> workflow_stage \<Rightarrow> plan_node" where
  "stage_node sp st =
     \<lparr>n_id = st_id st, n_capability = ''workflow_stage'', n_description = st_title st,
      n_params = stage_params (sp_name sp) (sp_version sp) st, n_depends_on = st_depends_on st,
      n_completion = [], n_retry = ManualReview, n_max_attempts = 1,
      n_idempotency_key = sp_name sp @ ''-'' @ sp_version sp @ ''-'' @ st_id st,
      n_status = ''pending'', n_result_summary = []\<rparr>"

fun add_stages :: "workflow_spec \<Rightarrow> workflow_stage list \<Rightarrow> plan_graph \<Rightarrow> plan_graph res" where
  "add_stages sp [] g = Inr g"
| "add_stages sp (st # sts) g =
     res_bind (validate_plan_node (stage_node sp st)) (\<lambda>n. add_stages sp sts (add_node n g))"

definition to_plan :: "workflow_spec \<Rightarrow> string \<Rightarrow> plan_graph res" where
  "to_plan sp goal = add_stages sp (sp_stages sp)
     \<lparr>g_goal = goal, g_nodes = [], g_reasoning = ''workflow:'' @ sp_name sp @ ''@'' @ sp_version sp\<rparr>"

definition missing_deps :: "string list \<Rightarrow> workflow_stage \<Rightarrow> string list" where
  "missing_deps known st = sort (remdups (filter (\<lambda>d. d \<notin> set known) (st_depends_on st)))"

text \<open>\<open>validate_graph\<close> and the field validators of \<open>WorkflowSpec\<close>.\<close>

definition validate_spec :: "(string \<Rightarrow> string option) \<Rightarrow> workflow_spec \<Rightarrow> workflow_spec res" where
  "validate_spec resolve sp =
     res_bind (ensure (is_identifier (sp_name sp)) (ValueError ''workflow name must be a lowercase identifier'')) (\<lambda>_.
     res_bind (ensure (sp_stages sp \<noteq> []) (ValueError ''stages'')) (\<lambda>_.
     res_bind (map_res (validate_stage resolve) (sp_stages sp)) (\<lambda>stages.
     let sp' = sp\<lparr>sp_stages := stages\<rparr>; ids = map st_id stages in
     res_bind (ensure (distinct ids) (ValueError ''workflow stage ids must be unique'')) (\<lambda>_.
     res_bind (iter_res (\<lambda>st. ensure (missing_deps ids st = [])
          (ValueError (''stage '' @ quoted (st_id st) @ '' depends on unknown stages: ''
             @ join_with '', '' (missing_deps ids st)))) stages) (\<lambda>_.
     res_bind (to_plan sp' ''validation'') (\<lambda>g.
     res_bind (validate_edges g) (\<lambda>_. Inr sp')))))))"

definition find_stage :: "workflow_spec \<Rightarrow> string \<Rightarrow> workflow_stage res" where
  "find_stage sp stage_id = (case find (\<lambda>st. st_id st = stage_id) (sp_stages sp) of
     None \<Rightarrow> Inl (KeyError stage_id) | Some st \<Rightarrow> Inr st)"

section \<open>What an open gate means\<close>

text \<open>The file expectations of a gate, met by one observation.\<close>

definition meets_file_gate :: "(string \<Rightarrow> string) \<Rightarrow> workflow_gate \<Rightarrow> active_obs \<Rightarrow> bool" where
  "meets_file_gate path_fp g ob \<longleftrightarrow>
     (ga_file_path g \<noteq> [] \<longrightarrow> signal_is ''file_path_sha256'' (path_fp (ga_file_path g)) ob)
     \<and> (ga_file_sha256 g \<noteq> [] \<longrightarrow> signal_is ''file_sha256'' (ga_file_sha256 g) ob)
     \<and> (case ga_file_size g of None \<Rightarrow> True | Some n \<Rightarrow> signal_is ''file_size_bytes'' (show_int n) ob)"

definition expects_file :: "workflow_gate \<Rightarrow> bool" where
  "expects_file g \<longleftrightarrow> ga_file_path g \<noteq> [] \<or> ga_file_sha256 g \<noteq> [] \<or> ga_file_size g \<noteq> None"

lemma gate_reads_in: "ob \<in> set (gate_reads (Some obs)) \<longleftrightarrow>
    ob \<in> set obs \<and> ob_success ob \<and> ob_capability ob = ''file_read'' \<and> has_evidence ob"
  by (auto simp: gate_reads_def)

text \<open>
  When a gate opens on given observations, the result succeeded, has the final text and the
  number of governed actions the gate asks for, and a protected success when evidence is asked
  for; and one single successful protected file read meets the path, digest and size the gate
  expects together.
\<close>
theorem gate_open_sound:
  assumes "gate_check path_fp g r (Some obs) = (True, failures)"
    and "\<And>p. path_fp p \<noteq> []" and "ga_file_path g \<noteq> [] \<longrightarrow> ga_file_sha256 g \<noteq> []"
  shows "failures = [] \<and> sr_success r \<and> ga_min_actions g \<le> sr_actions r
    \<and> (ga_require_final g \<longrightarrow> strip (sr_final r) \<noteq> [])
    \<and> (ga_require_evidence g \<longrightarrow> (\<exists>ob \<in> set obs. protected_success ob))
    \<and> (expects_file g \<longrightarrow> (\<exists>ob \<in> set obs. protected_success ob \<and> ob_capability ob = ''file_read''
          \<and> meets_file_gate path_fp g ob))"
proof -
  from assms(1) have none: "gate_failures path_fp g r (Some obs) = []" and f: "failures = []"
    by (auto simp: gate_check_def Let_def)
  note n = none [unfolded gate_failures_def Let_def append_is_Nil_conv, simplified]
  have basic: "sr_success r" "ga_min_actions g \<le> sr_actions r"
    "ga_require_final g \<longrightarrow> strip (sr_final r) \<noteq> []"
    "ga_require_evidence g \<longrightarrow> (\<exists>ob \<in> set obs. protected_success ob)"
    using n by (auto split: if_split_asm simp: list_ex_iff)
  have "\<exists>ob \<in> set (gate_reads (Some obs)). meets_file_gate path_fp g ob" if e: "expects_file g"
  proof (cases "ga_file_path g = []")
    case True
    then show ?thesis
      using n e by (cases "ga_file_size g"; cases "ga_file_sha256 g = []")
        (auto simp: expects_file_def meets_file_gate_def list_ex_iff split: if_split_asm)
  next
    case False
    then have "path_fp (ga_file_path g) \<noteq> []" "ga_file_sha256 g \<noteq> []" using assms(2,3) by auto
    with False n show ?thesis
      by (auto simp: meets_file_gate_def list_ex_iff split: if_split_asm)
  qed
  then have "expects_file g \<longrightarrow> (\<exists>ob \<in> set obs. protected_success ob
      \<and> ob_capability ob = ''file_read'' \<and> meets_file_gate path_fp g ob)"
    unfolding Bex_def gate_reads_in protected_success_def by blast
  with basic f show ?thesis by blast
qed

definition sample_read :: active_obs where
  "sample_read = sample_obs\<lparr>ob_signals := [(''file_sha256'', sample_hash), (''file_size_bytes'', ''12'')]\<rparr>"

definition sample_gate :: workflow_gate where
  "sample_gate = default_gate\<lparr>ga_require_evidence := True, ga_file_sha256 := sample_hash, ga_file_size := Some 12\<rparr>"

definition sample_result :: stage_result where
  "sample_result = \<lparr>sr_success = True, sr_outcome = Completed, sr_final = ''done'', sr_summary = [],
     sr_actions = 1, sr_evidence = [], sr_data = [], sr_error = [], sr_failed = [], sr_active = None\<rparr>"

lemma sample_gate_open: "gate_check (\<lambda>p. ''h'') sample_gate sample_result (Some [sample_read]) = (True, [])"
  by code_simp

theorem gate_open_sound_witness:
  "\<exists>ob \<in> set [sample_read]. meets_file_gate (\<lambda>p. ''h'') sample_gate ob"
proof -
  have "ga_file_path sample_gate \<noteq> [] \<longrightarrow> ga_file_sha256 sample_gate \<noteq> []"
    by (simp add: sample_gate_def default_gate_def)
  moreover have "expects_file sample_gate" by (simp add: expects_file_def sample_gate_def)
  ultimately show ?thesis using gate_open_sound [OF sample_gate_open] by blast
qed

section \<open>Compilation of a specification\<close>

lemma validate_plan_node_Inr: "validate_plan_node n = Inr n' \<Longrightarrow> n' = n"
  by (auto simp: validate_plan_node_def res_bind_eq_Inr)

lemma add_stages_goal: "add_stages sp sts g = Inr g' \<Longrightarrow> g_goal g' = g_goal g"
  by (induction sts arbitrary: g) (auto simp: res_bind_eq_Inr add_node_def)

lemma add_stages_nodes:
  "add_stages sp sts g = Inr g' \<Longrightarrow> distinct (dict_keys (g_nodes g) @ map st_id sts) \<Longrightarrow>
     g_nodes g' = g_nodes g @ map (\<lambda>st. (st_id st, stage_node sp st)) sts"
proof (induction sts arbitrary: g)
  case (Cons st sts)
  then have "add_stages sp sts (add_node (stage_node sp st) g) = Inr g'"
    by (auto simp: res_bind_eq_Inr dest: validate_plan_node_Inr)
  moreover have "g_nodes (add_node (stage_node sp st) g) = g_nodes g @ [(st_id st, stage_node sp st)]"
    using Cons.prems(2) by (simp add: add_node_def stage_node_def dict_keys_set_new)
  ultimately show ?case using Cons.IH Cons.prems(2) by fastforce
qed simp

lemma add_stages_ok: "is_ok (add_stages sp sts g) \<longleftrightarrow> (\<forall>st \<in> set sts. is_ok (validate_plan_node (stage_node sp st)))"
  by (induction sts arbitrary: g) (auto simp: is_ok_iff res_bind_eq_Inr)

definition plan_nodes :: "workflow_spec \<Rightarrow> (string, plan_node) dict" where
  "plan_nodes sp = map (\<lambda>st. (st_id st, stage_node sp st)) (sp_stages sp)"

lemma to_plan_nodes:
  assumes "to_plan sp goal = Inr g" and "distinct (map st_id (sp_stages sp))"
  shows "g_nodes g = plan_nodes sp \<and> g_goal g = goal"
  using assms add_stages_nodes [of sp "sp_stages sp" _ g] add_stages_goal [of sp "sp_stages sp" _ g]
  by (simp add: to_plan_def plan_nodes_def)

lemma to_plan_ok: "is_ok (to_plan sp goal) \<longleftrightarrow> is_ok (to_plan sp goal')"
  by (simp add: to_plan_def add_stages_ok)

lemma valid_graph_cong: "g_nodes g = g_nodes g' \<Longrightarrow> valid_graph g = valid_graph g'"
  by (simp add: valid_graph_def deps_known_def dep_rel_def node_deps_def)

lemma wf_plan_nodes: "distinct (map st_id (sp_stages sp)) \<Longrightarrow> wf_dict (plan_nodes sp)"
  by (simp add: wf_dict_def plan_nodes_def comp_def)

lemma validate_spec_Inr:
  assumes "validate_spec resolve sp = Inr sp'"
  shows "sp_stages sp' \<noteq> [] \<and> distinct (map st_id (sp_stages sp'))
    \<and> (\<forall>goal. \<exists>g. to_plan sp' goal = Inr g \<and> valid_graph g)"
proof -
  from assms obtain g where ne: "sp_stages sp' \<noteq> []" and d: "distinct (map st_id (sp_stages sp'))"
    and g: "to_plan sp' ''validation'' = Inr g" and v: "validate_edges g = Inr ()"
    by (fastforce simp: validate_spec_def res_bind_eq_Inr Let_def map_res_ok iter_res_ok)
  have "wf_dict (g_nodes g)" using to_plan_nodes [OF g d] wf_plan_nodes [OF d] by simp
  with v have vg: "valid_graph g" by (simp flip: validate_edges_ok_iff)
  have "\<exists>h. to_plan sp' goal = Inr h \<and> valid_graph h" for goal
  proof -
    from g to_plan_ok [of sp' goal "''validation''"] obtain h where h: "to_plan sp' goal = Inr h"
      by (auto simp: is_ok_iff)
    with vg valid_graph_cong [of g h] to_plan_nodes [OF g d] to_plan_nodes [OF h d] show ?thesis by simp
  qed
  with ne d show ?thesis by blast
qed

text \<open>
  A specification that validates compiles, for every goal, to a plan with exactly one pending
  node per stage in declaration order, with the stage's dependencies and no automatic retry, whose
  edges are known and acyclic, so that it has a topological order and a stage ready to start.
\<close>
theorem validated_spec_compiles:
  assumes "validate_spec resolve sp = Inr sp'"
  shows "\<exists>g order ns. to_plan sp' goal = Inr g \<and> g_goal g = goal
    \<and> dict_keys (g_nodes g) = map st_id (sp_stages sp')
    \<and> map (\<lambda>n. (n_depends_on n, n_status n, n_retry n)) (map snd (g_nodes g))
        = map (\<lambda>st. (st_depends_on st, ''pending'', ManualReview)) (sp_stages sp')
    \<and> valid_graph g \<and> topological_order g = Inr order \<and> ready_nodes g = Inr ns \<and> ns \<noteq> []"
proof -
  from validate_spec_Inr [OF assms] obtain g where ne: "sp_stages sp' \<noteq> []"
    and d: "distinct (map st_id (sp_stages sp'))" and g: "to_plan sp' goal = Inr g" and v: "valid_graph g"
    by blast
  note nodes = to_plan_nodes [OF g d]
  from v obtain order where "topological_order g = Inr order"
    using topological_order_ok_iff [of g] by (auto simp: valid_graph_def is_ok_iff)
  moreover obtain st sts where s: "sp_stages sp' = st # sts" using ne by (cases "sp_stages sp'") auto
  have in_g: "(st_id st, stage_node sp' st) \<in> set (g_nodes g)" "n_status (stage_node sp' st) \<noteq> ''success''"
    "\<forall>n \<in> snd ` set (g_nodes g). n_status n \<in> {''pending'', ''success''}"
    using nodes s by (auto simp: plan_nodes_def stage_node_def)
  from ready_exists [OF v in_g] obtain ns where "ready_nodes g = Inr ns" "ns \<noteq> []" by blast
  ultimately show ?thesis using g v nodes
    by (auto simp: plan_nodes_def stage_node_def comp_def)
qed

definition sample_stage :: "string \<Rightarrow> string list \<Rightarrow> stage_execution \<Rightarrow> workflow_stage" where
  "sample_stage k ds ex = \<lparr>st_id = k, st_title = k, st_objective = k, st_depends_on = ds, st_execution = ex,
     st_model_role = ''worker'', st_risk = Read, st_max_steps = 4, st_instructions = [],
     st_deliverables = [], st_gate = default_gate\<rparr>"

definition sample_spec :: workflow_spec where
  "sample_spec = \<lparr>sp_name = ''audit'', sp_description = [], sp_version = ''1'', sp_mode = Coding,
     sp_target_required = False,
     sp_stages = [sample_stage ''scan'' [] Agent, sample_stage ''approve'' [''scan''] Human],
     sp_guidance = [], sp_source = []\<rparr>"

lemma sample_spec_valid: "validate_spec Some sample_spec = Inr sample_spec"
  by code_simp

theorem validated_spec_compiles_witness:
  "\<exists>g. to_plan sample_spec ''goal'' = Inr g \<and> valid_graph g"
  using validated_spec_compiles [OF sample_spec_valid, of "''goal''"] by blast

end
