(* ===== verification/CoreModels.thy ===== *)
theory CoreModels
  imports WorkflowModels
begin

text \<open>
  The typed Core records of \<open>workflows/models.py\<close>: intent, selection, strategy, budget, review
  request, decision, resolution, stop and replacement, each with the validators that run when it
  is constructed, and the bound context of a stage. The environment of a workflow's task state is
  the record \<open>core_env\<close>: a field is \<open>None\<close> when its key is absent from the dictionary.
\<close>

section \<open>Selection and strategy\<close>

record core_intent =
  ci_objective :: string
  ci_mode :: task_mode
  ci_workflow :: string

definition validate_intent :: "core_intent \<Rightarrow> core_intent res" where
  "validate_intent i =
     res_bind (ensure (bounded_text 1 4096 (ci_objective i) \<and> length (ci_workflow i) \<le> 64)
                 (ValueError ''field'')) (\<lambda>_.
     res_bind (ensure (strip (ci_objective i) \<noteq> [] \<and> CHR 0x00 \<notin> set (ci_objective i))
                 (ValueError ''Core objective must be nonempty text'')) (\<lambda>_.
     res_bind (ensure (ci_workflow i = [] \<or> is_identifier (ci_workflow i))
                 (ValueError ''Core workflow name must be a lowercase identifier'')) (\<lambda>_.
       Inr (i\<lparr>ci_objective := strip (ci_objective i)\<rparr>))))"

record reviewed_workflow =
  rw_name :: string
  rw_version :: string
  rw_fingerprint :: string

definition validate_pin :: "reviewed_workflow \<Rightarrow> reviewed_workflow res" where
  "validate_pin p =
     res_bind (ensure (is_identifier (rw_name p) \<and> bounded_text 1 64 (rw_version p)
                 \<and> is_hex64 (rw_fingerprint p)) (ValueError ''reviewed workflow'')) (\<lambda>_. Inr p)"

datatype select_outcome = Selected | NeedsInput | SelectBlocked

datatype select_reason =
    ExplicitSelected | OnlyCompatible | MultipleMatch | NoneMatches | NotReviewed
  | MissingOrChanged | ModeMismatch

fun select_text :: "select_reason \<Rightarrow> string" where
  "select_text ExplicitSelected = ''explicit reviewed workflow selected''"
| "select_text OnlyCompatible = ''only compatible reviewed workflow selected''"
| "select_text MultipleMatch = ''multiple reviewed workflows match; choose one explicitly''"
| "select_text NoneMatches = ''no reviewed workflow matches the requested mode''"
| "select_text NotReviewed = ''requested workflow is not reviewed''"
| "select_text MissingOrChanged = ''reviewed workflow is missing or changed''"
| "select_text ModeMismatch = ''requested workflow mode does not match intent''"

record selection =
  se_intent_fp :: string
  se_outcome :: select_outcome
  se_reason :: select_reason
  se_workflow :: "reviewed_workflow option"
  se_criteria :: "(string, workflow_gate) dict"

text \<open>
  Construction from values that are models already runs the record's own checks only
  (\<open>make_selection\<close>); validation of a dumped record runs those of its parts first.
\<close>

definition make_selection :: "selection \<Rightarrow> selection res" where
  "make_selection s =
     (let selected = se_reason s \<in> {ExplicitSelected, OnlyCompatible} in
      res_bind (ensure (is_hex64 (se_intent_fp s)) (ValueError ''intent_fingerprint'')) (\<lambda>_.
      res_bind (if se_outcome s = Selected
                then ensure (se_workflow s \<noteq> None \<and> se_criteria s \<noteq> [] \<and> selected)
                  (ValueError ''Core selection requires reviewed workflow and criteria'')
                else ensure (se_workflow s = None \<and> se_criteria s = [] \<and> \<not> selected)
                  (ValueError ''unresolved Core selection cannot contain a workflow plan'')) (\<lambda>_.
      res_bind (ensure ((se_outcome s = NeedsInput) = (se_reason s \<in> {MultipleMatch, NoneMatches}))
                  (ValueError ''Core outcome must match its public reason'')) (\<lambda>_. Inr s))))"

definition validate_selection :: "(string \<Rightarrow> string option) \<Rightarrow> selection \<Rightarrow> selection res" where
  "validate_selection resolve s =
     res_bind (case se_workflow s of None \<Rightarrow> Inr None
               | Some p \<Rightarrow> res_bind (validate_pin p) (\<lambda>p. Inr (Some p))) (\<lambda>w.
     res_bind (map_res (\<lambda>(k, g). res_bind (validate_gate resolve g) (\<lambda>g. Inr (k, g))) (se_criteria s))
       (\<lambda>crit. make_selection (s\<lparr>se_workflow := w, se_criteria := crit\<rparr>)))"

text \<open>The policy, delegation and recovery fields of \<open>CoreStrategy\<close> have one admissible value each.\<close>

record core_strategy =
  cs_workflow :: reviewed_workflow
  cs_order :: "string list"

definition validate_strategy :: "core_strategy \<Rightarrow> core_strategy res" where
  "validate_strategy c =
     res_bind (validate_pin (cs_workflow c)) (\<lambda>_.
     res_bind (ensure (1 \<le> length (cs_order c) \<and> length (cs_order c) \<le> 64) (ValueError ''stage_order'')) (\<lambda>_.
       Inr c))"

section \<open>Mission budget\<close>

record mission_budget =
  mb_dispatches :: int
  mb_steps :: int

definition validate_mission_budget :: "mission_budget \<Rightarrow> mission_budget res" where
  "validate_mission_budget m =
     res_bind (ensure (0 \<le> mb_dispatches m \<and> mb_dispatches m \<le> 1024
                 \<and> 0 \<le> mb_steps m \<and> mb_steps m \<le> 32768) (ValueError ''limits'')) (\<lambda>_. Inr m)"

record core_budget =
  bu_limits :: mission_budget
  bu_dispatches :: int
  bu_steps :: int

definition validate_budget :: "core_budget \<Rightarrow> core_budget res" where
  "validate_budget b =
     res_bind (validate_mission_budget (bu_limits b)) (\<lambda>_.
     res_bind (ensure (0 \<le> bu_dispatches b \<and> bu_dispatches b \<le> 1024
                 \<and> 0 \<le> bu_steps b \<and> bu_steps b \<le> 32768) (ValueError ''usage'')) (\<lambda>_.
     res_bind (ensure (\<not> (mb_dispatches (bu_limits b) < bu_dispatches b
                  \<or> mb_steps (bu_limits b) < bu_steps b
                  \<or> (bu_dispatches b = 0) \<noteq> (bu_steps b = 0)
                  \<or> bu_steps b < bu_dispatches b
                  \<or> bu_dispatches b * 32 < bu_steps b))
                 (ValueError ''Core budget usage must be consistent and within limits'')) (\<lambda>_. Inr b)))"

text \<open>
  \<open>stop_reason\<close> returns an empty text (here \<open>None\<close>) when the stage can be reserved; the reasons
  are among those of a decision.
\<close>

datatype decision_reason =
    OneReadyStage | HumanGate | InterruptedWork | UnverifiedWork | OpenQuestions | AllBound
  | WorkflowFailure | DispatchExhausted | StepsExhausted | MissionStopped

fun decision_text :: "decision_reason \<Rightarrow> string" where
  "decision_text OneReadyStage = ''one ready stage delegated within its existing bounds''"
| "decision_text HumanGate = ''human workflow gate requires explicit approval''"
| "decision_text InterruptedWork = ''interrupted or review-paused work requires human review''"
| "decision_text UnverifiedWork = ''completed work lacks bound Active verification''"
| "decision_text OpenQuestions = ''task has unresolved questions or no ready work''"
| "decision_text AllBound = ''all workflow stages have bound completion''"
| "decision_text WorkflowFailure = ''workflow failure requires review; no automatic replay''"
| "decision_text DispatchExhausted = ''mission stage-dispatch budget exhausted''"
| "decision_text StepsExhausted = ''mission step-reservation budget cannot cover the next stage''"
| "decision_text MissionStopped = ''mission explicitly stopped by human; no automatic resume''"

definition stop_reason :: "core_budget \<Rightarrow> int \<Rightarrow> decision_reason option res" where
  "stop_reason b steps =
     (if \<not> (1 \<le> steps \<and> steps \<le> 32) then
        Inl (ValueError ''Core reservation requires an existing bounded stage'')
      else if mb_dispatches (bu_limits b) \<le> bu_dispatches b then Inr (Some DispatchExhausted)
      else if mb_steps (bu_limits b) < bu_steps b + steps then Inr (Some StepsExhausted)
      else Inr None)"

definition reserve :: "core_budget \<Rightarrow> int \<Rightarrow> core_budget res" where
  "reserve b steps =
     res_bind (stop_reason b steps) (\<lambda>reason.
       if reason \<noteq> None then Inl (ValueError ''Core mission budget cannot reserve the delegated stage'')
       else validate_budget \<lparr>bu_limits = bu_limits b, bu_dispatches = bu_dispatches b + 1,
              bu_steps = bu_steps b + steps\<rparr>)"

section \<open>Review requests and decisions\<close>

datatype review_category = MaterialReplan | EscalationReview | PlainReview

datatype review_reason = MaterialReason | EscalationReason | MissionReason

fun category_reason :: "review_category \<Rightarrow> review_reason" where
  "category_reason MaterialReplan = MaterialReason"
| "category_reason EscalationReview = EscalationReason"
| "category_reason PlainReview = MissionReason"

record review_request =
  rq_category :: review_category
  rq_reason :: review_reason
  rq_stage :: string
  rq_node_fp :: string
  rq_active_fp :: string
  rq_outcome :: "active_outcome option"
  rq_kind :: "escalation_kind option"

definition identifier_or_empty :: "string \<Rightarrow> bool" where
  "identifier_or_empty s = (s = [] \<or> is_identifier s)"

definition validate_review :: "review_request \<Rightarrow> review_request res" where
  "validate_review r =
     (let sourced = (rq_category r \<noteq> PlainReview);
          material = (rq_outcome r = Some NeedsReplan \<or> rq_kind r = Some EscMaterialChange) in
      res_bind (ensure (identifier_or_empty (rq_stage r) \<and> hex64_or_empty (rq_node_fp r)
                  \<and> hex64_or_empty (rq_active_fp r)) (ValueError ''field'')) (\<lambda>_.
      res_bind (ensure (rq_reason r = category_reason (rq_category r))
                  (ValueError ''Core review category and public reason disagree'')) (\<lambda>_.
      res_bind (ensure ((rq_stage r \<noteq> []) = (rq_node_fp r \<noteq> []))
                  (ValueError ''Core review node reference must be paired'')) (\<lambda>_.
      res_bind (ensure (\<not> (sourced \<noteq> (rq_active_fp r \<noteq> [])
                    \<or> sourced \<noteq> (rq_outcome r \<noteq> None \<and> rq_kind r \<noteq> None)))
                  (ValueError ''Core escalation requires a bound incomplete Active source'')) (\<lambda>_.
      res_bind (ensure (\<not> (\<not> sourced \<and> (rq_outcome r \<noteq> None \<or> rq_kind r \<noteq> None)))
                  (ValueError ''unclassified Core review cannot claim an Active cause'')) (\<lambda>_.
      res_bind (ensure (\<not> (sourced \<and> (rq_stage r = [] \<or> rq_outcome r = Some Completed)))
                  (ValueError ''Core escalation requires an incomplete bound node'')) (\<lambda>_.
      res_bind (ensure (\<not> (sourced \<and> (rq_category r = MaterialReplan) \<noteq> material))
                  (ValueError ''Core material replan must match its Active cause'')) (\<lambda>_. Inr r))))))))"

datatype decision_outcome =
  Delegate | AwaitApproval | NeedsReview | DecComplete | DecFailed | BudgetExhausted | Stopped

fun outcome_reasons :: "decision_outcome \<Rightarrow> decision_reason list" where
  "outcome_reasons Delegate = [OneReadyStage]"
| "outcome_reasons AwaitApproval = [HumanGate]"
| "outcome_reasons NeedsReview = [InterruptedWork, UnverifiedWork, OpenQuestions]"
| "outcome_reasons DecComplete = [AllBound]"
| "outcome_reasons DecFailed = [WorkflowFailure]"
| "outcome_reasons BudgetExhausted = [DispatchExhausted, StepsExhausted]"
| "outcome_reasons Stopped = [MissionStopped]"

record core_decision =
  cd_session :: string
  cd_version :: nat
  cd_state_fp :: string
  cd_workflow_fp :: string
  cd_outcome :: decision_outcome
  cd_reason :: decision_reason
  cd_stage :: string
  cd_node_fp :: string
  cd_max_steps :: int
  cd_review :: "review_request option"

definition validate_decision :: "core_decision \<Rightarrow> core_decision res" where
  "validate_decision d =
     res_bind (ensure (bounded_text 1 128 (cd_session d) \<and> is_hex64 (cd_state_fp d)
                 \<and> is_hex64 (cd_workflow_fp d) \<and> identifier_or_empty (cd_stage d)
                 \<and> hex64_or_empty (cd_node_fp d) \<and> 0 \<le> cd_max_steps d \<and> cd_max_steps d \<le> 32)
                 (ValueError ''field'')) (\<lambda>_.
     res_bind (case cd_review d of None \<Rightarrow> Inr () | Some r \<Rightarrow> res_bind (validate_review r) (\<lambda>_. Inr ())) (\<lambda>_.
     res_bind (ensure (cd_reason d \<in> set (outcome_reasons (cd_outcome d)))
                 (ValueError ''Core decision outcome and public reason disagree'')) (\<lambda>_.
     res_bind (if cd_outcome d \<in> {Delegate, AwaitApproval}
               then ensure (cd_stage d \<noteq> [] \<and> cd_node_fp d \<noteq> [])
                 (ValueError ''Core stage decision requires a bound node'')
               else ensure (cd_stage d = [] \<and> cd_node_fp d = [])
                 (ValueError ''Core terminal or review decision cannot delegate a node'')) (\<lambda>_.
     res_bind (ensure ((cd_outcome d = Delegate) = (0 < cd_max_steps d))
                 (ValueError ''only Core delegation may allocate existing stage steps'')) (\<lambda>_.
     res_bind (ensure (cd_review d = None \<or> cd_outcome d \<in> {NeedsReview, DecFailed, BudgetExhausted})
                 (ValueError ''only a Core review stop may carry a review request'')) (\<lambda>_. Inr d))))))"

datatype disposition = Acknowledged | Rejected

record review_resolution =
  rr_decision :: core_decision
  rr_disposition :: disposition

definition validate_resolution :: "review_resolution \<Rightarrow> review_resolution res" where
  "validate_resolution r =
     res_bind (validate_decision (rr_decision r)) (\<lambda>_.
     res_bind (ensure (cd_review (rr_decision r) \<noteq> None)
                 (ValueError ''Core review resolution requires a review request'')) (\<lambda>_. Inr r))"

record mission_stop =
  cm_decision :: core_decision

definition validate_stop :: "mission_stop \<Rightarrow> mission_stop res" where
  "validate_stop m = res_bind (validate_decision (cm_decision m)) (\<lambda>_. Inr m)"

record replan_transition =
  rt_decision :: core_decision
  rt_replacement :: selection
  rt_session :: string

definition make_transition :: "replan_transition \<Rightarrow> replan_transition res" where
  "make_transition t =
     res_bind (ensure (length (rt_session t) \<le> 128) (ValueError ''replacement_session_id'')) (\<lambda>_.
     res_bind (ensure (cd_review (rt_decision t) \<noteq> None \<and> se_outcome (rt_replacement t) = Selected)
                 (ValueError ''Core replanning requires a review stop and reviewed replacement'')) (\<lambda>_.
       Inr t))"

definition validate_transition :: "(string \<Rightarrow> string option) \<Rightarrow> replan_transition \<Rightarrow> replan_transition res" where
  "validate_transition resolve t =
     res_bind (validate_decision (rt_decision t)) (\<lambda>_.
     res_bind (validate_selection resolve (rt_replacement t)) (\<lambda>s.
       make_transition (t\<lparr>rt_replacement := s\<rparr>)))"

record replan_origin =
  ro_parent :: string
  ro_decision_fp :: string

definition validate_origin :: "replan_origin \<Rightarrow> replan_origin res" where
  "validate_origin r =
     res_bind (ensure (bounded_text 1 128 (ro_parent r) \<and> is_hex64 (ro_decision_fp r))
                 (ValueError ''field'')) (\<lambda>_. Inr r)"

section \<open>The environment of a workflow run\<close>

record core_env =
  en_workflow :: "string option"
  en_workflow_version :: "string option"
  en_workflow_fp :: "string option"
  en_target :: "string option"
  en_selection :: "selection option"
  en_strategy :: "core_strategy option"
  en_decision :: "core_decision option"
  en_consumed :: "bool option"
  en_budget :: "core_budget option"
  en_stop :: "mission_stop option"
  en_dispatch :: "string option"
  en_origin :: "replan_origin option"
  en_transition :: "replan_transition option"
  en_resolution :: "review_resolution option"

type_synonym wf_state = "core_env task_state"

text \<open>
  What the code takes from outside: the SHA-256 digests of canonical JSON, each as a function of
  the material it hashes, and the resolution of a path (\<open>None\<close> where it raises). The digest of an
  intent hashes the redacted objective and the mode; that of a state leaves out the decision, the
  consumed flag and the timestamps; that of a specification leaves out its source path.
\<close>

record platform =
  sha_node :: "node_material \<Rightarrow> string"
  sha_spec :: "workflow_spec \<Rightarrow> string"
  sha_intent :: "string \<times> task_mode \<Rightarrow> string"
  sha_state :: "wf_state \<Rightarrow> string"
  sha_decision :: "core_decision \<Rightarrow> string"
  sha_active :: "active_result \<Rightarrow> string"
  sha_path :: "string \<Rightarrow> string"
  resolve_path :: "string \<Rightarrow> string option"

definition spec_fingerprint :: "platform \<Rightarrow> workflow_spec \<Rightarrow> string" where
  "spec_fingerprint P sp = sha_spec P (sp\<lparr>sp_source := []\<rparr>)"

definition intent_fingerprint :: "platform \<Rightarrow> core_intent \<Rightarrow> string" where
  "intent_fingerprint P i = sha_intent P (redact_text (ci_objective i), ci_mode i)"

definition core_state_fingerprint :: "platform \<Rightarrow> wf_state \<Rightarrow> string" where
  "core_state_fingerprint P s =
     sha_state P (s\<lparr>ts_env := (ts_env s)\<lparr>en_decision := None, en_consumed := None\<rparr>\<rparr>)"

definition strategy_of :: "platform \<Rightarrow> workflow_spec \<Rightarrow> core_strategy res" where
  "strategy_of P sp = validate_strategy
     \<lparr>cs_workflow = \<lparr>rw_name = sp_name sp, rw_version = sp_version sp, rw_fingerprint = spec_fingerprint P sp\<rparr>,
      cs_order = map st_id (sp_stages sp)\<rparr>"


section \<open>The bound context of a stage\<close>

text \<open>An entry of \<open>prior_results\<close>, with the four keys the runner's \<open>_context\<close> writes.\<close>

record prior_result =
  pr_stage :: string
  pr_success :: bool
  pr_summary :: string
  pr_final :: string

record stage_context =
  cx_session :: string
  cx_workflow :: string
  cx_version :: string
  cx_goal :: string
  cx_target :: string
  cx_stage :: workflow_stage
  cx_guidance :: string
  cx_prior :: "prior_result list"

record evidence_ref =
  er_stage :: string
  er_evidence_id :: string
  er_evidence_hash :: string

definition validate_evidence_ref :: "evidence_ref \<Rightarrow> evidence_ref res" where
  "validate_evidence_ref e =
     res_bind (ensure (bounded_text 1 64 (er_stage e) \<and> bounded_text 1 128 (er_evidence_id e)
                 \<and> is_hex64 (er_evidence_hash e)) (ValueError ''field'')) (\<lambda>_. Inr e)"

record bound_context =
  bc_session :: string
  bc_workflow :: string
  bc_version :: string
  bc_stage :: string
  bc_goal :: string
  bc_target :: string
  bc_workflow_fp :: string
  bc_node_fp :: string
  bc_prior :: "prior_result list"
  bc_evidence :: "evidence_ref list"

definition target_text :: "wf_state \<Rightarrow> string" where
  "target_text s = (case en_target (ts_env s) of None \<Rightarrow> [] | Some t \<Rightarrow> t)"

definition last_n :: "nat \<Rightarrow> 'a list \<Rightarrow> 'a list" where
  "last_n k xs = drop (length xs - k) xs"

definition redact_prior :: "prior_result \<Rightarrow> prior_result" where
  "redact_prior p =
     \<lparr>pr_stage = take 64 (pr_stage p), pr_success = pr_success p,
      pr_summary = take 400 (redact_text (pr_summary p)),
      pr_final = take 1000 (redact_text (pr_final p))\<rparr>"

text \<open>A stored result counts as the verified completion of a node when it is bound to it.\<close>

definition bound_result ::
  "platform \<Rightarrow> string \<Rightarrow> string option \<Rightarrow> string \<Rightarrow> plan_node \<Rightarrow> active_result \<Rightarrow> bool" where
  "bound_result P session flow_fp k n a =
     (ar_session_id a = session \<and> ar_node_id a = k \<and> Some (ar_workflow_fp a) = flow_fp
      \<and> ar_node_fp a = material_fingerprint (sha_node P) n)"

definition context_matches :: "wf_state \<Rightarrow> stage_context \<Rightarrow> bool" where
  "context_matches s cx =
     (cx_session cx = ts_session_id s \<and> cx_goal cx = ts_objective s
      \<and> Some (cx_workflow cx) = en_workflow (ts_env s)
      \<and> Some (cx_version cx) = en_workflow_version (ts_env s)
      \<and> cx_target cx = target_text s
      \<and> (case map_of (g_nodes (ts_plan s)) (st_id (cx_stage cx)) of
           None \<Rightarrow> False
         | Some n \<Rightarrow> n_capability n = ''workflow_stage'' \<and> n_status n \<in> {''pending'', ''running''}
             \<and> n_description n = st_title (cx_stage cx)
             \<and> py_eq (JDict (n_params n)) (JDict (stage_params (cx_workflow cx) (cx_version cx) (cx_stage cx)))
             \<and> n_depends_on n = st_depends_on (cx_stage cx)
             \<and> list_all (\<lambda>d. case map_of (g_nodes (ts_plan s)) d of
                   None \<Rightarrow> False | Some m \<Rightarrow> n_status m = ''success'') (n_depends_on n)))"

definition dependency_evidence :: "platform \<Rightarrow> wf_state \<Rightarrow> string \<Rightarrow> evidence_ref list" where
  "dependency_evidence P s d =
     (case (map_of (g_nodes (ts_plan s)) d, map_of (ts_active_nodes s) d) of
        (Some m, Some a) \<Rightarrow>
          if n_status m = ''success'' \<and> bound_result P (ts_session_id s) (en_workflow_fp (ts_env s)) d m a
             \<and> ar_outcome a = Completed \<and> ar_gate_passed a
          then map (\<lambda>ob. \<lparr>er_stage = d, er_evidence_id = ob_evidence_id ob, er_evidence_hash = ob_evidence_hash ob\<rparr>)
                 (filter protected_success (ar_observations a))
          else []
      | _ \<Rightarrow> [])"

definition bound_stage_context :: "platform \<Rightarrow> wf_state \<Rightarrow> stage_context \<Rightarrow> bound_context res" where
  "bound_stage_context P s cx =
     (if \<not> context_matches s cx then
        Inl (ValueError ''stage context does not match the durable task plan'')
      else res_bind (node_at (ts_plan s) (st_id (cx_stage cx))) (\<lambda>n.
        let flow_fp = (case en_workflow_fp (ts_env s) of None \<Rightarrow> [] | Some f \<Rightarrow> f);
            nfp = material_fingerprint (sha_node P) n in
        res_bind (map_res validate_evidence_ref
            (take 8 (concat (map (dependency_evidence P s) (n_depends_on n))))) (\<lambda>refs.
        res_bind (ensure (is_hex64 flow_fp \<and> is_hex64 nfp) (ValueError ''fingerprint'')) (\<lambda>_.
          Inr \<lparr>bc_session = cx_session cx, bc_workflow = cx_workflow cx, bc_version = cx_version cx,
             bc_stage = st_id (cx_stage cx), bc_goal = cx_goal cx, bc_target = cx_target cx,
             bc_workflow_fp = flow_fp, bc_node_fp = nfp,
             bc_prior = map redact_prior (last_n 8 (cx_prior cx)), bc_evidence = refs\<rparr>))))"

record run_report =
  rp_session :: string
  rp_workflow :: string
  rp_version :: string
  rp_status :: task_status
  rp_goal :: string
  rp_target :: string
  rp_ready :: "string list"
  rp_completed :: "string list"
  rp_failed :: "string list"
  rp_needs_review :: "string list"
  rp_message :: string

section \<open>Budget and context properties\<close>

lemma validate_budget_Inr: "validate_budget b = Inr b' \<longleftrightarrow> b' = b \<and> is_ok (validate_budget b)"
  by (auto simp: validate_budget_def res_bind_eq_Inr validate_mission_budget_def)

definition budget_ok :: "core_budget \<Rightarrow> bool" where
  "budget_ok b \<longleftrightarrow> validate_budget b = Inr b"

lemma budget_ok_limits:
  "budget_ok b \<Longrightarrow> 0 \<le> bu_dispatches b \<and> bu_dispatches b \<le> mb_dispatches (bu_limits b)
     \<and> 0 \<le> bu_steps b \<and> bu_steps b \<le> mb_steps (bu_limits b)"
  by (auto simp: budget_ok_def validate_budget_def res_bind_eq_Inr)

lemma stop_reason_None:
  "stop_reason b n = Inr None \<longleftrightarrow> 1 \<le> n \<and> n \<le> 32 \<and> bu_dispatches b < mb_dispatches (bu_limits b)
     \<and> bu_steps b + n \<le> mb_steps (bu_limits b)"
  by (auto simp: stop_reason_def)

lemma reserve_Inr:
  "reserve b n = Inr b' \<Longrightarrow> budget_ok b'
     \<and> b' = b\<lparr>bu_dispatches := bu_dispatches b + 1, bu_steps := bu_steps b + n\<rparr>
     \<and> stop_reason b n = Inr None"
  by (auto simp: reserve_def res_bind_eq_Inr budget_ok_def validate_budget_Inr split: if_split_asm)

lemma reserve_ok:
  assumes "budget_ok b" and "stop_reason b n = Inr None"
  shows "is_ok (reserve b n)"
  using assms
  by (auto simp: stop_reason_None reserve_def budget_ok_def validate_budget_def
      validate_mission_budget_def res_bind_eq_Inr)

fun reserve_all :: "core_budget \<Rightarrow> int list \<Rightarrow> core_budget res" where
  "reserve_all b [] = Inr b"
| "reserve_all b (n # ns) = res_bind (reserve b n) (\<lambda>b'. reserve_all b' ns)"

lemma reserve_all_Inr:
  "reserve_all b ns = Inr b' \<Longrightarrow> budget_ok b \<Longrightarrow>
     budget_ok b' \<and> bu_limits b' = bu_limits b \<and> bu_dispatches b' = bu_dispatches b + int (length ns)
     \<and> bu_steps b' = bu_steps b + sum_list ns"
proof (induction ns arbitrary: b)
  case (Cons m ns)
  then obtain c where c: "reserve b m = Inr c" "reserve_all c ns = Inr b'"
    by (auto simp: res_bind_eq_Inr)
  from reserve_Inr [OF c(1)] Cons.IH [OF c(2)] show ?case by auto
qed simp

text \<open>
  C35: A budget in a valid state reserves a stage exactly when \<open>stop_reason\<close> is empty. However many
  reservations are made in a row, the budget stays valid, its limits never change, and the
  dispatches and steps reserved are exactly accounted for and never exceed the limits.
\<close>
theorem budget_never_exceeded:
  assumes "budget_ok b"
  shows "(is_ok (reserve b n) \<longleftrightarrow> stop_reason b n = Inr None)
    \<and> (\<forall>ns b'. reserve_all b ns = Inr b' \<longrightarrow>
        budget_ok b' \<and> bu_limits b' = bu_limits b
        \<and> bu_dispatches b' = bu_dispatches b + int (length ns) \<and> bu_steps b' = bu_steps b + sum_list ns
        \<and> bu_dispatches b + int (length ns) \<le> mb_dispatches (bu_limits b)
        \<and> bu_steps b + sum_list ns \<le> mb_steps (bu_limits b))"
proof (intro conjI allI impI)
  show "is_ok (reserve b n) = (stop_reason b n = Inr None)"
    using reserve_ok [OF assms] reserve_Inr [of b n] by (auto simp: is_ok_iff)
next
  fix ns b' assume r: "reserve_all b ns = Inr b'"
  note c = reserve_all_Inr [OF r assms]
  from c show "budget_ok b'" "bu_limits b' = bu_limits b" "bu_dispatches b' = bu_dispatches b + int (length ns)"
    "bu_steps b' = bu_steps b + sum_list ns" by auto
  from c budget_ok_limits [of b'] show "bu_dispatches b + int (length ns) \<le> mb_dispatches (bu_limits b)"
    "bu_steps b + sum_list ns \<le> mb_steps (bu_limits b)" by auto
qed

definition sample_budget :: core_budget where
  "sample_budget = \<lparr>bu_limits = \<lparr>mb_dispatches = 2, mb_steps = 10\<rparr>, bu_dispatches = 0, bu_steps = 0\<rparr>"

theorem budget_never_exceeded_witness: "\<exists>c. reserve sample_budget 4 = Inr c"
proof -
  have "budget_ok sample_budget" "stop_reason sample_budget 4 = Inr None"
    by (simp_all add: budget_ok_def validate_budget_def validate_mission_budget_def sample_budget_def
        stop_reason_def)
  with budget_never_exceeded [of sample_budget 4] show ?thesis by (auto simp: is_ok_iff)
qed

lemma dependency_evidence_in:
  "e \<in> set (dependency_evidence P s d) \<Longrightarrow>
     \<exists>m a. map_of (g_nodes (ts_plan s)) d = Some m \<and> map_of (ts_active_nodes s) d = Some a
       \<and> n_status m = ''success'' \<and> bound_result P (ts_session_id s) (en_workflow_fp (ts_env s)) d m a
       \<and> ar_outcome a = Completed \<and> ar_gate_passed a \<and> er_stage e = d
       \<and> (\<exists>ob \<in> set (ar_observations a). protected_success ob
            \<and> er_evidence_id e = ob_evidence_id ob \<and> er_evidence_hash e = ob_evidence_hash ob)"
  by (cases "map_of (g_nodes (ts_plan s)) d"; cases "map_of (ts_active_nodes s) d")
     (auto simp: dependency_evidence_def split: if_split_asm)

lemma validate_evidence_ref_Inr: "validate_evidence_ref e = Inr e' \<Longrightarrow> e' = e"
  by (auto simp: validate_evidence_ref_def res_bind_eq_Inr)

lemma map_res_same: "map_res f xs = Inr ys \<Longrightarrow> (\<And>x y. f x = Inr y \<Longrightarrow> y = x) \<Longrightarrow> ys = xs"
  by (induction xs arbitrary: ys) (auto simp: res_bind_eq_Inr)

text \<open>
  A stage is only ever bound to a plan node that is pending or running in the same session
  with every dependency successful, and the at most eight evidence references it receives all
  come from protected successful observations of dependencies whose completed, gated result is
  bound to this session, workflow and node.
\<close>
theorem bound_context_evidence:
  assumes "bound_stage_context P s cx = Inr bc"
  shows "bc_session bc = ts_session_id s \<and> length (bc_evidence bc) \<le> 8 \<and> length (bc_prior bc) \<le> 8
    \<and> (\<exists>n. map_of (g_nodes (ts_plan s)) (bc_stage bc) = Some n \<and> n_status n \<in> {''pending'', ''running''}
        \<and> bc_node_fp bc = material_fingerprint (sha_node P) n
        \<and> (\<forall>d \<in> set (n_depends_on n). status_of (ts_plan s) d = ''success'')
        \<and> (\<forall>e \<in> set (bc_evidence bc). er_stage e \<in> set (n_depends_on n) \<and>
             (\<exists>m a. map_of (g_nodes (ts_plan s)) (er_stage e) = Some m
                \<and> map_of (ts_active_nodes s) (er_stage e) = Some a
                \<and> bound_result P (ts_session_id s) (en_workflow_fp (ts_env s)) (er_stage e) m a
                \<and> ar_outcome a = Completed \<and> ar_gate_passed a
                \<and> (\<exists>ob \<in> set (ar_observations a). protected_success ob
                     \<and> er_evidence_hash e = ob_evidence_hash ob))))"
proof -
  from assms obtain n refs where m: "context_matches s cx"
    and n: "map_of (g_nodes (ts_plan s)) (st_id (cx_stage cx)) = Some n"
    and refs: "map_res validate_evidence_ref
      (take 8 (concat (map (dependency_evidence P s) (n_depends_on n)))) = Inr refs"
    and bc: "bc_session bc = cx_session cx" "bc_evidence bc = refs" "bc_stage bc = st_id (cx_stage cx)"
      "bc_node_fp bc = material_fingerprint (sha_node P) n" "bc_prior bc = map redact_prior (last_n 8 (cx_prior cx))"
    by (auto simp: bound_stage_context_def node_at_def res_bind_eq_Inr Let_def
        split: if_split_asm option.splits)
  from map_res_same [OF refs validate_evidence_ref_Inr]
  have r: "refs = take 8 (concat (map (dependency_evidence P s) (n_depends_on n)))" .
  then have in_dep: "\<exists>d \<in> set (n_depends_on n). e \<in> set (dependency_evidence P s d)" if "e \<in> set refs" for e
    using that by (auto dest: in_set_takeD)
  have "\<forall>d \<in> set (n_depends_on n). status_of (ts_plan s) d = ''success''"
    using m n by (auto simp: context_matches_def status_of_def node_of_def list_all_iff split: option.splits)
  moreover have "cx_session cx = ts_session_id s" "n_status n \<in> {''pending'', ''running''}"
    using m n by (auto simp: context_matches_def)
  ultimately show ?thesis
    using n bc r in_dep by (fastforce simp: last_n_def dest: dependency_evidence_in)
qed

definition sample_platform :: platform where
  "sample_platform = \<lparr>sha_node = (\<lambda>_. sample_hash), sha_spec = (\<lambda>_. sample_hash),
     sha_intent = (\<lambda>_. sample_hash), sha_state = (\<lambda>_. sample_hash), sha_decision = (\<lambda>_. sample_hash),
     sha_active = (\<lambda>_. sample_hash), sha_path = (\<lambda>_. sample_hash), resolve_path = Some\<rparr>"

definition empty_env :: core_env where
  "empty_env = \<lparr>en_workflow = None, en_workflow_version = None, en_workflow_fp = None, en_target = None,
     en_selection = None, en_strategy = None, en_decision = None, en_consumed = None, en_budget = None,
     en_stop = None, en_dispatch = None, en_origin = None, en_transition = None, en_resolution = None\<rparr>"

definition sample_plan :: plan_graph where
  "sample_plan = \<lparr>g_goal = ''goal'', g_nodes =
     [(''scan'', mark_node ''success'' [] (stage_node sample_spec (sample_stage ''scan'' [] Agent))),
      (''approve'', stage_node sample_spec (sample_stage ''approve'' [''scan''] Human))],
     g_reasoning = ''workflow:audit@1''\<rparr>"

definition sample_run :: wf_state where
  "sample_run = \<lparr>ts_session_id = ''s1'', ts_revision = 0, ts_objective = ''goal'', ts_mode = Coding,
     ts_scope = \<lparr>sv_read_roots = [], sv_write_roots = [], sv_targets = [], sv_allow_destructive = False\<rparr>,
     ts_constraints = [],
     ts_env = empty_env\<lparr>en_workflow := Some ''audit'', en_workflow_version := Some ''1'',
       en_workflow_fp := Some sample_hash, en_target := Some []\<rparr>,
     ts_hypotheses = [], ts_plan = sample_plan, ts_actions = [],
     ts_observations = [], ts_findings = [], ts_artifacts = [],
     ts_active_nodes = [(''scan'', sample_active)], ts_questions = [],
     ts_completion = [], ts_status = Investigating\<rparr>"

definition sample_context :: stage_context where
  "sample_context = \<lparr>cx_session = ''s1'', cx_workflow = ''audit'', cx_version = ''1'', cx_goal = ''goal'',
     cx_target = [], cx_stage = sample_stage ''approve'' [''scan''] Human, cx_guidance = [], cx_prior = []\<rparr>"

definition sample_bound :: bound_context where
  "sample_bound = \<lparr>bc_session = ''s1'', bc_workflow = ''audit'', bc_version = ''1'', bc_stage = ''approve'',
     bc_goal = ''goal'', bc_target = [], bc_workflow_fp = sample_hash, bc_node_fp = sample_hash,
     bc_prior = [], bc_evidence = [\<lparr>er_stage = ''scan'', er_evidence_id = ''E1'', er_evidence_hash = sample_hash\<rparr>]\<rparr>"

lemma sample_bound_ok: "bound_stage_context sample_platform sample_run sample_context = Inr sample_bound"
  by code_simp

theorem bound_context_evidence_witness:
  "\<exists>m. map_of (g_nodes sample_plan) ''scan'' = Some m"
  using bound_context_evidence [OF sample_bound_ok] by (auto simp: sample_bound_def sample_run_def)

end
