(* ===== verification/CorePlanner.thy ===== *)
theory CorePlanner
  imports CoreModels "HOL-Library.Product_Lexorder"
begin

text \<open>
  The workflow registry and the Core planner of \<open>workflows/registry.py\<close>: the selection of one
  reviewed workflow for an intent, and the decision that names the next step of a mission. The
  lemmas characterise when work is delegated, and show that a decision for a well-formed mission
  always exists and passes its own validators.
\<close>

section \<open>Registry\<close>

type_synonym registry = "(string, workflow_spec) dict"

text \<open>
  One entry per playbook file in the order of the scan: an error (\<open>OSError\<close>, \<open>YAMLError\<close>,
  \<open>ValueError\<close>) is skipped, as is a file without a workflow; a later file replaces an earlier one
  of the same name.
\<close>

fun load_registry :: "workflow_spec option res list \<Rightarrow> registry \<Rightarrow> registry" where
  "load_registry [] reg = reg"
| "load_registry (f # fs) reg = load_registry fs
     (case f of Inr (Some w) \<Rightarrow> dict_set (sp_name w) w reg | _ \<Rightarrow> reg)"

definition registry_all :: "registry \<Rightarrow> workflow_spec list" where
  "registry_all reg = sort_key sp_name (map snd reg)"

definition registry_get :: "registry \<Rightarrow> string \<Rightarrow> workflow_spec option" where
  "registry_get reg name = map_of reg name"

section \<open>Selection\<close>

definition dict_from :: "('k \<times> 'v) list \<Rightarrow> ('k, 'v) dict" where
  "dict_from kvs = fold (\<lambda>(k, v). dict_set k v) kvs []"

definition unresolved :: "platform \<Rightarrow> core_intent \<Rightarrow> select_reason \<Rightarrow> select_outcome \<Rightarrow> selection res" where
  "unresolved P i reason outcome = make_selection
     \<lparr>se_intent_fp = intent_fingerprint P i, se_outcome = outcome, se_reason = reason,
      se_workflow = None, se_criteria = []\<rparr>"

text \<open>The loop over the pins: a reason to stop, or the specifications that match.\<close>

fun candidates ::
  "platform \<Rightarrow> registry \<Rightarrow> core_intent \<Rightarrow> reviewed_workflow list \<Rightarrow> (select_reason + workflow_spec list) res" where
  "candidates P reg i [] = Inr (Inr [])"
| "candidates P reg i (pin # pins) = (case registry_get reg (rw_name pin) of
     None \<Rightarrow> Inr (Inl MissingOrChanged)
   | Some current \<Rightarrow>
       res_bind (validate_spec (resolve_path P) current) (\<lambda>sp.
         if sp_version sp \<noteq> rw_version pin \<or> spec_fingerprint P sp \<noteq> rw_fingerprint pin then
           Inr (Inl MissingOrChanged)
         else if sp_mode sp \<noteq> ci_mode i \<and> ci_workflow i \<noteq> [] then Inr (Inl ModeMismatch)
         else res_bind (candidates P reg i pins) (\<lambda>rest. case rest of
             Inl reason \<Rightarrow> Inr (Inl reason)
           | Inr sps \<Rightarrow> Inr (Inr (if sp_mode sp \<noteq> ci_mode i then sps else sp # sps)))))"

definition select_chosen :: "platform \<Rightarrow> core_intent \<Rightarrow> workflow_spec \<Rightarrow> selection res" where
  "select_chosen P i chosen =
     res_bind (validate_pin \<lparr>rw_name = sp_name chosen, rw_version = sp_version chosen,
                 rw_fingerprint = spec_fingerprint P chosen\<rparr>) (\<lambda>w.
       make_selection \<lparr>se_intent_fp = intent_fingerprint P i, se_outcome = Selected,
         se_reason = (if ci_workflow i \<noteq> [] then ExplicitSelected else OnlyCompatible),
         se_workflow = Some w,
         se_criteria = dict_from (map (\<lambda>st. (st_id st, st_gate st)) (sp_stages chosen))\<rparr>)"

definition select :: "platform \<Rightarrow> registry \<Rightarrow> core_intent \<Rightarrow> reviewed_workflow list \<Rightarrow> selection res" where
  "select P reg intent reviewed =
     res_bind (validate_intent intent) (\<lambda>i.
     res_bind (ensure (length reviewed \<le> 64)
                 (ValueError ''reviewed workflows must be unique and bounded to 64'')) (\<lambda>_.
     res_bind (map_res validate_pin reviewed) (\<lambda>pins.
     res_bind (ensure (distinct (map rw_name pins))
                 (ValueError ''reviewed workflows must be unique and bounded to 64'')) (\<lambda>_.
     let named = (if ci_workflow i \<noteq> [] then filter (\<lambda>p. rw_name p = ci_workflow i) pins else pins) in
     if ci_workflow i \<noteq> [] \<and> named = [] then unresolved P i NotReviewed SelectBlocked
     else res_bind (candidates P reg i named) (\<lambda>found. case found of
         Inl reason \<Rightarrow> unresolved P i reason SelectBlocked
       | Inr [] \<Rightarrow> unresolved P i NoneMatches NeedsInput
       | Inr [chosen] \<Rightarrow> select_chosen P i chosen
       | Inr (_ # _ # _) \<Rightarrow> unresolved P i MultipleMatch NeedsInput)))))"

section \<open>Review requests\<close>

definition is_human :: "workflow_stage \<Rightarrow> bool" where
  "is_human st = (st_execution st = Human)"

definition stage_relevant :: "wf_state \<Rightarrow> decision_outcome \<Rightarrow> decision_reason \<Rightarrow> plan_node \<Rightarrow> bool" where
  "stage_relevant s outcome reason n =
     (if outcome = DecFailed then n_status n = ''error''
      else n_status n \<in> {''running'', ''needs_review''} \<or> en_dispatch (ts_env s) = Some (n_id n)
        \<or> n_status n = ''success'' \<and> reason = UnverifiedWork)"

definition material_cause :: "active_outcome \<Rightarrow> escalation_kind \<Rightarrow> bool" where
  "material_cause outcome kind = (outcome = NeedsReplan \<or> kind = EscMaterialChange)"

definition mission_review :: "string \<Rightarrow> string \<Rightarrow> review_request res" where
  "mission_review stage fp = validate_review
     \<lparr>rq_category = PlainReview, rq_reason = MissionReason, rq_stage = stage, rq_node_fp = fp,
      rq_active_fp = [], rq_outcome = None, rq_kind = None\<rparr>"

definition stage_review :: "platform \<Rightarrow> wf_state \<Rightarrow> workflow_spec \<Rightarrow> plan_node \<Rightarrow> review_request res" where
  "stage_review P s sp n =
     (let nfp = material_fingerprint (sha_node P) n;
          plain = mission_review (n_id n) nfp in
      case map_of (ts_active_nodes s) (n_id n) of
        None \<Rightarrow> plain
      | Some a \<Rightarrow> (case ar_escalation a of
            None \<Rightarrow> plain
          | Some e \<Rightarrow>
              if bound_result P (ts_session_id s) (Some (spec_fingerprint P sp)) (n_id n) n a
                 \<and> ar_outcome a \<noteq> Completed
              then (let material = material_cause (ar_outcome a) (esc_kind e) in validate_review
                \<lparr>rq_category = (if material then MaterialReplan else EscalationReview),
                 rq_reason = (if material then MaterialReason else EscalationReason),
                 rq_stage = n_id n, rq_node_fp = nfp, rq_active_fp = sha_active P a,
                 rq_outcome = Some (ar_outcome a), rq_kind = Some (esc_kind e)\<rparr>)
              else plain))"

fun review_stages ::
  "platform \<Rightarrow> wf_state \<Rightarrow> workflow_spec \<Rightarrow> decision_outcome \<Rightarrow> decision_reason \<Rightarrow> workflow_stage list
     \<Rightarrow> review_request res" where
  "review_stages P s sp outcome reason [] = mission_review [] []"
| "review_stages P s sp outcome reason (st # sts) =
     res_bind (node_at (ts_plan s) (st_id st)) (\<lambda>n.
       if \<not> stage_relevant s outcome reason n \<or> is_human st then review_stages P s sp outcome reason sts
       else stage_review P s sp n)"

section \<open>Decisions\<close>

definition base_decision :: "platform \<Rightarrow> wf_state \<Rightarrow> workflow_spec \<Rightarrow> core_decision" where
  "base_decision P s sp =
     \<lparr>cd_session = ts_session_id s, cd_version = ts_revision s,
      cd_state_fp = core_state_fingerprint P s, cd_workflow_fp = spec_fingerprint P sp,
      cd_outcome = Stopped, cd_reason = MissionStopped, cd_stage = [], cd_node_fp = [],
      cd_max_steps = 0, cd_review = None\<rparr>"

definition stop_with ::
  "platform \<Rightarrow> wf_state \<Rightarrow> workflow_spec \<Rightarrow> decision_outcome \<Rightarrow> decision_reason \<Rightarrow> core_decision res" where
  "stop_with P s sp outcome reason =
     res_bind (if outcome \<in> {NeedsReview, DecFailed, BudgetExhausted}
               then res_bind (review_stages P s sp outcome reason (sp_stages sp)) (\<lambda>r. Inr (Some r))
               else Inr None) (\<lambda>rq.
       validate_decision ((base_decision P s sp)\<lparr>cd_outcome := outcome, cd_reason := reason, cd_review := rq\<rparr>))"

fun any_interrupted :: "workflow_spec \<Rightarrow> plan_node list \<Rightarrow> bool res" where
  "any_interrupted sp [] = Inr False"
| "any_interrupted sp (n # ns) =
     (if n_status n = ''running'' then Inr True
      else if n_status n = ''needs_review'' then
        res_bind (find_stage sp (n_id n)) (\<lambda>st. if \<not> is_human st then Inr True else any_interrupted sp ns)
      else any_interrupted sp ns)"

definition verified :: "platform \<Rightarrow> wf_state \<Rightarrow> workflow_spec \<Rightarrow> plan_node \<Rightarrow> bool" where
  "verified P s sp n = (case map_of (ts_active_nodes s) (n_id n) of
     None \<Rightarrow> False
   | Some a \<Rightarrow> bound_result P (ts_session_id s) (Some (spec_fingerprint P sp)) (n_id n) n a
       \<and> ar_outcome a = Completed \<and> ar_gate_passed a)"

fun any_unverified :: "platform \<Rightarrow> wf_state \<Rightarrow> workflow_spec \<Rightarrow> plan_node list \<Rightarrow> bool res" where
  "any_unverified P s sp [] = Inr False"
| "any_unverified P s sp (n # ns) =
     (if n_status n \<noteq> ''success'' then any_unverified P s sp ns
      else res_bind (find_stage sp (n_id n)) (\<lambda>st.
        if is_human st \<or> verified P s sp n then any_unverified P s sp ns else Inr True))"

fun startable :: "plan_graph \<Rightarrow> plan_node list \<Rightarrow> plan_node list res" where
  "startable g [] = Inr []"
| "startable g (n # ns) =
     res_bind (if n_status n \<in> {''pending'', ''needs_review''} then deps_success g (n_depends_on n)
               else Inr False) (\<lambda>ok.
     res_bind (startable g ns) (\<lambda>rest. Inr (if ok then n # rest else rest)))"

text \<open>\<open>stage_order\<close>: the position of a stage, the last one where an id is repeated.\<close>

definition stage_index :: "workflow_spec \<Rightarrow> string \<Rightarrow> nat res" where
  "stage_index sp k =
     (case map_of (rev (zip (map st_id (sp_stages sp)) [0 ..< length (sp_stages sp)])) k of
        None \<Rightarrow> Inl (KeyError k) | Some i \<Rightarrow> Inr i)"

definition rank_ready :: "workflow_spec \<Rightarrow> plan_node list \<Rightarrow> plan_node list res" where
  "rank_ready sp ns =
     res_bind (map_res (\<lambda>n. res_bind (stage_index sp (n_id n)) (\<lambda>i.
         Inr ((if n_status n \<noteq> ''needs_review'' then 1 else 0 :: nat, i), n))) ns) (\<lambda>keyed.
       Inr (map snd (sort_key fst keyed)))"

definition pending_dispatch :: "wf_state \<Rightarrow> bool" where
  "pending_dispatch s = (case en_dispatch (ts_env s) of None \<Rightarrow> False | Some k \<Rightarrow> k \<noteq> [])"

definition selected_pin :: "platform \<Rightarrow> wf_state \<Rightarrow> workflow_spec \<Rightarrow> unit res" where
  "selected_pin P s sp =
     res_bind (case en_selection (ts_env s) of None \<Rightarrow> Inl (ValueError ''core_selection'')
               | Some sel \<Rightarrow> validate_selection (resolve_path P) sel) (\<lambda>sel.
       case se_workflow sel of
         None \<Rightarrow> Inl (ValueError ''Core delegation requires the selected reviewed workflow'')
       | Some w \<Rightarrow> ensure (rw_fingerprint w = spec_fingerprint P sp)
           (ValueError ''Core delegation requires the selected reviewed workflow''))"

definition strategy_holds :: "platform \<Rightarrow> wf_state \<Rightarrow> workflow_spec \<Rightarrow> string \<Rightarrow> unit res" where
  "strategy_holds P s sp msg =
     (case en_strategy (ts_env s) of
        None \<Rightarrow> Inr ()
      | Some c \<Rightarrow>
          res_bind (validate_strategy c) (\<lambda>c.
          res_bind (strategy_of P sp) (\<lambda>c'. ensure (c = c') (ValueError msg))))"

text \<open>The last part of \<open>decide\<close>: the first ready stage, within the budget.\<close>

definition decide_stage :: "platform \<Rightarrow> wf_state \<Rightarrow> workflow_spec \<Rightarrow> plan_node \<Rightarrow> core_decision res" where
  "decide_stage P s sp n =
     res_bind (find_stage sp (n_id n)) (\<lambda>st.
     let human = is_human st in
     res_bind (if human then Inr None
               else (case en_budget (ts_env s) of
                   None \<Rightarrow> Inr None
                 | Some b \<Rightarrow> res_bind (validate_budget b) (\<lambda>b. stop_reason b (st_max_steps st)))) (\<lambda>over.
     case over of
       Some reason \<Rightarrow> stop_with P s sp BudgetExhausted reason
     | None \<Rightarrow>
         if ts_status s = TaskBlocked \<and> \<not> human then stop_with P s sp NeedsReview OpenQuestions
         else validate_decision ((base_decision P s sp)
           \<lparr>cd_outcome := (if human then AwaitApproval else Delegate),
            cd_reason := (if human then HumanGate else OneReadyStage),
            cd_stage := n_id n, cd_node_fp := material_fingerprint (sha_node P) n,
            cd_max_steps := (if human then 0 else st_max_steps st)\<rparr>)))"

definition decide_ready :: "platform \<Rightarrow> wf_state \<Rightarrow> workflow_spec \<Rightarrow> plan_node list \<Rightarrow> core_decision res" where
  "decide_ready P s sp nodes =
     (if nodes \<noteq> [] \<and> list_all (\<lambda>n. n_status n = ''success'') nodes then
        (if ts_completion s \<noteq> [] then stop_with P s sp NeedsReview OpenQuestions
         else stop_with P s sp DecComplete AllBound)
      else res_bind (startable (ts_plan s) nodes) (\<lambda>ready.
        res_bind (rank_ready sp ready) (\<lambda>ranked.
          case ranked of
            [] \<Rightarrow> stop_with P s sp NeedsReview OpenQuestions
          | n # _ \<Rightarrow>
              if ts_status s = TaskComplete then stop_with P s sp NeedsReview OpenQuestions
              else decide_stage P s sp n)))"

definition decide_nodes :: "platform \<Rightarrow> wf_state \<Rightarrow> workflow_spec \<Rightarrow> plan_node list \<Rightarrow> core_decision res" where
  "decide_nodes P s sp nodes =
     (case en_stop (ts_env s) of
        Some m \<Rightarrow>
          res_bind (validate_stop m) (\<lambda>m.
            if cd_session (cm_decision m) \<noteq> ts_session_id s
            then Inl (ValueError ''Core stop requires matching mission provenance'')
            else stop_with P s sp Stopped MissionStopped)
      | None \<Rightarrow>
          if ts_status s = TaskFailed \<or> list_ex (\<lambda>n. n_status n = ''error'') nodes then
            stop_with P s sp DecFailed WorkflowFailure
          else res_bind (if pending_dispatch s then Inr True else any_interrupted sp nodes) (\<lambda>interrupted.
            if interrupted then stop_with P s sp NeedsReview InterruptedWork
            else res_bind (any_unverified P s sp nodes) (\<lambda>unverified.
              if unverified then stop_with P s sp NeedsReview UnverifiedWork
              else if ts_questions s \<noteq> [] then stop_with P s sp NeedsReview OpenQuestions
              else decide_ready P s sp nodes)))"

definition decide :: "platform \<Rightarrow> wf_state \<Rightarrow> workflow_spec \<Rightarrow> core_decision res" where
  "decide P s sp =
     res_bind (selected_pin P s sp) (\<lambda>_.
     res_bind (strategy_holds P s sp ''Core strategy no longer matches the reviewed workflow'') (\<lambda>_.
     res_bind (topological_order (ts_plan s)) (\<lambda>nodes. decide_nodes P s sp nodes)))"

section \<open>What a decision says\<close>

lemma validate_decision_same: "validate_decision d = Inr d' \<Longrightarrow> d' = d"
  by (auto simp: validate_decision_def res_bind_eq_Inr)

lemma validate_decision_steps: "validate_decision d = Inr d' \<Longrightarrow> (cd_outcome d = Delegate) = (0 < cd_max_steps d)"
  by (auto simp: validate_decision_def res_bind_eq_Inr)

lemma stop_with_Inr:
  "stop_with P s sp outcome reason = Inr d \<Longrightarrow>
     \<exists>rq. d = (base_decision P s sp)\<lparr>cd_outcome := outcome, cd_reason := reason, cd_review := rq\<rparr>
       \<and> (rq \<noteq> None \<longleftrightarrow> outcome \<in> {NeedsReview, DecFailed, BudgetExhausted})"
  unfolding stop_with_def
  by (elim res_bind_InrE) (auto dest!: validate_decision_same simp: res_bind_eq_Inr split: if_split_asm)

lemma stop_with_outcome: "stop_with P s sp outcome reason = Inr d \<Longrightarrow> cd_outcome d = outcome"
  by (drule stop_with_Inr) auto

lemma find_stage_Inr: "find_stage sp k = Inr st \<Longrightarrow> st \<in> set (sp_stages sp) \<and> st_id st = k"
  by (auto simp: find_stage_def find_Some_iff split: option.splits)

lemma any_interrupted_False:
  "any_interrupted sp ns = Inr False \<Longrightarrow> n \<in> set ns \<Longrightarrow> n_status n \<noteq> ''running'' \<and>
     (n_status n = ''needs_review'' \<longrightarrow> (\<exists>st. find_stage sp (n_id n) = Inr st \<and> is_human st))"
  by (induction ns) (auto simp: res_bind_eq_Inr split: if_split_asm)

lemma any_unverified_False:
  "any_unverified P s sp ns = Inr False \<Longrightarrow> n \<in> set ns \<Longrightarrow> n_status n = ''success'' \<Longrightarrow>
     \<exists>st. find_stage sp (n_id n) = Inr st \<and> (is_human st \<or> verified P s sp n)"
  by (induction ns) (auto simp: res_bind_eq_Inr split: if_split_asm)

lemma startable_in:
  "startable g ns = Inr ready \<Longrightarrow> n \<in> set ready \<Longrightarrow>
     n \<in> set ns \<and> n_status n \<in> {''pending'', ''needs_review''} \<and> deps_success g (n_depends_on n) = Inr True"
  by (induction ns arbitrary: ready) (auto simp: res_bind_eq_Inr split: if_split_asm)

lemma rank_ready_set: "rank_ready sp ns = Inr ms \<Longrightarrow> set ms = set ns"
proof -
  assume "rank_ready sp ns = Inr ms"
  then obtain keyed where k: "map_res (\<lambda>n. res_bind (stage_index sp (n_id n)) (\<lambda>i.
         Inr ((if n_status n \<noteq> ''needs_review'' then 1 else 0 :: nat, i), n))) ns = Inr keyed"
    and m: "ms = map snd (sort_key fst keyed)" by (auto simp: rank_ready_def res_bind_eq_Inr)
  from k have "map snd keyed = ns"
    by (induction ns arbitrary: keyed) (auto simp: res_bind_eq_Inr)
  moreover have "set ms = set (map snd keyed)" unfolding m by simp
  ultimately show ?thesis by simp
qed

lemma deps_success_True:
  "deps_success g ds = Inr True \<Longrightarrow> \<forall>d \<in> set ds. \<exists>m. map_of (g_nodes g) d = Some m \<and> n_status m = ''success''"
  by (induction ds) (auto simp: res_bind_eq_Inr node_at_def split: if_split_asm option.splits)

text \<open>A node that may be delegated: pending, an agent's stage, its dependencies successful, in budget.\<close>

definition delegable :: "wf_state \<Rightarrow> workflow_spec \<Rightarrow> plan_node \<Rightarrow> workflow_stage \<Rightarrow> bool" where
  "delegable s sp n st \<longleftrightarrow>
     find_stage sp (n_id n) = Inr st \<and> \<not> is_human st \<and> n_status n = ''pending''
     \<and> (\<forall>d \<in> set (n_depends_on n). \<exists>m. map_of (g_nodes (ts_plan s)) d = Some m \<and> n_status m = ''success'')
     \<and> (\<forall>b. en_budget (ts_env s) = Some b \<longrightarrow> budget_ok b \<and> stop_reason b (st_max_steps st) = Inr None)"

text \<open>A mission in which automatic work may go on: nothing stopped, failed, interrupted or unverified.\<close>

definition mission_clear :: "platform \<Rightarrow> wf_state \<Rightarrow> workflow_spec \<Rightarrow> plan_node list \<Rightarrow> bool" where
  "mission_clear P s sp nodes \<longleftrightarrow>
     en_stop (ts_env s) = None \<and> ts_status s = Investigating \<and> \<not> pending_dispatch s \<and> ts_questions s = []
     \<and> (\<forall>n \<in> set nodes. n_status n \<notin> {''error'', ''running''}
          \<and> (n_status n = ''needs_review'' \<longrightarrow> (\<exists>st. find_stage sp (n_id n) = Inr st \<and> is_human st))
          \<and> (n_status n = ''success'' \<longrightarrow>
               (\<exists>st. find_stage sp (n_id n) = Inr st \<and> (is_human st \<or> verified P s sp n))))"

lemma decide_stage_delegate:
  assumes "decide_stage P s sp n = Inr d" and "cd_outcome d = Delegate"
  shows "\<exists>st. find_stage sp (n_id n) = Inr st \<and> \<not> is_human st \<and> ts_status s \<noteq> TaskBlocked
    \<and> (\<forall>b. en_budget (ts_env s) = Some b \<longrightarrow> budget_ok b \<and> stop_reason b (st_max_steps st) = Inr None)
    \<and> d = (base_decision P s sp)\<lparr>cd_outcome := Delegate, cd_reason := OneReadyStage, cd_stage := n_id n,
         cd_node_fp := material_fingerprint (sha_node P) n, cd_max_steps := st_max_steps st\<rparr>"
proof -
  from assms(1) obtain st over where st: "find_stage sp (n_id n) = Inr st"
    and over: "(if is_human st then Inr None
               else (case en_budget (ts_env s) of
                   None \<Rightarrow> Inr None
                 | Some b \<Rightarrow> res_bind (validate_budget b) (\<lambda>b. stop_reason b (st_max_steps st)))) = Inr over"
    and rest: "(case over of
       Some reason \<Rightarrow> stop_with P s sp BudgetExhausted reason
     | None \<Rightarrow>
         if ts_status s = TaskBlocked \<and> \<not> is_human st then stop_with P s sp NeedsReview OpenQuestions
         else validate_decision ((base_decision P s sp)
           \<lparr>cd_outcome := (if is_human st then AwaitApproval else Delegate),
            cd_reason := (if is_human st then HumanGate else OneReadyStage),
            cd_stage := n_id n, cd_node_fp := material_fingerprint (sha_node P) n,
            cd_max_steps := (if is_human st then 0 else st_max_steps st)\<rparr>)) = Inr d"
    unfolding decide_stage_def Let_def by (elim res_bind_InrE)
  have none: "over = None"
  proof (cases over)
    case (Some r)
    with rest have "stop_with P s sp BudgetExhausted r = Inr d" by simp
    from stop_with_outcome [OF this] assms(2) show ?thesis by simp
  qed
  have blocked: "\<not> (ts_status s = TaskBlocked \<and> \<not> is_human st)"
  proof
    assume "ts_status s = TaskBlocked \<and> \<not> is_human st"
    with rest none have "stop_with P s sp NeedsReview OpenQuestions = Inr d" by simp
    from stop_with_outcome [OF this] assms(2) show False by simp
  qed
  with rest none have d: "d = (base_decision P s sp)
           \<lparr>cd_outcome := (if is_human st then AwaitApproval else Delegate),
            cd_reason := (if is_human st then HumanGate else OneReadyStage),
            cd_stage := n_id n, cd_node_fp := material_fingerprint (sha_node P) n,
            cd_max_steps := (if is_human st then 0 else st_max_steps st)\<rparr>"
    by (auto dest: validate_decision_same)
  with assms(2) have h: "\<not> is_human st" by (auto split: if_split_asm)
  have "budget_ok b \<and> stop_reason b (st_max_steps st) = Inr None" if "en_budget (ts_env s) = Some b" for b
    using over none h that by (auto simp: res_bind_eq_Inr budget_ok_def validate_budget_Inr)
  with st h blocked d show ?thesis by auto
qed

lemma decide_ready_delegate:
  assumes "decide_ready P s sp nodes = Inr d" and "cd_outcome d = Delegate"
  shows "\<exists>n. decide_stage P s sp n = Inr d \<and> n \<in> set nodes \<and> ts_status s \<noteq> TaskComplete
    \<and> n_status n \<in> {''pending'', ''needs_review''} \<and> deps_success (ts_plan s) (n_depends_on n) = Inr True"
proof -
  have stop: "stop_with P s sp outcome reason = Inr d \<Longrightarrow> outcome = Delegate" for outcome reason
    using stop_with_outcome assms(2) by metis
  from assms(1) have "\<not> (nodes \<noteq> [] \<and> list_all (\<lambda>n. n_status n = ''success'') nodes)"
    unfolding decide_ready_def by (auto dest: stop split: if_split_asm)
  with assms(1) obtain ready ranked where ready: "startable (ts_plan s) nodes = Inr ready"
    and ranked: "rank_ready sp ready = Inr ranked"
    and rest: "(case ranked of
            [] \<Rightarrow> stop_with P s sp NeedsReview OpenQuestions
          | n # _ \<Rightarrow>
              if ts_status s = TaskComplete then stop_with P s sp NeedsReview OpenQuestions
              else decide_stage P s sp n) = Inr d"
    unfolding decide_ready_def by (simp del: not_Cons_self) (elim res_bind_InrE, simp)
  from rest obtain n ns where n: "ranked = n # ns" "decide_stage P s sp n = Inr d" "ts_status s \<noteq> TaskComplete"
    by (cases ranked) (auto dest: stop split: if_split_asm)
  from rank_ready_set [OF ranked] n(1) have "n \<in> set ready" by auto
  from startable_in [OF ready this] n show ?thesis by auto
qed

lemma decide_nodes_delegate:
  assumes "decide_nodes P s sp nodes = Inr d" and "cd_outcome d = Delegate"
  shows "decide_ready P s sp nodes = Inr d \<and> en_stop (ts_env s) = None \<and> ts_status s \<noteq> TaskFailed
    \<and> \<not> pending_dispatch s \<and> ts_questions s = [] \<and> (\<forall>n \<in> set nodes. n_status n \<noteq> ''error'')
    \<and> any_interrupted sp nodes = Inr False \<and> any_unverified P s sp nodes = Inr False"
proof -
  have stop: "stop_with P s sp outcome reason = Inr d \<Longrightarrow> outcome = Delegate" for outcome reason
    using stop_with_outcome assms(2) by metis
  show ?thesis
    using assms(1) unfolding decide_nodes_def
    by (auto simp: res_bind_eq_Inr list_ex_iff split: if_split_asm option.split_asm dest!: stop)
qed

text \<open>
  C21: Core delegates work only for a mission that is not stopped, failed, blocked, interrupted or
  waiting for answers and whose finished agent stages all have a bound, gated Active result; the
  one stage it names is a pending agent stage with successful dependencies, and the steps it
  allocates are exactly the stage's own bound and fit the mission budget.
\<close>
theorem delegation_sound:
  assumes "decide P s sp = Inr d" and "cd_outcome d = Delegate"
  shows "\<exists>nodes n st. topological_order (ts_plan s) = Inr nodes \<and> n \<in> set nodes
    \<and> mission_clear P s sp nodes \<and> delegable s sp n st
    \<and> cd_stage d = st_id st \<and> cd_node_fp d = material_fingerprint (sha_node P) n
    \<and> cd_max_steps d = st_max_steps st \<and> cd_session d = ts_session_id s \<and> cd_version d = ts_revision s
    \<and> cd_review d = None"
proof -
  from assms(1) obtain nodes where o: "topological_order (ts_plan s) = Inr nodes"
    and d: "decide_nodes P s sp nodes = Inr d" by (auto simp: decide_def res_bind_eq_Inr)
  note dn = decide_nodes_delegate [OF d assms(2)]
  from decide_ready_delegate [OF conjunct1 [OF dn] assms(2)] obtain n where
    ds: "decide_stage P s sp n = Inr d" and n: "n \<in> set nodes" "ts_status s \<noteq> TaskComplete"
      "n_status n \<in> {''pending'', ''needs_review''}" "deps_success (ts_plan s) (n_depends_on n) = Inr True"
    by blast
  from decide_stage_delegate [OF ds assms(2)] obtain st where
    st: "find_stage sp (n_id n) = Inr st" "\<not> is_human st" "ts_status s \<noteq> TaskBlocked"
      "\<forall>b. en_budget (ts_env s) = Some b \<longrightarrow> budget_ok b \<and> stop_reason b (st_max_steps st) = Inr None"
    and dd: "d = (base_decision P s sp)\<lparr>cd_outcome := Delegate, cd_reason := OneReadyStage, cd_stage := n_id n,
         cd_node_fp := material_fingerprint (sha_node P) n, cd_max_steps := st_max_steps st\<rparr>" by blast
  from any_interrupted_False [of sp nodes n] dn n(1,3) st(1,2) have "n_status n = ''pending''" by auto
  then have del: "delegable s sp n st"
    using st deps_success_True [OF n(4)] by (simp add: delegable_def)
  have "ts_status s = Investigating" using dn n(2) st(3) by (cases "ts_status s") auto
  then have "mission_clear P s sp nodes"
    using dn any_interrupted_False [of sp nodes] any_unverified_False [of P s sp nodes]
    unfolding mission_clear_def by blast
  with o n(1) del show ?thesis
    using dd find_stage_Inr [OF st(1)]
    by (intro exI [of _ nodes] exI [of _ n] exI [of _ st]) (simp add: base_decision_def)
qed

section \<open>A decision always exists\<close>

text \<open>SHA-256 hexadecimal digests: 64 lowercase hexadecimal digits.\<close>

definition hex_digests :: "platform \<Rightarrow> bool" where
  "hex_digests P \<longleftrightarrow> (\<forall>x. is_hex64 (sha_node P x)) \<and> (\<forall>x. is_hex64 (sha_spec P x))
     \<and> (\<forall>x. is_hex64 (sha_state P x)) \<and> (\<forall>x. is_hex64 (sha_active P x)) \<and> (\<forall>x. is_hex64 (sha_intent P x))
     \<and> (\<forall>x. is_hex64 (sha_decision P x))"

definition mission_wf :: "platform \<Rightarrow> wf_state \<Rightarrow> workflow_spec \<Rightarrow> bool" where
  "mission_wf P s sp \<longleftrightarrow>
     selected_pin P s sp = Inr ()
     \<and> strategy_holds P s sp ''Core strategy no longer matches the reviewed workflow'' = Inr ()
     \<and> valid_graph (ts_plan s) \<and> wf_graph (ts_plan s)
     \<and> set (dict_keys (g_nodes (ts_plan s))) = set (map st_id (sp_stages sp))
     \<and> (\<forall>st \<in> set (sp_stages sp). is_identifier (st_id st) \<and> 1 \<le> st_max_steps st \<and> st_max_steps st \<le> 32)
     \<and> (\<forall>b. en_budget (ts_env s) = Some b \<longrightarrow> budget_ok b)
     \<and> (\<forall>m. en_stop (ts_env s) = Some m \<longrightarrow> validate_stop m = Inr m \<and> cd_session (cm_decision m) = ts_session_id s)
     \<and> bounded_text 1 128 (ts_session_id s)"

lemma hex_digestsD:
  assumes "hex_digests P"
  shows "is_hex64 (sha_node P x)" "is_hex64 (sha_spec P y)" "is_hex64 (sha_state P z)"
    "is_hex64 (sha_active P a)" "is_hex64 (sha_intent P i)" "is_hex64 (sha_decision P d)"
  using assms unfolding hex_digests_def by blast+

lemma is_identifier_ne [simp]: "\<not> is_identifier []"
  by (simp add: is_identifier_def)

lemma is_hex64_ne [simp]: "\<not> is_hex64 []"
  by (simp add: is_hex64_def)

lemma hex64_facts: "is_hex64 h \<Longrightarrow> h \<noteq> [] \<and> hex64_or_empty h"
  by (auto simp: hex64_or_empty_def)

lemma mission_review_ok:
  "identifier_or_empty k \<Longrightarrow> hex64_or_empty h \<Longrightarrow> (k \<noteq> []) = (h \<noteq> []) \<Longrightarrow> is_ok (mission_review k h)"
  by (simp add: mission_review_def validate_review_def hex64_or_empty_def)

lemma stage_review_ok:
  assumes "hex_digests P" and "is_identifier (n_id n)"
  shows "is_ok (stage_review P s sp n)"
proof -
  have h: "is_hex64 (material_fingerprint (sha_node P) n)" "\<And>x. is_hex64 (sha_active P x)"
    using hex_digestsD [OF assms(1)] by (simp_all add: material_fingerprint_def)
  have plain: "is_ok (mission_review (n_id n) (material_fingerprint (sha_node P) n))"
    using h(1) assms(2) by (intro mission_review_ok) (auto simp: identifier_or_empty_def dest: hex64_facts)
  have ne: "n_id n \<noteq> []" "material_fingerprint (sha_node P) n \<noteq> []" "\<And>x. sha_active P x \<noteq> []"
    using h assms(2) by (auto dest: hex64_facts)
  show ?thesis
    using plain h ne assms(2)
    by (auto simp: stage_review_def Let_def validate_review_def identifier_or_empty_def hex64_or_empty_def
        material_cause_def split: option.splits)
qed

lemma review_stages_ok:
  assumes "hex_digests P" and "wf_graph (ts_plan s)"
  shows "\<forall>st \<in> set sts. st_id st \<in> set (dict_keys (g_nodes (ts_plan s))) \<and> is_identifier (st_id st) \<Longrightarrow>
    is_ok (review_stages P s sp outcome reason sts)"
proof (induction sts)
  case Nil
  then show ?case by (simp add: mission_review_ok identifier_or_empty_def hex64_or_empty_def)
next
  case (Cons st sts)
  then obtain n where n: "map_of (g_nodes (ts_plan s)) (st_id st) = Some n" using key_map_of by fastforce
  with assms(2) have "n_id n = st_id st" by (auto simp: wf_graph_def dest: map_of_SomeD)
  with Cons n show ?case using stage_review_ok [OF assms(1), of n s sp] by (simp add: node_at_def)
qed

lemma stop_with_ok:
  assumes P: "hex_digests P" and w: "mission_wf P s sp"
    and r: "reason \<in> set (outcome_reasons outcome)" and o: "outcome \<notin> {Delegate, AwaitApproval}"
  shows "is_ok (stop_with P s sp outcome reason)"
proof -
  have "is_ok (review_stages P s sp outcome reason (sp_stages sp))"
    using w by (intro review_stages_ok P) (auto simp: mission_wf_def)
  then obtain rq where rq: "review_stages P s sp outcome reason (sp_stages sp) = Inr rq"
    by (auto simp: is_ok_iff)
  have vr: "validate_review rq = Inr rq"
  proof -
    have same: "validate_review a = Inr b \<Longrightarrow> validate_review b = Inr b" for a b
      by (auto simp: validate_review_def Let_def res_bind_eq_Inr)
    have m: "mission_review k h = Inr b \<Longrightarrow> validate_review b = Inr b" for k h b
      unfolding mission_review_def by (rule same)
    have st: "stage_review P s sp n = Inr b \<Longrightarrow> validate_review b = Inr b" for n b
      unfolding stage_review_def Let_def by (auto split: option.splits if_split_asm dest: same m)
    have "review_stages P s sp outcome reason sts = Inr b \<Longrightarrow> validate_review b = Inr b" for sts b
      by (induction sts) (auto simp: res_bind_eq_Inr split: if_split_asm dest: m st)
    with rq show ?thesis by blast
  qed
  show ?thesis
    using w hex_digestsD [OF P] r o rq vr
    by (auto simp: stop_with_def validate_decision_def base_decision_def mission_wf_def
        core_state_fingerprint_def spec_fingerprint_def identifier_or_empty_def hex64_or_empty_def)
qed

lemma find_stage_ok: "k \<in> set (map st_id (sp_stages sp)) \<Longrightarrow> \<exists>st. find_stage sp k = Inr st"
  by (auto simp: find_stage_def find_None_iff split: option.splits)

lemma any_interrupted_ok:
  "\<forall>n \<in> set ns. \<exists>st. find_stage sp (n_id n) = Inr st \<Longrightarrow> is_ok (any_interrupted sp ns)"
  by (induction ns) (auto simp: is_ok_iff)

lemma any_unverified_ok:
  "\<forall>n \<in> set ns. \<exists>st. find_stage sp (n_id n) = Inr st \<Longrightarrow> is_ok (any_unverified P s sp ns)"
  by (induction ns) (auto simp: is_ok_iff)

lemma startable_ok:
  "\<forall>n \<in> set ns. set (n_depends_on n) \<subseteq> set (dict_keys (g_nodes g)) \<Longrightarrow> is_ok (startable g ns)"
  by (induction ns) (auto simp: deps_success_known is_ok_iff)

lemma stage_index_ok: "k \<in> set (map st_id (sp_stages sp)) \<Longrightarrow> is_ok (stage_index sp k)"
  unfolding stage_index_def
  by (auto simp: is_ok_def map_of_eq_None_iff in_set_conv_nth split: option.splits)
     (metis (no_types, lifting) add_cancel_right_left in_set_zip length_map length_upt minus_nat.diff_0 nth_map
       nth_upt fst_conv snd_conv image_eqI)

lemma map_res_is_ok: "is_ok (map_res f xs) \<longleftrightarrow> (\<forall>x \<in> set xs. is_ok (f x))"
  by (induction xs) (auto simp: is_ok_iff res_bind_eq_Inr)

lemma rank_ready_ok:
  "\<forall>n \<in> set ns. n_id n \<in> set (map st_id (sp_stages sp)) \<Longrightarrow> is_ok (rank_ready sp ns)"
proof -
  assume ids: "\<forall>n \<in> set ns. n_id n \<in> set (map st_id (sp_stages sp))"
  have "is_ok (map_res (\<lambda>n. res_bind (stage_index sp (n_id n)) (\<lambda>i.
         Inr ((if n_status n \<noteq> ''needs_review'' then 1 else 0 :: nat, i), n))) ns)"
    unfolding map_res_is_ok using ids stage_index_ok [of _ sp] by (fastforce simp: is_ok_iff)
  then show ?thesis by (auto simp: rank_ready_def is_ok_iff [of "map_res _ _"])
qed

lemma plan_order_nodes:
  assumes "valid_graph g" and "wf_graph g"
  shows "\<exists>nodes. topological_order g = Inr nodes
    \<and> (\<forall>n \<in> set nodes. map_of (g_nodes g) (n_id n) = Some n \<and> n_id n \<in> set (dict_keys (g_nodes g)))"
proof -
  from assms(1) obtain nodes where o: "topological_order g = Inr nodes"
    using topological_order_ok_iff [of g] by (auto simp: valid_graph_def is_ok_iff)
  then have m: "mset nodes = mset (map snd (g_nodes g))"
    using topological_order_mset assms(1) by (auto simp: valid_graph_def)
  have "set nodes = snd ` set (g_nodes g)" using arg_cong [OF m, of set_mset] by simp
  moreover have "map_of (g_nodes g) (n_id n) = Some n" if "(k, n) \<in> set (g_nodes g)" for k n
    using that assms by (auto simp: wf_graph_def valid_graph_def intro!: dict_get_in)
  ultimately show ?thesis using o by (fastforce dest: map_of_key)
qed

lemma decide_stage_ok:
  assumes P: "hex_digests P" and w: "mission_wf P s sp" and n: "n_id n \<in> set (map st_id (sp_stages sp))"
  shows "is_ok (decide_stage P s sp n)"
proof -
  from find_stage_ok [OF n] obtain st where st: "find_stage sp (n_id n) = Inr st" by blast
  from find_stage_Inr [OF st] w have sw: "is_identifier (n_id n)" "1 \<le> st_max_steps st" "st_max_steps st \<le> 32"
    by (auto simp: mission_wf_def)
  have over: "\<exists>over. (if is_human st then Inr None
               else (case en_budget (ts_env s) of None \<Rightarrow> Inr None
                 | Some b \<Rightarrow> res_bind (validate_budget b) (\<lambda>b. stop_reason b (st_max_steps st)))) = Inr over
      \<and> over \<in> {None, Some DispatchExhausted, Some StepsExhausted}"
    using w sw by (auto simp: mission_wf_def budget_ok_def stop_reason_def split: option.splits)
  note stops = stop_with_ok [OF P w]
  have fp: "is_hex64 (material_fingerprint (sha_node P) n)" "is_hex64 (spec_fingerprint P sp)"
    "is_hex64 (core_state_fingerprint P s)" "bounded_text 1 128 (ts_session_id s)"
    using hex_digestsD [OF P] w
    by (simp_all add: material_fingerprint_def spec_fingerprint_def core_state_fingerprint_def mission_wf_def)
  with hex64_facts have ne: "material_fingerprint (sha_node P) n \<noteq> []" "n_id n \<noteq> []" using sw by auto
  show ?thesis
    using over st sw fp ne stops [of DispatchExhausted BudgetExhausted] stops [of StepsExhausted BudgetExhausted]
      stops [of OpenQuestions NeedsReview]
    by (auto simp: decide_stage_def Let_def validate_decision_def base_decision_def
        identifier_or_empty_def hex64_or_empty_def)
qed

lemma decide_ready_ok:
  assumes P: "hex_digests P" and w: "mission_wf P s sp"
    and nodes: "\<forall>n \<in> set nodes. map_of (g_nodes (ts_plan s)) (n_id n) = Some n"
  shows "is_ok (decide_ready P s sp nodes)"
proof -
  note stops = stop_with_ok [OF P w]
  have keys: "\<forall>n \<in> set nodes. n_id n \<in> set (map st_id (sp_stages sp))"
    using nodes w by (auto simp: mission_wf_def dest!: map_of_key)
  have "\<forall>n \<in> set nodes. set (n_depends_on n) \<subseteq> set (dict_keys (g_nodes (ts_plan s)))"
    using nodes w deps_known_nodes [of "ts_plan s"]
    by (force simp: mission_wf_def valid_graph_def dest: map_of_SomeD)
  from startable_ok [OF this] obtain ready where ready: "startable (ts_plan s) nodes = Inr ready"
    by (auto simp: is_ok_iff)
  then have rk: "\<forall>n \<in> set ready. n_id n \<in> set (map st_id (sp_stages sp))"
    using keys by (auto dest: startable_in)
  from rank_ready_ok [OF rk] obtain ranked where ranked: "rank_ready sp ready = Inr ranked"
    by (auto simp: is_ok_iff)
  from rank_ready_set [OF this] rk have "\<forall>n \<in> set ranked. n_id n \<in> set (map st_id (sp_stages sp))" by simp
  then show ?thesis
    using ready ranked stops [of OpenQuestions NeedsReview] stops [of AllBound DecComplete]
      decide_stage_ok [OF P w]
    by (auto simp: decide_ready_def split: list.splits)
qed

lemma decide_ok:
  assumes P: "hex_digests P" and w: "mission_wf P s sp"
  shows "is_ok (decide P s sp)"
proof -
  note stops = stop_with_ok [OF P w]
  from w plan_order_nodes [of "ts_plan s"] obtain nodes where
    o: "topological_order (ts_plan s) = Inr nodes"
    and n: "\<forall>n \<in> set nodes. map_of (g_nodes (ts_plan s)) (n_id n) = Some n"
      "\<forall>n \<in> set nodes. n_id n \<in> set (dict_keys (g_nodes (ts_plan s)))"
    by (auto simp: mission_wf_def)
  then have k: "\<forall>n \<in> set nodes. \<exists>st. find_stage sp (n_id n) = Inr st"
    using w by (auto simp: mission_wf_def intro!: find_stage_ok)
  from any_interrupted_ok [OF k] obtain a where a: "any_interrupted sp nodes = Inr a" by (auto simp: is_ok_iff)
  from any_unverified_ok [OF k, of P s] obtain u where u: "any_unverified P s sp nodes = Inr u"
    by (auto simp: is_ok_iff)
  have "is_ok (decide_nodes P s sp nodes)"
    using a u w decide_ready_ok [OF P w n(1)] stops [of MissionStopped Stopped]
      stops [of WorkflowFailure DecFailed] stops [of InterruptedWork NeedsReview]
      stops [of UnverifiedWork NeedsReview] stops [of OpenQuestions NeedsReview]
    by (auto simp: decide_nodes_def mission_wf_def split: option.splits)
  with o w show ?thesis by (simp add: decide_def mission_wf_def)
qed

lemma decide_stage_outcome:
  assumes "decide_stage P s sp n = Inr d"
  shows "cd_outcome d \<in> {Delegate, AwaitApproval, NeedsReview, BudgetExhausted}"
proof -
  have v: "validate_decision x = Inr d \<Longrightarrow> d = x" for x by (rule validate_decision_same)
  have st: "stop_with P s sp outcome reason = Inr d \<Longrightarrow> cd_outcome d = outcome" for outcome reason
    by (rule stop_with_outcome)
  from assms show ?thesis
    unfolding decide_stage_def Let_def
    by (elim res_bind_InrE) (auto split: option.split_asm if_split_asm dest: v st)
qed

lemma decide_ready_cases:
  assumes "decide_ready P s sp nodes = Inr d"
  shows "cd_outcome d \<notin> {Stopped, DecFailed}
    \<and> (cd_outcome d = DecComplete \<longrightarrow> nodes \<noteq> [] \<and> (\<forall>n \<in> set nodes. n_status n = ''success'') \<and> ts_completion s = [])"
proof -
  have st: "stop_with P s sp outcome reason = Inr d \<Longrightarrow> cd_outcome d = outcome" for outcome reason
    by (rule stop_with_outcome)
  show ?thesis
  proof (cases "nodes \<noteq> [] \<and> list_all (\<lambda>n. n_status n = ''success'') nodes")
    case True
    with assms show ?thesis
      by (auto simp: decide_ready_def list_all_iff split: if_split_asm dest!: st)
  next
    case False
    with assms obtain ranked where "(case ranked of
            [] \<Rightarrow> stop_with P s sp NeedsReview OpenQuestions
          | n # _ \<Rightarrow>
              if ts_status s = TaskComplete then stop_with P s sp NeedsReview OpenQuestions
              else decide_stage P s sp n) = Inr d"
      by (auto simp: decide_ready_def res_bind_eq_Inr)
    then show ?thesis
      by (cases ranked) (auto split: if_split_asm dest!: st decide_stage_outcome)
  qed
qed

lemma decide_nodes_cases:
  assumes "decide_nodes P s sp nodes = Inr d"
  shows "(cd_outcome d = Stopped \<longleftrightarrow> en_stop (ts_env s) \<noteq> None)
    \<and> (cd_outcome d = DecFailed \<longleftrightarrow> en_stop (ts_env s) = None
         \<and> (ts_status s = TaskFailed \<or> (\<exists>n \<in> set nodes. n_status n = ''error'')))
    \<and> (cd_outcome d = DecComplete \<longrightarrow> nodes \<noteq> [] \<and> (\<forall>n \<in> set nodes. n_status n = ''success'')
         \<and> any_unverified P s sp nodes = Inr False
         \<and> ts_questions s = [] \<and> ts_completion s = [] \<and> \<not> pending_dispatch s)"
proof (cases "en_stop (ts_env s)")
  case (Some m)
  with assms have "stop_with P s sp Stopped MissionStopped = Inr d"
    by (auto simp: decide_nodes_def res_bind_eq_Inr split: if_split_asm)
  from stop_with_outcome [OF this] Some show ?thesis by simp
next
  case None
  show ?thesis
  proof (cases "ts_status s = TaskFailed \<or> list_ex (\<lambda>n. n_status n = ''error'') nodes")
    case True
    with None assms have "stop_with P s sp DecFailed WorkflowFailure = Inr d"
      by (simp add: decide_nodes_def)
    from stop_with_outcome [OF this] None True show ?thesis by (auto simp: list_ex_iff)
  next
    case False
    have st: "stop_with P s sp NeedsReview reason = Inr d \<Longrightarrow> cd_outcome d = NeedsReview" for reason
      by (rule stop_with_outcome)
    from None False assms have "cd_outcome d = NeedsReview \<or>
        decide_ready P s sp nodes = Inr d \<and> ts_questions s = [] \<and> \<not> pending_dispatch s
          \<and> any_unverified P s sp nodes = Inr False"
      by (auto simp: decide_nodes_def res_bind_eq_Inr split: if_split_asm dest!: st)
    with decide_ready_cases [of P s sp nodes d] None False show ?thesis by (auto simp: list_ex_iff)
  qed
qed

text \<open>
  C22: For a well-formed mission a decision always exists and passes its own validators. A recorded
  stop outranks everything; without one, a failure outranks the rest; and completion is declared
  only when every node succeeded, each agent stage with a bound verified result, and no question,
  interrupted dispatch or further completion condition is open.
\<close>
theorem decision_exists:
  assumes "hex_digests P" and "mission_wf P s sp"
  shows "\<exists>d nodes. decide P s sp = Inr d \<and> topological_order (ts_plan s) = Inr nodes
    \<and> (cd_outcome d = Stopped \<longleftrightarrow> en_stop (ts_env s) \<noteq> None)
    \<and> (cd_outcome d = DecFailed \<longleftrightarrow> en_stop (ts_env s) = None
         \<and> (ts_status s = TaskFailed \<or> (\<exists>n \<in> set nodes. n_status n = ''error'')))
    \<and> (cd_outcome d = DecComplete \<longrightarrow> nodes \<noteq> [] \<and> (\<forall>n \<in> set nodes. n_status n = ''success''
           \<and> (\<exists>st. find_stage sp (n_id n) = Inr st \<and> (is_human st \<or> verified P s sp n)))
         \<and> ts_questions s = [] \<and> ts_completion s = [] \<and> \<not> pending_dispatch s)"
proof -
  from decide_ok [OF assms] obtain d where d: "decide P s sp = Inr d" by (auto simp: is_ok_iff)
  then obtain nodes where o: "topological_order (ts_plan s) = Inr nodes"
    and dn: "decide_nodes P s sp nodes = Inr d" by (auto simp: decide_def res_bind_eq_Inr)
  note c = decide_nodes_cases [OF dn]
  have "cd_outcome d = DecComplete \<longrightarrow> (\<forall>n \<in> set nodes. n_status n = ''success'' \<longrightarrow>
      (\<exists>st. find_stage sp (n_id n) = Inr st \<and> (is_human st \<or> verified P s sp n)))"
    using c any_unverified_False [of P s sp nodes] by blast
  with d o c show ?thesis by blast
qed

definition sample_pin :: reviewed_workflow where
  "sample_pin = \<lparr>rw_name = ''audit'', rw_version = ''1'', rw_fingerprint = sample_hash\<rparr>"

definition sample_selection :: selection where
  "sample_selection = \<lparr>se_intent_fp = sample_hash, se_outcome = Selected, se_reason = OnlyCompatible,
     se_workflow = Some sample_pin, se_criteria = [(''scan'', default_gate), (''approve'', default_gate)]\<rparr>"

definition sample_mission :: wf_state where
  "sample_mission = sample_run\<lparr>ts_active_nodes := [],
     ts_plan := \<lparr>g_goal = ''goal'', g_nodes = plan_nodes sample_spec, g_reasoning = ''workflow:audit@1''\<rparr>,
     ts_env := empty_env\<lparr>en_workflow := Some ''audit'', en_workflow_version := Some ''1'',
       en_workflow_fp := Some sample_hash, en_target := Some [], en_selection := Some sample_selection,
       en_strategy := Some \<lparr>cs_workflow = sample_pin, cs_order = [''scan'', ''approve'']\<rparr>,
       en_budget := Some sample_budget\<rparr>\<rparr>"

definition sample_decision :: core_decision where
  "sample_decision = \<lparr>cd_session = ''s1'', cd_version = 0, cd_state_fp = sample_hash,
     cd_workflow_fp = sample_hash, cd_outcome = Delegate, cd_reason = OneReadyStage,
     cd_stage = ''scan'', cd_node_fp = sample_hash, cd_max_steps = 4, cd_review = None\<rparr>"

lemma sample_decide: "decide sample_platform sample_mission sample_spec = Inr sample_decision"
  by code_simp

theorem delegation_sound_witness:
  "\<exists>n st. delegable sample_mission sample_spec n st \<and> st_id st = ''scan''"
proof -
  have "cd_outcome sample_decision = Delegate" "cd_stage sample_decision = ''scan''"
    by (simp_all add: sample_decision_def)
  with delegation_sound [OF sample_decide] show ?thesis by metis
qed

lemma sample_hex: "hex_digests sample_platform"
  by (simp add: hex_digests_def sample_platform_def)

lemma sample_topo: "is_ok (topological_order (ts_plan sample_mission))"
  by code_simp

lemma sample_mission_nodes: "wf_dict (g_nodes (ts_plan sample_mission))"
proof -
  have "distinct (map st_id (sp_stages sample_spec))" by (simp add: sample_spec_def sample_stage_def)
  from wf_plan_nodes [OF this] show ?thesis by (simp add: sample_mission_def)
qed

lemma sample_mission_wf: "mission_wf sample_platform sample_mission sample_spec"
proof -
  have "valid_graph (ts_plan sample_mission)"
    using sample_topo topological_order_ok_iff [of "ts_plan sample_mission"] sample_mission_nodes
    by (simp add: valid_graph_def)
  moreover have "selected_pin sample_platform sample_mission sample_spec = Inr ()"
    "strategy_holds sample_platform sample_mission sample_spec
       ''Core strategy no longer matches the reviewed workflow'' = Inr ()"
    by code_simp+
  moreover have "is_identifier ''scan''" "is_identifier ''approve''" "bounded_text 1 128 ''s1''" by code_simp+
  moreover have "budget_ok sample_budget" unfolding budget_ok_def by code_simp
  ultimately show ?thesis
    by (auto simp: mission_wf_def sample_mission_def sample_run_def sample_spec_def sample_stage_def
        plan_nodes_def stage_node_def wf_graph_def wf_dict_def empty_env_def)
qed

theorem decision_exists_witness: "\<exists>d. decide sample_platform sample_mission sample_spec = Inr d"
  using decision_exists [OF sample_hex sample_mission_wf] by blast

section \<open>What a selection says\<close>

text \<open>A pin's specification: current in the registry, valid, and unchanged since it was reviewed.\<close>

definition reviewed_spec :: "platform \<Rightarrow> registry \<Rightarrow> reviewed_workflow \<Rightarrow> workflow_spec \<Rightarrow> bool" where
  "reviewed_spec P reg pin sp \<longleftrightarrow>
     (\<exists>current. registry_get reg (rw_name pin) = Some current
        \<and> validate_spec (resolve_path P) current = Inr sp)
     \<and> sp_version sp = rw_version pin \<and> spec_fingerprint P sp = rw_fingerprint pin"

lemma candidates_Inr:
  "candidates P reg i pins = Inr (Inr sps) \<Longrightarrow>
     \<exists>specs. list_all2 (reviewed_spec P reg) pins specs \<and> sps = filter (\<lambda>sp. sp_mode sp = ci_mode i) specs"
proof (induction pins arbitrary: sps)
  case (Cons pin pins)
  from Cons.prems obtain current where g: "registry_get reg (rw_name pin) = Some current"
    by (cases "registry_get reg (rw_name pin)") auto
  with Cons.prems obtain sp where v: "validate_spec (resolve_path P) current = Inr sp"
    and r: "(if sp_version sp \<noteq> rw_version pin \<or> spec_fingerprint P sp \<noteq> rw_fingerprint pin then
           Inr (Inl MissingOrChanged)
         else if sp_mode sp \<noteq> ci_mode i \<and> ci_workflow i \<noteq> [] then Inr (Inl ModeMismatch)
         else res_bind (candidates P reg i pins) (\<lambda>rest. case rest of
             Inl reason \<Rightarrow> Inr (Inl reason)
           | Inr sps \<Rightarrow> Inr (Inr (if sp_mode sp \<noteq> ci_mode i then sps else sp # sps)))) = Inr (Inr sps)"
    by (auto elim: res_bind_InrE)
  from r have f: "sp_version sp = rw_version pin" "spec_fingerprint P sp = rw_fingerprint pin"
    by (auto split: if_split_asm)
  from r obtain rest0 where "candidates P reg i pins = Inr rest0" "(case rest0 of
             Inl reason \<Rightarrow> Inr (Inl reason)
           | Inr sps \<Rightarrow> Inr (Inr (if sp_mode sp \<noteq> ci_mode i then sps else sp # sps))) = (Inr (Inr sps) :: (select_reason + workflow_spec list) res)"
    by (auto elim: res_bind_InrE split: if_split_asm)
  then obtain rest where c5: "candidates P reg i pins = Inr (Inr rest)"
    and s: "sps = (if sp_mode sp \<noteq> ci_mode i then rest else sp # rest)"
    by (cases rest0) auto
  note c = g v f c5
  from Cons.IH [OF c(5)] obtain specs where "list_all2 (reviewed_spec P reg) pins specs"
    "rest = filter (\<lambda>sp. sp_mode sp = ci_mode i) specs" by blast
  moreover have "reviewed_spec P reg pin sp" using c by (auto simp: reviewed_spec_def)
  ultimately show ?case using s by (intro exI [of _ "sp # specs"]) auto
qed simp

lemma validate_intent_Inr:
  "validate_intent j = Inr i \<Longrightarrow> ci_mode i = ci_mode j \<and> ci_workflow i = ci_workflow j"
  by (auto simp: validate_intent_def res_bind_eq_Inr)

lemma make_selection_same: "make_selection s = Inr s' \<Longrightarrow> s' = s"
  by (auto simp: make_selection_def res_bind_eq_Inr Let_def)

lemma validate_pin_same: "validate_pin p = Inr q \<Longrightarrow> q = p"
  by (auto simp: validate_pin_def res_bind_eq_Inr)

lemma dict_from_distinct: "distinct (map fst kvs) \<Longrightarrow> dict_from kvs = kvs"
proof -
  have "distinct (map fst (acc @ kvs)) \<Longrightarrow> fold (\<lambda>(k, v). dict_set k v) kvs acc = acc @ kvs" for acc
    by (induction kvs arbitrary: acc) (auto simp: dict_keys_set_new)
  from this [of "[]"] show "distinct (map fst kvs) \<Longrightarrow> dict_from kvs = kvs" by (simp add: dict_from_def)
qed

lemma select_chosen_Inr:
  assumes "select_chosen P i chosen = Inr sel" and "distinct (map st_id (sp_stages chosen))"
  shows "se_workflow sel = Some \<lparr>rw_name = sp_name chosen, rw_version = sp_version chosen,
                 rw_fingerprint = spec_fingerprint P chosen\<rparr>
    \<and> se_criteria sel = map (\<lambda>st. (st_id st, st_gate st)) (sp_stages chosen)
    \<and> se_intent_fp sel = intent_fingerprint P i"
  using assms
  by (auto simp: select_chosen_def res_bind_eq_Inr dict_from_distinct comp_def
      dest!: make_selection_same validate_pin_same)

lemma unresolved_outcome: "unresolved P i reason outcome = Inr sel \<Longrightarrow> se_outcome sel = outcome"
  by (auto simp: unresolved_def dest!: make_selection_same)

lemma filter_single:
  "filter Q xs = [x] \<Longrightarrow> \<exists>as bs. xs = as @ x # bs \<and> Q x \<and> (\<forall>y \<in> set as \<union> set bs. \<not> Q y)"
proof -
  assume "filter Q xs = [x]"
  then obtain as bs where "xs = as @ x # bs" "\<forall>y \<in> set as. \<not> Q y" "Q x" "[] = filter Q bs"
    by (auto simp: filter_eq_Cons_iff)
  then show ?thesis by (metis UnE filter_empty_conv)
qed

text \<open>
  C23: A workflow is selected only when it is one of the human-reviewed pins, its current
  specification is valid and unchanged since the review, its mode is the intent's, and it is the
  pin the intent names, or the only pin of that mode when it names none; the selection pins exactly
  that specification with the gates of its stages.
\<close>
theorem selection_sound:
  assumes "select P reg intent reviewed = Inr sel" and "se_outcome sel = Selected"
  shows "\<exists>pin sp. pin \<in> set reviewed \<and> reviewed_spec P reg pin sp \<and> sp_mode sp = ci_mode intent
    \<and> (if ci_workflow intent \<noteq> [] then rw_name pin = ci_workflow intent
       else \<forall>p \<in> set reviewed. p \<noteq> pin \<longrightarrow> (\<exists>q. reviewed_spec P reg p q \<and> sp_mode q \<noteq> ci_mode intent))
    \<and> se_workflow sel = Some \<lparr>rw_name = sp_name sp, rw_version = sp_version sp,
                 rw_fingerprint = spec_fingerprint P sp\<rparr>
    \<and> se_criteria sel = map (\<lambda>st. (st_id st, st_gate st)) (sp_stages sp)"
proof -
  from assms(1) obtain i pins where i: "validate_intent intent = Inr i"
    and pins: "map_res validate_pin reviewed = Inr pins" and names: "distinct (map rw_name pins)"
    and rest: "(let named = (if ci_workflow i \<noteq> [] then filter (\<lambda>p. rw_name p = ci_workflow i) pins else pins) in
     if ci_workflow i \<noteq> [] \<and> named = [] then unresolved P i NotReviewed SelectBlocked
     else res_bind (candidates P reg i named) (\<lambda>found. case found of
         Inl reason \<Rightarrow> unresolved P i reason SelectBlocked
       | Inr [] \<Rightarrow> unresolved P i NoneMatches NeedsInput
       | Inr [chosen] \<Rightarrow> select_chosen P i chosen
       | Inr (_ # _ # _) \<Rightarrow> unresolved P i MultipleMatch NeedsInput)) = Inr sel"
    unfolding select_def by (elim res_bind_InrE) (simp only: ensure_eq_Inr)
  have pr: "pins = reviewed" using map_res_same [OF pins validate_pin_same] .
  note iv = validate_intent_Inr [OF i]
  define named where "named = (if ci_workflow i \<noteq> [] then filter (\<lambda>p. rw_name p = ci_workflow i) pins else pins)"
  have un: "unresolved P i reason outcome = Inr sel \<Longrightarrow> outcome = Selected" for reason outcome
    using unresolved_outcome assms(2) by metis
  have step: "(if ci_workflow i \<noteq> [] \<and> named = [] then unresolved P i NotReviewed SelectBlocked
     else res_bind (candidates P reg i named) (\<lambda>found. case found of
         Inl reason \<Rightarrow> unresolved P i reason SelectBlocked
       | Inr [] \<Rightarrow> unresolved P i NoneMatches NeedsInput
       | Inr [chosen] \<Rightarrow> select_chosen P i chosen
       | Inr (_ # _ # _) \<Rightarrow> unresolved P i MultipleMatch NeedsInput)) = Inr sel"
    using rest unfolding Let_def named_def .
  then have "\<not> (ci_workflow i \<noteq> [] \<and> named = [])" using un by (auto split: if_split_asm)
  with step obtain found where found: "candidates P reg i named = Inr found" and
    fr: "(case found of
         Inl reason \<Rightarrow> unresolved P i reason SelectBlocked
       | Inr [] \<Rightarrow> unresolved P i NoneMatches NeedsInput
       | Inr [chosen] \<Rightarrow> select_chosen P i chosen
       | Inr (_ # _ # _) \<Rightarrow> unresolved P i MultipleMatch NeedsInput) = Inr sel"
    by (auto elim: res_bind_InrE)
  from fr obtain chosen where "found = Inr [chosen]" and ch: "select_chosen P i chosen = Inr sel"
    by (auto split: sum.split_asm list.split_asm dest!: un)
  with found have c: "candidates P reg i named = Inr (Inr [chosen])" by simp
  from candidates_Inr [OF c] obtain specs where sp: "list_all2 (reviewed_spec P reg) named specs"
    and "filter (\<lambda>sp. sp_mode sp = ci_mode i) specs = [chosen]" by metis
  then obtain as bs where ab: "specs = as @ chosen # bs" "sp_mode chosen = ci_mode i"
    "\<forall>y \<in> set as \<union> set bs. sp_mode y \<noteq> ci_mode i" using filter_single by fast
  with sp obtain ps pin qs where p: "named = ps @ pin # qs" "list_all2 (reviewed_spec P reg) ps as"
    "reviewed_spec P reg pin chosen" "list_all2 (reviewed_spec P reg) qs bs"
    by (auto simp: list_all2_append2 list_all2_Cons2)
  have other: "\<exists>q. reviewed_spec P reg p q \<and> sp_mode q \<noteq> ci_mode i" if "p \<in> set named" "p \<noteq> pin" for p
  proof -
    have "p \<in> set ps \<or> p \<in> set qs" using that p(1) by auto
    then show ?thesis using p(2,4) ab(3) by (metis UnCI in_set_conv_nth list_all2_conv_all_nth)
  qed
  have "distinct (map st_id (sp_stages chosen))"
    using p(3) validate_spec_Inr by (auto simp: reviewed_spec_def)
  note chosen = select_chosen_Inr [OF ch this]
  have "pin \<in> set named" using p(1) by simp
  then have "pin \<in> set reviewed" "ci_workflow i \<noteq> [] \<longrightarrow> rw_name pin = ci_workflow i"
    by (auto simp: named_def pr split: if_split_asm)
  moreover have "\<forall>p \<in> set reviewed. p \<noteq> pin \<longrightarrow> (\<exists>q. reviewed_spec P reg p q \<and> sp_mode q \<noteq> ci_mode i)"
    if "ci_workflow i = []"
    using other that by (simp add: named_def pr)
  ultimately show ?thesis
    using p(3) ab(2) chosen iv by (intro exI [of _ pin] exI [of _ chosen]) auto
qed

lemma sample_select:
  "select sample_platform [(''audit'', sample_spec)] \<lparr>ci_objective = ''goal'', ci_mode = Coding, ci_workflow = []\<rparr>
     [sample_pin] = Inr sample_selection"
  by code_simp

theorem selection_sound_witness:
  "\<exists>sp. reviewed_spec sample_platform [(''audit'', sample_spec)] sample_pin sp \<and> sp_mode sp = Coding"
proof -
  have "se_outcome sample_selection = Selected" by (simp add: sample_selection_def)
  from selection_sound [OF sample_select this] show ?thesis by auto
qed

end
