(* ===== verification/PlanStore.thy ===== *)
theory PlanStore
  imports TaskState
begin

text \<open>
  The durable part of \<open>persistence/store.py\<close>: sessions, the stored plan with its node rows, and
  the task-state blob, as tables keyed as in the SQL schema; a text written with sorted keys reads
  back in key order. The interface of a durable plan is the locale \<open>durable_plan\<close>; its client
  facts show that a node that was running when the process died is fenced, never replayed.

  Identifiers that the code draws from uuid are arguments. Timestamps are left out, and so a list
  ordered by creation time is in insertion order.
\<close>

section \<open>Tables\<close>

record session_row =
  sn_id :: string
  sn_goal :: string
  sn_focus :: string
  sn_status :: string

record node_row =
  nr_fp :: string
  nr_key :: string
  nr_status :: string
  nr_attempts :: nat
  nr_summary :: string

record 'st db =
  db_sessions :: "session_row list"
  db_missions :: "(string, plan_graph) dict"
  db_nodes :: "(string \<times> string, node_row) dict"
  db_task :: "(string, 'st) dict"

section \<open>Sessions\<close>

definition create_session :: "string \<Rightarrow> string \<Rightarrow> string \<Rightarrow> 'st db \<Rightarrow> 'st db res" where
  "create_session sid goal focus d =
     (if sid \<in> set (map sn_id (db_sessions d)) then Inl (RuntimeError ''UNIQUE constraint failed: sessions.id'')
      else Inr (d\<lparr>db_sessions := db_sessions d
        @ [\<lparr>sn_id = sid, sn_goal = goal, sn_focus = focus, sn_status = ''active''\<rparr>]\<rparr>))"

definition get_session :: "string \<Rightarrow> 'st db \<Rightarrow> session_row option" where
  "get_session sid d = find (\<lambda>r. sn_id r = sid) (db_sessions d)"

definition list_sessions :: "nat \<Rightarrow> 'st db \<Rightarrow> session_row list" where
  "list_sessions limit d = take limit (rev (db_sessions d))"

text \<open>The keyword arguments that name a column of \<open>allowed\<close>; others are dropped by the code.\<close>

definition update_session ::
  "string \<Rightarrow> string option \<Rightarrow> string option \<Rightarrow> string option \<Rightarrow> 'st db \<Rightarrow> 'st db" where
  "update_session sid goal focus status d = d\<lparr>db_sessions := map (\<lambda>r.
     if sn_id r = sid then
       r\<lparr>sn_goal := (case goal of None \<Rightarrow> sn_goal r | Some g \<Rightarrow> g),
         sn_focus := (case focus of None \<Rightarrow> sn_focus r | Some f \<Rightarrow> f),
         sn_status := (case status of None \<Rightarrow> sn_status r | Some s \<Rightarrow> s)\<rparr>
     else r) (db_sessions d)\<rparr>"

definition close_session :: "string \<Rightarrow> 'st db \<Rightarrow> 'st db" where
  "close_session sid d = update_session sid None None (Some ''closed'') d"

definition reactivate :: "string \<Rightarrow> 'st db \<Rightarrow> 'st db" where
  "reactivate sid d = update_session sid None None (Some ''active'') d"

definition latest_session :: "'st db \<Rightarrow> session_row option" where
  "latest_session d = (case list_sessions 1 d of [] \<Rightarrow> None | r # _ \<Rightarrow> Some r)"

definition resolve_session :: "string option \<Rightarrow> bool \<Rightarrow> 'st db \<Rightarrow> string option" where
  "resolve_session resume continue_last d =
     (case resume of
        Some sid \<Rightarrow> if sid \<noteq> [] then (if get_session sid d \<noteq> None then Some sid else None)
                    else if continue_last then map_option sn_id (latest_session d) else None
      | None \<Rightarrow> if continue_last then map_option sn_id (latest_session d) else None)"

section \<open>Durable plans\<close>

text \<open>The stored text has sorted keys; reading it back gives the nodes and parameters in key order.\<close>

definition canon_node :: "plan_node \<Rightarrow> plan_node" where
  "canon_node n = n\<lparr>n_params := canon_dict (n_params n), n_completion := map canon_criterion (n_completion n)\<rparr>"

definition canon_plan :: "plan_graph \<Rightarrow> plan_graph" where
  "canon_plan g = g\<lparr>g_nodes := sort_key fst (map (\<lambda>(k, n). (k, canon_node n)) (g_nodes g))\<rparr>"

text \<open>
  The upsert of one node row: the status is kept while the material fingerprint is unchanged;
  otherwise the row takes the status \<open>pending\<close> and the node counts as changed. Attempts and
  summary stay.
\<close>

definition upsert_node ::
  "string \<Rightarrow> (string \<times> string, node_row) dict \<Rightarrow> string \<Rightarrow> string \<Rightarrow> plan_node \<Rightarrow> 'st db \<Rightarrow> 'st db" where
  "upsert_node sid existing k fp n d =
     (let prior = map_option nr_fp (map_of existing (sid, k));
          status = (if prior = Some fp then n_status n else ''pending'');
          row = (case map_of (db_nodes d) (sid, k) of
              None \<Rightarrow> \<lparr>nr_fp = fp, nr_key = n_idempotency_key n, nr_status = status,
                        nr_attempts = 0, nr_summary = []\<rparr>
            | Some r \<Rightarrow> r\<lparr>nr_fp := fp, nr_key := n_idempotency_key n,
                          nr_status := (if nr_fp r = fp then nr_status r else status)\<rparr>)
      in d\<lparr>db_nodes := dict_set (sid, k) row (db_nodes d)\<rparr>)"

fun save_nodes ::
  "string \<Rightarrow> (string \<times> string, node_row) dict \<Rightarrow> (string, string) dict \<Rightarrow> (string \<times> plan_node) list
     \<Rightarrow> 'st db \<Rightarrow> string list \<Rightarrow> 'st db \<times> string list res" where
  "save_nodes sid existing fps [] d changed = (d, Inr changed)"
| "save_nodes sid existing fps ((k, n) # rest) d changed =
     (let fp = (case map_of fps k of None \<Rightarrow> [] | Some f \<Rightarrow> f) in
      if fp = [] then (d, Inl (ValueError ''persisted plan nodes require material_fingerprint''))
      else save_nodes sid existing fps rest (upsert_node sid existing k fp n d)
        (if map_option nr_fp (map_of existing (sid, k)) \<notin> {None, Some fp} then changed @ [k] else changed))"

text \<open>
  \<open>fps\<close> gives the material fingerprint that the payload carries for a node. A missing one raises in
  the middle of the transaction: what was written before it stays pending on the connection and is
  committed by the next operation, so the store is returned with the error.
\<close>

definition save_plan ::
  "string \<Rightarrow> plan_graph \<Rightarrow> (string, string) dict \<Rightarrow> 'st db \<Rightarrow> 'st db \<times> string list res" where
  "save_plan sid g fps d =
     (if sid \<notin> set (map sn_id (db_sessions d)) then (d, Inl (RuntimeError ''FOREIGN KEY constraint failed''))
      else save_nodes sid (db_nodes d) fps (g_nodes g)
        (d\<lparr>db_missions := dict_set sid (canon_plan g) (db_missions d)\<rparr>) [])"

definition overlay :: "node_row option \<Rightarrow> plan_node \<Rightarrow> plan_node" where
  "overlay row n = (case row of None \<Rightarrow> n
     | Some r \<Rightarrow> n\<lparr>n_status := nr_status r, n_result_summary := nr_summary r\<rparr>)"

definition load_plan :: "string \<Rightarrow> 'st db \<Rightarrow> plan_graph option" where
  "load_plan sid d = (case map_of (db_missions d) sid of None \<Rightarrow> None
     | Some g \<Rightarrow> Some (g\<lparr>g_nodes := map (\<lambda>(k, n). (k, overlay (map_of (db_nodes d) (sid, k)) n)) (g_nodes g)\<rparr>))"

definition checkpoint_row :: "string \<Rightarrow> string \<Rightarrow> bool \<Rightarrow> node_row \<Rightarrow> node_row" where
  "checkpoint_row status summary increment r =
     r\<lparr>nr_status := status, nr_summary := summary,
       nr_attempts := nr_attempts r + (if increment then 1 else 0)\<rparr>"

definition checkpoint_plan_node :: "string \<Rightarrow> string \<Rightarrow> string \<Rightarrow> string \<Rightarrow> bool \<Rightarrow> 'st db \<Rightarrow> 'st db" where
  "checkpoint_plan_node sid k status summary increment d = d\<lparr>db_nodes := map (\<lambda>(key, r).
     (key, if key = (sid, k) then checkpoint_row status summary increment r else r)) (db_nodes d)\<rparr>"

definition interrupted_summary :: string where
  "interrupted_summary = ''interrupted while running; verify before retry''"

definition fence_row :: "node_row \<Rightarrow> node_row" where
  "fence_row r = (if nr_status r = ''running''
     then r\<lparr>nr_status := ''needs_review'', nr_summary := interrupted_summary\<rparr> else r)"

definition recover_interrupted_plan :: "string \<Rightarrow> 'st db \<Rightarrow> string list \<times> 'st db" where
  "recover_interrupted_plan sid d =
     (let ids = map (snd \<circ> fst)
            (filter (\<lambda>(key, r). fst key = sid \<and> nr_status r = ''running'') (db_nodes d)) in
      if ids = [] then (ids, d)
      else (ids, d\<lparr>db_nodes := map (\<lambda>(key, r). (key, if fst key = sid then fence_row r else r)) (db_nodes d)\<rparr>))"

definition reset_retryable_node :: "string \<Rightarrow> string \<Rightarrow> nat \<Rightarrow> 'st db \<Rightarrow> bool \<times> 'st db" where
  "reset_retryable_node sid k max_attempts d = (case map_of (db_nodes d) (sid, k) of
     None \<Rightarrow> (False, d)
   | Some r \<Rightarrow> if nr_status r \<notin> {''error'', ''timeout''} \<or> max_attempts \<le> nr_attempts r then (False, d)
               else (True, checkpoint_plan_node sid k ''pending'' ''retry requested'' False d))"

definition save_task_state :: "string \<Rightarrow> 'st \<Rightarrow> 'st db \<Rightarrow> 'st db" where
  "save_task_state sid st d = d\<lparr>db_task := dict_set sid st (db_task d)\<rparr>"

definition load_task_state :: "string \<Rightarrow> 'st db \<Rightarrow> 'st option" where
  "load_task_state sid d = map_of (db_task d) sid"

section \<open>The interface of a durable plan\<close>

definition set_node_status :: "string \<Rightarrow> string \<Rightarrow> string \<Rightarrow> plan_graph \<Rightarrow> plan_graph" where
  "set_node_status k status summary g = g\<lparr>g_nodes := map (\<lambda>(x, n).
     (x, if x = k then n\<lparr>n_status := status, n_result_summary := summary\<rparr> else n)) (g_nodes g)\<rparr>"

definition fence_node :: "plan_node \<Rightarrow> plan_node" where
  "fence_node n = (if n_status n = ''running''
     then n\<lparr>n_status := ''needs_review'', n_result_summary := interrupted_summary\<rparr> else n)"

lemma fence_node_idem [simp]: "fence_node (fence_node n) = fence_node n"
  by (simp add: fence_node_def)

definition fence_plan :: "plan_graph \<Rightarrow> plan_graph" where
  "fence_plan g = g\<lparr>g_nodes := map (\<lambda>(k, n). (k, fence_node n)) (g_nodes g)\<rparr>"

text \<open>
  What a client relies on: a checkpoint changes the status of exactly one node of one session as
  it is next loaded, and recovery fences exactly the running nodes of a session and reports them.
\<close>

locale durable_plan =
  fixes load :: "string \<Rightarrow> 'd \<Rightarrow> plan_graph option"
    and checkpoint :: "string \<Rightarrow> string \<Rightarrow> string \<Rightarrow> string \<Rightarrow> bool \<Rightarrow> 'd \<Rightarrow> 'd"
    and recover :: "string \<Rightarrow> 'd \<Rightarrow> string list \<times> 'd"
    and good :: "'d \<Rightarrow> bool"
  assumes checkpoint_load: "good d \<Longrightarrow> load t (checkpoint s k st sm inc d)
      = (if t = s then map_option (set_node_status k st sm) (load t d) else load t d)"
    and checkpoint_good: "good d \<Longrightarrow> good (checkpoint s k st sm inc d)"
    and recover_load: "good d \<Longrightarrow> load t (snd (recover s d))
      = (if t = s then map_option fence_plan (load t d) else load t d)"
    and recover_good: "good d \<Longrightarrow> good (snd (recover s d))"
    and recover_reports: "good d \<Longrightarrow> load s d = Some g \<Longrightarrow> (k, n) \<in> set (g_nodes g) \<Longrightarrow> n_status n = ''running''
      \<Longrightarrow> k \<in> set (fst (recover s d))"
begin

lemma recovered_not_running:
  assumes "good d" and "load s (snd (recover s d)) = Some g" and "(k, n) \<in> set (g_nodes g)"
  shows "n_status n \<noteq> ''running''"
  using assms recover_load [of d s s] by (auto simp: fence_plan_def fence_node_def split: if_split_asm)

lemma running_is_fenced:
  assumes "good d" and "load s d = Some g" and "(k, n) \<in> set (g_nodes g)"
  shows "\<exists>g' n'. load s (snd (recover s (checkpoint s k ''running'' sm inc d))) = Some g'
    \<and> (k, n') \<in> set (g_nodes g') \<and> n_status n' = ''needs_review''
    \<and> k \<in> set (fst (recover s (checkpoint s k ''running'' sm inc d)))"
proof -
  let ?d = "checkpoint s k ''running'' sm inc d"
  let ?n = "n\<lparr>n_status := ''running'', n_result_summary := sm\<rparr>"
  have l: "load s ?d = Some (set_node_status k ''running'' sm g)"
    using checkpoint_load [OF assms(1)] assms(2) by simp
  have in1: "(k, ?n) \<in> set (g_nodes (set_node_status k ''running'' sm g))"
    using assms(3) by (force simp: set_node_status_def)
  have "load s (snd (recover s ?d)) = Some (fence_plan (set_node_status k ''running'' sm g))"
    using recover_load [OF checkpoint_good [OF assms(1)]] l by simp
  moreover have "(k, fence_node ?n) \<in> set (g_nodes (fence_plan (set_node_status k ''running'' sm g)))"
    using in1 by (force simp: fence_plan_def)
  moreover have "k \<in> set (fst (recover s ?d))"
    using recover_reports [OF checkpoint_good [OF assms(1)] l in1] by simp
  ultimately show ?thesis by (intro exI conjI) (auto simp: fence_node_def)
qed

lemma recover_twice:
  assumes "good d"
  shows "load t (snd (recover s (snd (recover s d)))) = load t (snd (recover s d))"
proof -
  have "fence_plan (fence_plan g) = fence_plan g" for g
    by (simp add: fence_plan_def comp_def case_prod_unfold)
  then show ?thesis
    using recover_load [OF recover_good [OF assms]] recover_load [OF assms]
    by (cases "load t d") auto
qed

lemma other_sessions:
  "good d \<Longrightarrow> t \<noteq> s \<Longrightarrow> load t (snd (recover s (checkpoint s k st sm inc d))) = load t d"
  by (simp add: recover_load checkpoint_load checkpoint_good)

end

section \<open>The tables provide the interface\<close>

definition db_good :: "'st db \<Rightarrow> bool" where
  "db_good d \<longleftrightarrow> wf_dict (db_nodes d)
     \<and> (\<forall>s g. map_of (db_missions d) s = Some g \<longrightarrow>
          (\<forall>k \<in> set (dict_keys (g_nodes g)). map_of (db_nodes d) (s, k) \<noteq> None))"

lemma map_of_map_vals: "map_of (map (\<lambda>(k, v). (k, f k v)) d) k = map_option (f k) (map_of d k)"
  by (induction d) auto

lemma checkpoint_nodes:
  "map_of (db_nodes (checkpoint_plan_node s k st sm inc d)) key
     = map_option (\<lambda>r. if key = (s, k) then checkpoint_row st sm inc r else r) (map_of (db_nodes d) key)"
  unfolding checkpoint_plan_node_def by (simp add: map_of_map_vals)

lemma fence_row_other: "nr_status r \<noteq> ''running'' \<Longrightarrow> fence_row r = r"
  by (simp add: fence_row_def)

lemma recover_nodes:
  assumes "wf_dict (db_nodes d)"
  shows "map_of (db_nodes (snd (recover_interrupted_plan s d))) key
     = map_option (\<lambda>r. if fst key = s then fence_row r else r) (map_of (db_nodes d) key)"
proof (cases "filter (\<lambda>(key, r). fst key = s \<and> nr_status r = ''running'') (db_nodes d) = []")
  case True
  then have "fence_row r = r" if "map_of (db_nodes d) key = Some r" "fst key = s" for r
    using that by (auto simp: filter_empty_conv intro!: fence_row_other dest!: map_of_SomeD)
  with True show ?thesis
    by (cases "map_of (db_nodes d) key") (auto simp: recover_interrupted_plan_def)
next
  case False
  then show ?thesis by (auto simp: recover_interrupted_plan_def Let_def map_of_map_vals)
qed

lemma recover_frame [simp]:
  "db_missions (snd (recover_interrupted_plan s d)) = db_missions d"
  "db_task (snd (recover_interrupted_plan s d)) = db_task d"
  "db_sessions (snd (recover_interrupted_plan s d)) = db_sessions d"
  by (simp_all add: recover_interrupted_plan_def Let_def)

lemma checkpoint_frame [simp]:
  "db_missions (checkpoint_plan_node s k st sm inc d) = db_missions d"
  "db_task (checkpoint_plan_node s k st sm inc d) = db_task d"
  "db_sessions (checkpoint_plan_node s k st sm inc d) = db_sessions d"
  by (simp_all add: checkpoint_plan_node_def)

lemma wf_checkpoint [simp]: "wf_dict (db_nodes (checkpoint_plan_node s k st sm inc d)) = wf_dict (db_nodes d)"
  by (simp add: checkpoint_plan_node_def wf_dict_map_vals)

lemma wf_recover: "wf_dict (db_nodes d) \<Longrightarrow> wf_dict (db_nodes (snd (recover_interrupted_plan s d)))"
  by (simp add: recover_interrupted_plan_def Let_def wf_dict_map_vals)

lemma good_row:
  assumes "db_good d" and "map_of (db_missions d) s = Some g" and "(k, n) \<in> set (g_nodes g)"
  obtains r where "map_of (db_nodes d) (s, k) = Some r"
  using assms unfolding db_good_def by (metis imageI fst_conv image_set not_None_eq)

lemma checkpoint_plan_load:
  assumes "db_good d"
  shows "load_plan t (checkpoint_plan_node s k st sm inc d)
    = (if t = s then map_option (set_node_status k st sm) (load_plan t d) else load_plan t d)"
proof (cases "map_of (db_missions d) t")
  case None
  then show ?thesis by (auto simp: load_plan_def)
next
  case (Some g)
  have "overlay (map_of (db_nodes (checkpoint_plan_node s k st sm inc d)) (t, x)) n
    = (if t = s \<and> x = k then (overlay (map_of (db_nodes d) (t, x)) n)\<lparr>n_status := st, n_result_summary := sm\<rparr>
       else overlay (map_of (db_nodes d) (t, x)) n)" if xn: "(x, n) \<in> set (g_nodes g)" for x n
  proof -
    obtain r where "map_of (db_nodes d) (t, x) = Some r" using good_row [OF assms Some xn] .
    then show ?thesis by (cases "t = s") (auto simp: checkpoint_nodes overlay_def checkpoint_row_def)
  qed
  then have "map (\<lambda>(x, n). (x, overlay (map_of (db_nodes (checkpoint_plan_node s k st sm inc d)) (t, x)) n)) (g_nodes g)
    = map (\<lambda>(x, n). (x, if t = s \<and> x = k then (overlay (map_of (db_nodes d) (t, x)) n)\<lparr>n_status := st, n_result_summary := sm\<rparr>
       else overlay (map_of (db_nodes d) (t, x)) n)) (g_nodes g)"
    by (intro map_cong refl) auto
  with Some show ?thesis
    by (cases "t = s") (auto simp: load_plan_def set_node_status_def comp_def case_prod_unfold)
qed

lemma recover_plan_load:
  assumes "db_good d"
  shows "load_plan t (snd (recover_interrupted_plan s d))
    = (if t = s then map_option fence_plan (load_plan t d) else load_plan t d)"
proof (cases "map_of (db_missions d) t")
  case None
  then show ?thesis by (auto simp: load_plan_def)
next
  case (Some g)
  have wf: "wf_dict (db_nodes d)" using assms by (simp add: db_good_def)
  have "overlay (map_of (db_nodes (snd (recover_interrupted_plan s d))) (t, x)) n
    = (if t = s then fence_node (overlay (map_of (db_nodes d) (t, x)) n)
       else overlay (map_of (db_nodes d) (t, x)) n)" if xn: "(x, n) \<in> set (g_nodes g)" for x n
  proof -
    obtain r where "map_of (db_nodes d) (t, x) = Some r" using good_row [OF assms Some xn] .
    then show ?thesis
      by (cases "t = s") (auto simp: recover_nodes [OF wf] overlay_def fence_row_def fence_node_def)
  qed
  then have "map (\<lambda>(x, n). (x, overlay (map_of (db_nodes (snd (recover_interrupted_plan s d))) (t, x)) n)) (g_nodes g)
    = map (\<lambda>(x, n). (x, if t = s then fence_node (overlay (map_of (db_nodes d) (t, x)) n)
       else overlay (map_of (db_nodes d) (t, x)) n)) (g_nodes g)"
    by (intro map_cong refl) auto
  with Some show ?thesis
    by (cases "t = s") (auto simp: load_plan_def fence_plan_def comp_def case_prod_unfold)
qed

lemma recover_plan_reports:
  assumes "db_good d" and "load_plan s d = Some g" and "(k, n) \<in> set (g_nodes g)" and "n_status n = ''running''"
  shows "k \<in> set (fst (recover_interrupted_plan s d))"
proof -
  from assms(2) obtain h where h: "map_of (db_missions d) s = Some h"
    and g: "g_nodes g = map (\<lambda>(k, n). (k, overlay (map_of (db_nodes d) (s, k)) n)) (g_nodes h)"
    by (auto simp: load_plan_def split: option.splits)
  from g assms(3) obtain m where m: "(k, m) \<in> set (g_nodes h)" "n = overlay (map_of (db_nodes d) (s, k)) m"
    by auto
  obtain r where r: "map_of (db_nodes d) (s, k) = Some r" using good_row [OF assms(1) h m(1)] .
  with m(2) assms(4) have "nr_status r = ''running''" by (simp add: overlay_def)
  with map_of_SomeD [OF r]
  have "((s, k), r) \<in> set (filter (\<lambda>(key, r). fst key = s \<and> nr_status r = ''running'') (db_nodes d))" by simp
  then have "k \<in> set (map (snd \<circ> fst) (filter (\<lambda>(key, r). fst key = s \<and> nr_status r = ''running'') (db_nodes d)))"
    by force
  then show ?thesis by (auto simp: recover_interrupted_plan_def Let_def filter_empty_conv)
qed

lemma db_good_checkpoint: "db_good d \<Longrightarrow> db_good (checkpoint_plan_node s k st sm inc d)"
  by (simp add: db_good_def checkpoint_nodes)

lemma db_good_recover: "db_good d \<Longrightarrow> db_good (snd (recover_interrupted_plan s d))"
  by (simp add: db_good_def recover_nodes wf_recover)

interpretation sql: durable_plan load_plan checkpoint_plan_node recover_interrupted_plan db_good
  by unfold_locales
     (auto intro: db_good_checkpoint db_good_recover recover_plan_reports
       simp only: checkpoint_plan_load recover_plan_load)

section \<open>Saving a plan\<close>

definition saved_row :: "string \<Rightarrow> plan_node \<Rightarrow> node_row option \<Rightarrow> node_row" where
  "saved_row fp n prior = (case prior of
     None \<Rightarrow> \<lparr>nr_fp = fp, nr_key = n_idempotency_key n, nr_status = ''pending'', nr_attempts = 0, nr_summary = []\<rparr>
   | Some r \<Rightarrow> r\<lparr>nr_fp := fp, nr_key := n_idempotency_key n,
       nr_status := (if nr_fp r = fp then nr_status r else ''pending'')\<rparr>)"

lemma upsert_node_rows:
  assumes "map_of existing (sid, k) = map_of (db_nodes d) (sid, k)"
  shows "map_of (db_nodes (upsert_node sid existing k fp n d))
    = (map_of (db_nodes d))((sid, k) \<mapsto> saved_row fp n (map_of (db_nodes d) (sid, k)))"
  using assms by (auto simp: upsert_node_def Let_def saved_row_def split: option.splits)

lemma upsert_frame [simp]:
  "db_missions (upsert_node sid existing k fp n d) = db_missions d"
  "db_task (upsert_node sid existing k fp n d) = db_task d"
  "db_sessions (upsert_node sid existing k fp n d) = db_sessions d"
  "wf_dict (db_nodes d) \<Longrightarrow> wf_dict (db_nodes (upsert_node sid existing k fp n d))"
  by (simp_all add: upsert_node_def Let_def)

lemma save_nodes_Inr:
  "save_nodes sid existing fps ns d changed = (d', Inr ch) \<Longrightarrow> distinct (map fst ns) \<Longrightarrow>
     (\<forall>k \<in> fst ` set ns. map_of existing (sid, k) = map_of (db_nodes d) (sid, k)) \<Longrightarrow>
     (\<forall>key. map_of (db_nodes d') key =
        (if fst key = sid \<and> snd key \<in> fst ` set ns
         then Some (saved_row (the (map_of fps (snd key))) (the (map_of ns (snd key))) (map_of (db_nodes d) key))
         else map_of (db_nodes d) key))
     \<and> ch = changed @ filter (\<lambda>k. map_option nr_fp (map_of (db_nodes d) (sid, k)) \<notin> {None, map_of fps k}) (map fst ns)
     \<and> (\<forall>k \<in> fst ` set ns. \<exists>fp. map_of fps k = Some fp \<and> fp \<noteq> [])
     \<and> db_missions d' = db_missions d \<and> db_task d' = db_task d \<and> db_sessions d' = db_sessions d
     \<and> (wf_dict (db_nodes d) \<longrightarrow> wf_dict (db_nodes d'))"
proof (induction ns arbitrary: d changed)
  case (Cons x ns)
  obtain k n where x: "x = (k, n)" by (cases x)
  from Cons.prems(1) x obtain fp where fp: "map_of fps k = Some fp" "fp \<noteq> []"
    and rest: "save_nodes sid existing fps ns (upsert_node sid existing k fp n d)
        (if map_option nr_fp (map_of existing (sid, k)) \<notin> {None, Some fp} then changed @ [k] else changed) = (d', Inr ch)"
    by (cases "map_of fps k") (auto simp: Let_def split: if_split_asm)
  have k: "k \<notin> fst ` set ns" and dist: "distinct (map fst ns)" using Cons.prems(2) x by auto
  have ex: "map_of existing (sid, k) = map_of (db_nodes d) (sid, k)" using Cons.prems(3) x by auto
  note rows = upsert_node_rows [OF ex, of fp n]
  have "\<forall>j \<in> fst ` set ns. map_of existing (sid, j) = map_of (db_nodes (upsert_node sid existing k fp n d)) (sid, j)"
    using Cons.prems(3) x k rows by auto
  note IH = Cons.IH [OF rest dist this]
  have sel: "filter (\<lambda>j. map_option nr_fp (map_of (db_nodes (upsert_node sid existing k fp n d)) (sid, j))
      \<notin> {None, map_of fps j}) (map fst ns)
    = filter (\<lambda>j. map_option nr_fp (map_of (db_nodes d) (sid, j)) \<notin> {None, map_of fps j}) (map fst ns)"
    using k rows by (intro filter_cong refl) auto
  have keys: "map_of (db_nodes d') key =
        (if fst key = sid \<and> snd key \<in> fst ` set (x # ns)
         then Some (saved_row (the (map_of fps (snd key))) (the (map_of (x # ns) (snd key))) (map_of (db_nodes d) key))
         else map_of (db_nodes d) key)" for key
    using IH k rows x fp by (cases key) auto
  from IH keys sel ex fp x show ?case by auto
qed simp

lemma map_fst_sort_key: "map fst (sort_key fst xs) = sort (map fst xs)"
proof (induction xs)
  case (Cons x xs)
  have "map fst (insort_key fst x ys) = insort (fst x) (map fst ys)" for ys :: "('a \<times> 'b) list"
    by (induction ys) auto
  with Cons show ?case by simp
qed simp

lemma canon_node_material [simp]: "node_material_of (canon_node n) = node_material_of n"
  by (simp add: node_material_of_def canon_node_def canon_criterion_def comp_def)

lemma canon_plan_keys: "dict_keys (g_nodes (canon_plan g)) = sort (dict_keys (g_nodes g))"
  by (simp add: canon_plan_def map_fst_sort_key comp_def case_prod_unfold)

lemma save_plan_Inr:
  assumes "save_plan sid g fps d = (d', Inr changed)" and "wf_dict (g_nodes g)"
  shows "(\<forall>key. map_of (db_nodes d') key =
        (if fst key = sid \<and> snd key \<in> fst ` set (g_nodes g)
         then Some (saved_row (the (map_of fps (snd key))) (the (map_of (g_nodes g) (snd key))) (map_of (db_nodes d) key))
         else map_of (db_nodes d) key))
     \<and> changed = filter (\<lambda>k. map_option nr_fp (map_of (db_nodes d) (sid, k)) \<notin> {None, map_of fps k}) (dict_keys (g_nodes g))
     \<and> (\<forall>k \<in> fst ` set (g_nodes g). \<exists>fp. map_of fps k = Some fp \<and> fp \<noteq> [])
     \<and> db_missions d' = dict_set sid (canon_plan g) (db_missions d)
     \<and> (wf_dict (db_nodes d) \<longrightarrow> wf_dict (db_nodes d'))"
proof -
  from assms(1) have sn: "save_nodes sid (db_nodes d) fps (g_nodes g)
        (d\<lparr>db_missions := dict_set sid (canon_plan g) (db_missions d)\<rparr>) [] = (d', Inr changed)"
    by (auto simp: save_plan_def split: if_split_asm)
  show ?thesis using save_nodes_Inr [OF sn assms(2) [unfolded wf_dict_def]] by simp
qed

lemma save_plan_good:
  assumes "save_plan sid g fps d = (d', Inr changed)" and "db_good d" and "wf_dict (g_nodes g)"
  shows "db_good d'"
  unfolding db_good_def
proof (intro conjI allI impI ballI)
  note s = save_plan_Inr [OF assms(1,3)]
  show "wf_dict (db_nodes d')" using s assms(2) by (simp add: db_good_def)
  fix t h k
  assume h: "map_of (db_missions d') t = Some h" and k: "k \<in> set (dict_keys (g_nodes h))"
  show "map_of (db_nodes d') (t, k) \<noteq> None"
  proof (cases "t = sid")
    case True
    with h s have "h = canon_plan g" by simp
    with k canon_plan_keys [of g] have "k \<in> fst ` set (g_nodes g)" by (metis image_set set_sort)
    with True s show ?thesis by simp
  next
    case False
    with h s have "map_of (db_missions d) t = Some h" by simp
    with assms(2) k have "map_of (db_nodes d) (t, k) \<noteq> None" by (auto simp: db_good_def)
    with False s show ?thesis by simp
  qed
qed

text \<open>
  C37: Saving a plan never carries an old approval over to a changed action: afterwards a node has
  its former status only if its material fingerprint is the one stored before; a new or changed
  node is pending, and the changed ones are reported. What is then loaded is the saved plan, in
  key order, with these statuses; plans of other sessions are untouched.
\<close>
theorem save_plan_material:
  assumes "save_plan sid g fps d = (d', Inr changed)" and "db_good d" and "wf_dict (g_nodes g)"
  shows "db_good d' \<and> (\<forall>t. t \<noteq> sid \<longrightarrow> load_plan t d' = load_plan t d)
    \<and> changed = filter (\<lambda>k. map_option nr_fp (map_of (db_nodes d) (sid, k)) \<notin> {None, map_of fps k}) (dict_keys (g_nodes g))
    \<and> (\<exists>h. load_plan sid d' = Some h \<and> dict_keys (g_nodes h) = sort (dict_keys (g_nodes g))
        \<and> (\<forall>k n. map_of (g_nodes g) k = Some n \<longrightarrow>
            (\<exists>m. map_of (g_nodes h) k = Some m \<and> node_material_of m = node_material_of n
               \<and> n_depends_on m = n_depends_on n
               \<and> n_status m = (case map_of (db_nodes d) (sid, k) of
                    Some r \<Rightarrow> if map_of fps k = Some (nr_fp r) then nr_status r else ''pending''
                  | None \<Rightarrow> ''pending'')))) "
proof -
  note s = save_plan_Inr [OF assms(1,3)]
  note ck = canon_plan_keys [of g]
  have cset: "set (g_nodes (canon_plan g)) = (\<lambda>(k, n). (k, canon_node n)) ` set (g_nodes g)"
    by (simp add: canon_plan_def)
  have others: "load_plan t d' = load_plan t d" if t: "t \<noteq> sid" for t
  proof -
    have "map_of (db_nodes d') (t, k) = map_of (db_nodes d) (t, k)" for k
      using conjunct1 [OF s] t by simp
    moreover have "map_of (db_missions d') t = map_of (db_missions d) t" using s t by simp
    ultimately show ?thesis by (simp add: load_plan_def split: option.split)
  qed
  define h where "h = (canon_plan g)\<lparr>g_nodes :=
     map (\<lambda>(k, n). (k, overlay (map_of (db_nodes d') (sid, k)) n)) (g_nodes (canon_plan g))\<rparr>"
  have hl: "load_plan sid d' = Some h" using s by (simp add: load_plan_def h_def)
  have hk: "dict_keys (g_nodes h) = sort (dict_keys (g_nodes g))"
    by (simp add: h_def comp_def case_prod_unfold) (simp add: ck)
  have wfc: "wf_dict (g_nodes (canon_plan g))"
    using assms(3) ck by (simp add: wf_dict_def)
  have node: "\<exists>m. map_of (g_nodes h) k = Some m \<and> node_material_of m = node_material_of n
               \<and> n_depends_on m = n_depends_on n
               \<and> n_status m = (case map_of (db_nodes d) (sid, k) of
                    Some r \<Rightarrow> if map_of fps k = Some (nr_fp r) then nr_status r else ''pending''
                  | None \<Rightarrow> ''pending'')" if n: "map_of (g_nodes g) k = Some n" for k n
  proof -
    from n have "(k, canon_node n) \<in> set (g_nodes (canon_plan g))"
      unfolding cset by (force dest: map_of_SomeD)
    with wfc have c: "map_of (g_nodes (canon_plan g)) k = Some (canon_node n)" by (rule dict_get_in)
    from n have kin: "k \<in> fst ` set (g_nodes g)" by (force dest: map_of_SomeD)
    with s obtain fp where fp: "map_of fps k = Some fp" by blast
    from s kin n fp have row: "map_of (db_nodes d') (sid, k) = Some (saved_row fp n (map_of (db_nodes d) (sid, k)))"
      by simp
    have "map_of (g_nodes h) k = Some (overlay (map_of (db_nodes d') (sid, k)) (canon_node n))"
      using c by (simp add: h_def map_of_map_vals)
    with row fp show ?thesis
      by (auto simp: overlay_def saved_row_def node_material_of_def canon_node_def canon_criterion_def comp_def
          split: option.splits)
  qed
  from s have ch: "changed = filter (\<lambda>k. map_option nr_fp (map_of (db_nodes d) (sid, k)) \<notin> {None, map_of fps k})
      (dict_keys (g_nodes g))" by simp
  show ?thesis
    using save_plan_good [OF assms] others ch hl hk node by blast
qed

text \<open>
  C36: A node that was running when the process died is fenced: recovery reports it and the plan
  next loaded shows it as needing review, never as running or pending, whatever the other tables
  hold; a second recovery changes nothing, and other sessions are untouched.
\<close>
theorem interrupted_node_fenced:
  assumes "db_good d" and "load_plan sid d = Some g" and "(k, n) \<in> set (g_nodes g)"
  shows "\<exists>ids d' g' n'. recover_interrupted_plan sid (checkpoint_plan_node sid k ''running'' sm inc d) = (ids, d')
    \<and> k \<in> set ids \<and> load_plan sid d' = Some g' \<and> (k, n') \<in> set (g_nodes g') \<and> n_status n' = ''needs_review''
    \<and> (\<forall>(j, m) \<in> set (g_nodes g'). n_status m \<noteq> ''running'')
    \<and> load_plan sid (snd (recover_interrupted_plan sid d')) = load_plan sid d'
    \<and> (\<forall>t. t \<noteq> sid \<longrightarrow> load_plan t d' = load_plan t d)"
proof -
  let ?c = "checkpoint_plan_node sid k ''running'' sm inc d"
  have good: "db_good ?c" by (rule db_good_checkpoint [OF assms(1)])
  obtain ids d' where r: "recover_interrupted_plan sid ?c = (ids, d')" by fastforce
  from sql.running_is_fenced [OF assms, of sm inc] r obtain g' n' where
    g: "load_plan sid d' = Some g'" "(k, n') \<in> set (g_nodes g')" "n_status n' = ''needs_review''" "k \<in> set ids"
    by auto
  have "n_status m \<noteq> ''running''" if "(j, m) \<in> set (g_nodes g')" for j m
    using sql.recovered_not_running [OF good, of sid g' j m] g(1) r that by simp
  moreover have "load_plan sid (snd (recover_interrupted_plan sid d')) = load_plan sid d'"
    using sql.recover_twice [OF good, of sid sid] r by simp
  moreover have "load_plan t d' = load_plan t d" if "t \<noteq> sid" for t
    using sql.other_sessions [OF assms(1) that] r by (metis snd_conv)
  ultimately show ?thesis using r g by blast
qed

definition sample_db :: "unit db" where
  "sample_db = \<lparr>db_sessions = [\<lparr>sn_id = ''s1'', sn_goal = [], sn_focus = [], sn_status = ''active''\<rparr>],
     db_missions = [], db_nodes = [], db_task = []\<rparr>"

definition sample_saved :: "unit db" where
  "sample_saved = fst (save_plan ''s1'' sample_graph [(''report'', ''f1''), (''scan'', ''f2'')] sample_db)"

lemma sample_save: "save_plan ''s1'' sample_graph [(''report'', ''f1''), (''scan'', ''f2'')] sample_db = (sample_saved, Inr [])"
  unfolding sample_saved_def by code_simp

lemma sample_db_good: "db_good sample_db"
  by (simp add: db_good_def sample_db_def)

theorem save_plan_material_witness: "db_good sample_saved \<and> load_plan ''s1'' sample_saved \<noteq> None"
  using save_plan_material [OF sample_save sample_db_good sample_graph_wf] by auto

theorem interrupted_node_fenced_witness:
  "\<exists>ids d'. recover_interrupted_plan ''s1'' (checkpoint_plan_node ''s1'' ''scan'' ''running'' [] True sample_saved)
     = (ids, d') \<and> ''scan'' \<in> set ids"
proof -
  obtain g where g: "load_plan ''s1'' sample_saved = Some g" "dict_keys (g_nodes g) = [''report'', ''scan'']"
    by (rule that [of "the (load_plan ''s1'' sample_saved)"]) code_simp+
  then obtain n where "(''scan'', n) \<in> set (g_nodes g)" by (auto simp: map_eq_Cons_conv)
  moreover have "db_good sample_saved"
    by (rule save_plan_good [OF sample_save sample_db_good sample_graph_wf])
  ultimately show ?thesis using interrupted_node_fenced [of sample_saved "''s1''" g "''scan''" n "[]" True] g(1)
    by blast
qed

end
