(* ===== verification/NetScope.thy ===== *)
theory NetScope
  imports Prelude
begin

text \<open>
  The engagement scope of \<open>governance/scope.py\<close>: an allowlist of networks, hosts and wildcard
  domains. What it uses of the standard library is modelled with it: \<open>ipaddress\<close> (IPv4 and IPv6
  addresses, prefixes, netmasks and host masks) and the host part of \<open>urllib.parse.urlparse\<close>.
  The lemmas show that the scope denies by default, that admitting a network admits each of its
  addresses, and that entries only ever widen it.
\<close>

section \<open>Addresses\<close>

definition all_digits :: "string \<Rightarrow> bool" where
  "all_digits s = (s \<noteq> [] \<and> list_all is_dec s)"

definition parse_octet :: "string \<Rightarrow> int option" where
  "parse_octet s =
     (if all_digits s \<and> length s \<le> 3 \<and> (s = ''0'' \<or> hd s \<noteq> CHR ''0'') \<and> read_int s \<le> 255
      then Some (read_int s) else None)"

definition parse_ip4 :: "string \<Rightarrow> int option" where
  "parse_ip4 s = (case map parse_octet (split_on CHR ''.'' s) of
     [Some a, Some b, Some c, Some d] \<Rightarrow> Some (((a * 256 + b) * 256 + c) * 256 + d)
   | _ \<Rightarrow> None)"

definition hex_digit :: "char \<Rightarrow> nat option" where
  "hex_digit c = (let n = code_point c in
     if 48 \<le> n \<and> n \<le> 57 then Some (n - 48)
     else if 97 \<le> n \<and> n \<le> 102 then Some (n - 87)
     else if 65 \<le> n \<and> n \<le> 70 then Some (n - 55) else None)"

definition parse_hextet :: "string \<Rightarrow> int option" where
  "parse_hextet s =
     (if s \<noteq> [] \<and> length s \<le> 4 \<and> list_all (\<lambda>c. hex_digit c \<noteq> None) s
      then Some (foldl (\<lambda>n c. 16 * n + int (the (hex_digit c))) 0 s) else None)"

text \<open>\<open>'%x' % n\<close>.\<close>

definition hex_char :: "int \<Rightarrow> char" where
  "hex_char k = char_of (nat (if k < 10 then 48 + k else 87 + k))"

text \<open>Four digits at most, without leading zeros.\<close>

definition show_hex :: "int \<Rightarrow> string" where
  "show_hex n = (let ds = map (\<lambda>i. hex_char (n div 16 ^ i mod 16)) [3, 2, 1, 0]
     in if n = 0 then ''0'' else dropWhile (\<lambda>c. c = CHR ''0'') ds)"

text \<open>The groups of an IPv6 text; a dotted last group stands for two.\<close>

definition ip6_groups :: "string \<Rightarrow> string list option" where
  "ip6_groups s =
     (let parts = split_on CHR '':'' s in
      if s = [] \<or> length parts < 3 then None
      else if CHR ''.'' \<in> set (last parts) then
        (case parse_ip4 (last parts) of
           None \<Rightarrow> None
         | Some v \<Rightarrow> Some (butlast parts @ [show_hex (v div 65536), show_hex (v mod 65536)]))
      else Some parts)"

fun read_groups :: "string list \<Rightarrow> int \<Rightarrow> int option" where
  "read_groups [] acc = Some acc"
| "read_groups (g # gs) acc = (case parse_hextet g of None \<Rightarrow> None | Some v \<Rightarrow> read_groups gs (acc * 65536 + v))"

definition inner_gaps :: "string list \<Rightarrow> nat list" where
  "inner_gaps parts = filter (\<lambda>i. parts ! i = []) [1 ..< length parts - 1]"

definition parse_ip6_int :: "string \<Rightarrow> int option" where
  "parse_ip6_int s = (case ip6_groups s of None \<Rightarrow> None | Some parts \<Rightarrow>
     if 9 < length parts then None
     else (case inner_gaps parts of
         [] \<Rightarrow> if length parts \<noteq> 8 \<or> hd parts = [] \<or> last parts = [] then None else read_groups parts 0
       | [k] \<Rightarrow>
           (let hi = (if hd parts = [] then k - 1 else k);
                lo = (if last parts = [] then length parts - k - 2 else length parts - k - 1) in
            if hd parts = [] \<and> hi \<noteq> 0 \<or> last parts = [] \<and> lo \<noteq> 0 \<or> 8 \<le> hi + lo then None
            else (case read_groups (take hi parts) 0 of None \<Rightarrow> None
                | Some v \<Rightarrow> read_groups (drop (length parts - lo) parts) (v * 65536 ^ (8 - (hi + lo)))))
       | _ \<Rightarrow> None))"

text \<open>\<open>s.partition(c)\<close>, without the separator.\<close>

definition before :: "char \<Rightarrow> string \<Rightarrow> string" where
  "before c s = takeWhile (\<lambda>x. x \<noteq> c) s"

definition after :: "char \<Rightarrow> string \<Rightarrow> string" where
  "after c s = tl (dropWhile (\<lambda>x. x \<noteq> c) s)"

definition after_last :: "char \<Rightarrow> string \<Rightarrow> string" where
  "after_last c s = last (split_on c s)"

text \<open>An address: the version, the number, and an IPv6 scope id.\<close>

record ip_addr =
  ip_six :: bool
  ip_num :: int
  ip_scope :: "string option"

definition parse_addr4 :: "string \<Rightarrow> ip_addr option" where
  "parse_addr4 s = map_option (\<lambda>v. \<lparr>ip_six = False, ip_num = v, ip_scope = None\<rparr>) (parse_ip4 s)"

definition parse_addr6 :: "string \<Rightarrow> ip_addr option" where
  "parse_addr6 s =
     (if CHR ''/'' \<in> set s then None
      else if CHR ''%'' \<notin> set s then
        map_option (\<lambda>v. \<lparr>ip_six = True, ip_num = v, ip_scope = None\<rparr>) (parse_ip6_int s)
      else let zone = after CHR ''%'' s in
        if zone = [] \<or> CHR ''%'' \<in> set zone then None
        else map_option (\<lambda>v. \<lparr>ip_six = True, ip_num = v, ip_scope = Some zone\<rparr>)
          (parse_ip6_int (before CHR ''%'' s)))"

definition ip_address :: "string \<Rightarrow> ip_addr option" where
  "ip_address s = (case parse_addr4 s of Some a \<Rightarrow> Some a | None \<Rightarrow> parse_addr6 s)"

section \<open>Networks\<close>

record ip_net =
  nt_six :: bool
  nt_base :: int
  nt_prefix :: nat
  nt_scope :: "string option"

definition addr_bits :: "bool \<Rightarrow> nat" where
  "addr_bits six = (if six then 128 else 32)"

text \<open>The number of addresses of a network, and the base with the host bits cleared.\<close>

definition block_size :: "bool \<Rightarrow> nat \<Rightarrow> int" where
  "block_size six p = 2 ^ (addr_bits six - p)"

definition clear_host :: "bool \<Rightarrow> nat \<Rightarrow> int \<Rightarrow> int" where
  "clear_host six p v = v div block_size six p * block_size six p"

definition make_net :: "ip_addr \<Rightarrow> nat \<Rightarrow> ip_net" where
  "make_net a p =
     \<lparr>nt_six = ip_six a, nt_base = clear_host (ip_six a) p (ip_num a), nt_prefix = p,
      nt_scope = (if clear_host (ip_six a) p (ip_num a) = ip_num a then ip_scope a else None)\<rparr>"

definition prefix_text :: "bool \<Rightarrow> string \<Rightarrow> nat option" where
  "prefix_text six s =
     (if all_digits s \<and> read_int s \<le> int (addr_bits six) then Some (nat (read_int s)) else None)"

text \<open>A dotted netmask, or failing that a host mask.\<close>

definition mask_prefix :: "int \<Rightarrow> nat option" where
  "mask_prefix v = find (\<lambda>p. v = 2 ^ 32 - 2 ^ (32 - p)) [0 ..< 33]"

definition mask_text :: "string \<Rightarrow> nat option" where
  "mask_text s = (case parse_ip4 s of None \<Rightarrow> None
     | Some v \<Rightarrow> (case mask_prefix v of Some p \<Rightarrow> Some p | None \<Rightarrow> mask_prefix (2 ^ 32 - 1 - v)))"

definition net4 :: "string list \<Rightarrow> ip_net option" where
  "net4 parts = (case parts of
     [a] \<Rightarrow> map_option (\<lambda>x. make_net x 32) (parse_addr4 a)
   | [a, m] \<Rightarrow> (case parse_addr4 a of None \<Rightarrow> None
       | Some x \<Rightarrow> (case prefix_text False m of
             Some p \<Rightarrow> Some (make_net x p)
           | None \<Rightarrow> map_option (make_net x) (mask_text m)))
   | _ \<Rightarrow> None)"

definition net6 :: "string list \<Rightarrow> ip_net option" where
  "net6 parts = (case parts of
     [a] \<Rightarrow> map_option (\<lambda>x. make_net x 128) (parse_addr6 a)
   | [a, m] \<Rightarrow> (case parse_addr6 a of None \<Rightarrow> None
       | Some x \<Rightarrow> map_option (make_net x) (prefix_text True m))
   | _ \<Rightarrow> None)"

definition ip_network :: "string \<Rightarrow> ip_net option" where
  "ip_network s =
     (let parts = split_on CHR ''/'' s in
      case net4 parts of Some n \<Rightarrow> Some n | None \<Rightarrow> net6 parts)"

definition in_net :: "ip_addr \<Rightarrow> ip_net \<Rightarrow> bool" where
  "in_net a n = (ip_six a = nt_six n \<and> clear_host (nt_six n) (nt_prefix n) (ip_num a) = nt_base n)"

definition net_last :: "ip_net \<Rightarrow> int" where
  "net_last n = nt_base n + block_size (nt_six n) (nt_prefix n) - 1"

text \<open>\<open>subnet_of\<close> compares addresses, and an equal number with another scope id is not equal.\<close>

definition subnet_of :: "ip_net \<Rightarrow> ip_net \<Rightarrow> bool" where
  "subnet_of n a =
     ((nt_base a < nt_base n \<or> nt_base a = nt_base n \<and> nt_scope a = nt_scope n) \<and> net_last n \<le> net_last a)"

section \<open>The host part of a URL\<close>

definition is_ascii_alpha :: "char \<Rightarrow> bool" where
  "is_ascii_alpha c = (let n = code_point c in 65 \<le> n \<and> n \<le> 90 \<or> 97 \<le> n \<and> n \<le> 122)"

definition scheme_char :: "char \<Rightarrow> bool" where
  "scheme_char c = (is_ascii_alpha c \<or> is_dec c \<or> c = CHR ''+'' \<or> c = CHR ''-'' \<or> c = CHR ''.'')"

definition strip_scheme :: "string \<Rightarrow> string" where
  "strip_scheme u =
     (let s = before CHR '':'' u in
      if CHR '':'' \<in> set u \<and> s \<noteq> [] \<and> is_ascii_alpha (hd s) \<and> list_all scheme_char s
      then after CHR '':'' u else u)"

definition url_netloc :: "string \<Rightarrow> string" where
  "url_netloc target =
     (let u = filter (\<lambda>c. code_point c \<notin> {9, 10, 13}) (dropWhile (\<lambda>c. code_point c \<le> 32) target);
          rest = strip_scheme u in
      if starts_with rest ''//'' then takeWhile (\<lambda>c. c \<notin> set ''/?#'') (drop 2 rest) else [])"

text \<open>The check of a bracketed host: an IPvFuture text or an IPv6 address.\<close>

definition bracket_ok :: "string \<Rightarrow> bool" where
  "bracket_ok h =
     (if starts_with h ''v'' then
        (let v = tl h in CHR ''.'' \<in> set v \<and> before CHR ''.'' v \<noteq> [] \<and> after CHR ''.'' v \<noteq> []
          \<and> list_all (\<lambda>c. hex_digit c \<noteq> None) (before CHR ''.'' v))
      else (case ip_address h of None \<Rightarrow> False | Some a \<Rightarrow> ip_six a))"

definition url_hostname :: "string \<Rightarrow> string res" where
  "url_hostname target =
     (let n = url_netloc target; info = after_last CHR ''@'' n in
      res_bind (ensure ((CHR ''['' \<in> set n) = (CHR '']'' \<in> set n)) (ValueError ''Invalid IPv6 URL'')) (\<lambda>_.
      res_bind (ensure (CHR ''['' \<in> set n \<longrightarrow> bracket_ok (before CHR '']'' (after CHR ''['' n)))
                  (ValueError ''An IPv4 address cannot be in brackets'')) (\<lambda>_.
        let host = (if CHR ''['' \<in> set info then before CHR '']'' (after CHR ''['' info)
                    else before CHR '':'' info) in
        Inr (lower (before CHR ''%'' host) @ drop (length (before CHR ''%'' host)) host))))"

section \<open>The scope policy\<close>

record scope_policy =
  sc_all :: bool
  sc_networks :: "ip_net list"
  sc_hosts :: "string list"
  sc_domains :: "string list"

definition empty_scope :: scope_policy where
  "empty_scope = \<lparr>sc_all = False, sc_networks = [], sc_hosts = [], sc_domains = []\<rparr>"

definition scope_add :: "string \<Rightarrow> scope_policy \<Rightarrow> scope_policy" where
  "scope_add raw s =
     (let entry = strip raw in
      if entry = [] then s
      else (case ip_network entry of
          Some n \<Rightarrow> s\<lparr>sc_networks := sc_networks s @ [n]\<rparr>
        | None \<Rightarrow>
            if starts_with entry ''*.'' then s\<lparr>sc_domains := List.insert (lower (drop 2 entry)) (sc_domains s)\<rparr>
            else s\<lparr>sc_hosts := List.insert (lower entry) (sc_hosts s)\<rparr>))"

definition make_scope :: "string list \<Rightarrow> scope_policy" where
  "make_scope entries = fold scope_add entries empty_scope"

definition extract_host :: "string \<Rightarrow> string res" where
  "extract_host target =
     (let t = strip target in
      if has_sub t ''://'' then res_bind (url_hostname t) (\<lambda>h. Inr (strip h))
      else if count_list t CHR '':'' = 1 \<and> CHR ''/'' \<notin> set t then Inr (before CHR '':'' t)
      else Inr t)"

definition host_admitted :: "scope_policy \<Rightarrow> string \<Rightarrow> bool" where
  "host_admitted s host =
     (if host = [] then False
      else (case ip_address host of
          Some a \<Rightarrow> list_ex (in_net a) (sc_networks s)
        | None \<Rightarrow> (case ip_network host of
              Some n \<Rightarrow> list_ex (\<lambda>a. nt_six a = nt_six n \<and> subnet_of n a) (sc_networks s)
            | None \<Rightarrow> (let h = lower host in
                h \<in> set (sc_hosts s) \<or> list_ex (\<lambda>d. h = d \<or> ends_with h (CHR ''.'' # d)) (sc_domains s)))))"

definition is_in_scope :: "scope_policy \<Rightarrow> string \<Rightarrow> bool res" where
  "is_in_scope s target =
     (if sc_all s then Inr True
      else res_bind (extract_host target) (\<lambda>host. Inr (host_admitted s host)))"

section \<open>What the scope admits\<close>

text \<open>An entry, as it was given, covers a host.\<close>

definition entry_covers :: "string \<Rightarrow> string \<Rightarrow> bool" where
  "entry_covers entry h \<longleftrightarrow> entry \<noteq> [] \<and>
     (case ip_network entry of
        Some n \<Rightarrow> (case ip_address h of
            Some a \<Rightarrow> in_net a n
          | None \<Rightarrow> (case ip_network h of Some m \<Rightarrow> nt_six n = nt_six m \<and> subnet_of m n | None \<Rightarrow> False))
      | None \<Rightarrow> ip_address h = None \<and> ip_network h = None \<and>
          (if starts_with entry ''*.''
           then lower h = lower (drop 2 entry) \<or> ends_with (lower h) (CHR ''.'' # lower (drop 2 entry))
           else lower h = lower entry))"

lemma scope_add_sets:
  "sc_all (scope_add raw s) = sc_all s"
  "set (sc_networks (scope_add raw s)) = set (sc_networks s)
     \<union> (if strip raw = [] then {} else set_option (ip_network (strip raw)))"
  "set (sc_hosts (scope_add raw s)) = set (sc_hosts s)
     \<union> (if strip raw \<noteq> [] \<and> ip_network (strip raw) = None \<and> \<not> starts_with (strip raw) ''*.''
        then {lower (strip raw)} else {})"
  "set (sc_domains (scope_add raw s)) = set (sc_domains s)
     \<union> (if strip raw \<noteq> [] \<and> ip_network (strip raw) = None \<and> starts_with (strip raw) ''*.''
        then {lower (drop 2 (strip raw))} else {})"
  by (auto simp: scope_add_def Let_def split: option.splits)

lemma fold_scope_add:
  "sc_all (fold scope_add es s) = sc_all s"
  "set (sc_networks (fold scope_add es s)) = set (sc_networks s)
     \<union> {n. \<exists>e \<in> set es. strip e \<noteq> [] \<and> ip_network (strip e) = Some n}"
  "set (sc_hosts (fold scope_add es s)) = set (sc_hosts s)
     \<union> {lower (strip e) |e. e \<in> set es \<and> strip e \<noteq> [] \<and> ip_network (strip e) = None
          \<and> \<not> starts_with (strip e) ''*.''}"
  "set (sc_domains (fold scope_add es s)) = set (sc_domains s)
     \<union> {lower (drop 2 (strip e)) |e. e \<in> set es \<and> strip e \<noteq> [] \<and> ip_network (strip e) = None
          \<and> starts_with (strip e) ''*.''}"
  by (induction es arbitrary: s) (auto simp: scope_add_sets split: if_split_asm)

lemma make_scope_sets:
  "sc_all (make_scope es) = False"
  "set (sc_networks (make_scope es)) = {n. \<exists>e \<in> set es. strip e \<noteq> [] \<and> ip_network (strip e) = Some n}"
  "set (sc_hosts (make_scope es)) = {lower (strip e) |e. e \<in> set es \<and> strip e \<noteq> []
      \<and> ip_network (strip e) = None \<and> \<not> starts_with (strip e) ''*.''}"
  "set (sc_domains (make_scope es)) = {lower (drop 2 (strip e)) |e. e \<in> set es \<and> strip e \<noteq> []
      \<and> ip_network (strip e) = None \<and> starts_with (strip e) ''*.''}"
  by (simp_all add: make_scope_def fold_scope_add empty_scope_def)

lemma host_admitted_iff:
  "host_admitted (make_scope es) h \<longleftrightarrow> h \<noteq> [] \<and> (\<exists>e \<in> set es. entry_covers (strip e) h)"
proof (cases "ip_address h")
  case (Some a)
  then show ?thesis
    by (auto simp: host_admitted_def list_ex_iff make_scope_sets entry_covers_def split: option.splits)
next
  case None
  show ?thesis
  proof (cases "ip_network h")
    case (Some m)
    with None show ?thesis
      by (auto simp: host_admitted_def list_ex_iff make_scope_sets entry_covers_def split: option.splits)
  next
    case none: None
    have "host_admitted (make_scope es) h \<longleftrightarrow> h \<noteq> [] \<and> (lower h \<in> set (sc_hosts (make_scope es))
        \<or> (\<exists>d \<in> set (sc_domains (make_scope es)). lower h = d \<or> ends_with (lower h) (CHR ''.'' # d)))"
      using None none by (auto simp: host_admitted_def list_ex_iff Let_def)
    then show ?thesis
      unfolding make_scope_sets entry_covers_def using None none
      by (auto split: option.splits if_splits)
  qed
qed

text \<open>
  An engagement scope denies by default: a target is in scope exactly when its host part is not
  empty and one of the given entries covers it, as a member or subnet of a listed network, as a
  listed host, or as a name under a listed wildcard domain. An empty scope admits nothing.
\<close>
theorem scope_admits_listed:
  "is_in_scope (make_scope entries) target = Inr True
     \<longleftrightarrow> (\<exists>h. extract_host target = Inr h \<and> h \<noteq> [] \<and> (\<exists>e \<in> set entries. entry_covers (strip e) h))"
  by (auto simp: is_in_scope_def make_scope_sets host_admitted_iff res_bind_eq_Inr)

text \<open>Networks with their host bits cleared are intervals of addresses.\<close>

definition net_ok :: "ip_net \<Rightarrow> bool" where
  "net_ok n \<longleftrightarrow> (\<exists>q. nt_base n = q * block_size (nt_six n) (nt_prefix n))"

lemma block_size_pos [simp]: "0 < block_size six p"
  by (simp add: block_size_def)

lemma make_net_ok: "net_ok (make_net a p)"
  by (auto simp: net_ok_def make_net_def clear_host_def)

lemma ip_network_ok: "ip_network s = Some n \<Longrightarrow> net_ok n"
  by (auto simp: ip_network_def net4_def net6_def Let_def make_net_ok split: list.splits option.splits)

lemma in_net_interval:
  assumes "net_ok n"
  shows "in_net a n \<longleftrightarrow> ip_six a = nt_six n \<and> nt_base n \<le> ip_num a \<and> ip_num a \<le> net_last n"
proof -
  obtain q where q: "nt_base n = q * block_size (nt_six n) (nt_prefix n)" using assms by (auto simp: net_ok_def)
  let ?b = "block_size (nt_six n) (nt_prefix n)"
  have b: "0 < ?b" by simp
  then have nz: "?b \<noteq> 0" by linarith
  have "clear_host (nt_six n) (nt_prefix n) (ip_num a) = nt_base n \<longleftrightarrow> ip_num a div ?b = q"
    unfolding clear_host_def q using nz by simp
  also have "\<dots> \<longleftrightarrow> q * ?b \<le> ip_num a \<and> ip_num a < q * ?b + ?b"
  proof
    assume "ip_num a div ?b = q"
    then have "ip_num a = ?b * q + ip_num a mod ?b" using mult_div_mod_eq [of ?b "ip_num a"] by simp
    then have "ip_num a = q * ?b + ip_num a mod ?b" by (simp only: mult.commute)
    with pos_mod_sign [OF b, of "ip_num a"] pos_mod_bound [OF b, of "ip_num a"]
    show "q * ?b \<le> ip_num a \<and> ip_num a < q * ?b + ?b" by linarith
  next
    assume "q * ?b \<le> ip_num a \<and> ip_num a < q * ?b + ?b"
    then show "ip_num a div ?b = q"
      by (intro int_div_pos_eq [of _ _ _ "ip_num a - q * ?b"]) (auto simp: mult.commute)
  qed
  finally show ?thesis by (auto simp: in_net_def net_last_def q)
qed

text \<open>
  Admitting a network target admits nothing beyond the allowlist: every single address of an
  admitted network lies in one of the listed networks, so it would be admitted on its own.
\<close>
theorem scope_network_sound:
  assumes "is_in_scope (make_scope entries) target = Inr True" and "extract_host target = Inr h"
    and "ip_address h = None" and "ip_network h = Some m" and "in_net a m"
  shows "\<exists>e \<in> set entries. \<exists>n. ip_network (strip e) = Some n \<and> in_net a n"
proof -
  from assms(1,2) obtain e where e: "e \<in> set entries" "entry_covers (strip e) h"
    by (auto simp: is_in_scope_def make_scope_sets host_admitted_iff res_bind_eq_Inr)
  with assms(3,4) obtain n where n: "ip_network (strip e) = Some n" "nt_six n = nt_six m" "subnet_of m n"
    by (auto simp: entry_covers_def split: option.splits)
  have "in_net a n"
    using assms(5) n(2,3) ip_network_ok [OF assms(4)] ip_network_ok [OF n(1)]
    by (auto simp: in_net_interval subnet_of_def)
  with e(1) n(1) show ?thesis by blast
qed

theorem scope_network_sound_witness:
  "\<exists>n. ip_network ''10.0.0.0/8'' = Some n \<and> in_net \<lparr>ip_six = False, ip_num = 167837953, ip_scope = None\<rparr> n"
proof -
  have a: "is_in_scope (make_scope [''10.0.0.0/8'']) ''10.1.0.0/16'' = Inr True" by code_simp
  have b: "extract_host ''10.1.0.0/16'' = Inr ''10.1.0.0/16''" "ip_address ''10.1.0.0/16'' = None" by code_simp+
  have c: "ip_network ''10.1.0.0/16'' = Some \<lparr>nt_six = False, nt_base = 167837696, nt_prefix = 16, nt_scope = None\<rparr>"
    by code_simp
  have d: "in_net \<lparr>ip_six = False, ip_num = 167837953, ip_scope = None\<rparr>
      \<lparr>nt_six = False, nt_base = 167837696, nt_prefix = 16, nt_scope = None\<rparr>" by code_simp
  have "strip ''10.0.0.0/8'' = ''10.0.0.0/8''" by code_simp
  with scope_network_sound [OF a b(1,2) c d] show ?thesis by auto
qed

text \<open>
  A target that is not a URL is taken whole as its host, so a wildcard entry also covers a foreign
  host followed by a path that ends in the listed domain.
\<close>

lemma wildcard_covers_foreign_path:
  "is_in_scope (make_scope [''*.example.com'']) ''evil.net/.example.com'' = Inr True"
  by code_simp

end
