(* ===== verification/HostPolicy.thy ===== *)
theory HostPolicy
  imports Risk NetScope "HOL-Library.Sublist"
begin

text \<open>
  The host-control policies of \<open>hostcontrol/policy.py\<close>: permission modes, the filesystem
  allowlist, and the command policy that types a command as READ, WRITE or DESTRUCTIVE and refuses
  shell constructs. The file system is a parameter: \<open>resolve\<close> gives the components of a resolved
  path (\<open>None\<close> where resolution raises \<open>OSError\<close>), \<open>out_path\<close> the normalised path of an output
  argument under the command's working directory. An argument vector is a list of strings.
\<close>

section \<open>Modes\<close>

datatype permission_mode = PlanMode | AskMode | AutoMode

datatype mode_decision = Allow | Approve | Deny

fun resolve_mode_decision :: "permission_mode \<Rightarrow> risk_level \<Rightarrow> mode_decision" where
  "resolve_mode_decision PlanMode risk = Deny"
| "resolve_mode_decision mode Read = Allow"
| "resolve_mode_decision mode Destructive = Approve"
| "resolve_mode_decision mode Write = (if mode = AutoMode then Allow else Approve)"

section \<open>Filesystem scope\<close>

type_synonym path = "string list"

record fs_scope =
  fs_read :: "path list"
  fs_write :: "path list"

fun resolve_roots :: "(string \<Rightarrow> path option) \<Rightarrow> string list \<Rightarrow> path list" where
  "resolve_roots resolve [] = []"
| "resolve_roots resolve (r # rs) = (case resolve r of
     None \<Rightarrow> resolve_roots resolve rs | Some p \<Rightarrow> p # resolve_roots resolve rs)"

definition make_fs_scope :: "(string \<Rightarrow> path option) \<Rightarrow> string list \<Rightarrow> string list \<Rightarrow> fs_scope" where
  "make_fs_scope resolve reads writes =
     \<lparr>fs_read = resolve_roots resolve reads, fs_write = resolve_roots resolve writes\<rparr>"

definition path_within :: "(string \<Rightarrow> path option) \<Rightarrow> string \<Rightarrow> path list \<Rightarrow> bool" where
  "path_within resolve p roots = (case resolve p of None \<Rightarrow> False | Some q \<Rightarrow> list_ex (\<lambda>r. prefix r q) roots)"

definition fs_allows :: "(string \<Rightarrow> path option) \<Rightarrow> fs_scope \<Rightarrow> string \<Rightarrow> bool \<Rightarrow> bool" where
  "fs_allows resolve s p write =
     (if write then path_within resolve p (fs_write s)
      else path_within resolve p (fs_read s) \<or> path_within resolve p (fs_write s))"

definition fs_check :: "(string \<Rightarrow> path option) \<Rightarrow> fs_scope \<Rightarrow> string \<Rightarrow> bool \<Rightarrow> unit res" where
  "fs_check resolve s p write =
     ensure (fs_allows resolve s p write)
       (ScopeViolation (''path '' @ quoted p @ '' is outside the authorized ''
          @ (if write then ''write'' else ''read'') @ '' scope''))"

definition fs_is_empty :: "fs_scope \<Rightarrow> bool" where
  "fs_is_empty s = (fs_read s = [] \<and> fs_write s = [])"

section \<open>Tables\<close>

definition destructive_binaries :: "string list" where
  "destructive_binaries = [''rm'', ''rmdir'', ''dd'', ''mkfs'', ''shutdown'', ''reboot'', ''halt'',
     ''poweroff'', ''kill'', ''pkill'', ''killall'', ''shred'', ''fdisk'', ''parted'', ''wipefs'', ''userdel'']"

definition write_binaries :: "string list" where
  "write_binaries = [''mv'', ''cp'', ''tee'', ''chmod'', ''chown'', ''ln'', ''touch'', ''mkdir'', ''install'',
     ''apt'', ''apt-get'', ''pip'', ''pip3'', ''npm'', ''systemctl'', ''service'', ''sed'', ''truncate'', ''git'']"

definition destructive_tokens :: "string list" where
  "destructive_tokens = [''--force'', ''-rf'', ''-fr'', ''--no-preserve-root'']"

definition shell_control_tokens :: "string list" where
  "shell_control_tokens = [''|'', ''||'', ''&&'', '';'', ''&'', ''<'', ''>'', ''>>'', ''1>'', ''1>>'', ''2>'', ''2>>'']"

definition shell_interpreters :: "string list" where
  "shell_interpreters = [''sh'', ''bash'', ''zsh'', ''fish'', ''cmd'', ''cmd.exe'', ''powershell'', ''pwsh'']"

definition network_binaries :: "string list" where
  "network_binaries = [''amass'', ''chromium'', ''chromium-browser'', ''curl'', ''dig'', ''ffuf'', ''firefox'',
     ''gobuster'', ''google-chrome'', ''host'', ''httpx'', ''links'', ''lynx'', ''naabu'', ''nc'', ''ncat'',
     ''netcat'', ''nikto'', ''nmap'', ''nslookup'', ''nuclei'', ''rsync'', ''scp'', ''sftp'', ''sqlmap'', ''ssh'',
     ''subfinder'', ''telnet'', ''w3m'', ''wget'']"

definition sudo_value_flags :: "string list" where
  "sudo_value_flags = [''-u'', ''--user'', ''-g'', ''--group'', ''-p'', ''--prompt'', ''-C'', ''--close-from'',
     ''-h'', ''--host'', ''-R'', ''--chroot'', ''-D'', ''--chdir'', ''-T'', ''--command-timeout'', ''-r'',
     ''--role'', ''-t'', ''--type'']"

section \<open>Commands\<close>

text \<open>\<open>PurePosixPath(s).name\<close>: the last component, empty and dot components aside.\<close>

definition path_name :: "string \<Rightarrow> string" where
  "path_name s = (case filter (\<lambda>c. c \<noteq> [] \<and> c \<noteq> ''.'') (split_on CHR ''/'' s) of
     [] \<Rightarrow> [] | c # cs \<Rightarrow> last (c # cs))"

fun skip_sudo_options :: "string list \<Rightarrow> string list" where
  "skip_sudo_options [] = []"
| "skip_sudo_options (t # ts) =
     (if t = ''--'' then ts
      else if starts_with t ''-'' then
        (if t \<in> set sudo_value_flags then skip_sudo_options (drop 1 ts) else skip_sudo_options ts)
      else t # ts)"

definition strip_sudo :: "string list \<Rightarrow> bool \<times> string list" where
  "strip_sudo argv = (case argv of [] \<Rightarrow> (False, [])
     | a # as \<Rightarrow> if path_name a \<noteq> ''sudo'' then (False, argv) else (True, skip_sudo_options as))"

record output_binding =
  cb_path :: string
  cb_index :: "nat option"
  cb_prefix :: string

type_synonym raw_binding = "string \<times> nat option \<times> string"

definition output_value_flags :: "string \<Rightarrow> string list" where
  "output_value_flags binary = [''--output'', ''--output-file''] @
     (if binary = ''curl'' then [''-o'', ''--output-dir'']
      else if binary = ''wget'' then [''-O'', ''--output-document'', ''-P'', ''--directory-prefix'']
      else [''-o''])"

definition output_prefix_flags :: "string \<Rightarrow> string list" where
  "output_prefix_flags binary = [''--output='', ''--output-file=''] @
     (if binary = ''curl'' then [''--output-dir='']
      else if binary = ''wget'' then [''--output-document='', ''--directory-prefix='']
      else [])"

definition prefix_bindings :: "string \<Rightarrow> nat \<Rightarrow> string \<Rightarrow> raw_binding list" where
  "prefix_bindings binary pos token =
     (case find (\<lambda>p. starts_with token p) (output_prefix_flags binary) of
        None \<Rightarrow> []
      | Some p \<Rightarrow> if drop (length p) token \<noteq> [] then [(drop (length p) token, Some pos, p)] else [])"

definition curl_bindings :: "string \<Rightarrow> nat \<Rightarrow> string \<Rightarrow> string \<Rightarrow> raw_binding list" where
  "curl_bindings cwd pos binary token =
     (if binary = ''curl'' \<and> token = ''-O'' then [(cwd, None, [])] else [])
     @ (if binary = ''curl'' \<and> starts_with token ''-o'' \<and> token \<noteq> ''-o''
        then [(drop 2 token, Some pos, ''-o'')] else [])"

definition nmap_output :: "string \<Rightarrow> string \<Rightarrow> bool" where
  "nmap_output binary token =
     (binary = ''nmap'' \<and> take 3 token \<in> {''-oN'', ''-oX'', ''-oG'', ''-oA''})"

text \<open>The scan of the arguments; \<open>pos\<close> is the position of the token in the whole vector.\<close>

fun scan_outputs :: "string \<Rightarrow> string \<Rightarrow> nat \<Rightarrow> string list \<Rightarrow> raw_binding list" where
  "scan_outputs cwd binary pos [] = []"
| "scan_outputs cwd binary pos (t # ts) =
     (if t \<in> set (output_value_flags binary) \<and> ts \<noteq> [] then
        (hd ts, Some (pos + 1), []) # scan_outputs cwd binary (pos + 2) (drop 1 ts)
      else prefix_bindings binary pos t @ curl_bindings cwd pos binary t @
        (if nmap_output binary t then
           (if 3 < length t then (drop 3 t, Some pos, take 3 t) # scan_outputs cwd binary (pos + 1) ts
            else if ts \<noteq> [] then (hd ts, Some (pos + 1), []) # scan_outputs cwd binary (pos + 2) (drop 1 ts)
            else scan_outputs cwd binary (pos + 1) ts)
         else scan_outputs cwd binary (pos + 1) ts))"

definition positional_args :: "nat \<Rightarrow> string list \<Rightarrow> raw_binding list" where
  "positional_args pos args =
     map (\<lambda>(i, v). (v, Some i, [])) (filter (\<lambda>(i, v). v \<noteq> [] \<and> \<not> starts_with v ''-'')
       (zip [pos ..< pos + length args] args))"

definition positional_bindings :: "string \<Rightarrow> nat \<Rightarrow> string list \<Rightarrow> raw_binding list" where
  "positional_bindings binary pos args =
     (let ps = positional_args pos args in
      if binary \<in> {''cp'', ''mv'', ''install''} \<and> ps \<noteq> [] then [last ps]
      else if binary \<in> {''touch'', ''mkdir'', ''tee''} then ps else [])"

text \<open>Kept once each, in the order of their first occurrence.\<close>

definition keep_first :: "'a list \<Rightarrow> 'a list" where
  "keep_first xs = rev (remdups (rev xs))"

definition command_output_bindings ::
  "(string \<Rightarrow> string) \<Rightarrow> string \<Rightarrow> string list \<Rightarrow> output_binding list" where
  "command_output_bindings out_path cwd argv = (case snd (strip_sudo argv) of
     [] \<Rightarrow> []
   | b # args \<Rightarrow>
       let pos = length argv - length (b # args) + 1; binary = lower (path_name b) in
       keep_first (map (\<lambda>(v, i, p). \<lparr>cb_path = out_path v, cb_index = i, cb_prefix = p\<rparr>)
         (scan_outputs cwd binary pos args @ positional_bindings binary pos args)))"

definition command_output_paths :: "(string \<Rightarrow> string) \<Rightarrow> string \<Rightarrow> string list \<Rightarrow> string list" where
  "command_output_paths out_path cwd argv = keep_first (map cb_path (command_output_bindings out_path cwd argv))"

text \<open>\<open>replacements\<close> maps normalised host paths to provider paths.\<close>

definition rewrite_command_output_paths ::
  "(string \<Rightarrow> string) \<Rightarrow> string \<Rightarrow> (string, string) dict \<Rightarrow> string list \<Rightarrow> string list" where
  "rewrite_command_output_paths out_path cwd replacements argv =
     fold (\<lambda>b xs. case (cb_index b, map_of replacements (cb_path b)) of
         (Some i, Some r) \<Rightarrow> xs[i := cb_prefix b @ r] | _ \<Rightarrow> xs)
       (command_output_bindings out_path cwd argv) argv"

section \<open>Network targets\<close>

definition strip_chars :: "string \<Rightarrow> string \<Rightarrow> string" where
  "strip_chars cs s = rev (dropWhile (\<lambda>c. c \<in> set cs) (rev (dropWhile (\<lambda>c. c \<in> set cs) s)))"

definition ascii_alnum :: "char \<Rightarrow> bool" where
  "ascii_alnum c = (is_ascii_alpha c \<or> is_dec c)"

definition domain_label :: "string \<Rightarrow> bool" where
  "domain_label l = (l \<noteq> [] \<and> length l \<le> 63 \<and> ascii_alnum (hd l) \<and> ascii_alnum (last l)
     \<and> list_all (\<lambda>c. ascii_alnum c \<or> c = CHR ''-'') l)"

definition domain_pattern :: "string \<Rightarrow> bool" where
  "domain_pattern s =
     (let name = before CHR '':'' s; port = after CHR '':'' s; labels = split_on CHR ''.'' name in
      (CHR '':'' \<in> set s \<longrightarrow> list_all is_dec port \<and> 1 \<le> length port \<and> length port \<le> 5)
      \<and> 2 \<le> length labels \<and> list_all domain_label (butlast labels)
      \<and> list_all is_ascii_alpha (last labels) \<and> 2 \<le> length (last labels) \<and> length (last labels) \<le> 63)"

fun target_among :: "string \<Rightarrow> string list \<Rightarrow> string res" where
  "target_among binary [] = Inr []"
| "target_among binary (raw # rest) =
     (let value = strip_chars [CHR 0x27, CHR 0x22] (strip raw) in
      if value = [] \<or> starts_with value ''-'' then target_among binary rest
      else res_bind (if has_sub value ''://'' then url_hostname value else Inr []) (\<lambda>host.
        if host \<noteq> [] then Inr value
        else let cand = strip_chars ''[](),;'' value in
          if ip_network cand \<noteq> None then Inr cand
          else if binary \<in> set network_binaries \<and> domain_pattern cand then Inr cand
          else target_among binary rest))"

definition command_target :: "string list \<Rightarrow> string res" where
  "command_target argv = (case snd (strip_sudo argv) of
     [] \<Rightarrow> Inr [] | b # args \<Rightarrow> target_among (lower (path_name b)) args)"

definition command_requires_target :: "string list \<Rightarrow> bool res" where
  "command_requires_target argv = (case snd (strip_sudo argv) of
     [] \<Rightarrow> Inr False
   | b # args \<Rightarrow>
       let binary = lower (path_name b) in
       if binary \<in> set network_binaries \<and> list_ex (\<lambda>f. f \<in> {''--help'', ''--version''}) args then Inr False
       else res_bind (command_target (b # args)) (\<lambda>t. Inr (t \<noteq> [] \<or> binary \<in> set network_binaries)))"

section \<open>The command policy\<close>

record command_policy =
  cp_allowed :: "string list option"
  cp_denied :: "string list"

definition policy_binary :: "string list \<Rightarrow> string res" where
  "policy_binary argv = (case argv of [] \<Rightarrow> Inl (ValueError ''empty command'') | a # _ \<Rightarrow> Inr (path_name a))"

definition policy_allows :: "command_policy \<Rightarrow> string list \<Rightarrow> bool res" where
  "policy_allows c argv =
     res_bind (policy_binary argv) (\<lambda>b.
       Inr (b \<notin> set (cp_denied c) \<and> (case cp_allowed c of None \<Rightarrow> True | Some a \<Rightarrow> b \<in> set a)))"

definition shell_operator :: "string \<Rightarrow> bool" where
  "shell_operator t =
     (t \<in> set shell_control_tokens
      \<or> list_ex (starts_with t) [''>'', ''1>'', ''2>'', ''<('', ''>('']
      \<or> has_sub t ''$('' \<or> CHR 0x60 \<in> set t)"

definition policy_check :: "command_policy \<Rightarrow> string list \<Rightarrow> unit res" where
  "policy_check c argv =
     res_bind (policy_allows c argv) (\<lambda>ok.
     res_bind (policy_binary argv) (\<lambda>b.
     res_bind (ensure ok (ScopeViolation (''command '' @ quoted b @ '' is not permitted''))) (\<lambda>_.
       case snd (strip_sudo argv) of
         [] \<Rightarrow> Inr ()
       | i # args \<Rightarrow>
           res_bind (ensure (\<not> (lower (path_name i) \<in> set shell_interpreters
                \<and> list_ex (\<lambda>v. lower v \<in> {''-c'', ''/c'', ''-command'', ''-encodedcommand''}) args))
              (ScopeViolation ''shell interpreter command strings are not permitted; use an argument vector''))
             (\<lambda>_. iter_res (\<lambda>t. ensure (\<not> shell_operator t)
                (ScopeViolation (''shell operator '' @ quoted t @ '' is not permitted in argument-vector mode'')))
                (i # args)))))"

definition classify :: "(string \<Rightarrow> string) \<Rightarrow> string \<Rightarrow> string list \<Rightarrow> risk_level" where
  "classify out_path cwd argv =
     (case strip_sudo argv of (is_sudo, target) \<Rightarrow>
       (case target of
          [] \<Rightarrow> if is_sudo then Write else Read
        | t # args \<Rightarrow>
            let binary = path_name t; tokens = map lower args in
            if binary \<in> set destructive_binaries \<or> list_ex (\<lambda>d. d \<in> set tokens) destructive_tokens then Destructive
            else if list_ex (\<lambda>a. starts_with a ''>'') target then Destructive
            else if command_output_paths out_path cwd target \<noteq> [] then Write
            else (let base = (if binary \<in> set write_binaries then Write else Read) in
              if is_sudo \<and> base = Read then Write else base)))"

section \<open>Properties\<close>

text \<open>
  No permission mode lets a destructive command run without approval, plan mode lets nothing
  run, and a more permissive reading never follows from a higher risk: what is allowed at a risk
  is allowed at every lower risk.
\<close>
theorem mode_never_allows_destructive:
  "resolve_mode_decision m risk = Allow \<longleftrightarrow> m \<noteq> PlanMode \<and> (risk = Read \<or> risk = Write \<and> m = AutoMode)"
  by (cases m; cases risk) auto

lemma path_within_iff: "path_within resolve p roots \<longleftrightarrow> (\<exists>q r. resolve p = Some q \<and> r \<in> set roots \<and> prefix r q)"
  by (auto simp: path_within_def list_ex_iff split: option.splits)

lemma resolve_roots_set: "set (resolve_roots resolve rs) = {p. \<exists>r \<in> set rs. resolve r = Some p}"
  by (induction rs) (auto split: option.splits)

text \<open>
  The filesystem scope denies by default: a path is writable exactly when its resolved form
  lies below the resolved form of a listed write root, and readable exactly when it lies below a
  read root or a write root, so that whatever is writable is readable and no roots allow nothing.
\<close>
theorem filesystem_scope_iff:
  "fs_check resolve (make_fs_scope resolve reads writes) p write = Inr ()
     \<longleftrightarrow> (\<exists>q r root. resolve p = Some q \<and> root \<in> set (if write then writes else reads @ writes)
            \<and> resolve root = Some r \<and> prefix r q)"
  by (cases "write"; simp add: fs_check_def fs_allows_def make_fs_scope_def path_within_iff resolve_roots_set; blast)

lemma classify_destructive_iff:
  "classify out_path cwd argv = Destructive \<longleftrightarrow>
     (\<exists>t args. snd (strip_sudo argv) = t # args \<and>
        (path_name t \<in> set destructive_binaries \<or> (\<exists>d \<in> set destructive_tokens. d \<in> set (map lower args))
         \<or> (\<exists>a \<in> set (t # args). starts_with a ''>'')))"
  by (cases "strip_sudo argv"; cases "snd (strip_sudo argv)")
     (auto simp: classify_def Let_def list_ex_iff split: list.splits)

text \<open>
  A command is typed DESTRUCTIVE exactly when, sudo and its options aside, its binary is one of
  the destructive ones, one of its arguments is a forcing flag in any case, or a token redirects
  output; anything under sudo, every binary that writes, and every command with a declared output
  file is typed at least WRITE.
\<close>
theorem classify_sound:
  "(classify out_path cwd argv = Destructive \<longleftrightarrow>
     (\<exists>t args. snd (strip_sudo argv) = t # args \<and>
        (path_name t \<in> set destructive_binaries \<or> (\<exists>d \<in> set destructive_tokens. d \<in> set (map lower args))
         \<or> (\<exists>a \<in> set (t # args). starts_with a ''>''))))
   \<and> (fst (strip_sudo argv) \<or> (\<exists>t args. snd (strip_sudo argv) = t # args \<and> path_name t \<in> set write_binaries)
      \<or> command_output_paths out_path cwd (snd (strip_sudo argv)) \<noteq> []
      \<longrightarrow> Write \<le> classify out_path cwd argv)"
proof (intro conjI impI)
  show "classify out_path cwd argv = Destructive \<longleftrightarrow>
     (\<exists>t args. snd (strip_sudo argv) = t # args \<and>
        (path_name t \<in> set destructive_binaries \<or> (\<exists>d \<in> set destructive_tokens. d \<in> set (map lower args))
         \<or> (\<exists>a \<in> set (t # args). starts_with a ''>'')))"
    by (rule classify_destructive_iff)
next
  assume a: "fst (strip_sudo argv) \<or> (\<exists>t args. snd (strip_sudo argv) = t # args \<and> path_name t \<in> set write_binaries)
      \<or> command_output_paths out_path cwd (snd (strip_sudo argv)) \<noteq> []"
  have no_out: "command_output_paths out_path cwd [] = []"
    by (simp add: command_output_paths_def command_output_bindings_def strip_sudo_def keep_first_def)
  obtain su target where s: "strip_sudo argv = (su, target)" by (cases "strip_sudo argv")
  have "classify out_path cwd argv \<noteq> Read"
    using a s no_out by (cases target) (auto simp: classify_def Let_def)
  then show "Write \<le> classify out_path cwd argv"
    by (cases "classify out_path cwd argv") (auto simp: less_eq_risk_level_def)
qed

theorem classify_sound_witness:
  "classify (\<lambda>p. p) ''/w'' [''sudo'', ''-u'', ''root'', ''/bin/rm'', ''x''] = Destructive
   \<and> Write \<le> classify (\<lambda>p. p) ''/w'' [''sudo'', ''ls'']"
proof
  have s: "snd (strip_sudo [''sudo'', ''-u'', ''root'', ''/bin/rm'', ''x'']) = [''/bin/rm'', ''x'']" by code_simp
  have "path_name ''/bin/rm'' \<in> set destructive_binaries" by code_simp
  with s show "classify (\<lambda>p. p) ''/w'' [''sudo'', ''-u'', ''root'', ''/bin/rm'', ''x''] = Destructive"
    by (intro iffD2 [OF conjunct1 [OF classify_sound]]) blast
  have "fst (strip_sudo [''sudo'', ''ls''])" by code_simp
  with classify_sound [of "\<lambda>p. p" "''/w''" "[''sudo'', ''ls'']"]
  show "Write \<le> classify (\<lambda>p. p) ''/w'' [''sudo'', ''ls'']" by blast
qed

text \<open>
  A command passes the policy exactly when the name of its first word is not denied (and is
  allowed, where an allowlist is given) and, sudo aside, it is not a shell interpreter with a
  command string and no token is a shell operator, redirection or substitution.
\<close>
theorem policy_check_iff:
  "policy_check c (a # as) = Inr () \<longleftrightarrow>
     path_name a \<notin> set (cp_denied c) \<and> (\<forall>al. cp_allowed c = Some al \<longrightarrow> path_name a \<in> set al)
     \<and> (\<forall>i args. snd (strip_sudo (a # as)) = i # args \<longrightarrow>
          \<not> (lower (path_name i) \<in> set shell_interpreters
             \<and> (\<exists>v \<in> set args. lower v \<in> {''-c'', ''/c'', ''-command'', ''-encodedcommand''}))
          \<and> (\<forall>t \<in> set (i # args). \<not> shell_operator t))"
  by (cases "snd (strip_sudo (a # as))")
     (auto simp: policy_check_def policy_allows_def policy_binary_def res_bind_eq_Inr iter_res_ok list_ex_iff
       split: option.splits)

theorem policy_check_iff_witness:
  "policy_check \<lparr>cp_allowed = None, cp_denied = [''rm'']\<rparr> [''ls'', ''-l''] = Inr ()"
proof -
  have "path_name ''ls'' \<notin> set [''rm'']" "snd (strip_sudo [''ls'', ''-l'']) = [''ls'', ''-l'']"
    "lower (path_name ''ls'') \<notin> set shell_interpreters" "\<forall>t \<in> set [''ls'', ''-l'']. \<not> shell_operator t"
    by code_simp+
  then show ?thesis using policy_check_iff [of "\<lparr>cp_allowed = None, cp_denied = [''rm'']\<rparr>" "''ls''" "[''-l'']"]
    by auto
qed

text \<open>The deny list looks at the first word only, and a second sudo is not looked through.\<close>

lemma deny_list_under_sudo:
  "policy_check \<lparr>cp_allowed = None, cp_denied = [''rm'']\<rparr> [''sudo'', ''rm'', ''x''] = Inr ()"
  by code_simp

lemma nested_sudo_is_write: "classify (\<lambda>p. p) ''/w'' [''sudo'', ''sudo'', ''rm'', ''x''] = Write"
  by code_simp

lemma sudo_assignment_is_write: "classify (\<lambda>p. p) ''/w'' [''sudo'', ''LANG=C'', ''rm'', ''x''] = Write"
  by code_simp

section \<open>Rewriting outputs\<close>

lemma fold_update_frame:
  "length (fold (\<lambda>b xs. case (cb_index b, map_of reps (cb_path b)) of
         (Some i, Some r) \<Rightarrow> xs[i := cb_prefix b @ r] | _ \<Rightarrow> xs) bs xs) = length xs"
  "(\<forall>b \<in> set bs. cb_index b \<noteq> Some j \<or> map_of reps (cb_path b) = None) \<Longrightarrow>
     fold (\<lambda>b xs. case (cb_index b, map_of reps (cb_path b)) of
         (Some i, Some r) \<Rightarrow> xs[i := cb_prefix b @ r] | _ \<Rightarrow> xs) bs xs ! j = xs ! j"
  by (induction bs arbitrary: xs) (auto split: option.splits)

text \<open>
  Rewriting the outputs of a command changes no other argument: the vector keeps its length,
  and a position that is not a declared output with a replacement keeps its text.
\<close>
theorem rewrite_outputs_frame:
  "length (rewrite_command_output_paths out_path cwd reps argv) = length argv
   \<and> (\<forall>j. rewrite_command_output_paths out_path cwd reps argv ! j = argv ! j
        \<or> (\<exists>b \<in> set (command_output_bindings out_path cwd argv). cb_index b = Some j
             \<and> map_of reps (cb_path b) \<noteq> None))"
  using fold_update_frame [where bs = "command_output_bindings out_path cwd argv" and reps = reps and xs = argv]
  unfolding rewrite_command_output_paths_def by blast

end
