(* ===== verification/Governance.thy ===== *)
theory Governance
  imports HostPolicy PyValue
begin

text \<open>
  The audit log (\<open>observability/audit.py\<close>), the governance gate (\<open>governance/gate.py\<close>), the
  pre-execution hooks (\<open>hostcontrol/hooks.py\<close>) and the kernel's safety controller
  (\<open>kernel/safety.py\<close>). The audit log has a flag that tells whether writing it succeeds, and every
  event is redacted before it is kept. The contract the coordinator needs of a gate is the locale
  \<open>gate_contract\<close>.
\<close>

section \<open>Audit\<close>

record audit_event =
  av_event :: string
  av_tool :: string
  av_target :: string
  av_risk :: string
  av_approved :: bool
  av_detail :: string
  av_meta :: jdict

record audit_log =
  al_events :: "audit_event list"
  al_up :: bool

definition redact_event :: "audit_event \<Rightarrow> audit_event" where
  "redact_event e =
     \<lparr>av_event = redact_text (av_event e), av_tool = redact_text (av_tool e),
      av_target = redact_text (av_target e), av_risk = redact_text (av_risk e),
      av_approved = av_approved e, av_detail = redact_text (av_detail e),
      av_meta = map (\<lambda>(k, v). (k, redact_sensitive k v)) (av_meta e)\<rparr>"

definition audit_record :: "audit_event \<Rightarrow> audit_log \<Rightarrow> audit_log res" where
  "audit_record e l =
     (if al_up l then Inr (l\<lparr>al_events := al_events l @ [redact_event e]\<rparr>)
      else Inl (RuntimeError ''audit log is unavailable''))"

section \<open>The gate\<close>

datatype decision = GateAllow | GateNeedsApproval | GateDeny

record gate =
  gg_scope :: scope_policy
  gg_destructive :: bool
  gg_mode :: permission_mode

definition set_mode :: "permission_mode \<Rightarrow> gate \<Rightarrow> gate" where
  "set_mode m g = g\<lparr>gg_mode := m\<rparr>"

text \<open>\<open>str.upper\<close>, up to the characters whose upper case is not in Latin-1.\<close>

definition upper_char :: "char \<Rightarrow> string" where
  "upper_char c = (let n = code_point c in
     if 97 \<le> n \<and> n \<le> 122 \<or> 224 \<le> n \<and> n \<le> 254 \<and> n \<noteq> 247 then [char_of (n - 32)]
     else if n = 223 then ''SS'' else [c])"

definition upper :: "string \<Rightarrow> string" where
  "upper s = concat (map upper_char s)"

definition safe_text :: "string \<Rightarrow> string" where
  "safe_text s = take 500 (redact_text s)"

definition rejection :: "string \<Rightarrow> string \<Rightarrow> string \<Rightarrow> string \<Rightarrow> audit_event" where
  "rejection capability target risk reason =
     \<lparr>av_event = ''rejection'', av_tool = capability, av_target = target, av_risk = risk,
      av_approved = False, av_detail = reason, av_meta = []\<rparr>"

text \<open>A denial is recorded first; when that fails the evaluation raises.\<close>

definition deny ::
  "string \<Rightarrow> string \<Rightarrow> string \<Rightarrow> string \<Rightarrow> audit_log \<Rightarrow> (decision \<times> string) res \<times> audit_log" where
  "deny capability target risk reason l = (case audit_record (rejection capability target risk reason) l of
     Inl e \<Rightarrow> (Inl e, l) | Inr l' \<Rightarrow> (Inr (GateDeny, reason), l'))"

definition gate_evaluate ::
  "gate \<Rightarrow> string \<Rightarrow> string \<Rightarrow> string \<Rightarrow> bool \<Rightarrow> audit_log \<Rightarrow> (decision \<times> string) res \<times> audit_log" where
  "gate_evaluate g capability target risk0 target_required l =
     (let risk = upper (if risk0 = [] then ''WRITE'' else risk0) in
      if target_required \<and> strip target = [] then
        deny capability [] risk ''explicit target is required for this capability'' l
      else (case (if target = [] then Inr True else is_in_scope (gg_scope g) target) of
          Inl e \<Rightarrow> (Inl e, l)
        | Inr inside \<Rightarrow>
            if \<not> inside then
              deny capability (safe_text target) risk
                (''target '' @ quoted (safe_text target) @ '' is out of engagement scope'') l
            else if gg_mode g = PlanMode then
              deny capability (safe_text target) risk ''plan mode: execution disabled'' l
            else if risk = ''READ'' then (Inr (GateAllow, ''read-only, in scope''), l)
            else if risk = ''DESTRUCTIVE'' then
              (if \<not> gg_destructive g then
                 deny capability (safe_text target) risk
                   ''destructive capability requires explicit engagement override'' l
               else (Inr (GateNeedsApproval,
                 ''destructive: override set, human approval still required''), l))
            else if gg_mode g = AutoMode then
              (Inr (GateAllow, ''auto mode: write allowed in scope''), l)
            else (Inr (GateNeedsApproval, ''requires human approval''), l)))"

section \<open>Hooks\<close>

record hook_event =
  he_phase :: string
  he_capability :: string
  he_risk :: risk_level
  he_target :: string
  he_metadata :: jdict

text \<open>A pre-hook answers, or raises an exception of the named type.\<close>

datatype hook_answer = HookSays bool string | HookRaises string

fun run_pre :: "(hook_event \<Rightarrow> hook_answer) list \<Rightarrow> hook_event \<Rightarrow> bool \<times> string" where
  "run_pre [] ev = (True, [])"
| "run_pre (h # hs) ev = (case h ev of
     HookRaises name \<Rightarrow> (False, ''pre-hook error: '' @ name)
   | HookSays allow reason \<Rightarrow>
       if \<not> allow then (False, if reason \<noteq> [] then reason else ''denied by pre-execution hook'')
       else run_pre hs ev)"

section \<open>The kernel's safety controller\<close>

datatype permission = PermAllow | PermRequireApproval | PermDeny

record safety =
  sf_prohibited :: "string list"
  sf_overrides :: "(string, permission) dict"

definition prohibit :: "string \<Rightarrow> safety \<Rightarrow> safety" where
  "prohibit action s = s\<lparr>sf_prohibited := sf_prohibited s @ [lower action]\<rparr>"

definition set_override :: "string \<Rightarrow> permission \<Rightarrow> safety \<Rightarrow> safety" where
  "set_override skill p s = s\<lparr>sf_overrides := dict_set (lower skill) p (sf_overrides s)\<rparr>"

text \<open>\<open>callback\<close> is the approval callback, if there is one, applied to the call's parameters.\<close>

definition safety_check :: "(string \<Rightarrow> bool) option \<Rightarrow> safety \<Rightarrow> string \<Rightarrow> risk_level \<Rightarrow> permission" where
  "safety_check callback s skill risk =
     (case map_of (sf_overrides s) (lower skill) of
        Some p \<Rightarrow> p
      | None \<Rightarrow>
          if lower skill \<in> set (map lower (sf_prohibited s)) then PermDeny
          else (case risk of
              Read \<Rightarrow> PermAllow
            | Destructive \<Rightarrow> PermDeny
            | Write \<Rightarrow> (case callback of
                  None \<Rightarrow> PermRequireApproval
                | Some f \<Rightarrow> if f skill then PermAllow else PermDeny)))"

section \<open>The contract of a gate\<close>

text \<open>
  What the coordinator relies on: an evaluation that allows or asks for approval respects scope,
  target and mode; only approval ever lets a destructive capability on, and only with the
  engagement's override; a write is allowed without approval in auto mode only; a denial is on the
  audit log, and otherwise the log is as it was.
\<close>

locale gate_contract =
  fixes eval :: "'g \<Rightarrow> string \<Rightarrow> string \<Rightarrow> risk_level \<Rightarrow> bool \<Rightarrow> audit_log \<Rightarrow> (decision \<times> string) res \<times> audit_log"
    and admits :: "'g \<Rightarrow> string \<Rightarrow> bool"
    and mode :: "'g \<Rightarrow> permission_mode"
    and override :: "'g \<Rightarrow> bool"
  assumes not_denied: "eval g cap target risk req l = (Inr (dec, reason), l') \<Longrightarrow> dec \<noteq> GateDeny \<Longrightarrow>
      l' = l \<and> mode g \<noteq> PlanMode \<and> (target \<noteq> [] \<longrightarrow> admits g target) \<and> (req \<longrightarrow> strip target \<noteq> [])"
    and allowed: "eval g cap target risk req l = (Inr (GateAllow, reason), l') \<Longrightarrow>
      risk = Read \<or> risk = Write \<and> mode g = AutoMode"
    and approvable: "eval g cap target Destructive req l = (Inr (GateNeedsApproval, reason), l') \<Longrightarrow> override g"
    and denied: "eval g cap target risk req l = (Inr (GateDeny, reason), l') \<Longrightarrow>
      \<exists>e. al_events l' = al_events l @ [e] \<and> av_approved e = False \<and> av_event e = ''rejection''"
begin

lemma destructive_not_allowed: "eval g cap target Destructive req l \<noteq> (Inr (GateAllow, reason), l')"
  using allowed [of g cap target Destructive req l reason l'] by auto

lemma plan_mode_denies:
  "mode g = PlanMode \<Longrightarrow> eval g cap target risk req l = (Inr (dec, reason), l') \<Longrightarrow> dec = GateDeny"
  using not_denied by blast

lemma destructive_needs_override:
  "\<not> override g \<Longrightarrow> eval g cap target Destructive req l = (Inr (dec, reason), l') \<Longrightarrow> dec = GateDeny"
  using approvable [of g cap target req l reason l'] destructive_not_allowed [of g cap target req l reason l']
  by (cases dec) auto

end

definition evaluate_risk ::
  "gate \<Rightarrow> string \<Rightarrow> string \<Rightarrow> risk_level \<Rightarrow> bool \<Rightarrow> audit_log \<Rightarrow> (decision \<times> string) res \<times> audit_log" where
  "evaluate_risk g cap target risk req l = gate_evaluate g cap target (risk_value risk) req l"

definition gate_admits :: "gate \<Rightarrow> string \<Rightarrow> bool" where
  "gate_admits g target \<longleftrightarrow> is_in_scope (gg_scope g) target = Inr True"

lemma upper_risk_names:
  "upper ''READ'' = ''READ''" "upper ''WRITE'' = ''WRITE''" "upper ''DESTRUCTIVE'' = ''DESTRUCTIVE''"
  by code_simp+

lemma upper_risk_value: "upper (risk_value r) = risk_value r" "risk_value r \<noteq> []"
  by (cases r; simp add: upper_risk_names)+

lemma redact_rejection [simp]: "redact_text ''rejection'' = ''rejection''"
  by code_simp

lemma deny_cases:
  "deny cap target risk reason l = (Inr (dec, why), l') \<Longrightarrow>
     dec = GateDeny \<and> (\<exists>e. al_events l' = al_events l @ [e] \<and> av_approved e = False \<and> av_event e = ''rejection'')"
  by (auto simp: deny_def audit_record_def redact_event_def rejection_def split: sum.splits if_split_asm)

text \<open>What each answer of an evaluation means.\<close>

lemma evaluate_risk_cases:
  assumes "evaluate_risk g cap target risk req l = (Inr (dec, reason), l')"
  shows "if dec = GateDeny
    then \<exists>e. al_events l' = al_events l @ [e] \<and> av_approved e = False \<and> av_event e = ''rejection''
    else l' = l \<and> gg_mode g \<noteq> PlanMode \<and> (target \<noteq> [] \<longrightarrow> gate_admits g target) \<and> (req \<longrightarrow> strip target \<noteq> [])
      \<and> (dec = GateAllow \<longrightarrow> risk = Read \<or> risk = Write \<and> gg_mode g = AutoMode)
      \<and> (risk = Destructive \<longrightarrow> gg_destructive g)"
proof -
  note unf = assms [unfolded evaluate_risk_def gate_evaluate_def Let_def upper_risk_value, simplified upper_risk_value if_False]
  show ?thesis
  proof (cases "req \<and> strip target = []")
    case True
    with unf show ?thesis by (auto dest!: deny_cases)
  next
    case False
    then obtain inside where i: "(if target = [] then Inr True else is_in_scope (gg_scope g) target) = Inr inside"
      using unf by (auto split: sum.splits if_split_asm)
    show ?thesis
    proof (cases "inside \<and> gg_mode g \<noteq> PlanMode")
      case False
      with \<open>\<not> (req \<and> strip target = [])\<close> unf i show ?thesis
        by (auto split: if_split_asm dest!: deny_cases)
    next
      case True
      with False unf i have dec: "(if risk = Read then dec = GateAllow \<and> l' = l
          else if risk = Destructive then
            (if gg_destructive g then dec = GateNeedsApproval \<and> l' = l
             else \<exists>t r why. deny cap t r why l = (Inr (dec, reason), l'))
          else dec = (if gg_mode g = AutoMode then GateAllow else GateNeedsApproval) \<and> l' = l)"
        by (cases risk) (auto split: if_split_asm)
      have adm: "target \<noteq> [] \<longrightarrow> gate_admits g target"
        using i True by (auto simp: gate_admits_def)
      from dec show ?thesis
        by (cases risk) (use True False adm in \<open>auto split: if_split_asm dest!: deny_cases\<close>)
    qed
  qed
qed

interpretation gate: gate_contract evaluate_risk gate_admits gg_mode gg_destructive
proof
  fix g cap target risk req l dec reason l'
  assume e: "evaluate_risk g cap target risk req l = (Inr (dec, reason), l')" and "dec \<noteq> GateDeny"
  with evaluate_risk_cases [OF e] show "l' = l \<and> gg_mode g \<noteq> PlanMode \<and> (target \<noteq> [] \<longrightarrow> gate_admits g target)
      \<and> (req \<longrightarrow> strip target \<noteq> [])" by simp
next
  fix g cap target risk req l reason l'
  assume e: "evaluate_risk g cap target risk req l = (Inr (GateAllow, reason), l')"
  from evaluate_risk_cases [OF e] show "risk = Read \<or> risk = Write \<and> gg_mode g = AutoMode" by simp
next
  fix g cap target req l reason l'
  assume e: "evaluate_risk g cap target Destructive req l = (Inr (GateNeedsApproval, reason), l')"
  from evaluate_risk_cases [OF e] show "gg_destructive g" by simp
next
  fix g cap target risk req l reason l'
  assume e: "evaluate_risk g cap target risk req l = (Inr (GateDeny, reason), l')"
  from evaluate_risk_cases [OF e]
  show "\<exists>e. al_events l' = al_events l @ [e] \<and> av_approved e = False \<and> av_event e = ''rejection''" by simp
qed

section \<open>Properties\<close>

text \<open>
  C31: The gate fails closed. It lets a capability on only outside plan mode, with a target in scope
  (or none, when none is required); without approval only for READ, or for WRITE in auto mode; a
  destructive capability only with the engagement's override and then only with approval; and every
  denial is on the audit log before it is returned.
\<close>
theorem gate_fail_closed:
  assumes "gate_evaluate g cap target (risk_value risk) req l = (Inr (dec, reason), l')"
  shows "(dec = GateDeny \<longrightarrow>
      (\<exists>e. al_events l' = al_events l @ [e] \<and> av_approved e = False \<and> av_event e = ''rejection''))
    \<and> (dec \<noteq> GateDeny \<longrightarrow> l' = l \<and> gg_mode g \<noteq> PlanMode \<and> (target \<noteq> [] \<longrightarrow> is_in_scope (gg_scope g) target = Inr True)
        \<and> (req \<longrightarrow> strip target \<noteq> []) \<and> (risk = Destructive \<longrightarrow> gg_destructive g \<and> dec = GateNeedsApproval))
    \<and> (dec = GateAllow \<longrightarrow> risk = Read \<or> risk = Write \<and> gg_mode g = AutoMode)"
proof -
  have e: "evaluate_risk g cap target risk req l = (Inr (dec, reason), l')"
    using assms by (simp add: evaluate_risk_def)
  have "dec = GateNeedsApproval" if "risk = Destructive" "dec \<noteq> GateDeny"
    using gate.destructive_not_allowed [of g cap target req l reason l'] e that by (cases dec) auto
  then show ?thesis
    using evaluate_risk_cases [OF e] by (auto simp: gate_admits_def split: if_split_asm)
qed

definition sample_gate_state :: gate where
  "sample_gate_state = \<lparr>gg_scope = make_scope [''10.0.0.0/8''], gg_destructive = False, gg_mode = AutoMode\<rparr>"

definition sample_log :: audit_log where
  "sample_log = \<lparr>al_events = [], al_up = True\<rparr>"

theorem gate_fail_closed_witness:
  "gate_evaluate sample_gate_state ''port_scan'' ''10.1.2.3'' (risk_value Write) True sample_log
     = (Inr (GateAllow, ''auto mode: write allowed in scope''), sample_log)
   \<and> is_in_scope (gg_scope sample_gate_state) ''10.1.2.3'' = Inr True"
proof -
  have e: "gate_evaluate sample_gate_state ''port_scan'' ''10.1.2.3'' (risk_value Write) True sample_log
     = (Inr (GateAllow, ''auto mode: write allowed in scope''), sample_log)" by code_simp
  from gate_fail_closed [OF e] e show ?thesis by simp
qed

text \<open>
  Pre-execution hooks can only veto: execution goes on exactly when every registered hook
  answered and allowed it; a hook that raises counts as a veto.
\<close>
theorem hooks_only_veto:
  "fst (run_pre hooks ev) \<longleftrightarrow> list_all (\<lambda>h. case h ev of HookSays allow reason \<Rightarrow> allow | HookRaises name \<Rightarrow> False) hooks"
  by (induction hooks) (auto split: hook_answer.splits)

end
