(* ===== verification/Evidence.thy ===== *)
theory Evidence
  imports PyValue
begin

text \<open>
  Protected evidence (\<open>persistence/evidence.py\<close>): the serialisation of a payload, the immutable,
  owner-only evidence files with their digest reference, their verification, and the collector.

  The files are a map from path texts to entries. SHA-256, the text of a float and
  \<open>Path.resolve\<close> are parameters; the vault's flags tell whether writing a file and restricting its
  access succeed.
\<close>

section \<open>Serialisation\<close>

datatype payload = RawBytes string | TextValue string | JsonValue jval

definition utf8_char :: "char \<Rightarrow> string" where
  "utf8_char c = (let n = code_point c in
     if n < 128 then [c] else [char_of (192 + n div 64), char_of (128 + n mod 64)])"

definition utf8 :: "string \<Rightarrow> string" where
  "utf8 s = concat (map utf8_char s)"

text \<open>\<open>json.dumps\<close> of a string: short escapes, \<open>\u00xx\<close> for what is not printable ASCII.\<close>

definition hex_digit_of :: "nat \<Rightarrow> char" where
  "hex_digit_of n = (if n < 10 then char_of (48 + n) else char_of (87 + n))"

definition json_char :: "char \<Rightarrow> string" where
  "json_char c = (let n = code_point c in
     if n = 34 then [char_of (92 :: nat), c] else if n = 92 then [c, c]
     else if n = 10 then [char_of (92 :: nat), CHR ''n''] else if n = 13 then [char_of (92 :: nat), CHR ''r'']
     else if n = 9 then [char_of (92 :: nat), CHR ''t''] else if n = 12 then [char_of (92 :: nat), CHR ''f'']
     else if n = 8 then [char_of (92 :: nat), CHR ''b'']
     else if 32 \<le> n \<and> n < 127 then [c]
     else [char_of (92 :: nat), CHR ''u'', CHR ''0'', CHR ''0'', hex_digit_of (n div 16), hex_digit_of (n mod 16)])"

definition json_string :: "string \<Rightarrow> string" where
  "json_string s = [CHR 0x22] @ concat (map json_char s) @ [CHR 0x22]"

fun json_text :: "(pyfloat \<Rightarrow> string) \<Rightarrow> jval \<Rightarrow> string" where
  "json_text fl JNull = ''null''"
| "json_text fl (JBool b) = (if b then ''true'' else ''false'')"
| "json_text fl (JInt i) = show_int i"
| "json_text fl (JFloat f) = fl f"
| "json_text fl (JStr s) = json_string s"
| "json_text fl (JList xs) = ''['' @ join_with '','' (map (json_text fl) xs) @ '']''"
| "json_text fl (JDict d) = ''{'' @ join_with '','' (map (\<lambda>(k, v). json_string k @ '':'' @ json_text fl v) d) @ ''}''"

fun serialize :: "(pyfloat \<Rightarrow> string) \<Rightarrow> payload \<Rightarrow> string \<times> string" where
  "serialize fl (RawBytes b) = (b, ''application/octet-stream'')"
| "serialize fl (TextValue s) = (utf8 s, ''text/plain'')"
| "serialize fl (JsonValue v) = (json_text fl (canon v), ''application/json'')"

section \<open>The protected store\<close>

record evidence_reference =
  ev_id :: string
  ev_path :: string
  ev_sha256 :: string
  ev_size :: nat
  ev_mime :: string
  ev_created :: string

text \<open>A regular file with its content and whether only its owner may open it.\<close>

datatype fs_entry = RegularFile string bool | OtherEntry

datatype root_entry = RootAbsent | RootDirectory bool | RootLink | RootOther

record vault =
  va_base :: string
  va_root :: root_entry
  va_files :: "(string, fs_entry) dict"
  va_write_ok :: bool
  va_restrict_ok :: bool

definition evidence_path :: "vault \<Rightarrow> string \<Rightarrow> string" where
  "evidence_path v identifier = va_base v @ ''/'' @ identifier @ ''.evidence''"

definition ensure_root :: "vault \<Rightarrow> unit res \<times> vault" where
  "ensure_root v = (case va_root v of
     RootLink \<Rightarrow> (Inl (RuntimeError ''protected evidence root cannot be a symbolic link''), v)
   | RootOther \<Rightarrow> (Inl (RuntimeError ''FileExistsError''), v)
   | _ \<Rightarrow> if va_restrict_ok v then (Inr (), v\<lparr>va_root := RootDirectory True\<rparr>)
         else (Inl (RuntimeError ''evidence protection failed''), v\<lparr>va_root := RootDirectory False\<rparr>))"

definition good_evidence_id :: "string \<Rightarrow> bool" where
  "good_evidence_id s = (let t = filter (\<lambda>c. c \<noteq> CHR ''-'') s in t \<noteq> [] \<and> list_all is_alnum_char t)"

text \<open>The exclusive creation of the file; what is already there must be the same content.\<close>

definition place :: "(string \<Rightarrow> string) \<Rightarrow> string \<Rightarrow> string \<Rightarrow> vault \<Rightarrow> unit res \<times> vault" where
  "place sha path content v = (case map_of (va_files v) path of
     Some (RegularFile existing private) \<Rightarrow>
       if sha existing \<noteq> sha content then
         (Inl (RuntimeError ''immutable evidence path already contains other data''), v)
       else if va_restrict_ok v then
         (Inr (), v\<lparr>va_files := dict_set path (RegularFile existing True) (va_files v)\<rparr>)
       else (Inl (RuntimeError ''evidence protection failed''), v)
   | Some OtherEntry \<Rightarrow> (Inl (RuntimeError ''protected evidence path must be a regular file''), v)
   | None \<Rightarrow>
       if va_write_ok v \<and> va_restrict_ok v then
         (Inr (), v\<lparr>va_files := dict_set path (RegularFile content True) (va_files v)\<rparr>)
       else (Inl (RuntimeError ''evidence could not be written''), v))"

definition capture ::
  "(string \<Rightarrow> string) \<Rightarrow> (pyfloat \<Rightarrow> string) \<Rightarrow> string \<Rightarrow> string \<Rightarrow> payload \<Rightarrow> string \<Rightarrow> vault
     \<Rightarrow> evidence_reference res \<times> vault" where
  "capture sha fl uuid stamp data evidence_id v =
     (let (content, mime) = serialize fl data;
          identifier = (if evidence_id \<noteq> [] then evidence_id else uuid) in
      if \<not> good_evidence_id identifier then
        (Inl (ValueError ''evidence_id must contain only letters, numbers, or hyphens''), v)
      else (case ensure_root v of
          (Inl e, v1) \<Rightarrow> (Inl e, v1)
        | (Inr _, v1) \<Rightarrow>
            let path = evidence_path v1 identifier in
            (case place sha path content v1 of
               (Inl e, v2) \<Rightarrow> (Inl e, v2)
             | (Inr _, v2) \<Rightarrow>
                 (Inr \<lparr>ev_id = identifier, ev_path = path, ev_sha256 = sha content,
                       ev_size = length content, ev_mime = mime, ev_created = stamp\<rparr>, v2))))"

definition verify :: "(string \<Rightarrow> string) \<Rightarrow> (string \<Rightarrow> string) \<Rightarrow> vault \<Rightarrow> evidence_reference \<Rightarrow> bool" where
  "verify sha resolve v r =
     (resolve (ev_path r) = resolve (evidence_path v (ev_id r))
      \<and> (case map_of (va_files v) (ev_path r) of
           Some (RegularFile content private) \<Rightarrow> length content = ev_size r \<and> sha content = ev_sha256 r
         | _ \<Rightarrow> False))"

section \<open>The collector\<close>

record evidence_item =
  ei_type :: string
  ei_label :: string
  ei_reference :: evidence_reference
  ei_source :: string

record collector =
  ec_items :: "evidence_item list"
  ec_vault :: vault

definition collect ::
  "(string \<Rightarrow> string) \<Rightarrow> (pyfloat \<Rightarrow> string) \<Rightarrow> string \<Rightarrow> string \<Rightarrow> string \<Rightarrow> string \<Rightarrow> jdict \<Rightarrow> string \<Rightarrow> collector
     \<Rightarrow> evidence_item res \<times> collector" where
  "collect sha fl uuid stamp kind label data source c =
     (case capture sha fl uuid stamp (JsonValue (JDict data)) [] (ec_vault c) of
        (Inl e, v) \<Rightarrow> (Inl e, c\<lparr>ec_vault := v\<rparr>)
      | (Inr r, v) \<Rightarrow> (let i = \<lparr>ei_type = kind, ei_label = label, ei_reference = r, ei_source = source\<rparr> in
          (Inr i, \<lparr>ec_items = ec_items c @ [i], ec_vault = v\<rparr>)))"

definition collect_command_output ::
  "(string \<Rightarrow> string) \<Rightarrow> (pyfloat \<Rightarrow> string) \<Rightarrow> string \<Rightarrow> string \<Rightarrow> string \<Rightarrow> string \<Rightarrow> string \<Rightarrow> int \<Rightarrow> string \<Rightarrow> collector
     \<Rightarrow> evidence_item res \<times> collector" where
  "collect_command_output sha fl uuid stamp command stdout stderr exit_code source c =
     collect sha fl uuid stamp ''command_output'' (''Command: '' @ take 80 command)
       [(''command'', JStr command), (''stdout'', JStr stdout), (''stderr'', JStr stderr),
        (''exit_code'', JInt exit_code)] source c"

definition collect_scan_result ::
  "(string \<Rightarrow> string) \<Rightarrow> (pyfloat \<Rightarrow> string) \<Rightarrow> string \<Rightarrow> string \<Rightarrow> string \<Rightarrow> string \<Rightarrow> string \<Rightarrow> jdict \<Rightarrow> collector
     \<Rightarrow> evidence_item res \<times> collector" where
  "collect_scan_result sha fl uuid stamp scanner target raw parsed c =
     collect sha fl uuid stamp ''scan_result'' (scanner @ '' scan of '' @ target)
       [(''scanner'', JStr scanner), (''target'', JStr target), (''raw_output'', JStr raw),
        (''parsed'', JDict parsed)] scanner c"

definition collect_finding ::
  "(string \<Rightarrow> string) \<Rightarrow> (pyfloat \<Rightarrow> string) \<Rightarrow> string \<Rightarrow> string \<Rightarrow> string \<Rightarrow> string \<Rightarrow> string \<Rightarrow> jdict \<Rightarrow> collector
     \<Rightarrow> evidence_item res \<times> collector" where
  "collect_finding sha fl uuid stamp title description severity detail c =
     collect sha fl uuid stamp ''finding'' title
       [(''title'', JStr title), (''description'', JStr description), (''severity'', JStr severity),
        (''detail'', JDict detail)] ''analyzer'' c"

definition get_by_type :: "string \<Rightarrow> collector \<Rightarrow> evidence_item list" where
  "get_by_type kind c = filter (\<lambda>i. ei_type i = kind) (ec_items c)"

definition get_by_source :: "string \<Rightarrow> collector \<Rightarrow> evidence_item list" where
  "get_by_source source c = filter (\<lambda>i. ei_source i = source) (ec_items c)"

definition clear_items :: "collector \<Rightarrow> collector" where
  "clear_items c = c\<lparr>ec_items := []\<rparr>"

section \<open>Evidence never changes\<close>

text \<open>\<open>w\<close> holds every file of \<open>v\<close>, with the same content.\<close>

definition keeps_files :: "vault \<Rightarrow> vault \<Rightarrow> bool" where
  "keeps_files v w \<longleftrightarrow> va_base w = va_base v \<and>
     (\<forall>p c q. map_of (va_files v) p = Some (RegularFile c q) \<longrightarrow> (\<exists>q'. map_of (va_files w) p = Some (RegularFile c q')))"

lemma keeps_files_refl [simp]: "keeps_files v v"
  by (simp add: keeps_files_def)

lemma keeps_files_trans: "keeps_files u v \<Longrightarrow> keeps_files v w \<Longrightarrow> keeps_files u w"
  unfolding keeps_files_def by metis

lemma ensure_root_files: "ensure_root v = (x, w) \<Longrightarrow> va_files w = va_files v \<and> va_base w = va_base v"
  by (auto simp: ensure_root_def split: root_entry.splits if_split_asm)

lemma place_keeps: "place sha p content v = (x, w) \<Longrightarrow> keeps_files v w"
  by (auto simp: place_def keeps_files_def split: option.splits fs_entry.splits if_split_asm)

lemma capture_keeps:
  assumes "capture sha fl uuid stamp data i v = (x, w)"
  shows "keeps_files v w"
proof -
  obtain y u where r: "ensure_root v = (y, u)" by force
  have "keeps_files v u" using ensure_root_files [OF r] by (simp add: keeps_files_def)
  with assms r show ?thesis
    by (auto simp: capture_def Let_def split: prod.splits sum.splits if_split_asm
        dest!: place_keeps intro: keeps_files_trans)
qed

fun capture_all ::
  "(string \<Rightarrow> string) \<Rightarrow> (pyfloat \<Rightarrow> string) \<Rightarrow> (string \<times> string \<times> payload \<times> string) list \<Rightarrow> vault \<Rightarrow> vault" where
  "capture_all sha fl [] v = v"
| "capture_all sha fl ((uuid, stamp, data, i) # cs) v =
     capture_all sha fl cs (snd (capture sha fl uuid stamp data i v))"

lemma capture_all_keeps: "keeps_files v (capture_all sha fl cs v)"
proof (induction cs arbitrary: v)
  case Nil
  then show ?case by simp
next
  case (Cons c cs)
  obtain uuid stamp data i where c: "c = (uuid, stamp, data, i)" by (cases c)
  have "keeps_files v (snd (capture sha fl uuid stamp data i v))" by (metis capture_keeps prod.collapse)
  then show ?case unfolding c using Cons.IH keeps_files_trans by force
qed

lemma place_stored:
  "place sha p content v = (Inr u, w) \<Longrightarrow>
     va_base w = va_base v \<and> (\<exists>c. map_of (va_files w) p = Some (RegularFile c True) \<and> sha c = sha content)"
  by (auto simp: place_def split: option.splits fs_entry.splits if_split_asm)

lemma capture_stored:
  assumes "capture sha fl uuid stamp data i v = (Inr r, w)"
  obtains c where "va_base w = va_base v" "ev_path r = evidence_path w (ev_id r)"
    "map_of (va_files w) (ev_path r) = Some (RegularFile c True)" "sha c = ev_sha256 r"
    "ev_sha256 r = sha (fst (serialize fl data))" "ev_size r = length (fst (serialize fl data))"
proof -
  obtain content mime where s: "serialize fl data = (content, mime)" by force
  obtain y u where e: "ensure_root v = (y, u)" by force
  let ?id = "if i \<noteq> [] then i else uuid"
  from assms s e obtain z where p: "place sha (evidence_path u ?id) content u = (Inr z, w)"
    and r: "r = \<lparr>ev_id = ?id, ev_path = evidence_path u ?id, ev_sha256 = sha content,
             ev_size = length content, ev_mime = mime, ev_created = stamp\<rparr>"
    by (auto simp: capture_def Let_def split: prod.splits sum.splits if_split_asm)
  from place_stored [OF p] obtain c where c: "va_base w = va_base u" "sha c = sha content"
    "map_of (va_files w) (evidence_path u ?id) = Some (RegularFile c True)" by blast
  from c ensure_root_files [OF e] r s show ?thesis
    by (intro that [of c]) (auto simp: evidence_path_def)
qed

section \<open>Properties\<close>

text \<open>
  Captured evidence is immutable and verifiable: a reference just returned names an owner-only
  file under the store's root whose digest it carries; provided no other content has that digest,
  the file holds exactly the serialised data and the reference verifies, now and after any further
  captures, whether they succeed or fail.
\<close>
theorem evidence_stays_verifiable:
  assumes "capture sha fl uuid stamp data i v = (Inr r, w)"
    and "\<forall>c. sha c = sha (fst (serialize fl data)) \<longrightarrow> c = fst (serialize fl data)"
  shows "map_of (va_files w) (ev_path r) = Some (RegularFile (fst (serialize fl data)) True)
    \<and> ev_path r = evidence_path v (ev_id r)
    \<and> verify sha resolve (capture_all sha fl cs w) r"
proof -
  from capture_stored [OF assms(1)] obtain c where b: "va_base w = va_base v"
    and p: "ev_path r = evidence_path w (ev_id r)"
    and c: "map_of (va_files w) (ev_path r) = Some (RegularFile c True)" "sha c = ev_sha256 r"
    and d: "ev_sha256 r = sha (fst (serialize fl data))" "ev_size r = length (fst (serialize fl data))" .
  have same: "c = fst (serialize fl data)" using assms(2) c d by metis
  have k: "keeps_files w (capture_all sha fl cs w)" by (rule capture_all_keeps)
  with c same obtain q where "map_of (va_files (capture_all sha fl cs w)) (ev_path r)
      = Some (RegularFile (fst (serialize fl data)) q)" unfolding keeps_files_def by blast
  with k d p have "verify sha resolve (capture_all sha fl cs w) r"
    by (simp add: verify_def keeps_files_def evidence_path_def)
  with b p c same show ?thesis by (simp add: evidence_path_def)
qed

definition sample_vault :: vault where
  "sample_vault = \<lparr>va_base = ''evidence'', va_root = RootAbsent, va_files = [], va_write_ok = True, va_restrict_ok = True\<rparr>"

theorem evidence_stays_verifiable_witness:
  "\<exists>r w. capture (\<lambda>c. c) (\<lambda>f. []) ''u1'' ''now'' (TextValue ''open port'') ''run-1'' sample_vault = (Inr r, w)
     \<and> ev_path r = ''evidence/run-1.evidence''
     \<and> verify (\<lambda>c. c) (\<lambda>p. p) (capture_all (\<lambda>c. c) (\<lambda>f. []) [(''u2'', ''later'', TextValue ''forged'', ''run-1'')] w) r"
proof -
  define r where "r = \<lparr>ev_id = ''run-1'', ev_path = ''evidence/run-1.evidence'', ev_sha256 = ''open port'',
     ev_size = 9, ev_mime = ''text/plain'', ev_created = ''now''\<rparr>"
  define w where "w = sample_vault\<lparr>va_root := RootDirectory True,
     va_files := [(''evidence/run-1.evidence'', RegularFile ''open port'' True)]\<rparr>"
  have c: "capture (\<lambda>c. c) (\<lambda>f. []) ''u1'' ''now'' (TextValue ''open port'') ''run-1'' sample_vault = (Inr r, w)"
    unfolding r_def w_def by code_simp
  have "verify (\<lambda>c. c) (\<lambda>p. p) (capture_all (\<lambda>c. c) (\<lambda>f. []) [(''u2'', ''later'', TextValue ''forged'', ''run-1'')] w) r"
    by (rule evidence_stays_verifiable [OF c, THEN conjunct2, THEN conjunct2]) simp
  with c show ?thesis by (auto simp: r_def)
qed

end
