(* ===== verification/HostOps.thy ===== *)
theory HostOps
  imports HostPolicy PyValue
begin

text \<open>
  The governed host operations of \<open>hostcontrol/operations.py\<close>: files, processes, services, commands
  and tool discovery. Each enforces its policy and returns a structured dictionary; an exception of
  the operating system is an \<open>Inl\<close>, which the host agent turns into a failure.

  The machine is explicit: a \<open>disk\<close> holds the regular files, the directories and the symbolic links
  under their resolved paths, and every operation returns the disk it leaves. What the standard
  library and the operating system compute is the record \<open>host_os\<close>: path resolution, which looks
  at the links only; the codecs; refusals; listings; processes.
\<close>

section \<open>The machine\<close>

record disk =
  dk_files :: "(path, string) dict"
  dk_dirs :: "path list"
  dk_links :: "(path \<times> string) list"

record spawn_call =
  sn_argv :: "string list"
  sn_cwd :: "string option"
  sn_env :: "(string, string) dict option"
  sn_stdin :: "string option"
  sn_timeout :: int

text \<open>How a process ends: its exit code, output, error output and rounded duration.\<close>

datatype spawned = ProcessEnded int string string pyfloat | NotFound | SpawnTimeout | SpawnRaises py_error

datatype process_answer = Terminated string | NoSuchProcess | AccessDenied

record host_os =
  os_resolve :: "(path \<times> string) list \<Rightarrow> string \<Rightarrow> path option"
  os_cwd :: string
  os_env :: "(string, string) dict"
  os_sha256 :: "string \<Rightarrow> string"
  os_decode :: "string \<Rightarrow> string"
  os_encode :: "string \<Rightarrow> string"
  os_refused :: "disk \<Rightarrow> bool \<Rightarrow> path \<Rightarrow> bool"
  os_children :: "disk \<Rightarrow> path \<Rightarrow> (string \<times> bool \<times> int option) list"
  os_walk :: "disk \<Rightarrow> string \<Rightarrow> string list"
  os_fnmatch :: "string \<Rightarrow> string \<Rightarrow> bool"
  os_spawn :: "spawn_call \<Rightarrow> disk \<Rightarrow> spawned \<times> disk"
  os_out :: "(path \<times> string) list \<Rightarrow> string \<Rightarrow> string \<Rightarrow> string"
  os_which :: "disk \<Rightarrow> string \<Rightarrow> string option \<Rightarrow> string option"
  os_scan :: "disk \<Rightarrow> string \<Rightarrow> (string \<times> string \<times> bool) list option"
  os_processes :: "(int \<times> string \<times> string) option list option"
  os_terminate :: "(int \<Rightarrow> process_answer) option"

definition res_at :: "host_os \<Rightarrow> disk \<Rightarrow> string \<Rightarrow> path option" where
  "res_at Os d = os_resolve Os (dk_links d)"

text \<open>\<open>str(Path(s))\<close> and the string of a resolved path.\<close>

definition posix_parts :: "string \<Rightarrow> string list" where
  "posix_parts s = filter (\<lambda>c. c \<noteq> [] \<and> c \<noteq> ''.'') (split_on CHR ''/'' s)"

definition posix_root :: "string \<Rightarrow> string" where
  "posix_root s = (if starts_with s ''//'' \<and> \<not> starts_with s ''///'' then ''//''
     else if starts_with s ''/'' then ''/'' else [])"

definition posix_join :: "string \<Rightarrow> string list \<Rightarrow> string" where
  "posix_join start parts = (let t = start @ join_with ''/'' parts in if t = [] then ''.'' else t)"

definition posix_text :: "string \<Rightarrow> string" where
  "posix_text s = posix_join (posix_root s) (posix_parts s)"

definition path_text :: "path \<Rightarrow> string" where
  "path_text p = CHR ''/'' # join_with ''/'' p"

text \<open>\<open>Path(s).parent\<close>, and the paths from the outermost ancestor to the path itself.\<close>

definition ancestors :: "string \<Rightarrow> string list" where
  "ancestors s = map (\<lambda>n. posix_join (posix_root s) (take n (posix_parts s))) [0..<Suc (length (posix_parts s))]"

definition parent_text :: "string \<Rightarrow> string" where
  "parent_text s = posix_join (posix_root s) (butlast (posix_parts s))"

section \<open>Files\<close>

text \<open>
  The kernel walks a path through directories that exist, while \<open>resolve(strict=False)\<close> does not
  ask for them: a path is reached only when all its ancestors are directories.
\<close>

definition reach :: "host_os \<Rightarrow> disk \<Rightarrow> string \<Rightarrow> path option" where
  "reach Os d p =
     (if list_all (\<lambda>a. case res_at Os d a of None \<Rightarrow> False | Some q \<Rightarrow> q \<in> set (dk_dirs d)) (butlast (ancestors p))
      then res_at Os d p else None)"

definition file_at :: "host_os \<Rightarrow> disk \<Rightarrow> string \<Rightarrow> string option" where
  "file_at Os d p = (case reach Os d p of None \<Rightarrow> None | Some q \<Rightarrow> map_of (dk_files d) q)"

definition dir_at :: "host_os \<Rightarrow> disk \<Rightarrow> string \<Rightarrow> path option" where
  "dir_at Os d p = (case reach Os d p of None \<Rightarrow> None | Some q \<Rightarrow> if q \<in> set (dk_dirs d) then Some q else None)"

definition os_failure :: "string \<Rightarrow> py_error" where
  "os_failure p = OSError p"

definition read_bytes :: "host_os \<Rightarrow> disk \<Rightarrow> string \<Rightarrow> string res" where
  "read_bytes Os d p = (case reach Os d p of
     None \<Rightarrow> Inl (os_failure p)
   | Some q \<Rightarrow> (case map_of (dk_files d) q of
       None \<Rightarrow> Inl (os_failure p) | Some b \<Rightarrow> if os_refused Os d False q then Inl (os_failure p) else Inr b))"

text \<open>\<open>read_text\<close> translates line ends.\<close>

fun universal_newlines :: "string \<Rightarrow> string" where
  "universal_newlines [] = []"
| "universal_newlines (c # cs) =
     (if c = CHR 0x0D then (case cs of
          [] \<Rightarrow> [CHR 0x0A]
        | x # xs \<Rightarrow> if x = CHR 0x0A then CHR 0x0A # universal_newlines xs else CHR 0x0A # universal_newlines (x # xs))
      else c # universal_newlines cs)"

definition read_text :: "host_os \<Rightarrow> disk \<Rightarrow> string \<Rightarrow> string res" where
  "read_text Os d p = res_bind (read_bytes Os d p) (\<lambda>b. Inr (universal_newlines (os_decode Os b)))"

definition write_bytes :: "host_os \<Rightarrow> string \<Rightarrow> string \<Rightarrow> disk \<Rightarrow> disk res" where
  "write_bytes Os p b d = (case reach Os d p of
     None \<Rightarrow> Inl (os_failure p)
   | Some q \<Rightarrow> if q \<in> set (dk_dirs d) \<or> butlast q \<notin> set (dk_dirs d) \<or> os_refused Os d True q then Inl (os_failure p)
       else Inr (d\<lparr>dk_files := dict_set q b (dk_files d)\<rparr>))"

definition make_dir :: "host_os \<Rightarrow> string \<Rightarrow> disk \<Rightarrow> disk res" where
  "make_dir Os p d = (case reach Os d p of
     None \<Rightarrow> Inl (os_failure p)
   | Some q \<Rightarrow> if q \<in> set (dk_dirs d) then Inr d
       else if map_of (dk_files d) q \<noteq> None \<or> butlast q \<notin> set (dk_dirs d) \<or> os_refused Os d True q then Inl (os_failure p)
       else Inr (d\<lparr>dk_dirs := dk_dirs d @ [q]\<rparr>))"

text \<open>A sequence of effects on the disk; the one that fails ends it, the earlier ones stay.\<close>

fun each_disk :: "('a \<Rightarrow> disk \<Rightarrow> disk res) \<Rightarrow> 'a list \<Rightarrow> disk \<Rightarrow> unit res \<times> disk" where
  "each_disk f [] d = (Inr (), d)"
| "each_disk f (x # xs) d = (case f x d of Inl e \<Rightarrow> (Inl e, d) | Inr d' \<Rightarrow> each_disk f xs d')"

text \<open>\<open>mkdir(parents=True, exist_ok=True)\<close>: the missing ancestors are made as they are written.\<close>

definition make_dirs :: "host_os \<Rightarrow> string \<Rightarrow> disk \<Rightarrow> unit res \<times> disk" where
  "make_dirs Os p d = (if dir_at Os d p \<noteq> None then (Inr (), d) else each_disk (make_dir Os) (ancestors p) d)"

section \<open>File operations\<close>

definition ok_fields :: "jdict \<Rightarrow> jdict" where
  "ok_fields fs = (''ok'', JBool True) # (''error'', JStr []) # fs"

definition deny_fields :: "string \<Rightarrow> jdict" where
  "deny_fields why = [(''ok'', JBool False), (''error'', JStr why)]"

definition max_read_bytes :: nat where "max_read_bytes = 1000000"

definition max_search_matches :: nat where "max_search_matches = 500"

definition file_read :: "host_os \<Rightarrow> disk \<Rightarrow> fs_scope \<Rightarrow> string \<Rightarrow> nat \<Rightarrow> jdict res" where
  "file_read Os d s p max_bytes =
     (case fs_check (res_at Os d) s p False of
        Inl e \<Rightarrow> Inr (deny_fields (error_text e))
      | Inr _ \<Rightarrow>
          if file_at Os d p = None then Inr (deny_fields (''not a readable file: '' @ p))
          else res_bind (read_bytes Os d p) (\<lambda>raw.
            Inr (ok_fields [(''path'', JStr (posix_text p)), (''size_bytes'', JInt (int (length raw))),
              (''sha256'', JStr (os_sha256 Os raw)), (''truncated'', JBool (max_bytes < length raw)),
              (''content'', JStr (os_decode Os (take max_bytes raw)))])))"

definition entry_fields :: "(string \<times> bool \<times> int option) list \<Rightarrow> jval list" where
  "entry_fields es = List.map_filter (\<lambda>(name, is_dir, size). case size of
       None \<Rightarrow> None
     | Some n \<Rightarrow> Some (JDict [(''name'', JStr name), (''type'', JStr (if is_dir then ''dir'' else ''file'')),
         (''size_bytes'', JInt n)])) es"

definition file_list :: "host_os \<Rightarrow> disk \<Rightarrow> fs_scope \<Rightarrow> string \<Rightarrow> jdict res" where
  "file_list Os d s p =
     (case fs_check (res_at Os d) s p False of
        Inl e \<Rightarrow> Inr (deny_fields (error_text e))
      | Inr _ \<Rightarrow> (case dir_at Os d p of
          None \<Rightarrow> Inr (deny_fields (''not a directory: '' @ p))
        | Some q \<Rightarrow>
            if os_refused Os d False q then Inl (os_failure p)
            else (let entries = entry_fields (sort_key fst (os_children Os d q)) in
              Inr (ok_fields [(''path'', JStr (posix_text p)), (''entries'', JList entries),
                (''total'', JInt (int (length entries)))]))))"

text \<open>The matching lines of a file, numbered from one.\<close>

fun line_matches :: "string \<Rightarrow> string \<Rightarrow> nat \<Rightarrow> string list \<Rightarrow> jval list" where
  "line_matches file needle n [] = []"
| "line_matches file needle n (l # ls) =
     (if has_sub (lower l) needle
      then [JDict [(''file'', JStr file), (''line'', JInt (int n)), (''text'', JStr (take 200 (strip l)))]] else [])
     @ line_matches file needle (Suc n) ls"

fun search_files ::
  "host_os \<Rightarrow> disk \<Rightarrow> fs_scope \<Rightarrow> string \<Rightarrow> string \<Rightarrow> nat \<Rightarrow> string list \<Rightarrow> jval list \<Rightarrow> jval list" where
  "search_files Os d s needle glob limit [] found = found"
| "search_files Os d s needle glob limit (f # fs) found =
     (if limit \<le> length found then found
      else if file_at Os d f = None \<or> \<not> os_fnmatch Os (path_name f) glob \<or> \<not> fs_allows (res_at Os d) s f False then
        search_files Os d s needle glob limit fs found
      else (case read_text Os d f of
          Inl _ \<Rightarrow> search_files Os d s needle glob limit fs found
        | Inr t \<Rightarrow> search_files Os d s needle glob limit fs
            (found @ take (limit - length found) (line_matches (posix_text f) needle 1 (splitlines t)))))"

definition file_search :: "host_os \<Rightarrow> disk \<Rightarrow> fs_scope \<Rightarrow> string \<Rightarrow> string \<Rightarrow> string \<Rightarrow> nat \<Rightarrow> jdict res" where
  "file_search Os d s base pattern glob limit =
     (case fs_check (res_at Os d) s base False of
        Inl e \<Rightarrow> Inr (deny_fields (error_text e))
      | Inr _ \<Rightarrow>
          if file_at Os d base = None \<and> dir_at Os d base = None then Inr (deny_fields (''path does not exist: '' @ base))
          else (let files = (if file_at Os d base \<noteq> None then [base] else os_walk Os d base);
                    found = search_files Os d s (lower pattern) glob limit files [] in
            Inr (ok_fields [(''pattern'', JStr pattern), (''matches'', JList found),
              (''total'', JInt (int (length found))), (''truncated'', JBool (limit \<le> length found))])))"

text \<open>The writing operations return the disk as well; a failure can leave directories behind.\<close>

definition file_write :: "host_os \<Rightarrow> fs_scope \<Rightarrow> string \<Rightarrow> string \<Rightarrow> disk \<Rightarrow> jdict res \<times> disk" where
  "file_write Os s p content d =
     (case fs_check (res_at Os d) s p True of
        Inl e \<Rightarrow> (Inr (deny_fields (error_text e)), d)
      | Inr _ \<Rightarrow> (let data = os_encode Os content in
          case make_dirs Os (parent_text p) d of
            (Inl e, d1) \<Rightarrow> (Inl e, d1)
          | (Inr _, d1) \<Rightarrow> (case write_bytes Os p data d1 of
              Inl e \<Rightarrow> (Inl e, d1)
            | Inr d2 \<Rightarrow> (Inr (ok_fields [(''path'', JStr (posix_text p)), (''size_bytes'', JInt (int (length data))),
                (''sha256'', JStr (os_sha256 Os data))]), d2))))"

text \<open>\<open>text.count(old)\<close> and \<open>text.replace(old, new)\<close>; an empty \<open>old\<close> matches between all characters.\<close>

definition count_text :: "string \<Rightarrow> string \<Rightarrow> nat" where
  "count_text t old = (if old = [] then Suc (length t) else count_sub 0 old t)"

fun replace_sub :: "nat \<Rightarrow> string \<Rightarrow> string \<Rightarrow> string \<Rightarrow> string" where
  "replace_sub skip old new [] = []"
| "replace_sub skip old new (c # cs) =
     (if 0 < skip then replace_sub (skip - 1) old new cs
      else if starts_with (c # cs) old then new @ replace_sub (length old - 1) old new cs
      else c # replace_sub 0 old new cs)"

definition replace_text :: "string \<Rightarrow> string \<Rightarrow> string \<Rightarrow> string" where
  "replace_text t old new = (if old = [] then new @ concat (map (\<lambda>c. c # new) t) else replace_sub 0 old new t)"

definition file_edit :: "host_os \<Rightarrow> fs_scope \<Rightarrow> string \<Rightarrow> string \<Rightarrow> string \<Rightarrow> disk \<Rightarrow> jdict res \<times> disk" where
  "file_edit Os s p old new d =
     (case fs_check (res_at Os d) s p True of
        Inl e \<Rightarrow> (Inr (deny_fields (error_text e)), d)
      | Inr _ \<Rightarrow>
          if file_at Os d p = None then (Inr (deny_fields (''not a writable file: '' @ p)), d)
          else (case read_text Os d p of
              Inl e \<Rightarrow> (Inl e, d)
            | Inr t \<Rightarrow> (let n = count_text t old; data = os_encode Os (replace_text t old new) in
                if n = 0 then (Inr (deny_fields ''old string not found; no changes made''), d)
                else (case write_bytes Os p data d of
                    Inl e \<Rightarrow> (Inl e, d)
                  | Inr d1 \<Rightarrow> (Inr (ok_fields [(''path'', JStr (posix_text p)), (''replacements'', JInt (int n)),
                      (''sha256'', JStr (os_sha256 Os data))]), d1)))))"

definition file_fetch :: "host_os \<Rightarrow> fs_scope \<Rightarrow> string \<Rightarrow> string \<Rightarrow> disk \<Rightarrow> jdict res \<times> disk" where
  "file_fetch Os s source dest d =
     (case res_bind (fs_check (res_at Os d) s source False) (\<lambda>_. fs_check (res_at Os d) s dest True) of
        Inl e \<Rightarrow> (Inr (deny_fields (error_text e)), d)
      | Inr _ \<Rightarrow>
          if file_at Os d source = None then (Inr (deny_fields (''source is not a file: '' @ source)), d)
          else (case make_dirs Os (parent_text dest) d of
              (Inl e, d1) \<Rightarrow> (Inl e, d1)
            | (Inr _, d1) \<Rightarrow>
                if res_at Os d1 source = res_at Os d1 dest then (Inl (os_failure source), d1)
                else (case res_bind (read_bytes Os d1 source) (\<lambda>b. write_bytes Os dest b d1) of
                    Inl e \<Rightarrow> (Inl e, d1)
                  | Inr d2 \<Rightarrow> (case read_bytes Os d2 dest of
                      Inl e \<Rightarrow> (Inl e, d2)
                    | Inr data \<Rightarrow> (Inr (ok_fields [(''source'', JStr (posix_text source)), (''dest'', JStr dest),
                        (''size_bytes'', JInt (int (length data))), (''sha256'', JStr (os_sha256 Os data))]), d2)))))"

section \<open>Commands\<close>

definition command_timeout :: int where "command_timeout = 60"

definition out_at :: "host_os \<Rightarrow> disk \<Rightarrow> string \<Rightarrow> string \<Rightarrow> string" where
  "out_at Os d cwd = os_out Os (dk_links d) cwd"

definition classify_at :: "host_os \<Rightarrow> disk \<Rightarrow> string list \<Rightarrow> risk_level" where
  "classify_at Os d argv = classify (out_at Os d (os_cwd Os)) (os_cwd Os) argv"

text \<open>\<open>except (ScopeViolation, ValueError)\<close>.\<close>

fun refusal :: "py_error \<Rightarrow> bool" where
  "refusal (ScopeViolation m) = True"
| "refusal (ValueError m) = True"
| "refusal e = False"

definition exit_text :: "int \<Rightarrow> string \<Rightarrow> string \<Rightarrow> string" where
  "exit_text code out err =
     (let detail = (if strip err \<noteq> [] then strip err else strip out) in
      ''command exited with status '' @ show_int code @ (if detail = [] then [] else '': '' @ take 500 detail))"

definition run_command :: "host_os \<Rightarrow> command_policy \<Rightarrow> spawn_call \<Rightarrow> disk \<Rightarrow> jdict res \<times> disk" where
  "run_command Os policy c d = (case policy_check policy (sn_argv c) of
     Inl e \<Rightarrow> (if refusal e then Inr (deny_fields (error_text e)) else Inl e, d)
   | Inr _ \<Rightarrow> (case os_spawn Os c d of
       (NotFound, d') \<Rightarrow> (Inr (deny_fields (''command not found: '' @ hd (sn_argv c))), d')
     | (SpawnTimeout, d') \<Rightarrow>
         (Inr (deny_fields (''command timed out after '' @ show_int (sn_timeout c) @ ''s'')), d')
     | (SpawnRaises e, d') \<Rightarrow> (Inl e, d')
     | (ProcessEnded code out err duration, d') \<Rightarrow>
         (let fields = [(''command'', JList (map JStr (sn_argv c))),
              (''risk'', JStr (risk_value (classify_at Os d (sn_argv c)))), (''exit_code'', JInt code),
              (''stdout'', JStr (take 4000 out)), (''stderr'', JStr (take 2000 err)),
              (''duration'', JFloat duration)] in
          (Inr (if code \<noteq> 0 then (''ok'', JBool False) # (''error'', JStr (exit_text code out err)) # fields
                else ok_fields fields), d'))))"

definition plain_spawn :: "string list \<Rightarrow> spawn_call" where
  "plain_spawn argv = \<lparr>sn_argv = argv, sn_cwd = None, sn_env = None, sn_stdin = None, sn_timeout = command_timeout\<rparr>"

section \<open>Processes and services\<close>

definition process_list :: "host_os \<Rightarrow> nat \<Rightarrow> jdict" where
  "process_list Os limit = (case os_processes Os of
     None \<Rightarrow> deny_fields ''psutil is not available''
   | Some ps \<Rightarrow> (let procs = map (\<lambda>(pid, name, user). JDict [(''pid'', JInt pid), (''name'', JStr name), (''user'', JStr user)])
         (take (max 1 limit) (List.map_filter (\<lambda>p. p) ps)) in
       ok_fields [(''processes'', JList procs), (''total'', JInt (int (length procs)))]))"

definition process_kill :: "host_os \<Rightarrow> int \<Rightarrow> jdict" where
  "process_kill Os pid = (case os_terminate Os of
     None \<Rightarrow> deny_fields ''psutil is not available''
   | Some kill \<Rightarrow> (case kill pid of
       Terminated name \<Rightarrow> ok_fields [(''pid'', JInt pid), (''name'', JStr name), (''action'', JStr ''terminate'')]
     | NoSuchProcess \<Rightarrow> deny_fields (''no such process: '' @ show_int pid)
     | AccessDenied \<Rightarrow> deny_fields (''access denied terminating pid '' @ show_int pid)))"

definition service_name :: "string \<Rightarrow> bool" where
  "service_name name = (let rest = filter (\<lambda>c. c \<notin> set ''-_.'') name in rest \<noteq> [] \<and> list_all is_alnum_char rest)"

definition systemctl_policy :: command_policy where
  "systemctl_policy = \<lparr>cp_allowed = Some [''systemctl''], cp_denied = []\<rparr>"

definition field :: "jdict \<Rightarrow> string \<Rightarrow> jval" where
  "field fs k = (case map_of fs k of None \<Rightarrow> JNull | Some v \<Rightarrow> v)"

fun text_of :: "jval \<Rightarrow> string" where
  "text_of (JStr s) = s"
| "text_of v = []"

definition service_status :: "host_os \<Rightarrow> string \<Rightarrow> disk \<Rightarrow> jdict res \<times> disk" where
  "service_status Os name d =
     (if \<not> service_name name then (Inr (deny_fields ''invalid service name''), d)
      else (case run_command Os systemctl_policy (plain_spawn [''systemctl'', ''is-active'', name]) d of
          (Inl e, d') \<Rightarrow> (Inl e, d')
        | (Inr result, d') \<Rightarrow>
            (if field result ''ok'' \<noteq> JBool True then Inr result
             else (let state = strip (text_of (field result ''stdout'')) in
               Inr (ok_fields [(''service'', JStr name), (''state'', JStr (if state = [] then ''unknown'' else state))])), d')))"

definition service_control :: "host_os \<Rightarrow> string \<Rightarrow> string \<Rightarrow> disk \<Rightarrow> jdict res \<times> disk" where
  "service_control Os name action d =
     (if action \<notin> {''start'', ''stop'', ''restart''} then
        (Inr (deny_fields ''action must be start, stop, or restart''), d)
      else if \<not> service_name name then (Inr (deny_fields ''invalid service name''), d)
      else (case run_command Os systemctl_policy (plain_spawn [''systemctl'', action, name]) d of
          (Inl e, d') \<Rightarrow> (Inl e, d')
        | (Inr result, d') \<Rightarrow>
            (if field result ''ok'' \<noteq> JBool True then Inr result
             else Inr (ok_fields [(''service'', JStr name), (''action'', JStr action), (''exit_code'', field result ''exit_code'')]), d')))"

section \<open>Executables\<close>

definition inspect_executable :: "host_os \<Rightarrow> disk \<Rightarrow> string \<Rightarrow> string option \<Rightarrow> jdict" where
  "inspect_executable Os d executable search_path =
     (let requested = strip executable; absolute = starts_with requested ''/'';
          missing = ok_fields [(''found'', JBool False), (''executable'', JStr requested)] in
      if requested = [] \<or> CHR 0x00 \<in> set requested then
        deny_fields ''executable name must be non-empty and NUL-free''
      else if \<not> absolute \<and> path_name requested \<noteq> requested then
        deny_fields ''executable must be an absolute path or basename''
      else if search_path = Some [] \<and> \<not> absolute then missing
      else (case os_which Os d requested search_path of
          None \<Rightarrow> missing
        | Some found \<Rightarrow> (case read_bytes Os d found of
            Inl _ \<Rightarrow> deny_fields ''selected executable could not be fingerprinted''
          | Inr body \<Rightarrow> (case res_at Os d found of
              None \<Rightarrow> deny_fields ''selected executable could not be fingerprinted''
            | Some q \<Rightarrow> ok_fields [(''found'', JBool True), (''name'', JStr (path_name (path_text q))),
                (''path'', JStr (path_text q)), (''sha256'', JStr (os_sha256 Os body))]))))"

definition tool_basename :: "string \<Rightarrow> bool" where
  "tool_basename s = (case s of [] \<Rightarrow> False | c # cs \<Rightarrow>
     ascii_alnum c \<and> length cs \<le> 255 \<and> list_all (\<lambda>x. ascii_alnum x \<or> x \<in> set ''._+@-'') cs)"

text \<open>The scan of one directory: the tools seen so far, and whether the limit was reached.\<close>

fun scan_dir ::
  "string \<Rightarrow> nat \<Rightarrow> (string \<times> string \<times> bool) list \<Rightarrow> (string, string) dict \<Rightarrow> (string, string) dict \<times> bool" where
  "scan_dir query limit [] seen = (seen, False)"
| "scan_dir query limit ((name, p, tool) # es) seen =
     (if map_of seen name \<noteq> None \<or> \<not> has_sub (lower name) query \<or> \<not> tool then scan_dir query limit es seen
      else (let seen' = dict_set name p seen in
        if limit \<le> length seen' then (seen', True) else scan_dir query limit es seen'))"

fun scan_path ::
  "host_os \<Rightarrow> disk \<Rightarrow> string \<Rightarrow> nat \<Rightarrow> string list \<Rightarrow> (string, string) dict \<Rightarrow> (string, string) dict \<times> bool" where
  "scan_path Os d query limit [] seen = (seen, False)"
| "scan_path Os d query limit (dir # dirs) seen = (case os_scan Os d dir of
     None \<Rightarrow> scan_path Os d query limit dirs seen
   | Some es \<Rightarrow> (case scan_dir query limit es seen of
       (seen', True) \<Rightarrow> (seen', True) | (seen', False) \<Rightarrow> scan_path Os d query limit dirs seen'))"

definition path_dirs_of :: "string \<Rightarrow> string list" where
  "path_dirs_of s = filter (\<lambda>x. x \<noteq> []) (split_on CHR '':'' s)"

definition env_path :: "host_os \<Rightarrow> string" where
  "env_path Os = (case map_of (os_env Os) ''PATH'' of None \<Rightarrow> [] | Some s \<Rightarrow> s)"

definition tool_fields :: "string \<times> string \<Rightarrow> jval" where
  "tool_fields t = JDict [(''name'', JStr (fst t)), (''path'', JStr (snd t))]"

definition list_tools :: "host_os \<Rightarrow> disk \<Rightarrow> string \<Rightarrow> int \<Rightarrow> string \<Rightarrow> jdict" where
  "list_tools Os d query limit exact =
     (let q = lower (strip query); x = strip exact;
          n = nat (max 1 (min (if limit = 0 then 400 else limit) 5000));
          dirs = path_dirs_of (env_path Os);
          answer = (\<lambda>tools truncated. ok_fields [(''tools'', JList tools), (''count'', JInt (int (length tools))),
            (''truncated'', JBool truncated), (''path_dirs'', JList (map JStr dirs))]) in
      if x \<noteq> [] \<and> \<not> tool_basename x then deny_fields ''exact tool name must be a basename''
      else if x \<noteq> [] then
        (let identity = inspect_executable Os d x None in
         if field identity ''ok'' \<noteq> JBool True then identity
         else answer (if field identity ''found'' = JBool True
           then [JDict [(''name'', field identity ''name''), (''path'', field identity ''path''),
             (''sha256'', field identity ''sha256'')]] else []) False)
      else (case scan_path Os d q n dirs [] of
          (seen, truncated) \<Rightarrow> answer (map tool_fields (sort_key fst seen)) truncated))"

section \<open>What an operation changes\<close>

definition in_write_scope :: "fs_scope \<Rightarrow> path \<Rightarrow> bool" where
  "in_write_scope s q \<longleftrightarrow> (\<exists>r \<in> set (fs_write s). prefix r q)"

definition in_read_scope :: "fs_scope \<Rightarrow> path \<Rightarrow> bool" where
  "in_read_scope s q \<longleftrightarrow> (\<exists>r \<in> set (fs_read s) \<union> set (fs_write s). prefix r q)"

text \<open>The links stay, and files differ only at paths that satisfy the predicate.\<close>

definition changes_only :: "(path \<Rightarrow> bool) \<Rightarrow> disk \<Rightarrow> disk \<Rightarrow> bool" where
  "changes_only P d d' \<longleftrightarrow> dk_links d' = dk_links d \<and> (\<forall>q. map_of (dk_files d') q \<noteq> map_of (dk_files d) q \<longrightarrow> P q)"

lemma changes_only_refl [simp, intro]: "changes_only P d d"
  by (simp add: changes_only_def)

lemma changes_only_trans: "changes_only P d d' \<Longrightarrow> changes_only P d' d'' \<Longrightarrow> changes_only P d d''"
  by (auto simp: changes_only_def) metis

lemma changes_only_mono: "changes_only P d d' \<Longrightarrow> (\<And>q. P q \<Longrightarrow> R q) \<Longrightarrow> changes_only R d d'"
  by (auto simp: changes_only_def)

lemma fs_check_write: "fs_check resolve s p True = Inr u \<longleftrightarrow> (\<exists>q. resolve p = Some q \<and> in_write_scope s q)"
  by (auto simp: fs_check_def fs_allows_def path_within_iff in_write_scope_def)

lemma fs_check_read: "fs_check resolve s p False = Inr u \<longleftrightarrow> (\<exists>q. resolve p = Some q \<and> in_read_scope s q)"
  by (auto simp: fs_check_def fs_allows_def path_within_iff in_read_scope_def)

lemma in_write_read: "in_write_scope s q \<Longrightarrow> in_read_scope s q"
  by (auto simp: in_write_scope_def in_read_scope_def)

lemma res_at_cong: "dk_links d' = dk_links d \<Longrightarrow> res_at Os d' = res_at Os d"
  by (simp add: res_at_def)

lemma reach_SomeD: "reach Os d p = Some q \<Longrightarrow> res_at Os d p = Some q"
  by (simp add: reach_def split: if_split_asm)

lemma reach_files [simp]: "reach Os (d\<lparr>dk_files := f\<rparr>) p = reach Os d p"
  by (cases d) (simp only: reach_def res_at_def disk.simps)

lemma make_dir_keeps: "make_dir Os p d = Inr d' \<Longrightarrow> dk_files d' = dk_files d \<and> dk_links d' = dk_links d"
  by (auto simp: make_dir_def split: option.splits if_split_asm)

lemma each_disk_keeps:
  "(\<And>x d d'. f x d = Inr d' \<Longrightarrow> dk_files d' = dk_files d \<and> dk_links d' = dk_links d)
     \<Longrightarrow> each_disk f xs d = (r, d') \<Longrightarrow> dk_files d' = dk_files d \<and> dk_links d' = dk_links d"
  by (induction xs arbitrary: d) (auto split: sum.splits)

lemma make_dirs_keeps: "make_dirs Os p d = (r, d') \<Longrightarrow> dk_files d' = dk_files d \<and> dk_links d' = dk_links d"
  unfolding make_dirs_def using each_disk_keeps [of "make_dir Os", OF make_dir_keeps] by (auto split: if_split_asm)

lemma make_dirs_changes: "make_dirs Os p d = (r, d') \<Longrightarrow> changes_only P d d'"
  using make_dirs_keeps by (auto simp: changes_only_def)

lemma write_bytes_Inr:
  "write_bytes Os p b d = Inr d' \<longleftrightarrow> (\<exists>q. reach Os d p = Some q \<and> q \<notin> set (dk_dirs d)
     \<and> butlast q \<in> set (dk_dirs d) \<and> \<not> os_refused Os d True q \<and> d' = d\<lparr>dk_files := dict_set q b (dk_files d)\<rparr>)"
  by (auto simp: write_bytes_def split: option.splits)

lemma write_bytes_changes:
  "write_bytes Os p b d = Inr d' \<Longrightarrow> res_at Os d p = Some q \<Longrightarrow> P q \<Longrightarrow> changes_only P d d'"
  by (auto simp: write_bytes_Inr changes_only_def dest: reach_SomeD split: if_split_asm)

lemma res_at_make_dirs: "make_dirs Os p d = (r, d') \<Longrightarrow> res_at Os d' = res_at Os d"
  by (rule res_at_cong) (drule make_dirs_keeps, simp)

lemma dirs_then_write:
  assumes "make_dirs Os x d = (r, d1)" "write_bytes Os p b d1 = Inr d2" "res_at Os d p = Some q" "P q"
  shows "changes_only P d d2"
proof (rule changes_only_trans)
  show "changes_only P d d1" by (rule make_dirs_changes) (rule assms(1))
  show "changes_only P d1 d2"
    by (rule write_bytes_changes [where q = q]) (use assms in \<open>auto simp: res_at_make_dirs\<close>)
qed

lemma file_write_changes: "file_write Os s p content d = (r, d') \<Longrightarrow> changes_only (in_write_scope s) d d'"
  by (auto simp: file_write_def Let_def fs_check_write split: sum.splits prod.splits
      intro: make_dirs_changes elim: dirs_then_write)

lemma file_edit_changes: "file_edit Os s p old new d = (r, d') \<Longrightarrow> changes_only (in_write_scope s) d d'"
  by (auto simp: file_edit_def Let_def fs_check_write split: sum.splits if_split_asm elim: write_bytes_changes)

lemma file_fetch_changes: "file_fetch Os s source dest d = (r, d') \<Longrightarrow> changes_only (in_write_scope s) d d'"
  by (auto simp: file_fetch_def Let_def res_bind_eq_Inr fs_check_write fs_check_read
      split: sum.splits prod.splits if_split_asm intro: make_dirs_changes elim: dirs_then_write)

text \<open>What a read returns is the content of a file in the read scope.\<close>

lemma read_bytes_Inr:
  "read_bytes Os d p = Inr b \<longleftrightarrow> (\<exists>q. reach Os d p = Some q \<and> map_of (dk_files d) q = Some b \<and> \<not> os_refused Os d False q)"
  by (auto simp: read_bytes_def split: option.splits)

lemma field_simps [simp]:
  "field ((k, v) # fs) k' = (if k' = k then v else field fs k')" "field [] k' = JNull"
  by (auto simp: field_def)

lemma deny_not_ok [simp]: "field (deny_fields why) ''ok'' = JBool False"
  by (simp add: deny_fields_def)

lemma ok_fields_ok [simp]: "field (ok_fields fs) ''ok'' = JBool True"
  by (simp add: ok_fields_def)

lemma file_read_ok:
  assumes "file_read Os d s p n = Inr r" "field r ''ok'' = JBool True"
  shows "\<exists>q raw. res_at Os d p = Some q \<and> in_read_scope s q \<and> map_of (dk_files d) q = Some raw
     \<and> field r ''content'' = JStr (os_decode Os (take n raw)) \<and> field r ''sha256'' = JStr (os_sha256 Os raw)"
  using assms
  by (auto simp: file_read_def fs_check_read res_bind_eq_Inr read_bytes_Inr ok_fields_def deny_fields_def
      dest: reach_SomeD split: sum.splits if_split_asm)

definition scoped_match :: "host_os \<Rightarrow> disk \<Rightarrow> fs_scope \<Rightarrow> jval \<Rightarrow> bool" where
  "scoped_match Os d s m \<longleftrightarrow> (\<exists>f n t. m = JDict [(''file'', JStr (posix_text f)), (''line'', JInt n), (''text'', JStr t)]
     \<and> fs_allows (res_at Os d) s f False)"

lemma line_matches_scoped:
  "fs_allows (res_at Os d) s f False \<Longrightarrow> \<forall>m \<in> set (line_matches (posix_text f) needle n ls). scoped_match Os d s m"
  by (induction ls arbitrary: n) (auto simp: scoped_match_def)

lemma search_files_in_scope:
  "\<forall>m \<in> set found. scoped_match Os d s m
   \<Longrightarrow> \<forall>m \<in> set (search_files Os d s needle glob limit fs found). scoped_match Os d s m"
proof (induction fs arbitrary: found)
  case Nil
  then show ?case by simp
next
  case (Cons f fs)
  show ?case
  proof (cases "fs_allows (res_at Os d) s f False")
    case True
    have "\<forall>m \<in> set (search_files Os d s needle glob limit fs (found @ take k (line_matches (posix_text f) needle 1 ls))).
        scoped_match Os d s m" for k ls
      by (rule Cons.IH) (use Cons.prems line_matches_scoped [OF True] in \<open>auto dest: in_set_takeD\<close>)
    with Cons.IH [OF Cons.prems] Cons.prems show ?thesis by (simp split: sum.split)
  next
    case False
    with Cons show ?thesis by simp
  qed
qed

lemma search_files_bounded: "length found \<le> limit \<Longrightarrow> length (search_files Os d s needle glob limit fs found) \<le> limit"
  by (induction fs arbitrary: found) (auto split: sum.splits)

section \<open>A machine to run on\<close>

text \<open>Resolution without symbolic links, below a working directory.\<close>

fun lexical :: "path \<Rightarrow> string list \<Rightarrow> path" where
  "lexical q [] = q"
| "lexical q (c # cs) = lexical (if c = ''..'' then butlast q else q @ [c]) cs"

definition lexical_resolve :: "path \<Rightarrow> string \<Rightarrow> path" where
  "lexical_resolve cwd s = lexical (if starts_with s ''/'' then [] else cwd) (posix_parts s)"

definition sample_os :: host_os where
  "sample_os = \<lparr>os_resolve = (\<lambda>_ s. Some (lexical_resolve [''w''] s)), os_cwd = ''/w'',
     os_env = [(''PATH'', ''/bin'')], os_sha256 = (\<lambda>s. replicate 64 (if s = ''v1'' then CHR ''1'' else CHR ''2'')),
     os_decode = (\<lambda>s. s), os_encode = (\<lambda>s. s), os_refused = (\<lambda>_ _ _. False), os_children = (\<lambda>_ _. []),
     os_walk = (\<lambda>_ _. []), os_fnmatch = (\<lambda>_ _. True),
     os_spawn = (\<lambda>c d. (ProcessEnded 0 (join_with '' '' (sn_argv c)) [] (Fin 0), d)),
     os_out = (\<lambda>_ cwd v. path_text (lexical_resolve (posix_parts cwd) v)),
     os_which = (\<lambda>d s _. if map_of (dk_files d) (''bin'' # posix_parts s) \<noteq> None then Some (''/bin/'' @ s)
        else if map_of (dk_files d) (lexical_resolve [] s) \<noteq> None then Some s else None),
     os_scan = (\<lambda>_ _. None), os_processes = None, os_terminate = None\<rparr>"

definition sample_disk :: disk where
  "sample_disk = \<lparr>dk_files = [([''w'', ''a''], ''x''), ([''bin'', ''touch''], ''v1'')], dk_dirs = [[], [''w''], [''bin'']],
     dk_links = []\<rparr>"

text \<open>
  The parent directories are made as they are written in the path, while the scope looks at the
  resolved path: a path in the write scope can create a directory outside of it.
\<close>

lemma write_creates_directory_outside_scope:
  "case file_write sample_os \<lparr>fs_read = [], fs_write = [[''w'']]\<rparr> ''/etc/evil/../../w/f'' ''t'' sample_disk of
     (r, d) \<Rightarrow> is_ok r \<and> [''etc'', ''evil''] \<in> set (dk_dirs d)"
  by code_simp

section \<open>Writing and reading back\<close>

text \<open>
  A file written under the scope reads back: where the codec gives the text back and the machine
  lets the file be read, reading the same path returns the content that was written, with the same
  digest, and marks it as complete when it fits the read limit.
\<close>
theorem written_file_reads_back:
  assumes w: "file_write Os s p content d = (Inr r, d')" "field r ''ok'' = JBool True"
    and os: "\<forall>q. \<not> os_refused Os d' False q" "os_decode Os (os_encode Os content) = content"
    and fits: "length (os_encode Os content) \<le> n"
  shows "\<exists>r'. file_read Os d' s p n = Inr r' \<and> field r' ''ok'' = JBool True \<and> field r' ''content'' = JStr content
     \<and> field r' ''sha256'' = field r ''sha256'' \<and> field r' ''truncated'' = JBool False"
proof -
  let ?data = "os_encode Os content"
  from w obtain q d1 where q: "res_at Os d p = Some q" "in_write_scope s q"
    and d1: "make_dirs Os (parent_text p) d = (Inr (), d1)" "write_bytes Os p ?data d1 = Inr d'"
    and r: "field r ''sha256'' = JStr (os_sha256 Os ?data)"
    by (auto simp: file_write_def Let_def fs_check_write ok_fields_def split: sum.splits prod.splits)
  from d1(2) obtain q' where q': "reach Os d1 p = Some q'" "d' = d1\<lparr>dk_files := dict_set q' ?data (dk_files d1)\<rparr>"
    by (auto simp: write_bytes_Inr)
  with q(1) res_at_make_dirs [OF d1(1)] have "q' = q" by (auto dest: reach_SomeD)
  with q' have res: "reach Os d' p = Some q" "map_of (dk_files d') q = Some ?data"
    by simp_all
  then have "fs_check (res_at Os d') s p False = Inr ()" "read_bytes Os d' p = Inr ?data" "file_at Os d' p = Some ?data"
    using q(2) os(1) by (auto simp: fs_check_read in_write_read read_bytes_Inr file_at_def dest: reach_SomeD)
  then show ?thesis using os(2) fits r by (simp add: file_read_def) (simp add: ok_fields_def)
qed

theorem written_file_reads_back_witness:
  "\<exists>r'. file_read sample_os (snd (file_write sample_os \<lparr>fs_read = [], fs_write = [[''w'']]\<rparr> ''n/f'' ''t'' sample_disk))
      \<lparr>fs_read = [], fs_write = [[''w'']]\<rparr> ''n/f'' max_read_bytes = Inr r' \<and> field r' ''content'' = JStr ''t''"
proof -
  let ?s = "\<lparr>fs_read = [], fs_write = [[''w'']]\<rparr>" and ?w = "file_write sample_os \<lparr>fs_read = [], fs_write = [[''w'']]\<rparr> ''n/f'' ''t'' sample_disk"
  have "case fst ?w of Inr r \<Rightarrow> field r ''ok'' = JBool True | Inl e \<Rightarrow> False" by code_simp
  then obtain r d' where "?w = (Inr r, d')" "field r ''ok'' = JBool True" by (cases ?w) (auto split: sum.splits)
  from written_file_reads_back [OF this, of max_read_bytes] this show ?thesis
    by (auto simp: sample_os_def max_read_bytes_def)
qed

end
