(* ===== verification/Provider.thy ===== *)
theory Provider
  imports HostOps
begin

text \<open>
  The contract of the execution providers, \<open>execution/base.py\<close>: what a provider declares about its
  environment, the execution context a command is given, the mapping of host paths to provider
  paths, and the life cycle of a stateful session. The providers themselves, which start processes,
  containers and remote shells, are outside.

  A provider is the record of what its properties answer. \<open>win_abs\<close> and \<open>win_join\<close> are the Windows
  flavour of \<open>is_absolute\<close> and \<open>joinpath\<close>, \<open>resolve\<close> is the resolution of host paths, \<open>expand\<close> is
  \<open>expanduser\<close>.
\<close>

section \<open>Declarations\<close>

datatype fs_mode = Shared | Mapped | Remote | NoFiles

datatype path_style = PosixStyle | WindowsStyle

record env_capabilities =
  ep_command :: bool
  ep_discovery :: bool
  ep_cwd :: bool
  ep_environment :: bool
  ep_mapping :: bool
  ep_scoped :: bool
  ep_sessions :: bool

record path_mapping =
  pm_host :: string
  pm_provider :: string
  pm_writable :: bool
  pm_style :: path_style

definition validate_mapping :: "(string \<Rightarrow> bool) \<Rightarrow> (string \<Rightarrow> string) \<Rightarrow> path_mapping \<Rightarrow> path_mapping res" where
  "validate_mapping win_abs expand m =
     (let h = strip (pm_host m); p = strip (pm_provider m) in
      res_bind (ensure (h \<noteq> [] \<and> p \<noteq> []) (ValueError ''path mapping roots cannot be empty'')) (\<lambda>_.
      res_bind (ensure (starts_with (expand h) ''/'') (ValueError ''host_root must be absolute'')) (\<lambda>_.
      res_bind (ensure (case pm_style m of WindowsStyle \<Rightarrow> win_abs p | PosixStyle \<Rightarrow> starts_with p ''/'')
                 (ValueError ''provider_root must be absolute'')) (\<lambda>_.
        Inr (m\<lparr>pm_host := h, pm_provider := p\<rparr>)))))"

record resolved_path =
  rp_host :: string
  rp_provider :: string
  rp_writable :: bool
  rp_mapping :: "path_mapping option"

record provider =
  pv_name :: string
  pv_platform :: string
  pv_timeout :: int
  pv_mode :: fs_mode
  pv_caps :: env_capabilities
  pv_mappings :: "path_mapping list"

record environment =
  en_name :: string
  en_kind :: string
  en_qualifier :: string
  en_platform :: string
  en_mode :: fs_mode
  en_caps :: env_capabilities
  en_mappings :: "path_mapping list"

definition identify :: "provider \<Rightarrow> environment" where
  "identify p = \<lparr>en_name = pv_name p, en_kind = hd (split_once CHR ''/'' (pv_name p)),
     en_qualifier = (case split_once CHR ''/'' (pv_name p) of [k, q] \<Rightarrow> q | _ \<Rightarrow> []),
     en_platform = pv_platform p, en_mode = pv_mode p, en_caps = pv_caps p, en_mappings = pv_mappings p\<rparr>"

section \<open>Execution contexts\<close>

record exec_context =
  ex_cwd :: string
  ex_env :: "(string, string) dict"
  ex_outputs :: "string list"

definition empty_context :: exec_context where
  "empty_context = \<lparr>ex_cwd = [], ex_env = [], ex_outputs = []\<rparr>"

definition provider_absolute :: "(string \<Rightarrow> bool) \<Rightarrow> string \<Rightarrow> bool" where
  "provider_absolute win_abs s = (starts_with s ''/'' \<or> win_abs s)"

definition env_name :: "string \<Rightarrow> bool" where
  "env_name s = (case s of [] \<Rightarrow> False | c # cs \<Rightarrow>
     (is_ascii_alpha c \<or> c = CHR ''_'') \<and> list_all (\<lambda>x. ascii_alnum x \<or> x = CHR ''_'') cs)"

definition validate_context :: "(string \<Rightarrow> bool) \<Rightarrow> exec_context \<Rightarrow> exec_context res" where
  "validate_context win_abs c =
     (let cwd = strip (ex_cwd c); outputs = map strip (ex_outputs c) in
      res_bind (ensure (CHR 0x00 \<notin> set cwd) (ValueError ''cwd cannot contain NUL'')) (\<lambda>_.
      res_bind (ensure (cwd = [] \<or> provider_absolute win_abs cwd) (ValueError ''cwd must be an absolute provider path'')) (\<lambda>_.
      res_bind (iter_res (\<lambda>(k, v).
          res_bind (ensure (env_name k) (ValueError (''invalid environment variable name: '' @ k))) (\<lambda>_.
            ensure (CHR 0x00 \<notin> set v) (ValueError (''environment variable '' @ k @ '' contains NUL'')))) (ex_env c)) (\<lambda>_.
      res_bind (iter_res (\<lambda>out.
          res_bind (ensure (out \<noteq> [] \<and> CHR 0x00 \<notin> set out)
            (ValueError ''declared output paths must be non-empty and NUL-free'')) (\<lambda>_.
            ensure (provider_absolute win_abs out) (ValueError ''declared output paths must be absolute''))) outputs) (\<lambda>_.
        Inr \<lparr>ex_cwd = cwd, ex_env = ex_env c, ex_outputs = keep_first outputs\<rparr>)))))"

definition is_empty_context :: "exec_context \<Rightarrow> bool" where
  "is_empty_context c = (ex_cwd c = [] \<and> ex_env c = [] \<and> ex_outputs c = [])"

text \<open>A provider refuses a context that has a field it does not support.\<close>

definition unsupported_fields :: "provider \<Rightarrow> exec_context \<Rightarrow> string list" where
  "unsupported_fields p c =
     (if ex_cwd c \<noteq> [] \<and> \<not> ep_cwd (pv_caps p) then [''cwd''] else [])
     @ (if ex_env c \<noteq> [] \<and> \<not> ep_environment (pv_caps p) then [''environment''] else [])
     @ (if ex_outputs c \<noteq> [] \<and> \<not> ep_mapping (pv_caps p) then [''declared_outputs''] else [])"

definition prepare_context ::
  "(string \<Rightarrow> bool) \<Rightarrow> provider \<Rightarrow> exec_context option \<Rightarrow> (string, string) dict option \<Rightarrow> exec_context res" where
  "prepare_context win_abs p context env =
     res_bind (ensure (context = None \<or> env = None)
       (ValueError ''use ExecutionContext.environment instead of env together'')) (\<lambda>_.
     res_bind (case context of Some c \<Rightarrow> Inr c
         | None \<Rightarrow> validate_context win_abs (empty_context\<lparr>ex_env := (case env of None \<Rightarrow> [] | Some e \<Rightarrow> e)\<rparr>)) (\<lambda>c.
     res_bind (ensure (unsupported_fields p c = [])
       (ValueError (''provider '' @ pv_name p @ '' does not support execution context fields: ''
          @ join_with '', '' (unsupported_fields p c)))) (\<lambda>_. Inr c)))"

section \<open>Paths\<close>

fun matching_roots :: "(string \<Rightarrow> path option) \<Rightarrow> path \<Rightarrow> path_mapping list \<Rightarrow> (path \<times> path_mapping) list res" where
  "matching_roots resolve q [] = Inr []"
| "matching_roots resolve q (m # ms) = (case resolve (pm_host m) of
     None \<Rightarrow> Inl (OSError (pm_host m))
   | Some r \<Rightarrow> res_bind (matching_roots resolve q ms) (\<lambda>found. Inr (if prefix r q then (r, m) # found else found)))"

text \<open>\<open>max(matches, key=depth)\<close>: the first of the deepest roots.\<close>

fun deepest :: "(path \<times> path_mapping) \<Rightarrow> (path \<times> path_mapping) list \<Rightarrow> path \<times> path_mapping" where
  "deepest b [] = b"
| "deepest b (x # xs) = deepest (if length (fst b) < length (fst x) then x else b) xs"

definition provider_join :: "(string \<Rightarrow> string list \<Rightarrow> string) \<Rightarrow> path_mapping \<Rightarrow> string list \<Rightarrow> string" where
  "provider_join win_join m parts = (case pm_style m of
     WindowsStyle \<Rightarrow> win_join (pm_provider m) parts
   | PosixStyle \<Rightarrow> posix_join (posix_root (pm_provider m)) (posix_parts (pm_provider m) @ parts))"

definition map_path ::
  "(string \<Rightarrow> string list \<Rightarrow> string) \<Rightarrow> (string \<Rightarrow> path option) \<Rightarrow> provider \<Rightarrow> string \<Rightarrow> bool \<Rightarrow> resolved_path res" where
  "map_path win_join resolve p s write = (case resolve s of
     None \<Rightarrow> Inl (OSError s)
   | Some q \<Rightarrow>
       if pv_mode p = NoFiles then Inl (ValueError (''provider '' @ pv_name p @ '' has no filesystem contract''))
       else if pv_mode p = Shared then
         Inr \<lparr>rp_host = path_text q, rp_provider = path_text q, rp_writable = True, rp_mapping = None\<rparr>
       else res_bind (matching_roots resolve q (pv_mappings p)) (\<lambda>found. (case found of
           [] \<Rightarrow> Inl (ValueError (''path '' @ quoted (path_text q) @ '' has no mapping for provider '' @ pv_name p))
         | x # xs \<Rightarrow> (case deepest x xs of (r, m) \<Rightarrow>
             if write \<and> \<not> pm_writable m then
               Inl (ValueError (''path '' @ quoted (path_text q) @ '' is not writable through provider '' @ pv_name p))
             else Inr \<lparr>rp_host = path_text q, rp_provider = provider_join win_join m (drop (length r) q),
               rp_writable = pm_writable m, rp_mapping = Some m\<rparr>))))"

section \<open>Sessions\<close>

text \<open>
  A session identifier comes from outside. A command of a session is checked before it runs
  and noted after, with the provider's execution in between.
\<close>

record provider_session =
  ps_id :: string
  ps_provider :: string
  ps_context :: exec_context
  ps_limit :: nat
  ps_commands :: nat
  ps_transcript :: "jdict list"
  ps_closed :: bool

definition open_session :: "(string \<Rightarrow> bool) \<Rightarrow> provider \<Rightarrow> string \<Rightarrow> exec_context option \<Rightarrow> provider_session res" where
  "open_session win_abs p sid context =
     res_bind (ensure (ep_sessions (pv_caps p))
       (ValueError (''provider '' @ pv_name p @ '' does not support stateful sessions''))) (\<lambda>_.
     res_bind (prepare_context win_abs p context None) (\<lambda>c.
     res_bind (ensure (pv_name p \<noteq> []) (ValueError ''field'')) (\<lambda>_.
       Inr \<lparr>ps_id = sid, ps_provider = pv_name p, ps_context = c, ps_limit = 512, ps_commands = 0,
         ps_transcript = [], ps_closed = False\<rparr>)))"

definition prepare_session_context ::
  "(string \<Rightarrow> bool) \<Rightarrow> provider \<Rightarrow> provider_session \<Rightarrow> exec_context option \<Rightarrow> exec_context res" where
  "prepare_session_context win_abs p s context =
     res_bind (ensure (ep_sessions (pv_caps p))
       (ValueError (''provider '' @ pv_name p @ '' does not support stateful sessions''))) (\<lambda>_.
     res_bind (ensure (ps_provider s = pv_name p)
       (ValueError (''session provider '' @ ps_provider s @ '' does not match '' @ pv_name p))) (\<lambda>_.
     res_bind (ensure (\<not> ps_closed s) (ValueError (''provider session '' @ ps_id s @ '' is closed''))) (\<lambda>_.
       prepare_context win_abs p (Some (case context of None \<Rightarrow> ps_context s | Some c \<Rightarrow> c)) None)))"

definition update_session_context ::
  "(string \<Rightarrow> bool) \<Rightarrow> provider \<Rightarrow> exec_context \<Rightarrow> provider_session \<Rightarrow> provider_session res" where
  "update_session_context win_abs p c s =
     res_bind (prepare_session_context win_abs p s (Some c)) (\<lambda>c'. Inr (s\<lparr>ps_context := c'\<rparr>))"

definition start_session_command ::
  "(string \<Rightarrow> bool) \<Rightarrow> provider \<Rightarrow> provider_session \<Rightarrow> exec_context option \<Rightarrow> exec_context res" where
  "start_session_command win_abs p s context =
     res_bind (prepare_session_context win_abs p s context) (\<lambda>c.
     res_bind (ensure (ps_commands s < ps_limit s)
       (ValueError (''provider session '' @ ps_id s @ '' reached its command limit''))) (\<lambda>_. Inr c))"

record exec_outcome =
  eo_success :: bool
  eo_stdout :: string
  eo_stderr :: string
  eo_exit :: int
  eo_timed_out :: bool
  eo_error :: string

definition note_session_command ::
  "string \<Rightarrow> exec_context \<Rightarrow> exec_outcome \<Rightarrow> provider_session \<Rightarrow> provider_session" where
  "note_session_command display c out s = s\<lparr>ps_commands := Suc (ps_commands s),
     ps_transcript := ps_transcript s @ [[(''command'', JStr display), (''cwd'', JStr (ex_cwd c)),
       (''success'', JBool (eo_success out)), (''exit_code'', JInt (eo_exit out)),
       (''timed_out'', JBool (eo_timed_out out)), (''error'', JStr (eo_error out))]]\<rparr>"

definition close_provider_session :: "(string \<Rightarrow> bool) \<Rightarrow> provider \<Rightarrow> provider_session \<Rightarrow> (jdict \<times> provider_session) res" where
  "close_provider_session win_abs p s =
     res_bind (prepare_session_context win_abs p s None) (\<lambda>_.
       Inr ([(''session_id'', JStr (ps_id s)), (''provider'', JStr (ps_provider s)),
           (''cwd'', JStr (ex_cwd (ps_context s))), (''command_limit'', JInt (int (ps_limit s))),
           (''commands_run'', JInt (int (ps_commands s))), (''closed'', JBool True),
           (''transcript'', JList (map JDict (ps_transcript s)))], s\<lparr>ps_closed := True\<rparr>))"

section \<open>Mapped paths\<close>

lemma deepest_in: "deepest b xs \<in> insert b (set xs)"
  by (induction xs arbitrary: b) (auto split: if_splits)

lemma deepest_max: "x \<in> insert b (set xs) \<Longrightarrow> length (fst x) \<le> length (fst (deepest b xs))"
proof (induction xs arbitrary: b x)
  case Nil
  then show ?case by simp
next
  case (Cons y ys)
  let ?c = "if length (fst b) < length (fst y) then y else b"
  have "length (fst ?c) \<le> length (fst (deepest ?c ys))" by (rule Cons.IH) simp
  moreover have "length (fst b) \<le> length (fst ?c)" "length (fst y) \<le> length (fst ?c)" by auto
  ultimately show ?case using Cons.prems Cons.IH [of x ?c] by auto
qed

lemma matching_roots_set:
  "matching_roots resolve q ms = Inr found \<Longrightarrow>
     set found = {(r, m). m \<in> set ms \<and> resolve (pm_host m) = Some r \<and> prefix r q}"
  by (induction ms arbitrary: found) (auto simp: res_bind_eq_Inr split: option.splits if_split_asm)

lemma map_path_matched:
  assumes "map_path win_join resolve p s write = Inr rp" "pv_mode p \<noteq> Shared"
  obtains q x xs r m where "resolve s = Some q" "matching_roots resolve q (pv_mappings p) = Inr (x # xs)"
    "deepest x xs = (r, m)" "write \<longrightarrow> pm_writable m"
    "rp = \<lparr>rp_host = path_text q, rp_provider = provider_join win_join m (drop (length r) q),
       rp_writable = pm_writable m, rp_mapping = Some m\<rparr>"
proof -
  from assms obtain q where q: "resolve s = Some q" by (auto simp: map_path_def split: option.splits)
  with assms obtain found where f: "matching_roots resolve q (pv_mappings p) = Inr found"
    by (auto simp: map_path_def res_bind_eq_Inr split: if_split_asm)
  with assms q obtain x xs where c: "found = x # xs"
    by (cases found) (auto simp: map_path_def split: if_split_asm)
  obtain r m where d: "deepest x xs = (r, m)" by (cases "deepest x xs")
  with assms q f c show thesis by (intro that [OF q _ d]) (simp_all add: map_path_def split: if_split_asm)
qed

text \<open>The components of a resolved path: no empty one, no dot, no separator.\<close>

definition plain_part :: "string \<Rightarrow> bool" where
  "plain_part c \<longleftrightarrow> c \<noteq> [] \<and> c \<noteq> ''.'' \<and> CHR ''/'' \<notin> set c"

lemma split_on_absent: "c \<notin> set s \<Longrightarrow> split_on c s = [s]"
  by (induction s) auto

lemma split_on_append: "c \<notin> set s \<Longrightarrow> split_on c (s @ c # t) = s # split_on c t"
  by (induction s) auto

lemma split_on_join:
  "list_all (\<lambda>w. c \<notin> set w) ws \<Longrightarrow> ws \<noteq> [] \<Longrightarrow> split_on c (join_with [c] ws) = ws"
  by (induction "[c]" ws rule: join_with.induct) (auto simp: split_on_absent split_on_append)

lemma split_on_all: "list_all (\<lambda>w. c \<notin> set w) (split_on c s)"
  by (induction s) (auto split: list.splits)

lemma posix_parts_plain: "list_all plain_part (posix_parts s)"
  using split_on_all [of "CHR ''/''" s] by (auto simp: posix_parts_def plain_part_def list_all_iff)

lemma posix_parts_join:
  assumes "list_all plain_part ws" "r \<in> {[], ''/'', ''//''}"
  shows "posix_parts (posix_join r ws) = ws"
proof -
  have w: "posix_parts (join_with ''/'' ws) = ws" if "ws \<noteq> []"
    using split_on_join [of "CHR ''/''" ws] that assms(1)
    by (auto simp: posix_parts_def plain_part_def list_all_iff intro!: filter_True)
  have sl: "posix_parts (CHR ''/'' # s) = posix_parts s" for s by (simp add: posix_parts_def)
  show ?thesis
  proof (cases ws)
    case Nil
    with assms(2) show ?thesis by (auto simp: posix_join_def posix_parts_def)
  next
    case (Cons a list)
    moreover have "join_with ''/'' ws \<noteq> []"
      using Cons assms(1) by (cases list) (auto simp: plain_part_def)
    ultimately show ?thesis using assms(2) w by (auto simp: posix_join_def sl Let_def)
  qed
qed

lemma posix_root_cases: "posix_root s \<in> {[], ''/'', ''//''}"
  by (auto simp: posix_root_def)


definition sample_provider :: provider where
  "sample_provider = \<lparr>pv_name = ''docker/box'', pv_platform = ''linux'', pv_timeout = 60, pv_mode = Mapped,
     pv_caps = \<lparr>ep_command = True, ep_discovery = True, ep_cwd = True, ep_environment = False, ep_mapping = True,
       ep_scoped = True, ep_sessions = True\<rparr>,
     pv_mappings = [\<lparr>pm_host = ''/w'', pm_provider = ''/mnt/'', pm_writable = False, pm_style = PosixStyle\<rparr>,
       \<lparr>pm_host = ''/w/out'', pm_provider = ''//box/./out'', pm_writable = True, pm_style = PosixStyle\<rparr>]\<rparr>"


section \<open>The life of a session\<close>

text \<open>
  The sessions that a provider can reach when commands overlap: \<open>f\<close> commands have been started and
  not yet noted, and never more than \<open>k\<close> at once.
\<close>

inductive session_run :: "(string \<Rightarrow> bool) \<Rightarrow> provider \<Rightarrow> nat \<Rightarrow> provider_session \<Rightarrow> nat \<Rightarrow> bool"
  for win_abs p k where
  opened: "open_session win_abs p sid c = Inr s \<Longrightarrow> session_run win_abs p k s 0"
| started: "session_run win_abs p k s f \<Longrightarrow> f < k \<Longrightarrow> start_session_command win_abs p s c = Inr c'
     \<Longrightarrow> session_run win_abs p k s (Suc f)"
| noted: "session_run win_abs p k s (Suc f) \<Longrightarrow> session_run win_abs p k (note_session_command t c out s) f"
| moved: "session_run win_abs p k s f \<Longrightarrow> update_session_context win_abs p c s = Inr s' \<Longrightarrow> session_run win_abs p k s' f"
| closed: "session_run win_abs p k s f \<Longrightarrow> close_provider_session win_abs p s = Inr (x, s') \<Longrightarrow> session_run win_abs p k s' f"

lemma prepare_context_supported: "prepare_context win_abs p c e = Inr c' \<Longrightarrow> unsupported_fields p c' = []"
  by (auto simp: prepare_context_def res_bind_eq_Inr)

lemma prepare_session_open:
  "prepare_session_context win_abs p s c = Inr c' \<Longrightarrow>
     \<not> ps_closed s \<and> ps_provider s = pv_name p \<and> unsupported_fields p c' = []"
  by (auto simp: prepare_session_context_def res_bind_eq_Inr dest: prepare_context_supported)

text \<open>
  A session keeps its books: however its commands overlap, its transcript has one entry per command,
  it never runs more commands than its limit allows plus those that were already under way, its context
  has only fields its provider supports, and once it is closed no command starts and nothing moves it.
\<close>
theorem session_bounded:
  assumes "session_run win_abs p k s f" "0 < k"
  shows "ps_commands s + f \<le> ps_limit s + (k - 1) \<and> length (ps_transcript s) = ps_commands s
    \<and> unsupported_fields p (ps_context s) = []
    \<and> (ps_closed s \<longrightarrow> \<not> is_ok (start_session_command win_abs p s c)
       \<and> \<not> is_ok (update_session_context win_abs p c' s) \<and> \<not> is_ok (close_provider_session win_abs p s))"
proof -
  have "ps_commands s + f \<le> ps_limit s + (k - 1) \<and> length (ps_transcript s) = ps_commands s
    \<and> unsupported_fields p (ps_context s) = []"
    using assms
  proof (induction rule: session_run.induct)
    case (opened sid c s)
    then show ?case by (auto simp: open_session_def res_bind_eq_Inr dest: prepare_context_supported)
  next
    case (started s f c c')
    then show ?case by (auto simp: start_session_command_def res_bind_eq_Inr)
  next
    case (noted s f t c out)
    then show ?case by (auto simp: note_session_command_def)
  next
    case (moved s f c s')
    then show ?case by (auto simp: update_session_context_def res_bind_eq_Inr dest: prepare_session_open)
  next
    case (closed s f x s')
    then show ?case by (auto simp: close_provider_session_def res_bind_eq_Inr)
  qed
  then show ?thesis
    by (auto simp: start_session_command_def update_session_context_def close_provider_session_def is_ok_iff res_bind_eq_Inr
        dest: prepare_session_open)
qed

theorem session_bounded_witness:
  "\<exists>s. session_run (\<lambda>_. False) sample_provider 2 s 2 \<and> ps_commands s + 2 \<le> ps_limit s + 1"
proof -
  obtain s where s: "open_session (\<lambda>_. False) sample_provider ''s'' None = Inr s" "start_session_command (\<lambda>_. False) sample_provider s None = Inr (ps_context s)"
    by (auto simp: open_session_def start_session_command_def prepare_session_context_def prepare_context_def
        validate_context_def empty_context_def keep_first_def unsupported_fields_def sample_provider_def strip_def lstrip_def rstrip_def)
  have "session_run (\<lambda>_. False) sample_provider 2 s 0" by (rule opened [OF s(1)])
  then have "session_run (\<lambda>_. False) sample_provider 2 s (Suc 0)" by (rule started [OF _ _ s(2)]) simp
  then have "session_run (\<lambda>_. False) sample_provider 2 s (Suc (Suc 0))" by (rule started [OF _ _ s(2)]) simp
  then have "session_run (\<lambda>_. False) sample_provider 2 s 2" by (simp only: numeral_2_eq_2)
  from this session_bounded [OF this] show ?thesis by auto
qed

end
