(* ===== verification/HostState.thy ===== *)
theory HostState
  imports Provider
begin

text \<open>
  The state of host control: the local command session of \<open>hostcontrol/session.py\<close>, and the fields of
  the host controller, which a callback of the coordinator can change while a request is under way.

  Objects that Python compares by identity carry a number: a policy is a numbered object, an
  executor likewise, and the sessions live in a store that their references index.
\<close>

section \<open>Local sessions\<close>

type_synonym policy_object = "nat \<times> command_policy"

record local_session =
  hl_policy :: policy_object
  hl_scope :: "fs_scope option"
  hl_cwd :: string
  hl_env :: "(string, string) dict"
  hl_transcript :: "(string list \<times> string \<times> jdict) list"

definition new_session ::
  "host_os \<Rightarrow> disk \<Rightarrow> policy_object \<Rightarrow> fs_scope option \<Rightarrow> string \<Rightarrow> (string, string) dict option \<Rightarrow> local_session res" where
  "new_session Os d policy scope cwd env =
     res_bind (if cwd = [] then Inr (os_cwd Os)
               else (case res_at Os d cwd of None \<Rightarrow> Inl (OSError cwd) | Some q \<Rightarrow> Inr (path_text q))) (\<lambda>dir.
       Inr \<lparr>hl_policy = policy, hl_scope = scope, hl_cwd = dir,
         hl_env = (case env of None \<Rightarrow> os_env Os | Some e \<Rightarrow> e), hl_transcript = []\<rparr>)"

text \<open>\<open>Path(cwd) / name\<close>, and the argument of \<open>cd\<close>.\<close>

definition path_join :: "string \<Rightarrow> string \<Rightarrow> string" where
  "path_join dir name = (if starts_with name ''/'' then name else dir @ ''/'' @ name)"

definition cd_argument :: "string list \<Rightarrow> string" where
  "cd_argument argv = (case argv of [] \<Rightarrow> ''.'' | _ # [] \<Rightarrow> ''.'' | _ # a # _ \<Rightarrow> a)"

definition change_dir :: "host_os \<Rightarrow> disk \<Rightarrow> string list \<Rightarrow> local_session \<Rightarrow> jdict res \<times> local_session" where
  "change_dir Os d argv s = (case res_at Os d (path_join (hl_cwd s) (cd_argument argv)) of
     None \<Rightarrow> (Inl (OSError (hl_cwd s)), s)
   | Some q \<Rightarrow>
       if (case hl_scope s of None \<Rightarrow> False | Some sc \<Rightarrow> \<not> fs_allows (res_at Os d) sc (path_text q) False) then
         (Inr (deny_fields (''cd outside scope: '' @ path_text q)), s)
       else if q \<notin> set (dk_dirs d) then (Inr (deny_fields (''not a directory: '' @ path_text q)), s)
       else (Inr (ok_fields [(''cwd'', JStr (path_text q))]), s\<lparr>hl_cwd := path_text q\<rparr>))"

definition run_in_session ::
  "host_os \<Rightarrow> string list \<Rightarrow> local_session \<times> disk \<Rightarrow> jdict res \<times> local_session \<times> disk" where
  "run_in_session Os argv = (\<lambda>(s, d).
     case (if argv \<noteq> [] \<and> hd argv = ''cd''
           then (case change_dir Os d argv s of (r, s') \<Rightarrow> (r, s', d))
           else (case run_command Os (snd (hl_policy s))
                   ((plain_spawn argv)\<lparr>sn_cwd := Some (hl_cwd s), sn_env := Some (hl_env s)\<rparr>) d of (r, d') \<Rightarrow> (r, s, d'))) of
       (Inl e, s', d') \<Rightarrow> (Inl e, s', d')
     | (Inr r, s', d') \<Rightarrow> (Inr r, s'\<lparr>hl_transcript := hl_transcript s' @ [(argv, hl_cwd s', r)]\<rparr>, d'))"

definition session_summary :: "local_session \<Rightarrow> jdict" where
  "session_summary s = [(''cwd'', JStr (hl_cwd s)), (''commands_run'', JInt (int (length (hl_transcript s)))),
     (''transcript'', JList (map (\<lambda>(argv, cwd, r). JDict [(''command'', JList (map JStr argv)), (''cwd'', JStr cwd),
        (''result'', JDict r)]) (hl_transcript s)))]"

section \<open>The fields of the controller\<close>

record host_state =
  hc_scope :: fs_scope
  hc_policy :: "policy_object option"
  hc_executor :: "(nat \<times> provider) option"
  hc_local :: "nat option"
  hc_locals :: "local_session list"
  hc_remote :: "nat option"
  hc_remote_cwd :: string
  hc_remotes :: "provider_session list"
  hc_disk :: disk
  hc_requests :: nat

definition set_scope :: "fs_scope \<Rightarrow> policy_object option \<Rightarrow> host_state \<Rightarrow> host_state" where
  "set_scope scope policy h = h\<lparr>hc_scope := scope, hc_policy := policy\<rparr>"

text \<open>A machine without a grant: nothing in scope, no policy, no executor.\<close>

definition bare_host :: host_state where
  "bare_host = \<lparr>hc_scope = \<lparr>fs_read = [], fs_write = []\<rparr>, hc_policy = None, hc_executor = None, hc_local = None,
     hc_locals = [], hc_remote = None, hc_remote_cwd = [], hc_remotes = [],
     hc_disk = \<lparr>dk_files = [], dk_dirs = [], dk_links = []\<rparr>, hc_requests = 0\<rparr>"

end
