(* ===== verification/Coordinator.thy ===== *)
theory Coordinator
  imports Governance TaskState Evidence HostState
begin

text \<open>
  The execution coordinator of \<open>runtime/coordinator.py\<close>: requests with their resolved action, the
  approval digest, and \<open>execute\<close>, which takes one governed operation through dependency checks,
  hooks, the gate, approval, revalidation, authorisation, launch, evidence and telemetry.

  A request object is shared with the callbacks that run during an execution, so it is part of the
  state (\<open>world\<close>) that they take and return; so are the gate, the installed pre-execution check, the
  availability of the telemetry services and the fields of the host controller. \<open>datetime.now\<close> reads
  the next value of a clock. What lies outside (the digest, the callbacks, the operation, evidence capture) is the record
  \<open>services\<close>. \<open>execute\<close> also returns the states in which it launched the operation.
\<close>

section \<open>Requests\<close>

datatype command = CommandText string | CommandArgv "string list"

datatype side_effect = ReadOnly | FilesystemWrite | NetworkEffect | SessionState | UnknownEffect

record exec_identity =
  xi_tool :: string
  xi_tool_version :: string
  xi_path :: string
  xi_sha256 :: string
  xi_other :: "(string, string) dict"

record resolved_executable =
  xe_index :: nat
  xe_path :: string
  xe_sha256 :: string

record resolved_action =
  ra_schema :: string
  ra_capability :: string
  ra_provider :: string
  ra_tool :: string
  ra_tool_version :: string
  ra_target :: string
  ra_argv :: "string list"
  ra_executables :: "resolved_executable list"
  ra_cwd :: string
  ra_inputs :: "(string \<times> string) list"
  ra_outputs :: "(string \<times> string) list"
  ra_effects :: "side_effect list"
  ra_timeout :: int
  ra_idempotency :: string

text \<open>
  The validators of \<open>ResolvedAction\<close>. \<open>win_abs\<close> and \<open>win_name\<close> are the Windows flavour of an
  absolute path and its name, whose rules differ between library versions.
\<close>

definition absolute_path :: "(string \<Rightarrow> bool) \<Rightarrow> string \<Rightarrow> bool" where
  "absolute_path win_abs p = (CHR 0x00 \<notin> set p \<and> (starts_with p ''/'' \<or> win_abs p))"

definition validate_executable :: "(string \<Rightarrow> bool) \<Rightarrow> resolved_executable \<Rightarrow> unit res" where
  "validate_executable win_abs e =
     res_bind (ensure (xe_index e \<le> 4095 \<and> bounded_text 1 4096 (xe_path e) \<and> is_hex64 (xe_sha256 e))
                 (ValueError ''field'')) (\<lambda>_.
       ensure (absolute_path win_abs (xe_path e))
         (ValueError ''resolved executable path must be absolute and NUL-free''))"

definition validate_resolved ::
  "(string \<Rightarrow> bool) \<Rightarrow> (string \<Rightarrow> string) \<Rightarrow> resolved_action \<Rightarrow> resolved_action res" where
  "validate_resolved win_abs win_name a =
     (let indexes = map xe_index (ra_executables a) in
      res_bind (ensure (ra_capability a \<noteq> [] \<and> ra_provider a \<noteq> [] \<and> ra_tool a \<noteq> [] \<and> ra_argv a \<noteq> []
                  \<and> ra_effects a \<noteq> [] \<and> 1 \<le> ra_timeout a \<and> ra_timeout a \<le> 3600) (ValueError ''field'')) (\<lambda>_.
      res_bind (iter_res (validate_executable win_abs) (ra_executables a)) (\<lambda>_.
      res_bind (ensure (list_all (\<lambda>v. v \<noteq> [] \<and> CHR 0x00 \<notin> set v) (ra_argv a))
                  (ValueError ''resolved argv must contain non-empty NUL-free tokens'')) (\<lambda>_.
      res_bind (ensure (ra_cwd a = [] \<or> absolute_path win_abs (ra_cwd a))
                  (ValueError ''resolved cwd must be absolute and NUL-free'')) (\<lambda>_.
      res_bind (ensure (list_all (\<lambda>(h, p). absolute_path win_abs h \<and> absolute_path win_abs p)
                   (ra_inputs a @ ra_outputs a))
                  (ValueError ''resolved action paths must be absolute and NUL-free'')) (\<lambda>_.
      res_bind (ensure (ra_outputs a = [] \<or> FilesystemWrite \<in> set (ra_effects a))
                  (ValueError ''declared outputs require filesystem_write side effect'')) (\<lambda>_.
      res_bind (ensure (distinct indexes)
                  (ValueError ''resolved executable argv indexes must be unique'')) (\<lambda>_.
      res_bind (ensure (indexes = [] \<or> hd indexes = 0 \<and> sorted indexes)
                  (ValueError ''resolved executables must be ordered from argv index zero'')) (\<lambda>_.
      res_bind (iter_res (\<lambda>e.
            res_bind (ensure (xe_index e < length (ra_argv a))
              (ValueError ''resolved executable argv index is out of range'')) (\<lambda>_.
              ensure (ra_argv a ! xe_index e = xe_path e)
                (ValueError ''resolved executable path must match resolved argv'')))
          (ra_executables a)) (\<lambda>_.
      res_bind (case ra_executables a of
            [] \<Rightarrow> Inr ()
          | e # _ \<Rightarrow> ensure (ra_tool a = (if win_abs (xe_path e) then win_name (xe_path e) else path_name (xe_path e)))
              (ValueError ''resolved tool must match the primary executable path'')) (\<lambda>_. Inr a)))))))))))"

record exec_request =
  xr_action :: string
  xr_target :: string
  xr_target_required :: bool
  xr_risk :: risk_level
  xr_params :: jdict
  xr_command :: command
  xr_executor :: string
  xr_privileges :: "string list"
  xr_credentials :: "string list"
  xr_identity :: exec_identity
  xr_resolved :: "resolved_action option"
  xr_ttl :: int
  xr_expires :: "int option"
  xr_dependency :: string
  xr_dependency_ok :: bool
  xr_guidance :: string
  xr_blocked :: string
  xr_metadata :: jdict

definition credential_ref :: "string \<Rightarrow> bool" where
  "credential_ref s = (case s of [] \<Rightarrow> False | c # cs \<Rightarrow>
     ascii_alnum c \<and> length cs \<le> 127
     \<and> list_all (\<lambda>x. ascii_alnum x \<or> x \<in> {CHR ''.'', CHR ''_'', CHR '':'', CHR ''/'', CHR ''-''}) cs)"

definition validate_request :: "exec_request \<Rightarrow> exec_request res" where
  "validate_request r =
     res_bind (ensure (xr_action r \<noteq> [] \<and> 1 \<le> xr_ttl r \<and> xr_ttl r \<le> 3600) (ValueError ''field'')) (\<lambda>_.
     res_bind (ensure (list_all credential_ref (xr_credentials r))
                 (ValueError ''credential references must be opaque identifiers'')) (\<lambda>_.
     res_bind (ensure (xr_privileges r \<noteq> [] \<and> list_all (\<lambda>p. p \<in>
                   {''user'', ''elevated'', ''root'', ''capability'', ''service_role''}) (xr_privileges r))
                 (ValueError ''required_privileges contains an unsupported value'')) (\<lambda>_. Inr r)))"

text \<open>What the approval digest covers; parameters are hashed as canonical JSON.\<close>

record approval_material =
  am_action :: string
  am_target :: string
  am_risk :: risk_level
  am_params :: jdict
  am_command :: command
  am_executor :: string
  am_privileges :: "string list"
  am_credentials :: "string list"
  am_identity :: exec_identity
  am_resolved :: "resolved_action option"
  am_expires :: "int option"

definition material_of :: "exec_request \<Rightarrow> approval_material" where
  "material_of r =
     \<lparr>am_action = xr_action r, am_target = xr_target r, am_risk = xr_risk r, am_params = canon_dict (xr_params r),
      am_command = xr_command r, am_executor = xr_executor r, am_privileges = xr_privileges r,
      am_credentials = xr_credentials r, am_identity = xr_identity r, am_resolved = xr_resolved r,
      am_expires = xr_expires r\<rparr>"

definition resolved_action_error :: "exec_request \<Rightarrow> string" where
  "resolved_action_error r = (case xr_resolved r of None \<Rightarrow> [] | Some a \<Rightarrow>
     if ra_capability a \<noteq> xr_action r \<or> ra_provider a \<noteq> xr_executor r then
       ''resolved action does not match capability or provider''
     else if ra_target a \<noteq> xr_target r then ''resolved target does not match execution target''
     else if xr_command r \<noteq> CommandArgv (ra_argv a) then
       ''resolved action argv does not match execution command''
     else if xi_tool (xr_identity r) \<noteq> ra_tool a then
       ''resolved tool identity does not match execution identity''
     else if xi_tool_version (xr_identity r) \<noteq> ra_tool_version a then
       ''resolved tool version does not match execution identity''
     else if ra_executables a \<noteq> [] \<and> xi_path (xr_identity r) \<noteq> xe_path (hd (ra_executables a)) then
       ''resolved executable path does not match execution identity''
     else if ra_executables a \<noteq> [] \<and> xi_sha256 (xr_identity r) \<noteq> xe_sha256 (hd (ra_executables a)) then
       ''resolved executable digest does not match execution identity''
     else if xr_risk r = Read \<and> list_ex (\<lambda>e. e \<noteq> ReadOnly) (ra_effects a) then
       ''resolved side effects require WRITE risk''
     else [])"

text \<open>The target and the credential references a request's parameters carry.\<close>

definition target_keys :: "string list" where
  "target_keys = [''target'', ''url'', ''domain'', ''host'', ''hostname'', ''ip'', ''address'', ''cidr'', ''network'']"

fun first_target :: "jdict \<Rightarrow> string list \<Rightarrow> string" where
  "first_target params [] = []"
| "first_target params (k # ks) = (case map_of params k of
     Some (JStr v) \<Rightarrow> if strip v \<noteq> [] then strip v else first_target params ks
   | _ \<Rightarrow> first_target params ks)"

definition target_from_params :: "jdict \<Rightarrow> string" where
  "target_from_params params = first_target params target_keys"

definition credential_refs_from_params :: "jdict \<Rightarrow> string list" where
  "credential_refs_from_params params =
     sort (map (\<lambda>(k, v). ''request-param:'' @ k) (filter (\<lambda>(k, v). \<not> is_blank v \<and> secret_name k) params))"

section \<open>Results and the world\<close>

record op_value =
  ov_success :: bool
  ov_timed_out :: bool
  ov_error :: string
  ov_stderr :: string
  ov_normalized :: "jval option"

text \<open>How a preparation or an operation ends; an operation may return no value.\<close>

datatype op_outcome = OpValue "op_value option" | OpTimeout | OpError string | OpCancelled

record coordinated =
  co_request_id :: string
  co_action :: string
  co_status :: exec_status
  co_success :: bool
  co_value :: "op_value option"
  co_category :: "error_category option"
  co_error :: string
  co_digest :: string
  co_evidence :: "evidence_reference option"

record approval_request =
  aq_request_id :: string
  aq_action :: string
  aq_target :: string
  aq_risk :: risk_level
  aq_params :: jdict
  aq_command :: string
  aq_executor :: string
  aq_privileges :: "string list"
  aq_credentials :: "string list"
  aq_identity :: exec_identity
  aq_resolved :: jdict
  aq_expires :: int
  aq_digest :: string

record approval_grant =
  gr_digest :: string
  gr_approved_at :: int
  gr_expires :: int

datatype approval_answer = AnswerTrue | AnswerFalse | AnswerGrant approval_grant | AnswerOther

record world =
  w_request :: exec_request
  w_gate :: gate
  w_check :: "nat option"
  w_reads :: nat
  w_context :: "(string \<times> string \<times> string) option"
  w_audit :: audit_log
  w_logging_up :: bool
  w_feedback_up :: bool
  w_logged :: "coordinated list"
  w_feedback :: "coordinated list"
  w_host :: host_state

type_synonym 'a effect = "world \<Rightarrow> 'a \<times> world"

text \<open>
  \<open>sv_check\<close> runs the installed check; \<open>None\<close> where it raises. An approval callback that raises
  answers \<open>AnswerFalse\<close>. \<open>sv_evaluate\<close> is the gate's evaluation, \<open>sv_iso\<close> the text of an instant.
\<close>

record services =
  sv_id :: string
  sv_clock :: "nat \<Rightarrow> int"
  sv_iso :: "int \<Rightarrow> string"
  sv_digest :: "approval_material \<Rightarrow> string"
  sv_hooks :: "(hook_event \<Rightarrow> hook_answer) list option"
  sv_evaluate :: "gate \<Rightarrow> string \<Rightarrow> string \<Rightarrow> risk_level \<Rightarrow> bool \<Rightarrow> audit_log \<Rightarrow> (decision \<times> string) res \<times> audit_log"
  sv_approval :: "(approval_request \<Rightarrow> approval_answer effect) option"
  sv_check :: "nat \<Rightarrow> string option effect"
  sv_prepare :: "op_outcome effect option"
  sv_operation :: "op_outcome effect"
  sv_capture :: "exec_request \<Rightarrow> coordinated \<Rightarrow> evidence_reference option effect"

definition digest_of :: "services \<Rightarrow> world \<Rightarrow> string" where
  "digest_of S w = sv_digest S (material_of (w_request w))"

definition now :: "services \<Rightarrow> int effect" where
  "now S w = (sv_clock S (w_reads w), w\<lparr>w_reads := Suc (w_reads w)\<rparr>)"

definition evaluate :: "services \<Rightarrow> (decision \<times> string) res effect" where
  "evaluate S w = (let r = w_request w in
     case sv_evaluate S (w_gate w) (xr_action r) (xr_target r) (xr_risk r) (xr_target_required r) (w_audit w) of
       (d, l) \<Rightarrow> (d, w\<lparr>w_audit := l\<rparr>))"

section \<open>What the records show\<close>

text \<open>\<open>shlex.join\<close>: a word of safe characters stays, any other is put in single quotes.\<close>

definition shell_safe :: "char \<Rightarrow> bool" where
  "shell_safe c = (ascii_alnum c \<or> c \<in> set ''_@%+=:,./-'')"

definition shell_quote :: "string \<Rightarrow> string" where
  "shell_quote s =
     (if s = [] then quoted []
      else if list_all shell_safe s then s
      else quoted (concat (map (\<lambda>c. if c = CHR 0x27 then [CHR 0x27, CHR 0x22, CHR 0x27, CHR 0x22, CHR 0x27]
                                    else [c]) s)))"

fun command_display :: "command \<Rightarrow> string" where
  "command_display (CommandText s) = s"
| "command_display (CommandArgv ws) = join_with '' '' (map shell_quote ws)"

fun effect_value :: "side_effect \<Rightarrow> string" where
  "effect_value ReadOnly = ''read_only''"
| "effect_value FilesystemWrite = ''filesystem_write''"
| "effect_value NetworkEffect = ''network''"
| "effect_value SessionState = ''session_state''"
| "effect_value UnknownEffect = ''unknown''"

definition path_dump :: "string \<times> string \<Rightarrow> jval" where
  "path_dump p = JDict [(''host'', JStr (fst p)), (''provider'', JStr (snd p))]"

definition executable_dump :: "resolved_executable \<Rightarrow> jval" where
  "executable_dump e = JDict [(''argv_index'', JInt (int (xe_index e))), (''path'', JStr (xe_path e)),
     (''sha256'', JStr (xe_sha256 e))]"

definition resolved_dump :: "resolved_action \<Rightarrow> jdict" where
  "resolved_dump a =
     [(''schema_version'', JStr (ra_schema a)), (''capability'', JStr (ra_capability a)),
      (''provider'', JStr (ra_provider a)), (''tool'', JStr (ra_tool a)),
      (''tool_version'', JStr (ra_tool_version a)), (''target'', JStr (ra_target a)),
      (''argv'', JList (map JStr (ra_argv a))), (''executables'', JList (map executable_dump (ra_executables a))),
      (''cwd'', JStr (ra_cwd a)), (''inputs'', JList (map path_dump (ra_inputs a))),
      (''outputs'', JList (map path_dump (ra_outputs a))),
      (''side_effects'', JList (map (\<lambda>e. JStr (effect_value e)) (ra_effects a))),
      (''timeout_seconds'', JInt (ra_timeout a)), (''idempotency'', JStr (ra_idempotency a)),
      (''evidence_policy'', JStr ''protected_raw''), (''parser_policy'', JStr ''raw_only'')]"

definition telemetry_summary :: "resolved_action option \<Rightarrow> jval" where
  "telemetry_summary action = JDict (case action of None \<Rightarrow> [] | Some a \<Rightarrow>
     [(''schema_version'', JStr (ra_schema a)), (''capability'', JStr (ra_capability a)),
      (''provider'', JStr (ra_provider a)), (''tool'', JStr (ra_tool a)),
      (''tool_version'', JStr (ra_tool_version a)),
      (''executable_count'', JInt (int (length (ra_executables a)))),
      (''executable_verified'', JBool (ra_executables a \<noteq> [])),
      (''target_present'', JBool (ra_target a \<noteq> [])),
      (''side_effects'', JList (map (\<lambda>e. JStr (effect_value e)) (ra_effects a))),
      (''timeout_seconds'', JInt (ra_timeout a)), (''idempotency'', JStr (ra_idempotency a)),
      (''evidence_policy'', JStr ''protected_raw''), (''parser_policy'', JStr ''raw_only''),
      (''input_count'', JInt (int (length (ra_inputs a)))),
      (''output_count'', JInt (int (length (ra_outputs a))))])"

definition identity_dump :: "exec_identity \<Rightarrow> jval" where
  "identity_dump x = JDict
     ([(''tool'', JStr (xi_tool x)), (''tool_version'', JStr (xi_tool_version x)),
       (''executable_path'', JStr (xi_path x)), (''executable_sha256'', JStr (xi_sha256 x))]
      @ map (\<lambda>(k, v). (k, JStr v)) (xi_other x))"

definition reference_dump :: "evidence_reference \<Rightarrow> jdict" where
  "reference_dump e =
     [(''id'', JStr (ev_id e)), (''path'', JStr (ev_path e)), (''sha256'', JStr (ev_sha256 e)),
      (''size_bytes'', JInt (int (ev_size e))), (''mime_type'', JStr (ev_mime e)),
      (''created_at'', JStr (ev_created e))]"

fun status_value :: "exec_status \<Rightarrow> string" where
  "status_value ExSuccess = ''success''"
| "status_value ExDenied = ''denied''"
| "status_value ExBlocked = ''blocked''"
| "status_value ExError = ''error''"
| "status_value ExTimeout = ''timeout''"
| "status_value ExCancelled = ''cancelled''"

fun category_value :: "error_category option \<Rightarrow> string" where
  "category_value None = []"
| "category_value (Some PolicyDenial) = ''policy_denial''"
| "category_value (Some ApprovalRequired) = ''approval_required''"
| "category_value (Some ApprovalRejected) = ''approval_rejected''"
| "category_value (Some ApprovalInvalid) = ''approval_invalid''"
| "category_value (Some ApprovalExpired) = ''approval_expired''"
| "category_value (Some MissingDependency) = ''missing_dependency''"
| "category_value (Some TimeoutCategory) = ''timeout''"
| "category_value (Some CancellationCategory) = ''cancellation''"
| "category_value (Some ExecutionFailure) = ''execution_failure''"
| "category_value (Some TelemetryFailure) = ''telemetry_failure''"
| "category_value (Some UnsupportedAction) = ''unsupported_action''"

section \<open>Telemetry\<close>

text \<open>The logging and the feedback service are both tried; the telemetry holds if both accept.\<close>

definition record_non_audit :: "coordinated \<Rightarrow> bool effect" where
  "record_non_audit res w =
     (w_logging_up w \<and> w_feedback_up w,
      w\<lparr>w_logged := w_logged w @ (if w_logging_up w then [res] else []),
        w_feedback := w_feedback w @ (if w_feedback_up w then [res] else [])\<rparr>)"

definition terminal_event :: "exec_request \<Rightarrow> coordinated \<Rightarrow> bool \<Rightarrow> audit_event" where
  "terminal_event r res executed =
     \<lparr>av_event = (if executed then ''tool_execution'' else ''rejection''), av_tool = xr_action r,
      av_target = safe_text (xr_target r), av_risk = risk_value (xr_risk r), av_approved = executed,
      av_detail = status_value (co_status res),
      av_meta = [(''request_id'', JStr (co_request_id res)), (''approval_digest'', JStr (co_digest res)),
        (''error_category'', JStr (category_value (co_category res))), (''executor'', JStr (xr_executor r)),
        (''execution_identity'', identity_dump (xr_identity r)),
        (''resolved_action'', telemetry_summary (xr_resolved r)),
        (''evidence'', JDict (case co_evidence res of None \<Rightarrow> [] | Some e \<Rightarrow> reference_dump e))]\<rparr>"

definition record_terminal :: "coordinated \<Rightarrow> bool \<Rightarrow> bool \<Rightarrow> bool effect" where
  "record_terminal res audit_event executed w =
     (case (if audit_event then audit_record (terminal_event (w_request w) res executed) (w_audit w)
            else Inr (w_audit w)) of
        Inl _ \<Rightarrow> (False, snd (record_non_audit res w))
      | Inr l \<Rightarrow> record_non_audit res (w\<lparr>w_audit := l\<rparr>))"

definition terminal_result ::
  "services \<Rightarrow> string \<Rightarrow> exec_status \<Rightarrow> bool \<Rightarrow> error_category option \<Rightarrow> string \<Rightarrow> op_value option
     \<Rightarrow> world \<Rightarrow> coordinated" where
  "terminal_result S digest status success category error v w =
     \<lparr>co_request_id = sv_id S, co_action = xr_action (w_request w), co_status = status, co_success = success,
      co_value = v, co_category = category, co_error = error, co_digest = digest, co_evidence = None\<rparr>"

definition telemetry_error :: "coordinated \<Rightarrow> coordinated" where
  "telemetry_error res = res\<lparr>co_status := ExError, co_success := False, co_category := Some TelemetryFailure,
     co_error := ''mandatory execution telemetry could not be recorded''\<rparr>"

definition finish_without_execution ::
  "services \<Rightarrow> string \<Rightarrow> exec_status \<Rightarrow> error_category \<Rightarrow> string \<Rightarrow> bool \<Rightarrow> coordinated effect" where
  "finish_without_execution S digest status category error audit_event w =
     (let res = terminal_result S digest status False (Some category) (safe_text error) None w in
      case record_terminal res audit_event False w of
        (ok, w') \<Rightarrow> (if ok then res else telemetry_error res, w'))"

definition telemetry_unavailable :: "services \<Rightarrow> string \<Rightarrow> coordinated effect" where
  "telemetry_unavailable S digest w =
     (let res = terminal_result S digest ExError False (Some TelemetryFailure)
                  ''mandatory audit service is unavailable; execution was not started'' None w in
      (res, snd (record_non_audit res w)))"

definition authorization_event :: "services \<Rightarrow> string \<Rightarrow> exec_request \<Rightarrow> audit_event" where
  "authorization_event S digest r =
     \<lparr>av_event = ''approval'', av_tool = xr_action r, av_target = safe_text (xr_target r),
      av_risk = risk_value (xr_risk r), av_approved = True, av_detail = ''execution authorized'',
      av_meta = [(''request_id'', JStr (sv_id S)), (''approval_digest'', JStr digest),
        (''executor'', JStr (xr_executor r)), (''required_privileges'', JList (map JStr (xr_privileges r))),
        (''credential_refs'', JList (map JStr (xr_credentials r))),
        (''execution_identity'', identity_dump (xr_identity r)),
        (''resolved_action'', telemetry_summary (xr_resolved r)),
        (''approval_expires_at'', JStr (case xr_expires r of None \<Rightarrow> [] | Some t \<Rightarrow> sv_iso S t))]\<rparr>"

definition record_authorization :: "services \<Rightarrow> string \<Rightarrow> bool effect" where
  "record_authorization S digest w =
     (case audit_record (authorization_event S digest (w_request w)) (w_audit w) of
        Inl _ \<Rightarrow> (False, w) | Inr l \<Rightarrow> (True, w\<lparr>w_audit := l\<rparr>))"

section \<open>The phases of an execution\<close>

definition with_expiry :: "services \<Rightarrow> world \<Rightarrow> world" where
  "with_expiry S w =
     (if xr_risk (w_request w) \<noteq> Read \<and> xr_expires (w_request w) = None then
        (case now S w of (t, w1) \<Rightarrow>
           w1\<lparr>w_request := (w_request w1)\<lparr>xr_expires := Some (t + xr_ttl (w_request w1))\<rparr>\<rparr>)
      else w)"

text \<open>The checks before the gate: a status, a category and an error text.\<close>

definition preflight :: "services \<Rightarrow> exec_request \<Rightarrow> (exec_status \<times> error_category \<times> string) option" where
  "preflight S r =
     (if xr_blocked r \<noteq> [] then Some (ExBlocked, UnsupportedAction, xr_blocked r)
      else if \<not> xr_dependency_ok r then Some (ExBlocked, MissingDependency,
        if xr_guidance r \<noteq> [] then xr_guidance r
        else ''Required dependency missing: '' @ (if xr_dependency r \<noteq> [] then xr_dependency r else xr_action r))
      else if resolved_action_error r \<noteq> [] then Some (ExBlocked, UnsupportedAction, resolved_action_error r)
      else (case sv_hooks S of None \<Rightarrow> None | Some hooks \<Rightarrow>
        (case run_pre hooks \<lparr>he_phase = ''pre'', he_capability = xr_action r, he_risk = xr_risk r,
                             he_target = xr_target r, he_metadata = xr_metadata r\<rparr> of
           (allow, why) \<Rightarrow> if allow then None else Some (ExBlocked, UnsupportedAction, why))))"

definition approval_request_of :: "services \<Rightarrow> string \<Rightarrow> int \<Rightarrow> exec_request \<Rightarrow> approval_request" where
  "approval_request_of S digest expires r =
     \<lparr>aq_request_id = sv_id S, aq_action = xr_action r, aq_target = redact_text (xr_target r),
      aq_risk = xr_risk r, aq_params = map (\<lambda>(k, v). (k, redact_sensitive k v)) (xr_params r),
      aq_command = redact_text (command_display (xr_command r)), aq_executor = xr_executor r,
      aq_privileges = xr_privileges r, aq_credentials = xr_credentials r, aq_identity = xr_identity r,
      aq_resolved = (case xr_resolved r of None \<Rightarrow> []
        | Some a \<Rightarrow> map (\<lambda>(k, v). (k, redact_sensitive k v)) (resolved_dump a)),
      aq_expires = expires, aq_digest = digest\<rparr>"

text \<open>A bare \<open>True\<close> becomes a grant of this digest until the request expires.\<close>

definition granted :: "services \<Rightarrow> string \<Rightarrow> int \<Rightarrow> approval_answer \<Rightarrow> approval_grant option effect" where
  "granted S digest expires ans w = (case ans of
     AnswerTrue \<Rightarrow> (case now S w of (t, w1) \<Rightarrow>
       (Some \<lparr>gr_digest = digest, gr_approved_at = t, gr_expires = expires\<rparr>, w1))
   | AnswerGrant g \<Rightarrow> (if gr_digest g = digest then Some g else None, w)
   | _ \<Rightarrow> (None, w))"

text \<open>The approval: a refusal, or the instant until which it holds.\<close>

definition approve :: "services \<Rightarrow> string \<Rightarrow> (error_category \<times> string + int) effect" where
  "approve S digest w = (case sv_approval S of
     None \<Rightarrow> (Inl (ApprovalRequired, ''human approval is required''), w)
   | Some ask \<Rightarrow> (case xr_expires (w_request w) of
       None \<Rightarrow> (Inl (ApprovalExpired, ''approval request expired before execution''), w)
     | Some expires \<Rightarrow> (case now S w of (t0, w0) \<Rightarrow>
         if expires \<le> t0 then (Inl (ApprovalExpired, ''approval request expired before execution''), w0)
         else (case ask (approval_request_of S digest expires (w_request w0)) w0 of (ans, w1) \<Rightarrow>
           if ans = AnswerFalse then (Inl (ApprovalRejected, ''human approval was rejected''), w1)
           else (case granted S digest expires ans w1 of
             (None, w2) \<Rightarrow>
               (Inl (ApprovalInvalid, ''approval does not match the material execution request''), w2)
           | (Some g, w2) \<Rightarrow> (case now S w2 of (t, w3) \<Rightarrow>
               if t < gr_approved_at g \<or> min (gr_expires g) expires \<le> t then
                 (Inl (ApprovalExpired, ''approval expired before execution''), w3)
               else if digest_of S w3 \<noteq> digest then
                 (Inl (ApprovalInvalid, ''material execution request changed after approval''), w3)
               else (Inr (min (gr_expires g) expires), w3)))))))"

definition material_changed :: "services \<Rightarrow> string \<Rightarrow> world \<Rightarrow> bool" where
  "material_changed S digest w = (digest_of S w \<noteq> digest \<or> resolved_action_error (w_request w) \<noteq> [])"

definition pre_check :: "services \<Rightarrow> string effect" where
  "pre_check S w = (case w_check w of
     None \<Rightarrow> ([], w)
   | Some n \<Rightarrow> (case sv_check S n w of
       (None, w1) \<Rightarrow> (''pre-execution validation unavailable'', w1)
     | (Some why, w1) \<Rightarrow> (why, w1)))"

text \<open>The revalidation after a preparation that asks for the operation: \<open>None\<close> lets it go on.\<close>

definition revalidate ::
  "services \<Rightarrow> string \<Rightarrow> decision \<Rightarrow> nat option \<Rightarrow> permission_mode \<Rightarrow> coordinated option effect" where
  "revalidate S digest dec check mode w =
     (let blocked = (\<lambda>why w. case finish_without_execution S digest ExBlocked UnsupportedAction (safe_text why) True w of
            (res, w') \<Rightarrow> (Some res, w')) in
      if material_changed S digest w then blocked ''material resolved action changed during preparation'' w
      else if w_check w \<noteq> check \<or> gg_mode (w_gate w) \<noteq> mode then
        blocked ''execution restrictions changed during preparation'' w
      else (case pre_check S w of (why, w1) \<Rightarrow>
        if why \<noteq> [] then blocked why w1
        else (case evaluate S w1 of
            (Inl e, w2) \<Rightarrow> (case telemetry_unavailable S digest w2 of (res, w3) \<Rightarrow> (Some res, w3))
          | (Inr (d, reason), w2) \<Rightarrow>
              if d = GateDeny then
                (case finish_without_execution S digest ExDenied PolicyDenial reason False w2 of
                   (res, w3) \<Rightarrow> (Some res, w3))
              else if d = GateNeedsApproval \<and> dec \<noteq> GateNeedsApproval then
                blocked ''execution now requires renewed approval'' w2
              else (None, w2))))"

text \<open>A launch of the preparation or of the operation, with the state it starts in.\<close>

datatype launched = LaunchPrepare world | LaunchOperation world

definition start_operation ::
  "services \<Rightarrow> string \<Rightarrow> int option \<Rightarrow> world \<Rightarrow> ((coordinated + op_outcome) \<times> launched list) \<times> world" where
  "start_operation S digest expiry w =
     (case (case expiry of None \<Rightarrow> (False, w) | Some e \<Rightarrow> (case now S w of (t, w') \<Rightarrow> (e \<le> t, w'))) of
        (True, w1) \<Rightarrow>
          (case finish_without_execution S digest ExDenied ApprovalExpired ''approval expired before launch'' True w1 of
             (res, w2) \<Rightarrow> ((Inl res, []), w2))
      | (False, w1) \<Rightarrow> (case sv_operation S w1 of (out, w2) \<Rightarrow> ((Inr out, [LaunchOperation w1]), w2)))"

definition launch ::
  "services \<Rightarrow> string \<Rightarrow> decision \<Rightarrow> int option \<Rightarrow> world \<Rightarrow> ((coordinated + op_outcome) \<times> launched list) \<times> world" where
  "launch S digest dec expiry w = (case sv_prepare S of
     None \<Rightarrow> start_operation S digest expiry w
   | Some prepare \<Rightarrow> (case prepare w of (out, w1) \<Rightarrow>
       if out \<noteq> OpValue None then ((Inr out, [LaunchPrepare w]), w1)
       else (case revalidate S digest dec (w_check w) (gg_mode (w_gate w)) w1 of
           (Some res, w2) \<Rightarrow> ((Inl res, [LaunchPrepare w]), w2)
         | (None, w2) \<Rightarrow> (case start_operation S digest expiry w2 of
             ((x, ls), w3) \<Rightarrow> ((x, LaunchPrepare w # ls), w3)))))"

definition outcome_result :: "services \<Rightarrow> string \<Rightarrow> op_outcome \<Rightarrow> world \<Rightarrow> coordinated" where
  "outcome_result S digest out w = (case out of
     OpCancelled \<Rightarrow> terminal_result S digest ExCancelled False (Some CancellationCategory) ''execution cancelled'' None w
   | OpTimeout \<Rightarrow> terminal_result S digest ExTimeout False (Some TimeoutCategory) ''execution timed out'' None w
   | OpError text \<Rightarrow> terminal_result S digest ExError False (Some ExecutionFailure) (safe_text text) None w
   | OpValue None \<Rightarrow> terminal_result S digest ExSuccess True None [] None w
   | OpValue (Some v) \<Rightarrow>
       if ov_success v then terminal_result S digest ExSuccess True None [] (Some v) w
       else (let why = safe_text (if ov_error v \<noteq> [] then ov_error v else ov_stderr v);
                 text = (if why \<noteq> [] then why else ''execution failed'') in
         if ov_timed_out v then terminal_result S digest ExTimeout False (Some TimeoutCategory) text (Some v) w
         else terminal_result S digest ExError False (Some ExecutionFailure) text (Some v) w))"

definition capture_evidence :: "services \<Rightarrow> coordinated \<Rightarrow> coordinated effect" where
  "capture_evidence S res w =
     (if co_value res = None then (res, w)
      else (case sv_capture S (w_request w) res w of
          (Some e, w') \<Rightarrow> (res\<lparr>co_evidence := Some e\<rparr>, w')
        | (None, w') \<Rightarrow> (res\<lparr>co_status := ExError, co_success := False, co_value := None,
            co_category := Some TelemetryFailure,
            co_error := ''protected raw evidence could not be persisted''\<rparr>, w')))"

definition settle :: "services \<Rightarrow> coordinated \<Rightarrow> coordinated effect" where
  "settle S res w =
     (case capture_evidence S res w of (res1, w1) \<Rightarrow>
       (case record_terminal res1 True True w1 of
          (ok, w2) \<Rightarrow> (if ok then res1 else telemetry_error res1, w2)))"

text \<open>\<open>CancelRaised\<close> is the exception \<open>CoordinatedCancellation\<close> with its result and provider.\<close>

datatype execution = Returned coordinated | CancelRaised coordinated string

text \<open>The part after the authorisation, within the activated execution context.\<close>

definition run_authorized ::
  "services \<Rightarrow> string \<Rightarrow> decision \<Rightarrow> int option \<Rightarrow> world \<Rightarrow> (execution \<times> launched list) \<times> world" where
  "run_authorized S digest dec expiry w =
     (let r = w_request w in
      case launch S digest dec expiry (w\<lparr>w_context := Some (xr_action r, xr_executor r, xr_target r)\<rparr>) of
        ((Inl res, ls), w1) \<Rightarrow> ((Returned res, ls), w1\<lparr>w_context := w_context w\<rparr>)
      | ((Inr out, ls), w1) \<Rightarrow>
          (let res = outcome_result S digest out w1 in
           if out = OpCancelled then
             (case record_terminal res True True w1 of (_, w2) \<Rightarrow>
               ((CancelRaised res (xr_executor (w_request w2)), ls), w2\<lparr>w_context := w_context w\<rparr>))
           else (case settle S res (w1\<lparr>w_context := w_context w\<rparr>) of
               (res', w2) \<Rightarrow> ((Returned res', ls), w2))))"

definition authorize ::
  "services \<Rightarrow> string \<Rightarrow> decision \<Rightarrow> int option \<Rightarrow> world \<Rightarrow> (execution \<times> launched list) \<times> world" where
  "authorize S digest dec expiry w =
     (let stop = (\<lambda>(res, w'). ((Returned res, []), w')) in
      if material_changed S digest w then stop (finish_without_execution S digest ExBlocked UnsupportedAction
        ''material resolved action changed before execution'' True w)
      else (case pre_check S w of (why, w1) \<Rightarrow>
        if why \<noteq> [] then stop (finish_without_execution S digest ExBlocked UnsupportedAction (safe_text why) True w1)
        else (case record_authorization S digest w1 of
            (False, w2) \<Rightarrow> stop (telemetry_unavailable S digest w2)
          | (True, w2) \<Rightarrow> run_authorized S digest dec expiry w2)))"

definition execute :: "services \<Rightarrow> world \<Rightarrow> (execution \<times> launched list) \<times> world" where
  "execute S w0 =
     (let w = with_expiry S w0; digest = digest_of S w;
          stop = (\<lambda>(res, w'). ((Returned res, []), w')) in
      case preflight S (w_request w) of
        Some (status, category, error) \<Rightarrow> stop (finish_without_execution S digest status category error True w)
      | None \<Rightarrow> (case evaluate S w of
          (Inl e, w1) \<Rightarrow> stop (telemetry_unavailable S digest w1)
        | (Inr (GateDeny, reason), w1) \<Rightarrow>
            stop (finish_without_execution S digest ExDenied PolicyDenial reason False w1)
        | (Inr (GateAllow, reason), w1) \<Rightarrow>
            authorize S digest GateAllow (xr_expires (w_request w1)) w1
        | (Inr (GateNeedsApproval, reason), w1) \<Rightarrow> (case approve S digest w1 of
            (Inl (category, error), w2) \<Rightarrow>
              stop (finish_without_execution S digest ExDenied category error True w2)
          | (Inr expiry, w2) \<Rightarrow> authorize S digest GateNeedsApproval (Some expiry) w2)))"

section \<open>The guard of external input and output\<close>

definition provider_matches :: "(string \<times> string \<times> string) option \<Rightarrow> string \<Rightarrow> bool" where
  "provider_matches context provider = (case context of
     None \<Rightarrow> False
   | Some (action, executor, target) \<Rightarrow>
       executor \<noteq> [] \<and> executor \<noteq> ''internal''
       \<and> lower (hd (split_once CHR ''/'' executor)) = lower (hd (split_once CHR ''/'' provider)))"

definition require_governed_external_io ::
  "(string \<times> string \<times> string) option \<Rightarrow> string \<Rightarrow> string \<Rightarrow> string \<Rightarrow> unit res" where
  "require_governed_external_io context action provider target = (case context of
     None \<Rightarrow> Inl (RuntimeError ''Direct external I/O is disabled'')
   | Some (authorized, executor, authorized_target) \<Rightarrow>
       res_bind (ensure (provider_matches context provider) (RuntimeError ''Direct external I/O is disabled'')) (\<lambda>_.
       res_bind (ensure (action = [] \<or> authorized = action)
         (RuntimeError ''External I/O action does not match the coordinator-authorized action'')) (\<lambda>_.
         ensure (strip target = [] \<or> strip authorized_target = strip target)
           (RuntimeError ''External I/O target does not match the coordinator-authorized target''))))"

section \<open>What is launched\<close>

fun launched_world :: "launched \<Rightarrow> world" where
  "launched_world (LaunchPrepare w) = w"
| "launched_world (LaunchOperation w) = w"

fun is_operation :: "launched \<Rightarrow> bool" where
  "is_operation (LaunchOperation w) = True"
| "is_operation (LaunchPrepare w) = False"

text \<open>The installed check reads the request but does not change it.\<close>

definition check_keeps_request :: "services \<Rightarrow> bool" where
  "check_keeps_request S \<longleftrightarrow> (\<forall>n w. w_request (snd (sv_check S n w)) = w_request w)"

lemma now_request [simp]: "w_request (snd (now S w)) = w_request w"
  by (simp add: now_def)

lemma now_Pair: "now S w = (t, w') \<Longrightarrow> w' = w\<lparr>w_reads := Suc (w_reads w)\<rparr>"
  by (auto simp: now_def)

lemma evaluate_Pair:
  "evaluate S w = (d, w') \<Longrightarrow> \<exists>l. w' = w\<lparr>w_audit := l\<rparr>
     \<and> sv_evaluate S (w_gate w) (xr_action (w_request w)) (xr_target (w_request w)) (xr_risk (w_request w))
         (xr_target_required (w_request w)) (w_audit w) = (d, l)"
  by (auto simp: evaluate_def Let_def split: prod.splits)

lemma pre_check_request:
  "check_keeps_request S \<Longrightarrow> pre_check S w = (why, w') \<Longrightarrow> w_request w' = w_request w"
  unfolding check_keeps_request_def pre_check_def
  by (auto split: option.splits prod.splits) (metis snd_conv)+

lemma digest_of_cong: "w_request w' = w_request w \<Longrightarrow> digest_of S w' = digest_of S w"
  by (simp add: digest_of_def)

lemma material_changed_cong:
  "w_request w' = w_request w \<Longrightarrow> material_changed S digest w' = material_changed S digest w"
  by (simp add: material_changed_def digest_of_def)

lemma start_operation_Pair:
  assumes "start_operation S digest expiry w = ((x, ls), w')"
  shows "(\<exists>res. x = Inl res \<and> ls = []) \<or> (\<exists>n. ls = [LaunchOperation (w\<lparr>w_reads := n\<rparr>)]
           \<and> sv_operation S (w\<lparr>w_reads := n\<rparr>) = (projr x, w') \<and> x = Inr (projr x))"
proof -
  obtain late v where l: "(case expiry of None \<Rightarrow> (False, w)
      | Some e \<Rightarrow> (case now S w of (t, w') \<Rightarrow> (e \<le> t, w'))) = (late, v)" by force
  then have "\<exists>n. v = w\<lparr>w_reads := n\<rparr>"
    by (auto simp: now_def split: option.splits intro: exI [of _ "w_reads w"])
  with l assms show ?thesis
    by (cases late) (auto simp: start_operation_def split: prod.splits)
qed

lemma revalidate_None:
  assumes "check_keeps_request S" "revalidate S digest dec check mode w = (None, w')"
  shows "w_request w' = w_request w \<and> \<not> material_changed S digest w"
proof -
  obtain why w1 where p: "pre_check S w = (why, w1)" by force
  obtain d w2 where e: "evaluate S w1 = (d, w2)" by force
  from assms p e have "w' = w2 \<and> \<not> material_changed S digest w"
    by (auto simp: revalidate_def Let_def split: prod.splits sum.splits if_split_asm)
  with pre_check_request [OF assms(1) p] evaluate_Pair [OF e] show ?thesis by auto
qed

text \<open>Every launch is of unchanged material; the first one starts in the state given.\<close>

lemma launch_launched:
  assumes "launch S digest dec expiry w = ((x, ls), w')" "check_keeps_request S" "\<not> material_changed S digest w"
  shows "\<forall>l \<in> set ls. \<not> material_changed S digest (launched_world l)"
    and "ls \<noteq> [] \<Longrightarrow> \<exists>n. launched_world (hd ls) = w\<lparr>w_reads := n\<rparr>"
    and "length (filter is_operation ls) \<le> 1 \<and> length ls \<le> 2 \<and> (x = Inl res \<longrightarrow> filter is_operation ls = [])"
proof -
  have "(\<forall>l \<in> set ls. \<not> material_changed S digest (launched_world l))
    \<and> (ls \<noteq> [] \<longrightarrow> (\<exists>n. launched_world (hd ls) = w\<lparr>w_reads := n\<rparr>))
    \<and> length (filter is_operation ls) \<le> 1 \<and> length ls \<le> 2 \<and> (x = Inl res \<longrightarrow> filter is_operation ls = [])"
  proof (cases "sv_prepare S")
    case None
    with assms(1) have s: "start_operation S digest expiry w = ((x, ls), w')" by (simp add: launch_def)
    from start_operation_Pair [OF s] assms(3) show ?thesis
      by (elim disjE exE conjE) (auto simp: material_changed_def digest_of_def)
  next
    case (Some prepare)
    obtain out w1 where p: "prepare w = (out, w1)" by force
    have self: "\<exists>n. w = w\<lparr>w_reads := n\<rparr>" by (rule exI [of _ "w_reads w"]) simp
    show ?thesis
    proof (cases "out = OpValue None")
      case False
      with assms(1,3) Some p self show ?thesis by (auto simp: launch_def)
    next
      case True
      obtain r w2 where v: "revalidate S digest dec (w_check w) (gg_mode (w_gate w)) w1 = (r, w2)" by force
      show ?thesis
      proof (cases r)
        case (Some res')
        with assms(1,3) \<open>sv_prepare S = Some prepare\<close> p True v self show ?thesis by (auto simp: launch_def)
      next
        case None
        with revalidate_None [OF assms(2)] v have k: "w_request w2 = w_request w1" "\<not> material_changed S digest w1"
          by auto
        obtain y ms w3 where s: "start_operation S digest expiry w2 = ((y, ms), w3)" by (metis surj_pair)
        with assms(1) Some p True v None have x: "x = y" "ls = LaunchPrepare w # ms" by (auto simp: launch_def)
        from start_operation_Pair [OF s] show ?thesis unfolding x
          using assms(3) k self by (elim disjE exE conjE) (auto simp: material_changed_def digest_of_def)
      qed
    qed
  qed
  then show "\<forall>l \<in> set ls. \<not> material_changed S digest (launched_world l)"
    and "ls \<noteq> [] \<Longrightarrow> \<exists>n. launched_world (hd ls) = w\<lparr>w_reads := n\<rparr>"
    and "length (filter is_operation ls) \<le> 1 \<and> length ls \<le> 2 \<and> (x = Inl res \<longrightarrow> filter is_operation ls = [])"
    by blast+
qed

text \<open>The first launch happens in the activated context, right after the authorisation was audited.\<close>

definition authorized_launch :: "services \<Rightarrow> string \<Rightarrow> world \<Rightarrow> bool" where
  "authorized_launch S digest v \<longleftrightarrow>
     w_context v = Some (xr_action (w_request v), xr_executor (w_request v), xr_target (w_request v))
     \<and> (\<exists>old. al_events (w_audit v) = old @ [redact_event (authorization_event S digest (w_request v))])"

lemma run_authorized_launches:
  "run_authorized S digest dec expiry w = ((x, ls), w') \<Longrightarrow>
     \<exists>y w1. launch S digest dec expiry
       (w\<lparr>w_context := Some (xr_action (w_request w), xr_executor (w_request w), xr_target (w_request w))\<rparr>)
         = ((y, ls), w1)"
  by (auto simp: run_authorized_def Let_def split: prod.splits sum.splits if_split_asm)

lemma record_authorization_True:
  "record_authorization S digest w = (True, w') \<Longrightarrow>
     \<exists>l. w' = w\<lparr>w_audit := l\<rparr> \<and> al_events l = al_events (w_audit w) @ [redact_event (authorization_event S digest (w_request w))]"
  by (auto simp: record_authorization_def audit_record_def split: sum.splits if_split_asm)

lemma authorize_launches:
  assumes "authorize S digest dec expiry w = ((x, ls), w')" "check_keeps_request S" "ls \<noteq> []"
  shows "(\<forall>l \<in> set ls. \<not> material_changed S digest (launched_world l))
    \<and> authorized_launch S digest (launched_world (hd ls))
    \<and> w_request (launched_world (hd ls)) = w_request w
    \<and> length (filter is_operation ls) \<le> 1"
proof -
  obtain why w1 where p: "pre_check S w = (why, w1)" by force
  obtain ok w2 where a: "record_authorization S digest w1 = (ok, w2)" by force
  from assms(1,3) p a have c: "\<not> material_changed S digest w" "why = []" ok
    and r: "run_authorized S digest dec expiry w2 = ((x, ls), w')"
    by (auto simp: authorize_def Let_def split: prod.splits if_split_asm bool.splits)
  have q: "w_request w1 = w_request w" by (rule pre_check_request [OF assms(2) p])
  from record_authorization_True a c(3) obtain l where l: "w2 = w1\<lparr>w_audit := l\<rparr>"
    "al_events l = al_events (w_audit w1) @ [redact_event (authorization_event S digest (w_request w1))]" by metis
  let ?v = "w2\<lparr>w_context := Some (xr_action (w_request w2), xr_executor (w_request w2), xr_target (w_request w2))\<rparr>"
  from run_authorized_launches [OF r] obtain y w3 where n: "launch S digest dec expiry ?v = ((y, ls), w3)" by blast
  have m: "\<not> material_changed S digest ?v"
    using c(1) material_changed_cong [of ?v w S digest] l(1) q by simp
  note L = launch_launched [OF n assms(2) m]
  from L(2) [OF assms(3)] obtain k where k: "launched_world (hd ls) = ?v\<lparr>w_reads := k\<rparr>" by blast
  show ?thesis using L(1,3) k l q by (auto simp: authorized_launch_def)
qed

text \<open>The approval of a digest: an answer of the callback asked for exactly this digest.\<close>

definition approved :: "services \<Rightarrow> world \<Rightarrow> bool" where
  "approved S w \<longleftrightarrow> (\<exists>ask expires u. sv_approval S = Some ask \<and> xr_expires (w_request w) = Some expires
     \<and> (case fst (ask (approval_request_of S (digest_of S w) expires (w_request w)) u) of
          AnswerTrue \<Rightarrow> True | AnswerGrant g \<Rightarrow> gr_digest g = digest_of S w | _ \<Rightarrow> False))"

lemma approved_cong: "w_request w' = w_request w \<Longrightarrow> approved S w' = approved S w"
  by (simp only: approved_def digest_of_def)

lemma granted_Some:
  "granted S digest expires ans w = (Some g, w') \<Longrightarrow>
     w_request w' = w_request w \<and> (case ans of AnswerTrue \<Rightarrow> True | AnswerGrant g \<Rightarrow> gr_digest g = digest | _ \<Rightarrow> False)"
  by (cases ans) (auto simp: granted_def now_def split: if_split_asm)

lemma approve_Inr:
  assumes "approve S (digest_of S w) w = (Inr expiry, w')"
  shows "approved S w \<and> digest_of S w' = digest_of S w"
proof -
  from assms obtain ask where ask: "sv_approval S = Some ask" by (auto simp: approve_def split: option.splits)
  with assms obtain expires where e: "xr_expires (w_request w) = Some expires"
    by (auto simp: approve_def split: option.splits)
  obtain t0 w0 where n0: "now S w = (t0, w0)" by force
  have w0: "w_request w0 = w_request w" using now_Pair [OF n0] by simp
  obtain ans w1 where a: "ask (approval_request_of S (digest_of S w) expires (w_request w)) w0 = (ans, w1)" by force
  obtain g w2 where g: "granted S (digest_of S w) expires ans w1 = (g, w2)" by force
  obtain t w3 where n: "now S w2 = (t, w3)" by force
  from assms ask e n0 w0 a g n have "g \<noteq> None" "w' = w3" "digest_of S w3 = digest_of S w"
    by (auto simp: approve_def split: if_split_asm option.splits)
  with g granted_Some a ask e show ?thesis unfolding approved_def by (metis fst_conv option.exhaust)
qed

text \<open>What has held when anything was launched.\<close>

definition gated :: "services \<Rightarrow> world \<Rightarrow> bool" where
  "gated S w \<longleftrightarrow> preflight S (w_request w) = None
     \<and> (\<exists>dec reason l. sv_evaluate S (w_gate w) (xr_action (w_request w)) (xr_target (w_request w))
            (xr_risk (w_request w)) (xr_target_required (w_request w)) (w_audit w) = (Inr (dec, reason), l)
          \<and> dec \<noteq> GateDeny \<and> (dec = GateNeedsApproval \<longrightarrow> approved S w))"

lemma execute_launches:
  assumes "execute S w = ((x, ls), w')" "check_keeps_request S" "ls \<noteq> []"
  shows "gated S (with_expiry S w)
    \<and> (\<forall>l \<in> set ls. \<not> material_changed S (digest_of S (with_expiry S w)) (launched_world l))
    \<and> authorized_launch S (digest_of S (with_expiry S w)) (launched_world (hd ls))
    \<and> length (filter is_operation ls) \<le> 1"
proof -
  let ?w = "with_expiry S w"
  obtain d w1 where e: "evaluate S ?w = (d, w1)" by force
  from assms(1,3) have p: "preflight S (w_request ?w) = None"
    by (auto simp: execute_def Let_def split: option.splits prod.splits)
  with assms(1,3) e obtain dec reason where d: "d = Inr (dec, reason)" "dec \<noteq> GateDeny"
    by (auto simp: execute_def Let_def split: sum.splits prod.splits decision.splits)
  from evaluate_Pair [OF e] obtain l where l: "w1 = ?w\<lparr>w_audit := l\<rparr>"
    "sv_evaluate S (w_gate ?w) (xr_action (w_request ?w)) (xr_target (w_request ?w)) (xr_risk (w_request ?w))
       (xr_target_required (w_request ?w)) (w_audit ?w) = (d, l)" by blast
  show ?thesis
  proof (cases dec)
    case GateAllow
    with assms(1) p e d have "authorize S (digest_of S ?w) GateAllow (xr_expires (w_request w1)) w1 = ((x, ls), w')"
      by (simp add: execute_def Let_def)
    from authorize_launches [OF this assms(2,3)] show ?thesis
      using p l d GateAllow by (auto simp: gated_def)
  next
    case GateNeedsApproval
    obtain a w2 where a: "approve S (digest_of S ?w) w1 = (a, w2)" by force
    with assms(1,3) p e d GateNeedsApproval obtain expiry where x: "a = Inr expiry"
      "authorize S (digest_of S ?w) GateNeedsApproval (Some expiry) w2 = ((x, ls), w')"
      by (cases a) (auto simp: execute_def Let_def split: prod.splits)
    have dw: "digest_of S w1 = digest_of S ?w" using l by (simp add: digest_of_def)
    with a x have "approve S (digest_of S w1) w1 = (Inr expiry, w2)" by simp
    then have "approved S w1" using approve_Inr by blast
    then have "approved S ?w" using l approved_cong [of w1 ?w S] by simp
    with authorize_launches [OF x(2) assms(2,3)] show ?thesis
      using p l d by (auto simp: gated_def)
  next
    case GateDeny
    with d show ?thesis by simp
  qed
qed

lemma not_material_changed: "\<not> material_changed S digest w \<longleftrightarrow> digest_of S w = digest \<and> resolved_action_error (w_request w) = []"
  by (auto simp: material_changed_def)

text \<open>No operation starts at or after the instant its approval or its request expires.\<close>

lemma start_operation_time:
  "start_operation S digest (Some e) w = ((x, ls), w') \<Longrightarrow> LaunchOperation v \<in> set ls \<Longrightarrow> sv_clock S (w_reads v - 1) < e"
  by (auto simp: start_operation_def now_def split: prod.splits if_split_asm bool.splits)

lemma launch_time:
  assumes "launch S digest dec (Some e) w = ((x, ls), w')" "LaunchOperation v \<in> set ls"
  shows "sv_clock S (w_reads v - 1) < e"
  using assms start_operation_time unfolding launch_def
  by (auto split: option.splits prod.splits if_split_asm)

lemma authorize_time:
  assumes "authorize S digest dec (Some e) w = ((x, ls), w')" "LaunchOperation v \<in> set ls"
  shows "sv_clock S (w_reads v - 1) < e"
proof -
  obtain why w1 where p: "pre_check S w = (why, w1)" by force
  obtain ok w2 where a: "record_authorization S digest w1 = (ok, w2)" by force
  from assms p a have "run_authorized S digest dec (Some e) w2 = ((x, ls), w')"
    by (auto simp: authorize_def Let_def split: prod.splits if_split_asm bool.splits)
  from run_authorized_launches [OF this] launch_time assms(2) show ?thesis by blast
qed

lemma approve_expiry:
  "approve S digest w = (Inr expiry, w') \<Longrightarrow> \<exists>e. xr_expires (w_request w) = Some e \<and> expiry \<le> e"
  by (auto simp: approve_def split: option.splits prod.splits if_split_asm)

lemma execute_time:
  assumes "execute S w = ((x, ls), w')" "LaunchOperation v \<in> set ls"
    "xr_expires (w_request (with_expiry S w)) = Some e"
  shows "sv_clock S (w_reads v - 1) < e"
proof -
  let ?w = "with_expiry S w"
  obtain d w1 where e: "evaluate S ?w = (d, w1)" by force
  from evaluate_Pair [OF e] have r: "w_request w1 = w_request ?w" by auto
  from assms(1,2) have p: "preflight S (w_request ?w) = None"
    by (auto simp: execute_def Let_def split: option.splits prod.splits)
  with assms(1,2) e obtain dec reason where d: "d = Inr (dec, reason)" "dec \<noteq> GateDeny"
    by (auto simp: execute_def Let_def split: sum.splits prod.splits decision.splits)
  show ?thesis
  proof (cases dec)
    case GateAllow
    with assms(1,3) p e d r have "authorize S (digest_of S ?w) GateAllow (Some e) w1 = ((x, ls), w')"
      by (simp add: execute_def Let_def)
    from authorize_time [OF this assms(2)] show ?thesis .
  next
    case GateNeedsApproval
    obtain a w2 where a: "approve S (digest_of S ?w) w1 = (a, w2)" by force
    with assms(1,2) p e d GateNeedsApproval obtain expiry where y: "a = Inr expiry"
      "authorize S (digest_of S ?w) GateNeedsApproval (Some expiry) w2 = ((x, ls), w')"
      by (cases a) (auto simp: execute_def Let_def split: prod.splits)
    from approve_expiry a y(1) r assms(3) have "expiry \<le> e" by force
    with authorize_time [OF y(2) assms(2)] show ?thesis by simp
  next
    case GateDeny
    with d show ?thesis by simp
  qed
qed

section \<open>The coordinator over a gate\<close>

text \<open>Services whose evaluation is a gate that keeps the contract.\<close>

locale governed_services = gate_contract eval admits mode override
  for eval :: "gate \<Rightarrow> string \<Rightarrow> string \<Rightarrow> risk_level \<Rightarrow> bool \<Rightarrow> audit_log \<Rightarrow> (decision \<times> string) res \<times> audit_log"
    and admits mode override +
  fixes S :: services
  assumes evaluates: "sv_evaluate S = eval"
begin

lemma gated_admitted:
  assumes "gated S w"
  shows "mode (w_gate w) \<noteq> PlanMode
    \<and> (xr_target (w_request w) \<noteq> [] \<longrightarrow> admits (w_gate w) (xr_target (w_request w)))
    \<and> (xr_target_required (w_request w) \<longrightarrow> strip (xr_target (w_request w)) \<noteq> [])
    \<and> (xr_risk (w_request w) = Read \<or> xr_risk (w_request w) = Write \<and> mode (w_gate w) = AutoMode \<or> approved S w)
    \<and> (xr_risk (w_request w) = Destructive \<longrightarrow> override (w_gate w) \<and> approved S w)"
proof -
  from assms obtain dec reason l where e: "eval (w_gate w) (xr_action (w_request w)) (xr_target (w_request w))
      (xr_risk (w_request w)) (xr_target_required (w_request w)) (w_audit w) = (Inr (dec, reason), l)"
    and d: "dec \<noteq> GateDeny" "dec = GateNeedsApproval \<longrightarrow> approved S w"
    unfolding gated_def evaluates by blast
  from d have "dec = GateAllow \<or> dec = GateNeedsApproval \<and> approved S w" by (cases dec) auto
  with e not_denied [OF e d(1)] allowed [of "w_gate w"] approvable [of "w_gate w"] show ?thesis by fastforce
qed

end

interpretation governed: governed_services evaluate_risk gate_admits gg_mode gg_destructive
  "S\<lparr>sv_evaluate := evaluate_risk\<rparr>" for S
  by unfold_locales simp

section \<open>Properties\<close>

definition sample_request :: exec_request where
  "sample_request = \<lparr>xr_action = ''port_scan'', xr_target = ''10.1.2.3'', xr_target_required = True, xr_risk = Write,
     xr_params = [], xr_command = CommandArgv [''nmap'', ''10.1.2.3''], xr_executor = ''local'', xr_privileges = [''user''],
     xr_credentials = [], xr_identity = \<lparr>xi_tool = ''nmap'', xi_tool_version = [], xi_path = [], xi_sha256 = [], xi_other = []\<rparr>,
     xr_resolved = None, xr_ttl = 60, xr_expires = None, xr_dependency = [], xr_dependency_ok = True, xr_guidance = [],
     xr_blocked = [], xr_metadata = []\<rparr>"

definition sample_world :: world where
  "sample_world = \<lparr>w_request = sample_request, w_gate = sample_gate_state\<lparr>gg_mode := AskMode\<rparr>, w_check = Some 0,
     w_reads = 0, w_context = None, w_audit = sample_log, w_logging_up = True, w_feedback_up = True,
     w_logged = [], w_feedback = [], w_host = bare_host\<rparr>"

definition sample_evidence :: evidence_reference where
  "sample_evidence = \<lparr>ev_id = ''r1'', ev_path = ''evidence/r1.evidence'', ev_sha256 = ''abc'', ev_size = 3,
     ev_mime = ''application/json'', ev_created = ''now''\<rparr>"

definition sample_services :: services where
  "sample_services = \<lparr>sv_id = ''r1'', sv_clock = int, sv_iso = show_int,
     sv_digest = (\<lambda>m. if m = material_of (sample_request\<lparr>xr_expires := Some 60\<rparr>) then ''d'' else []),
     sv_hooks = Some [], sv_evaluate = evaluate_risk, sv_approval = Some (\<lambda>q w. (AnswerTrue, w)),
     sv_check = (\<lambda>n w. (Some [], w)), sv_prepare = None,
     sv_operation = (\<lambda>w. (OpValue (Some \<lparr>ov_success = True, ov_timed_out = False, ov_error = [], ov_stderr = [],
        ov_normalized = None\<rparr>), w)),
     sv_capture = (\<lambda>r res w. (Some sample_evidence, w))\<rparr>"

definition sample_ready :: world where
  "sample_ready = sample_world\<lparr>w_request := sample_request\<lparr>xr_expires := Some 60\<rparr>, w_reads := 1\<rparr>"

lemma sample_fields:
  "sv_clock sample_services = int" "sv_hooks sample_services = Some []"
  "sv_approval sample_services = Some (\<lambda>q w. (AnswerTrue, w))" "sv_evaluate sample_services = evaluate_risk"
  "sv_check sample_services = (\<lambda>n w. (Some [], w))" "sv_prepare sample_services = None"
  "sv_operation sample_services = (\<lambda>w. (OpValue (Some \<lparr>ov_success = True, ov_timed_out = False, ov_error = [],
     ov_stderr = [], ov_normalized = None\<rparr>), w))"
  "sv_capture sample_services = (\<lambda>r res w. (Some sample_evidence, w))"
  "xr_expires (w_request sample_ready) = Some 60" "w_reads sample_ready = 1" "w_check sample_ready = Some 0"
  "al_up (w_audit sample_ready) = True" "w_logging_up sample_ready" "w_feedback_up sample_ready"
  by (simp_all add: sample_services_def sample_ready_def sample_world_def sample_request_def sample_log_def)

lemma sample_with_expiry: "with_expiry sample_services sample_world = sample_ready"
  by (simp add: with_expiry_def now_def sample_world_def sample_request_def sample_services_def sample_ready_def)

lemma sample_digest: "w_request w = w_request sample_ready \<Longrightarrow> digest_of sample_services w = ''d''"
  by (simp add: digest_of_def sample_services_def sample_ready_def sample_world_def)

lemma sample_material: "w_request w = w_request sample_ready \<Longrightarrow> \<not> material_changed sample_services ''d'' w"
  by (simp add: material_changed_def sample_digest resolved_action_error_def)
     (simp add: sample_ready_def sample_world_def sample_request_def)

lemma sample_evaluate:
  "evaluate sample_services sample_ready = (Inr (GateNeedsApproval, ''requires human approval''), sample_ready)"
  by code_simp

lemma sample_preflight: "preflight sample_services (w_request sample_ready) = None"
  by code_simp

lemma sample_execution:
  "\<exists>res v w. execute sample_services sample_world = ((Returned res, [LaunchOperation v]), w) \<and> co_success res"
  by (simp add: execute_def Let_def sample_with_expiry sample_digest sample_preflight sample_evaluate sample_fields
        approve_def granted_def authorize_def sample_material
        pre_check_def record_authorization_def audit_record_def run_authorized_def launch_def
        start_operation_def now_def outcome_result_def settle_def capture_evidence_def record_terminal_def
        record_non_audit_def terminal_result_def)

text \<open>
  C1: Nothing is launched past the gate: every preparation and operation the coordinator starts
  carries exactly the material that was evaluated (no other material having its digest), outside
  plan mode, with a target in the engagement scope, and without a human approval of that digest
  only at READ risk, or at WRITE risk in auto mode; a destructive one also needs the override.
\<close>
theorem launch_governed:
  assumes "execute S w = ((x, ls), w')" and "sv_evaluate S = evaluate_risk" and "check_keeps_request S"
    and "l \<in> set ls"
    and "\<forall>m. sv_digest S m = digest_of S (with_expiry S w) \<longrightarrow> m = material_of (w_request (with_expiry S w))"
  shows "material_of (w_request (launched_world l)) = material_of (w_request (with_expiry S w))
    \<and> resolved_action_error (w_request (launched_world l)) = []
    \<and> gg_mode (w_gate w) \<noteq> PlanMode
    \<and> (xr_target (w_request w) \<noteq> [] \<longrightarrow> is_in_scope (gg_scope (w_gate w)) (xr_target (w_request w)) = Inr True)
    \<and> (xr_risk (w_request w) = Read \<or> xr_risk (w_request w) = Write \<and> gg_mode (w_gate w) = AutoMode
        \<or> approved S (with_expiry S w))
    \<and> (xr_risk (w_request w) = Destructive \<longrightarrow> gg_destructive (w_gate w) \<and> approved S (with_expiry S w))"
proof -
  have S: "S = S\<lparr>sv_evaluate := evaluate_risk\<rparr>" using assms(2) by simp
  from assms(4) have "ls \<noteq> []" by auto
  from execute_launches [OF assms(1,3) this] assms(4)
  have g: "gated S (with_expiry S w)" and m: "\<not> material_changed S (digest_of S (with_expiry S w)) (launched_world l)"
    by blast+
  have same: "w_gate (with_expiry S w) = w_gate w" "xr_target (w_request (with_expiry S w)) = xr_target (w_request w)"
    "xr_risk (w_request (with_expiry S w)) = xr_risk (w_request w)"
    by (auto simp: with_expiry_def now_def)
  have m': "material_of (w_request (launched_world l)) = material_of (w_request (with_expiry S w))"
    "resolved_action_error (w_request (launched_world l)) = []"
    using m assms(5) unfolding not_material_changed digest_of_def by blast+
  note adm = governed.gated_admitted [of S, folded S, OF g, unfolded same gate_admits_def]
  show ?thesis using m' adm by blast
qed

theorem launch_governed_witness:
  "\<exists>res v w. execute sample_services sample_world = ((Returned res, [LaunchOperation v]), w)
     \<and> is_in_scope (gg_scope (w_gate sample_world)) ''10.1.2.3'' = Inr True
     \<and> approved sample_services (with_expiry sample_services sample_world)"
proof -
  obtain res v w where e: "execute sample_services sample_world = ((Returned res, [LaunchOperation v]), w)"
    using sample_execution by blast
  have h: "sv_evaluate sample_services = evaluate_risk" "check_keeps_request sample_services"
    "LaunchOperation v \<in> set [LaunchOperation v]"
    by (simp_all add: sample_fields check_keeps_request_def)
  have d: "\<forall>m. sv_digest sample_services m = digest_of sample_services (with_expiry sample_services sample_world)
      \<longrightarrow> m = material_of (w_request (with_expiry sample_services sample_world))"
    unfolding sample_with_expiry sample_digest [OF refl]
    by (simp add: sample_services_def sample_ready_def sample_world_def)
  have x: "xr_target (w_request sample_world) = ''10.1.2.3''" "xr_risk (w_request sample_world) = Write"
    "gg_mode (w_gate sample_world) = AskMode"
    by (simp_all add: sample_world_def sample_request_def)
  from launch_governed [OF e h d] e show ?thesis by (simp add: x)
qed

text \<open>
  C2: At most one operation is started per execution, at most after one preparation. The first
  start happens in the execution context of its own action, executor and target, when the last
  event of the audit log is the authorisation for the evaluated digest; and no operation starts at
  or after the instant its request expires.
\<close>
theorem launch_authorized:
  assumes "execute S w = ((x, ls), w')" and "check_keeps_request S" and "ls \<noteq> []"
  shows "length (filter is_operation ls) \<le> 1
    \<and> w_context (launched_world (hd ls)) = Some (xr_action (w_request (launched_world (hd ls))),
         xr_executor (w_request (launched_world (hd ls))), xr_target (w_request (launched_world (hd ls))))
    \<and> last (al_events (w_audit (launched_world (hd ls))))
        = redact_event (authorization_event S (digest_of S (with_expiry S w)) (w_request (launched_world (hd ls))))
    \<and> (\<forall>v e. LaunchOperation v \<in> set ls \<and> xr_expires (w_request (with_expiry S w)) = Some e
          \<longrightarrow> sv_clock S (w_reads v - 1) < e)"
proof -
  from execute_launches [OF assms] have "authorized_launch S (digest_of S (with_expiry S w)) (launched_world (hd ls))"
    and n: "length (filter is_operation ls) \<le> 1" by blast+
  then obtain old where "al_events (w_audit (launched_world (hd ls)))
      = old @ [redact_event (authorization_event S (digest_of S (with_expiry S w)) (w_request (launched_world (hd ls))))]"
    and "w_context (launched_world (hd ls)) = Some (xr_action (w_request (launched_world (hd ls))),
         xr_executor (w_request (launched_world (hd ls))), xr_target (w_request (launched_world (hd ls))))"
    unfolding authorized_launch_def by blast
  with n execute_time [OF assms(1)] show ?thesis by simp
qed

theorem launch_authorized_witness:
  "\<exists>res v w. execute sample_services sample_world = ((Returned res, [LaunchOperation v]), w)
     \<and> w_context v = Some (xr_action (w_request v), xr_executor (w_request v), xr_target (w_request v))
     \<and> sv_clock sample_services (w_reads v - 1) < 60"
proof -
  obtain res v w where e: "execute sample_services sample_world = ((Returned res, [LaunchOperation v]), w)"
    using sample_execution by blast
  have "check_keeps_request sample_services" by (simp add: sample_fields check_keeps_request_def)
  from launch_authorized [OF e this] e show ?thesis
    by (simp add: sample_with_expiry sample_fields)
qed

section \<open>What a result says\<close>

lemma finish_result:
  "finish_without_execution S digest status category error ev w = (res, w') \<Longrightarrow> \<not> co_success res"
  by (auto simp: finish_without_execution_def Let_def terminal_result_def telemetry_error_def split: prod.splits if_split_asm)

lemma unavailable_result: "telemetry_unavailable S digest w = (res, w') \<Longrightarrow> \<not> co_success res"
  by (auto simp: telemetry_unavailable_def Let_def terminal_result_def split: prod.splits)

lemma start_operation_Inl:
  "start_operation S digest expiry w = ((Inl res, ls), w') \<Longrightarrow> \<not> co_success res \<and> ls = []"
  by (auto simp: start_operation_def dest: finish_result split: prod.splits bool.splits)

lemma start_operation_Inr: "start_operation S digest expiry w = ((Inr out, ls), w') \<Longrightarrow> ls \<noteq> []"
  by (auto simp: start_operation_def split: prod.splits bool.splits)

lemma revalidate_Some: "revalidate S digest dec check mode w = (Some res, w') \<Longrightarrow> \<not> co_success res"
  by (auto simp: revalidate_def Let_def dest: finish_result unavailable_result split: prod.splits sum.splits if_split_asm)

lemma launch_Inl:
  assumes "launch S digest dec expiry w = ((Inl res, ls), w')"
  shows "\<not> co_success res \<and> filter is_operation ls = []"
  using assms unfolding launch_def
  by (auto dest: start_operation_Inl revalidate_Some split: option.splits prod.splits if_split_asm)

lemma launch_Inr: "launch S digest dec expiry w = ((Inr out, ls), w') \<Longrightarrow> ls \<noteq> []"
  unfolding launch_def by (auto dest: start_operation_Inr split: option.splits prod.splits if_split_asm)

text \<open>A successful result is complete: evidence for its value, and every telemetry record.\<close>

definition recorded_success :: "coordinated \<Rightarrow> world \<Rightarrow> bool" where
  "recorded_success res w \<longleftrightarrow>
     co_status res = ExSuccess \<and> co_category res = None \<and> (co_value res \<noteq> None \<longrightarrow> co_evidence res \<noteq> None)
     \<and> last (al_events (w_audit w)) = redact_event (terminal_event (w_request w) res True)
     \<and> last (w_logged w) = res \<and> last (w_feedback w) = res"

lemma outcome_result_cases:
  "(co_success (outcome_result S digest out w) \<longleftrightarrow> co_status (outcome_result S digest out w) = ExSuccess)
   \<and> (co_success (outcome_result S digest out w) \<longrightarrow> co_category (outcome_result S digest out w) = None)
   \<and> co_status (outcome_result S digest out w) \<notin> {ExDenied, ExBlocked}"
  by (cases out) (auto simp: outcome_result_def terminal_result_def Let_def split: option.splits)

lemma record_terminal_True:
  "record_terminal res True True w = (True, w') \<Longrightarrow>
     w_request w' = w_request w \<and> last (al_events (w_audit w')) = redact_event (terminal_event (w_request w) res True)
     \<and> last (w_logged w') = res \<and> last (w_feedback w') = res"
  by (auto simp: record_terminal_def record_non_audit_def audit_record_def split: sum.splits if_split_asm)

lemma settle_result:
  assumes "settle S (outcome_result S digest out v) w = (res, w')"
  shows "co_status res \<notin> {ExDenied, ExBlocked} \<and> (co_success res \<longrightarrow> recorded_success res w')"
proof -
  let ?r = "outcome_result S digest out v"
  obtain r1 w1 where c: "capture_evidence S ?r w = (r1, w1)" by force
  obtain ok w2 where t: "record_terminal r1 True True w1 = (ok, w2)" by force
  from assms c t have r: "res = (if ok then r1 else telemetry_error r1)" "w' = w2" by (auto simp: settle_def)
  have r1: "co_status r1 \<notin> {ExDenied, ExBlocked} \<and> (co_success r1 \<longrightarrow> co_status r1 = ExSuccess
      \<and> co_category r1 = None \<and> (co_value r1 \<noteq> None \<longrightarrow> co_evidence r1 \<noteq> None))"
    using c outcome_result_cases [of S digest out v]
    by (auto simp: capture_evidence_def split: if_split_asm prod.splits option.splits)
  show ?thesis
  proof (cases ok)
    case True
    with record_terminal_True t r r1 show ?thesis by (auto simp: recorded_success_def)
  next
    case False
    with r show ?thesis by (simp add: telemetry_error_def)
  qed
qed

text \<open>Neither success nor denial is ever reported wrongly.\<close>

definition truthful :: "execution \<Rightarrow> launched list \<Rightarrow> world \<Rightarrow> bool" where
  "truthful x ls w \<longleftrightarrow> (case x of
     Returned res \<Rightarrow> (co_success res \<longrightarrow> ls \<noteq> [] \<and> recorded_success res w)
       \<and> (co_status res \<in> {ExDenied, ExBlocked} \<longrightarrow> filter is_operation ls = [])
   | CancelRaised res provider \<Rightarrow> ls \<noteq> [] \<and> co_status res = ExCancelled \<and> \<not> co_success res)"

lemma truthful_stop: "\<not> co_success res \<Longrightarrow> truthful (Returned res) [] w"
  by (simp add: truthful_def)

lemma run_authorized_truthful:
  assumes "run_authorized S digest dec expiry w = ((x, ls), w')"
  shows "truthful x ls w'"
proof -
  obtain y ms w1 where l: "launch S digest dec expiry
      (w\<lparr>w_context := Some (xr_action (w_request w), xr_executor (w_request w), xr_target (w_request w))\<rparr>)
        = ((y, ms), w1)" by (metis surj_pair)
  show ?thesis
  proof (cases y)
    case (Inl res)
    with assms l launch_Inl show ?thesis by (auto simp: run_authorized_def Let_def truthful_def)
  next
    case (Inr out)
    show ?thesis
    proof (cases "out = OpCancelled")
      case True
      with assms l Inr launch_Inr show ?thesis
        by (auto simp: run_authorized_def Let_def truthful_def outcome_result_def terminal_result_def split: prod.splits)
    next
      case False
      obtain res w2 where s: "settle S (outcome_result S digest out w1) (w1\<lparr>w_context := w_context w\<rparr>) = (res, w2)" by force
      with assms l Inr False have "x = Returned res" "ls = ms" "w' = w2" by (auto simp: run_authorized_def Let_def)
      with settle_result [OF s] launch_Inr l Inr show ?thesis by (auto simp: truthful_def)
    qed
  qed
qed

lemma authorize_truthful: "authorize S digest dec expiry w = ((x, ls), w') \<Longrightarrow> truthful x ls w'"
  by (auto simp: authorize_def Let_def split: prod.splits if_split_asm bool.splits
      dest!: finish_result unavailable_result intro: truthful_stop run_authorized_truthful)

text \<open>
  C3: A result never claims what did not happen: success is reported only when something was
  launched, its value is held as protected evidence and the audit log, the execution log and the
  feedback store all hold the final record; a result that says denied or blocked means that the
  operation was not started; and a cancellation is raised only after a launch.
\<close>
theorem result_truthful:
  assumes "execute S w = ((x, ls), w')"
  shows "case x of
     Returned res \<Rightarrow> (co_success res \<longrightarrow> ls \<noteq> [] \<and> recorded_success res w')
       \<and> (co_status res \<in> {ExDenied, ExBlocked} \<longrightarrow> filter is_operation ls = [])
   | CancelRaised res provider \<Rightarrow> ls \<noteq> [] \<and> co_status res = ExCancelled \<and> \<not> co_success res"
proof -
  have "truthful x ls w'"
    using assms by (auto simp: execute_def Let_def split: option.splits prod.splits sum.splits decision.splits
      dest!: finish_result unavailable_result intro: truthful_stop authorize_truthful)
  then show ?thesis by (simp add: truthful_def)
qed

theorem result_truthful_witness:
  "\<exists>res v w. execute sample_services sample_world = ((Returned res, [LaunchOperation v]), w) \<and> recorded_success res w"
proof -
  obtain res v w where e: "execute sample_services sample_world = ((Returned res, [LaunchOperation v]), w)" "co_success res"
    using sample_execution by blast
  from result_truthful [OF e(1)] e show ?thesis by auto
qed

end
