(* ===== verification/ActiveRuntime.thy ===== *)
theory ActiveRuntime
  imports CorePlanner PlanStore Coordinator
begin

text \<open>
  The Active runtime of \<open>workflows/agent_executor.py\<close>: the projection of a coordinated result to an
  observation, the escalation of an incomplete stage, \<open>ActiveStageRuntime\<close> with its envelope check
  and its \<open>finish\<close>, the outcome of an agent stage, and the model-free read stage with its bounded
  retry.

  The runtime keeps a reference to the task state, so the functions that compare the envelope take
  the state as it is at that moment. The JSON text of the envelope is represented by its content in
  key order (\<open>envelope\<close>): two envelopes are equal exactly when their texts are.
\<close>

section \<open>Observations\<close>

definition path_fingerprint :: "platform \<Rightarrow> string \<Rightarrow> string option" where
  "path_fingerprint P p = (case resolve_path P p of None \<Rightarrow> None | Some q \<Rightarrow> Some (sha_path P q))"

text \<open>The bounded signals of a successful file read, in the order in which they are set.\<close>

definition file_signals :: "platform \<Rightarrow> jdict \<Rightarrow> (string, string) dict" where
  "file_signals P d =
     (case map_of d ''sha256'' of Some (JStr v) \<Rightarrow> if is_hex64 v then [(''file_sha256'', v)] else [] | _ \<Rightarrow> [])
     @ (case map_of d ''size_bytes'' of Some (JInt n) \<Rightarrow> if 0 \<le> n then [(''file_size_bytes'', show_int n)] else [] | _ \<Rightarrow> [])
     @ (case map_of d ''path'' of
          Some (JStr p) \<Rightarrow> if p \<noteq> [] \<and> CHR 0x00 \<notin> set p
            then (case path_fingerprint P p of None \<Rightarrow> [] | Some f \<Rightarrow> [(''file_path_sha256'', f)]) else []
        | _ \<Rightarrow> [])"

definition project_observation :: "platform \<Rightarrow> coordinated \<Rightarrow> string \<Rightarrow> active_obs res" where
  "project_observation P r provider =
     (let ok = (co_status r = ExSuccess \<and> co_success r
                \<and> (case co_value r of None \<Rightarrow> True | Some v \<Rightarrow> ov_success v));
          signals = (case co_value r of
              Some v \<Rightarrow> (case ov_normalized v of
                  Some (JDict d) \<Rightarrow> if co_action r = ''file_read'' \<and> ok then file_signals P d else []
                | _ \<Rightarrow> [])
            | None \<Rightarrow> []) in
      validate_active_obs
        \<lparr>ob_request_id = co_request_id r, ob_capability = co_action r, ob_provider = provider,
         ob_status = co_status r, ob_success = ok, ob_error = co_category r,
         ob_evidence_id = (case co_evidence r of None \<Rightarrow> [] | Some e \<Rightarrow> ev_id e),
         ob_evidence_hash = (case co_evidence r of None \<Rightarrow> [] | Some e \<Rightarrow> ev_sha256 e),
         ob_signals = signals\<rparr>)"

section \<open>Escalation\<close>

definition failure_kind :: "active_obs \<Rightarrow> escalation_kind" where
  "failure_kind ob =
     (if ob_error ob \<in> {Some ApprovalRequired, Some ApprovalRejected, Some ApprovalInvalid, Some ApprovalExpired}
      then EscApproval
      else if ob_error ob = Some PolicyDenial \<or> ob_status ob = ExDenied then EscPolicy
      else if ob_error ob = Some MissingDependency then EscDependency
      else if ob_error ob = Some TelemetryFailure then EscSafety
      else if ob_error ob = Some CancellationCategory \<or> ob_status ob = ExCancelled then EscCancellation
      else if ob_error ob = Some TimeoutCategory \<or> ob_status ob = ExTimeout then EscTimeout
      else EscExecution)"

definition classify_escalation ::
  "active_outcome \<Rightarrow> active_obs list \<Rightarrow> escalation_kind option \<Rightarrow> escalation option" where
  "classify_escalation outcome obs override =
     (if outcome = Completed then None
      else (let failed = find (\<lambda>ob. \<not> ob_success ob) (rev obs) in
        case override of
          Some k \<Rightarrow> Some \<lparr>esc_kind = k, esc_request_id = (case failed of None \<Rightarrow> [] | Some ob \<Rightarrow> ob_request_id ob)\<rparr>
        | None \<Rightarrow> (case failed of
            Some ob \<Rightarrow> Some \<lparr>esc_kind = failure_kind ob, esc_request_id = ob_request_id ob\<rparr>
          | None \<Rightarrow> Some \<lparr>esc_kind = (if outcome = NeedsReplan then EscVerification
              else if outcome = OutcomeBlocked then EscBudget else EscExecution), esc_request_id = []\<rparr>)))"

section \<open>The envelope\<close>

record envelope =
  ve_session :: string
  ve_objective :: string
  ve_scope :: scope_view
  ve_mode :: task_mode
  ve_context :: stage_context
  ve_node :: plan_node
  ve_deps :: "(string \<times> string \<times> string \<times> active_result option) list"
  ve_env :: core_env

definition canon_selection :: "selection \<Rightarrow> selection" where
  "canon_selection s = s\<lparr>se_criteria := sort_key fst (se_criteria s)\<rparr>"

definition canon_env :: "core_env \<Rightarrow> core_env" where
  "canon_env e = e\<lparr>en_selection := map_option canon_selection (en_selection e),
     en_transition := map_option (\<lambda>t. t\<lparr>rt_replacement := canon_selection (rt_replacement t)\<rparr>) (en_transition e)\<rparr>"

text \<open>\<open>KeyError\<close> where the stage or a dependency is no longer in the plan.\<close>

definition envelope_of :: "platform \<Rightarrow> wf_state \<Rightarrow> stage_context \<Rightarrow> envelope res" where
  "envelope_of P s cx =
     res_bind (node_at (ts_plan s) (st_id (cx_stage cx))) (\<lambda>n.
     res_bind (map_res (\<lambda>d. res_bind (node_at (ts_plan s) d) (\<lambda>m.
         Inr (d, n_status m, material_fingerprint (sha_node P) m, map_of (ts_active_nodes s) d)))
       (st_depends_on (cx_stage cx))) (\<lambda>deps.
       Inr \<lparr>ve_session = ts_session_id s, ve_objective = ts_objective s, ve_scope = ts_scope s,
            ve_mode = ts_mode s, ve_context = cx, ve_node = canon_node n,
            ve_deps = sort_key fst (dict_from deps),
            ve_env = canon_env (ts_env s)\<rparr>))"

record active_runtime =
  rm_bound :: bound_context
  rm_observations :: "active_obs list"
  rm_context :: stage_context
  rm_material :: envelope

definition start_runtime :: "platform \<Rightarrow> wf_state \<Rightarrow> stage_context \<Rightarrow> active_runtime res" where
  "start_runtime P s cx =
     res_bind (bound_stage_context P s cx) (\<lambda>b.
     res_bind (envelope_of P s cx) (\<lambda>m.
       Inr \<lparr>rm_bound = b, rm_observations = [], rm_context = cx, rm_material = m\<rparr>))"

definition unchanged :: "platform \<Rightarrow> active_runtime \<Rightarrow> wf_state \<Rightarrow> bool" where
  "unchanged P rt s = (envelope_of P s (rm_context rt) = Inr (rm_material rt))"

definition record_result :: "platform \<Rightarrow> coordinated \<Rightarrow> string \<Rightarrow> active_runtime \<Rightarrow> active_runtime res" where
  "record_result P r provider rt =
     res_bind (project_observation P r provider) (\<lambda>ob.
       Inr (rt\<lparr>rm_observations := rm_observations rt @ [ob]\<rparr>))"

section \<open>Finishing a stage\<close>

definition evidence_links :: "active_obs list \<Rightarrow> evidence_link list" where
  "evidence_links obs = map (\<lambda>ob. \<lparr>el_id = ob_evidence_id ob, el_sha256 = ob_evidence_hash ob, el_summary = []\<rparr>)
     (filter has_evidence obs)"

definition redact_dict :: "jdict \<Rightarrow> jdict" where
  "redact_dict d = map (\<lambda>(k, v). (k, redact_sensitive k v)) d"

text \<open>The payload: what the result reports, recomputed from the observations and redacted.\<close>

definition finish_payload :: "active_obs list \<Rightarrow> stage_result \<Rightarrow> stage_result" where
  "finish_payload obs r =
     r\<lparr>sr_active := None, sr_actions := count_success obs, sr_evidence := evidence_links obs,
       sr_final := redact_text (sr_final r), sr_summary := redact_text (sr_summary r),
       sr_error := redact_text (sr_error r), sr_data := redact_dict (sr_data r),
       sr_failed := map redact_text (sr_failed r)\<rparr>"

definition revalidated :: "stage_result \<Rightarrow> stage_result res" where
  "revalidated r = validate_stage_result (Some (sr_outcome r)) r"

definition finish_active ::
  "active_runtime \<Rightarrow> int option \<Rightarrow> escalation_kind option \<Rightarrow> bool \<Rightarrow> stage_result \<Rightarrow> stage_result res" where
  "finish_active rt attempts override gate_passed r =
     (let obs = rm_observations rt in
      res_bind (validate_active_result
        \<lparr>ar_session_id = bc_session (rm_bound rt), ar_node_id = bc_stage (rm_bound rt),
         ar_workflow_fp = bc_workflow_fp (rm_bound rt), ar_node_fp = bc_node_fp (rm_bound rt),
         ar_outcome = sr_outcome r, ar_gate_passed = gate_passed,
         ar_attempts = (case attempts of None \<Rightarrow> int (length obs) | Some n \<Rightarrow> n),
         ar_observations = obs, ar_failed_criteria = sr_failed r,
         ar_escalation = classify_escalation (sr_outcome r) obs override\<rparr>) (\<lambda>a.
        revalidated (r\<lparr>sr_active := Some a\<rparr>)))"

definition stage_verified :: "platform \<Rightarrow> active_runtime \<Rightarrow> stage_result \<Rightarrow> bool \<times> string list" where
  "stage_verified P rt r =
     (let obs = rm_observations rt;
          (ok, failures) = gate_check (sha_path P) (st_gate (cx_stage (rm_context rt))) r (Some obs) in
      if sr_success r \<and> \<not> list_ex protected_success obs
      then (False, failures @ [''active completion requires protected governed evidence'']) else (ok, failures))"

definition finish ::
  "platform \<Rightarrow> active_runtime \<Rightarrow> wf_state \<Rightarrow> int option \<Rightarrow> escalation_kind option \<Rightarrow> stage_result \<Rightarrow> stage_result res" where
  "finish P rt s attempts escalation result =
     res_bind (revalidated (finish_payload (rm_observations rt) result)) (\<lambda>r1.
     res_bind (if unchanged P rt s then Inr (r1, escalation)
               else res_bind (revalidated (r1\<lparr>sr_success := False, sr_outcome := OutcomeBlocked,
                        sr_error := ''active stage envelope changed; review required'', sr_failed := []\<rparr>))
                 (\<lambda>r. Inr (r, Some EscMaterialChange))) (\<lambda>(r2, override).
     let (ok, failures) = stage_verified P rt r2 in
     res_bind (if sr_success r2 \<and> \<not> ok
               then revalidated (r2\<lparr>sr_success := False, sr_outcome := NeedsReplan,
                        sr_error := ''stage completion gate unmet'', sr_failed := failures\<rparr>)
               else Inr r2) (\<lambda>r3. finish_active rt attempts override ok r3)))"

section \<open>The outcome of an agent stage\<close>

text \<open>\<open>StageResult(success=False, ...)\<close> of the error paths.\<close>

definition failed_result :: "active_outcome \<Rightarrow> string \<Rightarrow> stage_result" where
  "failed_result outcome error =
     \<lparr>sr_success = False, sr_outcome = outcome, sr_final = [], sr_summary = [], sr_actions = 0,
      sr_evidence = [], sr_data = [], sr_error = error, sr_failed = [], sr_active = None\<rparr>"

text \<open>What the agent loop returns, and how the call may end.\<close>

record loop_report =
  lo_final :: string
  lo_stopped :: string
  lo_failed :: "string list"

datatype loop_end = LoopReturns loop_report | LoopCancelled | LoopRaises

definition stopped_outcome :: "string \<Rightarrow> active_outcome" where
  "stopped_outcome stopped =
     (if stopped = ''final'' then Completed
      else if stopped = ''verification_failed'' then NeedsReplan
      else if stopped = ''budget'' \<or> stopped = ''action_failed'' then OutcomeBlocked
      else OutcomeFailed)"

definition agent_stage_result :: "active_obs list \<Rightarrow> loop_report \<Rightarrow> stage_result" where
  "agent_stage_result obs l = (let outcome = stopped_outcome (lo_stopped l) in
     \<lparr>sr_success = (outcome = Completed), sr_outcome = outcome, sr_final = lo_final l,
      sr_summary = take 400 (lo_final l), sr_actions = count_success obs, sr_evidence = evidence_links obs,
      sr_data = [(''stopped'', JStr (lo_stopped l))],
      sr_error = (if outcome = Completed then [] else lo_final l), sr_failed = lo_failed l, sr_active = None\<rparr>)"

definition agent_escalation :: "bool \<Rightarrow> active_obs list \<Rightarrow> loop_report \<Rightarrow> escalation_kind option" where
  "agent_escalation drifted obs l =
     (if drifted then Some EscMaterialChange
      else if lo_stopped l = ''budget'' then Some EscBudget
      else if lo_stopped l = ''action_failed'' \<and> obs = [] then Some EscExecution
      else None)"

text \<open>
  \<open>GovernedAgentStageExecutor.__call__\<close>: \<open>used\<close> are the stages it has run; \<open>loop\<close> is the agent
  loop, which records observations in the runtime and says whether the envelope changed on the way
  (\<open>drifted\<close>) and how it ended; the state after it is its second result.
\<close>

definition run_agent_stage ::
  "platform \<Rightarrow> wf_state \<Rightarrow> (string \<times> string) list \<Rightarrow> stage_context
     \<Rightarrow> (active_runtime \<Rightarrow> (active_runtime \<times> bool \<times> loop_end) \<times> wf_state)
     \<Rightarrow> stage_result res \<times> (string \<times> string) list" where
  "run_agent_stage P s used cx loop = (case start_runtime P s cx of
     Inl e \<Rightarrow> (revalidated (failed_result OutcomeBlocked ''stage context does not match the durable task plan''), used)
   | Inr rt \<Rightarrow>
       (let key = (bc_session (rm_bound rt), bc_stage (rm_bound rt)) in
        if key \<in> set used \<or> st_execution (cx_stage cx) \<noteq> Agent then
          (finish P rt s None (Some EscPolicy)
             (failed_result OutcomeBlocked ''stage is not an unused agent node; review required''), used)
        else (case loop rt of ((rt', drifted, ended), s') \<Rightarrow>
          ((case ended of
              LoopCancelled \<Rightarrow> finish P rt' s' None (Some EscCancellation)
                (failed_result OutcomeBlocked ''active stage cancelled; review required'')
            | LoopRaises \<Rightarrow> finish P rt' s' None (Some EscExecution)
                (failed_result OutcomeFailed ''active stage runtime failed; no automatic replay'')
            | LoopReturns l \<Rightarrow>
                res_bind (revalidated (agent_stage_result (rm_observations rt') l)) (\<lambda>r.
                  finish P rt' s' None (agent_escalation drifted (rm_observations rt') l) r)),
           key # used))))"

section \<open>The model-free read stage\<close>

record read_action =
  ra_workflow :: string
  ra_version :: string
  ra_stage :: string
  ra_capability_name :: string
  ra_params :: jdict
  ra_max_attempts :: int

text \<open>\<open>encoded\<close> is the length of the JSON text of the parameters; \<open>None\<close> where it cannot be encoded.\<close>

definition validate_read_action :: "(jdict \<Rightarrow> nat option) \<Rightarrow> read_action \<Rightarrow> read_action res" where
  "validate_read_action encoded a =
     res_bind (ensure (bounded_text 1 64 (ra_workflow a) \<and> bounded_text 1 64 (ra_version a)
                 \<and> bounded_text 1 64 (ra_stage a) \<and> 1 \<le> ra_max_attempts a \<and> ra_max_attempts a \<le> 2)
                 (ValueError ''field'')) (\<lambda>_.
     res_bind (ensure (ra_capability_name a \<in> {''file_read'', ''file_list'', ''file_search'', ''process_list'',
                  ''service_status'', ''list_tools''})
                 (ValueError ''model-free stage action must be a supported READ capability'')) (\<lambda>_.
     res_bind (case encoded (ra_params a) of
           None \<Rightarrow> Inl (ValueError ''read action parameters must be JSON values'')
         | Some n \<Rightarrow> ensure (n \<le> 8192) (ValueError ''read action parameters exceed the 8192-character limit''))
       (\<lambda>_. Inr a)))"

text \<open>
  How one governed call ends, with the executor's state and whether the action and the provider are
  still the same, before the call and after it.
\<close>

datatype host_end = HostResult coordinated string | HostCancelled "(coordinated \<times> string) option" | HostRaises

record read_call =
  rc_before :: wf_state
  rc_same_before :: bool
  rc_end :: host_end
  rc_after :: wf_state
  rc_same_after :: bool

definition read_steady :: "platform \<Rightarrow> active_runtime \<Rightarrow> wf_state \<Rightarrow> bool \<Rightarrow> bool" where
  "read_steady P rt s same = (same \<and> unchanged P rt s)"

definition blocked_outcome :: "coordinated \<Rightarrow> bool" where
  "blocked_outcome r =
     (co_status r \<in> {ExDenied, ExBlocked, ExCancelled}
      \<or> co_category r \<in> Some ` {PolicyDenial, ApprovalRequired, ApprovalRejected, ApprovalInvalid, ApprovalExpired,
           MissingDependency, CancellationCategory, TelemetryFailure})"

text \<open>\<open>_blocked\<close>: \<open>refuse\<close> gives the coordinator's result for a request with that blocked reason.\<close>

definition blocked_stage ::
  "platform \<Rightarrow> (string \<Rightarrow> coordinated) \<Rightarrow> bound_context \<Rightarrow> active_obs list \<Rightarrow> int \<Rightarrow> escalation_kind \<Rightarrow> string
     \<Rightarrow> stage_result res" where
  "blocked_stage P refuse b prior attempts kind reason =
     (let r = refuse reason;
          error = (if co_error r \<noteq> [] then co_error r else reason) in
      res_bind (project_observation P r ''internal'') (\<lambda>ob.
      let obs = prior @ [ob] in
      res_bind (validate_active_result
        \<lparr>ar_session_id = bc_session b, ar_node_id = bc_stage b, ar_workflow_fp = bc_workflow_fp b,
         ar_node_fp = bc_node_fp b, ar_outcome = OutcomeBlocked, ar_gate_passed = False, ar_attempts = attempts,
         ar_observations = obs, ar_failed_criteria = [],
         ar_escalation = classify_escalation OutcomeBlocked obs (Some kind)\<rparr>) (\<lambda>a.
        revalidated ((failed_result OutcomeBlocked error)
          \<lparr>sr_actions := count_success obs, sr_evidence := evidence_links obs, sr_active := Some a\<rparr>))))"

definition read_result :: "read_action \<Rightarrow> coordinated \<Rightarrow> int \<Rightarrow> active_obs list \<Rightarrow> stage_result" where
  "read_result action r attempts obs =
     (let success = ob_success (last obs);
          error = (if co_error r \<noteq> [] then co_error r else ''governed read did not complete'');
          outcome = (if success then Completed else if blocked_outcome r then OutcomeBlocked else OutcomeFailed) in
      \<lparr>sr_success = success, sr_outcome = outcome,
       sr_final = (if success then ''Governed read completed: '' @ ra_capability_name action else []),
       sr_summary = ra_capability_name action @ '': '' @ (if success then ''success'' else status_value (co_status r)),
       sr_actions = count_success obs, sr_evidence = evidence_links obs,
       sr_data = [(''capability'', JStr (ra_capability_name action)), (''attempts'', JInt attempts)],
       sr_error = (if success then [] else take 400 error), sr_failed = [], sr_active = None\<rparr>)"

text \<open>
  The attempts: \<open>n\<close> counts those begun. The third component is the list of calls that reached the
  host. A timeout, and only a timeout, is tried again, up to the action's bound. The list of calls has
  one for each attempt that the action allows; with fewer, the attempts end as if none had been made.
\<close>

fun read_attempts ::
  "platform \<Rightarrow> (string \<Rightarrow> coordinated) \<Rightarrow> read_action \<Rightarrow> active_runtime \<Rightarrow> int \<Rightarrow> read_call list
     \<Rightarrow> stage_result res \<times> host_end list" where
  "read_attempts P refuse action rt n [] =
     (revalidated (failed_result OutcomeFailed ''read action was not attempted''), [])"
| "read_attempts P refuse action rt n (c # cs) =
     (let changed = ''read action changed during recovery; manual review required'' in
      if \<not> read_steady P rt (rc_before c) (rc_same_before c) then
        (blocked_stage P refuse (rm_bound rt) (rm_observations rt) (n - 1) EscMaterialChange changed, [])
      else (case rc_end c of
          HostRaises \<Rightarrow>
            (finish P rt (rc_after c) (Some n) (Some EscExecution)
               (failed_result OutcomeFailed ''active read runtime failed; no automatic replay''), [rc_end c])
        | HostCancelled detail \<Rightarrow>
            (res_bind (case detail of None \<Rightarrow> Inr rt | Some (r, provider) \<Rightarrow> record_result P r provider rt) (\<lambda>rt'.
               finish P rt' (rc_after c) (Some n) (Some EscCancellation)
                 (failed_result OutcomeBlocked ''active read cancelled; review required'')), [rc_end c])
        | HostResult r provider \<Rightarrow>
            (case record_result P r provider rt of
               Inl e \<Rightarrow> (Inl e, [rc_end c])
             | Inr rt' \<Rightarrow>
                 if \<not> read_steady P rt' (rc_after c) (rc_same_after c) then
                   (blocked_stage P refuse (rm_bound rt') (rm_observations rt') n EscMaterialChange changed, [rc_end c])
                 else if co_status r = ExTimeout \<and> co_category r = Some TimeoutCategory \<and> n < ra_max_attempts action then
                   (case read_attempts P refuse action rt' (n + 1) cs of (x, ends) \<Rightarrow> (x, rc_end c # ends))
                 else (res_bind (revalidated (read_result action r n (rm_observations rt')))
                         (finish P rt' (rc_after c) (Some n) None), [rc_end c]))))"

text \<open>The whole call; \<open>used\<close> is the executor's one-shot flag, returned updated.\<close>

definition run_read_stage ::
  "platform \<Rightarrow> (string \<Rightarrow> coordinated) \<Rightarrow> wf_state \<Rightarrow> read_action \<Rightarrow> bool \<Rightarrow> stage_context \<Rightarrow> read_call list
     \<Rightarrow> (stage_result res \<times> host_end list) \<times> bool" where
  "run_read_stage P refuse s action used cx calls = (case start_runtime P s cx of
     Inl e \<Rightarrow> (let reason = ''stage context does not match the durable task plan'' in
        ((revalidated (failed_result OutcomeBlocked
            (if co_error (refuse reason) \<noteq> [] then co_error (refuse reason) else reason)), []), used))
   | Inr rt \<Rightarrow>
       (let stop = (\<lambda>kind reason. ((blocked_stage P refuse (rm_bound rt) [] 0 kind reason, []), used)) in
        if cx_workflow cx \<noteq> ra_workflow action \<or> cx_version cx \<noteq> ra_version action
           \<or> st_id (cx_stage cx) \<noteq> ra_stage action \<or> st_execution (cx_stage cx) \<noteq> Agent then
          stop EscMaterialChange ''read action does not match the authorized workflow stage''
        else if st_max_steps (cx_stage cx) < ra_max_attempts action then
          stop EscBudget ''read action exceeds the stage step budget''
        else if used then
          stop EscPolicy ''read stage action already attempted; automatic replay is disabled''
        else (read_attempts P refuse action rt 1 calls, True)))"

section \<open>What a finished stage guarantees\<close>

lemma revalidated_Inr:
  "revalidated r = Inr r' \<Longrightarrow> r' = r \<and> (sr_success r \<longleftrightarrow> sr_outcome r = Completed)
     \<and> (\<forall>a. sr_active r = Some a \<longrightarrow> ar_outcome a = sr_outcome r \<and> sr_actions r = count_success (ar_observations a))"
  by (auto simp: revalidated_def validate_stage_result_def Let_def res_bind_eq_Inr split: option.splits)

lemma finish_active_Inr:
  assumes "finish_active rt attempts override ok r = Inr r'"
  obtains a where "r' = r\<lparr>sr_active := Some a\<rparr>" "validate_active_result a = Inr a"
    "ar_outcome a = sr_outcome r" "ar_gate_passed a = ok" "ar_observations a = rm_observations rt"
    "ar_session_id a = bc_session (rm_bound rt)" "ar_node_id a = bc_stage (rm_bound rt)"
    "ar_workflow_fp a = bc_workflow_fp (rm_bound rt)" "ar_node_fp a = bc_node_fp (rm_bound rt)"
    "ar_escalation a = classify_escalation (sr_outcome r) (rm_observations rt) override"
    "ar_attempts a = (case attempts of None \<Rightarrow> int (length (rm_observations rt)) | Some n \<Rightarrow> n)"
proof -
  from assms obtain a where v: "validate_active_result
        \<lparr>ar_session_id = bc_session (rm_bound rt), ar_node_id = bc_stage (rm_bound rt),
         ar_workflow_fp = bc_workflow_fp (rm_bound rt), ar_node_fp = bc_node_fp (rm_bound rt),
         ar_outcome = sr_outcome r, ar_gate_passed = ok,
         ar_attempts = (case attempts of None \<Rightarrow> int (length (rm_observations rt)) | Some n \<Rightarrow> n),
         ar_observations = rm_observations rt, ar_failed_criteria = sr_failed r,
         ar_escalation = classify_escalation (sr_outcome r) (rm_observations rt) override\<rparr> = Inr a"
    and r: "revalidated (r\<lparr>sr_active := Some a\<rparr>) = Inr r'"
    by (auto simp: finish_active_def Let_def res_bind_eq_Inr)
  from validate_active_result_Inr [OF v] v revalidated_Inr [OF r] show ?thesis by (intro that [of a]) auto
qed

lemma gate_check_active: "gate_check fp g (r\<lparr>sr_active := x\<rparr>) (Some obs) = gate_check fp g r (Some obs)"
  by (simp add: gate_check_def gate_failures_def Let_def)

lemma stage_verified_True:
  "stage_verified P rt r = (True, fs) \<Longrightarrow> sr_success r \<Longrightarrow>
     fst (gate_check (sha_path P) (st_gate (cx_stage (rm_context rt))) r (Some (rm_observations rt)))
     \<and> list_ex protected_success (rm_observations rt)"
  by (auto simp: stage_verified_def Let_def split: prod.splits if_split_asm)

lemma stage_verified_active: "stage_verified P rt (r\<lparr>sr_active := x\<rparr>) = stage_verified P rt r"
  by (simp add: stage_verified_def gate_check_active)

text \<open>The result before its Active record is attached.\<close>

lemma finish_steps:
  assumes "finish P rt s attempts escalation r = Inr r'"
  obtains r3 override ok where "finish_active rt attempts override ok r3 = Inr r'"
    "sr_success r3 \<longrightarrow> ok \<and> unchanged P rt s \<and> fst (stage_verified P rt r3)"
    "\<not> unchanged P rt s \<longrightarrow> override = Some EscMaterialChange \<and> sr_outcome r3 = OutcomeBlocked"
    "unchanged P rt s \<longrightarrow> override = escalation"
proof -
  from assms obtain r1 r2 override where
    p: "(if unchanged P rt s then Inr (r1, escalation)
         else res_bind (revalidated (r1\<lparr>sr_success := False, sr_outcome := OutcomeBlocked,
                sr_error := ''active stage envelope changed; review required'', sr_failed := []\<rparr>))
            (\<lambda>r. Inr (r, Some EscMaterialChange))) = Inr (r2, override)"
    and f: "(let (ok, failures) = stage_verified P rt r2 in
       res_bind (if sr_success r2 \<and> \<not> ok
               then revalidated (r2\<lparr>sr_success := False, sr_outcome := NeedsReplan,
                        sr_error := ''stage completion gate unmet'', sr_failed := failures\<rparr>)
               else Inr r2) (\<lambda>r3. finish_active rt attempts override ok r3)) = Inr r'"
    by (auto simp: finish_def res_bind_eq_Inr)
  obtain ok fs where v: "stage_verified P rt r2 = (ok, fs)" by force
  from p have u: "\<not> unchanged P rt s \<Longrightarrow> override = Some EscMaterialChange \<and> sr_outcome r2 = OutcomeBlocked \<and> \<not> sr_success r2"
    "unchanged P rt s \<Longrightarrow> override = escalation"
    by (auto simp: res_bind_eq_Inr split: if_split_asm dest!: revalidated_Inr)
  from f v obtain r3 where r3: "(if sr_success r2 \<and> \<not> ok then revalidated (r2\<lparr>sr_success := False,
        sr_outcome := NeedsReplan, sr_error := ''stage completion gate unmet'', sr_failed := fs\<rparr>) else Inr r2) = Inr r3"
    and a: "finish_active rt attempts override ok r3 = Inr r'"
    by (auto simp: res_bind_eq_Inr)
  from r3 have c: "(sr_success r2 \<and> \<not> ok \<and> \<not> sr_success r3) \<or> (r3 = r2 \<and> (sr_success r2 \<longrightarrow> ok))"
    by (auto split: if_split_asm dest!: revalidated_Inr)
  show ?thesis using a c u v by (intro that [of override ok r3]) auto
qed

section \<open>Properties\<close>

text \<open>
  C20: Finishing a stage yields a validated Active record bound to the session, node and
  fingerprints of the context and holding exactly the recorded observations. It succeeds only when
  the envelope is unchanged, the stage's gate is open on these observations and one of them is a
  protected success; otherwise the record carries a typed escalation, which is a material change
  whenever the envelope differs.
\<close>
theorem finish_sound:
  assumes "finish P rt s attempts escalation r = Inr r'"
  shows "\<exists>a. sr_active r' = Some a \<and> validate_active_result a = Inr a
    \<and> ar_session_id a = bc_session (rm_bound rt) \<and> ar_node_id a = bc_stage (rm_bound rt)
    \<and> ar_workflow_fp a = bc_workflow_fp (rm_bound rt) \<and> ar_node_fp a = bc_node_fp (rm_bound rt)
    \<and> ar_observations a = rm_observations rt \<and> ar_outcome a = sr_outcome r'
    \<and> (sr_success r' \<longrightarrow> unchanged P rt s \<and> ar_gate_passed a \<and> ar_escalation a = None
         \<and> fst (gate_check (sha_path P) (st_gate (cx_stage (rm_context rt))) r' (Some (rm_observations rt)))
         \<and> list_ex protected_success (rm_observations rt))
    \<and> (\<not> sr_success r' \<longrightarrow> ar_escalation a \<noteq> None)
    \<and> (\<not> unchanged P rt s \<longrightarrow> sr_outcome r' = OutcomeBlocked
         \<and> map_option esc_kind (ar_escalation a) = Some EscMaterialChange)"
proof -
  from assms obtain r3 override ok where f: "finish_active rt attempts override ok r3 = Inr r'"
    and g: "sr_success r3 \<longrightarrow> ok \<and> unchanged P rt s \<and> fst (stage_verified P rt r3)"
    and u: "\<not> unchanged P rt s \<longrightarrow> override = Some EscMaterialChange \<and> sr_outcome r3 = OutcomeBlocked"
    by (elim finish_steps) blast
  from f obtain a where r': "r' = r3\<lparr>sr_active := Some a\<rparr>" and v: "validate_active_result a = Inr a"
    and o: "ar_outcome a = sr_outcome r3" "ar_gate_passed a = ok" "ar_observations a = rm_observations rt"
    and b: "ar_session_id a = bc_session (rm_bound rt)" "ar_node_id a = bc_stage (rm_bound rt)"
      "ar_workflow_fp a = bc_workflow_fp (rm_bound rt)" "ar_node_fp a = bc_node_fp (rm_bound rt)"
    and e: "ar_escalation a = classify_escalation (sr_outcome r3) (rm_observations rt) override"
    by (elim finish_active_Inr) blast
  have c: "sr_success r3 \<longleftrightarrow> sr_outcome r3 = Completed"
    using f by (auto simp: finish_active_def Let_def res_bind_eq_Inr dest!: revalidated_Inr)
  have s: "sr_success r' \<longrightarrow> fst (gate_check (sha_path P) (st_gate (cx_stage (rm_context rt))) r' (Some (rm_observations rt)))
      \<and> list_ex protected_success (rm_observations rt)"
    using g stage_verified_True [of P rt r3] unfolding r' gate_check_active
    by (cases "stage_verified P rt r3") auto
  show ?thesis
    by (rule exI [of _ a], insert r' v o b e c s g u, simp)
       (auto simp: classify_escalation_def Let_def split: option.splits)
qed

text \<open>
  The error paths always produce a hand-off: for a stage that could be bound, a failed or
  blocked result without observations is finished, whatever happened to the task state, with an
  outcome that is not a completion.
\<close>
theorem failure_handoff:
  assumes "start_runtime P s cx = Inr rt" and "ts_session_id s \<noteq> []" and "st_id (cx_stage cx) \<noteq> []"
    and "outcome \<noteq> Completed"
  shows "\<exists>r'. finish P rt s' None (Some kind) (failed_result outcome error) = Inr r' \<and> \<not> sr_success r'
    \<and> sr_outcome r' = (if unchanged P rt s' then outcome else OutcomeBlocked)"
proof -
  from assms(1) obtain n where rt: "rm_observations rt = []" "bc_session (rm_bound rt) \<noteq> []" "bc_stage (rm_bound rt) \<noteq> []"
    "is_hex64 (bc_workflow_fp (rm_bound rt))" "is_hex64 (bc_node_fp (rm_bound rt))"
    using assms(2,3)
    by (auto simp: start_runtime_def res_bind_eq_Inr bound_stage_context_def context_matches_def Let_def
        split: if_split_asm)
  have act: "\<exists>r'. finish_active rt None override ok r3 = Inr r' \<and> sr_success r' = sr_success r3 \<and> sr_outcome r' = sr_outcome r3"
    if "\<not> sr_success r3" "sr_outcome r3 \<noteq> Completed" "sr_evidence r3 = []" "sr_actions r3 = 0" for r3 override ok
    using rt that by (auto simp: finish_active_def validate_active_result_def revalidated_def validate_stage_result_def
        Let_def classify_escalation_def count_success_def split: option.splits)
  define r1 where "r1 = finish_payload [] (failed_result outcome error)"
  define r2 where "r2 = (if unchanged P rt s' then r1 else r1\<lparr>sr_success := False, sr_outcome := OutcomeBlocked,
      sr_error := ''active stage envelope changed; review required'', sr_failed := []\<rparr>)"
  have f: "\<not> sr_success r1" "sr_outcome r1 = outcome" "sr_active r1 = None" "sr_evidence r1 = []" "sr_actions r1 = 0"
    by (simp_all add: r1_def finish_payload_def failed_result_def evidence_links_def count_success_def)
  then have v: "revalidated r1 = Inr r1" using assms(4)
    by (cases r1) (auto simp: revalidated_def validate_stage_result_def Let_def)
  have v2: "revalidated (r1\<lparr>sr_success := False, sr_outcome := OutcomeBlocked, sr_error := e, sr_failed := []\<rparr>)
      = Inr (r1\<lparr>sr_success := False, sr_outcome := OutcomeBlocked, sr_error := e, sr_failed := []\<rparr>)" for e
    using f by (cases r1) (auto simp: revalidated_def validate_stage_result_def Let_def)
  obtain ok fs where g: "stage_verified P rt r2 = (ok, fs)" by force
  have "\<not> sr_success r2" "sr_outcome r2 = (if unchanged P rt s' then outcome else OutcomeBlocked)"
    "sr_evidence r2 = []" "sr_actions r2 = 0" using f by (auto simp: r2_def)
  with act [of r2] assms(4) v v2 g rt(1) show ?thesis
    by (auto simp: finish_def r1_def [symmetric] r2_def split: if_split_asm)
qed

lemma read_attempts_ends:
  "0 < n \<Longrightarrow> read_attempts P refuse action rt n cs = (x, ends) \<Longrightarrow>
     ends = [] \<or> n + int (length ends) - 1 \<le> max n (ra_max_attempts action)
       \<and> (\<forall>e \<in> set (butlast ends). \<exists>r p. e = HostResult r p \<and> co_status r = ExTimeout)"
proof (induction cs arbitrary: rt n x ends)
  case Nil
  then show ?case by simp
next
  case (Cons c cs)
  show ?case
  proof (cases "read_steady P rt (rc_before c) (rc_same_before c)")
    case False
    with Cons.prems(2) show ?thesis by simp
  next
    case True
    show ?thesis
    proof (cases "\<exists>r p rt'. rc_end c = HostResult r p \<and> record_result P r p rt = Inr rt'
        \<and> read_steady P rt' (rc_after c) (rc_same_after c)
        \<and> co_status r = ExTimeout \<and> co_category r = Some TimeoutCategory \<and> n < ra_max_attempts action")
      case False
      with True Cons.prems(2) have "ends = [rc_end c]"
        by (auto simp: Let_def split: host_end.splits sum.splits if_split_asm prod.splits)
      then show ?thesis by simp
    next
      case True
      then obtain r p rt' where t: "rc_end c = HostResult r p" "record_result P r p rt = Inr rt'"
        "read_steady P rt' (rc_after c) (rc_same_after c)" "co_status r = ExTimeout"
        "co_category r = Some TimeoutCategory" "n < ra_max_attempts action" by blast
      obtain y es where i: "read_attempts P refuse action rt' (n + 1) cs = (y, es)" by force
      from t i Cons.prems(2) \<open>read_steady P rt (rc_before c) (rc_same_before c)\<close>
      have e: "ends = HostResult r p # es" by (simp add: Let_def)
      from Cons.IH [OF _ i] Cons.prems(1) t(4,6) show ?thesis unfolding e by auto
    qed
  qed
qed

text \<open>
  A read stage reaches the host at most as often as its action allows, which is at most twice;
  each call but the last ended in a timeout, so nothing but a timeout is ever repeated; and once
  the executor has been used, or when the action does not match the stage, nothing reaches the host.
\<close>
theorem read_stage_bounded:
  assumes "run_read_stage P refuse s action used cx calls = ((x, ends), used')"
    and "validate_read_action encoded action = Inr action"
  shows "int (length ends) \<le> ra_max_attempts action \<and> length ends \<le> 2
    \<and> (\<forall>e \<in> set (butlast ends). \<exists>r p. e = HostResult r p \<and> co_status r = ExTimeout)
    \<and> (ends \<noteq> [] \<longrightarrow> \<not> used \<and> used' \<and> st_execution (cx_stage cx) = Agent
         \<and> ra_stage action = st_id (cx_stage cx) \<and> ra_max_attempts action \<le> st_max_steps (cx_stage cx))"
proof (cases "ends = []")
  case True
  with assms(2) show ?thesis by (auto simp: validate_read_action_def res_bind_eq_Inr)
next
  case False
  with assms(1) obtain rt where r: "read_attempts P refuse action rt 1 calls = (x, ends)"
    and g: "\<not> used" "used'" "st_execution (cx_stage cx) = Agent" "ra_stage action = st_id (cx_stage cx)"
      "ra_max_attempts action \<le> st_max_steps (cx_stage cx)"
    by (auto simp: run_read_stage_def Let_def split: sum.splits if_split_asm)
  have m: "1 \<le> ra_max_attempts action" "ra_max_attempts action \<le> 2"
    using assms(2) by (auto simp: validate_read_action_def res_bind_eq_Inr)
  from read_attempts_ends [OF _ r] False g m show ?thesis by auto
qed

section \<open>Samples\<close>

definition sample_scan :: wf_state where
  "sample_scan = sample_run\<lparr>ts_plan := sample_plan\<lparr>g_nodes :=
     [(''scan'', stage_node sample_spec (sample_stage ''scan'' [] Agent)),
      (''approve'', stage_node sample_spec (sample_stage ''approve'' [''scan''] Human))]\<rparr>,
     ts_active_nodes := []\<rparr>"

definition sample_scan_context :: stage_context where
  "sample_scan_context = sample_context\<lparr>cx_stage := sample_stage ''scan'' [] Agent\<rparr>"

lemma unchanged_start: "start_runtime P s cx = Inr rt \<Longrightarrow> unchanged P (rt\<lparr>rm_observations := obs\<rparr>) s"
  by (auto simp: start_runtime_def unchanged_def res_bind_eq_Inr)

lemma sample_started: "\<exists>rt. start_runtime sample_platform sample_scan sample_scan_context = Inr rt"
proof -
  have "is_ok (start_runtime sample_platform sample_scan sample_scan_context)" by code_simp
  then show ?thesis by (simp add: is_ok_iff)
qed

lemma start_runtime_fields:
  assumes "start_runtime P s cx = Inr rt"
  shows "rm_context rt = cx" "rm_observations rt = []" "bc_session (rm_bound rt) = cx_session cx"
    "bc_stage (rm_bound rt) = st_id (cx_stage cx)" "is_hex64 (bc_workflow_fp (rm_bound rt))"
    "is_hex64 (bc_node_fp (rm_bound rt))"
  using assms by (auto simp: start_runtime_def res_bind_eq_Inr bound_stage_context_def Let_def split: if_split_asm)

lemma sample_hash_ne: "sample_hash \<noteq> []" by (simp add: sample_hash_def)

lemma redact_done: "redact_text ''done'' = ''done''" by code_simp

lemma sample_finished:
  assumes "start_runtime sample_platform sample_scan sample_scan_context = Inr rt"
  shows "\<exists>r. finish sample_platform (rt\<lparr>rm_observations := [sample_obs]\<rparr>) sample_scan None None sample_result = Inr r \<and> sr_success r"
  using unchanged_start [OF assms, of "[sample_obs]"] start_runtime_fields [OF assms]
  by (simp add: finish_def finish_payload_def sample_result_def redact_done revalidated_def validate_stage_result_def
      stage_verified_def gate_check_def gate_failures_def Let_def sample_scan_context_def sample_stage_def default_gate_def
      count_success_def sample_obs_def protected_success_def has_evidence_def evidence_links_def redact_dict_def
      finish_active_def validate_active_result_def classify_escalation_def sample_context_def strip_def lstrip_def rstrip_def
      is_space_def code_point_def sample_hash_ne image_iff)

theorem finish_sound_witness:
  "\<exists>rt r a. finish sample_platform rt sample_scan None None sample_result = Inr r
     \<and> sr_active r = Some a \<and> ar_gate_passed a \<and> list_ex protected_success (rm_observations rt)"
proof -
  obtain rt where rt: "start_runtime sample_platform sample_scan sample_scan_context = Inr rt"
    using sample_started by blast
  from sample_finished [OF rt] obtain r where
    r: "finish sample_platform (rt\<lparr>rm_observations := [sample_obs]\<rparr>) sample_scan None None sample_result = Inr r" "sr_success r"
    by blast
  from finish_sound [OF r(1)] r show ?thesis by blast
qed

theorem failure_handoff_witness:
  "\<exists>rt r. start_runtime sample_platform sample_scan sample_scan_context = Inr rt
     \<and> finish sample_platform rt sample_run None (Some EscExecution) (failed_result OutcomeFailed ''x'') = Inr r"
proof -
  obtain rt where rt: "start_runtime sample_platform sample_scan sample_scan_context = Inr rt"
    using sample_started by blast
  have "ts_session_id sample_scan \<noteq> []" "st_id (cx_stage sample_scan_context) \<noteq> []"
    by (simp_all add: sample_scan_def sample_run_def sample_scan_context_def sample_stage_def)
  from failure_handoff [OF rt this, of OutcomeFailed sample_run EscExecution "''x''"] rt show ?thesis by auto
qed

definition sample_read_action :: read_action where
  "sample_read_action = \<lparr>ra_workflow = ''audit'', ra_version = ''1'', ra_stage = ''scan'', ra_capability_name = ''file_list'',
     ra_params = [], ra_max_attempts = 2\<rparr>"

definition sample_late :: coordinated where
  "sample_late = \<lparr>co_request_id = ''q1'', co_action = ''file_list'', co_status = ExTimeout, co_success = False, co_value = None,
      co_category = Some TimeoutCategory, co_error = ''late'', co_digest = [], co_evidence = None\<rparr>"

definition sample_timeout :: read_call where
  "sample_timeout = \<lparr>rc_before = sample_scan, rc_same_before = True, rc_end = HostResult sample_late ''files'',
     rc_after = sample_scan, rc_same_after = True\<rparr>"

lemma sample_late_recorded: "\<exists>ob. record_result P sample_late ''files'' rt = Inr (rt\<lparr>rm_observations := rm_observations rt @ [ob]\<rparr>)"
  by (simp add: record_result_def project_observation_def sample_late_def validate_active_obs_def bounded_text_def
      hex64_or_empty_def Let_def) (rule exI, rule refl)

lemma sample_read_run:
  assumes "start_runtime sample_platform sample_scan sample_scan_context = Inr rt"
  shows "\<exists>x. run_read_stage sample_platform refuse sample_scan sample_read_action False sample_scan_context
      [sample_timeout, sample_timeout] = ((x, [rc_end sample_timeout, rc_end sample_timeout]), True)"
proof -
  have steady: "read_steady sample_platform (rt\<lparr>rm_observations := obs\<rparr>) (rc_before sample_timeout) (rc_same_before sample_timeout)"
    "read_steady sample_platform (rt\<lparr>rm_observations := obs\<rparr>) (rc_after sample_timeout) (rc_same_after sample_timeout)" for obs
    using unchanged_start [OF assms, of obs] by (simp_all add: read_steady_def sample_timeout_def)
  have first: "read_steady sample_platform rt (rc_before sample_timeout) (rc_same_before sample_timeout)"
    using steady(1) [of "rm_observations rt"] by simp
  obtain ob where ob: "record_result sample_platform sample_late ''files'' rt
      = Inr (rt\<lparr>rm_observations := rm_observations rt @ [ob]\<rparr>)" using sample_late_recorded by blast
  obtain ob2 where ob2: "record_result sample_platform sample_late ''files'' (rt\<lparr>rm_observations := rm_observations rt @ [ob]\<rparr>)
      = Inr (rt\<lparr>rm_observations := rm_observations rt @ [ob, ob2]\<rparr>)"
    using sample_late_recorded [of sample_platform "rt\<lparr>rm_observations := rm_observations rt @ [ob]\<rparr>"] by auto
  have e: "rc_end sample_timeout = HostResult sample_late ''files''" by (simp add: sample_timeout_def)
  have l: "co_status sample_late = ExTimeout" "co_category sample_late = Some TimeoutCategory"
    by (simp_all add: sample_late_def)
  have "\<exists>x. read_attempts sample_platform refuse sample_read_action rt 1 [sample_timeout, sample_timeout]
      = (x, [rc_end sample_timeout, rc_end sample_timeout])"
    by (simp add: Let_def first steady e ob ob2 l) (simp add: sample_read_action_def)
  with assms show ?thesis
    by (simp add: run_read_stage_def Let_def) (simp add: sample_read_action_def sample_scan_context_def sample_context_def sample_stage_def)
qed

theorem read_stage_bounded_witness:
  "\<exists>x ends u. run_read_stage sample_platform (\<lambda>_. sample_late) sample_scan sample_read_action False sample_scan_context
      [sample_timeout, sample_timeout] = ((x, ends), u) \<and> length ends = 2 \<and> u"
proof -
  obtain rt where "start_runtime sample_platform sample_scan sample_scan_context = Inr rt"
    using sample_started by blast
  from sample_read_run [OF this, of "\<lambda>_. sample_late"] obtain x where
    r: "run_read_stage sample_platform (\<lambda>_. sample_late) sample_scan sample_read_action False sample_scan_context
      [sample_timeout, sample_timeout] = ((x, [rc_end sample_timeout, rc_end sample_timeout]), True)" by blast
  have v: "validate_read_action (\<lambda>d. Some (length d)) sample_read_action = Inr sample_read_action"
    by (simp add: validate_read_action_def sample_read_action_def bounded_text_def)
  from read_stage_bounded [OF r v] r show ?thesis by auto
qed

end
