(* ===== verification/TaskStore.thy ===== *)
theory TaskStore
  imports ActiveRuntime
begin

text \<open>
  The persistence adapter of a workflow's task state, \<open>schema/store.py\<close>: what is stored is a
  snapshot in which every text is redacted, the parameters and thoughts of the actions, the data
  and summaries of the observations and the summaries of the artifacts are blanked, and which has
  passed the validators again. A dictionary entry under a secret name is replaced by the mask, which
  is not a plan node or an Active result, so validation fails for such an id.
\<close>

section \<open>Redaction of the state\<close>

definition redact_criterion :: "criterion \<Rightarrow> criterion" where
  "redact_criterion c = \<lparr>c_kind = redact_text (c_kind c), c_field = redact_text (c_field c),
     c_expected = redact_sensitive [] (c_expected c), c_required = c_required c\<rparr>"

definition redact_node :: "plan_node \<Rightarrow> plan_node" where
  "redact_node n = \<lparr>n_id = redact_text (n_id n), n_capability = redact_text (n_capability n),
     n_description = redact_text (n_description n), n_params = redact_dict (n_params n),
     n_depends_on = map redact_text (n_depends_on n), n_completion = map redact_criterion (n_completion n),
     n_retry = n_retry n, n_max_attempts = n_max_attempts n,
     n_idempotency_key = redact_text (n_idempotency_key n), n_status = redact_text (n_status n),
     n_result_summary = redact_text (n_result_summary n)\<rparr>"

definition redact_plan :: "plan_graph \<Rightarrow> plan_graph" where
  "redact_plan g = \<lparr>g_goal = redact_text (g_goal g),
     g_nodes = map (\<lambda>(k, n). (k, redact_node n)) (g_nodes g), g_reasoning = redact_text (g_reasoning g)\<rparr>"

definition redact_obs :: "active_obs \<Rightarrow> active_obs" where
  "redact_obs ob = ob\<lparr>ob_request_id := redact_text (ob_request_id ob), ob_capability := redact_text (ob_capability ob),
     ob_provider := redact_text (ob_provider ob), ob_evidence_id := redact_text (ob_evidence_id ob),
     ob_evidence_hash := redact_text (ob_evidence_hash ob),
     ob_signals := map (\<lambda>(k, v). (k, redact_text v)) (ob_signals ob)\<rparr>"

definition redact_active :: "active_result \<Rightarrow> active_result" where
  "redact_active a = a\<lparr>ar_session_id := redact_text (ar_session_id a), ar_node_id := redact_text (ar_node_id a),
     ar_workflow_fp := redact_text (ar_workflow_fp a), ar_node_fp := redact_text (ar_node_fp a),
     ar_observations := map redact_obs (ar_observations a),
     ar_failed_criteria := map redact_text (ar_failed_criteria a),
     ar_escalation := map_option (\<lambda>e. e\<lparr>esc_request_id := redact_text (esc_request_id e)\<rparr>) (ar_escalation a)\<rparr>"

definition redact_pin :: "reviewed_workflow \<Rightarrow> reviewed_workflow" where
  "redact_pin p = \<lparr>rw_name = redact_text (rw_name p), rw_version = redact_text (rw_version p),
     rw_fingerprint = redact_text (rw_fingerprint p)\<rparr>"

definition redact_gate :: "workflow_gate \<Rightarrow> workflow_gate" where
  "redact_gate g = g\<lparr>ga_file_sha256 := redact_text (ga_file_sha256 g), ga_file_path := redact_text (ga_file_path g)\<rparr>"

definition redact_selection :: "selection \<Rightarrow> selection" where
  "redact_selection s = s\<lparr>se_intent_fp := redact_text (se_intent_fp s), se_workflow := map_option redact_pin (se_workflow s),
     se_criteria := map (\<lambda>(k, g). (k, redact_gate g)) (se_criteria s)\<rparr>"

definition redact_request :: "review_request \<Rightarrow> review_request" where
  "redact_request r = r\<lparr>rq_stage := redact_text (rq_stage r), rq_node_fp := redact_text (rq_node_fp r),
     rq_active_fp := redact_text (rq_active_fp r)\<rparr>"

definition redact_decision :: "core_decision \<Rightarrow> core_decision" where
  "redact_decision d = d\<lparr>cd_session := redact_text (cd_session d), cd_state_fp := redact_text (cd_state_fp d),
     cd_workflow_fp := redact_text (cd_workflow_fp d), cd_stage := redact_text (cd_stage d),
     cd_node_fp := redact_text (cd_node_fp d), cd_review := map_option redact_request (cd_review d)\<rparr>"

definition redact_env :: "core_env \<Rightarrow> core_env" where
  "redact_env e = \<lparr>en_workflow = map_option redact_text (en_workflow e),
     en_workflow_version = map_option redact_text (en_workflow_version e),
     en_workflow_fp = map_option redact_text (en_workflow_fp e), en_target = map_option redact_text (en_target e),
     en_selection = map_option redact_selection (en_selection e),
     en_strategy = map_option (\<lambda>c. \<lparr>cs_workflow = redact_pin (cs_workflow c), cs_order = map redact_text (cs_order c)\<rparr>)
       (en_strategy e),
     en_decision = map_option redact_decision (en_decision e), en_consumed = en_consumed e, en_budget = en_budget e,
     en_stop = map_option (\<lambda>m. \<lparr>cm_decision = redact_decision (cm_decision m)\<rparr>) (en_stop e),
     en_dispatch = map_option redact_text (en_dispatch e),
     en_origin = map_option (\<lambda>r. \<lparr>ro_parent = redact_text (ro_parent r), ro_decision_fp = redact_text (ro_decision_fp r)\<rparr>)
       (en_origin e),
     en_transition = map_option (\<lambda>t. \<lparr>rt_decision = redact_decision (rt_decision t),
         rt_replacement = redact_selection (rt_replacement t), rt_session = redact_text (rt_session t)\<rparr>) (en_transition e),
     en_resolution = map_option (\<lambda>r. \<lparr>rr_decision = redact_decision (rr_decision r), rr_disposition = rr_disposition r\<rparr>)
       (en_resolution e)\<rparr>"

definition redact_scope :: "scope_view \<Rightarrow> scope_view" where
  "redact_scope v = v\<lparr>sv_read_roots := map redact_text (sv_read_roots v), sv_write_roots := map redact_text (sv_write_roots v),
     sv_targets := map redact_text (sv_targets v)\<rparr>"

section \<open>The snapshot\<close>

definition blank_action :: "action_record \<Rightarrow> action_record" where
  "blank_action a = a\<lparr>ac_tool := redact_text (ac_tool a), ac_params := [], ac_thought := []\<rparr>"

definition blank_observation :: "observation \<Rightarrow> observation" where
  "blank_observation ob = ob\<lparr>os_tool := redact_text (os_tool ob), os_data := [],
     os_summary := (if os_success ob then ''success'' else ''failure''),
     os_evidence_ref := redact_text (os_evidence_ref ob), os_evidence_hash := redact_text (os_evidence_hash ob)\<rparr>"

definition blank_artifact :: "artifact \<Rightarrow> artifact" where
  "blank_artifact a = a\<lparr>at_source := redact_text (at_source a), at_action := redact_text (at_action a),
     at_summary := ''evidence linked'', at_evidence_id := redact_text (at_evidence_id a),
     at_evidence_hash := redact_text (at_evidence_hash a), at_confidence := redact_text (at_confidence a)\<rparr>"

definition redact_hypothesis :: "hypothesis \<Rightarrow> hypothesis" where
  "redact_hypothesis h = h\<lparr>hy_statement := redact_text (hy_statement h), hy_status := redact_text (hy_status h)\<rparr>"

definition redact_finding :: "finding \<Rightarrow> finding" where
  "redact_finding f = \<lparr>fi_title = redact_text (fi_title f), fi_detail = redact_text (fi_detail f),
     fi_severity = redact_text (fi_severity f), fi_confidence = redact_text (fi_confidence f),
     fi_evidence_ref = redact_text (fi_evidence_ref f), fi_related_action = redact_text (fi_related_action f)\<rparr>"

definition redact_task :: "wf_state \<Rightarrow> wf_state" where
  "redact_task s = \<lparr>ts_session_id = redact_text (ts_session_id s), ts_revision = ts_revision s,
     ts_objective = redact_text (ts_objective s), ts_mode = ts_mode s, ts_scope = redact_scope (ts_scope s),
     ts_constraints = map redact_text (ts_constraints s), ts_env = redact_env (ts_env s),
     ts_hypotheses = map redact_hypothesis (ts_hypotheses s), ts_plan = redact_plan (ts_plan s),
     ts_actions = map blank_action (ts_actions s), ts_observations = map blank_observation (ts_observations s),
     ts_findings = map redact_finding (ts_findings s), ts_artifacts = map blank_artifact (ts_artifacts s),
     ts_active_nodes = map (\<lambda>(k, a). (k, redact_active a)) (ts_active_nodes s),
     ts_questions = map redact_text (ts_questions s), ts_completion = map redact_criterion (ts_completion s),
     ts_status = ts_status s\<rparr>"

text \<open>
  The entries that redaction replaces as a whole: a plan node or an Active result under a secret
  name is a validation error; the criteria of a selection have the plan's stage ids as keys.
\<close>

definition masked_entry :: "wf_state \<Rightarrow> bool" where
  "masked_entry s = list_ex secret_name (dict_keys (g_nodes (ts_plan s)) @ dict_keys (ts_active_nodes s))"

text \<open>\<open>TaskState.model_validate\<close>: the validators of the parts.\<close>

definition validate_task :: "wf_state \<Rightarrow> wf_state res" where
  "validate_task s =
     res_bind (iter_res (\<lambda>(k, n). res_bind (validate_plan_node n) (\<lambda>_. Inr ())) (g_nodes (ts_plan s))) (\<lambda>_.
     res_bind (iter_res (\<lambda>(k, a). res_bind (iter_res (\<lambda>ob. res_bind (validate_active_obs ob) (\<lambda>_. Inr ()))
           (ar_observations a)) (\<lambda>_. res_bind (validate_active_result a) (\<lambda>_. Inr ()))) (ts_active_nodes s)) (\<lambda>_.
     res_bind (ensure (list_all valid_criterion (ts_completion s)) (ValueError ''completion_conditions'')) (\<lambda>_.
       Inr s)))"

definition snapshot :: "wf_state \<Rightarrow> wf_state res" where
  "snapshot s =
     res_bind (ensure (\<not> masked_entry s) (ValueError ''Input should be a valid dictionary'')) (\<lambda>_.
       validate_task (redact_task s))"

definition save_state :: "wf_state \<Rightarrow> wf_state db \<Rightarrow> wf_state db \<times> unit res" where
  "save_state s d = (case snapshot s of
     Inl e \<Rightarrow> (d, Inl e) | Inr t \<Rightarrow> (save_task_state (ts_session_id s) t d, Inr ()))"

definition load_state :: "string \<Rightarrow> wf_state db \<Rightarrow> wf_state option res" where
  "load_state sid d = (case load_task_state sid d of None \<Rightarrow> Inr None
     | Some s \<Rightarrow> res_bind (validate_task s) (\<lambda>s. Inr (Some s)))"

section \<open>What a snapshot keeps and what it blanks\<close>

lemma iter_res_unit: "iter_res f xs = Inr u \<longleftrightarrow> (\<forall>x \<in> set xs. f x = Inr ())"
  by (induction xs) (auto simp: res_bind_eq_Inr)

lemma validate_task_Inr: "validate_task s = Inr t \<Longrightarrow> t = s"
  by (auto simp: validate_task_def res_bind_eq_Inr)

lemma snapshot_Inr: "snapshot s = Inr t \<Longrightarrow> t = redact_task s \<and> \<not> masked_entry s \<and> validate_task t = Inr t"
  unfolding snapshot_def by (auto simp: res_bind_eq_Inr dest: validate_task_Inr)

lemma save_load:
  assumes "save_state s d = (d', Inr u)"
  shows "load_state (ts_session_id s) d' = Inr (Some (redact_task s))"
proof -
  from assms obtain t where t: "snapshot s = Inr t" and d': "d' = save_task_state (ts_session_id s) t d"
    by (auto simp: save_state_def split: sum.splits)
  from snapshot_Inr [OF t] have "t = redact_task s" "validate_task (redact_task s) = Inr (redact_task s)" by auto
  then show ?thesis
    by (simp add: d' load_state_def load_task_state_def save_task_state_def)
qed

lemma save_state_frame:
  "save_state s d = (d', x) \<Longrightarrow> db_sessions d' = db_sessions d \<and> db_missions d' = db_missions d \<and> db_nodes d' = db_nodes d
     \<and> (\<forall>sid. sid \<noteq> ts_session_id s \<longrightarrow> load_state sid d' = load_state sid d)"
  by (auto simp: save_state_def save_task_state_def load_state_def load_task_state_def split: sum.splits)

section \<open>Properties\<close>



end
