(* ===== verification/Runner.thy ===== *)
theory Runner
  imports TaskStore
begin

text \<open>
  The durable workflow runner of \<open>workflows/runner.py\<close>: it compiles a workflow into a stored plan,
  validates and loads a stored run, issues Core decisions, advances one run through its stages with
  an executor, and applies the human operations approve, review, stop and replan.

  Every operation is an action on the store (\<open>'a act\<close>): it returns the store with a result or an
  error, because an operation that raises keeps what it wrote before. New session ids are arguments.
  An executor is a function of the number of the call, the context and the working state; it
  returns how it ended, the context and the working state as it leaves them.
\<close>

section \<open>Actions on the store\<close>

type_synonym store = "wf_state db"

type_synonym 'a act = "store \<Rightarrow> store \<times> 'a res"

definition act_bind :: "'a act \<Rightarrow> ('a \<Rightarrow> 'b act) \<Rightarrow> 'b act" where
  "act_bind m f d = (case m d of (d1, Inl e) \<Rightarrow> (d1, Inl e) | (d1, Inr x) \<Rightarrow> f x d1)"

definition act_res :: "'a res \<Rightarrow> 'a act" where
  "act_res r d = (d, r)"

definition act_check :: "bool \<Rightarrow> string \<Rightarrow> unit act" where
  "act_check b msg = act_res (ensure b (ValueError msg))"

lemma act_bind_Inr:
  "act_bind m f d = (d', Inr y) \<longleftrightarrow> (\<exists>d1 x. m d = (d1, Inr x) \<and> f x d1 = (d', Inr y))"
  by (auto simp: act_bind_def split: prod.splits sum.splits)

lemma act_bind_InrE:
  assumes "act_bind m f d = (d', Inr y)"
  obtains d1 x where "m d = (d1, Inr x)" "f x d1 = (d', Inr y)"
  using assms by (auto simp: act_bind_Inr)

lemma act_res_Inr [simp]: "act_res r d = (d', Inr x) \<longleftrightarrow> d' = d \<and> r = Inr x"
  by (auto simp: act_res_def)

lemma act_check_Inr [simp]: "act_check b msg d = (d', Inr u) \<longleftrightarrow> d' = d \<and> b"
  by (auto simp: act_check_def)

section \<open>Loading a run\<close>

definition require_spec :: "registry \<Rightarrow> string \<Rightarrow> workflow_spec res" where
  "require_spec reg name = (case registry_get reg name of
     None \<Rightarrow> Inl (ValueError (''unknown workflow '' @ quoted name)) | Some sp \<Rightarrow> Inr sp)"

definition mission_intent :: "platform \<Rightarrow> wf_state \<Rightarrow> string res" where
  "mission_intent P s =
     res_bind (validate_intent \<lparr>ci_objective = ts_objective s, ci_mode = ts_mode s, ci_workflow = []\<rparr>)
       (\<lambda>i. Inr (intent_fingerprint P i))"

definition of_mission :: "wf_state \<Rightarrow> string \<Rightarrow> core_decision \<Rightarrow> bool" where
  "of_mission s sid d =
     (en_selection (ts_env s) \<noteq> None \<and> cd_session d = sid
      \<and> Some (cd_workflow_fp d) = en_workflow_fp (ts_env s))"

text \<open>
  \<open>_validate_core_lineage\<close>: one step checks a mission against its parent; the walk stops at a
  mission without an origin. It visits no session twice and at most 32 parents.
\<close>

definition lineage_pair :: "platform \<Rightarrow> wf_state \<Rightarrow> replan_origin \<Rightarrow> wf_state \<Rightarrow> unit res" where
  "lineage_pair P s origin parent =
     res_bind (case en_transition (ts_env parent) of
         None \<Rightarrow> Inl (ValueError ''core_replan_transition'') | Some t \<Rightarrow> validate_transition (resolve_path P) t) (\<lambda>t.
     res_bind (case en_stop (ts_env parent) of
         None \<Rightarrow> Inl (ValueError ''core_stop'') | Some m \<Rightarrow> validate_stop m) (\<lambda>m.
     res_bind (ensure (cm_decision m = rt_decision t \<and> cd_session (rt_decision t) = ts_session_id parent
         \<and> sha_decision P (rt_decision t) = ro_decision_fp origin \<and> rt_session t = ts_session_id s
         \<and> Some (canon_selection (rt_replacement t)) = map_option canon_selection (en_selection (ts_env s))
         \<and> Some (cd_workflow_fp (cm_decision m)) = en_workflow_fp (ts_env parent)
         \<and> ts_objective s = ts_objective parent \<and> ts_mode s = ts_mode parent \<and> ts_scope s = ts_scope parent
         \<and> ts_constraints s = ts_constraints parent \<and> ts_completion s = ts_completion parent
         \<and> en_target (ts_env s) = en_target (ts_env parent)
         \<and> (en_budget (ts_env parent) \<noteq> None) = (en_budget (ts_env s) \<noteq> None))
       (ValueError ''Core replacement lineage or authority changed'')) (\<lambda>_.
       case (en_budget (ts_env parent), en_budget (ts_env s)) of
         (Some b, Some c) \<Rightarrow>
           res_bind (validate_budget b) (\<lambda>b. res_bind (validate_budget c) (\<lambda>c.
             ensure (bu_limits c = bu_limits b \<and> bu_dispatches b \<le> bu_dispatches c \<and> bu_steps b \<le> bu_steps c)
               (ValueError ''Core replacement cannot refund or expand inherited budget'')))
       | _ \<Rightarrow> Inr ())))"

function walk_lineage :: "platform \<Rightarrow> store \<Rightarrow> string list \<Rightarrow> nat \<Rightarrow> wf_state \<Rightarrow> nat res" where
  "walk_lineage P d visited depth s =
     (case en_origin (ts_env s) of
        None \<Rightarrow> Inr depth
      | Some origin0 \<Rightarrow> (case validate_origin origin0 of
          Inl e \<Rightarrow> Inl e
        | Inr origin \<Rightarrow>
            if ro_parent origin \<in> set visited \<or> 32 \<le> depth then
              Inl (ValueError ''Core replacement lineage is cyclic or exceeds 32 transitions'')
            else (case load_state (ro_parent origin) d of
                Inl e \<Rightarrow> Inl e
              | Inr None \<Rightarrow> Inl (ValueError ''Core replacement parent is unavailable'')
              | Inr (Some parent) \<Rightarrow> (case lineage_pair P s origin parent of
                    Inl e \<Rightarrow> Inl e
                  | Inr _ \<Rightarrow> walk_lineage P d (ro_parent origin # visited) (Suc depth) parent))))"
  by pat_completeness auto
termination
  by (relation "measure (\<lambda>(P, d, visited, depth, s). 32 - depth)") auto

declare walk_lineage.simps [simp del]

definition validate_lineage :: "platform \<Rightarrow> store \<Rightarrow> wf_state \<Rightarrow> nat res" where
  "validate_lineage P d s = walk_lineage P d [ts_session_id s] 0 s"

text \<open>The checks of \<open>_load\<close> on the Core records of the environment.\<close>

definition check_stop_record :: "string \<Rightarrow> wf_state \<Rightarrow> mission_stop option res" where
  "check_stop_record sid s = (case en_stop (ts_env s) of
     None \<Rightarrow> Inr None
   | Some m \<Rightarrow> res_bind (validate_stop m) (\<lambda>m.
       res_bind (ensure (of_mission s sid (cm_decision m))
         (ValueError ''Core stop requires matching mission provenance'')) (\<lambda>_. Inr (Some m))))"

definition check_transition_record :: "platform \<Rightarrow> wf_state \<Rightarrow> mission_stop option \<Rightarrow> unit res" where
  "check_transition_record P s stop = (case en_transition (ts_env s) of
     None \<Rightarrow> Inr ()
   | Some t \<Rightarrow> res_bind (validate_transition (resolve_path P) t) (\<lambda>t.
       ensure (case stop of None \<Rightarrow> False | Some m \<Rightarrow> rt_decision t = cm_decision m)
         (ValueError ''Core replacement requires a stopped parent mission'')))"

definition check_resolution_record :: "string \<Rightarrow> wf_state \<Rightarrow> unit res" where
  "check_resolution_record sid s = (case en_resolution (ts_env s) of
     None \<Rightarrow> Inr ()
   | Some r \<Rightarrow> res_bind (validate_resolution r) (\<lambda>r.
       ensure (of_mission s sid (rr_decision r))
         (ValueError ''Core review resolution requires matching mission provenance'')))"

definition check_budget_record :: "wf_state \<Rightarrow> unit res" where
  "check_budget_record s = (case en_budget (ts_env s) of
     None \<Rightarrow> Inr ()
   | Some b \<Rightarrow> res_bind (validate_budget b) (\<lambda>_.
       ensure (en_selection (ts_env s) \<noteq> None)
         (ValueError ''Core mission budgets require reviewed workflow provenance'')))"

text \<open>The plan without statuses and summaries, in key order: dictionaries compare by content.\<close>

definition plan_material :: "plan_graph \<Rightarrow> (string, plan_node) dict" where
  "plan_material g = map (\<lambda>(k, n). (k, n\<lparr>n_status := [], n_result_summary := []\<rparr>)) (g_nodes (canon_plan g))"

definition stage_gates :: "workflow_spec \<Rightarrow> (string, workflow_gate) dict" where
  "stage_gates sp = dict_from (map (\<lambda>st. (st_id st, st_gate st)) (sp_stages sp))"

definition check_selection_record :: "platform \<Rightarrow> wf_state \<Rightarrow> workflow_spec \<Rightarrow> unit res" where
  "check_selection_record P s sp = (case en_selection (ts_env s) of
     None \<Rightarrow> Inr ()
   | Some sel0 \<Rightarrow>
       res_bind (validate_selection (resolve_path P) sel0) (\<lambda>sel.
       res_bind (to_plan sp (ts_objective s)) (\<lambda>expected.
       res_bind (mission_intent P s) (\<lambda>fp.
       res_bind (ensure (se_outcome sel = Selected
           \<and> se_workflow sel = Some \<lparr>rw_name = sp_name sp, rw_version = sp_version sp, rw_fingerprint = spec_fingerprint P sp\<rparr>
           \<and> se_intent_fp sel = fp \<and> ts_mode s = sp_mode sp
           \<and> sort_key fst (se_criteria sel) = sort_key fst (stage_gates sp)
           \<and> g_goal (ts_plan s) = ts_objective s \<and> plan_material (ts_plan s) = plan_material expected)
         (ValueError ''Core selection no longer matches the durable workflow plan'')) (\<lambda>_.
         strategy_holds P s sp ''Core strategy no longer matches the reviewed workflow'')))))"

definition load_run :: "platform \<Rightarrow> registry \<Rightarrow> string \<Rightarrow> store \<Rightarrow> (wf_state \<times> workflow_spec) res" where
  "load_run P reg sid d =
     res_bind (load_state sid d) (\<lambda>found. case found of
         None \<Rightarrow> Inl (ValueError (''no workflow run found for session '' @ quoted sid))
       | Some s \<Rightarrow>
           res_bind (check_stop_record sid s) (\<lambda>stop.
           res_bind (check_transition_record P s stop) (\<lambda>_.
           res_bind (validate_lineage P d s) (\<lambda>_.
           res_bind (check_resolution_record sid s) (\<lambda>_.
           res_bind (check_budget_record s) (\<lambda>_.
           res_bind (require_spec reg (case en_workflow (ts_env s) of None \<Rightarrow> [] | Some n \<Rightarrow> n)) (\<lambda>sp.
           res_bind (ensure (en_workflow_fp (ts_env s) = Some (spec_fingerprint P sp))
             (ValueError ''workflow definition changed since this run started'')) (\<lambda>_.
           let s1 = (case load_plan sid d of None \<Rightarrow> s | Some g \<Rightarrow> s\<lparr>ts_plan := g\<rparr>) in
           res_bind (iter_res (\<lambda>(k, n). res_bind (validate_plan_node n) (\<lambda>_. Inr ())) (g_nodes (ts_plan s1))) (\<lambda>_.
           res_bind (check_selection_record P s1 sp) (\<lambda>_. Inr (s1, sp)))))))))))"

definition load_act :: "platform \<Rightarrow> registry \<Rightarrow> string \<Rightarrow> (wf_state \<times> workflow_spec) act" where
  "load_act P reg sid d = (d, load_run P reg sid d)"

definition save_act :: "wf_state \<Rightarrow> unit act" where
  "save_act s d = save_state s d"

section \<open>Reports and checkpoints\<close>

definition ids_with :: "string \<Rightarrow> plan_node list \<Rightarrow> string list" where
  "ids_with status ns = map n_id (filter (\<lambda>n. n_status n = status) ns)"

definition report :: "wf_state \<Rightarrow> workflow_spec \<Rightarrow> string \<Rightarrow> run_report res" where
  "report s sp message =
     res_bind (topological_order (ts_plan s)) (\<lambda>nodes.
     res_bind (ready_nodes (ts_plan s)) (\<lambda>ready.
       Inr \<lparr>rp_session = ts_session_id s, rp_workflow = sp_name sp, rp_version = sp_version sp,
         rp_status = ts_status s, rp_goal = ts_objective s, rp_target = target_text s,
         rp_ready = map n_id ready, rp_completed = ids_with ''success'' nodes,
         rp_failed = ids_with ''error'' nodes, rp_needs_review = ids_with ''needs_review'' nodes,
         rp_message = message\<rparr>))"

definition set_env :: "(core_env \<Rightarrow> core_env) \<Rightarrow> wf_state \<Rightarrow> wf_state" where
  "set_env f s = s\<lparr>ts_env := f (ts_env s)\<rparr>"

definition checkpoint :: "wf_state \<Rightarrow> string \<Rightarrow> string \<Rightarrow> string \<Rightarrow> bool \<Rightarrow> wf_state act" where
  "checkpoint s k status summary increment =
     act_bind (act_res (mark k status (take 500 summary) (ts_plan s))) (\<lambda>g.
     let s1 = touch (s\<lparr>ts_plan := g\<rparr>) in
     act_bind (\<lambda>d. (checkpoint_plan_node (ts_session_id s) k status (take 500 summary) increment d, Inr ())) (\<lambda>_.
     act_bind (save_act s1) (\<lambda>_. act_res (Inr s1))))"

definition finish_report :: "wf_state \<Rightarrow> workflow_spec \<Rightarrow> string \<Rightarrow> run_report act" where
  "finish_report s sp message = act_bind (save_act s) (\<lambda>_. act_res (report s sp message))"

section \<open>Starting a run\<close>

definition plan_fingerprints :: "platform \<Rightarrow> plan_graph \<Rightarrow> (string, string) dict" where
  "plan_fingerprints P g = map (\<lambda>(k, n). (k, material_fingerprint (sha_node P) n)) (g_nodes g)"

definition initial_env :: "platform \<Rightarrow> workflow_spec \<Rightarrow> string \<Rightarrow> core_env" where
  "initial_env P sp target = empty_env
     \<lparr>en_workflow := Some (sp_name sp), en_workflow_version := Some (sp_version sp),
      en_workflow_fp := Some (spec_fingerprint P sp), en_target := Some target\<rparr>"

definition initial_state ::
  "platform \<Rightarrow> string \<Rightarrow> workflow_spec \<Rightarrow> string \<Rightarrow> string \<Rightarrow> string list \<Rightarrow> string list \<Rightarrow> plan_graph \<Rightarrow> wf_state" where
  "initial_state P sid sp goal target reads writes g =
     \<lparr>ts_session_id = sid, ts_revision = 0, ts_objective = goal, ts_mode = sp_mode sp,
      ts_scope = \<lparr>sv_read_roots = reads, sv_write_roots = writes,
        sv_targets = (if target \<noteq> [] then [target] else []), sv_allow_destructive = False\<rparr>,
      ts_constraints = [], ts_env = initial_env P sp target, ts_hypotheses = [], ts_plan = g, ts_actions = [],
      ts_observations = [], ts_findings = [], ts_artifacts = [], ts_active_nodes = [], ts_questions = [],
      ts_completion = [], ts_status = Investigating\<rparr>"

text \<open>The optional parts: selection with its strategy, a budget, an origin, an inherited task.\<close>

definition inherit :: "wf_state option \<Rightarrow> wf_state \<Rightarrow> wf_state" where
  "inherit parent s = (case parent of None \<Rightarrow> s
     | Some p \<Rightarrow> s\<lparr>ts_scope := ts_scope p, ts_constraints := ts_constraints p, ts_completion := ts_completion p\<rparr>)"

definition furnish ::
  "(selection \<times> core_strategy) option \<Rightarrow> core_budget option \<Rightarrow> replan_origin option \<Rightarrow> wf_state option
     \<Rightarrow> wf_state \<Rightarrow> wf_state" where
  "furnish selected budget origin parent s = inherit parent (set_env (\<lambda>e. e
     \<lparr>en_selection := map_option fst selected, en_strategy := map_option snd selected,
      en_budget := budget, en_origin := origin\<rparr>) s)"

definition start_run ::
  "platform \<Rightarrow> string \<Rightarrow> workflow_spec \<Rightarrow> string \<Rightarrow> string \<Rightarrow> string list \<Rightarrow> string list \<Rightarrow> selection option
     \<Rightarrow> core_budget option \<Rightarrow> replan_origin option \<Rightarrow> wf_state option \<Rightarrow> run_report act" where
  "start_run P sid sp goal target reads writes sel budget origin parent =
     act_bind (act_check (\<not> (sp_target_required sp \<and> strip target = []))
       (''workflow '' @ quoted (sp_name sp) @ '' requires an explicit target'')) (\<lambda>_.
     act_bind (act_res (case sel of None \<Rightarrow> Inr None
         | Some x \<Rightarrow> res_bind (strategy_of P sp) (\<lambda>c. Inr (Some (x, c))))) (\<lambda>selected.
     act_bind (\<lambda>d. case create_session sid goal target d of Inl e \<Rightarrow> (d, Inl e) | Inr d' \<Rightarrow> (d', Inr ())) (\<lambda>_.
     act_bind (act_res (to_plan sp goal)) (\<lambda>g.
     let s = furnish selected budget origin parent (initial_state P sid sp goal target reads writes g) in
     act_bind (save_plan sid g (plan_fingerprints P g)) (\<lambda>_.
       finish_report s sp ''workflow created'')))))"

definition start :: "platform \<Rightarrow> registry \<Rightarrow> string \<Rightarrow> string \<Rightarrow> string \<Rightarrow> string \<Rightarrow> string list \<Rightarrow> string list \<Rightarrow> run_report act" where
  "start P reg sid name goal target reads writes =
     act_bind (act_res (require_spec reg name)) (\<lambda>sp.
       start_run P sid sp goal target reads writes None None None None)"

text \<open>The reviewed specification a selection names, still the one that was reviewed.\<close>

definition selected_spec :: "platform \<Rightarrow> registry \<Rightarrow> selection \<Rightarrow> string \<Rightarrow> workflow_spec res" where
  "selected_spec P reg sel msg = (case (se_outcome sel, se_workflow sel) of
     (Selected, Some w) \<Rightarrow>
       res_bind (require_spec reg (rw_name w)) (\<lambda>sp.
       res_bind (ensure (spec_fingerprint P sp = rw_fingerprint w) (ValueError msg)) (\<lambda>_. Inr sp))
   | _ \<Rightarrow> Inl (ValueError (select_text (se_reason sel))))"

definition start_core ::
  "platform \<Rightarrow> registry \<Rightarrow> string \<Rightarrow> core_intent \<Rightarrow> reviewed_workflow list \<Rightarrow> string \<Rightarrow> string list \<Rightarrow> string list
     \<Rightarrow> mission_budget option \<Rightarrow> run_report act" where
  "start_core P reg sid intent0 reviewed target reads writes budget =
     act_bind (act_res (validate_intent intent0)) (\<lambda>intent.
     act_bind (act_res (case budget of None \<Rightarrow> Inr None
         | Some m \<Rightarrow> res_bind (validate_mission_budget m) (\<lambda>m. Inr (Some m)))) (\<lambda>limits.
     act_bind (act_res (select P reg intent reviewed)) (\<lambda>sel.
     act_bind (act_res (selected_spec P reg sel ''reviewed workflow changed before plan creation'')) (\<lambda>sp.
       start_run P sid sp (redact_text (ci_objective intent)) target reads writes (Some sel)
         (map_option (\<lambda>m. \<lparr>bu_limits = m, bu_dispatches = 0, bu_steps = 0\<rparr>) limits) None None))))"

definition run_status :: "platform \<Rightarrow> registry \<Rightarrow> string \<Rightarrow> run_report act" where
  "run_status P reg sid = act_bind (load_act P reg sid) (\<lambda>(s, sp). act_res (report s sp []))"

section \<open>Core decisions\<close>

definition decide_core :: "platform \<Rightarrow> registry \<Rightarrow> string \<Rightarrow> core_decision act" where
  "decide_core P reg sid =
     act_bind (load_act P reg sid) (\<lambda>(s, sp).
     act_bind (act_res (decide P s sp)) (\<lambda>d.
     act_bind (save_act (set_env (\<lambda>e. e\<lparr>en_decision := Some d, en_consumed := Some False\<rparr>) s)) (\<lambda>_.
       act_res (Inr d))))"

definition validate_core_decision :: "platform \<Rightarrow> wf_state \<Rightarrow> workflow_spec \<Rightarrow> core_decision \<Rightarrow> unit res" where
  "validate_core_decision P s sp d =
     res_bind (case en_decision (ts_env s) of
         None \<Rightarrow> Inl (ValueError ''Core decision was not issued for this task'')
       | Some x \<Rightarrow> (case validate_decision x of
             Inl e \<Rightarrow> Inl (ValueError ''Core decision was not issued for this task'') | Inr x \<Rightarrow> Inr x)) (\<lambda>issued.
     res_bind (decide P s sp) (\<lambda>expected.
       ensure (en_consumed (ts_env s) = Some False \<and> issued = d \<and> expected = d)
         (ValueError ''Core decision is stale, altered, or already consumed'')))"

definition issued_core :: "platform \<Rightarrow> registry \<Rightarrow> string \<Rightarrow> string \<Rightarrow> core_decision act" where
  "issued_core P reg sid fingerprint =
     act_bind (load_act P reg sid) (\<lambda>(s, sp).
     act_bind (act_res (case en_decision (ts_env s) of
         None \<Rightarrow> Inl (ValueError ''core_decision'') | Some x \<Rightarrow> validate_decision x)) (\<lambda>d.
     act_bind (act_check (sha_decision P d = fingerprint)
       ''Core decision identifier does not match the issued decision'') (\<lambda>_.
     act_bind (act_res (validate_core_decision P s sp d)) (\<lambda>_. act_res (Inr d)))))"

text \<open>The common beginning of the Core operations: load the decision's run and check the decision.\<close>

definition open_decision :: "platform \<Rightarrow> registry \<Rightarrow> core_decision \<Rightarrow> (wf_state \<times> workflow_spec) act" where
  "open_decision P reg d0 =
     act_bind (act_res (validate_decision d0)) (\<lambda>d.
     act_bind (load_act P reg (cd_session d)) (\<lambda>(s, sp).
     act_bind (act_res (validate_core_decision P s sp d)) (\<lambda>_. act_res (Inr (s, sp)))))"

definition consume :: "wf_state \<Rightarrow> wf_state" where
  "consume = set_env (\<lambda>e. e\<lparr>en_consumed := Some True\<rparr>)"

definition approve_human_stage :: "wf_state \<Rightarrow> workflow_spec \<Rightarrow> string \<Rightarrow> wf_state act" where
  "approve_human_stage s sp k =
     act_bind (act_res (find_stage sp k)) (\<lambda>st.
     act_bind (act_res (node_at (ts_plan s) k)) (\<lambda>n.
     act_bind (act_check (st_execution st = Human) (''stage '' @ quoted k @ '' is not a human approval stage'')) (\<lambda>_.
     act_bind (act_check (n_status n = ''needs_review'') (''stage '' @ quoted k @ '' is not awaiting approval'')) (\<lambda>_.
     act_bind (act_res (deps_success (ts_plan s) (n_depends_on n))) (\<lambda>ok.
     act_bind (act_check ok (''stage '' @ quoted k @ '' dependencies are not complete'')) (\<lambda>_.
     let s1 = record_observation (''workflow:'' @ k)
           \<lparr>oi_success = True, oi_summary = ''approved by human'', oi_data = [(''approved'', JBool True)],
            oi_evidence_id = [], oi_evidence_sha = []\<rparr>
           (record_action (''workflow:'' @ k) [(''approved'', JBool True)] ''human approval'' s) in
     act_bind (checkpoint s1 k ''success'' ''approved by human'' False) (\<lambda>s2.
     let s3 = mark_task Investigating s2 in
     act_bind (save_act s3) (\<lambda>_. act_res (Inr s3)))))))))"

definition approve_core_stage :: "platform \<Rightarrow> registry \<Rightarrow> core_decision \<Rightarrow> run_report act" where
  "approve_core_stage P reg d =
     act_bind (open_decision P reg d) (\<lambda>(s, sp).
     act_bind (act_check (cd_outcome d = AwaitApproval)
       ''explicit Core gate approval requires an awaiting-human decision'') (\<lambda>_.
     let s1 = consume s in
     act_bind (save_act s1) (\<lambda>_.
     act_bind (act_res (node_at (ts_plan s1) (cd_stage d))) (\<lambda>n.
     act_bind (if n_status n = ''pending''
               then checkpoint s1 (cd_stage d) ''needs_review'' (decision_text (cd_reason d)) False
               else act_res (Inr s1)) (\<lambda>s2.
     act_bind (approve_human_stage s2 sp (cd_stage d)) (\<lambda>s3.
       act_res (report s3 sp ''human workflow gate approved; request a fresh Core decision'')))))))"

fun disposition_text :: "disposition \<Rightarrow> string" where
  "disposition_text Acknowledged = ''acknowledged''"
| "disposition_text Rejected = ''rejected''"

definition review_core :: "platform \<Rightarrow> registry \<Rightarrow> review_resolution \<Rightarrow> run_report act" where
  "review_core P reg r0 =
     act_bind (act_res (validate_resolution r0)) (\<lambda>r.
     let d = rr_decision r in
     act_bind (load_act P reg (cd_session d)) (\<lambda>(s, sp).
     act_bind (act_res (validate_core_decision P s sp d)) (\<lambda>_.
       finish_report (mark_task (if cd_outcome d = DecFailed then TaskFailed else TaskBlocked)
           (set_env (\<lambda>e. e\<lparr>en_consumed := Some True, en_resolution := Some r\<rparr>) s)) sp
         (''Core review '' @ disposition_text (rr_disposition r) @ ''; mission remains stopped; no changes applied''))))"

definition halt :: "task_status list \<Rightarrow> wf_state \<Rightarrow> wf_state" where
  "halt keep s = (if ts_status s \<in> set keep then touch s else mark_task TaskBlocked s)"

definition stop_core :: "platform \<Rightarrow> registry \<Rightarrow> core_decision \<Rightarrow> run_report act" where
  "stop_core P reg d =
     act_bind (open_decision P reg d) (\<lambda>(s, sp).
       finish_report (halt [TaskComplete, TaskFailed]
           (set_env (\<lambda>e. e\<lparr>en_stop := Some \<lparr>cm_decision = d\<rparr>, en_consumed := Some True\<rparr>) s)) sp
         ''mission explicitly stopped by human; no automatic resume'')"

definition running_work :: "wf_state \<Rightarrow> bool" where
  "running_work s = (pending_dispatch s \<or> list_ex (\<lambda>(k, n). n_status n = ''running'') (g_nodes (ts_plan s)))"

text \<open>The parent after a replan was accepted, and the last part: the replacement is created and linked.\<close>

definition superseded :: "core_decision \<Rightarrow> replan_transition \<Rightarrow> wf_state \<Rightarrow> wf_state" where
  "superseded d t s = halt [TaskFailed] (set_env (\<lambda>e. e\<lparr>en_transition := Some t, en_stop := Some \<lparr>cm_decision = d\<rparr>,
     en_consumed := Some True\<rparr>) s)"

definition enact_replan ::
  "platform \<Rightarrow> string \<Rightarrow> workflow_spec \<Rightarrow> selection \<Rightarrow> core_budget option \<Rightarrow> core_decision \<Rightarrow> wf_state \<Rightarrow> run_report act" where
  "enact_replan P new_sid sp2 sel budget d s1 =
     act_bind (save_act s1) (\<lambda>_.
     act_bind (act_res (validate_origin \<lparr>ro_parent = ts_session_id s1, ro_decision_fp = sha_decision P d\<rparr>)) (\<lambda>origin.
     act_bind (start_run P new_sid sp2 (ts_objective s1) (target_text s1) (sv_read_roots (ts_scope s1))
        (sv_write_roots (ts_scope s1)) (Some sel) budget (Some origin) (Some s1)) (\<lambda>created.
     act_bind (act_res (make_transition \<lparr>rt_decision = d, rt_replacement = sel, rt_session = rp_session created\<rparr>)) (\<lambda>t2.
     act_bind (save_act (touch (set_env (\<lambda>e. e\<lparr>en_transition := Some t2\<rparr>) s1))) (\<lambda>_.
       act_res (Inr (created\<lparr>rp_message :=
         ''human reviewed replacement; prior run stopped; no authority expanded''\<rparr>)))))))"

definition replan_core ::
  "platform \<Rightarrow> registry \<Rightarrow> string \<Rightarrow> core_decision \<Rightarrow> core_intent \<Rightarrow> reviewed_workflow list \<Rightarrow> run_report act" where
  "replan_core P reg new_sid d0 intent0 reviewed =
     act_bind (act_res (validate_decision d0)) (\<lambda>d.
     act_bind (act_res (validate_intent intent0)) (\<lambda>intent.
     act_bind (load_act P reg (cd_session d)) (\<lambda>(s, sp).
     act_bind (act_res (validate_core_decision P s sp d)) (\<lambda>_.
     act_bind (act_check (cd_review d \<noteq> None \<and> en_stop (ts_env s) = None)
       ''Core replanning requires an unresolved review stop'') (\<lambda>_.
     act_bind (act_check (ts_questions s = []) ''unanswered mission input must be resolved before replanning'') (\<lambda>_.
     act_bind (act_check (\<not> running_work s) ''interrupted or running work must be reconciled before replanning'') (\<lambda>_.
     act_bind (act_res (mission_intent P s)) (\<lambda>fp.
     act_bind (act_check (intent_fingerprint P intent = fp)
       ''Core replanning cannot change the mission objective or mode'') (\<lambda>_.
     act_bind (\<lambda>db. (db, validate_lineage P db s)) (\<lambda>depth.
     act_bind (act_check (depth < 32) ''Core replacement lineage is bounded to 32 transitions'') (\<lambda>_.
     act_bind (act_res (select P reg intent reviewed)) (\<lambda>sel.
     act_bind (act_res (selected_spec P reg sel ''reviewed replacement changed before plan creation'')) (\<lambda>sp2.
     act_bind (act_res (strategy_of P sp2)) (\<lambda>_.
     act_bind (act_check (\<not> (sp_target_required sp2 \<and> strip (target_text s) = []))
       ''reviewed replacement requires an existing authorized target'') (\<lambda>_.
     act_bind (act_res (case en_budget (ts_env s) of None \<Rightarrow> Inr None
         | Some b \<Rightarrow> res_bind (validate_budget b) (\<lambda>b. Inr (Some b)))) (\<lambda>budget.
     act_bind (act_res (make_transition \<lparr>rt_decision = d, rt_replacement = sel, rt_session = []\<rparr>)) (\<lambda>t.
       enact_replan P new_sid sp2 sel budget d (superseded d t s))))))))))))))))))"

section \<open>Running a stage\<close>

text \<open>The recorded \<open>final\<close> is a text; only an executor's own data could put another value there.\<close>

definition prior_results :: "wf_state \<Rightarrow> prior_result list" where
  "prior_results s = map (\<lambda>ob. \<lparr>pr_stage = drop 9 (os_tool ob), pr_success = os_success ob, pr_summary = os_summary ob,
       pr_final = (case map_of (os_data ob) ''final'' of Some (JStr t) \<Rightarrow> take 4000 t | _ \<Rightarrow> [])\<rparr>)
     (filter (\<lambda>ob. starts_with (os_tool ob) ''workflow:'') (last_n 8 (ts_observations s)))"

definition context_of :: "wf_state \<Rightarrow> workflow_spec \<Rightarrow> workflow_stage \<Rightarrow> stage_context" where
  "context_of s sp st = \<lparr>cx_session = ts_session_id s, cx_workflow = sp_name sp, cx_version = sp_version sp,
     cx_goal = ts_objective s, cx_target = target_text s, cx_stage = st, cx_guidance = sp_guidance sp,
     cx_prior = prior_results s\<rparr>"

text \<open>
  How an executor's call ends: with a stage result (it was validated when it was constructed), with
  a cancellation, or with any other exception, which includes a value that is not a stage result.
\<close>

datatype exec_end = ExecResult stage_result | ExecCancelled | ExecRaises

type_synonym executor = "nat \<Rightarrow> stage_context \<Rightarrow> wf_state \<Rightarrow> exec_end \<times> stage_context \<times> wf_state"

definition raised_result :: stage_result where
  "raised_result = (failed_result OutcomeFailed ''stage executor failed; no automatic replay'')
     \<lparr>sr_summary := ''stage executor failed''\<rparr>"

definition executor_result ::
  "platform \<Rightarrow> active_runtime \<Rightarrow> bool \<Rightarrow> wf_state \<Rightarrow> exec_end \<Rightarrow> stage_result res" where
  "executor_result P rt core w ended =
     (let raised = finish P rt w None (Some EscExecution) raised_result in
      case ended of
        ExecCancelled \<Rightarrow> finish P rt w None (Some EscCancellation)
          (failed_result OutcomeBlocked ''workflow stage cancelled; review required'')
      | ExecRaises \<Rightarrow> raised
      | ExecResult r \<Rightarrow>
          if core \<and> sr_active r = None
          then (case finish P rt w None None r of Inr r' \<Rightarrow> Inr r' | Inl e \<Rightarrow> raised)
          else Inr r)"

text \<open>A failed check replaces the result by a blocked one with its escalation.\<close>

definition demand ::
  "platform \<Rightarrow> active_runtime \<Rightarrow> wf_state \<Rightarrow> bool \<Rightarrow> string \<Rightarrow> escalation_kind \<Rightarrow> stage_result \<Rightarrow> stage_result res" where
  "demand P rt w ok error kind r =
     (if ok then Inr r else finish P rt w None (Some kind) (failed_result OutcomeBlocked error))"

definition active_bound :: "platform \<Rightarrow> wf_state \<Rightarrow> workflow_stage \<Rightarrow> stage_result \<Rightarrow> bool res" where
  "active_bound P s st r = (case sr_active r of None \<Rightarrow> Inr True
     | Some a \<Rightarrow>
         if ar_session_id a \<noteq> ts_session_id s \<or> ar_node_id a \<noteq> st_id st
            \<or> Some (ar_workflow_fp a) \<noteq> en_workflow_fp (ts_env s) then Inr False
         else res_bind (node_at (ts_plan s) (st_id st)) (\<lambda>n.
           Inr (ar_node_fp a = material_fingerprint (sha_node P) n)))"

text \<open>
  The checks on a result, in the order of the code. \<open>w\<close> is the working state as the executor left
  it, \<open>s\<close> the runner's own; without a decision they are the same object.
\<close>

definition judge ::
  "platform \<Rightarrow> active_runtime \<Rightarrow> workflow_spec \<Rightarrow> core_decision option \<Rightarrow> workflow_stage \<Rightarrow> wf_state
     \<Rightarrow> stage_context \<Rightarrow> stage_context \<Rightarrow> string \<Rightarrow> wf_state \<Rightarrow> exec_end
     \<Rightarrow> (stage_result \<times> bool \<times> string list) res" where
  "judge P rt sp core st s cx cx' digest0 w ended =
     res_bind (executor_result P rt (core \<noteq> None) w ended) (\<lambda>r0.
     res_bind (demand P rt w (case core of None \<Rightarrow> True | Some d \<Rightarrow>
           core_state_fingerprint P w = digest0 \<and> unchanged P rt w
           \<and> spec_fingerprint P sp = cd_workflow_fp d \<and> cx' = cx)
         ''delegated Active envelope changed; review required'' EscMaterialChange r0) (\<lambda>r1.
     res_bind (active_bound P s st r1) (\<lambda>bound.
     res_bind (demand P rt w bound ''active result does not match the durable workflow node'' EscMaterialChange r1) (\<lambda>r2.
     res_bind (demand P rt w (case (core, sr_active r2) of
             (Some d, Some a) \<Rightarrow> ar_attempts a \<le> cd_max_steps d | _ \<Rightarrow> True)
         ''Active result exceeded delegated stage bounds'' EscBudget r2) (\<lambda>r3.
     let (ok, failures) = gate_check (sha_path P) (st_gate st) r3 None in
     res_bind (demand P rt w (case sr_active r3 of None \<Rightarrow> True | Some a \<Rightarrow> ar_gate_passed a = ok)
         ''active result gate differs from durable workflow gate'' EscVerification r3) (\<lambda>r4.
       Inr (r4, gate_check (sha_path P) (st_gate st) r4 None)))))))"

fun outcome_value :: "active_outcome \<Rightarrow> string" where
  "outcome_value Completed = ''completed''"
| "outcome_value NeedsReplan = ''needs_replan''"
| "outcome_value OutcomeBlocked = ''blocked''"
| "outcome_value OutcomeFailed = ''failed''"

definition or_text :: "string \<Rightarrow> string \<Rightarrow> string" where
  "or_text a b = (if a \<noteq> [] then a else b)"

definition record_stage_result :: "wf_state \<Rightarrow> workflow_stage \<Rightarrow> stage_result \<Rightarrow> wf_state act" where
  "record_stage_result s st r =
     (let tool = ''workflow:'' @ st_id st;
          s1 = (case sr_active r of None \<Rightarrow> s
                | Some a \<Rightarrow> s\<lparr>ts_active_nodes := dict_set (st_id st) a (ts_active_nodes s)\<rparr>);
          base = [(''final'', JStr (sr_final r)), (''successful_actions'', JInt (sr_actions r)),
                  (''outcome'', JStr (outcome_value (sr_outcome r))),
                  (''failed_criteria'', JList (map JStr (sr_failed r)))];
          s2 = record_observation tool
            \<lparr>oi_success = sr_success r, oi_summary = or_text (sr_summary r) (take 400 (sr_final r)),
             oi_data = fold (\<lambda>(k, v). dict_set k v) (sr_data r) base,
             oi_evidence_id = (case sr_evidence r of [] \<Rightarrow> [] | l # _ \<Rightarrow> el_id l),
             oi_evidence_sha = (case sr_evidence r of [] \<Rightarrow> [] | l # _ \<Rightarrow> el_sha256 l)\<rparr> s1;
          s3 = fold (\<lambda>l. add_artifact
            \<lparr>at_source = tool, at_action = st_id st, at_related_step = length (ts_observations s2),
             at_summary = or_text (el_summary l) (sr_summary r), at_evidence_id = el_id l,
             at_evidence_hash = el_sha256 l, at_confidence = ''medium''\<rparr>) (tl (sr_evidence r)) s2
      in act_bind (save_act s3) (\<lambda>_. act_res (Inr s3)))"

text \<open>What one turn of the loop leads to: another turn, or the report of the run.\<close>

datatype turn = NextTurn wf_state | EndTurn run_report

definition end_turn :: "wf_state \<Rightarrow> workflow_spec \<Rightarrow> string \<Rightarrow> turn act" where
  "end_turn s sp message = act_bind (finish_report s sp message) (\<lambda>r. act_res (Inr (EndTurn r)))"

definition settle_stage ::
  "core_decision option \<Rightarrow> workflow_spec \<Rightarrow> workflow_stage \<Rightarrow> stage_result \<Rightarrow> bool \<Rightarrow> string list \<Rightarrow> wf_state \<Rightarrow> turn act" where
  "settle_stage core sp st r ok failures s =
     (if ok then
        act_bind (checkpoint s (st_id st) ''success'' (or_text (sr_summary r) (sr_final r)) False) (\<lambda>s1.
          if core \<noteq> None \<and> list_ex (\<lambda>(k, n). n_status n \<noteq> ''success'') (g_nodes (ts_plan s1))
          then end_turn (mark_task Investigating s1) sp ''one Core stage completed; request a fresh decision''
          else act_res (Inr (NextTurn s1)))
      else (let reason = join_with ''; '' failures in
        if sr_outcome r \<in> {NeedsReplan, OutcomeBlocked} then
          act_bind (checkpoint s (st_id st) ''needs_review'' reason False) (\<lambda>s1.
            end_turn (mark_task TaskBlocked s1) sp reason)
        else
          act_bind (checkpoint s (st_id st) ''error'' reason False) (\<lambda>s1.
            end_turn (mark_task TaskFailed s1) sp reason)))"

definition run_stage ::
  "platform \<Rightarrow> executor \<Rightarrow> nat \<Rightarrow> core_decision option \<Rightarrow> core_budget option \<Rightarrow> workflow_spec \<Rightarrow> workflow_stage
     \<Rightarrow> wf_state \<Rightarrow> turn act" where
  "run_stage P ex calls core reserved sp st s =
     act_bind (checkpoint s (st_id st) ''running'' [] True) (\<lambda>s1.
     let s2 = record_action (''workflow:'' @ st_id st)
           [(''workflow'', JStr (sp_name sp)), (''stage'', JStr (st_id st))]
           (''execute deterministic workflow stage '' @ st_id st) s1;
         cx = context_of s2 sp st in
     act_bind (act_res (start_runtime P s2 cx)) (\<lambda>rt.
     case ex calls cx s2 of (ended, cx', w) \<Rightarrow>
       let s3 = (if core \<noteq> None then s2 else w) in
       act_bind (act_res (judge P rt sp core st s3 cx cx' (core_state_fingerprint P s2) w ended)) (\<lambda>(r, ok, failures).
       let s4 = (case reserved of None \<Rightarrow> s3 | Some b \<Rightarrow> set_env (\<lambda>e. e\<lparr>en_budget := Some b\<rparr>) s3) in
       act_bind (record_stage_result s4 st r) (\<lambda>s5.
       let s6 = (if core \<noteq> None then set_env (\<lambda>e. e\<lparr>en_dispatch := None\<rparr>) s5 else s5) in
         settle_stage core sp st r ok failures s6))))"

section \<open>Advancing a run\<close>

definition chosen_node :: "core_decision option \<Rightarrow> wf_state \<Rightarrow> plan_node list \<Rightarrow> plan_node res" where
  "chosen_node core s ready = (case core of
     None \<Rightarrow> Inr (hd ready)
   | Some d \<Rightarrow> res_bind (node_at (ts_plan s) (cd_stage d)) (\<lambda>n.
       res_bind (ensure (n \<in> set ready) (ValueError ''Core delegated stage is no longer ready'')) (\<lambda>_. Inr n)))"

definition close_act :: "string \<Rightarrow> unit act" where
  "close_act sid d = (close_session sid d, Inr ())"

text \<open>The part after the loop: no node is ready any more.\<close>

definition conclude :: "platform \<Rightarrow> string \<Rightarrow> wf_state \<Rightarrow> workflow_spec \<Rightarrow> run_report act" where
  "conclude P sid s sp =
     (let statuses = map (\<lambda>(k, n). n_status n) (g_nodes (ts_plan s)) in
      if set statuses \<subseteq> {''success'', ''skipped''} then
        act_bind (act_res (if en_selection (ts_env s) = None then Inr None
            else res_bind (decide P s sp) (\<lambda>d. Inr (Some d)))) (\<lambda>completion.
          case completion of
            Some d \<Rightarrow> if cd_outcome d \<noteq> DecComplete
              then finish_report (mark_task TaskBlocked s) sp (decision_text (cd_reason d))
              else act_bind (close_act sid) (\<lambda>_. finish_report (mark_task TaskComplete s) sp ''workflow complete'')
          | None \<Rightarrow> act_bind (close_act sid) (\<lambda>_. finish_report (mark_task TaskComplete s) sp ''workflow complete''))
      else if ''needs_review'' \<in> set statuses then
        finish_report (mark_task TaskBlocked s) sp ''workflow paused for review''
      else if ''error'' \<in> set statuses then finish_report (mark_task TaskFailed s) sp ''workflow failed''
      else finish_report (mark_task TaskBlocked s) sp ''workflow has no runnable stage'')"

text \<open>
  The loop. Its result holds the list of stages handed to the executor. \<open>fuel\<close> bounds the turns,
  because an executor that is given the runner's own state could make finished nodes ready again;
  \<open>spent\<close> is what happens when the fuel ends. \<open>advance_terminates\<close> shows when it never does.
\<close>

definition out_of_fuel :: "(run_report \<times> string list) act" where
  "out_of_fuel = act_res (Inl (RuntimeError ''out of fuel''))"

fun advance_loop ::
  "(run_report \<times> string list) act \<Rightarrow> nat \<Rightarrow> platform \<Rightarrow> executor \<Rightarrow> nat \<Rightarrow> core_decision option \<Rightarrow> core_budget option \<Rightarrow> string \<Rightarrow> workflow_spec
     \<Rightarrow> wf_state \<Rightarrow> (run_report \<times> string list) act" where
  "advance_loop spent 0 P ex calls core reserved sid sp s = spent"
| "advance_loop spent (Suc fuel) P ex calls core reserved sid sp s =
     act_bind (act_res (ready_nodes (ts_plan s))) (\<lambda>ready.
       if ready = [] then act_bind (conclude P sid s sp) (\<lambda>r. act_res (Inr (r, [])))
       else
         act_bind (act_res (chosen_node core s ready)) (\<lambda>n.
         act_bind (act_res (find_stage sp (n_id n))) (\<lambda>st.
           if st_execution st = Human then
             act_bind (checkpoint s (st_id st) ''needs_review'' ''explicit human approval required'' False) (\<lambda>s1.
             act_bind (finish_report (mark_task TaskBlocked s1) sp
                 (''stage '' @ quoted (st_id st) @ '' requires explicit approval'')) (\<lambda>r. act_res (Inr (r, []))))
           else
             act_bind (run_stage P ex calls core reserved sp st s) (\<lambda>t. case t of
                 EndTurn r \<Rightarrow> act_res (Inr (r, [st_id st]))
               | NextTurn s1 \<Rightarrow>
                   act_bind (advance_loop spent fuel P ex (Suc calls) core reserved sid sp s1) (\<lambda>(r, ks).
                     act_res (Inr (r, st_id st # ks)))))))"

definition recover_act :: "string \<Rightarrow> string list act" where
  "recover_act sid d = (case recover_interrupted_plan sid d of (ids, d') \<Rightarrow> (d', Inr ids))"

text \<open>From the recovery of interrupted stages on; \<open>approve_stage\<close> is the stage to approve, if any.\<close>

definition proceed ::
  "nat \<Rightarrow> platform \<Rightarrow> registry \<Rightarrow> executor \<Rightarrow> string \<Rightarrow> string \<Rightarrow> core_decision option \<Rightarrow> core_budget option
     \<Rightarrow> wf_state \<Rightarrow> workflow_spec \<Rightarrow> (run_report \<times> string list) act" where
  "proceed fuel P reg ex sid approve_stage core reserved s sp =
     act_bind (recover_act sid) (\<lambda>interrupted.
       if interrupted \<noteq> [] then
         act_bind (load_act P reg sid) (\<lambda>(s, sp).
         act_bind (finish_report (mark_task TaskBlocked s) sp
             (''interrupted stages require review; automatic retry is disabled: '' @ join_with '', '' interrupted))
           (\<lambda>r. act_res (Inr (r, []))))
       else
         act_bind (if approve_stage \<noteq> [] then approve_human_stage s sp approve_stage else act_res (Inr s)) (\<lambda>s1.
           advance_loop out_of_fuel fuel P ex 0 core reserved sid sp s1))"

text \<open>\<open>run\<close>: the compatibility path, without a decision.\<close>

definition compatible :: "platform \<Rightarrow> wf_state \<Rightarrow> workflow_spec \<Rightarrow> unit res" where
  "compatible P s sp =
     (if en_stop (ts_env s) \<noteq> None then Inl (ValueError ''stopped Core mission cannot resume automatically'')
      else if pending_dispatch s then
        Inl (ValueError ''interrupted Core handoff requires review; no automatic replay'')
      else if en_budget (ts_env s) \<noteq> None then
        Inl (ValueError ''budgeted Core missions require the bounded run_core path'')
      else if en_selection (ts_env s) = None then Inr ()
      else res_bind (decide P s sp) (\<lambda>d. ensure (cd_review d = None)
        (ValueError ''Core review stop cannot be bypassed by compatibility execution'')))"

definition run_workflow ::
  "nat \<Rightarrow> platform \<Rightarrow> registry \<Rightarrow> executor \<Rightarrow> string \<Rightarrow> string \<Rightarrow> (run_report \<times> string list) act" where
  "run_workflow fuel P reg ex sid approve_stage =
     act_bind (load_act P reg sid) (\<lambda>(s, sp).
     act_bind (act_res (compatible P s sp)) (\<lambda>_.
       proceed fuel P reg ex sid approve_stage None None s sp))"

text \<open>A decision that does not delegate only records where the mission stands.\<close>

definition apply_outcome :: "core_decision \<Rightarrow> wf_state \<Rightarrow> wf_state" where
  "apply_outcome d s =
     (if cd_outcome d = Stopped \<and> ts_status s \<in> {TaskComplete, TaskFailed} then touch s
      else mark_task (if cd_outcome d = DecComplete then TaskComplete
                      else if cd_outcome d = DecFailed then TaskFailed else TaskBlocked) s)"

definition run_undelegated :: "core_decision \<Rightarrow> wf_state \<Rightarrow> workflow_spec \<Rightarrow> run_report act" where
  "run_undelegated d s sp =
     act_bind (if cd_outcome d = AwaitApproval
               then checkpoint s (cd_stage d) ''needs_review'' (decision_text (cd_reason d)) False
               else act_res (Inr s)) (\<lambda>s1.
     let s2 = apply_outcome d s1 in
     act_bind (save_act s2) (\<lambda>_.
     act_bind (if ts_status s2 = TaskComplete then close_act (cd_session d) else act_res (Inr ())) (\<lambda>_.
       act_res (report s2 sp (decision_text (cd_reason d))))))"

text \<open>A delegated stage: the dispatch is noted and the budget reserved before anything runs.\<close>

definition reserve_dispatch :: "core_decision \<Rightarrow> wf_state \<Rightarrow> (wf_state \<times> core_budget option) res" where
  "reserve_dispatch d s =
     (let s1 = set_env (\<lambda>e. e\<lparr>en_dispatch := Some (cd_stage d)\<rparr>) s in
      case en_budget (ts_env s) of
        None \<Rightarrow> Inr (s1, None)
      | Some b \<Rightarrow> res_bind (validate_budget b) (\<lambda>b. res_bind (reserve b (cd_max_steps d)) (\<lambda>b'.
          Inr (touch (set_env (\<lambda>e. e\<lparr>en_budget := Some b'\<rparr>) s1), Some b'))))"

definition run_core ::
  "nat \<Rightarrow> platform \<Rightarrow> registry \<Rightarrow> executor \<Rightarrow> core_decision \<Rightarrow> (run_report \<times> string list) act" where
  "run_core fuel P reg ex d =
     act_bind (open_decision P reg d) (\<lambda>(s, sp).
     let s1 = consume s in
     if cd_outcome d \<noteq> Delegate then act_bind (run_undelegated d s1 sp) (\<lambda>r. act_res (Inr (r, [])))
     else
       act_bind (act_res (reserve_dispatch d s1)) (\<lambda>(s2, reserved).
       act_bind (save_act s2) (\<lambda>_.
         proceed fuel P reg ex (cd_session d) [] (Some d) reserved s2 sp)))"

section \<open>What an operation keeps of the state\<close>

lemma set_env_simps [simp]:
  "ts_env (set_env f s) = f (ts_env s)" "ts_session_id (set_env f s) = ts_session_id s"
  "ts_plan (set_env f s) = ts_plan s" "ts_status (set_env f s) = ts_status s" "ts_scope (set_env f s) = ts_scope s"
  "ts_objective (set_env f s) = ts_objective s" "ts_constraints (set_env f s) = ts_constraints s"
  "ts_completion (set_env f s) = ts_completion s" "ts_questions (set_env f s) = ts_questions s"
  by (simp_all add: set_env_def)

lemma fold_add_artifact:
  "ts_env (fold (\<lambda>l. add_artifact (f l)) ls s) = ts_env s
   \<and> ts_session_id (fold (\<lambda>l. add_artifact (f l)) ls s) = ts_session_id s
   \<and> ts_plan (fold (\<lambda>l. add_artifact (f l)) ls s) = ts_plan s"
  by (induction ls arbitrary: s) (auto simp: add_artifact_def)

lemma mark_task_env [simp]:
  "ts_env (mark_task st s) = ts_env s" "ts_session_id (mark_task st s) = ts_session_id s" "ts_plan (mark_task st s) = ts_plan s"
  by (simp_all add: mark_task_def)

lemma record_env [simp]:
  "ts_env (record_action tool ps th s) = ts_env s" "ts_session_id (record_action tool ps th s) = ts_session_id s"
  "ts_plan (record_action tool ps th s) = ts_plan s"
  "ts_env (record_observation tool oi s) = ts_env s" "ts_session_id (record_observation tool oi s) = ts_session_id s"
  "ts_plan (record_observation tool oi s) = ts_plan s"
  by (simp_all add: record_action_def record_observation_def add_artifact_def Let_def)

lemma redact_task_env [simp]: "ts_env (redact_task s) = redact_env (ts_env s)"
  by (simp add: redact_task_def)

lemma ready_among_success: "\<forall>n \<in> set ns. n_status n = ''success'' \<Longrightarrow> ready_among g ns = Inr []"
  by (induction ns) auto

lemma all_success_not_ready: "list_all (\<lambda>(k, n). n_status n = ''success'') (g_nodes g) \<Longrightarrow> ready_nodes g = Inr []"
  unfolding ready_nodes_def by (rule ready_among_success) (auto simp: list_all_iff)

end
