(* ===== verification/RunFrame.thy ===== *)
theory RunFrame
  imports Runner
begin

text \<open>
  What a run keeps of the store, on every path and also when an operation raises halfway. The
  locale \<open>run_frame\<close> is the interface: an invariant of the store that the runner's writes respect
  gives an invariant of \<open>advance_loop\<close> and \<open>proceed\<close>. It is interpreted for the charge of a
  consumed decision and for the isolation of the other sessions.
\<close>

section \<open>Actions that keep an invariant\<close>

lemma act_bind_res [simp]: "act_bind (act_res (Inr x)) f = f x" "act_bind (act_res (Inl e)) f = act_res (Inl e)"
  by (rule ext, simp add: act_bind_def act_res_def)+

definition keeps :: "(store \<Rightarrow> bool) \<Rightarrow> 'a act \<Rightarrow> ('a \<Rightarrow> bool) \<Rightarrow> bool" where
  "keeps I m Q \<longleftrightarrow> (\<forall>d. I d \<longrightarrow> I (fst (m d)) \<and> (\<forall>x. snd (m d) = Inr x \<longrightarrow> Q x))"

lemma keepsD: "keeps I m Q \<Longrightarrow> m d = (d', x) \<Longrightarrow> I d \<Longrightarrow> I d' \<and> (\<forall>y. x = Inr y \<longrightarrow> Q y)"
  by (force simp: keeps_def)

lemma keeps_bind:
  assumes "keeps I m R" "\<And>x. R x \<Longrightarrow> keeps I (f x) Q"
  shows "keeps I (act_bind m f) Q"
  unfolding keeps_def
proof (intro allI impI)
  fix d assume d: "I d"
  obtain d1 x where m: "m d = (d1, x)" by fastforce
  from keepsD [OF assms(1) m d] assms(2) m
  show "I (fst (act_bind m f d)) \<and> (\<forall>y. snd (act_bind m f d) = Inr y \<longrightarrow> Q y)"
    by (cases x) (auto simp: act_bind_def keeps_def)
qed

lemma keeps_seq: "keeps I m (\<lambda>_. True) \<Longrightarrow> (\<And>x. keeps I (f x) Q) \<Longrightarrow> keeps I (act_bind m f) Q"
  by (rule keeps_bind)

lemma keeps_res: "(\<And>x. r = Inr x \<Longrightarrow> Q x) \<Longrightarrow> keeps I (act_res r) Q"
  by (simp add: keeps_def act_res_def)

lemma keeps_check: "(b \<Longrightarrow> Q ()) \<Longrightarrow> keeps I (act_check b msg) Q"
  unfolding act_check_def by (rule keeps_res) (auto simp: ensure_def split: if_split_asm)

lemma keeps_then: "keeps I m R \<Longrightarrow> (\<And>x. R x \<Longrightarrow> Q x) \<Longrightarrow> keeps I m Q"
  by (auto simp: keeps_def)

lemma keeps_if: "(b \<Longrightarrow> keeps I m Q) \<Longrightarrow> (\<not> b \<Longrightarrow> keeps I m' Q) \<Longrightarrow> keeps I (if b then m else m') Q"
  by simp

lemma keeps_load: "keeps I (load_act P reg sid) (\<lambda>_. True)"
  by (simp add: keeps_def load_act_def)

lemma load_run_state:
  assumes "load_run P reg sid d = Inr (s, sp)"
  shows "\<exists>t. load_state sid d = Inr (Some t)
    \<and> s = (case load_plan sid d of None \<Rightarrow> t | Some g \<Rightarrow> t\<lparr>ts_plan := g\<rparr>)"
  using assms by (cases "load_plan sid d") (auto simp: load_run_def res_bind_eq_Inr Let_def split: option.splits)

section \<open>The frame of a run\<close>

text \<open>
  \<open>good\<close> says which states may be saved; it depends on the session, the consumed flag, the
  budget and the stop only. \<open>charge\<close> is the budget that a delegated stage writes back.
\<close>

locale run_frame =
  fixes I :: "store \<Rightarrow> bool" and good :: "wf_state \<Rightarrow> bool" and sid :: string and charge :: "core_budget option"
  assumes checkpoint_kept: "I d \<Longrightarrow> good s \<Longrightarrow> I (checkpoint_plan_node (ts_session_id s) k status summary inc d)"
    and close_kept: "I d \<Longrightarrow> I (close_session sid d)"
    and recover_kept: "I d \<Longrightarrow> I (snd (recover_interrupted_plan sid d))"
    and save_kept: "I d \<Longrightarrow> good s \<Longrightarrow> I (fst (save_act s d))"
    and good_same: "good s \<Longrightarrow> ts_session_id s' = ts_session_id s \<Longrightarrow> en_consumed (ts_env s') = en_consumed (ts_env s)
        \<Longrightarrow> en_budget (ts_env s') = en_budget (ts_env s) \<Longrightarrow> en_stop (ts_env s') = en_stop (ts_env s) \<Longrightarrow> good s'"
    and good_charge: "good s \<Longrightarrow> charge = Some b \<Longrightarrow> good (set_env (\<lambda>e. e\<lparr>en_budget := Some b\<rparr>) s)"
    and good_loaded: "I d \<Longrightarrow> load_state sid d = Inr (Some t) \<Longrightarrow> good t"
begin

lemma good_cong:
  "ts_session_id s' = ts_session_id s \<Longrightarrow> en_consumed (ts_env s') = en_consumed (ts_env s)
     \<Longrightarrow> en_budget (ts_env s') = en_budget (ts_env s) \<Longrightarrow> en_stop (ts_env s') = en_stop (ts_env s) \<Longrightarrow> good s' = good s"
  using good_same by metis

lemma good_simps [simp]:
  "good (mark_task st s) = good s" "good (touch s) = good s" "good (s\<lparr>ts_plan := g\<rparr>) = good s"
  "good (record_action tool ps th s) = good s" "good (record_observation tool oi s) = good s"
  "good (set_env (\<lambda>e. e\<lparr>en_dispatch := x\<rparr>) s) = good s"
  by (rule good_cong; simp)+

lemma save_keeps: "good s \<Longrightarrow> keeps I (save_act s) (\<lambda>_. True)"
  by (simp add: keeps_def save_kept)

lemma checkpoint_keeps: "good s \<Longrightarrow> keeps I (checkpoint s k status summary inc) good"
  unfolding checkpoint_def Let_def
  by (intro keeps_bind [where R = "\<lambda>_. True"] keeps_res save_keeps)
    (auto simp: keeps_def checkpoint_kept)

lemma finish_report_keeps: "good s \<Longrightarrow> keeps I (finish_report s sp msg) (\<lambda>_. True)"
  unfolding finish_report_def by (intro keeps_seq keeps_res save_keeps TrueI)

lemma end_turn_keeps: "good s \<Longrightarrow> keeps I (end_turn s sp msg) (\<lambda>t. \<exists>r. t = EndTurn r)"
  unfolding end_turn_def by (intro keeps_seq keeps_res finish_report_keeps) auto

lemma approve_keeps: "good s \<Longrightarrow> keeps I (approve_human_stage s sp k) good"
  unfolding approve_human_stage_def Let_def
  by (intro keeps_bind [where R = "\<lambda>_. True"] keeps_bind [OF checkpoint_keeps] keeps_res keeps_check save_keeps) auto

lemma record_stage_result_keeps: "good s \<Longrightarrow> keeps I (record_stage_result s st r) good"
  unfolding record_stage_result_def Let_def
  by (intro keeps_bind [OF save_keeps] keeps_res)
    (auto simp: fold_add_artifact split: option.splits elim!: good_same)

definition next_ok :: "core_decision option \<Rightarrow> turn \<Rightarrow> bool" where
  "next_ok core t \<longleftrightarrow> (\<forall>s. t = NextTurn s \<longrightarrow> good s
     \<and> (core \<noteq> None \<longrightarrow> list_all (\<lambda>(k, n). n_status n = ''success'') (g_nodes (ts_plan s))))"

lemma end_turn_next: "good s \<Longrightarrow> keeps I (end_turn s sp msg) (next_ok core)"
  by (rule keeps_then [OF end_turn_keeps]) (auto simp: next_ok_def)

lemma settle_stage_keeps: "good s \<Longrightarrow> keeps I (settle_stage core sp st r ok failures s) (next_ok core)"
  unfolding settle_stage_def Let_def
  by (intro keeps_if keeps_bind [OF checkpoint_keeps] end_turn_next keeps_res)
    (auto simp: next_ok_def list_ex_iff list_all_iff)

definition careful :: "core_decision option \<Rightarrow> executor \<Rightarrow> bool" where
  "careful core ex \<longleftrightarrow> core \<noteq> None \<or> (\<forall>i cx s. good s \<longrightarrow> good (snd (snd (ex i cx s))))"

lemma run_stage_keeps:
  assumes "good s" and ex: "careful core ex"
  shows "keeps I (run_stage P ex calls core charge sp st s) (next_ok core)"
proof -
  have run: "keeps I (case ex calls cx s2 of (ended, cx', w) \<Rightarrow>
       let s3 = (if core \<noteq> None then s2 else w) in
       act_bind (act_res (judge P rt sp core st s3 cx cx' dg w ended)) (\<lambda>(r, ok, failures).
       let s4 = (case charge of None \<Rightarrow> s3 | Some b \<Rightarrow> set_env (\<lambda>e. e\<lparr>en_budget := Some b\<rparr>) s3) in
       act_bind (record_stage_result s4 st r) (\<lambda>s5.
       let s6 = (if core \<noteq> None then set_env (\<lambda>e. e\<lparr>en_dispatch := None\<rparr>) s5 else s5) in
         settle_stage core sp st r ok failures s6))) (next_ok core)" if s2: "good s2" for s2 cx rt dg
  proof -
    obtain ended cx' w where e: "ex calls cx s2 = (ended, cx', w)" by (metis surj_pair)
    have s3: "good (if core \<noteq> None then s2 else w)"
      using s2 ex e by (auto simp: careful_def) (metis snd_conv)
    have s4: "good (case charge of None \<Rightarrow> s3 | Some b \<Rightarrow> set_env (\<lambda>e. e\<lparr>en_budget := Some b\<rparr>) s3)"
      if "good s3" for s3 using that good_charge by (auto split: option.splits)
    have s6: "good (if core \<noteq> None then set_env (\<lambda>e. e\<lparr>en_dispatch := None\<rparr>) s5 else s5)" if "good s5" for s5
      using that by simp
    show ?thesis
      unfolding e prod.case Let_def
      by (rule keeps_seq, rule keeps_res, rule TrueI, clarify,
          rule keeps_bind [OF record_stage_result_keeps [OF s4 [OF s3]]], rule settle_stage_keeps [OF s6])
  qed
  show ?thesis
    unfolding run_stage_def Let_def
    by (intro keeps_bind [OF checkpoint_keeps [OF assms(1)]] keeps_bind [where R = "\<lambda>_. True"] keeps_res
        run [unfolded Let_def]) simp_all
qed

lemma close_keeps: "keeps I (close_act sid) (\<lambda>_. True)"
  by (simp add: keeps_def close_act_def close_kept)

lemma conclude_keeps: "good s \<Longrightarrow> keeps I (conclude P sid s sp) (\<lambda>_. True)"
  unfolding conclude_def Let_def
  by (intro keeps_if keeps_seq keeps_res finish_report_keeps)
    (auto split: option.splits intro!: finish_report_keeps keeps_seq [OF close_keeps])

lemma advance_loop_idle:
  assumes "ready_nodes (ts_plan s) = Inr []" "good s"
  shows "keeps I (advance_loop out_of_fuel fuel P ex calls core charge sid sp s) (\<lambda>(r, ks). ks = [])"
proof (cases fuel)
  case 0
  show ?thesis unfolding 0 advance_loop.simps out_of_fuel_def by (rule keeps_res) simp
next
  case (Suc n)
  have "keeps I (act_bind (conclude P sid s sp) (\<lambda>r. act_res (Inr (r, [])))) (\<lambda>(r, ks). ks = [])"
    by (rule keeps_seq [OF conclude_keeps [OF assms(2)]]) (auto intro: keeps_res)
  then show ?thesis using assms(1) by (simp add: Suc)
qed

text \<open>With a decision at most one stage is handed to the executor.\<close>

lemma advance_loop_keeps:
  assumes "careful core ex" "good s"
  shows "keeps I (advance_loop out_of_fuel fuel P ex calls core charge sid sp s) (\<lambda>(r, ks). core \<noteq> None \<longrightarrow> length ks \<le> 1)"
  using assms(2)
proof (induction fuel arbitrary: calls s)
  case 0
  show ?case unfolding advance_loop.simps out_of_fuel_def by (rule keeps_res) simp
next
  case (Suc fuel)
  have turn: "keeps I (case t of EndTurn r \<Rightarrow> act_res (Inr (r, [st_id st]))
               | NextTurn s1 \<Rightarrow>
                   act_bind (advance_loop out_of_fuel fuel P ex (Suc calls) core charge sid sp s1) (\<lambda>(r, ks).
                     act_res (Inr (r, st_id st # ks)))) (\<lambda>(r, ks). core \<noteq> None \<longrightarrow> length ks \<le> 1)"
    if "next_ok core t" for t st
  proof (cases t)
    case (NextTurn s1)
    with that have s1: "good s1" by (simp add: next_ok_def)
    have none: "keeps I (advance_loop out_of_fuel fuel P ex (Suc calls) core charge sid sp s1) (\<lambda>(r, ks). core \<noteq> None \<longrightarrow> ks = [])"
    proof (cases "core = None")
      case False
      with that NextTurn have "ready_nodes (ts_plan s1) = Inr []" by (auto simp: next_ok_def intro: all_success_not_ready)
      from keeps_then [OF advance_loop_idle [OF this s1]] show ?thesis by auto
    qed (rule keeps_then [OF Suc.IH [OF s1]], auto)
    show ?thesis unfolding NextTurn turn.case by (rule keeps_bind [OF none]) (auto intro: keeps_res)
  qed (auto intro: keeps_res)
  show ?case
    unfolding advance_loop.simps
    by (intro keeps_bind [where R = "\<lambda>_. True"] keeps_if keeps_res keeps_bind [OF checkpoint_keeps [OF Suc.prems]]
        keeps_bind [OF run_stage_keeps [OF Suc.prems assms(1)]] turn
        conclude_keeps [OF Suc.prems] finish_report_keeps) auto
qed

lemma recover_keeps: "keeps I (recover_act sid) (\<lambda>_. True)"
  using recover_kept by (auto simp: keeps_def recover_act_def split: prod.splits) (metis snd_conv)

lemma load_keeps: "keeps I (load_act P reg sid) (\<lambda>(s, sp). good s)"
proof -
  have "good s" if "I d" "load_run P reg sid d = Inr (s, sp)" for d s sp
  proof -
    from load_run_state [OF that(2)] obtain t where t: "load_state sid d = Inr (Some t)"
      and s: "s = (case load_plan sid d of None \<Rightarrow> t | Some g \<Rightarrow> t\<lparr>ts_plan := g\<rparr>)" by blast
    from good_loaded [OF that(1) t] show ?thesis by (auto simp: s split: option.splits)
  qed
  then show ?thesis by (auto simp: keeps_def load_act_def)
qed

lemma proceed_keeps:
  assumes "careful core ex" "good s"
  shows "keeps I (proceed fuel P reg ex sid k core charge s sp) (\<lambda>(r, ks). core \<noteq> None \<longrightarrow> length ks \<le> 1)"
proof -
  have halted: "keeps I (case x of (s, sp) \<Rightarrow> act_bind (finish_report (mark_task TaskBlocked s) sp msg)
       (\<lambda>r. act_res (Inr (r, [])))) (\<lambda>(r, ks). core \<noteq> None \<longrightarrow> length ks \<le> 1)"
    if "case x of (s, sp) \<Rightarrow> good s" for x msg
    using that by (auto intro!: keeps_bind [OF finish_report_keeps] keeps_res split: prod.splits)
  have start: "keeps I (if k \<noteq> [] then approve_human_stage s sp k else act_res (Inr s)) good"
    using assms(2) by (auto intro: approve_keeps keeps_res)
  show ?thesis
    unfolding proceed_def
    by (rule keeps_seq [OF recover_keeps], rule keeps_if, rule keeps_bind [OF load_keeps], rule halted, assumption,
        rule keeps_bind [OF start], rule advance_loop_keeps [OF assms(1)])
qed

lemma report_keeps: "keeps I (act_res (report s sp msg)) (\<lambda>_. True)"
  by (rule keeps_res) simp

lemma apply_outcome_good [simp]: "good (apply_outcome d s) = good s"
  by (simp add: apply_outcome_def)

lemma run_undelegated_keeps:
  assumes "good s" and "cd_session d = sid"
  shows "keeps I (run_undelegated d s sp) (\<lambda>_. True)"
proof -
  have first: "keeps I (if cd_outcome d = AwaitApproval
               then checkpoint s (cd_stage d) ''needs_review'' (decision_text (cd_reason d)) False
               else act_res (Inr s)) good"
    using assms(1) by (auto intro: checkpoint_keeps keeps_res)
  show ?thesis
    unfolding run_undelegated_def Let_def assms(2)
    by (rule keeps_bind [OF first], intro keeps_seq save_keeps keeps_if close_keeps keeps_res) simp_all
qed

end

end
