(* ===== verification/RunHalt.thy ===== *)
theory RunHalt
  imports RunFrame
begin

text \<open>
  The instances of the run's frame: what is charged stays charged, the other sessions stay as they
  are, and a stopped mission stays stopped, the last over every later operation of the session.
\<close>

section \<open>The charge of a consumed decision\<close>

definition charged :: "string \<Rightarrow> core_budget option \<Rightarrow> wf_state \<Rightarrow> bool" where
  "charged sid b s \<longleftrightarrow> redact_text sid = sid \<and> ts_session_id s = sid
     \<and> en_consumed (ts_env s) = Some True \<and> en_budget (ts_env s) = b"

definition stored_charged :: "string \<Rightarrow> core_budget option \<Rightarrow> store \<Rightarrow> bool" where
  "stored_charged sid b d \<longleftrightarrow> (\<exists>t. load_state sid d = Inr (Some t) \<and> charged sid b t)"

lemma load_state_frame [simp]:
  "load_state sid (close_session k d) = load_state sid d"
  "load_state sid (checkpoint_plan_node k node status summary inc d) = load_state sid d"
  "load_state sid (snd (recover_interrupted_plan k d)) = load_state sid d"
  by (simp_all add: load_state_def load_task_state_def close_session_def update_session_def
      checkpoint_plan_node_def recover_interrupted_plan_def Let_def)

lemma save_act_cases:
  "(\<exists>e. save_act s d = (d, Inl e))
   \<or> (\<exists>d'. save_act s d = (d', Inr ()) \<and> load_state (ts_session_id s) d' = Inr (Some (redact_task s))
        \<and> (\<forall>sid. sid \<noteq> ts_session_id s \<longrightarrow> load_state sid d' = load_state sid d) \<and> db_nodes d' = db_nodes d \<and> db_missions d' = db_missions d)"
proof -
  obtain d' x where e: "save_act s d = (d', x)" by fastforce
  then have sv: "save_state s d = (d', x)" by (simp add: save_act_def)
  show ?thesis
  proof (cases x)
    case (Inl err)
    with sv have "d' = d" by (auto simp: save_state_def split: sum.splits)
    with e Inl show ?thesis by simp
  next
    case (Inr u)
    with sv save_load save_state_frame [OF sv] e show ?thesis by auto
  qed
qed

lemma charged_redact: "charged sid b s \<Longrightarrow> charged sid b (redact_task s)"
  by (auto simp: charged_def redact_task_def redact_env_def)

lemma charged_saved: "charged sid b s \<Longrightarrow> save_act s d = (d', Inr u) \<Longrightarrow> stored_charged sid b d'"
  using save_act_cases [of s d] charged_redact [of sid b s] by (auto simp: stored_charged_def charged_def)

interpretation charge: run_frame "stored_charged sid b" "charged sid b" sid b for sid b
proof unfold_locales
  show "stored_charged sid b (fst (save_act s d))" if "stored_charged sid b d" "charged sid b s" for d s
    using save_act_cases [of s d] charged_saved [OF that(2)] that(1) by fastforce
qed (auto simp: stored_charged_def charged_def)

section \<open>The other sessions\<close>

definition apart :: "string \<Rightarrow> string \<Rightarrow> wf_state option res \<Rightarrow> plan_graph option \<Rightarrow> store \<Rightarrow> bool" where
  "apart sid other st g d \<longleftrightarrow> redact_text sid = sid \<and> other \<noteq> sid
     \<and> load_state other d = st \<and> load_plan other d = g
     \<and> (\<forall>t. load_state sid d = Inr (Some t) \<longrightarrow> ts_session_id t = sid)"

lemma recover_other: "other \<noteq> sid \<Longrightarrow>
    map_of (db_nodes (snd (recover_interrupted_plan sid d))) (other, k) = map_of (db_nodes d) (other, k)"
  by (simp add: recover_interrupted_plan_def Let_def map_of_map_vals option.map_ident)

lemma load_plan_nodes:
  assumes "db_missions d' = db_missions d" "\<And>k. map_of (db_nodes d') (sid, k) = map_of (db_nodes d) (sid, k)"
  shows "load_plan sid d' = load_plan sid d"
  by (simp add: load_plan_def assms split: option.split)

lemma load_plan_frame:
  "other \<noteq> sid \<Longrightarrow> load_plan other (checkpoint_plan_node sid k status summary inc d) = load_plan other d"
  "other \<noteq> sid \<Longrightarrow> load_plan other (snd (recover_interrupted_plan sid d)) = load_plan other d"
  "load_plan other (close_session sid d) = load_plan other d"
proof -
  show "load_plan other (checkpoint_plan_node sid k status summary inc d) = load_plan other d" if "other \<noteq> sid"
    by (rule load_plan_nodes) (use that in \<open>simp_all add: checkpoint_nodes option.map_ident\<close>)
  show "load_plan other (snd (recover_interrupted_plan sid d)) = load_plan other d" if "other \<noteq> sid"
    by (rule load_plan_nodes) (use that in \<open>simp_all add: recover_other\<close>)
  show "load_plan other (close_session sid d) = load_plan other d"
    by (rule load_plan_nodes) (simp_all add: close_session_def update_session_def)
qed

interpretation isolation: run_frame "apart sid other st g" "\<lambda>s. ts_session_id s = sid" sid charge
  for sid other st g charge
proof unfold_locales
  show "apart sid other st g (fst (save_act s d))"
    if "apart sid other st g d" "ts_session_id s = sid" for d s
    using save_act_cases [of s d]
  proof (elim disjE exE conjE)
    fix d' assume d': "save_act s d = (d', Inr ())" "load_state (ts_session_id s) d' = Inr (Some (redact_task s))"
      "\<forall>x. x \<noteq> ts_session_id s \<longrightarrow> load_state x d' = load_state x d" "db_nodes d' = db_nodes d" "db_missions d' = db_missions d"
    then have "load_plan other d' = load_plan other d" by (intro load_plan_nodes) simp_all
    moreover have "load_state other d' = load_state other d" using d' that unfolding apart_def by metis
    moreover have "ts_session_id (redact_task s) = redact_text sid" using that(2) by (simp add: redact_task_def)
    ultimately have "load_plan other d' = g \<and> load_state other d' = st
        \<and> (\<forall>t. load_state sid d' = Inr (Some t) \<longrightarrow> ts_session_id t = sid)"
      using d'(2) that unfolding apart_def by (metis Inr_inject option.inject)
    then show ?thesis unfolding d'(1) fst_conv using that(1) unfolding apart_def by blast
  qed (use that in simp)
  show "ts_session_id t = sid" if "apart sid other st g d" "load_state sid d = Inr (Some t)" for d t
    using that unfolding apart_def by blast
qed (simp_all add: apart_def load_plan_frame)

section \<open>The beginning of a Core operation\<close>

lemma stop_with_session: "stop_with P s sp outcome reason = Inr d \<Longrightarrow> cd_session d = ts_session_id s"
  by (drule stop_with_Inr) (auto simp: base_decision_def)

lemma decide_stage_session: "decide_stage P s sp n = Inr d \<Longrightarrow> cd_session d = ts_session_id s"
proof -
  assume "decide_stage P s sp n = Inr d"
  then obtain st over where "(case over of
       Some reason \<Rightarrow> stop_with P s sp BudgetExhausted reason
     | None \<Rightarrow>
         if ts_status s = TaskBlocked \<and> \<not> is_human st then stop_with P s sp NeedsReview OpenQuestions
         else validate_decision ((base_decision P s sp)
           \<lparr>cd_outcome := (if is_human st then AwaitApproval else Delegate),
            cd_reason := (if is_human st then HumanGate else OneReadyStage),
            cd_stage := n_id n, cd_node_fp := material_fingerprint (sha_node P) n,
            cd_max_steps := (if is_human st then 0 else st_max_steps st)\<rparr>)) = Inr d"
    unfolding decide_stage_def Let_def by (elim res_bind_InrE) blast
  then show ?thesis
    by (auto split: option.split_asm if_split_asm dest!: stop_with_session validate_decision_same
        simp: base_decision_def)
qed

lemma decide_ready_session: "decide_ready P s sp nodes = Inr d \<Longrightarrow> cd_session d = ts_session_id s"
proof -
  assume d: "decide_ready P s sp nodes = Inr d"
  have "cd_session d = ts_session_id s"
    if "(case ranked of
            [] \<Rightarrow> stop_with P s sp NeedsReview OpenQuestions
          | n # _ \<Rightarrow>
              if ts_status s = TaskComplete then stop_with P s sp NeedsReview OpenQuestions
              else decide_stage P s sp n) = Inr d" for ranked
    using that by (cases ranked) (auto split: if_split_asm dest!: stop_with_session decide_stage_session)
  with d show ?thesis
    by (auto simp: decide_ready_def elim!: res_bind_InrE split: if_split_asm dest!: stop_with_session)
qed

lemma decide_nodes_session: "decide_nodes P s sp nodes = Inr d \<Longrightarrow> cd_session d = ts_session_id s"
  unfolding decide_nodes_def
  by (auto elim!: res_bind_InrE split: option.split_asm if_split_asm dest!: stop_with_session decide_ready_session)

lemma decide_session: "decide P s sp = Inr d \<Longrightarrow> cd_session d = ts_session_id s"
  unfolding decide_def by (elim res_bind_InrE) (rule decide_nodes_session)

lemma open_decision_Inr:
  assumes "open_decision P reg d0 st = (st', Inr (s, sp))"
  shows "st' = st \<and> load_run P reg (cd_session d0) st = Inr (s, sp) \<and> validate_decision d0 = Inr d0
    \<and> en_consumed (ts_env s) = Some False \<and> decide P s sp = Inr d0 \<and> ts_session_id s = cd_session d0"
proof -
  from assms obtain d where "validate_decision d0 = Inr d" "st' = st"
    "load_run P reg (cd_session d) st = Inr (s, sp)" "validate_core_decision P s sp d = Inr ()"
    by (auto simp: open_decision_def load_act_def act_bind_def act_res_def split: sum.splits prod.splits)
  with validate_decision_same [of d0 d] decide_session [of P s sp d0] show ?thesis
    by (auto simp: validate_core_decision_def res_bind_eq_Inr)
qed

text \<open>A consumed decision opens nothing more.\<close>

lemma consumed_refused:
  assumes "load_state (cd_session d) st = Inr (Some t)" "en_consumed (ts_env t) = Some True"
  shows "\<exists>e. open_decision P reg d st = (st, Inl e)"
proof -
  obtain st' x where o: "open_decision P reg d st = (st', x)" by fastforce
  then have st': "st' = st"
    by (auto simp: open_decision_def load_act_def act_bind_def act_res_def split: sum.splits prod.splits)
  show ?thesis
  proof (cases x)
    case (Inr y)
    obtain s sp where y: "y = (s, sp)" by fastforce
    note op = open_decision_Inr [OF o [unfolded Inr y]]
    then have "load_run P reg (cd_session d) st = Inr (s, sp)" by simp
    from load_run_state [OF this] assms have "en_consumed (ts_env s) = Some True" by (auto split: option.splits)
    with op show ?thesis by simp
  qed (use o st' in auto)
qed

section \<open>A stopped session\<close>

definition halted :: "string \<Rightarrow> wf_state \<Rightarrow> bool" where
  "halted sid s \<longleftrightarrow> redact_text sid = sid \<and> ts_session_id s = sid \<and> en_stop (ts_env s) \<noteq> None"

definition stored_halted :: "string \<Rightarrow> store \<Rightarrow> bool" where
  "stored_halted sid d \<longleftrightarrow> (\<exists>t. load_state sid d = Inr (Some t) \<and> halted sid t)"

lemma halted_redact: "halted sid s \<Longrightarrow> halted sid (redact_task s)"
  by (auto simp: halted_def redact_task_def redact_env_def)

interpretation stopped: run_frame "stored_halted sid" "halted sid" sid charge for sid charge
proof unfold_locales
  show "stored_halted sid (fst (save_act s d))" if "stored_halted sid d" "halted sid s" for d s
    using save_act_cases [of s d] that halted_redact [of sid s] by (auto simp: stored_halted_def halted_def)
qed (auto simp: stored_halted_def halted_def)

lemma stored_halted_load: "stored_halted sid d \<Longrightarrow> load_run P reg sid d = Inr (s, sp) \<Longrightarrow> halted sid s"
  by (auto simp: stored_halted_def halted_def dest!: load_run_state split: option.splits)

lemma decide_stopped: "decide P s sp = Inr d \<Longrightarrow> en_stop (ts_env s) \<noteq> None \<Longrightarrow> cd_outcome d = Stopped"
  by (auto simp: decide_def decide_nodes_def res_bind_eq_Inr dest: stop_with_outcome split: if_split_asm)

text \<open>What may happen to a session after it was stopped: its own operations, and anything elsewhere.\<close>

inductive aftermath :: "platform \<Rightarrow> registry \<Rightarrow> string \<Rightarrow> store \<Rightarrow> store \<Rightarrow> bool"
  for P :: platform and reg :: registry and sid :: string where
  here: "aftermath P reg sid st st"
| decided: "aftermath P reg sid st st1 \<Longrightarrow> decide_core P reg sid st1 = (st2, x) \<Longrightarrow> aftermath P reg sid st st2"
| ran: "aftermath P reg sid st st1 \<Longrightarrow> run_workflow fuel P reg ex sid k st1 = (st2, y) \<Longrightarrow> aftermath P reg sid st st2"
| handed: "aftermath P reg sid st st1 \<Longrightarrow> cd_session d = sid \<Longrightarrow> run_core fuel P reg ex d st1 = (st2, y)
    \<Longrightarrow> aftermath P reg sid st st2"
| approved: "aftermath P reg sid st st1 \<Longrightarrow> cd_session d = sid \<Longrightarrow> approve_core_stage P reg d st1 = (st2, z)
    \<Longrightarrow> aftermath P reg sid st st2"
| reviewed: "aftermath P reg sid st st1 \<Longrightarrow> cd_session (rr_decision r) = sid \<Longrightarrow> review_core P reg r st1 = (st2, z)
    \<Longrightarrow> aftermath P reg sid st st2"
| stopped_again: "aftermath P reg sid st st1 \<Longrightarrow> cd_session d = sid \<Longrightarrow> stop_core P reg d st1 = (st2, z)
    \<Longrightarrow> aftermath P reg sid st st2"
| replanned: "aftermath P reg sid st st1 \<Longrightarrow> cd_session d = sid \<Longrightarrow> replan_core P reg new d intent pins st1 = (st2, z)
    \<Longrightarrow> aftermath P reg sid st st2"
| elsewhere: "aftermath P reg sid st st1 \<Longrightarrow> load_state sid st2 = load_state sid st1 \<Longrightarrow> aftermath P reg sid st st2"

lemma open_decision_store: "open_decision P reg d st = (st', x) \<Longrightarrow> st' = st"
  by (auto simp: open_decision_def load_act_def act_bind_def act_res_def split: sum.splits prod.splits)

lemma open_halted:
  assumes "open_decision P reg d st = (st', Inr (s, sp))" "stored_halted (cd_session d) st"
  shows "halted (cd_session d) s \<and> cd_outcome d = Stopped"
proof -
  note o = open_decision_Inr [OF assms(1)]
  then have "load_run P reg (cd_session d) st = Inr (s, sp)" by simp
  from stored_halted_load [OF assms(2) this] have h: "halted (cd_session d) s" .
  with o decide_stopped [of P s sp d] show ?thesis by (simp add: halted_def)
qed

text \<open>With a decision that does not delegate, nothing depends on the executor.\<close>

lemma halted_run_core:
  assumes "stored_halted (cd_session d) st"
  shows "run_core fuel P reg ex d st = act_bind (open_decision P reg d)
    (\<lambda>(s, sp). act_bind (run_undelegated d (consume s) sp) (\<lambda>r. act_res (Inr (r, [])))) st"
proof -
  obtain st' x where o: "open_decision P reg d st = (st', x)" by fastforce
  show ?thesis
  proof (cases x)
    case (Inl e)
    with o show ?thesis by (simp add: run_core_def act_bind_def)
  next
    case (Inr y)
    obtain s sp where "y = (s, sp)" by fastforce
    with o Inr open_halted [OF _ assms] have "cd_outcome d = Stopped" by blast
    then show ?thesis using o Inr \<open>y = (s, sp)\<close> by (simp add: run_core_def act_bind_def Let_def)
  qed
qed

lemma halted_keeps_core:
  assumes "stored_halted sid st" "cd_session d = sid" "run_core fuel P reg ex d st = (st', x)"
  shows "stored_halted sid st'"
proof -
  have h: "stored_halted (cd_session d) st" using assms by simp
  obtain st1 y where o: "open_decision P reg d st = (st1, y)" by fastforce
  note st1 = open_decision_store [OF o]
  note r = assms(3) [unfolded halted_run_core [OF h]]
  show ?thesis
  proof (cases y)
    case (Inl e)
    with o r st1 assms(1) show ?thesis by (simp add: act_bind_def)
  next
    case (Inr z)
    obtain s sp where z: "z = (s, sp)" by fastforce
    with o Inr open_halted [OF _ h] have "halted sid (consume s)"
      by (auto simp: consume_def halted_def assms(2))
    from keepsD [OF keeps_seq [OF stopped.run_undelegated_keeps [OF this assms(2)] keeps_res [OF TrueI]] _ assms(1)]
    show ?thesis using r o Inr z st1 by (auto simp: act_bind_def)
  qed
qed

lemma halted_no_run: "stored_halted sid st \<Longrightarrow> \<exists>e. run_workflow fuel P reg ex sid k st = (st, Inl e)"
proof -
  assume h: "stored_halted sid st"
  show ?thesis
  proof (cases "load_run P reg sid st")
    case (Inr y)
    obtain s sp where y: "y = (s, sp)" by fastforce
    from stored_halted_load [OF h] Inr y have "en_stop (ts_env s) \<noteq> None" by (simp add: halted_def)
    then show ?thesis using Inr y
      by (simp add: run_workflow_def load_act_def act_bind_def compatible_def act_res_def)
  qed (simp add: run_workflow_def load_act_def act_bind_def)
qed

lemma halted_keeps_decide:
  assumes "stored_halted sid st" "decide_core P reg sid st = (st', x)"
  shows "stored_halted sid st'"
proof -
  have "keeps (stored_halted sid) (decide_core P reg sid) (\<lambda>_. True)"
    unfolding decide_core_def
    by (rule keeps_bind [OF stopped.load_keeps], clarify, rule keeps_seq, rule keeps_res, rule TrueI,
        rule keeps_seq, rule stopped.save_keeps, simp add: halted_def, rule keeps_res, rule TrueI)
  from keepsD [OF this assms(2,1)] show ?thesis ..
qed

lemma halted_keeps_stop:
  assumes "stored_halted sid st" "cd_session d = sid" "stop_core P reg d st = (st', x)"
  shows "stored_halted sid st'"
proof -
  have h: "stored_halted (cd_session d) st" using assms by simp
  obtain st1 y where o: "open_decision P reg d st = (st1, y)" by fastforce
  note st1 = open_decision_store [OF o]
  show ?thesis
  proof (cases y)
    case (Inl e)
    with o st1 assms show ?thesis by (simp add: stop_core_def act_bind_def)
  next
    case (Inr z)
    obtain s sp where z: "z = (s, sp)" by fastforce
    with o Inr open_halted [OF _ h] have "halted sid (halt [TaskComplete, TaskFailed]
        (set_env (\<lambda>e. e\<lparr>en_stop := Some \<lparr>cm_decision = d\<rparr>, en_consumed := Some True\<rparr>) s))"
      by (auto simp: halt_def halted_def assms(2))
    from keepsD [OF stopped.finish_report_keeps [OF this] _ assms(1)] show ?thesis
      using assms(3) o Inr z st1 by (simp add: stop_core_def act_bind_def)
  qed
qed

lemma halted_keeps_review:
  assumes "stored_halted sid st" "cd_session (rr_decision r) = sid" "review_core P reg r st = (st', x)"
  shows "stored_halted sid st'"
proof -
  have same: "r1 = r" if "validate_resolution r = Inr r1" for r1
    using that by (auto simp: validate_resolution_def res_bind_eq_Inr dest: validate_decision_same)
  have "keeps (stored_halted sid) (review_core P reg r) (\<lambda>_. True)"
    unfolding review_core_def Let_def
  proof (rule keeps_bind [of _ _ "\<lambda>r1. r1 = r"])
    show "keeps (stored_halted sid) (act_res (validate_resolution r)) (\<lambda>r1. r1 = r)"
      by (rule keeps_res) (rule same)
    show "keeps (stored_halted sid) (act_bind (load_act P reg (cd_session (rr_decision r1)))
       (\<lambda>(s, sp). act_bind (act_res (validate_core_decision P s sp (rr_decision r1)))
          (\<lambda>_. finish_report
             (mark_task (if cd_outcome (rr_decision r1) = DecFailed then TaskFailed else TaskBlocked)
               (set_env (\<lambda>e. e\<lparr>en_consumed := Some True, en_resolution := Some r1\<rparr>) s)) sp
             (''Core review '' @ disposition_text (rr_disposition r1) @ ''; mission remains stopped; no changes applied''))))
       (\<lambda>_. True)" if "r1 = r" for r1
      unfolding that assms(2)
      by (rule keeps_bind [OF stopped.load_keeps], clarify, rule keeps_seq, rule keeps_res, rule TrueI,
          rule stopped.finish_report_keeps) (simp add: halted_def)
  qed
  from keepsD [OF this assms(3,1)] show ?thesis ..
qed

lemma halted_keeps_approve:
  assumes "stored_halted sid st" "cd_session d = sid" "approve_core_stage P reg d st = (st', x)"
  shows "st' = st"
proof -
  obtain st1 y where o: "open_decision P reg d st = (st1, y)" by fastforce
  have h: "stored_halted (cd_session d) st" using assms by simp
  show ?thesis
  proof (cases y)
    case (Inl e)
    with o open_decision_store [OF o] assms(3) show ?thesis by (simp add: approve_core_stage_def act_bind_def)
  next
    case (Inr z)
    obtain s sp where z: "z = (s, sp)" by fastforce
    with o Inr open_halted [OF _ h] have "cd_outcome d = Stopped" by blast
    then show ?thesis using assms(3) o Inr z open_decision_store [OF o]
      by (simp add: approve_core_stage_def act_bind_def act_check_def act_res_def ensure_def)
  qed
qed

lemma halted_keeps_replan:
  assumes "stored_halted sid st" "cd_session d = sid" "replan_core P reg new d intent pins st = (st', x)"
  shows "st' = st"
proof (cases "validate_decision d")
  case (Inl e)
  with assms(3) show ?thesis by (simp add: replan_core_def act_res_def)
next
  case (Inr d1)
  with validate_decision_same have v: "validate_decision d = Inr d" by metis
  show ?thesis
  proof (cases "load_run P reg sid st")
    case (Inl e)
    with v assms(2,3) show ?thesis
      by (auto simp: replan_core_def act_res_def act_bind_def load_act_def split: sum.splits prod.splits)
  next
    case (Inr y)
    obtain s sp where y: "y = (s, sp)" by fastforce
    from stored_halted_load [OF assms(1)] Inr y have "en_stop (ts_env s) \<noteq> None" by (simp add: halted_def)
    with v assms(2,3) Inr y show ?thesis
      by (auto simp: replan_core_def act_res_def act_bind_def load_act_def act_check_def ensure_def
          split: sum.splits prod.splits)
  qed
qed

lemma aftermath_halted: "aftermath P reg sid st st' \<Longrightarrow> stored_halted sid st \<Longrightarrow> stored_halted sid st'"
proof (induction rule: aftermath.induct)
  case (ran st st1 fuel ex k st2 y)
  then have "stored_halted sid st1" by blast
  with ran.hyps(2) halted_no_run show ?case by (metis prod.inject)
next
  case (elsewhere st st1 st2)
  then show ?case by (simp add: stored_halted_def)
qed (auto dest: halted_keeps_decide halted_keeps_core halted_keeps_approve halted_keeps_review halted_keeps_stop
    halted_keeps_replan)

end
