(* ===== verification/RunSamples.thy ===== *)
theory RunSamples
  imports RunHalt
begin

text \<open>
  A stored mission on which the guarantees of the runner are exercised: one reviewed workflow with an
  agent stage and a human stage, selected, budgeted, with an issued decision for the first stage.
\<close>

section \<open>A stored mission with an issued decision\<close>

definition sample_at :: "core_decision \<Rightarrow> task_status \<Rightarrow> wf_state" where
  "sample_at x status = (set_env (\<lambda>e. e\<lparr>en_decision := Some x, en_consumed := Some False\<rparr>) sample_mission)
     \<lparr>ts_status := status\<rparr>"

definition sample_store_of :: "wf_state \<Rightarrow> store" where
  "sample_store_of s = \<lparr>db_sessions = [], db_missions = [], db_nodes = [], db_task = [(''s1'', s)]\<rparr>"

abbreviation sample_issued :: wf_state where "sample_issued \<equiv> sample_at sample_decision Investigating"

abbreviation sample_store :: store where "sample_store \<equiv> sample_store_of sample_issued"

abbreviation sample_registry :: registry where "sample_registry \<equiv> [(''audit'', sample_spec)]"

lemma sample_at_simps [simp]:
  "ts_session_id (sample_at x st) = ''s1''" "ts_objective (sample_at x st) = ''goal''" "ts_mode (sample_at x st) = Coding"
  "ts_plan (sample_at x st) = ts_plan sample_mission" "en_selection (ts_env (sample_at x st)) = Some sample_selection"
  "en_workflow (ts_env (sample_at x st)) = Some ''audit''" "en_workflow_fp (ts_env (sample_at x st)) = Some sample_hash"
  "en_consumed (ts_env (sample_at x st)) = Some False" "en_budget (ts_env (sample_at x st)) = Some sample_budget"
  "en_decision (ts_env (sample_at x st)) = Some x" "en_strategy (ts_env (sample_at x st)) = en_strategy (ts_env sample_mission)"
  "en_stop (ts_env (sample_at x st)) = None" "en_origin (ts_env (sample_at x st)) = None"
  "en_target (ts_env (sample_at x st)) = Some []" "en_dispatch (ts_env (sample_at x st)) = None"
  "en_transition (ts_env (sample_at x st)) = None" "en_resolution (ts_env (sample_at x st)) = None"
  "ts_active_nodes (sample_at x st) = []" "ts_completion (sample_at x st) = []" "ts_questions (sample_at x st) = []"
  "ts_status (sample_at x st) = st" "ts_scope (sample_at x st) = ts_scope sample_mission"
  by (simp_all add: sample_at_def set_env_def sample_mission_def sample_run_def empty_env_def)

lemma sample_plan_nodes:
  "ts_plan sample_mission = \<lparr>g_goal = ''goal'', g_nodes = plan_nodes sample_spec, g_reasoning = ''workflow:audit@1''\<rparr>"
  by (simp add: sample_mission_def)

lemma sample_plan_ok: "to_plan sample_spec ''goal'' = Inr (ts_plan sample_mission)" 
  by code_simp

lemma sample_selection_ok: "validate_selection (resolve_path sample_platform) sample_selection = Inr sample_selection"
  by code_simp

lemma sample_intent: "mission_intent sample_platform (sample_at x st) = Inr sample_hash"
proof -
  have "validate_intent \<lparr>ci_objective = ''goal'', ci_mode = Coding, ci_workflow = []\<rparr>
      = Inr \<lparr>ci_objective = ''goal'', ci_mode = Coding, ci_workflow = []\<rparr>" by code_simp
  then show ?thesis by (simp add: mission_intent_def intent_fingerprint_def sample_platform_def)
qed

lemma sample_strategy_mission: "strategy_holds sample_platform sample_mission sample_spec
   ''Core strategy no longer matches the reviewed workflow'' = Inr ()"
  by code_simp

lemma sample_strategy: "strategy_holds sample_platform (sample_at x st) sample_spec
   ''Core strategy no longer matches the reviewed workflow'' = Inr ()"
  using sample_strategy_mission by (simp add: strategy_holds_def)

lemma sample_nodes_ok: "iter_res (\<lambda>(k, n). res_bind (validate_plan_node n) (\<lambda>_. Inr ())) (g_nodes (ts_plan sample_mission)) = Inr ()"
  by code_simp

lemma sample_selection_record: "check_selection_record sample_platform (sample_at x st) sample_spec = Inr ()"
proof -
  have g: "sort_key fst (se_criteria sample_selection) = sort_key fst (stage_gates sample_spec)" by code_simp
  have sp: "sp_name sample_spec = ''audit''" "sp_version sample_spec = ''1''" "sp_mode sample_spec = Coding"
    by (simp_all add: sample_spec_def)
  have sel: "se_outcome sample_selection = Selected" "se_workflow sample_selection = Some sample_pin"
    "se_intent_fp sample_selection = sample_hash" by (simp_all add: sample_selection_def)
  have "spec_fingerprint sample_platform sample_spec = sample_hash"
    by (simp add: spec_fingerprint_def sample_platform_def)
  then show ?thesis
    by (simp add: check_selection_record_def sample_plan_ok sample_selection_ok sample_intent sample_strategy
        ensure_def g sp sel sample_pin_def) (simp add: sample_plan_nodes)
qed

lemma sample_registered: "registry_get sample_registry ''audit'' = Some sample_spec"
  by code_simp

lemma sample_budget_valid: "validate_budget sample_budget = Inr sample_budget" by code_simp

lemma sample_loaded: "load_run sample_platform sample_registry ''s1'' (sample_store_of (sample_at x st)) = Inr (sample_at x st, sample_spec)"
proof -
  let ?s = "sample_at x st"
  have "validate_task ?s = Inr ?s"
    by (simp add: validate_task_def sample_nodes_ok)
  then have "load_state ''s1'' (sample_store_of ?s) = Inr (Some ?s)"
    by (simp add: load_state_def load_task_state_def sample_store_of_def)
  moreover have "load_plan ''s1'' (sample_store_of ?s) = None" by (simp add: load_plan_def sample_store_of_def)
  moreover have "spec_fingerprint sample_platform sample_spec = sample_hash" by (simp add: spec_fingerprint_def sample_platform_def)
  ultimately show ?thesis
    by (simp add: load_run_def check_stop_record_def check_transition_record_def validate_lineage_def
      walk_lineage.simps check_resolution_record_def check_budget_record_def sample_budget_valid require_spec_def
      sample_registered ensure_def sample_nodes_ok sample_selection_record)
qed

lemma sample_pinned: "selected_pin sample_platform (sample_at x st) sample_spec = Inr ()"
  by (simp add: selected_pin_def sample_selection_ok)
    (simp add: sample_selection_def sample_pin_def spec_fingerprint_def sample_platform_def)

lemma sample_order: "topological_order (ts_plan sample_mission) = Inr (map snd (plan_nodes sample_spec))"
  by code_simp

lemma sample_decides: "decide sample_platform sample_issued sample_spec = Inr sample_decision"
proof -
  have "decide_nodes sample_platform sample_issued sample_spec (map snd (plan_nodes sample_spec)) = Inr sample_decision"
    by code_simp
  then show ?thesis by (simp add: decide_def sample_pinned sample_strategy sample_order)
qed

lemma sample_decision_valid: "validate_decision sample_decision = Inr sample_decision" by code_simp

lemma sample_open: "open_decision sample_platform sample_registry sample_decision sample_store
   = (sample_store, Inr (sample_issued, sample_spec))"
proof -
  have "cd_session sample_decision = ''s1''" by (simp add: sample_decision_def)
  then show ?thesis
   by (simp add: open_decision_def act_bind_def act_res_def load_act_def sample_loaded sample_decision_valid
       validate_core_decision_def sample_decides ensure_def)
qed

definition sample_reserved :: wf_state where
  "sample_reserved = touch (set_env (\<lambda>e. e\<lparr>en_dispatch := Some ''scan'', en_consumed := Some True,
     en_budget := Some \<lparr>bu_limits = \<lparr>mb_dispatches = 2, mb_steps = 10\<rparr>, bu_dispatches = 1, bu_steps = 4\<rparr>\<rparr>) sample_issued)"

definition sample_saved_store :: store where
  "sample_saved_store = save_task_state ''s1'' (redact_task sample_reserved) sample_store"

lemma sample_reserve: "reserve_dispatch sample_decision (consume sample_issued) = Inr (sample_reserved, en_budget (ts_env sample_reserved))"
proof -
  have "cd_stage sample_decision = ''scan''" "cd_max_steps sample_decision = 4" by (simp_all add: sample_decision_def)
  moreover have "reserve sample_budget 4 = Inr \<lparr>bu_limits = \<lparr>mb_dispatches = 2, mb_steps = 10\<rparr>, bu_dispatches = 1, bu_steps = 4\<rparr>"
    by (simp add: reserve_def stop_reason_def sample_budget_def validate_budget_def validate_mission_budget_def ensure_def)
  ultimately show ?thesis
    by (simp add: reserve_dispatch_def consume_def sample_budget_valid sample_reserved_def Let_def) (simp add: set_env_def)
qed

lemma validate_redacted_node:
  assumes "validate_plan_node n = Inr n" "redact_text (n_idempotency_key n) = n_idempotency_key n" "n_completion n = []"
  shows "validate_plan_node (redact_node n) = Inr (redact_node n)"
  using assms by (auto simp: validate_plan_node_def res_bind_eq_Inr redact_node_def)

lemma sample_redacted_nodes: "iter_res (\<lambda>(k, n). res_bind (validate_plan_node n) (\<lambda>_. Inr ()))
    (g_nodes (redact_plan (ts_plan sample_mission))) = Inr ()"
proof -
  have "\<forall>(k, n) \<in> set (g_nodes (ts_plan sample_mission)). n_completion n = []
      \<and> redact_text (n_idempotency_key n) = n_idempotency_key n"
    by (simp add: sample_plan_nodes plan_nodes_def sample_spec_def sample_stage_def stage_node_def
        redact_text_clean is_space_def code_point_def)
  moreover have "\<forall>(k, n) \<in> set (g_nodes (ts_plan sample_mission)). validate_plan_node n = Inr n"
    using sample_nodes_ok unfolding iter_res_unit by (fastforce simp: res_bind_eq_Inr dest: validate_plan_node_Inr)
  ultimately show ?thesis
    using validate_redacted_node by (fastforce simp: iter_res_unit redact_plan_def)
qed

lemma sample_snapshot:
  assumes "ts_plan s = ts_plan sample_mission" "ts_active_nodes s = []" "ts_completion s = []"
  shows "snapshot s = Inr (redact_task s)"
proof -
  have "\<not> secret_name ''scan''" "\<not> secret_name ''approve''" by code_simp+
  then have "\<not> masked_entry s"
    by (simp add: masked_entry_def assms sample_plan_nodes plan_nodes_def sample_spec_def sample_stage_def)
  then show ?thesis
    by (simp add: snapshot_def validate_task_def redact_task_def assms sample_redacted_nodes ensure_def)
qed

lemma sample_reserved_saved: "save_act sample_reserved sample_store = (sample_saved_store, Inr ())"
proof -
  have r: "ts_plan sample_reserved = ts_plan sample_mission" "ts_session_id sample_reserved = ''s1''"
     "ts_active_nodes sample_reserved = []" "ts_completion sample_reserved = []"
    by (simp_all add: sample_reserved_def touch_def set_env_def)
  then show ?thesis using sample_snapshot [of sample_reserved]
    by (simp add: save_act_def save_state_def sample_saved_store_def)
qed

end
