(* ===== verification/RunProps.thy ===== *)
theory RunProps
  imports RunSamples
begin

text \<open>
  The guarantees of the runner as a whole: a delegated decision is consumed and charged before
  anything runs and is never replayed; a refused decision has no effect; a run touches no other
  session; a stopped mission never resumes; a replacement inherits the authority of its parent;
  advancing terminates and a lineage is bounded.
\<close>

section \<open>Properties\<close>

lemma reserve_dispatch_Inr:
  assumes "reserve_dispatch d s = Inr (s2, b)"
  shows "ts_session_id s2 = ts_session_id s \<and> en_consumed (ts_env s2) = en_consumed (ts_env s) \<and> en_budget (ts_env s2) = b
    \<and> (\<forall>b0. en_budget (ts_env s) = Some b0 \<longrightarrow> (\<exists>b'. b = Some b' \<and> reserve b0 (cd_max_steps d) = Inr b'))
    \<and> (en_budget (ts_env s) = None \<longrightarrow> b = None)"
  using assms by (auto simp: reserve_dispatch_def res_bind_eq_Inr Let_def validate_budget_Inr split: option.splits)





text \<open>
  C9: Running a Core decision reads and writes its own session only: however the run ends, every
  other session has the same stored state and the same plan as before.
\<close>
theorem run_core_isolated:
  assumes "run_core fuel P reg ex d st = (st', x)" and "other \<noteq> cd_session d"
    and "redact_text (cd_session d) = cd_session d"
  shows "load_state other st' = load_state other st \<and> load_plan other st' = load_plan other st"
proof -
  let ?sid = "cd_session d"
  obtain st1 y where o: "open_decision P reg d st = (st1, y)" by fastforce
  note st1 = open_decision_store [OF o]
  show ?thesis
  proof (cases y)
    case (Inl e)
    with assms(1) o st1 show ?thesis by (simp add: run_core_def act_bind_def)
  next
    case (Inr z)
    obtain s sp where z: "z = (s, sp)" by fastforce
    note od = open_decision_Inr [OF o [unfolded Inr z]]
    define I where "I = apart ?sid other (load_state other st) (load_plan other st)"
    from od have l: "load_run P reg ?sid st = Inr (s, sp)" and s: "ts_session_id s = ?sid" by auto
    from load_run_state [OF l] s have I: "I st"
      using assms(2,3) by (auto simp: I_def apart_def split: option.splits)
    have k: "keeps I (if cd_outcome d \<noteq> Delegate then act_bind (run_undelegated d (consume s) sp) (\<lambda>r. act_res (Inr (r, [])))
       else act_bind (act_res (reserve_dispatch d (consume s))) (\<lambda>(s2, reserved).
         act_bind (save_act s2) (\<lambda>_. proceed fuel P reg ex ?sid [] (Some d) reserved s2 sp))) (\<lambda>_. True)"
    proof (rule keeps_if)
      show "keeps I (act_bind (run_undelegated d (consume s) sp) (\<lambda>r. act_res (Inr (r, [])))) (\<lambda>_. True)"
        unfolding I_def
        by (rule keeps_seq, rule isolation.run_undelegated_keeps, simp add: consume_def s, rule refl, rule keeps_res, rule TrueI)
      have p: "keeps I (proceed fuel P reg ex ?sid [] (Some d) b s2 sp) (\<lambda>_. True)" if "ts_session_id s2 = ?sid" for s2 b
        unfolding I_def
        by (rule keeps_then [OF isolation.proceed_keeps [OF _ that]]) (simp_all add: isolation.careful_def)
      have r: "keeps I (act_res (reserve_dispatch d (consume s))) (\<lambda>(s2, b). ts_session_id s2 = ?sid)"
        by (rule keeps_res) (auto dest!: reserve_dispatch_Inr simp: consume_def s)
      show "keeps I (act_bind (act_res (reserve_dispatch d (consume s))) (\<lambda>(s2, reserved).
         act_bind (save_act s2) (\<lambda>_. proceed fuel P reg ex ?sid [] (Some d) reserved s2 sp))) (\<lambda>_. True)"
        by (rule keeps_bind [OF r], clarify, rule keeps_seq, unfold I_def, rule isolation.save_keeps, assumption,
            fold I_def, rule p)
    qed
    from assms(1) o Inr z st1 have e: "(if cd_outcome d \<noteq> Delegate then act_bind (run_undelegated d (consume s) sp) (\<lambda>r. act_res (Inr (r, [])))
       else act_bind (act_res (reserve_dispatch d (consume s))) (\<lambda>(s2, reserved).
         act_bind (save_act s2) (\<lambda>_. proceed fuel P reg ex ?sid [] (Some d) reserved s2 sp))) st = (st', x)"
      by (simp add: run_core_def act_bind_def Let_def)
    from keepsD [OF k e I] have "I st'" ..
    then show ?thesis by (simp add: I_def apart_def)
  qed
qed

theorem run_core_isolated_witness:
  "load_state ''s2'' (fst (run_core 5 sample_platform sample_registry (\<lambda>_ cx s. (ExecRaises, cx, s)) sample_decision sample_store))
     = load_state ''s2'' sample_store"
proof -
  have d: "cd_session sample_decision = ''s1''" by (simp add: sample_decision_def)
  have r: "redact_text (cd_session sample_decision) = cd_session sample_decision"
    by (simp add: d redact_text_clean is_space_def code_point_def)
  have o: "''s2'' \<noteq> cd_session sample_decision" by (simp add: d)
  obtain st' x where "run_core 5 sample_platform sample_registry (\<lambda>_ cx s. (ExecRaises, cx, s)) sample_decision sample_store = (st', x)"
    by fastforce
  from run_core_isolated [OF this o r] this show ?thesis by simp
qed

text \<open>
  C5: A human stop is final. After a mission was stopped, whatever operations of the session and
  whatever else in the store follow: its stored state keeps the stop, running it is refused without
  an effect, and running any Core decision of the session does the same for every executor, so no
  stage is handed to one.
\<close>
theorem stop_is_final:
  assumes "stop_core P reg d st = (st0, Inr r)" and "redact_text (cd_session d) = cd_session d"
    and later: "aftermath P reg (cd_session d) st0 st'"
  shows "(\<exists>t. load_state (cd_session d) st' = Inr (Some t) \<and> en_stop (ts_env t) \<noteq> None)
    \<and> (\<forall>fuel ex k. \<exists>e. run_workflow fuel P reg ex (cd_session d) k st' = (st', Inl e))
    \<and> (\<forall>fuel ex ex' d'. cd_session d' = cd_session d \<longrightarrow> run_core fuel P reg ex d' st' = run_core fuel P reg ex' d' st')"
proof -
  from assms(1) obtain s sp where o: "open_decision P reg d st = (st, Inr (s, sp))"
    and f: "finish_report (halt [TaskComplete, TaskFailed]
        (set_env (\<lambda>e. e\<lparr>en_stop := Some \<lparr>cm_decision = d\<rparr>, en_consumed := Some True\<rparr>) s)) sp
         ''mission explicitly stopped by human; no automatic resume'' st = (st0, Inr r)"
    using open_decision_store by (fastforce simp: stop_core_def act_bind_Inr)
  let ?s = "halt [TaskComplete, TaskFailed] (set_env (\<lambda>e. e\<lparr>en_stop := Some \<lparr>cm_decision = d\<rparr>, en_consumed := Some True\<rparr>) s)"
  have h: "halted (cd_session d) ?s"
    using open_decision_Inr [OF o] assms(2) by (simp add: halted_def halt_def)
  from f obtain d1 where "save_act ?s st = (d1, Inr ())" "st0 = d1"
    by (auto simp: finish_report_def act_bind_Inr)
  with save_act_cases [of ?s st] have "load_state (ts_session_id ?s) st0 = Inr (Some (redact_task ?s))" by auto
  with h halted_redact [OF h] have "stored_halted (cd_session d) st0" by (auto simp: stored_halted_def halted_def)
  from aftermath_halted [OF later this] have st': "stored_halted (cd_session d) st'" .
  moreover have "run_core fuel P reg ex d' st' = run_core fuel P reg ex' d' st'"
    if "cd_session d' = cd_session d" for fuel ex ex' d'
    using halted_run_core [of d' st'] st' that by simp
  ultimately show ?thesis
    using halted_no_run [OF st'] by (auto simp: stored_halted_def halted_def)
qed

text \<open>The sample mission, stopped by its issued decision.\<close>

definition sample_halted :: wf_state where
  "sample_halted = mark_task TaskBlocked
     (set_env (\<lambda>e. e\<lparr>en_stop := Some \<lparr>cm_decision = sample_decision\<rparr>, en_consumed := Some True\<rparr>) sample_issued)"

lemma sample_stop: "\<exists>st0 r. stop_core sample_platform sample_registry sample_decision sample_store = (st0, Inr r)"
proof -
  have p: "ts_plan sample_halted = ts_plan sample_mission" "ts_session_id sample_halted = ''s1''"
     "ts_active_nodes sample_halted = []" "ts_completion sample_halted = []"
    by (simp_all add: sample_halted_def mark_task_def touch_def set_env_def)
  have "ts_status sample_issued = Investigating"
    by simp
  then have h: "halt [TaskComplete, TaskFailed] (set_env (\<lambda>e. e\<lparr>en_stop := Some \<lparr>cm_decision = sample_decision\<rparr>,
      en_consumed := Some True\<rparr>) sample_issued) = sample_halted" by (simp add: halt_def sample_halted_def)
  have "is_ok (report sample_halted sample_spec m)" for m
  proof -
    have "is_ok (topological_order (ts_plan sample_mission))" "is_ok (ready_nodes (ts_plan sample_mission))"
      by code_simp+
    then show ?thesis by (auto simp: report_def p is_ok_iff)
  qed
  moreover have "snapshot sample_halted = Inr (redact_task sample_halted)"
    by (rule sample_snapshot) (simp_all add: p)
  ultimately show ?thesis
    by (auto simp: stop_core_def act_bind_def sample_open h finish_report_def save_act_def save_state_def act_res_def is_ok_iff)
qed

theorem stop_is_final_witness:
  "\<exists>st0. \<forall>fuel ex k. \<exists>e. run_workflow fuel sample_platform sample_registry ex ''s1'' k st0 = (st0, Inl e)"
proof -
  have d: "cd_session sample_decision = ''s1''" by (simp add: sample_decision_def)
  have r: "redact_text (cd_session sample_decision) = cd_session sample_decision"
    by (simp add: d redact_text_clean is_space_def code_point_def)
  from sample_stop obtain st0 x where "stop_core sample_platform sample_registry sample_decision sample_store = (st0, Inr x)"
    by blast
  from stop_is_final [OF this r here] show ?thesis unfolding d by blast
qed

section \<open>Termination\<close>

text \<open>The nodes without success, and the executors that leave the plan alone.\<close>

definition unfinished :: "plan_graph \<Rightarrow> nat" where
  "unfinished g = card {k \<in> set (dict_keys (g_nodes g)). status_of g k \<noteq> ''success''}"

definition plan_keeping :: "executor \<Rightarrow> bool" where
  "plan_keeping ex \<longleftrightarrow> (\<forall>i cx s. ts_plan (snd (snd (ex i cx s))) = ts_plan s)"

lemma checkpoint_plan:
  "checkpoint s k status summary inc d = (d', Inr s') \<Longrightarrow> mark k status (take 500 summary) (ts_plan s) = Inr (ts_plan s')"
  by (auto simp: checkpoint_def act_bind_Inr Let_def)

lemma settle_stage_next:
  "settle_stage core sp st r ok failures s d = (d', Inr (NextTurn s')) \<Longrightarrow>
     \<exists>sm. mark (st_id st) ''success'' sm (ts_plan s) = Inr (ts_plan s')"
  by (auto simp: settle_stage_def act_bind_Inr end_turn_def Let_def split: if_split_asm dest!: checkpoint_plan)

lemma record_stage_result_plan: "record_stage_result s st r d = (d', Inr s') \<Longrightarrow> ts_plan s' = ts_plan s"
  unfolding record_stage_result_def Let_def
  by (auto simp: act_bind_Inr fold_add_artifact split: option.splits)

lemma run_stage_next:
  assumes "run_stage P ex calls core reserved sp st s d = (d', Inr (NextTurn s'))" "core \<noteq> None \<or> plan_keeping ex"
  shows "\<exists>g sm. mark (st_id st) ''running'' [] (ts_plan s) = Inr g \<and> mark (st_id st) ''success'' sm g = Inr (ts_plan s')"
proof -
  from assms(1) obtain d1 s1 where c1: "checkpoint s (st_id st) ''running'' [] True d = (d1, Inr s1)"
    and rest: "(let s2 = record_action (''workflow:'' @ st_id st)
           [(''workflow'', JStr (sp_name sp)), (''stage'', JStr (st_id st))]
           (''execute deterministic workflow stage '' @ st_id st) s1;
         cx = context_of s2 sp st in
     act_bind (act_res (start_runtime P s2 cx)) (\<lambda>rt.
     case ex calls cx s2 of (ended, cx', w) \<Rightarrow>
       let s3 = (if core \<noteq> None then s2 else w) in
       act_bind (act_res (judge P rt sp core st s3 cx cx' (core_state_fingerprint P s2) w ended)) (\<lambda>(r, ok, failures).
       let s4 = (case reserved of None \<Rightarrow> s3 | Some b \<Rightarrow> set_env (\<lambda>e. e\<lparr>en_budget := Some b\<rparr>) s3) in
       act_bind (record_stage_result s4 st r) (\<lambda>s5.
       let s6 = (if core \<noteq> None then set_env (\<lambda>e. e\<lparr>en_dispatch := None\<rparr>) s5 else s5) in
         settle_stage core sp st r ok failures s6)))) d1 = (d', Inr (NextTurn s'))"
    by (auto simp: run_stage_def act_bind_Inr)
  define s2 where "s2 = record_action (''workflow:'' @ st_id st)
           [(''workflow'', JStr (sp_name sp)), (''stage'', JStr (st_id st))]
           (''execute deterministic workflow stage '' @ st_id st) s1"
  obtain ended cx' w where ended: "ex calls (context_of s2 sp st) s2 = (ended, cx', w)" by (metis surj_pair)
  define s3 where "s3 = (if core \<noteq> None then s2 else w)"
  have s2: "ts_plan s2 = ts_plan s1" by (simp add: s2_def)
  have "ts_plan w = ts_plan s2" if "plan_keeping ex" using that ended unfolding plan_keeping_def by (metis snd_conv)
  with assms(2) s2 have s3: "ts_plan s3 = ts_plan s1" by (auto simp: s3_def)
  define s4 where "s4 = (case reserved of None \<Rightarrow> s3 | Some b \<Rightarrow> set_env (\<lambda>e. e\<lparr>en_budget := Some b\<rparr>) s3)"
  have s4: "ts_plan s4 = ts_plan s1" by (simp add: s4_def s3 split: option.split)
  from rest [unfolded Let_def, folded s2_def, unfolded ended prod.case, folded s3_def, folded s4_def]
  obtain x d2 where "(case x of (r, ok, failures) \<Rightarrow> act_bind (record_stage_result s4 st r)
        (\<lambda>s5. settle_stage core sp st r ok failures
          (if core \<noteq> None then set_env (\<lambda>e. e\<lparr>en_dispatch := None\<rparr>) s5 else s5))) d2 = (d', Inr (NextTurn s'))"
    by (elim act_bind_InrE)
  then obtain r ok failures s5 d3 where r: "record_stage_result s4 st r d2 = (d3, Inr s5)"
    and z: "settle_stage core sp st r ok failures (if core \<noteq> None then set_env (\<lambda>e. e\<lparr>en_dispatch := None\<rparr>) s5 else s5) d3
      = (d', Inr (NextTurn s'))"
    by (cases x) (auto elim!: act_bind_InrE simp del: not_None_eq)
  have "ts_plan s5 = ts_plan s1" using record_stage_result_plan [OF r] s4 by simp
  then have "ts_plan (if core \<noteq> None then set_env (\<lambda>e. e\<lparr>en_dispatch := None\<rparr>) s5 else s5) = ts_plan s1" by simp
  with settle_stage_next [OF z] checkpoint_plan [OF c1] show ?thesis by auto
qed

lemma unfinished_mark:
  assumes "mark k ''running'' sm g = Inr g1" "mark k ''success'' sm' g1 = Inr g2" "k \<in> set (dict_keys (g_nodes g))"
    "status_of g k \<noteq> ''success''"
  shows "unfinished g2 < unfinished g"
proof -
  have "{x \<in> set (dict_keys (g_nodes g2)). status_of g2 x \<noteq> ''success''}
      = {x \<in> set (dict_keys (g_nodes g)). status_of g x \<noteq> ''success''} - {k}"
    using mark_keys [OF assms(1)] mark_keys [OF assms(2)] mark_status [OF assms(1)] mark_status [OF assms(2)] by auto
  moreover have "k \<in> {x \<in> set (dict_keys (g_nodes g)). status_of g x \<noteq> ''success''}" using assms(3,4) by simp
  ultimately show ?thesis unfolding unfinished_def by (simp only:) (rule card_Diff1_less, simp_all)
qed

lemma mark_wf_graph: "mark k st sm g = Inr g' \<Longrightarrow> wf_graph g \<Longrightarrow> wf_graph g'"
proof -
  assume "mark k st sm g = Inr g'" and w: "wf_graph g"
  then obtain n where n: "map_of (g_nodes g) k = Some n" and g': "g' = g\<lparr>g_nodes := dict_set k (mark_node st sm n) (g_nodes g)\<rparr>"
    using mark_Inr by blast
  have "n_id m = x" if "(x, m) \<in> set (g_nodes g')" for x m
  proof -
    have "wf_dict (g_nodes g')" using w by (simp add: g' wf_graph_def)
    from dict_get_in [OF this that] have "map_of (g_nodes g') x = Some m" .
    then show ?thesis using w n by (auto simp: g' wf_graph_def mark_node_def split: if_split_asm dest!: map_of_SomeD)
  qed
  with w show ?thesis by (auto simp: g' wf_graph_def)
qed

lemma ready_among_pending: "ready_among g ns = Inr ready \<Longrightarrow> n \<in> set ready \<Longrightarrow> n \<in> set ns \<and> n_status n = ''pending''"
  by (induction ns arbitrary: ready) (auto simp: res_bind_eq_Inr split: if_split_asm)

lemma chosen_node_pending:
  assumes "ready_nodes g = Inr ready" "ready \<noteq> []" "chosen_node core s ready = Inr n" "wf_graph g"
  shows "n_id n \<in> set (dict_keys (g_nodes g)) \<and> status_of g (n_id n) = ''pending''"
proof -
  have "n \<in> set ready"
    using assms(2,3) by (auto simp: chosen_node_def res_bind_eq_Inr split: option.splits)
  with ready_among_pending assms(1) have "n \<in> snd ` set (g_nodes g)" and p: "n_status n = ''pending''"
    by (fastforce simp: ready_nodes_def)+
  then obtain k where "(k, n) \<in> set (g_nodes g)" by auto
  with assms(4) have "map_of (g_nodes g) (n_id n) = Some n" by (auto simp: wf_graph_def dict_get_in)
  with p show ?thesis by (auto simp: status_of_def node_of_def dest: map_of_key)
qed

text \<open>
  C7: Advancing a run terminates. For a plan whose nodes carry their own keys, with a Core decision
  or an executor that leaves the plan to the runner, one more turn than there are unfinished nodes
  is enough: what would happen at the end of the fuel never does, and more fuel changes nothing.
\<close>
theorem advance_terminates:
  assumes "core \<noteq> None \<or> plan_keeping ex" and "wf_graph (ts_plan s)"
    and "unfinished (ts_plan s) < fuel" and "unfinished (ts_plan s) < fuel'"
  shows "advance_loop spent fuel P ex calls core reserved sid sp s d
    = advance_loop spent' fuel' P ex calls core reserved sid sp s d"
  using assms(2-)
proof (induction fuel arbitrary: fuel' calls s d)
  case (Suc fuel)
  obtain n where f': "fuel' = Suc n" using Suc.prems(3) by (cases fuel') auto
  have turn: "advance_loop spent fuel P ex (Suc calls) core reserved sid sp s1 d1
      = advance_loop spent' n P ex (Suc calls) core reserved sid sp s1 d1"
    if rd: "ready_nodes (ts_plan s) = Inr ready" "ready \<noteq> []" "chosen_node core s ready = Inr nd"
      "find_stage sp (n_id nd) = Inr st" "run_stage P ex calls core reserved sp st s d0 = (d1, Inr (NextTurn s1))"
    for ready nd st d0 d1 s1
  proof -
    note p = chosen_node_pending [OF rd(1-3) Suc.prems(1)]
    have k: "st_id st = n_id nd" using find_stage_Inr [OF rd(4)] by simp
    from run_stage_next [OF rd(5) assms(1)] obtain g sm where
      g: "mark (n_id nd) ''running'' [] (ts_plan s) = Inr g" "mark (n_id nd) ''success'' sm g = Inr (ts_plan s1)"
      unfolding k by blast
    have "unfinished (ts_plan s1) < unfinished (ts_plan s)" using unfinished_mark [OF g] p by simp
    moreover have "wf_graph (ts_plan s1)" using g Suc.prems(1) mark_wf_graph by blast
    ultimately show ?thesis using Suc.IH [of s1 n "Suc calls" d1] Suc.prems(2,3) f' by simp
  qed
  show ?case
    unfolding f' advance_loop.simps act_bind_def act_res_def
    by (auto split: sum.splits prod.splits turn.splits simp: turn)
qed simp
lemma unfinished_le: "unfinished g \<le> length (g_nodes g)"
proof -
  have "unfinished g \<le> card (set (dict_keys (g_nodes g)))"
    unfolding unfinished_def by (rule card_mono) auto
  also have "\<dots> \<le> length (g_nodes g)" using card_length [of "dict_keys (g_nodes g)"] by simp
  finally show ?thesis .
qed

theorem advance_terminates_witness:
  "advance_loop out_of_fuel 3 sample_platform (\<lambda>_ cx s. (ExecRaises, cx, s)) 0 None None ''s1'' sample_spec sample_issued sample_store
    = advance_loop (act_res (Inl (RuntimeError ''other''))) 9 sample_platform (\<lambda>_ cx s. (ExecRaises, cx, s)) 0 None None
        ''s1'' sample_spec sample_issued sample_store"
proof (rule advance_terminates)
  show "None \<noteq> None \<or> plan_keeping (\<lambda>_ cx s. (ExecRaises, cx, s))" by (simp add: plan_keeping_def)
  show "wf_graph (ts_plan sample_issued)" using sample_mission_wf by (simp add: mission_wf_def)
  have "length (g_nodes (ts_plan sample_issued)) = 2"
    by (simp add: sample_plan_nodes plan_nodes_def sample_spec_def)
  with unfinished_le [of "ts_plan sample_issued"]
  show "unfinished (ts_plan sample_issued) < 3" "unfinished (ts_plan sample_issued) < 9" by linarith+
qed

text \<open>
  A replacement lineage is bounded: whatever the store holds, also a cycle of origins, the
  walk over a mission's ancestors ends, and it accepts at most 32 of them, each a different session.
\<close>
theorem lineage_bounded:
  assumes "validate_lineage P d s = Inr n"
  shows "n \<le> 32 \<and> (\<exists>parents. length parents = n \<and> distinct (ts_session_id s # parents)
    \<and> (\<forall>k \<in> set parents. \<exists>t. load_state k d = Inr (Some t)))"
proof -
  have walk: "\<exists>parents. m = depth + length parents \<and> (parents \<noteq> [] \<longrightarrow> m \<le> 32) \<and> distinct (parents @ visited)
      \<and> (\<forall>k \<in> set parents. \<exists>t. load_state k d = Inr (Some t))"
    if "walk_lineage P d visited depth u = Inr m" "distinct visited" for visited depth u m
    using that
  proof (induction P d visited depth u rule: walk_lineage.induct)
    case (1 P d visited depth u)
    show ?case
    proof (cases "en_origin (ts_env u)")
      case None
      with "1.prems" show ?thesis by (simp add: walk_lineage.simps)
    next
      case (Some o0)
      with "1.prems" obtain origin parent where o: "validate_origin o0 = Inr origin" "ro_parent origin \<notin> set visited" "depth < 32"
        "load_state (ro_parent origin) d = Inr (Some parent)" "lineage_pair P u origin parent = Inr ()"
        and w: "walk_lineage P d (ro_parent origin # visited) (Suc depth) parent = Inr m"
        by (subst (asm) walk_lineage.simps) (auto split: sum.split_asm option.split_asm if_split_asm)
      have "\<not> (ro_parent origin \<in> set visited \<or> 32 \<le> depth)" using o by simp
      from "1.IH" [OF Some o(1) this o(4) refl o(5) w] "1.prems"(2) o(2) obtain ps where
        "m = Suc depth + length ps" "ps \<noteq> [] \<longrightarrow> m \<le> 32" "distinct (ps @ ro_parent origin # visited)"
        "\<forall>k \<in> set ps. \<exists>t. load_state k d = Inr (Some t)" by auto
      with o show ?thesis by (intro exI [of _ "ps @ [ro_parent origin]"]) (cases "ps = []"; auto)
    qed
  qed
  from walk [OF assms [unfolded validate_lineage_def]] obtain ps where
    "n = length ps" "ps \<noteq> [] \<longrightarrow> n \<le> 32" "distinct (ps @ [ts_session_id s])"
    "\<forall>k \<in> set ps. \<exists>t. load_state k d = Inr (Some t)" by auto
  then show ?thesis by (intro conjI exI [of _ ps]) (cases ps; auto)+
qed

theorem lineage_bounded_witness: "\<exists>n. validate_lineage sample_platform sample_store sample_issued = Inr n \<and> n \<le> 32"
proof -
  have "validate_lineage sample_platform sample_store sample_issued = Inr 0"
    by (simp add: validate_lineage_def walk_lineage.simps)
  with lineage_bounded [OF this] show ?thesis by blast
qed

end
