(* ===== verification/RunReplan.thy ===== *)
theory RunReplan
  imports RunProps
begin

text \<open>
  Replanning: what a replacement takes over from its parent, and a replan of the stored mission of
  the samples after a failure.
\<close>

section \<open>Replacements\<close>

lemma save_nodes_task: "save_nodes sid existing fps ns d ch = (d', x) \<Longrightarrow> db_task d' = db_task d"
  by (induction sid existing fps ns d ch rule: save_nodes.induct)
    (auto simp: Let_def upsert_node_def split: if_split_asm)

lemma start_run_stored:
  assumes "start_run P sid sp goal target reads writes sel budget origin (Some p) d = (d', Inr rep)"
  shows "\<exists>g selected. rp_session rep = sid
    \<and> load_state sid d' = Inr (Some (redact_task (furnish selected budget origin (Some p) (initial_state P sid sp goal target reads writes g))))
    \<and> (\<forall>other. other \<noteq> sid \<longrightarrow> load_state other d' = load_state other d)"
proof -
  from assms obtain d1 d2 g selected x where c: "create_session sid goal target d = Inr d1"
    and p: "save_plan sid g (plan_fingerprints P g) d1 = (d2, Inr x)"
    and f: "finish_report (furnish selected budget origin (Some p) (initial_state P sid sp goal target reads writes g)) sp ''workflow created'' d2 = (d', Inr rep)"
    by (auto simp: start_run_def act_bind_Inr Let_def split: sum.splits)
  let ?s = "furnish selected budget origin (Some p) (initial_state P sid sp goal target reads writes g)"
  have s: "ts_session_id ?s = sid" by (simp add: furnish_def inherit_def initial_state_def set_env_def)
  have t1: "load_state o' d1 = load_state o' d" for o'
    using c by (auto simp: create_session_def load_state_def load_task_state_def split: if_split_asm)
  have t2: "load_state o' d2 = load_state o' d1" for o'
    using p by (auto simp: save_plan_def load_state_def load_task_state_def dest!: save_nodes_task split: if_split_asm)
  from f obtain u where "save_act ?s d2 = (d', Inr u)" "report ?s sp ''workflow created'' = Inr rep"
    by (auto simp: finish_report_def act_bind_Inr)
  with save_act_cases [of ?s d2] s t1 t2 have "load_state sid d' = Inr (Some (redact_task ?s))"
    "\<forall>other. other \<noteq> sid \<longrightarrow> load_state other d' = load_state other d" "rp_session rep = sid"
    by (auto simp: report_def res_bind_eq_Inr)
  then show ?thesis by blast
qed

lemma superseded_simps [simp]:
  "ts_session_id (superseded d t s) = ts_session_id s" "ts_scope (superseded d t s) = ts_scope s"
  "ts_constraints (superseded d t s) = ts_constraints s" "ts_completion (superseded d t s) = ts_completion s"
  "ts_objective (superseded d t s) = ts_objective s"
  "ts_env (superseded d t s) = (ts_env s)\<lparr>en_transition := Some t, en_stop := Some \<lparr>cm_decision = d\<rparr>, en_consumed := Some True\<rparr>"
  by (simp_all add: superseded_def halt_def set_env_def mark_task_def touch_def)

lemma replan_core_Inr:
  assumes "replan_core P reg new_sid d intent pins st = (st', Inr rep)"
  shows "\<exists>s sp sel sp2 t. load_run P reg (cd_session d) st = Inr (s, sp) \<and> ts_session_id s = cd_session d
    \<and> enact_replan P new_sid sp2 sel (en_budget (ts_env s)) d (superseded d t s) st = (st', Inr rep)"
proof -
  have b: "x = b" if "(case b of None \<Rightarrow> Inr None | Some b \<Rightarrow> res_bind (validate_budget b) (\<lambda>b. Inr (Some b))) = Inr x" for b x
    using that validate_budget_Inr by (fastforce simp: res_bind_eq_Inr split: option.splits)
  from assms obtain s sp sel sp2 t budget where "load_run P reg (cd_session d) st = Inr (s, sp)"
    "validate_core_decision P s sp d = Inr ()"
    "(case en_budget (ts_env s) of None \<Rightarrow> Inr None | Some b \<Rightarrow> res_bind (validate_budget b) (\<lambda>b. Inr (Some b))) = Inr budget"
    "enact_replan P new_sid sp2 sel budget d (superseded d t s) st = (st', Inr rep)"
    unfolding replan_core_def
    by (elim act_bind_InrE, clarsimp simp: load_act_def dest!: validate_decision_same, elim act_bind_InrE,
        clarsimp dest!: validate_decision_same)
  with b [of "en_budget (ts_env s)" budget] show ?thesis
    by (auto simp: validate_core_decision_def res_bind_eq_Inr dest!: decide_session)
qed

text \<open>
  C6: A replacement takes over the mission, not more. After a replan the parent is stopped, its
  decision consumed, and its scope and budget are what they were; the replacement's stored state has
  exactly the parent's scope, constraints, completion conditions, objective and spent budget, and
  names the parent as its origin.
\<close>
theorem replan_inherits:
  assumes "replan_core P reg new_sid d intent pins st = (st', Inr rep)" and "new_sid \<noteq> cd_session d"
    and "redact_text (cd_session d) = cd_session d"
  shows "\<exists>s sp parent child. load_run P reg (cd_session d) st = Inr (s, sp)
    \<and> load_state (cd_session d) st' = Inr (Some parent) \<and> load_state new_sid st' = Inr (Some child)
    \<and> en_stop (ts_env parent) \<noteq> None \<and> en_consumed (ts_env parent) = Some True
    \<and> ts_scope parent = redact_scope (ts_scope s) \<and> en_budget (ts_env parent) = en_budget (ts_env s)
    \<and> ts_scope child = ts_scope parent \<and> ts_constraints child = ts_constraints parent
    \<and> ts_completion child = ts_completion parent \<and> ts_objective child = ts_objective parent
    \<and> en_budget (ts_env child) = en_budget (ts_env parent)
    \<and> (\<exists>origin. en_origin (ts_env child) = Some origin \<and> ro_parent origin = cd_session d)"
proof -
  from replan_core_Inr [OF assms(1)] obtain s sp sel sp2 t where l: "load_run P reg (cd_session d) st = Inr (s, sp)"
    and s: "ts_session_id s = cd_session d"
    and e: "enact_replan P new_sid sp2 sel (en_budget (ts_env s)) d (superseded d t s) st = (st', Inr rep)" by blast
  let ?p = "superseded d t s"
  have origin: "o' = o1" if "validate_origin o1 = Inr o'" for o1 o'
    using that by (auto simp: validate_origin_def res_bind_eq_Inr)
  from e obtain d1 d2 o' created t2 u where v: "validate_origin \<lparr>ro_parent = cd_session d, ro_decision_fp = sha_decision P d\<rparr> = Inr o'"
    and st: "start_run P new_sid sp2 (ts_objective ?p) (target_text ?p) (sv_read_roots (ts_scope ?p))
        (sv_write_roots (ts_scope ?p)) (Some sel) (en_budget (ts_env s)) (Some o') (Some ?p) d1 = (d2, Inr created)"
    and sv: "save_act (touch (set_env (\<lambda>e. e\<lparr>en_transition := Some t2\<rparr>) ?p)) d2 = (st', Inr u)"
    unfolding enact_replan_def by (auto simp: act_bind_Inr s)
  let ?q = "touch (set_env (\<lambda>e. e\<lparr>en_transition := Some t2\<rparr>) ?p)"
  from start_run_stored [OF st] obtain g selected c where
    c: "c = furnish selected (en_budget (ts_env s)) (Some o') (Some ?p)
          (initial_state P new_sid sp2 (ts_objective ?p) (target_text ?p) (sv_read_roots (ts_scope ?p)) (sv_write_roots (ts_scope ?p)) g)"
    and lc: "load_state new_sid d2 = Inr (Some (redact_task c))" by blast
  from save_act_cases [of ?q d2] sv s assms(2) lc have
    "load_state (cd_session d) st' = Inr (Some (redact_task ?q))" "load_state new_sid st' = Inr (Some (redact_task c))" by auto
  moreover have "ts_scope (redact_task c) = ts_scope (redact_task ?q)" "ts_constraints (redact_task c) = ts_constraints (redact_task ?q)"
    "ts_completion (redact_task c) = ts_completion (redact_task ?q)" "ts_objective (redact_task c) = ts_objective (redact_task ?q)"
    "ts_scope (redact_task ?q) = redact_scope (ts_scope s)"
    by (simp_all add: c redact_task_def furnish_def inherit_def initial_state_def touch_def set_env_def)
  moreover have "en_stop (ts_env (redact_task ?q)) \<noteq> None" "en_consumed (ts_env (redact_task ?q)) = Some True"
    "en_budget (ts_env (redact_task ?q)) = en_budget (ts_env s)" "en_budget (ts_env (redact_task c)) = en_budget (ts_env s)"
    "en_origin (ts_env (redact_task c)) = Some \<lparr>ro_parent = cd_session d, ro_decision_fp = redact_text (sha_decision P d)\<rparr>"
    using origin [OF v] assms(3)
    by (simp_all add: c redact_env_def furnish_def inherit_def initial_state_def)
  ultimately show ?thesis using l by (intro exI [of _ s] exI [of _ sp] exI conjI) (assumption | simp)+
qed

text \<open>The sample mission after a failure, with the review it asks for, and its replacement.\<close>

definition sample_review :: core_decision where
  "sample_review = \<lparr>cd_session = ''s1'', cd_version = 0, cd_state_fp = sample_hash, cd_workflow_fp = sample_hash,
     cd_outcome = DecFailed, cd_reason = WorkflowFailure, cd_stage = [], cd_node_fp = [], cd_max_steps = 0,
     cd_review = Some \<lparr>rq_category = PlainReview, rq_reason = MissionReason, rq_stage = [], rq_node_fp = [],
       rq_active_fp = [], rq_outcome = None, rq_kind = None\<rparr>\<rparr>"

abbreviation sample_failed :: wf_state where "sample_failed \<equiv> sample_at sample_review TaskFailed"

abbreviation sample_goal :: core_intent where
  "sample_goal \<equiv> \<lparr>ci_objective = ''goal'', ci_mode = Coding, ci_workflow = []\<rparr>"

lemma sample_review_simps [simp]:
  "cd_session sample_review = ''s1''" "cd_review sample_review \<noteq> None" "cd_outcome sample_review = DecFailed"
  by (simp_all add: sample_review_def)

lemma sample_review_decides: "decide sample_platform sample_failed sample_spec = Inr sample_review"
proof -
  have "decide_nodes sample_platform sample_failed sample_spec (map snd (plan_nodes sample_spec)) = Inr sample_review"
    by code_simp
  then show ?thesis by (simp add: decide_def sample_pinned sample_strategy sample_order)
qed

lemma sample_review_valid: "validate_decision sample_review = Inr sample_review"
  by code_simp

lemma sample_intent_valid: "validate_intent sample_goal = Inr sample_goal"
  by code_simp

lemma sample_saves:
  assumes "ts_plan s = ts_plan sample_mission" "ts_active_nodes s = []" "ts_completion s = []"
  shows "save_act s d = (save_task_state (ts_session_id s) (redact_task s) d, Inr ())"
  by (simp add: save_act_def save_state_def sample_snapshot [OF assms])

lemma sample_report: "ts_plan s = ts_plan sample_mission \<Longrightarrow> \<exists>r. report s sample_spec m = Inr r \<and> rp_session r = ts_session_id s"
proof -
  assume p: "ts_plan s = ts_plan sample_mission"
  have "is_ok (ready_nodes (ts_plan sample_mission))" by code_simp
  then show ?thesis by (auto simp: report_def p sample_order is_ok_iff)
qed

lemma sample_plan_saved: "''s2'' \<in> set (map sn_id (db_sessions d)) \<Longrightarrow>
    \<exists>d' ch. save_plan ''s2'' (ts_plan sample_mission) (plan_fingerprints sample_platform (ts_plan sample_mission)) d = (d', Inr ch)"
  by (simp add: save_plan_def sample_plan_nodes plan_nodes_def sample_spec_def sample_stage_def plan_fingerprints_def
      material_fingerprint_def sample_platform_def sample_hash_ne Let_def)

lemma sample_strategy_of: "\<exists>c. strategy_of sample_platform sample_spec = Inr c"
proof -
  have "is_ok (strategy_of sample_platform sample_spec)" by code_simp
  then show ?thesis by (simp add: is_ok_iff)
qed

lemma sample_started_run:
  assumes "db_sessions d = []" "ts_completion p = []"
  shows "\<exists>d' r. start_run sample_platform ''s2'' sample_spec ''goal'' tg rd wr (Some sample_selection) b origin (Some p) d = (d', Inr r)
    \<and> rp_session r = ''s2''"
proof -
  obtain c where c: "strategy_of sample_platform sample_spec = Inr c" using sample_strategy_of by blast
  let ?s = "furnish (Some (sample_selection, c)) b origin (Some p)
    (initial_state sample_platform ''s2'' sample_spec ''goal'' tg rd wr (ts_plan sample_mission))"
  let ?d = "d\<lparr>db_sessions := [\<lparr>sn_id = ''s2'', sn_goal = ''goal'', sn_focus = tg, sn_status = ''active''\<rparr>]\<rparr>"
  have s: "ts_plan ?s = ts_plan sample_mission" "ts_active_nodes ?s = []" "ts_completion ?s = []" "ts_session_id ?s = ''s2''"
    by (simp_all add: furnish_def inherit_def initial_state_def set_env_def assms)
  obtain d1 ch where p: "save_plan ''s2'' (ts_plan sample_mission) (plan_fingerprints sample_platform (ts_plan sample_mission)) ?d = (d1, Inr ch)"
    using sample_plan_saved [of ?d] by auto
  obtain r where r: "report ?s sample_spec ''workflow created'' = Inr r" "rp_session r = ''s2''"
    using sample_report [OF s(1)] s(4) by metis
  have "sp_target_required sample_spec = False" by (simp add: sample_spec_def)
  then show ?thesis
    by (simp add: start_run_def act_bind_def act_check_def act_res_def ensure_def c create_session_def assms(1)
        sample_plan_ok p Let_def finish_report_def sample_saves [OF s(1-3)] r)
qed

lemma sample_replan:
  "\<exists>st' rep. replan_core sample_platform sample_registry ''s2'' sample_review sample_goal [sample_pin]
     (sample_store_of sample_failed) = (st', Inr rep)"
proof -
  obtain c where c: "strategy_of sample_platform sample_spec = Inr c" using sample_strategy_of by blast
  have sel: "se_outcome sample_selection = Selected" "se_workflow sample_selection = Some sample_pin"
    by (simp_all add: sample_selection_def)
  have fp: "spec_fingerprint sample_platform sample_spec = sample_hash" "rw_fingerprint sample_pin = sample_hash"
    "rw_name sample_pin = ''audit''" "sp_target_required sample_spec = False" "sha_decision sample_platform x = sample_hash"
    "intent_fingerprint sample_platform i = sample_hash" for x i
    by (simp_all add: spec_fingerprint_def intent_fingerprint_def sample_platform_def sample_pin_def sample_spec_def)
  have t: "make_transition \<lparr>rt_decision = sample_review, rt_replacement = sample_selection, rt_session = k\<rparr>
      = Inr \<lparr>rt_decision = sample_review, rt_replacement = sample_selection, rt_session = k\<rparr>" if "length k \<le> 128" for k
    using that by (simp add: make_transition_def sel ensure_def)
  let ?t = "\<lparr>rt_decision = sample_review, rt_replacement = sample_selection, rt_session = []\<rparr>"
  let ?p = "superseded sample_review ?t sample_failed"
  have q: "ts_plan ?p = ts_plan sample_mission" "ts_active_nodes ?p = []" "ts_completion ?p = []"
    by (simp_all add: superseded_def halt_def touch_def set_env_def)
  have q2: "ts_plan (touch (set_env f ?p)) = ts_plan sample_mission" "ts_active_nodes (touch (set_env f ?p)) = []"
    "ts_completion (touch (set_env f ?p)) = []" for f
    using q by (simp_all add: touch_def set_env_def)
  have "is_hex64 sample_hash" "bounded_text 1 128 ''s1''" by code_simp+
  then have o: "validate_origin \<lparr>ro_parent = ''s1'', ro_decision_fp = sample_hash\<rparr> = Inr \<lparr>ro_parent = ''s1'', ro_decision_fp = sample_hash\<rparr>"
    by (simp add: validate_origin_def ensure_def)
  let ?d = "save_task_state ''s1'' (redact_task ?p) (sample_store_of sample_failed)"
  have "db_sessions ?d = []" by (simp add: save_task_state_def sample_store_of_def)
  from sample_started_run [OF this q(3)] obtain d' r where
    "start_run sample_platform ''s2'' sample_spec ''goal'' (target_text ?p) (sv_read_roots (ts_scope ?p)) (sv_write_roots (ts_scope ?p))
      (Some sample_selection) (Some sample_budget) (Some \<lparr>ro_parent = ''s1'', ro_decision_fp = sample_hash\<rparr>) (Some ?p) ?d = (d', Inr r)"
    "rp_session r = ''s2''" by blast
  then have "\<exists>st' rep. enact_replan sample_platform ''s2'' sample_spec sample_selection (Some sample_budget) sample_review ?p
      (sample_store_of sample_failed) = (st', Inr rep)"
    by (simp add: enact_replan_def act_bind_def act_res_def sample_saves [OF q] sample_saves [OF q2] o fp t)
  moreover have "list_ex (\<lambda>(k, n). n_status n = ''running'') (g_nodes (ts_plan sample_mission)) = False" by code_simp
  moreover have "target_text sample_failed = []" by (simp add: target_text_def)
  ultimately show ?thesis
    by (simp add: replan_core_def act_bind_def act_res_def act_check_def sample_review_valid sample_intent_valid
      load_act_def sample_loaded validate_core_decision_def sample_review_decides ensure_def running_work_def
      pending_dispatch_def sample_intent fp validate_lineage_def walk_lineage.simps sample_select selected_spec_def
      sel require_spec_def sample_registered c sample_budget_valid t)
qed

theorem replan_inherits_witness:
  "\<exists>st' child. load_state ''s2'' st' = Inr (Some child) \<and> en_budget (ts_env child) = Some sample_budget"
proof -
  have r: "redact_text (cd_session sample_review) = cd_session sample_review"
    by (simp add: redact_text_clean is_space_def code_point_def)
  have n: "''s2'' \<noteq> cd_session sample_review" by simp
  from sample_replan obtain st' rep where "replan_core sample_platform sample_registry ''s2'' sample_review sample_goal [sample_pin]
     (sample_store_of sample_failed) = (st', Inr rep)" by blast
  from replan_inherits [OF this n r] sample_loaded show ?thesis by fastforce
qed
end
