(* ===== verification/Shlex.thy ===== *)
theory Shlex
  imports Coordinator
begin

text \<open>
  Words of a command line: \<open>shlex.split\<close> in POSIX mode, as the coding capabilities and the host
  tools use it on a command given as one text, and its round trip with \<open>command_display\<close>, the text
  that a human sees when an argument vector is to be approved.
\<close>

section \<open>The scanner\<close>

text \<open>
  The states of \<open>shlex.read_token\<close> with \<open>whitespace_split\<close> and without comments: between words, in a
  word, in quotes, after a backslash (with the state to return to). A word exists once a character or
  a quote was read, which \<open>None\<close> and \<open>Some\<close> of the current word tell apart.
\<close>

datatype lex_state = Between | InWord | InQuote char | Escaped lex_state

definition lex_space :: "char \<Rightarrow> bool" where
  "lex_space c = (c \<in> {CHR '' '', CHR 0x09, CHR 0x0D, CHR 0x0A})"

definition lex_quote :: "char \<Rightarrow> bool" where
  "lex_quote c = (c = CHR 0x27 \<or> c = CHR 0x22)"

definition lex_escape :: "char \<Rightarrow> bool" where
  "lex_escape c = (c = CHR 0x5C)"

definition cons_res :: "'a \<Rightarrow> 'a list res \<Rightarrow> 'a list res" where
  "cons_res w r = res_bind r (\<lambda>ws. Inr (w # ws))"

text \<open>\<open>w\<close> is the current word; the words before it are in the results of the outer calls.\<close>

fun lex :: "lex_state \<Rightarrow> string \<Rightarrow> string \<Rightarrow> string list res" where
  "lex Between w [] = Inr []"
| "lex InWord w [] = Inr [w]"
| "lex (InQuote q) w [] = Inl (ValueError ''No closing quotation'')"
| "lex (Escaped st) w [] = Inl (ValueError ''No escaped character'')"
| "lex Between w (c # cs) =
     (if lex_space c then lex Between [] cs
      else if lex_escape c then lex (Escaped InWord) [] cs
      else if lex_quote c then lex (InQuote c) [] cs
      else lex InWord [c] cs)"
| "lex InWord w (c # cs) =
     (if lex_space c then cons_res w (lex Between [] cs)
      else if lex_quote c then lex (InQuote c) w cs
      else if lex_escape c then lex (Escaped InWord) w cs
      else lex InWord (w @ [c]) cs)"
| "lex (InQuote q) w (c # cs) =
     (if c = q then lex InWord w cs
      else if lex_escape c \<and> q = CHR 0x22 then lex (Escaped (InQuote q)) w cs
      else lex (InQuote q) (w @ [c]) cs)"
| "lex (Escaped st) w (c # cs) =
     lex st (w @ (case st of InQuote q \<Rightarrow> if c \<noteq> CHR 0x5C \<and> c \<noteq> q then [CHR 0x5C, c] else [c] | _ \<Rightarrow> [c])) cs"

definition shlex_split :: "string \<Rightarrow> string list res" where
  "shlex_split s = lex Between [] s"

section \<open>Reading back a displayed command\<close>

lemma shell_safe_plain: "shell_safe c \<Longrightarrow> \<not> lex_space c \<and> \<not> lex_quote c \<and> \<not> lex_escape c"
  by (auto simp: shell_safe_def ascii_alnum_def lex_space_def lex_quote_def lex_escape_def code_point_def
      is_dec_def is_lower_ascii_def is_ascii_alpha_def)

lemma lex_safe: "list_all shell_safe s \<Longrightarrow> lex InWord w (s @ r) = lex InWord (w @ s) r"
  by (induction s arbitrary: w) (auto dest: shell_safe_plain)

lemma lex_quoted_body:
  "lex (InQuote (CHR 0x27)) w
     (concat (map (\<lambda>c. if c = CHR 0x27 then [CHR 0x27, CHR 0x22, CHR 0x27, CHR 0x22, CHR 0x27] else [c]) s)
       @ CHR 0x27 # r) = lex InWord (w @ s) r"
  by (induction s arbitrary: w) (auto simp: lex_escape_def lex_quote_def lex_space_def)

text \<open>A quoted word at the start of a text, or after a space, is read back as it was.\<close>

lemma lex_word: "\<exists>c cs. shell_quote s = c # cs \<and> \<not> lex_space c \<and> lex Between [] (shell_quote s @ r) = lex InWord s r"
proof (cases "s \<noteq> [] \<and> list_all shell_safe s")
  case True
  then obtain c cs where s: "s = c # cs" by (cases s) auto
  with True have "lex Between [] (shell_quote s @ r) = lex InWord s r"
    using lex_safe [of cs "[c]" r] shell_safe_plain [of c] by (simp add: shell_quote_def)
  with True s shell_safe_plain [of c] show ?thesis by (simp add: shell_quote_def)
next
  case False
  then show ?thesis
    using lex_quoted_body [of "[]" s r]
    by (auto simp: shell_quote_def quoted_def lex_space_def lex_quote_def lex_escape_def)
qed

lemma lex_words: "shlex_split (join_with '' '' (map shell_quote ws)) = Inr ws"
proof (induction ws)
  case Nil
  then show ?case by (simp add: shlex_split_def)
next
  case (Cons w ws)
  show ?case
  proof (cases ws)
    case Nil
    then show ?thesis using lex_word [of w "[]"] by (auto simp: shlex_split_def)
  next
    case (Cons v vs)
    then have "join_with '' '' (map shell_quote (w # ws)) = shell_quote w @ CHR '' '' # join_with '' '' (map shell_quote ws)"
      by simp
    with Cons.IH lex_word [of w "CHR '' '' # join_with '' '' (map shell_quote ws)"] show ?thesis
      by (auto simp: shlex_split_def lex_space_def cons_res_def)
  qed
qed

section \<open>Properties\<close>

text \<open>
  The command line that a human sees for approval is exact: read back by the shell's word rules
  it gives the argument vector that is going to run, word for word, whatever spaces, quotes or
  control characters the arguments contain.
\<close>
theorem displayed_command_exact: "shlex_split (command_display (CommandArgv ws)) = Inr ws"
  by (simp add: lex_words)

end
