(* ===== verification/Capabilities.thy ===== *)
theory Capabilities
  imports Shlex
begin

text \<open>
  The capability vocabulary of \<open>capabilities/\<close>: argument schemas and their normalisation
  (\<open>models.py\<close>), the source-tagged registry (\<open>registry.py\<close>), the per-mode surface
  (\<open>resolver.py\<close>) and the typed coding commands (\<open>coding.py\<close>).

  Descriptions are prose for the model and are left out, as are the result schemas, which no
  modelled code reads. A tool listing is a record of the fields that the registry and the resolver
  use; a missing key has the default of the corresponding \<open>get\<close>.
\<close>

section \<open>Argument schemas\<close>

datatype argument_type =
    StringArg | TargetArg | UrlArg | DomainArg | PortRangeArg | IntegerArg | BooleanArg | EnumArg | PathArg | StringListArg

record argument =
  ag_type :: argument_type
  ag_required :: bool
  ag_default :: jval
  ag_choices :: "string list"
  ag_minimum :: "int option"
  ag_maximum :: "int option"
  ag_max_length :: int
  ag_multiline :: bool
  ag_min_items :: "int option"
  ag_max_items :: "int option"

definition optional_le :: "int option \<Rightarrow> int option \<Rightarrow> bool" where
  "optional_le a b = (case (a, b) of (Some x, Some y) \<Rightarrow> x \<le> y | _ \<Rightarrow> True)"

definition validate_argument :: "argument \<Rightarrow> argument res" where
  "validate_argument a =
     res_bind (ensure (1 \<le> ag_max_length a \<and> ag_max_length a \<le> 65536
         \<and> (case ag_min_items a of None \<Rightarrow> True | Some n \<Rightarrow> 0 \<le> n)
         \<and> (case ag_max_items a of None \<Rightarrow> True | Some n \<Rightarrow> 1 \<le> n \<and> n \<le> 4096)) (ValueError ''field'')) (\<lambda>_.
     res_bind (ensure (\<not> (ag_type a = EnumArg \<and> ag_choices a = [])) (ValueError ''enum arguments require choices'')) (\<lambda>_.
     res_bind (ensure (optional_le (ag_minimum a) (ag_maximum a))
         (ValueError ''argument minimum cannot exceed maximum'')) (\<lambda>_.
     res_bind (ensure (optional_le (ag_min_items a) (ag_max_items a))
         (ValueError ''argument min_items cannot exceed max_items'')) (\<lambda>_. Inr a))))"

text \<open>The defaults of \<open>CapabilityArgument\<close>.\<close>

definition arg :: "argument_type \<Rightarrow> argument" where
  "arg t = \<lparr>ag_type = t, ag_required = False, ag_default = JNull, ag_choices = [], ag_minimum = None, ag_maximum = None,
     ag_max_length = 2048, ag_multiline = False, ag_min_items = None, ag_max_items = None\<rparr>"

definition required :: "argument \<Rightarrow> argument" where
  "required a = a\<lparr>ag_required := True\<rparr>"

abbreviation target_argument :: argument where
  "target_argument \<equiv> required (arg TargetArg)"

abbreviation flag_argument :: argument where
  "flag_argument \<equiv> (arg BooleanArg)\<lparr>ag_default := JBool False\<rparr>"

abbreviation url_argument :: argument where
  "url_argument \<equiv> arg UrlArg"

abbreviation text_argument :: argument where
  "text_argument \<equiv> required ((arg StringArg)\<lparr>ag_max_length := 65536, ag_multiline := True\<rparr>)"

abbreviation command_argument :: argument where
  "command_argument \<equiv> (arg StringArg)\<lparr>ag_max_length := 8192\<rparr>"

abbreviation argv_argument :: argument where
  "argv_argument \<equiv> (arg StringListArg)\<lparr>ag_min_items := Some 1, ag_max_items := Some 512, ag_max_length := 8192\<rparr>"

type_synonym argument_schema = "(string, argument) dict"

definition argument_schemas :: "(string, argument_schema) dict" where
  "argument_schemas =
    [(''host_discovery'', [(''target'', target_argument)]),
     (''port_scan'', [(''target'', target_argument), (''ports'', arg PortRangeArg),
        (''timing'', (arg EnumArg)\<lparr>ag_choices := [''safe'', ''normal'', ''fast''], ag_default := JStr ''normal''\<rparr>),
        (''service_detection'', flag_argument), (''default_scripts'', flag_argument),
        (''os_detection'', flag_argument), (''reason'', flag_argument),
        (''rate'', (arg IntegerArg)\<lparr>ag_minimum := Some 1, ag_maximum := Some 10000, ag_default := JInt 1000\<rparr>)]),
     (''service_detection'', [(''target'', target_argument), (''ports'', arg PortRangeArg)]),
     (''os_detection'', [(''target'', target_argument), (''ports'', arg PortRangeArg)]),
     (''http_fingerprint'', [(''target'', target_argument), (''url'', url_argument), (''aggressive'', flag_argument)]),
     (''http_probe'', [(''target'', target_argument), (''url'', url_argument)]),
     (''dir_enum'', [(''target'', target_argument), (''url'', url_argument), (''wordlist'', arg PathArg),
        (''extensions'', arg StringArg),
        (''threads'', (arg IntegerArg)\<lparr>ag_minimum := Some 1, ag_maximum := Some 100, ag_default := JInt 20\<rparr>)]),
     (''vuln_scan'', [(''target'', target_argument), (''url'', url_argument)]),
     (''sql_injection'', [(''target'', target_argument), (''url'', url_argument)]),
     (''subdomain_enum'', [(''target'', target_argument), (''domain'', arg DomainArg)]),
     (''osint'', [(''target'', target_argument), (''domain'', arg DomainArg)]),
     (''ad_enum'', [(''target'', target_argument)]),
     (''smb_enum'', [(''target'', target_argument)]),
     (''password_attack'', [(''target'', target_argument)]),
     (''password_cracking'', [(''target'', arg TargetArg), (''hash_file'', arg PathArg)]),
     (''exploit_search'', [(''target'', arg TargetArg), (''query'', arg StringArg)]),
     (''report'', [(''formats'', arg StringArg)]),
     (''log_analysis'', [(''path'', arg PathArg)]),
     (''detection_test'', [(''target'', target_argument)]),
     (''hardening_check'', [(''target'', target_argument)]),
     (''file_read'', [(''path'', required (arg PathArg))]),
     (''file_list'', [(''path'', required (arg PathArg))]),
     (''file_search'', [(''root'', required (arg PathArg)), (''pattern'', required (arg StringArg)), (''glob'', arg StringArg)]),
     (''file_write'', [(''path'', required (arg PathArg)), (''content'', text_argument)]),
     (''file_edit'', [(''path'', required (arg PathArg)), (''old'', text_argument), (''new'', text_argument)]),
     (''file_fetch'', [(''source'', required (arg PathArg)), (''dest'', required (arg PathArg))]),
     (''process_list'', []),
     (''process_kill'', [(''pid'', required ((arg IntegerArg)\<lparr>ag_minimum := Some 1\<rparr>))]),
     (''service_status'', [(''name'', required (arg StringArg))]),
     (''service_control'', [(''name'', required (arg StringArg)),
        (''action'', required ((arg EnumArg)\<lparr>ag_choices := [''start'', ''stop'', ''restart'']\<rparr>))]),
     (''list_tools'', [(''query'', (arg StringArg)\<lparr>ag_max_length := 256\<rparr>), (''exact'', (arg StringArg)\<lparr>ag_max_length := 256\<rparr>),
        (''limit'', (arg IntegerArg)\<lparr>ag_default := JInt 400, ag_minimum := Some 1, ag_maximum := Some 5000\<rparr>)]),
     (''shell_command'', [(''command'', command_argument), (''argv'', argv_argument), (''target'', arg TargetArg)]),
     (''host_session'', [(''commands'', required ((arg StringArg)\<lparr>ag_max_length := 16384\<rparr>))]),
     (''session_open'', [(''cwd'', arg PathArg)]),
     (''session_exec'', [(''command'', command_argument), (''argv'', argv_argument)]),
     (''session_close'', [])]"

section \<open>Specifications\<close>

record capability =
  ca_versions :: "string list"
  ca_name :: string
  ca_risk :: risk_level
  ca_kind :: string
  ca_target_required :: bool
  ca_arguments :: argument_schema

text \<open>\<open>_SEMVER_PATTERN.fullmatch\<close>: three groups of digits.\<close>

definition semver :: "string \<Rightarrow> bool" where
  "semver v = (case split_on (CHR ''.'') v of
     [a, b, c] \<Rightarrow> list_all (\<lambda>g. g \<noteq> [] \<and> list_all is_dec g) [a, b, c] | _ \<Rightarrow> False)"

definition populate :: "capability \<Rightarrow> capability res" where
  "populate c =
     res_bind (ensure (list_all semver (ca_versions c))
       (ValueError ''schema versions must use MAJOR.MINOR.PATCH'')) (\<lambda>_.
       Inr (if ca_arguments c \<noteq> [] then c
            else c\<lparr>ca_arguments := (case map_of argument_schemas (ca_name c) of None \<Rightarrow> [] | Some a \<Rightarrow> a)\<rparr>))"

definition host_capability :: "string \<Rightarrow> risk_level \<Rightarrow> string \<times> capability" where
  "host_capability name risk = (name,
     \<lparr>ca_versions = replicate 4 ''1.0.0'', ca_name = name, ca_risk = risk, ca_kind = ''internal'',
      ca_target_required = False,
      ca_arguments = (case map_of argument_schemas name of None \<Rightarrow> [] | Some a \<Rightarrow> a)\<rparr>)"

definition capabilities :: "(string, capability) dict" where
  "capabilities =
    [host_capability ''file_read'' Read, host_capability ''file_list'' Read, host_capability ''file_search'' Read,
     host_capability ''file_write'' Write, host_capability ''file_edit'' Write, host_capability ''file_fetch'' Write,
     host_capability ''list_tools'' Read, host_capability ''process_list'' Read,
     host_capability ''process_kill'' Destructive, host_capability ''service_status'' Read,
     host_capability ''service_control'' Destructive, host_capability ''shell_command'' Write,
     host_capability ''host_session'' Write, host_capability ''session_open'' Read,
     host_capability ''session_exec'' Write, host_capability ''session_close'' Read]"

text \<open>The built-in capabilities are what the constructor makes of a specification without arguments.\<close>

lemma host_capability_populated:
  "populate ((snd (host_capability name risk))\<lparr>ca_arguments := []\<rparr>) = Inr (snd (host_capability name risk))"
proof -
  have "semver ''1.0.0''" by code_simp
  then show ?thesis by (simp add: populate_def host_capability_def list_all_iff)
qed

section \<open>Normalisation\<close>

text \<open>
  \<open>int(bound)\<close> raises for a digit that is no decimal digit, such as a superscript two, which
  \<open>isdigit\<close> accepts, and for more digits than the interpreter converts.
\<close>

definition int_digits_limit :: nat where
  "int_digits_limit = 4300"

fun port_numbers :: "string list \<Rightarrow> int list res" where
  "port_numbers [] = Inr []"
| "port_numbers (b # bs) =
     (if list_all is_dec b \<and> length b \<le> int_digits_limit then res_bind (port_numbers bs) (\<lambda>ps. Inr (read_int b # ps))
      else Inl (ValueError (''invalid literal for int() with base 10: '' @ quoted b)))"

fun check_ports :: "string \<Rightarrow> string list \<Rightarrow> unit res" where
  "check_ports name [] = Inr ()"
| "check_ports name (seg # segs) =
     (let bounds = split_once (CHR ''-'') seg in
      res_bind (ensure (list_all (\<lambda>b. b \<noteq> [] \<and> list_all is_digit_char b) bounds)
        (ValueError (''normalized argument '' @ quoted name @ '' has an invalid port range''))) (\<lambda>_.
      res_bind (port_numbers bounds) (\<lambda>ports.
      res_bind (ensure (list_all (\<lambda>p. 1 \<le> p \<and> p \<le> 65535) ports)
        (ValueError (''normalized argument '' @ quoted name @ '' has a port outside 1-65535''))) (\<lambda>_.
      res_bind (ensure (case ports of [a, b] \<Rightarrow> a \<le> b | _ \<Rightarrow> True)
        (ValueError (''normalized argument '' @ quoted name @ '' has a descending range''))) (\<lambda>_.
        check_ports name segs)))))"

definition validate_port_range :: "string \<Rightarrow> string \<Rightarrow> unit res" where
  "validate_port_range name value = check_ports name (split_on (CHR '','') value)"

definition bad_arg :: "string \<Rightarrow> string \<Rightarrow> py_error" where
  "bad_arg name msg = ValueError (''normalized argument '' @ quoted name @ '' '' @ msg)"

definition has_control :: "string \<Rightarrow> bool" where
  "has_control s = (CHR 0x00 \<in> set s \<or> CHR 0x0A \<in> set s \<or> CHR 0x0D \<in> set s)"

fun check_items :: "string \<Rightarrow> int \<Rightarrow> jval list \<Rightarrow> unit res" where
  "check_items name limit [] = Inr ()"
| "check_items name limit (v # vs) = (case v of
     JStr s \<Rightarrow>
       res_bind (ensure (s \<noteq> [] \<and> \<not> has_control s) (bad_arg name ''contains invalid text'')) (\<lambda>_.
       res_bind (ensure (int (length s) \<le> limit) (bad_arg name ''item exceeds its maximum length'')) (\<lambda>_.
         check_items name limit vs))
   | _ \<Rightarrow> Inl (bad_arg name ''must contain only strings''))"

definition at_least :: "int option \<Rightarrow> int \<Rightarrow> bool" where
  "at_least lo n = (case lo of None \<Rightarrow> True | Some m \<Rightarrow> m \<le> n)"

definition at_most :: "int option \<Rightarrow> int \<Rightarrow> bool" where
  "at_most hi n = (case hi of None \<Rightarrow> True | Some m \<Rightarrow> n \<le> m)"

definition normalize_text :: "string \<Rightarrow> string \<Rightarrow> argument \<Rightarrow> jval res" where
  "normalize_text name value a =
     (let text = (if ag_multiline a then value else strip value) in
      res_bind (ensure (text \<noteq> [] \<and> CHR 0x00 \<notin> set text
          \<and> \<not> (\<not> ag_multiline a \<and> (CHR 0x0A \<in> set text \<or> CHR 0x0D \<in> set text)))
        (bad_arg name ''contains invalid text'')) (\<lambda>_.
      res_bind (ensure (int (length text) \<le> ag_max_length a) (bad_arg name ''exceeds its maximum length'')) (\<lambda>_.
      res_bind (ensure (ag_type a = EnumArg \<longrightarrow> text \<in> set (ag_choices a))
        (bad_arg name (''must be one of: '' @ join_with '', '' (ag_choices a)))) (\<lambda>_.
      res_bind (if ag_type a = PortRangeArg then validate_port_range name text else Inr ()) (\<lambda>_.
        Inr (JStr text))))))"

definition normalize_value :: "string \<Rightarrow> jval \<Rightarrow> argument \<Rightarrow> jval res" where
  "normalize_value name v a = (case ag_type a of
     BooleanArg \<Rightarrow> if is_bool v then Inr v else Inl (bad_arg name ''must be boolean'')
   | IntegerArg \<Rightarrow> (case v of
       JInt i \<Rightarrow>
         res_bind (ensure (at_least (ag_minimum a) i) (bad_arg name ''is below its minimum'')) (\<lambda>_.
         res_bind (ensure (at_most (ag_maximum a) i) (bad_arg name ''exceeds its maximum'')) (\<lambda>_. Inr v))
     | _ \<Rightarrow> Inl (bad_arg name ''must be an integer''))
   | StringListArg \<Rightarrow> (case v of
       JList items \<Rightarrow>
         res_bind (ensure (at_least (ag_min_items a) (int (length items))) (bad_arg name ''has too few items'')) (\<lambda>_.
         res_bind (ensure (at_most (ag_max_items a) (int (length items))) (bad_arg name ''has too many items'')) (\<lambda>_.
         res_bind (check_items name (ag_max_length a) items) (\<lambda>_. Inr v)))
     | _ \<Rightarrow> Inl (bad_arg name ''must be a string list''))
   | _ \<Rightarrow> (case v of JStr s \<Rightarrow> normalize_text name s a | _ \<Rightarrow> Inl (bad_arg name ''must be a string'')))"

text \<open>\<open>params[name] in (None, "")\<close>, and a parameter that is not there.\<close>

definition absent :: "jdict \<Rightarrow> string \<Rightarrow> bool" where
  "absent params name = (case map_of params name of None \<Rightarrow> True | Some v \<Rightarrow> v = JNull \<or> v = JStr [])"

definition given :: "jdict \<Rightarrow> string \<Rightarrow> bool" where
  "given params name = (case map_of params name of None \<Rightarrow> False | Some v \<Rightarrow> truthy v)"

fun normalize_all :: "jdict \<Rightarrow> argument_schema \<Rightarrow> jdict res" where
  "normalize_all params [] = Inr []"
| "normalize_all params ((name, a) # rest) =
     (if absent params name then
        res_bind (ensure (ag_required a \<longrightarrow> name = ''target'' \<and> (given params ''url'' \<or> given params ''domain''))
          (ValueError (''missing required normalized argument: '' @ name))) (\<lambda>_.
        res_bind (normalize_all params rest) (\<lambda>out.
          Inr (if ag_default a \<noteq> JNull then (name, ag_default a) # out else out)))
      else res_bind (normalize_value name (the (map_of params name)) a) (\<lambda>v.
        res_bind (normalize_all params rest) (\<lambda>out. Inr ((name, v) # out))))"

text \<open>\<open>len(set(aliases)) > 1\<close>; a list or a dictionary is not hashable.\<close>

definition hashable :: "jval \<Rightarrow> bool" where
  "hashable v = (case v of JList _ \<Rightarrow> False | JDict _ \<Rightarrow> False | _ \<Rightarrow> True)"

definition aliases :: "jdict \<Rightarrow> jval list" where
  "aliases out = concat (map (\<lambda>k. case map_of out k of None \<Rightarrow> [] | Some v \<Rightarrow> [v]) [''target'', ''url'', ''domain''])"

definition check_aliases :: "jval list \<Rightarrow> unit res" where
  "check_aliases vs =
     res_bind (ensure (list_all hashable vs) (TypeError ''unhashable type'')) (\<lambda>_.
       ensure (list_all (\<lambda>v. list_all (\<lambda>w. py_eq v w) vs) vs) (ValueError ''normalized target aliases conflict''))"

definition one_command :: "string \<Rightarrow> jdict \<Rightarrow> bool" where
  "one_command name out = (name \<in> {''shell_command'', ''session_exec''}
     \<longrightarrow> length (filter (\<lambda>k. map_of out k \<noteq> None) [''command'', ''argv'']) = 1)"

definition normalize_params :: "capability \<Rightarrow> jdict \<Rightarrow> jdict res" where
  "normalize_params c params =
     (let unknown = sort (filter (\<lambda>k. k \<notin> set (dict_keys (ca_arguments c))) (dict_keys params)) in
     res_bind (ensure (unknown = [])
       (ValueError (''unsupported normalized arguments: '' @ join_with '', '' unknown))) (\<lambda>_.
     res_bind (normalize_all params (ca_arguments c)) (\<lambda>out.
     res_bind (check_aliases (aliases out)) (\<lambda>_.
     res_bind (ensure (one_command (ca_name c) out)
       (ValueError (ca_name c @ '' requires exactly one of command or argv''))) (\<lambda>_. Inr out)))))"

section \<open>What a normalised value promises\<close>

definition port_segment :: "string \<Rightarrow> bool" where
  "port_segment seg =
     (let bounds = split_once (CHR ''-'') seg in
      list_all (\<lambda>b. b \<noteq> [] \<and> list_all is_dec b \<and> length b \<le> int_digits_limit) bounds
      \<and> (case map read_int bounds of
           [p] \<Rightarrow> 1 \<le> p \<and> p \<le> 65535
         | [p, q] \<Rightarrow> 1 \<le> p \<and> p \<le> q \<and> q \<le> 65535
         | _ \<Rightarrow> False))"

definition text_conforms :: "argument \<Rightarrow> string \<Rightarrow> bool" where
  "text_conforms a s =
     (s \<noteq> [] \<and> CHR 0x00 \<notin> set s \<and> int (length s) \<le> ag_max_length a
      \<and> (\<not> ag_multiline a \<longrightarrow> strip s = s \<and> CHR 0x0A \<notin> set s \<and> CHR 0x0D \<notin> set s)
      \<and> (ag_type a = EnumArg \<longrightarrow> s \<in> set (ag_choices a))
      \<and> (ag_type a = PortRangeArg \<longrightarrow> list_all port_segment (split_on (CHR '','') s)))"

definition item_conforms :: "int \<Rightarrow> jval \<Rightarrow> bool" where
  "item_conforms limit v = (case v of JStr s \<Rightarrow> s \<noteq> [] \<and> \<not> has_control s \<and> int (length s) \<le> limit | _ \<Rightarrow> False)"

definition conforms :: "argument \<Rightarrow> jval \<Rightarrow> bool" where
  "conforms a v = (case v of
     JBool b \<Rightarrow> ag_type a = BooleanArg
   | JInt i \<Rightarrow> ag_type a = IntegerArg \<and> at_least (ag_minimum a) i \<and> at_most (ag_maximum a) i
   | JList items \<Rightarrow> ag_type a = StringListArg \<and> at_least (ag_min_items a) (int (length items))
       \<and> at_most (ag_max_items a) (int (length items)) \<and> list_all (item_conforms (ag_max_length a)) items
   | JStr s \<Rightarrow> ag_type a \<notin> {BooleanArg, IntegerArg, StringListArg} \<and> text_conforms a s
   | _ \<Rightarrow> False)"

subsection \<open>Texts\<close>

lemma dropWhile_idem: "dropWhile P (dropWhile P xs) = dropWhile P xs"
  by (induction xs) auto

lemma rstrip_snoc: "rstrip (xs @ [x]) = (if is_space x then rstrip xs else xs @ [x])"
  by (simp add: rstrip_def)

lemma rstrip_Cons: "\<not> is_space c \<Longrightarrow> \<exists>cs'. rstrip (c # cs) = c # cs'"
proof (induction cs rule: rev_induct)
  case Nil
  then show ?case by (simp add: rstrip_def)
next
  case (snoc x xs)
  then show ?case using rstrip_snoc [of "c # xs" x] by auto
qed

lemma strip_idem [simp]: "strip (strip s) = strip s"
proof (cases "lstrip s")
  case Nil
  then have "strip s = []" by (simp add: strip_def rstrip_def)
  moreover have "strip [] = []" by (simp add: strip_def rstrip_def lstrip_def)
  ultimately show ?thesis by simp
next
  case (Cons c cs)
  then have "\<not> is_space c" by (metis lstrip_def hd_dropWhile list.sel(1) list.simps(3))
  then obtain cs' where r: "rstrip (c # cs) = c # cs'" using rstrip_Cons by blast
  with \<open>\<not> is_space c\<close> have "lstrip (rstrip (c # cs)) = rstrip (c # cs)" by (simp add: lstrip_def)
  moreover have "rstrip (rstrip xs) = rstrip xs" for xs by (simp add: rstrip_def dropWhile_idem)
  ultimately show ?thesis by (simp add: strip_def Cons)
qed

lemma port_numbers_ok: "port_numbers bs = Inr ps \<longleftrightarrow> list_all (\<lambda>b. list_all is_dec b \<and> length b \<le> int_digits_limit) bs \<and> ps = map read_int bs"
  by (induction bs arbitrary: ps) (auto simp: res_bind_eq_Inr)

lemma split_once_cases:
  obtains b where "split_once c s = [b]" | b d where "split_once c s = [b, d]"
  by (cases "c \<in> set s") (auto simp: split_once_def)

lemma check_ports_ok: "check_ports name segs = Inr () \<longleftrightarrow> list_all port_segment segs"
proof (induction segs)
  case (Cons seg segs)
  show ?case
    by (rule split_once_cases [of "CHR ''-''" seg])
       (auto simp: port_segment_def Let_def res_bind_eq_Inr port_numbers_ok Cons.IH is_digit_char_def list_all_iff)
qed simp

lemma check_items_ok: "check_items name limit vs = Inr () \<longleftrightarrow> list_all (item_conforms limit) vs"
  by (induction vs) (auto simp: item_conforms_def res_bind_eq_Inr split: jval.splits)

lemma normalize_text_ok:
  "normalize_text name s a = Inr w \<longleftrightarrow>
     w = JStr (if ag_multiline a then s else strip s) \<and> text_conforms a (if ag_multiline a then s else strip s)"
  by (auto simp: normalize_text_def text_conforms_def Let_def res_bind_eq_Inr validate_port_range_def check_ports_ok
      split: if_splits)

subsection \<open>Values\<close>

lemma normalize_value_conforms: "normalize_value name v a = Inr w \<Longrightarrow> conforms a w"
  by (cases v)
     (auto simp: normalize_value_def conforms_def normalize_text_ok check_items_ok res_bind_eq_Inr
       split: argument_type.splits)

lemma conforms_normal: "conforms a v \<Longrightarrow> normalize_value name v a = Inr v"
  by (cases v)
     (auto simp: normalize_value_def conforms_def normalize_text_ok check_items_ok res_bind_eq_Inr text_conforms_def
       split: argument_type.splits)

lemma conforms_present: "conforms a v \<Longrightarrow> v \<noteq> JNull \<and> v \<noteq> JStr []"
  by (auto simp: conforms_def text_conforms_def)

lemma normalize_value_truthy: "normalize_value name v a = Inr w \<Longrightarrow> truthy v \<Longrightarrow> truthy w"
  by (cases v)
     (auto simp: normalize_value_def normalize_text_ok text_conforms_def check_items_ok res_bind_eq_Inr
       split: argument_type.splits)

section \<open>Normalisation of all arguments\<close>

definition default_ok :: "argument \<Rightarrow> bool" where
  "default_ok a = (ag_default a \<in> {JNull, JStr []} \<or> conforms a (ag_default a))"

definition normal_arg :: "jdict \<Rightarrow> string \<Rightarrow> argument \<Rightarrow> jval option" where
  "normal_arg params name a =
     (if absent params name then if ag_default a = JNull then None else Some (ag_default a)
      else case normalize_value name (the (map_of params name)) a of Inl e \<Rightarrow> None | Inr v \<Rightarrow> Some v)"

definition excused :: "jdict \<Rightarrow> string \<Rightarrow> bool" where
  "excused params name = (name = ''target'' \<and> (given params ''url'' \<or> given params ''domain''))"

lemma normalize_all_keys: "normalize_all params sch = Inr out \<Longrightarrow> k \<in> set (dict_keys out) \<Longrightarrow> k \<in> set (dict_keys sch)"
  by (induction params sch arbitrary: out rule: normalize_all.induct)
     (fastforce simp: res_bind_eq_Inr split: if_splits)+

lemma normalize_all_look:
  "normalize_all params sch = Inr out \<Longrightarrow> distinct (dict_keys sch) \<Longrightarrow> (k, a) \<in> set sch
    \<Longrightarrow> map_of out k = normal_arg params k a
      \<and> (absent params k \<longrightarrow> ag_required a \<longrightarrow> excused params k)
      \<and> (\<not> absent params k \<longrightarrow> is_ok (normalize_value k (the (map_of params k)) a))"
proof (induction params sch arbitrary: out rule: normalize_all.induct)
  case (2 params name b rest)
  have notin: "(name, a') \<notin> set rest" for a' using 2(4) by force
  from 2(3) obtain out' where out': "normalize_all params rest = Inr out'"
    by (auto simp: res_bind_eq_Inr split: if_splits)
  have none: "map_of out' name = None"
    using normalize_all_keys [OF out', of name] 2(4) by (auto simp: map_of_eq_None_iff)
  show ?case
  proof (cases "k = name")
    case True
    then have "a = b" using 2(5) notin by auto
    with True 2(3) out' none show ?thesis
      by (auto simp: res_bind_eq_Inr normal_arg_def excused_def split: if_splits)
  next
    case False
    then have "map_of out k = map_of out' k"
      using 2(3) out' by (auto simp: res_bind_eq_Inr split: if_splits)
    moreover have "(k, a) \<in> set rest" "distinct (dict_keys rest)" using 2(4,5) False by auto
    ultimately show ?thesis
      using 2(1) [OF _ _ out'] 2(2) [OF _ _ out'] 2(3)
      by (auto simp: res_bind_eq_Inr split: if_splits)
  qed
qed simp

lemma normalize_all_again:
  assumes "\<And>k a. (k, a) \<in> set sch \<Longrightarrow> map_of full k = map_of out k \<and> default_ok a"
    and "\<And>k. excused params k \<Longrightarrow> excused full k"
    and "normalize_all params sch = Inr out" and "distinct (dict_keys sch)"
  shows "normalize_all full sch = Inr out"
  using assms
proof (induction sch arbitrary: out)
  case (Cons x rest)
  obtain name b where x: "x = (name, b)" by (cases x)
  note prems = Cons.prems [unfolded x]
  from prems(3) obtain out' where out': "normalize_all params rest = Inr out'"
    by (auto simp: res_bind_eq_Inr split: if_splits)
  have d: "distinct (dict_keys rest)" and new: "name \<notin> set (dict_keys rest)" using prems(4) by auto
  have tail: "map_of full k = map_of out' k \<and> default_ok a" if "(k, a) \<in> set rest" for k a
  proof -
    have "k \<noteq> name" using that new by force
    then show ?thesis using prems(1) [of k a] that prems(3) out' by (auto simp: res_bind_eq_Inr split: if_splits)
  qed
  have again: "normalize_all full rest = Inr out'"
    by (rule Cons.IH [OF tail prems(2) out' d])
  have none: "map_of out' name = None"
    using normalize_all_keys [OF out', of name] new by (auto simp: map_of_eq_None_iff)
  have head: "map_of full name = map_of out name" and ok: "default_ok b" using prems(1) [of name b] by auto
  show ?case
  proof (cases "absent params name")
    case True
    then have out: "out = (if ag_default b \<noteq> JNull then (name, ag_default b) # out' else out')"
      and req: "ag_required b \<longrightarrow> excused params name"
      using prems(3) out' by (auto simp: res_bind_eq_Inr excused_def)
    show ?thesis
      using out req head ok none again prems(2) [of name] conforms_normal [of b "ag_default b" name]
        conforms_present [of b "ag_default b"]
      by (auto simp: x absent_def default_ok_def excused_def)
  next
    case False
    then obtain v where v: "normalize_value name (the (map_of params name)) b = Inr v" and out: "out = (name, v) # out'"
      using prems(3) out' by (auto simp: res_bind_eq_Inr)
    then have "conforms b v" by (auto dest: normalize_value_conforms)
    then show ?thesis
      using out head again conforms_normal [of b v name] conforms_present [of b v] by (simp add: x absent_def)
  qed
qed simp

lemma given_present: "given params k \<Longrightarrow> \<not> absent params k"
  by (auto simp: given_def absent_def split: option.splits)

lemma normalize_all_given:
  assumes "normalize_all params sch = Inr out" and "distinct (dict_keys sch)"
    and "given params k" and "k \<in> set (dict_keys sch)"
  shows "given out k"
proof -
  from assms(4) obtain a where a: "(k, a) \<in> set sch" by auto
  from assms(3) obtain v where v: "map_of params k = Some v" and t: "truthy v"
    by (auto simp: given_def split: option.splits)
  note l = normalize_all_look [OF assms(1,2) a]
  from l v given_present [OF assms(3)] obtain w where w: "normalize_value k v a = Inr w"
    by (auto simp: is_ok_iff)
  with l v given_present [OF assms(3)] have "map_of out k = Some w" by (simp add: normal_arg_def)
  with w t show ?thesis by (auto simp: given_def dest: normalize_value_truthy)
qed

lemma sort_eq_Nil: "sort xs = [] \<longleftrightarrow> xs = []"
  by (metis set_empty set_sort)

lemma normalize_params_InrE:
  assumes "normalize_params c params = Inr out"
  obtains "set (dict_keys params) \<subseteq> set (dict_keys (ca_arguments c))"
    and "normalize_all params (ca_arguments c) = Inr out" and "check_aliases (aliases out) = Inr ()"
    and "one_command (ca_name c) out"
  using assms by (auto simp: normalize_params_def Let_def res_bind_eq_Inr sort_eq_Nil filter_empty_conv)

lemma given_key: "given params k \<Longrightarrow> k \<in> set (dict_keys params)"
  by (cases "map_of params k") (force simp: given_def dest: map_of_SomeD)+

lemma excused_kept:
  assumes "normalize_params c params = Inr out" and "distinct (dict_keys (ca_arguments c))" and "excused params k"
  shows "excused out k"
  using assms by (auto simp: excused_def elim!: normalize_params_InrE intro: normalize_all_given dest: given_key)

lemma schemas_regular:
  "list_all (\<lambda>(n, sch). distinct (dict_keys sch) \<and> list_all (\<lambda>(k, a). default_ok a) sch) argument_schemas"
  by (simp add: argument_schemas_def required_def arg_def default_ok_def conforms_def text_conforms_def at_least_def
      at_most_def strip_def lstrip_def rstrip_def is_space_def code_point_def)

lemma schema_regular:
  assumes "(case map_of argument_schemas n of None \<Rightarrow> [] | Some a \<Rightarrow> a) = sch"
  shows "distinct (dict_keys sch)" and "(k, a) \<in> set sch \<Longrightarrow> default_ok a"
  using assms schemas_regular by (auto simp: list_all_iff split: option.splits dest!: map_of_SomeD)

section \<open>Properties of the normalisation\<close>

text \<open>
  C40: Normalised parameters keep the schema's promises: no name is outside the schema, each value
  conforms to its argument (type, bounds, length, single line, choices, port ranges) or is the
  argument's default, a required argument is there unless it is the target and a URL or a domain
  stands for it, the target aliases agree, and a command capability has exactly one command form.
\<close>
theorem normalize_params_sound:
  assumes "normalize_params c params = Inr out" and "distinct (dict_keys (ca_arguments c))"
  shows "set (dict_keys out) \<subseteq> set (dict_keys (ca_arguments c))
    \<and> list_all (\<lambda>(k, a). case map_of out k of
          None \<Rightarrow> ag_required a \<longrightarrow> excused out k
        | Some v \<Rightarrow> conforms a v \<or> absent params k \<and> v = ag_default a) (ca_arguments c)
    \<and> list_all (\<lambda>v. list_all (py_eq v) (aliases out)) (aliases out)
    \<and> one_command (ca_name c) out"
proof -
  from assms(1) have n: "normalize_all params (ca_arguments c) = Inr out" and al: "check_aliases (aliases out) = Inr ()"
    and one: "one_command (ca_name c) out" by (auto elim: normalize_params_InrE)
  have "case map_of out k of None \<Rightarrow> ag_required a \<longrightarrow> excused out k
      | Some v \<Rightarrow> conforms a v \<or> absent params k \<and> v = ag_default a" if "(k, a) \<in> set (ca_arguments c)" for k a
    using normalize_all_look [OF n assms(2) that] excused_kept [OF assms]
    by (auto simp: normal_arg_def is_ok_iff split: if_splits dest: normalize_value_conforms)
  moreover have "set (dict_keys out) \<subseteq> set (dict_keys (ca_arguments c))"
    using normalize_all_keys [OF n] by blast
  ultimately show ?thesis
    using al one by (auto simp: check_aliases_def res_bind_eq_Inr list_all_iff)
qed

theorem normalize_params_sound_witness:
  "normalize_params (snd (host_capability ''service_control'' Destructive))
       [(''action'', JStr '' stop ''), (''name'', JStr ''sshd'')]
     = Inr [(''name'', JStr ''sshd''), (''action'', JStr ''stop'')]
   \<and> one_command ''service_control'' [(''name'', JStr ''sshd''), (''action'', JStr ''stop'')]"
proof -
  let ?c = "snd (host_capability ''service_control'' Destructive)"
  let ?p = "[(''action'', JStr '' stop ''), (''name'', JStr ''sshd'')]"
  let ?o = "[(''name'', JStr ''sshd''), (''action'', JStr ''stop'')]"
  have n: "normalize_params ?c ?p = Inr ?o" by code_simp
  have "distinct (dict_keys (ca_arguments ?c))" by code_simp
  from normalize_params_sound [OF n this] n show ?thesis by (simp add: host_capability_def)
qed

text \<open>
  Normalisation is idempotent for every capability that takes its schema from the table: what
  was normalised once (and then stored, approved and replayed) is accepted unchanged.
\<close>
theorem normalize_params_idempotent:
  assumes "populate c0 = Inr c" and "ca_arguments c0 = []" and "normalize_params c params = Inr out"
  shows "normalize_params c out = Inr out"
proof -
  from assms(1,2) have sch: "(case map_of argument_schemas (ca_name c0) of None \<Rightarrow> [] | Some a \<Rightarrow> a) = ca_arguments c"
    by (auto simp: populate_def res_bind_eq_Inr)
  from assms(3) have n: "normalize_all params (ca_arguments c) = Inr out" by (elim normalize_params_InrE)
  have "normalize_all out (ca_arguments c) = Inr out"
    using schema_regular [OF sch] excused_kept [OF assms(3)] n by (intro normalize_all_again [of _ out out params]) auto
  moreover have "filter (\<lambda>k. k \<notin> set (dict_keys (ca_arguments c))) (dict_keys out) = []"
    using normalize_all_keys [OF n] by (auto simp: filter_empty_conv)
  ultimately show ?thesis
    using assms(3) by (auto simp: normalize_params_def Let_def res_bind_eq_Inr)
qed

theorem normalize_params_idempotent_witness:
  "normalize_params (snd (host_capability ''service_control'' Destructive))
       [(''name'', JStr ''sshd''), (''action'', JStr ''stop'')]
     = Inr [(''name'', JStr ''sshd''), (''action'', JStr ''stop'')]"
proof -
  let ?c = "snd (host_capability ''service_control'' Destructive)"
  have p: "populate (?c\<lparr>ca_arguments := []\<rparr>) = Inr ?c" by code_simp
  have n: "normalize_params ?c [(''action'', JStr '' stop ''), (''name'', JStr ''sshd'')]
      = Inr [(''name'', JStr ''sshd''), (''action'', JStr ''stop'')]" by code_simp
  from normalize_params_idempotent [OF p _ n] show ?thesis by simp
qed

end
