(* ===== verification/CapRegistry.thy ===== *)
theory CapRegistry
  imports Capabilities
begin

text \<open>
  What the model is offered and what a coding capability runs: the typed coding commands
  (\<open>capabilities/coding.py\<close>), the source-tagged registry (\<open>registry.py\<close>) and the per-mode surface
  (\<open>resolver.py\<close>).

  A tool listing is a record of the keys that this code reads; a missing key reads as the default of
  the corresponding \<open>get\<close>.
\<close>

section \<open>Coding capabilities\<close>

record tool_entry =
  te_name :: string
  te_description :: string
  te_risk :: string
  te_category :: string
  te_schema :: jdict

definition coding_capabilities :: "(string \<times> string \<times> string) list" where
  "coding_capabilities =
    [(''git_status'', ''Show the working-tree status (git status --short)'', ''read''),
     (''git_diff'', ''Show the working-tree diff, optionally for a path'', ''read''),
     (''git_log'', ''Show recent commit history (git log --oneline)'', ''read''),
     (''git_commit'', ''Commit staged changes with a message'', ''write''),
     (''test_run'', ''Run the test suite (default: pytest -q)'', ''write''),
     (''build_run'', ''Run the project build (default: make)'', ''write''),
     (''patch_apply'', ''Apply a unified diff to the working tree (git apply)'', ''write'')]"

definition coding_input_schemas :: "(string, (string \<times> string) list) dict" where
  "coding_input_schemas =
    [(''git_status'', []),
     (''git_diff'', [(''path'', ''string''), (''staged'', ''boolean'')]),
     (''git_log'', [(''limit'', ''integer'')]),
     (''git_commit'', [(''message'', ''string''), (''all'', ''boolean'')]),
     (''test_run'', [(''command'', ''string'')]),
     (''build_run'', [(''command'', ''string'')]),
     (''patch_apply'', [(''diff'', ''string'')])]"

definition coding_required_inputs :: "(string, string list) dict" where
  "coding_required_inputs = [(''git_commit'', [''message'']), (''patch_apply'', [''diff''])]"

definition or_empty :: "'a list option \<Rightarrow> 'a list" where
  "or_empty x = (case x of None \<Rightarrow> [] | Some xs \<Rightarrow> xs)"

definition is_coding_capability :: "string \<Rightarrow> bool" where
  "is_coding_capability name = (name \<in> set (map fst coding_capabilities))"

definition coding_tool_list :: "tool_entry list" where
  "coding_tool_list = map (\<lambda>(name, description, risk).
     \<lparr>te_name = name, te_description = description, te_risk = risk, te_category = [],
      te_schema =
        [(''type'', JStr ''object''),
         (''properties'', JDict (map (\<lambda>(k, t). (k, JDict [(''type'', JStr t)]))
            (or_empty (map_of coding_input_schemas name)))),
         (''required'', JList (map JStr (or_empty (map_of coding_required_inputs name)))),
         (''additionalProperties'', JBool False)]\<rparr>) coding_capabilities"

subsection \<open>Conversions\<close>

text \<open>
  \<open>str(v)\<close>; \<open>render\<close> is Python's text for a float, a list or a dictionary.
\<close>

fun py_str :: "(jval \<Rightarrow> string) \<Rightarrow> jval \<Rightarrow> string" where
  "py_str render JNull = ''None''"
| "py_str render (JBool b) = (if b then ''True'' else ''False'')"
| "py_str render (JInt i) = show_int i"
| "py_str render (JStr s) = s"
| "py_str render v = render v"

text \<open>
  \<open>int(s)\<close>: white space around, one sign, digits with single underscores between them, and not more
  digits than the interpreter converts.
\<close>

definition int_of_text :: "string \<Rightarrow> int res" where
  "int_of_text s =
     (let t = strip s;
          neg = starts_with t ''-'';
          body = (if neg \<or> starts_with t ''+'' then tl t else t);
          groups = split_on (CHR ''_'') body in
      res_bind (ensure (list_all (\<lambda>g. g \<noteq> [] \<and> list_all is_dec g) groups)
        (ValueError (''invalid literal for int() with base 10: '' @ quoted s))) (\<lambda>_.
      res_bind (ensure (length (concat groups) \<le> int_digits_limit)
        (ValueError ''Exceeds the limit for integer string conversion'')) (\<lambda>_.
        Inr (if neg then - read_int (concat groups) else read_int (concat groups)))))"

text \<open>\<open>int(v)\<close>; a float is cut towards zero.\<close>

fun py_int :: "jval \<Rightarrow> int res" where
  "py_int (JBool b) = Inr (if b then 1 else 0)"
| "py_int (JInt i) = Inr i"
| "py_int (JFloat (Fin r)) = Inr (if r < 0 then - \<lfloor>- r\<rfloor> else \<lfloor>r\<rfloor>)"
| "py_int (JFloat NaN) = Inl (ValueError ''cannot convert float NaN to integer'')"
| "py_int (JFloat _) = Inl (OverflowError ''cannot convert float infinity to integer'')"
| "py_int (JStr s) = int_of_text s"
| "py_int _ = Inl (TypeError ''int() argument must be a string or a number'')"

definition get_or :: "jdict \<Rightarrow> string \<Rightarrow> jval \<Rightarrow> jval" where
  "get_or d k v = (case map_of d k of None \<Rightarrow> v | Some w \<Rightarrow> w)"

definition or_value :: "jval \<Rightarrow> jval \<Rightarrow> jval" where
  "or_value v w = (if truthy v then v else w)"

definition clean :: "(jval \<Rightarrow> string) \<Rightarrow> jval \<Rightarrow> string res" where
  "clean render v =
     (let text = strip (py_str render (or_value v (JStr []))) in
      res_bind (ensure (\<not> has_control text) (ValueError ''argument must be a single line'')) (\<lambda>_. Inr text))"

subsection \<open>Commands\<close>

text \<open>The argument vector and the standard input of a coding capability.\<close>

definition words_of :: "(jval \<Rightarrow> string) \<Rightarrow> string \<Rightarrow> string \<Rightarrow> jdict \<Rightarrow> (string list \<times> string option) res" where
  "words_of render name fallback params =
     (let command = strip (py_str render (or_value (get_or params ''command'' (JStr [])) (JStr fallback))) in
      res_bind (shlex_split command) (\<lambda>argv.
      res_bind (ensure (argv \<noteq> []) (ValueError (name @ '' command is empty''))) (\<lambda>_. Inr (argv, None))))"

definition build_coding_command ::
    "(jval \<Rightarrow> string) \<Rightarrow> string \<Rightarrow> jdict \<Rightarrow> (string list \<times> string option) res" where
  "build_coding_command render name params =
     (let allowed = map fst (or_empty (map_of coding_input_schemas name));
          unknown = sort (filter (\<lambda>k. k \<notin> set allowed) (dict_keys params)) in
      res_bind (ensure (unknown = []) (ValueError (''unsupported arguments: '' @ join_with '', '' unknown))) (\<lambda>_.
      if name = ''git_status'' then Inr ([''git'', ''status'', ''--short''], None)
      else if name = ''git_diff'' then
        res_bind (clean render (get_or params ''path'' (JStr []))) (\<lambda>path.
          Inr ([''git'', ''diff''] @ (if truthy (get_or params ''staged'' JNull) then [''--staged''] else [])
            @ (if path \<noteq> [] then [''--'', path] else []), None))
      else if name = ''git_log'' then
        res_bind (py_int (or_value (get_or params ''limit'' (JInt 10)) (JInt 10))) (\<lambda>limit.
          Inr ([''git'', ''log'', ''--oneline'', ''-n'' @ show_int (max 1 (min limit 100))], None))
      else if name = ''git_commit'' then
        res_bind (clean render (get_or params ''message'' (JStr []))) (\<lambda>message.
        res_bind (ensure (message \<noteq> []) (ValueError (''git_commit requires a '' @ quoted ''message''))) (\<lambda>_.
          Inr ([''git'', ''commit''] @ (if truthy (get_or params ''all'' JNull) then [''-a''] else [])
            @ [''-m'', message], None)))
      else if name = ''test_run'' then words_of render name ''pytest -q'' params
      else if name = ''build_run'' then words_of render name ''make'' params
      else if name = ''patch_apply'' then
        (case get_or params ''diff'' (JStr []) of
           JStr diff \<Rightarrow>
             res_bind (ensure (strip diff \<noteq> []) (ValueError (''patch_apply requires a unified '' @ quoted ''diff'' @ '' string''))) (\<lambda>_.
               Inr ([''git'', ''apply'', ''-''], Some diff))
         | _ \<Rightarrow> Inl (ValueError (''patch_apply requires a unified '' @ quoted ''diff'' @ '' string'')))
      else Inl (ValueError (''unknown coding capability: '' @ name))))"

subsection \<open>Signals of a result\<close>

text \<open>
  A match of \<open>(\d+)\s+word\<close>. The digits are followed by white space, so a leftmost greedy match
  takes the whole run of digits it starts in.
\<close>

definition count_at :: "string \<Rightarrow> string \<Rightarrow> string option" where
  "count_at word s =
     (let d = takeWhile is_dec s; r = dropWhile is_dec s; ws = takeWhile is_space r in
      if d \<noteq> [] \<and> ws \<noteq> [] \<and> starts_with (dropWhile is_space r) word then Some d else None)"

fun search_count :: "string \<Rightarrow> string \<Rightarrow> string option" where
  "search_count word [] = None"
| "search_count word (c # cs) = (case count_at word (c # cs) of Some d \<Rightarrow> Some d | None \<Rightarrow> search_count word cs)"

definition count_value :: "string option \<Rightarrow> jval res" where
  "count_value m = (case m of None \<Rightarrow> Inr JNull | Some d \<Rightarrow> res_bind (int_of_text d) (\<lambda>n. Inr (JInt n)))"

definition summarize_coding_result :: "(jval \<Rightarrow> string) \<Rightarrow> string \<Rightarrow> jdict \<Rightarrow> jdict res" where
  "summarize_coding_result render name data =
     (let stdout = py_str render (get_or data ''stdout'' (JStr []));
          stderr = py_str render (get_or data ''stderr'' (JStr []));
          clean_exit = JBool (py_eq (get_or data ''exit_code'' JNull) (JInt 0)) in
      if name = ''test_run'' then
        (let blob = stdout @ [CHR 0x0A] @ stderr in
         res_bind (count_value (search_count ''passed'' blob)) (\<lambda>passed.
         res_bind (count_value (search_count ''failed'' blob)) (\<lambda>failed.
         res_bind (count_value (search_count ''error'' blob)) (\<lambda>errored.
           Inr [(''tests_passed'', passed), (''tests_failed'', failed), (''tests_errored'', errored),
                (''tests_ok'', clean_exit)]))))
      else if name = ''git_diff'' then Inr [(''files_changed'', JInt (int (count_sub 0 ''diff --git '' stdout)))]
      else if name = ''git_status'' then
        Inr [(''changed_entries'', JInt (int (length (filter (\<lambda>l. strip l \<noteq> []) (splitlines stdout)))))]
      else if name \<in> {''git_commit'', ''build_run'', ''patch_apply''} then Inr [(''ok'', clean_exit)]
      else Inr [])"

section \<open>The registry\<close>

definition system_gateway :: "string list" where
  "system_gateway = [''shell_command'', ''list_tools'', ''host_session'', ''session_open'', ''session_exec'', ''session_close'']"

definition general_skill_categories :: "string list" where
  "general_skill_categories = [''agent_core'']"

record cap_entry =
  ce_name :: string
  ce_source :: string
  ce_type :: string
  ce_description :: string
  ce_risk :: string
  ce_executor :: string
  ce_available :: bool
  ce_server :: string
  ce_tool :: string
  ce_category :: string
  ce_schema :: jdict

definition cap_descriptor :: "cap_entry \<Rightarrow> jdict" where
  "cap_descriptor c = [(''name'', JStr (ce_name c)), (''description'', JStr (ce_description c)), (''risk'', JStr (ce_risk c)),
     (''source'', JStr (ce_source c)), (''input_schema'', JDict (ce_schema c))]"

type_synonym cap_registry = "(string, cap_entry) dict"

definition register_cap :: "cap_entry \<Rightarrow> cap_registry \<Rightarrow> cap_registry" where
  "register_cap c reg = dict_setdefault (ce_name c) c reg"

definition get_cap :: "cap_registry \<Rightarrow> string \<Rightarrow> cap_entry option" where
  "get_cap reg name = map_of reg name"

definition all_caps :: "cap_registry \<Rightarrow> cap_entry list" where
  "all_caps reg = map snd reg"

definition by_source :: "cap_registry \<Rightarrow> string \<Rightarrow> cap_entry list" where
  "by_source reg source = filter (\<lambda>c. ce_source c = source) (all_caps reg)"

definition exposed :: "task_mode \<Rightarrow> cap_entry \<Rightarrow> bool" where
  "exposed mode c =
     (ce_available c
      \<and> \<not> (ce_type c = ''coding'' \<and> mode \<notin> {Coding, Hybrid})
      \<and> \<not> (ce_source c = ''skill'' \<and> mode \<notin> {Security, Hybrid} \<and> ce_category c \<notin> set general_skill_categories))"

definition resolve_registry :: "cap_registry \<Rightarrow> task_mode \<Rightarrow> jdict list" where
  "resolve_registry reg mode = map cap_descriptor (filter (exposed mode) (all_caps reg))"

definition cap_of :: "string \<Rightarrow> string \<Rightarrow> tool_entry \<Rightarrow> cap_entry" where
  "cap_of source type t = \<lparr>ce_name = te_name t, ce_source = source, ce_type = type, ce_description = te_description t,
     ce_risk = te_risk t, ce_executor = ''internal'', ce_available = True, ce_server = [], ce_tool = [],
     ce_category = [], ce_schema = te_schema t\<rparr>"

definition host_cap :: "tool_entry \<Rightarrow> cap_entry" where
  "host_cap t = (if te_name t \<in> set system_gateway then cap_of ''system'' ''system'' t else cap_of ''native'' ''host'' t)"

definition skill_cap :: "tool_entry \<Rightarrow> cap_entry" where
  "skill_cap t = (cap_of ''skill'' ''playbook'' t)\<lparr>ce_category := te_category t\<rparr>"

text \<open>A descriptor of an external tool: its name, server, raw name, description, risk and schema.\<close>

record mcp_entry = tool_entry +
  me_server :: string
  me_tool :: string

definition mcp_cap :: "mcp_entry \<Rightarrow> cap_entry" where
  "mcp_cap d = (cap_of ''mcp'' ''mcp'' (tool_entry.truncate d))\<lparr>ce_executor := ''mcp/'' @ me_server d,
     ce_server := me_server d, ce_tool := me_tool d\<rparr>"

definition build_registry ::
    "tool_entry list \<Rightarrow> tool_entry list \<Rightarrow> mcp_entry list \<Rightarrow> bool \<Rightarrow> cap_registry" where
  "build_registry host skills mcp include_coding =
     fold register_cap (map host_cap host @ (if include_coding then map (cap_of ''native'' ''coding'') coding_tool_list else [])
       @ map skill_cap skills @ map mcp_cap mcp) []"

section \<open>The resolver\<close>

text \<open>The loop that keeps the first tool of each name and drops tools without a name.\<close>

fun unique_tools :: "string set \<Rightarrow> tool_entry list \<Rightarrow> tool_entry list" where
  "unique_tools seen [] = []"
| "unique_tools seen (t # ts) =
     (if te_name t \<noteq> [] \<and> te_name t \<notin> seen then t # unique_tools (insert (te_name t) seen) ts
      else unique_tools seen ts)"

definition resolve_tools ::
    "task_mode \<Rightarrow> tool_entry list \<Rightarrow> tool_entry list \<Rightarrow> bool option \<Rightarrow> bool option \<Rightarrow> tool_entry list" where
  "resolve_tools mode host skills coding_override skills_override =
     (let include_coding = (case coding_override of Some b \<Rightarrow> b | None \<Rightarrow> mode \<in> {Coding, Hybrid});
          include_skills = (case skills_override of Some b \<Rightarrow> b | None \<Rightarrow> mode \<in> {Security, Hybrid}) in
      unique_tools {} (host @ (if include_coding then coding_tool_list else [])
        @ (if include_skills then skills else filter (\<lambda>t. te_category t \<in> set general_skill_categories) skills)))"

section \<open>Facts about the coding commands\<close>

lemma split_on_none: "c \<notin> set s \<Longrightarrow> split_on c s = [s]"
  by (induction s) auto

lemma strip_id: "s = [] \<or> \<not> is_space (hd s) \<and> \<not> is_space (last s) \<Longrightarrow> strip s = s"
proof (cases "s = []")
  case True
  then show ?thesis by (simp add: strip_def lstrip_def rstrip_def)
next
  case False
  assume "s = [] \<or> \<not> is_space (hd s) \<and> \<not> is_space (last s)"
  with False have h: "\<not> is_space (hd s)" and l: "\<not> is_space (last s)" by auto
  from h False have "lstrip s = s" by (cases s) (simp_all add: lstrip_def)
  moreover from l False have "dropWhile is_space (rev s) = rev s"
    by (cases s rule: rev_cases) simp_all
  ultimately show ?thesis by (simp add: strip_def rstrip_def)
qed

lemma dec_plain: "is_dec c \<Longrightarrow> \<not> is_space c \<and> c \<noteq> CHR ''-'' \<and> c \<noteq> CHR ''+'' \<and> c \<noteq> CHR ''_''"
  by (auto simp: is_dec_def is_space_def code_point_def Let_def)

lemma int_of_digits:
  assumes "d \<noteq> []" and "list_all is_dec d"
  shows "int_of_text d = (if length d \<le> int_digits_limit then Inr (read_int d)
    else Inl (ValueError ''Exceeds the limit for integer string conversion''))"
proof -
  obtain c cs where d: "d = c # cs" using assms(1) by (cases d) auto
  have "\<forall>c \<in> set d. is_dec c" using assms(2) by (simp add: list_all_iff)
  then have plain: "\<And>c. c \<in> set d \<Longrightarrow> \<not> is_space c \<and> c \<noteq> CHR ''-'' \<and> c \<noteq> CHR ''+'' \<and> c \<noteq> CHR ''_''"
    using dec_plain by blast
  have "strip d = d" using assms(1) plain by (intro strip_id) simp
  moreover have "\<not> starts_with d ''-''" "\<not> starts_with d ''+''" using plain [of c] by (auto simp: d starts_with_def)
  moreover have "split_on (CHR ''_'') d = [d]" using plain by (intro split_on_none) blast
  ultimately show ?thesis using assms by (simp add: int_of_text_def)
qed

lemma count_at_digits: "count_at word s = Some d \<Longrightarrow> d \<noteq> [] \<and> list_all is_dec d"
  by (auto simp: count_at_def Let_def list_all_iff dest: set_takeWhileD split: if_splits)

lemma search_count_digits: "search_count word s = Some d \<Longrightarrow> d \<noteq> [] \<and> list_all is_dec d"
  by (induction s) (auto dest: count_at_digits split: option.splits)

lemma count_value_ok: "is_ok (count_value (search_count word s))
    \<longleftrightarrow> (case search_count word s of None \<Rightarrow> True | Some d \<Rightarrow> length d \<le> int_digits_limit)"
proof (cases "search_count word s")
  case (Some d)
  then show ?thesis using search_count_digits [OF Some] by (simp add: count_value_def int_of_digits)
qed (simp add: count_value_def)

lemma clean_single: "clean render v = Inr t \<Longrightarrow> \<not> has_control t"
  by (auto simp: clean_def Let_def res_bind_eq_Inr)

section \<open>Options of the git commands\<close>

text \<open>The words of a git command that git reads as options.\<close>

fun option_words :: "string list \<Rightarrow> string list" where
  "option_words [] = []"
| "option_words (w # ws) =
     (if w = ''--'' then []
      else if w = ''-m'' then w # option_words (tl ws)
      else if starts_with w ''-'' then w # option_words ws else option_words ws)"

definition git_options :: "string set" where
  "git_options = {''--short'', ''--staged'', ''--oneline'', ''-a'', ''-m'', ''-''} \<union> (\<lambda>n. ''-n'' @ show_int n) ` {1..100}"

lemma build_git_cases:
  assumes "build_coding_command render name params = Inr (argv, stdin)" and "name \<noteq> ''test_run'' \<and> name \<noteq> ''build_run''"
  obtains "argv = [''git'', ''status'', ''--short'']" and "stdin = None"
  | path s where "argv = [''git'', ''diff''] @ s @ (if path \<noteq> [] then [''--'', path] else [])" and "stdin = None"
      and "s \<in> {[], [''--staged'']}"
  | n where "argv = [''git'', ''log'', ''--oneline'', ''-n'' @ show_int n]" and "n \<in> {1..100}" and "stdin = None"
  | message s where "argv = [''git'', ''commit''] @ s @ [''-m'', message]" and "stdin = None" and "s \<in> {[], [''-a'']}"
  | "argv = [''git'', ''apply'', ''-'']"
proof -
  from assms(1) have "build_coding_command render name params = Inr (argv, stdin)" .
  with assms(2) consider "name = ''git_status''" | "name = ''git_diff''" | "name = ''git_log''"
    | "name = ''git_commit''" | "name = ''patch_apply''"
    by (auto simp: build_coding_command_def Let_def res_bind_eq_Inr split: if_splits)
  then show ?thesis
  proof cases
    case 1
    with assms(1) show ?thesis by (intro that(1)) (auto simp: build_coding_command_def res_bind_eq_Inr)
  next
    case 2
    with assms(1) obtain path where
      "argv = [''git'', ''diff''] @ (if truthy (get_or params ''staged'' JNull) then [''--staged''] else [])
         @ (if path \<noteq> [] then [''--'', path] else [])" and "stdin = None"
      by (auto simp: build_coding_command_def res_bind_eq_Inr)
    then show ?thesis by (intro that(2)) auto
  next
    case 3
    with assms(1) obtain i where
      "argv = [''git'', ''log'', ''--oneline'', ''-n'' @ show_int (max 1 (min i 100))]" and "stdin = None"
      by (auto simp: build_coding_command_def res_bind_eq_Inr)
    then show ?thesis by (intro that(3)) auto
  next
    case 4
    with assms(1) obtain message where
      "argv = [''git'', ''commit''] @ (if truthy (get_or params ''all'' JNull) then [''-a''] else []) @ [''-m'', message]"
      and "stdin = None"
      by (auto simp: build_coding_command_def res_bind_eq_Inr)
    then show ?thesis by (intro that(4)) auto
  next
    case 5
    with assms(1) show ?thesis
      by (intro that(5)) (auto simp: build_coding_command_def res_bind_eq_Inr split: jval.splits)
  qed
qed

text \<open>
  The words that a git capability gives to git as options come from a fixed set: no path, commit
  message or limit of the model can become an option, and standard input is only given to
  \<open>git apply -\<close>.
\<close>
theorem git_options_fixed:
  assumes "build_coding_command render name params = Inr (argv, stdin)" and "name \<noteq> ''test_run'' \<and> name \<noteq> ''build_run''"
  shows "hd argv = ''git'' \<and> set (option_words argv) \<subseteq> git_options \<and> (stdin \<noteq> None \<longrightarrow> argv = [''git'', ''apply'', ''-''])"
  by (rule build_git_cases [OF assms]) (auto simp: starts_with_def git_options_def)

text \<open>
  Summarising a result fails exactly for a test run whose output has a count of more than 4300
  digits, although the comment promises that it never raises.
\<close>
theorem summarize_ok_iff:
  "is_ok (summarize_coding_result render name data) \<longleftrightarrow>
     (name = ''test_run'' \<longrightarrow>
       (let blob = py_str render (get_or data ''stdout'' (JStr [])) @ [CHR 0x0A] @ py_str render (get_or data ''stderr'' (JStr []))
        in list_all (\<lambda>w. case search_count w blob of None \<Rightarrow> True | Some d \<Rightarrow> length d \<le> int_digits_limit)
             [''passed'', ''failed'', ''error'']))"
proof (cases "name = ''test_run''")
  case True
  have "(\<exists>x. count_value (search_count w blob) = Inr x)
      \<longleftrightarrow> (case search_count w blob of None \<Rightarrow> True | Some d \<Rightarrow> length d \<le> int_digits_limit)" for w blob
    using count_value_ok [of w blob] by (simp only: is_ok_iff)
  with True show ?thesis by (simp add: summarize_coding_result_def Let_def)
qed (simp add: summarize_coding_result_def Let_def)

section \<open>The registry and the resolver offer the same tools\<close>

fun unique_by :: "('a \<Rightarrow> 'k) \<Rightarrow> 'k set \<Rightarrow> 'a list \<Rightarrow> 'a list" where
  "unique_by f S [] = []"
| "unique_by f S (x # xs) = (if f x \<in> S then unique_by f S xs else x # unique_by f (insert (f x) S) xs)"

lemma unique_by_filter:
  "sorted_wrt (\<lambda>x y. f x = f y \<longrightarrow> P y \<longrightarrow> P x) xs \<Longrightarrow> (\<And>y. y \<in> set xs \<Longrightarrow> P y \<Longrightarrow> f y \<notin> E)
    \<Longrightarrow> unique_by f S (filter P xs) = filter P (unique_by f (S \<union> E) xs)"
proof (induction xs arbitrary: S E)
  case (Cons x xs)
  show ?case
  proof (cases "P x")
    case True
    with Cons.prems Cons.IH [of E S] Cons.IH [of E "insert (f x) S"] show ?thesis by auto
  next
    case False
    show ?thesis
    proof (cases "f x \<in> S \<union> E")
      case True
      with False Cons.prems Cons.IH [of E S] show ?thesis by auto
    next
      case new: False
      have "unique_by f S (filter P xs) = filter P (unique_by f (S \<union> insert (f x) E) xs)"
        using False Cons.prems by (intro Cons.IH) auto
      with False new show ?thesis by simp
    qed
  qed
qed simp

lemma unique_by_map: "unique_by f S (map g xs) = map g (unique_by (\<lambda>x. f (g x)) S xs)"
  by (induction xs arbitrary: S) auto

lemma unique_tools_by: "[] \<notin> te_name ` set ts \<Longrightarrow> unique_tools S ts = unique_by te_name S ts"
  by (induction ts arbitrary: S) auto

lemma register_all:
  "fold register_cap cs reg = reg @ map (\<lambda>c. (ce_name c, c)) (unique_by ce_name (set (dict_keys reg)) cs)"
proof (induction cs arbitrary: reg)
  case (Cons c cs)
  show ?case
  proof (cases "map_of reg (ce_name c)")
    case None
    then have "ce_name c \<notin> set (dict_keys reg)" by (simp add: map_of_eq_None_iff)
    moreover from None have "register_cap c reg = reg @ [(ce_name c, c)]"
      by (simp add: register_cap_def dict_setdefault_def)
    ultimately show ?thesis by (simp add: Cons.IH)
  next
    case (Some c')
    then have "ce_name c \<in> set (dict_keys reg)" by (metis map_of_eq_None_iff list.set_map option.distinct(1))
    moreover from Some have "register_cap c reg = reg"
      by (simp add: register_cap_def dict_setdefault_def)
    ultimately show ?thesis by (simp add: Cons.IH)
  qed
qed simp

definition listing :: "tool_entry \<Rightarrow> jdict" where
  "listing t = [(''name'', JStr (te_name t)), (''description'', JStr (te_description t)), (''risk'', JStr (te_risk t)),
     (''input_schema'', JDict (te_schema t))]"

definition without_source :: "jdict \<Rightarrow> jdict" where
  "without_source d = filter (\<lambda>(k, v). k \<noteq> ''source'') d"

lemma without_source_descriptor:
  "without_source (cap_descriptor (host_cap t)) = listing t"
  "without_source (cap_descriptor (cap_of s k t)) = listing t"
  "without_source (cap_descriptor (skill_cap t)) = listing t"
  by (simp_all add: without_source_def cap_descriptor_def host_cap_def skill_cap_def cap_of_def listing_def)

datatype offered = Host tool_entry | Code tool_entry | Skill tool_entry

fun entry_of :: "offered \<Rightarrow> tool_entry" where
  "entry_of (Host t) = t" | "entry_of (Code t) = t" | "entry_of (Skill t) = t"

fun cap_for :: "offered \<Rightarrow> cap_entry" where
  "cap_for (Host t) = host_cap t" | "cap_for (Code t) = cap_of ''native'' ''coding'' t" | "cap_for (Skill t) = skill_cap t"

fun wanted :: "task_mode \<Rightarrow> offered \<Rightarrow> bool" where
  "wanted mode (Host t) = True"
| "wanted mode (Code t) = (mode \<in> {Coding, Hybrid})"
| "wanted mode (Skill t) = (mode \<in> {Security, Hybrid} \<or> te_category t \<in> set general_skill_categories)"

lemma cap_for_name [simp]: "ce_name (cap_for x) = te_name (entry_of x)"
  by (cases x) (simp_all add: host_cap_def skill_cap_def cap_of_def)

lemma cap_for_exposed: "exposed mode (cap_for x) = wanted mode x"
  by (cases x) (auto simp: exposed_def host_cap_def skill_cap_def cap_of_def)

lemma cap_for_listing: "without_source (cap_descriptor (cap_for x)) = listing (entry_of x)"
  by (cases x) (simp_all add: without_source_descriptor)

lemma distinct_map_wrt: "distinct (map f xs) \<longleftrightarrow> sorted_wrt (\<lambda>x y. f x \<noteq> f y) xs"
  by (induction xs) auto

definition surface :: "tool_entry list \<Rightarrow> tool_entry list \<Rightarrow> offered list" where
  "surface host skills = map Host host @ map Code coding_tool_list @ map Skill skills"

lemma resolve_registry_surface:
  "resolve_registry (build_registry host skills [] True) mode
    = map (cap_descriptor \<circ> cap_for) (filter (wanted mode) (unique_by (\<lambda>x. te_name (entry_of x)) {} (surface host skills)))"
proof -
  have "map host_cap host @ map (cap_of ''native'' ''coding'') coding_tool_list @ map skill_cap skills
      = map cap_for (surface host skills)" by (simp add: surface_def)
  then show ?thesis
    by (simp add: resolve_registry_def build_registry_def all_caps_def register_all unique_by_map filter_map comp_def
        cap_for_exposed)
qed

lemma coding_names: "[] \<notin> te_name ` set coding_tool_list" "distinct (map te_name coding_tool_list)"
  by (simp_all add: coding_tool_list_def coding_capabilities_def)

lemma wanted_surface:
  "map entry_of (filter (wanted mode) (surface host skills))
    = host @ (if mode \<in> {Coding, Hybrid} then coding_tool_list else [])
      @ (if mode \<in> {Security, Hybrid} then skills else filter (\<lambda>t. te_category t \<in> set general_skill_categories) skills)"
  by (cases mode) (simp_all add: surface_def filter_map comp_def filter_False)

lemma resolve_tools_surface:
  assumes "[] \<notin> te_name ` (set host \<union> set skills)"
  shows "resolve_tools mode host skills None None
    = map entry_of (unique_by (\<lambda>x. te_name (entry_of x)) {} (filter (wanted mode) (surface host skills)))"
proof -
  have named: "[] \<notin> te_name ` set (map entry_of (filter (wanted mode) (surface host skills)))"
    using assms coding_names(1) by (auto simp: surface_def)
  have "unique_tools {} (map entry_of (filter (wanted mode) (surface host skills)))
      = map entry_of (unique_by (\<lambda>x. te_name (entry_of x)) {} (filter (wanted mode) (surface host skills)))"
    by (simp only: unique_tools_by [OF named] unique_by_map)
  then show ?thesis by (simp add: resolve_tools_def wanted_surface)
qed

text \<open>
  The registry offers, for each mode and apart from the source tag, the same tools in the same
  order as the resolver, when tools have names, the skills have different names and no skill has the
  name of a coding capability.
\<close>
theorem surface_agrees:
  assumes "[] \<notin> te_name ` (set host \<union> set skills)" and "distinct (map te_name skills)"
    and "te_name ` set skills \<inter> te_name ` set coding_tool_list = {}"
  shows "map without_source (resolve_registry (build_registry host skills [] True) mode)
    = map listing (resolve_tools mode host skills None None)"
proof -
  have "sorted_wrt (\<lambda>x y. te_name (entry_of x) = te_name (entry_of y) \<longrightarrow> wanted mode y \<longrightarrow> wanted mode x)
      (surface host skills)"
    using assms(2,3) coding_names(2)
    by (auto simp: surface_def sorted_wrt_append sorted_wrt_map distinct_map_wrt elim!: sorted_wrt_mono_rel [rotated])
  from unique_by_filter [OF this, of "{}" "{}"] show ?thesis
    by (simp add: resolve_registry_surface resolve_tools_surface [OF assms(1)] cap_for_listing)
qed


definition plain_tool :: "string \<Rightarrow> string \<Rightarrow> string \<Rightarrow> tool_entry" where
  "plain_tool name risk category = \<lparr>te_name = name, te_description = name, te_risk = risk, te_category = category, te_schema = []\<rparr>"

theorem surface_agrees_witness:
  "map without_source (resolve_registry (build_registry [plain_tool ''file_read'' ''read'' []]
       [plain_tool ''code_review'' ''read'' ''agent_core'', plain_tool ''web_audit'' ''write'' ''web_scanning''] [] True) Coding)
   = map listing (resolve_tools Coding [plain_tool ''file_read'' ''read'' []]
       [plain_tool ''code_review'' ''read'' ''agent_core'', plain_tool ''web_audit'' ''write'' ''web_scanning''] None None)"
  by (rule surface_agrees) (simp_all add: plain_tool_def coding_tool_list_def coding_capabilities_def)

theorem git_options_fixed_witness:
  "hd [''git'', ''diff'', ''--staged'', ''--'', ''--output=x''] = ''git''
   \<and> set (option_words [''git'', ''diff'', ''--staged'', ''--'', ''--output=x'']) \<subseteq> git_options"
proof -
  have "build_coding_command (\<lambda>_. []) ''git_diff'' [(''path'', JStr '' --output=x''), (''staged'', JBool True)]
    = Inr ([''git'', ''diff'', ''--staged'', ''--'', ''--output=x''], None)"
    by code_simp
  from git_options_fixed [OF this] show ?thesis by simp
qed

end
