(* ===== verification/LlmReply.thy ===== *)
theory LlmReply
  imports CapRegistry
begin

text \<open>
  From a model's reply to a decision: \<open>parse_llm_response\<close> of \<open>utils.py\<close>, with its code fences, its scan
  for JSON objects inside prose, and the tool envelope that some hosted models write.

  \<open>loads\<close> stands for \<open>json.loads(..., strict=False)\<close> of the standard library, \<open>None\<close> for its
  \<open>ValueError\<close>. The regular expressions are matched by hand: each of their parts ends at a
  character that the part cannot contain, so a leftmost match never gives characters back.
\<close>

section \<open>Code fences\<close>

definition fence :: string where
  "fence = replicate 3 (CHR 0x60)"

definition strip_code_fences :: "string \<Rightarrow> string" where
  "strip_code_fences text =
     (let t = strip text;
          t1 = (if starts_with t fence then
                  (let r = drop 3 t in lstrip (if starts_with (lower r) ''json'' then drop 4 r else r))
                else t)
      in if ends_with t1 fence then rstrip (take (length t1 - 3) t1) else t1)"

section \<open>JSON objects in a text\<close>

text \<open>
  \<open>acc\<close> is the object read so far, from its opening brace; it is empty outside of an object.
\<close>

fun json_objects :: "nat \<Rightarrow> bool \<Rightarrow> bool \<Rightarrow> string \<Rightarrow> string \<Rightarrow> string list" where
  "json_objects depth in_string escaped acc [] = []"
| "json_objects depth in_string escaped acc (c # cs) =
     (let more = (if depth > 0 then acc @ [c] else acc) in
      if in_string then
        (if escaped then json_objects depth True False more cs
         else if c = CHR 0x5C then json_objects depth True True more cs
         else if c = CHR 0x22 then json_objects depth False False more cs
         else json_objects depth True False more cs)
      else if c = CHR 0x22 then json_objects depth True escaped more cs
      else if c = CHR ''{'' then json_objects (Suc depth) False escaped (if depth = 0 then [c] else more) cs
      else if c = CHR ''}'' \<and> depth > 0 then
        (if depth = 1 then more # json_objects 0 False escaped [] cs
         else json_objects (depth - 1) False escaped more cs)
      else json_objects depth False escaped more cs)"

section \<open>The tool envelope\<close>

definition name_start :: "char \<Rightarrow> bool" where
  "name_start c = (is_lower_ascii c \<or> is_lower_ascii (lower_char c) \<and> code_point c < 128 \<or> c = CHR ''_'')"

definition name_char :: "char \<Rightarrow> bool" where
  "name_char c = (is_alnum_char c \<or> c \<in> {CHR ''_'', CHR ''.'', CHR ''-''})"

text \<open>\<open>[A-Za-z_][\w.-]{0,127}\<close> at the start of a text, with the rest of the text.\<close>

definition tool_name_at :: "string \<Rightarrow> (string \<times> string) option" where
  "tool_name_at s = (case s of [] \<Rightarrow> None | c # cs \<Rightarrow>
     if name_start c then
       (let n = take 127 (takeWhile name_char cs) in Some (c # n, drop (length n) cs))
     else None)"

text \<open>A tag at the start of a text, in any case, and the text before the first such tag.\<close>

definition tag_at :: "string \<Rightarrow> string \<Rightarrow> string option" where
  "tag_at tag s = (if starts_with (lower s) tag then Some (drop (length tag) s) else None)"

fun up_to_tag :: "string \<Rightarrow> string \<Rightarrow> (string \<times> string) option" where
  "up_to_tag tag [] = (case tag_at tag [] of Some r \<Rightarrow> Some ([], r) | None \<Rightarrow> None)"
| "up_to_tag tag (c # cs) = (case tag_at tag (c # cs) of
     Some r \<Rightarrow> Some ([], r)
   | None \<Rightarrow> (case up_to_tag tag cs of Some (b, r) \<Rightarrow> Some (c # b, r) | None \<Rightarrow> None))"

definition opt_bind :: "'a option \<Rightarrow> ('a \<Rightarrow> 'b option) \<Rightarrow> 'b option" where
  "opt_bind = Option.bind"

text \<open>A match of \<open>_TOOL_CALL_RE\<close> at the start of a text: tool, body and the text after the match.\<close>

definition tool_call_at :: "string \<Rightarrow> (string \<times> string \<times> string) option" where
  "tool_call_at s =
     opt_bind (tag_at ''<tool_call>'' s) (\<lambda>r1.
     opt_bind (tool_name_at (lstrip r1)) (\<lambda>(tool, r2).
     opt_bind (up_to_tag ''</tool_call>'' (lstrip r2)) (\<lambda>(body, r3). Some (tool, body, r3))))"

definition tool_arg_at :: "string \<Rightarrow> (string \<times> string \<times> string) option" where
  "tool_arg_at s =
     opt_bind (tag_at ''<arg_key>'' s) (\<lambda>r1.
     opt_bind (tool_name_at (lstrip r1)) (\<lambda>(key, r2).
     opt_bind (tag_at ''</arg_key>'' (lstrip r2)) (\<lambda>r3.
     opt_bind (tag_at ''<arg_value>'' (lstrip r3)) (\<lambda>r4.
     opt_bind (up_to_tag ''</arg_value>'' r4) (\<lambda>(v, r5). Some (key, v, r5))))))"

text \<open>
  \<open>finditer\<close> and \<open>sub("", ...)\<close> over matches that do not overlap; \<open>skip\<close> characters belong to the last
  match. A match comes with the text before its start.
\<close>

fun find_matches :: "(string \<Rightarrow> ('a \<times> string) option) \<Rightarrow> nat \<Rightarrow> string \<Rightarrow> string \<Rightarrow> (string \<times> 'a) list" where
  "find_matches m skip pre [] = []"
| "find_matches m skip pre (c # cs) =
     (if 0 < skip then find_matches m (skip - 1) (pre @ [c]) cs
      else (case m (c # cs) of
          Some (x, r) \<Rightarrow> (pre, x) # find_matches m (length cs - length r) (pre @ [c]) cs
        | None \<Rightarrow> find_matches m 0 (pre @ [c]) cs))"

fun remove_matches :: "(string \<Rightarrow> ('a \<times> string) option) \<Rightarrow> nat \<Rightarrow> string \<Rightarrow> string" where
  "remove_matches m skip [] = []"
| "remove_matches m skip (c # cs) =
     (if 0 < skip then remove_matches m (skip - 1) cs
      else (case m (c # cs) of
          Some (x, r) \<Rightarrow> remove_matches m (length cs - length r) cs
        | None \<Rightarrow> c # remove_matches m 0 cs))"

definition tool_calls :: "string \<Rightarrow> (string \<times> string \<times> string) list" where
  "tool_calls text = find_matches (\<lambda>s. map_option (\<lambda>(tool, body, r). ((tool, body), r)) (tool_call_at s)) 0 [] text"

definition tool_arg :: "string \<Rightarrow> ((string \<times> string) \<times> string) option" where
  "tool_arg s = map_option (\<lambda>(key, v, r). ((key, v), r)) (tool_arg_at s)"

definition markup_value :: "(string \<Rightarrow> jval option) \<Rightarrow> string \<Rightarrow> jval" where
  "markup_value loads raw = (case loads (strip raw) of Some v \<Rightarrow> v | None \<Rightarrow> JStr (strip raw))"

definition parse_tool_call_markup :: "(string \<Rightarrow> jval option) \<Rightarrow> string \<Rightarrow> jdict option" where
  "parse_tool_call_markup loads text = (case tool_calls text of
     [] \<Rightarrow> None
   | (pre, tool, body) # others \<Rightarrow>
       (let pairs = map snd (find_matches tool_arg 0 [] body); lowered = lower body in
        if count_sub 0 ''<arg_key>'' lowered \<noteq> length pairs \<or> count_sub 0 ''<arg_value>'' lowered \<noteq> length pairs
           \<or> strip (remove_matches tool_arg 0 body) \<noteq> [] \<or> \<not> distinct (map fst pairs) then None
        else Some ([(''thought'', JStr (strip pre)), (''tool'', JStr tool),
            (''params'', JDict (map (\<lambda>(k, v). (k, markup_value loads v)) pairs))]
          @ (if others \<noteq> [] then [(''additional_tool_calls'', JInt (int (length others)))] else []))))"

section \<open>The decision\<close>

definition response_keys :: "string list" where
  "response_keys = [''message'', ''tool'', ''action'', ''command'', ''decision_summary'']"

text \<open>The first object with a key of a decision, or else the first object.\<close>

fun first_object :: "(string \<Rightarrow> jval option) \<Rightarrow> jdict option \<Rightarrow> string list \<Rightarrow> jdict option \<times> jdict option" where
  "first_object loads fallback [] = (None, fallback)"
| "first_object loads fallback (c # cs) = (case loads c of
     Some (JDict d) \<Rightarrow>
       if list_ex (\<lambda>k. k \<in> set (dict_keys d)) response_keys then (Some d, fallback)
       else first_object loads (if fallback = None then Some d else fallback) cs
   | _ \<Rightarrow> first_object loads fallback cs)"

definition raw_reply :: "string \<Rightarrow> jdict" where
  "raw_reply response =
     (let stripped = strip response in
      [(''decision_summary'', JStr ''The model reply was not valid JSON; showing its raw text.''),
       (''message'', JStr (if stripped \<noteq> [] then take 2000 stripped else ''The model returned an empty response.'')),
       (''action'', JNull), (''params'', JDict [])])"

definition parse_llm_response :: "(string \<Rightarrow> jval option) \<Rightarrow> string \<Rightarrow> jdict" where
  "parse_llm_response loads response =
     (let text = strip_code_fences response in
      case loads text of
        Some (JDict d) \<Rightarrow> d
      | _ \<Rightarrow> (case first_object loads None (json_objects 0 False False [] text) of
          (Some d, _) \<Rightarrow> d
        | (None, fallback) \<Rightarrow> (case parse_tool_call_markup loads text of
            Some d \<Rightarrow> d
          | None \<Rightarrow> (case fallback of Some d \<Rightarrow> d | None \<Rightarrow> raw_reply response))))"

section \<open>Facts\<close>

text \<open>Every object that the scan finds is a part of the text that starts and ends with a brace.\<close>

lemma json_objects_braces:
  "(depth > 0 \<longrightarrow> acc \<noteq> [] \<and> hd acc = CHR ''{'') \<Longrightarrow> obj \<in> set (json_objects depth in_string escaped acc cs)
    \<Longrightarrow> hd obj = CHR ''{'' \<and> last obj = CHR ''}''"
  by (induction depth in_string escaped acc cs rule: json_objects.induct)
     (auto simp: Let_def split: if_splits)

lemma json_objects_none: "CHR ''{'' \<notin> set cs \<Longrightarrow> json_objects 0 in_string escaped [] cs = []"
  by (induction cs arbitrary: in_string escaped) (auto simp: Let_def)

lemma lower_char_less: "lower_char c = CHR ''<'' \<Longrightarrow> c = CHR ''<''"
proof -
  assume "lower_char c = CHR ''<''"
  then have "code_point (lower_char c) = 60" by (simp add: code_point_def)
  then have "code_point c = 60"
    by (auto simp: lower_char_def Let_def code_point_def split: if_splits)
  then have "of_char c = (of_char (CHR ''<'') :: nat)" by (simp add: code_point_def)
  then show ?thesis by (simp only: of_char_eq_iff)
qed

lemma no_tool_call: "CHR ''<'' \<notin> set s \<Longrightarrow> tool_call_at s = None"
  using lower_char_less
  by (cases s) (auto simp: tool_call_at_def opt_bind_def tag_at_def starts_with_def lower_def)

lemma no_tool_calls: "CHR ''<'' \<notin> set s \<Longrightarrow> tool_calls s = []"
proof -
  have "find_matches (\<lambda>s. map_option (\<lambda>(tool, body, r). ((tool, body), r)) (tool_call_at s)) 0 pre s = []"
    if "CHR ''<'' \<notin> set s" for pre
    using that no_tool_call by (induction s arbitrary: pre) auto
  then show "CHR ''<'' \<notin> set s \<Longrightarrow> tool_calls s = []" by (simp add: tool_calls_def)
qed

lemma set_lstrip: "set (lstrip s) \<subseteq> set s"
  by (auto simp: lstrip_def dest: set_dropWhileD)

lemma set_rstrip: "set (rstrip s) \<subseteq> set s"
  by (auto simp: rstrip_def dest: set_dropWhileD)

lemma set_strip_code_fences: "set (strip_code_fences s) \<subseteq> set s"
proof -
  have "set (lstrip (drop n t)) \<subseteq> set t" and "set (rstrip (take n t)) \<subseteq> set t" for n t
    using set_lstrip set_rstrip set_drop_subset set_take_subset by (meson subset_trans)+
  moreover have "set (lstrip (drop 4 (drop 3 t))) \<subseteq> set t" for t
    using set_lstrip set_drop_subset by (metis drop_drop subset_trans)
  ultimately show ?thesis
    using set_strip [of s] unfolding strip_code_fences_def Let_def by (smt (verit) subset_trans)
qed

text \<open>
  A reply in plain prose never calls a tool: without a JSON object and without a tool envelope
  the decision has no tool and no action, and its message is the reply itself.
\<close>
theorem prose_calls_nothing:
  assumes "loads (strip_code_fences response) = None" and "CHR ''{'' \<notin> set response" and "CHR ''<'' \<notin> set response"
  shows "parse_llm_response loads response = raw_reply response
    \<and> map_of (parse_llm_response loads response) ''tool'' = None"
proof -
  have "CHR ''{'' \<notin> set (strip_code_fences response)" "CHR ''<'' \<notin> set (strip_code_fences response)"
    using assms(2,3) set_strip_code_fences by blast+
  then have "parse_llm_response loads response = raw_reply response"
    using assms(1) by (simp add: parse_llm_response_def json_objects_none no_tool_calls parse_tool_call_markup_def)
  then show ?thesis by (simp add: raw_reply_def Let_def)
qed

theorem prose_calls_nothing_witness:
  "map_of (parse_llm_response (\<lambda>_. None) ''I would run rm -rf now'') ''tool'' = None"
  by (rule conjunct2 [OF prose_calls_nothing]) simp_all

end
