(* ===== verification/AgentLoop.thy ===== *)
theory AgentLoop
  imports LlmReply
begin

text \<open>
  The bounded tool-use loop (\<open>runtime/agent_loop.py\<close>) and the completion verifiers
  (\<open>verification/verifier.py\<close>).

  What the loop talks to is a record of functions: the model, the reviewer and the tools answer as a
  function of how often they were called (the model also of its messages), and an answer may be an
  exception, which then leaves the loop. The texts that only the model reads (the system prompt, the
  rendered state, the JSON text of an observation) are functions of that record as well. The loop's
  state keeps a trace of every effect on the outside, in order; times and token counts are left out.
\<close>

section \<open>Parameter contracts\<close>

fun matches_json_type :: "jval \<Rightarrow> string \<Rightarrow> bool" where
  "matches_json_type v expected =
     (if expected = ''string'' then is_str v
      else if expected = ''integer'' then (case v of JInt _ \<Rightarrow> True | _ \<Rightarrow> False)
      else if expected = ''number'' then is_number v
      else if expected = ''boolean'' then is_bool v
      else if expected = ''array'' then (case v of JList _ \<Rightarrow> True | _ \<Rightarrow> False)
      else if expected = ''object'' then is_dict v
      else True)"

text \<open>
  A schema can come from an external server. \<open>x.get(k)\<close> on something that is not a dictionary raises;
  a list of names is a list of texts, or iterating or joining it raises.
\<close>

definition schema_error :: py_error where
  "schema_error = TypeError ''malformed schema''"

definition as_dict :: "jval \<Rightarrow> jdict res" where
  "as_dict v = (case v of JDict d \<Rightarrow> Inr d | _ \<Rightarrow> if truthy v then Inl schema_error else Inr [])"

fun texts_of :: "jval list \<Rightarrow> string list res" where
  "texts_of [] = Inr []"
| "texts_of (v # vs) = (case v of JStr s \<Rightarrow> res_bind (texts_of vs) (\<lambda>ss. Inr (s # ss)) | _ \<Rightarrow> Inl schema_error)"

text \<open>\<open>for name in d.get(key, [])\<close>.\<close>

definition items_in :: "jdict \<Rightarrow> string \<Rightarrow> jval list res" where
  "items_in d key = (case get_or d key (JList []) of
     JList vs \<Rightarrow> Inr vs
   | JStr s \<Rightarrow> Inr (map (\<lambda>c. JStr [c]) s)
   | JDict e \<Rightarrow> Inr (map JStr (dict_keys e))
   | _ \<Rightarrow> Inl schema_error)"

definition has_type :: "jval \<Rightarrow> jval \<Rightarrow> bool" where
  "has_type v expected = (case expected of JStr t \<Rightarrow> matches_json_type v t | _ \<Rightarrow> True)"

definition show_type :: "jval \<Rightarrow> string" where
  "show_type expected = (case expected of JStr t \<Rightarrow> t | _ \<Rightarrow> [])"

definition check_param :: "jdict \<Rightarrow> string \<Rightarrow> jval \<Rightarrow> string res" where
  "check_param properties name v =
     res_bind (as_dict (get_or properties name JNull)) (\<lambda>contract.
     let expected = get_or contract ''type'' JNull in
     if truthy expected \<and> \<not> has_type v expected then
       Inr (''tool parameter '' @ quoted name @ '' must be '' @ show_type expected)
     else
       (let choices = get_or contract ''enum'' JNull in
        res_bind (if truthy choices then (case choices of
            JList cs \<Rightarrow> if list_ex (py_eq v) cs then Inr []
              else res_bind (texts_of cs) (\<lambda>ts. Inr (''tool parameter '' @ quoted name @ '' must be one of: '' @ join_with '', '' ts))
          | _ \<Rightarrow> Inl schema_error) else Inr []) (\<lambda>bad.
        if bad \<noteq> [] then Inr bad
        else (case v of
            JList items \<Rightarrow>
              if expected = JStr ''array'' then
                res_bind (as_dict (get_or contract ''items'' JNull)) (\<lambda>item.
                let t = get_or item ''type'' JNull in
                Inr (if truthy t \<and> \<not> list_all (\<lambda>x. has_type x t) items
                  then ''tool parameter '' @ quoted name @ '' contains an invalid item'' else []))
              else Inr []
          | _ \<Rightarrow> Inr []))))"

fun check_each :: "jdict \<Rightarrow> jdict \<Rightarrow> string res" where
  "check_each properties [] = Inr []"
| "check_each properties ((name, v) # rest) =
     res_bind (check_param properties name v) (\<lambda>bad.
       if bad \<noteq> [] then Inr bad else check_each properties rest)"

text \<open>\<open>all(name in params for name in names)\<close>; a list or a dictionary is not hashable.\<close>

fun all_given :: "jdict \<Rightarrow> jval list \<Rightarrow> bool res" where
  "all_given params [] = Inr True"
| "all_given params (v # vs) =
     (if \<not> hashable v then Inl schema_error
      else if v \<in> JStr ` set (dict_keys params) then all_given params vs else Inr False)"

fun matching_forms :: "jdict \<Rightarrow> jval list \<Rightarrow> nat res" where
  "matching_forms params [] = Inr 0"
| "matching_forms params (a # alternatives) =
     (case a of
        JDict d \<Rightarrow> res_bind (items_in d ''required'') (\<lambda>names.
          res_bind (all_given params names) (\<lambda>ok.
          res_bind (matching_forms params alternatives) (\<lambda>n. Inr (if ok then Suc n else n))))
      | _ \<Rightarrow> Inl schema_error)"

text \<open>The empty text means that the parameters are accepted.\<close>

definition validate_tool_params :: "jdict \<Rightarrow> jval \<Rightarrow> string res" where
  "validate_tool_params schema v = (case v of
     JDict params \<Rightarrow>
       if schema = [] then Inr []
       else
         res_bind (as_dict (get_or schema ''properties'' JNull)) (\<lambda>properties.
         let unknown = sort (filter (\<lambda>k. k \<notin> set (dict_keys properties)) (dict_keys params)) in
         if get_or schema ''additionalProperties'' JNull = JBool False \<and> unknown \<noteq> [] then
           Inr (''unsupported tool parameters: '' @ join_with '', '' unknown)
         else
           res_bind (items_in schema ''required'') (\<lambda>required.
           let missing = filter (\<lambda>v. v \<notin> JStr ` set (dict_keys params)) required in
           if missing \<noteq> [] then
             res_bind (texts_of missing) (\<lambda>names. Inr (''missing required tool parameters: '' @ join_with '', '' names))
           else
             (let alternatives = get_or schema ''oneOf'' JNull in
              res_bind (if truthy alternatives then (case alternatives of
                  JList forms \<Rightarrow> res_bind (matching_forms params forms) (\<lambda>n. Inr (n = 1))
                | _ \<Rightarrow> Inl schema_error) else Inr True) (\<lambda>one.
              if \<not> one then Inr ''tool parameters must satisfy exactly one allowed input form''
              else check_each properties params))))
   | _ \<Rightarrow> Inr ''tool parameters must be an object'')"

section \<open>Verification of completion\<close>

fun task_status_value :: "task_status \<Rightarrow> string" where
  "task_status_value Investigating = ''investigating''"
| "task_status_value TaskBlocked = ''blocked''"
| "task_status_value TaskComplete = ''complete''"
| "task_status_value TaskFailed = ''failed''"

record verdict =
  vd_valid :: bool
  vd_reasons :: "string list"
  vd_failed :: "string list"

definition build_context :: "'e task_state \<Rightarrow> jdict option \<Rightarrow> jdict" where
  "build_context t seen =
     (let observations = ts_observations t;
          data = (case seen of
             Some ob \<Rightarrow> get_or ob ''data'' JNull
           | None \<Rightarrow> if observations = [] then JDict [] else JDict (os_data (last observations))) in
      [(''last_success'', JBool (observations \<noteq> [] \<and> os_success (last observations))),
       (''last_observation'', if truthy data then data else JDict []),
       (''observations_count'', JInt (int (length observations))),
       (''successful_actions'', JInt (int (length (filter os_success observations)))),
       (''evidence_count'', JInt (int (length (filter
          (\<lambda>a. at_evidence_id a \<noteq> [] \<and> at_evidence_hash a \<noteq> []) (ts_artifacts t))))),
       (''findings_count'', JInt (int (length (ts_findings t)))),
       (''findings'', JList (map (\<lambda>f. JStr (fi_title f)) (ts_findings t))),
       (''status'', JStr (task_status_value (ts_status t)))])"

definition verify_rules :: "'e task_state \<Rightarrow> jdict option \<Rightarrow> verdict res" where
  "verify_rules t seen =
     (if ts_completion t = [] then
        Inr \<lparr>vd_valid = True, vd_reasons = [''no completion conditions declared; accepting''], vd_failed = []\<rparr>
      else res_bind (evaluate_completion t (JDict (build_context t seen))) (\<lambda>(complete, failures).
        Inr \<lparr>vd_valid = complete, vd_reasons = (if complete then [] else [''completion conditions not met'']),
             vd_failed = failures\<rparr>))"

section \<open>The loop\<close>

datatype message = Message (role_of: string) (content_of: string)

datatype reply = Reply string | ReplyRaises

datatype loop_event =
    VerifyEvent "string list" nat bool
  | FinalEvent jval
  | CallEvent string jval
  | ResultEvent string jdict

datatype 'e loop_effect =
    Asked "message list"
  | Reviewed
  | Invoked string jdict
  | Saved "'e task_state"
  | Emitted loop_event

datatype verifier = Rules | ModelReview

text \<open>\<open>None\<close> of \<open>le_invoke\<close> is an exception; \<open>False\<close> of \<open>le_checkpoint\<close> is one as well.\<close>

record 'e loop_env =
  le_tools :: "(string \<times> jdict) list"
  le_max_steps :: int
  le_max_replans :: int
  le_stop_on_failure :: bool
  le_verifier :: "verifier option"
  le_chat :: "nat \<Rightarrow> message list \<Rightarrow> reply"
  le_review :: "nat \<Rightarrow> reply"
  le_invoke :: "nat \<Rightarrow> string \<Rightarrow> jdict \<Rightarrow> jdict option"
  le_checkpoint :: "(nat \<Rightarrow> 'e task_state \<Rightarrow> bool) option"
  le_loads :: "string \<Rightarrow> jval option"
  le_dumps :: "jdict \<Rightarrow> string"
  le_str :: "jval \<Rightarrow> string"
  le_render :: "'e task_state \<Rightarrow> string"
  le_prompt :: string
  le_assistant :: "string \<Rightarrow> message"

record loop_call =
  lc_tool :: string
  lc_params :: jval
  lc_thought :: string
  lc_observation :: jdict

record loop_result =
  lr_final :: jval
  lr_thought :: "string option"
  lr_steps :: "loop_call list"
  lr_stopped :: string
  lr_failed :: "string list"
  lr_summary :: string

record 'e loop =
  lp_messages :: "message list"
  lp_steps :: "loop_call list"
  lp_last :: "jdict option"
  lp_state :: "'e task_state option"
  lp_replans :: nat
  lp_trace :: "'e loop_effect list"

datatype loop_stop = Halted loop_result | Raised

type_synonym ('e, 'a) loop_act = "'e loop \<Rightarrow> 'e loop \<times> (loop_stop + 'a)"

definition lp_bind :: "('e, 'a) loop_act \<Rightarrow> ('a \<Rightarrow> ('e, 'b) loop_act) \<Rightarrow> ('e, 'b) loop_act" where
  "lp_bind m f s = (case m s of (s', Inl e) \<Rightarrow> (s', Inl e) | (s', Inr x) \<Rightarrow> f x s')"

definition lp_return :: "'a \<Rightarrow> ('e, 'a) loop_act" where
  "lp_return x s = (s, Inr x)"

definition lp_raise :: "('e, 'a) loop_act" where
  "lp_raise s = (s, Inl Raised)"

definition lp_modify :: "('e loop \<Rightarrow> 'e loop) \<Rightarrow> ('e, unit) loop_act" where
  "lp_modify f s = (f s, Inr ())"

definition lp_gets :: "('e loop \<Rightarrow> 'a) \<Rightarrow> ('e, 'a) loop_act" where
  "lp_gets f s = (s, Inr (f s))"

definition lp_res :: "'a res \<Rightarrow> ('e, 'a) loop_act" where
  "lp_res r s = (case r of Inl e \<Rightarrow> (s, Inl Raised) | Inr x \<Rightarrow> (s, Inr x))"

definition lp_record :: "'e loop_effect \<Rightarrow> ('e, unit) loop_act" where
  "lp_record e = lp_modify (\<lambda>s. s\<lparr>lp_trace := lp_trace s @ [e]\<rparr>)"

definition lp_update_state :: "('e task_state \<Rightarrow> 'e task_state) \<Rightarrow> ('e, unit) loop_act" where
  "lp_update_state f = lp_modify (\<lambda>s. s\<lparr>lp_state := map_option f (lp_state s)\<rparr>)"

definition lp_say :: "message list \<Rightarrow> ('e, unit) loop_act" where
  "lp_say ms = lp_modify (\<lambda>s. s\<lparr>lp_messages := lp_messages s @ ms\<rparr>)"

text \<open>How often the trace holds an effect of a kind, the number of the next one.\<close>

fun is_asked :: "'e loop_effect \<Rightarrow> bool" where "is_asked (Asked _) = True" | "is_asked _ = False"
fun is_reviewed :: "'e loop_effect \<Rightarrow> bool" where "is_reviewed Reviewed = True" | "is_reviewed _ = False"
fun is_invoked :: "'e loop_effect \<Rightarrow> bool" where "is_invoked (Invoked _ _) = True" | "is_invoked _ = False"
fun is_saved :: "'e loop_effect \<Rightarrow> bool" where "is_saved (Saved _) = True" | "is_saved _ = False"

definition times :: "('e loop_effect \<Rightarrow> bool) \<Rightarrow> 'e loop \<Rightarrow> nat" where
  "times P s = length (filter P (lp_trace s))"

definition save_checkpoint :: "'e loop_env \<Rightarrow> ('e, unit) loop_act" where
  "save_checkpoint E = lp_bind (lp_gets (\<lambda>s. (lp_state s, times is_saved s))) (\<lambda>(st, n).
     case (st, le_checkpoint E) of
       (Some t, Some cp) \<Rightarrow> lp_bind (lp_record (Saved t)) (\<lambda>_. if cp n t then lp_return () else lp_raise)
     | _ \<Rightarrow> lp_return ())"

definition emit :: "loop_event \<Rightarrow> ('e, unit) loop_act" where
  "emit ev = lp_record (Emitted ev)"

definition state_summary :: "'e loop_env \<Rightarrow> 'e loop \<Rightarrow> string" where
  "state_summary E s = (case lp_state s of None \<Rightarrow> [] | Some t \<Rightarrow> le_render E t)"

definition state_message :: "'e loop_env \<Rightarrow> 'e loop \<Rightarrow> message list" where
  "state_message E s = (case lp_state s of None \<Rightarrow> []
     | Some t \<Rightarrow> [Message ''system'' (''Current task state:'' @ [CHR 0x0A] @ le_render E t)])"

definition lp_halt :: "'e loop_env \<Rightarrow> jval \<Rightarrow> string option \<Rightarrow> string \<Rightarrow> string list \<Rightarrow> ('e, 'a) loop_act" where
  "lp_halt E final thought stopped failed s = (s, Inl (Halted \<lparr>lr_final = final, lr_thought = thought,
     lr_steps = lp_steps s, lr_stopped = stopped, lr_failed = failed, lr_summary = state_summary E s\<rparr>))"

subsection \<open>One turn\<close>

text \<open>The state is shown for this turn only: its message is appended, and its first copy removed after.\<close>

definition ask_model :: "'e loop_env \<Rightarrow> ('e, string) loop_act" where
  "ask_model E =
     lp_bind (lp_gets (\<lambda>s. (state_message E s, lp_messages s @ state_message E s, times is_asked s))) (\<lambda>(sm, ms, n).
     lp_bind (lp_record (Asked ms)) (\<lambda>_.
       case le_chat E n ms of
         ReplyRaises \<Rightarrow> lp_raise
       | Reply raw \<Rightarrow>
           lp_bind (lp_modify (\<lambda>s. s\<lparr>lp_messages := (case sm of [] \<Rightarrow> ms | m # _ \<Rightarrow> remove1 m ms)\<rparr>)) (\<lambda>_. lp_return raw)))"

definition decision_thought :: "'e loop_env \<Rightarrow> jdict \<Rightarrow> string" where
  "decision_thought E d = strip (py_str (le_str E)
     (or_value (get_or d ''thought'' JNull) (or_value (get_or d ''reasoning'' JNull) (JStr []))))"

text \<open>\<open>[str(r) for r in (decision.get("reasons") or [])]\<close>.\<close>

definition review_reasons :: "'e loop_env \<Rightarrow> jdict \<Rightarrow> string list res" where
  "review_reasons E d = (let v = get_or d ''reasons'' JNull in
     if \<not> truthy v then Inr []
     else (case v of
        JList vs \<Rightarrow> Inr (map (py_str (le_str E)) vs)
      | JStr s \<Rightarrow> Inr (map (\<lambda>c. [c]) s)
      | JDict e \<Rightarrow> Inr (dict_keys e)
      | _ \<Rightarrow> Inl (TypeError ''object is not iterable'')))"

definition review :: "'e loop_env \<Rightarrow> ('e, verdict) loop_act" where
  "review E =
     lp_bind (lp_gets (times is_reviewed)) (\<lambda>n.
     lp_bind (lp_record Reviewed) (\<lambda>_.
       case le_review E n of
         ReplyRaises \<Rightarrow> lp_return \<lparr>vd_valid = True, vd_reasons = [''reviewer unavailable; accepting''], vd_failed = []\<rparr>
       | Reply raw \<Rightarrow>
           (let d = parse_llm_response (le_loads E) raw in
            if ''valid'' \<notin> set (dict_keys d) then
              lp_return \<lparr>vd_valid = True, vd_reasons = [''reviewer reply not parseable; accepting''], vd_failed = []\<rparr>
            else
              (let valid = truthy (get_or d ''valid'' JNull) in
               lp_bind (lp_res (review_reasons E d)) (\<lambda>reasons.
                 lp_return \<lparr>vd_valid = valid,
                   vd_reasons = (if \<not> valid \<and> reasons = [] then [''reviewer judged the objective not yet met''] else reasons),
                   vd_failed = []\<rparr>)))))"

definition verify_completion :: "'e loop_env \<Rightarrow> verifier \<Rightarrow> 'e task_state \<Rightarrow> ('e, verdict) loop_act" where
  "verify_completion E v t =
     lp_bind (lp_gets lp_last) (\<lambda>seen.
     lp_bind (lp_res (verify_rules t seen)) (\<lambda>base.
       if v = Rules \<or> \<not> vd_valid base then lp_return base else review E))"

definition accept :: "'e loop_env \<Rightarrow> jdict \<Rightarrow> string \<Rightarrow> ('e, unit) loop_act" where
  "accept E d thought =
     lp_bind (lp_update_state (mark_task TaskComplete)) (\<lambda>_.
     lp_bind (save_checkpoint E) (\<lambda>_.
     lp_bind (emit (FinalEvent (get_or d ''message'' (JStr [])))) (\<lambda>_.
       lp_halt E (get_or d ''message'' (JStr [])) (Some thought) ''final'' [])))"

definition failed_text :: "verdict \<Rightarrow> string list" where
  "failed_text v =
     (if vd_failed v \<noteq> [] then vd_failed v else if vd_reasons v \<noteq> [] then vd_reasons v
      else [''completion verification failed''])"

definition reject :: "'e loop_env \<Rightarrow> string \<Rightarrow> string \<Rightarrow> verdict \<Rightarrow> ('e, unit) loop_act" where
  "reject E raw thought v =
     lp_bind (lp_gets lp_replans) (\<lambda>replans.
     let failed = failed_text v; can_replan = int replans < max 0 (le_max_replans E) in
     lp_bind (if can_replan then
         lp_bind (lp_modify (\<lambda>s. s\<lparr>lp_replans := Suc (lp_replans s)\<rparr>)) (\<lambda>_. lp_update_state (mark_task Investigating))
       else lp_update_state (mark_task TaskBlocked)) (\<lambda>_.
     lp_bind (save_checkpoint E) (\<lambda>_.
     lp_bind (lp_gets lp_replans) (\<lambda>now.
     lp_bind (emit (VerifyEvent failed now (\<not> can_replan))) (\<lambda>_.
       if \<not> can_replan then
         (let summary = JStr (''completion not verified: '' @ join_with ''; '' failed) in
          lp_bind (emit (FinalEvent summary)) (\<lambda>_.
            lp_halt E summary (Some thought) ''verification_failed'' failed))
       else
         lp_say [le_assistant E raw, Message ''user'' (''Verification failed before completing: '' @ join_with ''; '' failed
           @ ''. Continue working to satisfy the completion conditions, or explain in a final message why they cannot be met.'')])))))"

definition finish_turn :: "'e loop_env \<Rightarrow> string \<Rightarrow> jdict \<Rightarrow> string \<Rightarrow> ('e, unit) loop_act" where
  "finish_turn E raw d thought =
     lp_bind (lp_gets lp_state) (\<lambda>st.
       case (st, le_verifier E) of
         (Some t, Some v) \<Rightarrow> lp_bind (verify_completion E v t) (\<lambda>verdict.
           if vd_valid verdict then accept E d thought else reject E raw thought verdict)
       | _ \<Rightarrow> accept E d thought)"

text \<open>What \<open>record_observation\<close> reads; it raises when the evidence or the data are no dictionaries.\<close>

definition read_observation :: "'e loop_env \<Rightarrow> jdict \<Rightarrow> obs_input res" where
  "read_observation E ob =
     res_bind (as_dict (get_or ob ''evidence'' JNull)) (\<lambda>evidence.
     res_bind (as_dict (get_or ob ''data'' JNull)) (\<lambda>data.
       Inr \<lparr>oi_success = truthy (get_or ob ''success'' JNull),
            oi_summary = py_str (le_str E) (get_or ob ''summary'' (JStr [])), oi_data = data,
            oi_evidence_id = py_str (le_str E) (get_or evidence ''id'' (JStr [])),
            oi_evidence_sha = py_str (le_str E) (get_or evidence ''sha256'' (JStr []))\<rparr>))"

definition tool_schema :: "'e loop_env \<Rightarrow> string \<Rightarrow> jdict" where
  "tool_schema E tool = (case map_of (rev (le_tools E)) tool of None \<Rightarrow> [] | Some sch \<Rightarrow> sch)"

definition failure_observation :: "string \<Rightarrow> jdict" where
  "failure_observation summary = [(''success'', JBool False), (''summary'', JStr summary)]"

definition observe :: "'e loop_env \<Rightarrow> string \<Rightarrow> jval \<Rightarrow> string \<Rightarrow> ('e, jdict) loop_act" where
  "observe E tool params problem =
     (if tool \<notin> fst ` set (le_tools E) then lp_return (failure_observation (''unknown tool '' @ quoted tool))
      else if problem \<noteq> [] then lp_return (failure_observation (''invalid tool parameters: '' @ problem))
      else (case params of
        JDict ps \<Rightarrow>
          lp_bind (lp_gets (times is_invoked)) (\<lambda>n.
          lp_bind (lp_record (Invoked tool ps)) (\<lambda>_.
            case le_invoke E n tool ps of None \<Rightarrow> lp_raise | Some ob \<Rightarrow> lp_return ob))
      | _ \<Rightarrow> lp_raise))"

definition observation_message :: "'e loop_env \<Rightarrow> string \<Rightarrow> jdict \<Rightarrow> jdict \<Rightarrow> string" where
  "observation_message E tool params ob =
     (let serialized = le_dumps E ob;
          limit = (if tool = ''list_tools'' \<and> truthy (get_or params ''query'' JNull) then 64000 else 12000) in
      if length serialized \<le> limit then serialized
      else le_dumps E
        [(''success'', get_or ob ''success'' (JBool False)), (''summary'', get_or ob ''summary'' (JStr [])),
         (''data_preview'', JStr (take (limit - 500) serialized)), (''observation_truncated'', JBool True),
         (''original_characters'', JInt (int (length serialized)))])"

definition deferred_note :: "jdict \<Rightarrow> string res" where
  "deferred_note d = res_bind (py_int (or_value (get_or d ''additional_tool_calls'' JNull) (JInt 0))) (\<lambda>n.
     Inr (if n \<noteq> 0 then '' Only the first requested tool was executed; request each remaining tool one at a time.'' else []))"

definition params_dict :: "jval \<Rightarrow> jdict" where
  "params_dict v = (case v of JDict d \<Rightarrow> d | _ \<Rightarrow> [])"

definition note_result :: "'e loop_env \<Rightarrow> string \<Rightarrow> jval \<Rightarrow> string \<Rightarrow> jdict \<Rightarrow> ('e, unit) loop_act" where
  "note_result E tool params thought ob =
     lp_bind (lp_modify (\<lambda>s. s\<lparr>lp_last := Some ob\<rparr>)) (\<lambda>_.
     lp_bind (lp_gets lp_state) (\<lambda>st.
     lp_bind (if st = None then lp_return ()
       else lp_bind (lp_res (read_observation E ob)) (\<lambda>oi. lp_update_state (record_observation tool oi))) (\<lambda>_.
     lp_bind (save_checkpoint E) (\<lambda>_.
     lp_bind (emit (ResultEvent tool ob)) (\<lambda>_.
       lp_modify (\<lambda>s. s\<lparr>lp_steps := lp_steps s
         @ [\<lparr>lc_tool = tool, lc_params = params, lc_thought = thought, lc_observation = ob\<rparr>]\<rparr>))))))"

definition call_tool :: "'e loop_env \<Rightarrow> string \<Rightarrow> jdict \<Rightarrow> string \<Rightarrow> string \<Rightarrow> ('e, unit) loop_act" where
  "call_tool E raw d thought tool =
     (let params = or_value (get_or d ''params'' JNull) (JDict []) in
      lp_bind (lp_res (if tool \<in> fst ` set (le_tools E) then validate_tool_params (tool_schema E tool) params else Inr [])) (\<lambda>problem.
      lp_bind (lp_update_state (record_action tool (params_dict params) thought)) (\<lambda>_.
      lp_bind (save_checkpoint E) (\<lambda>_.
      lp_bind (emit (CallEvent tool params)) (\<lambda>_.
      lp_bind (observe E tool params problem) (\<lambda>ob.
      lp_bind (note_result E tool params thought ob) (\<lambda>_.
        if le_stop_on_failure E \<and> map_of ob ''success'' \<noteq> Some (JBool True) then
          lp_bind (lp_update_state (mark_task TaskBlocked)) (\<lambda>_.
          lp_bind (save_checkpoint E) (\<lambda>_.
            lp_halt E (JStr ''governed stage action did not complete; review required'') None ''action_failed'' []))
        else
          lp_bind (lp_say [le_assistant E raw]) (\<lambda>_.
          lp_bind (lp_res (deferred_note d)) (\<lambda>note.
            lp_say [Message ''user'' (''Observation from '' @ tool @ '': ''
              @ observation_message E tool (params_dict params) ob @ note)])))))))))"

text \<open>
  A tool that is no text: a list or a dictionary is not hashable; a number is no declared tool, and
  the record of an action refuses it, so that only a loop without a state goes on with it, as with
  an unknown tool of that text.
\<close>

definition odd_tool :: "'e loop_env \<Rightarrow> string \<Rightarrow> jdict \<Rightarrow> string \<Rightarrow> jval \<Rightarrow> ('e, unit) loop_act" where
  "odd_tool E raw d thought tool =
     lp_bind (lp_gets lp_state) (\<lambda>st.
       if hashable tool \<and> st = None then call_tool (E\<lparr>le_tools := []\<rparr>) raw d thought (py_str (le_str E) tool) else lp_raise)"

definition loop_turn :: "'e loop_env \<Rightarrow> ('e, unit) loop_act" where
  "loop_turn E =
     lp_bind (ask_model E) (\<lambda>raw.
     let d = parse_llm_response (le_loads E) raw; thought = decision_thought E d; tool = get_or d ''tool'' JNull in
     if \<not> truthy tool then finish_turn E raw d thought
     else (case tool of JStr name \<Rightarrow> call_tool E raw d thought name | _ \<Rightarrow> odd_tool E raw d thought tool))"

subsection \<open>The run\<close>

fun rounds :: "'e loop_env \<Rightarrow> nat \<Rightarrow> ('e, unit) loop_act" where
  "rounds E 0 =
     lp_bind (lp_gets lp_state) (\<lambda>st.
     lp_bind (if le_stop_on_failure E \<and> st \<noteq> None then
         lp_bind (lp_update_state (mark_task TaskBlocked)) (\<lambda>_. save_checkpoint E)
       else lp_return ()) (\<lambda>_.
       lp_halt E (JStr ''step budget exhausted'') None ''budget'' []))"
| "rounds E (Suc n) = lp_bind (loop_turn E) (\<lambda>_. rounds E n)"

definition start_loop :: "'e loop_env \<Rightarrow> string \<Rightarrow> 'e task_state option \<Rightarrow> 'e loop" where
  "start_loop E goal st = \<lparr>lp_messages = [Message ''system'' (le_prompt E), Message ''user'' (''Goal: '' @ goal)],
     lp_steps = [], lp_last = None, lp_state = st, lp_replans = 0, lp_trace = []\<rparr>"

definition run_loop :: "'e loop_env \<Rightarrow> string \<Rightarrow> 'e task_state option \<Rightarrow> 'e loop \<times> (loop_stop + unit)" where
  "run_loop E goal st =
     lp_bind (save_checkpoint E) (\<lambda>_. rounds E (nat (max 1 (le_max_steps E)))) (start_loop E goal st)"

end
