(* ===== verification/LoopProps.thy ===== *)
theory LoopProps
  imports AgentLoop
begin

text \<open>
  What the tool-use loop guarantees: weakest preconditions of its actions, the frame of the actions
  that call no tool, and the properties of a whole run (which tools run and with what parameters,
  where it stops, what a final answer means, and what becomes of the task state).
\<close>

section \<open>Weakest preconditions\<close>

definition lp_wp :: "('e, 'a) loop_act \<Rightarrow> ('a \<Rightarrow> 'e loop \<Rightarrow> bool) \<Rightarrow> (loop_stop \<Rightarrow> 'e loop \<Rightarrow> bool) \<Rightarrow> 'e loop \<Rightarrow> bool" where
  "lp_wp m Q R s = (case m s of (s', Inl e) \<Rightarrow> R e s' | (s', Inr x) \<Rightarrow> Q x s')"

named_theorems wp_simps \<open>weakest preconditions of the basic actions\<close>

lemma wp_bind [wp_simps]: "lp_wp (lp_bind m f) Q R = lp_wp m (\<lambda>x. lp_wp (f x) Q R) R"
  by (auto simp: fun_eq_iff lp_wp_def lp_bind_def split: prod.splits sum.splits)

lemma wp_return [wp_simps]: "lp_wp (lp_return x) Q R = Q x"
  by (simp add: fun_eq_iff lp_wp_def lp_return_def)

lemma wp_raise [wp_simps]: "lp_wp lp_raise Q R = R Raised"
  by (simp add: fun_eq_iff lp_wp_def lp_raise_def)

lemma wp_modify [wp_simps]: "lp_wp (lp_modify f) Q R = (\<lambda>s. Q () (f s))"
  by (simp add: fun_eq_iff lp_wp_def lp_modify_def)

lemma wp_gets [wp_simps]: "lp_wp (lp_gets f) Q R = (\<lambda>s. Q (f s) s)"
  by (simp add: fun_eq_iff lp_wp_def lp_gets_def)

lemma wp_res [wp_simps]: "lp_wp (lp_res r) Q R = (case r of Inl e \<Rightarrow> R Raised | Inr x \<Rightarrow> Q x)"
  by (auto simp: fun_eq_iff lp_wp_def lp_res_def split: sum.splits)

lemma wp_record [wp_simps]: "lp_wp (lp_record e) Q R = (\<lambda>s. Q () (s\<lparr>lp_trace := lp_trace s @ [e]\<rparr>))"
  by (simp add: lp_record_def wp_modify)

lemma wp_update_state [wp_simps]:
  "lp_wp (lp_update_state f) Q R = (\<lambda>s. Q () (s\<lparr>lp_state := map_option f (lp_state s)\<rparr>))"
  by (simp add: lp_update_state_def wp_modify)

lemma wp_say [wp_simps]: "lp_wp (lp_say ms) Q R = (\<lambda>s. Q () (s\<lparr>lp_messages := lp_messages s @ ms\<rparr>))"
  by (simp add: lp_say_def wp_modify)

lemma wp_emit [wp_simps]: "lp_wp (emit ev) Q R = (\<lambda>s. Q () (s\<lparr>lp_trace := lp_trace s @ [Emitted ev]\<rparr>))"
  by (simp add: emit_def wp_record)

lemma wp_halt [wp_simps]:
  "lp_wp (lp_halt E final thought stopped failed) Q R =
     (\<lambda>s. R (Halted \<lparr>lr_final = final, lr_thought = thought, lr_steps = lp_steps s, lr_stopped = stopped, lr_failed = failed,
        lr_summary = state_summary E s\<rparr>) s)"
  by (simp add: fun_eq_iff lp_wp_def lp_halt_def)

lemma wp_save [wp_simps]:
  "lp_wp (save_checkpoint E) Q R = (\<lambda>s. case (lp_state s, le_checkpoint E) of
     (Some t, Some cp) \<Rightarrow>
       if cp (times is_saved s) t then Q () (s\<lparr>lp_trace := lp_trace s @ [Saved t]\<rparr>)
       else R Raised (s\<lparr>lp_trace := lp_trace s @ [Saved t]\<rparr>)
   | _ \<Rightarrow> Q () s)"
  by (auto simp: fun_eq_iff save_checkpoint_def wp_bind wp_gets wp_record wp_return wp_raise split: option.splits)

lemma wp_mono:
  "lp_wp m Q R s \<Longrightarrow> (\<And>x s'. Q x s' \<Longrightarrow> Q' x s') \<Longrightarrow> (\<And>e s'. R e s' \<Longrightarrow> R' e s') \<Longrightarrow> lp_wp m Q' R' s"
  by (auto simp: lp_wp_def split: prod.splits sum.splits)

text \<open>An action with a relation between the states before and after, however it ends.\<close>

definition relates :: "('e loop \<Rightarrow> 'e loop \<Rightarrow> bool) \<Rightarrow> ('e, 'a) loop_act \<Rightarrow> bool" where
  "relates T m \<longleftrightarrow> (\<forall>s. T s (fst (m s)))"

text \<open>
  The contract of a frame relation: it is reflexive and transitive, and it allows what an action does
  that calls no tool. Every such action then relates its states.
\<close>

locale loop_frame =
  fixes T :: "'e loop \<Rightarrow> 'e loop \<Rightarrow> bool"
  assumes frame_private: "lp_trace s' = lp_trace s \<Longrightarrow> lp_state s' = lp_state s \<Longrightarrow> T s s'"
    and frame_trans: "T s t \<Longrightarrow> T t u \<Longrightarrow> T s u"
    and frame_record: "\<not> is_invoked e \<Longrightarrow> T s (s\<lparr>lp_trace := lp_trace s @ [e]\<rparr>)"
    and frame_state: "(\<And>t. task_step t (f t)) \<Longrightarrow> T s (s\<lparr>lp_state := map_option f (lp_state s)\<rparr>)"
begin

lemma fr_bind:
  assumes "relates T m" and "\<And>x. relates T (f x)"
  shows "relates T (lp_bind m f)"
  unfolding relates_def lp_bind_def
proof
  fix s
  have m: "T s (fst (m s))" using assms(1) by (simp add: relates_def)
  show "T s (fst (case m s of (s', Inl e) \<Rightarrow> (s', Inl e) | (s', Inr x) \<Rightarrow> f x s'))"
  proof (cases "m s")
    case (Pair s' r)
    with m have "T s s'" by simp
    moreover have "T s' (fst (f x s'))" for x using assms(2) by (simp add: relates_def)
    ultimately show ?thesis using Pair frame_trans by (cases r) auto
  qed
qed

lemma fr_refl: "T s s"
  by (rule frame_private) simp_all

lemma fr_pure: "relates T (lp_return x)" "relates T lp_raise" "relates T (lp_gets g)" "relates T (lp_res r)"
    "relates T (lp_halt E a b c d)"
  by (auto simp: relates_def lp_return_def lp_raise_def lp_gets_def lp_res_def lp_halt_def fr_refl split: sum.splits)

lemma fr_private: "(\<And>s. lp_trace (f s) = lp_trace s \<and> lp_state (f s) = lp_state s) \<Longrightarrow> relates T (lp_modify f)"
  by (simp add: relates_def lp_modify_def frame_private)

lemma fr_say: "relates T (lp_say ms)"
  unfolding lp_say_def by (rule fr_private) simp

lemma fr_record: "\<not> is_invoked e \<Longrightarrow> relates T (lp_record e)"
  by (simp add: relates_def lp_record_def lp_modify_def frame_record)

lemma fr_emitted: "relates T (emit ev)"
  unfolding emit_def by (rule fr_record) simp

lemma fr_state: "(\<And>t. task_step t (f t)) \<Longrightarrow> relates T (lp_update_state f)"
  by (simp add: relates_def lp_update_state_def lp_modify_def frame_state)

lemma fr_marked: "relates T (lp_update_state (mark_task st))"
  by (rule fr_state) (rule task_step.marked)

lemma fr_saved: "relates T (save_checkpoint E)"
  unfolding save_checkpoint_def by (auto intro!: fr_bind fr_pure fr_record split: option.splits)

lemma fr_asked: "relates T (ask_model E)"
  unfolding ask_model_def by (auto intro!: fr_bind fr_pure fr_record fr_private split: reply.splits)

lemma fr_verified: "relates T (verify_completion E v t)"
  unfolding verify_completion_def review_def Let_def by (auto intro!: fr_bind fr_pure fr_record split: reply.splits)

lemma fr_accepted: "relates T (accept E d thought)"
  unfolding accept_def by (intro fr_bind fr_pure fr_emitted fr_saved fr_marked)

lemma fr_rejected: "relates T (reject E raw thought v)"
  unfolding reject_def Let_def by (auto intro!: fr_bind fr_pure fr_emitted fr_saved fr_marked fr_say fr_private)

lemma fr_finished: "relates T (finish_turn E raw d thought)"
  unfolding finish_turn_def by (auto intro!: fr_bind fr_pure fr_verified fr_accepted fr_rejected split: option.splits)

lemma fr_result: "relates T (note_result E tool params thought ob)"
  unfolding note_result_def
  by (auto intro!: fr_bind fr_pure fr_saved fr_emitted fr_private fr_state task_step.observation)

lemma fr_noted: "relates T (lp_update_state (record_action tool params thought))"
  by (rule fr_state) (rule task_step.action)

end

text \<open>A frame that allows the call of a tool holds for whole turns and runs.\<close>

locale calling_frame = loop_frame +
  assumes frame_invoke: "T s (s\<lparr>lp_trace := lp_trace s @ [Invoked tool ps]\<rparr>)"
begin

lemma fr_invoked: "relates T (lp_record (Invoked tool ps))"
  by (simp add: relates_def lp_record_def lp_modify_def frame_invoke)

lemma fr_observed: "relates T (observe E tool params problem)"
  unfolding observe_def by (auto intro!: fr_bind fr_pure fr_invoked split: jval.splits option.splits)

lemma fr_called: "relates T (call_tool E raw d thought tool)"
  unfolding call_tool_def Let_def
  by (auto intro!: fr_bind fr_pure fr_noted fr_saved fr_emitted fr_observed fr_result fr_marked fr_say)

lemma fr_turned: "relates T (loop_turn E)"
  unfolding loop_turn_def Let_def odd_tool_def
  by (auto intro!: fr_bind fr_pure fr_asked fr_finished fr_called split: jval.splits)

lemma fr_run: "relates T (rounds E n)"
  by (induction n) (auto intro!: fr_bind fr_pure fr_turned fr_marked fr_saved)

end

section \<open>Two frames of the loop\<close>

definition calls_nothing :: "'e loop \<Rightarrow> 'e loop \<Rightarrow> bool" where
  "calls_nothing s s' \<longleftrightarrow> (\<exists>ys. lp_trace s' = lp_trace s @ ys \<and> \<not> list_ex is_invoked ys) \<and> (lp_state s' = None \<longleftrightarrow> lp_state s = None)"

interpretation quiet: loop_frame calls_nothing
  by unfold_locales (auto simp: calls_nothing_def)

definition extends_history :: "'e loop \<Rightarrow> 'e loop \<Rightarrow> bool" where
  "extends_history s s' \<longleftrightarrow>
     (\<exists>ys. lp_trace s' = lp_trace s @ ys) \<and> rel_option task_step\<^sup>*\<^sup>* (lp_state s) (lp_state s')"

lemma rel_option_star_trans:
  "rel_option task_step\<^sup>*\<^sup>* a b \<Longrightarrow> rel_option task_step\<^sup>*\<^sup>* b c \<Longrightarrow> rel_option task_step\<^sup>*\<^sup>* a c"
  by (cases a; cases b; cases c) auto

lemma rel_option_star_refl: "rel_option task_step\<^sup>*\<^sup>* a a"
  by (cases a) auto

interpretation history: calling_frame extends_history
proof unfold_locales
  show "extends_history s t \<Longrightarrow> extends_history t u \<Longrightarrow> extends_history s u" for s t u :: "'e loop"
    unfolding extends_history_def by (metis append.assoc rel_option_star_trans)
  show "(\<And>t. task_step t (f t)) \<Longrightarrow> extends_history s (s\<lparr>lp_state := map_option f (lp_state s)\<rparr>)" for f and s :: "'e loop"
    by (cases "lp_state s") (auto simp: extends_history_def)
qed (auto simp: extends_history_def rel_option_star_refl)

lemma relatesD: "relates T m \<Longrightarrow> T s (fst (m s))"
  by (simp add: relates_def)

lemma wp_frame:
  "relates T m \<Longrightarrow> (\<And>x s'. T s s' \<Longrightarrow> Q x s') \<Longrightarrow> (\<And>e s'. T s s' \<Longrightarrow> R e s') \<Longrightarrow> lp_wp m Q R s"
  using relatesD [of T m s] by (auto simp: lp_wp_def split: prod.splits sum.splits)

section \<open>The shape of a turn\<close>

definition declared_call :: "'e loop_env \<Rightarrow> string \<Rightarrow> jdict \<Rightarrow> bool" where
  "declared_call E tool ps \<longleftrightarrow>
     tool \<in> fst ` set (le_tools E) \<and> validate_tool_params (tool_schema E tool) (JDict ps) = Inr []"

text \<open>The trace ends with a checkpoint of a state whose last action is the call that is about to start.\<close>

definition logged_ahead :: "'e loop_effect list \<Rightarrow> string \<Rightarrow> jdict \<Rightarrow> bool" where
  "logged_ahead tr tool ps \<longleftrightarrow> (\<exists>pre t. tr = pre @ [Saved t, Emitted (CallEvent tool (JDict ps))]
     \<and> ts_actions t \<noteq> [] \<and> ac_tool (last (ts_actions t)) = tool \<and> ac_params (last (ts_actions t)) = ps)"

definition succeeds :: "'e loop_env \<Rightarrow> nat \<Rightarrow> string \<Rightarrow> jdict \<Rightarrow> bool" where
  "succeeds E n tool ps \<longleftrightarrow> (\<exists>ob. le_invoke E n tool ps = Some ob \<and> map_of ob ''success'' = Some (JBool True))"

definition calls_once :: "'e loop_env \<Rightarrow> 'e loop \<Rightarrow> bool \<Rightarrow> 'e loop \<Rightarrow> bool" where
  "calls_once E s on s' \<longleftrightarrow> (lp_state s' = None \<longleftrightarrow> lp_state s = None) \<and>
     (\<exists>tool ps pre post. lp_trace s' = lp_trace s @ pre @ Invoked tool ps # post
        \<and> \<not> list_ex is_invoked pre \<and> \<not> list_ex is_invoked post \<and> declared_call E tool ps
        \<and> (lp_state s \<noteq> None \<longrightarrow> le_checkpoint E \<noteq> None \<longrightarrow> logged_ahead (lp_trace s @ pre) tool ps)
        \<and> (on \<longrightarrow> le_stop_on_failure E \<longrightarrow> succeeds E (times is_invoked s) tool ps))"

definition turn_shape :: "'e loop_env \<Rightarrow> 'e loop \<Rightarrow> bool \<Rightarrow> 'e loop \<Rightarrow> bool" where
  "turn_shape E s on s' \<longleftrightarrow> calls_nothing s s' \<or> calls_once E s on s'"

lemma calls_once_then: "calls_once E s on s' \<Longrightarrow> calls_nothing s' s'' \<Longrightarrow> calls_once E s on s''"
  unfolding calls_once_def calls_nothing_def by fastforce

lemma calls_once_shape: "calls_once E s on s1 \<Longrightarrow> calls_nothing s1 s' \<Longrightarrow> turn_shape E s on s'"
  unfolding turn_shape_def by (rule disjI2) (rule calls_once_then)

lemma times_append: "times P (s\<lparr>lp_trace := lp_trace s @ ys\<rparr>) = times P s + length (filter P ys)"
  by (simp add: times_def)

text \<open>What comes after the call of a tool, when the loop goes on only after a success.\<close>

lemma after_call:
  assumes "\<And>on. (on \<longrightarrow> le_stop_on_failure E \<longrightarrow> map_of ob ''success'' = Some (JBool True)) \<Longrightarrow> calls_once E s on s1"
  shows "lp_wp (lp_bind (note_result E tool params thought ob) (\<lambda>_.
      if le_stop_on_failure E \<and> map_of ob ''success'' \<noteq> Some (JBool True) then
        lp_bind (lp_update_state (mark_task TaskBlocked)) (\<lambda>_.
        lp_bind (save_checkpoint E) (\<lambda>_. lp_halt E final None stopped []))
      else lp_bind (lp_say ms) (\<lambda>_. lp_bind (lp_res note) (\<lambda>n. lp_say (texts n)))))
    (\<lambda>x s'. turn_shape E s True s') (\<lambda>e s'. turn_shape E s False s') s1"
proof (cases "le_stop_on_failure E \<and> map_of ob ''success'' \<noteq> Some (JBool True)")
  case True
  have "calls_once E s False s1" by (rule assms) simp
  then have "turn_shape E s False s'" if "calls_nothing s1 s'" for s' using that by (rule calls_once_shape)
  moreover have "relates calls_nothing (lp_bind (note_result E tool params thought ob)
      (\<lambda>_. lp_bind (lp_update_state (mark_task TaskBlocked)) (\<lambda>_. save_checkpoint E)))"
    by (intro quiet.fr_bind quiet.fr_result quiet.fr_marked quiet.fr_saved)
  ultimately have "lp_wp (lp_bind (note_result E tool params thought ob)
      (\<lambda>_. lp_bind (lp_update_state (mark_task TaskBlocked)) (\<lambda>_. save_checkpoint E)))
      (\<lambda>x s'. turn_shape E s False s') (\<lambda>e s'. turn_shape E s False s') s1"
    by (blast intro: wp_frame)
  with True show ?thesis by (simp add: wp_simps)
next
  case False
  have once: "calls_once E s on s1" for on by (rule assms) (use False in simp)
  have "turn_shape E s on s'" if "calls_nothing s1 s'" for on s' by (rule calls_once_shape [OF once that])
  moreover have "relates calls_nothing (lp_bind (note_result E tool params thought ob)
      (\<lambda>_. lp_bind (lp_say ms) (\<lambda>_. lp_bind (lp_res note) (\<lambda>n. lp_say (texts n)))))"
    by (intro quiet.fr_bind quiet.fr_result quiet.fr_say quiet.fr_pure)
  ultimately have "lp_wp (lp_bind (note_result E tool params thought ob)
      (\<lambda>_. lp_bind (lp_say ms) (\<lambda>_. lp_bind (lp_res note) (\<lambda>n. lp_say (texts n)))))
      (\<lambda>x s'. turn_shape E s True s') (\<lambda>e s'. turn_shape E s False s') s1"
    by (blast intro: wp_frame)
  then show ?thesis by (simp only: False if_False)
qed

lemma before_call:
  "lp_wp (lp_bind (lp_update_state (record_action tool (params_dict params) thought)) (\<lambda>_.
     lp_bind (save_checkpoint E) (\<lambda>_. emit (CallEvent tool params))))
   (\<lambda>_ s1. calls_nothing s s1 \<and> (\<forall>ps. params = JDict ps \<longrightarrow> lp_state s \<noteq> None \<longrightarrow> le_checkpoint E \<noteq> None
     \<longrightarrow> logged_ahead (lp_trace s1) tool ps))
   (\<lambda>_ s1. calls_nothing s s1) s"
  by (cases "lp_state s")
     (auto simp: wp_simps calls_nothing_def logged_ahead_def params_dict_def record_action_def
       split: option.splits)

lemma calls_once_now:
  assumes "calls_nothing s s1" and "declared_call E tool ps"
    and "lp_state s \<noteq> None \<longrightarrow> le_checkpoint E \<noteq> None \<longrightarrow> logged_ahead (lp_trace s1) tool ps"
    and "on \<longrightarrow> le_stop_on_failure E \<longrightarrow> succeeds E (times is_invoked s1) tool ps"
  shows "calls_once E s on (s1\<lparr>lp_trace := lp_trace s1 @ [Invoked tool ps]\<rparr>)"
proof -
  obtain ys where ys: "lp_trace s1 = lp_trace s @ ys" "\<not> list_ex is_invoked ys"
    using assms(1) by (auto simp: calls_nothing_def)
  then have "filter is_invoked ys = []" by (simp add: filter_empty_conv list_ex_iff)
  with ys have "times is_invoked s1 = times is_invoked s" by (simp add: times_def)
  with ys assms show ?thesis
    unfolding calls_once_def
    by (intro conjI exI [of _ tool] exI [of _ ps] exI [of _ ys] exI [of _ "[]"]) (auto simp: calls_nothing_def)
qed

text \<open>A call of a tool starts at most one declared call, written ahead to the checkpoint.\<close>

lemma call_tool_shape:
  "lp_wp (call_tool E raw d thought tool) (\<lambda>x s'. turn_shape E s True s') (\<lambda>e s'. turn_shape E s False s') s"
proof -
  define params where "params = or_value (get_or d ''params'' JNull) (JDict [])"
  define check where
    "check = (if tool \<in> fst ` set (le_tools E) then validate_tool_params (tool_schema E tool) params else Inr [])"
  define rest where "rest ob = lp_bind (note_result E tool params thought ob) (\<lambda>_.
      if le_stop_on_failure E \<and> map_of ob ''success'' \<noteq> Some (JBool True) then
        lp_bind (lp_update_state (mark_task TaskBlocked)) (\<lambda>_.
        lp_bind (save_checkpoint E) (\<lambda>_.
          lp_halt E (JStr ''governed stage action did not complete; review required'') None ''action_failed'' []))
      else lp_bind (lp_say [le_assistant E raw]) (\<lambda>_. lp_bind (lp_res (deferred_note d)) (\<lambda>note.
        lp_say [Message ''user'' (''Observation from '' @ tool @ '': ''
          @ observation_message E tool (params_dict params) ob @ note)])))" for ob
  have unfold: "call_tool E raw d thought tool = lp_bind (lp_res check) (\<lambda>problem.
      lp_bind (lp_update_state (record_action tool (params_dict params) thought)) (\<lambda>_.
      lp_bind (save_checkpoint E) (\<lambda>_. lp_bind (emit (CallEvent tool params)) (\<lambda>_.
      lp_bind (observe E tool params problem) rest))))"
    unfolding call_tool_def Let_def params_def check_def rest_def [abs_def] by (rule refl)
  have quiet_rest: "relates calls_nothing (rest ob)" for ob
    unfolding rest_def
    by (auto intro!: quiet.fr_bind quiet.fr_result quiet.fr_say quiet.fr_pure quiet.fr_marked quiet.fr_saved)
  have "lp_wp (lp_bind (observe E tool params problem) rest) (\<lambda>x s'. turn_shape E s True s')
      (\<lambda>e s'. turn_shape E s False s') s1"
    if c: "check = Inr problem" and n: "calls_nothing s s1"
      and l: "\<forall>ps. params = JDict ps \<longrightarrow> lp_state s \<noteq> None \<longrightarrow> le_checkpoint E \<noteq> None \<longrightarrow> logged_ahead (lp_trace s1) tool ps"
    for problem s1
  proof -
    have fail: "lp_wp (rest ob) (\<lambda>x s'. turn_shape E s True s') (\<lambda>e s'. turn_shape E s False s') s1" for ob
      by (rule wp_frame [OF quiet_rest]) (auto simp: turn_shape_def intro: quiet.frame_trans [OF n])
    have run: "lp_wp (rest ob) (\<lambda>x s'. turn_shape E s True s') (\<lambda>e s'. turn_shape E s False s')
        (s1\<lparr>lp_trace := lp_trace s1 @ [Invoked tool ps]\<rparr>)"
      if "params = JDict ps" "declared_call E tool ps" "le_invoke E (times is_invoked s1) tool ps = Some ob" for ps ob
      unfolding rest_def
      by (rule after_call, rule calls_once_now) (use that n l in \<open>auto simp: succeeds_def\<close>)
    have raise: "turn_shape E s False (s1\<lparr>lp_trace := lp_trace s1 @ [Invoked tool ps]\<rparr>)"
      if "params = JDict ps" "declared_call E tool ps" for ps
      unfolding turn_shape_def by (rule disjI2, rule calls_once_now) (use that n l in auto)
    show ?thesis
      using c fail run raise n
      by (auto simp: observe_def wp_simps turn_shape_def declared_call_def check_def
        split: jval.splits option.splits if_splits)
  qed
  note rest_ok = this
  show ?thesis
  proof (cases check)
    case (Inl e)
    then show ?thesis by (simp add: unfold wp_simps turn_shape_def quiet.fr_refl)
  next
    case (Inr problem)
    have "lp_wp (lp_bind (lp_update_state (record_action tool (params_dict params) thought)) (\<lambda>_.
        lp_bind (save_checkpoint E) (\<lambda>_. emit (CallEvent tool params))))
      (\<lambda>_ s1. lp_wp (lp_bind (observe E tool params problem) rest) (\<lambda>x s'. turn_shape E s True s')
        (\<lambda>e s'. turn_shape E s False s') s1) (\<lambda>e s'. turn_shape E s False s') s"
      by (rule wp_mono [OF before_call]) (use rest_ok [OF Inr] in \<open>auto simp: turn_shape_def\<close>)
    then show ?thesis by (simp add: unfold Inr wp_bind wp_res)
  qed
qed

lemma quiet_times: "calls_nothing s s1 \<Longrightarrow> times is_invoked s1 = times is_invoked s"
  by (auto simp: calls_nothing_def times_def filter_empty_conv list_ex_iff)

lemma quiet_shape: "calls_nothing s s1 \<Longrightarrow> turn_shape E s1 on s' \<Longrightarrow> turn_shape E s on s'"
proof -
  assume q: "calls_nothing s s1" and "turn_shape E s1 on s'"
  then consider "calls_nothing s1 s'" | "calls_once E s1 on s'" by (auto simp: turn_shape_def)
  then show "turn_shape E s on s'"
  proof cases
    case 1
    then show ?thesis unfolding turn_shape_def using quiet.frame_trans [OF q] by blast
  next
    case 2
    then obtain tool ps pre post where c: "lp_trace s' = lp_trace s1 @ pre @ Invoked tool ps # post"
        "\<not> list_ex is_invoked pre" "\<not> list_ex is_invoked post" "declared_call E tool ps"
        "lp_state s1 \<noteq> None \<longrightarrow> le_checkpoint E \<noteq> None \<longrightarrow> logged_ahead (lp_trace s1 @ pre) tool ps"
        "on \<longrightarrow> le_stop_on_failure E \<longrightarrow> succeeds E (times is_invoked s1) tool ps"
        "lp_state s' = None \<longleftrightarrow> lp_state s1 = None"
      by (auto simp: calls_once_def)
    obtain ys where "lp_trace s1 = lp_trace s @ ys" "\<not> list_ex is_invoked ys" and "lp_state s1 = None \<longleftrightarrow> lp_state s = None"
      using q by (auto simp: calls_nothing_def)
    with c quiet_times [OF q] have "calls_once E s on s'"
      unfolding calls_once_def
      by (intro conjI exI [of _ tool] exI [of _ ps] exI [of _ "ys @ pre"] exI [of _ post]) auto
    then show ?thesis by (simp add: turn_shape_def)
  qed
qed

lemma undeclared_shape: "turn_shape (E\<lparr>le_tools := []\<rparr>) s on s' \<Longrightarrow> turn_shape E s on' s'"
  by (auto simp: turn_shape_def calls_once_def declared_call_def)

lemma turn_once:
  "lp_wp (loop_turn E) (\<lambda>x s'. turn_shape E s True s') (\<lambda>e s'. turn_shape E s False s') s"
proof -
  have quiet: "turn_shape E s on s'" if "calls_nothing s s'" for on s' using that by (simp add: turn_shape_def)
  have then_call: "lp_wp (call_tool E raw d thought tool) (\<lambda>x s'. turn_shape E s True s') (\<lambda>e s'. turn_shape E s False s') s1"
    if "calls_nothing s s1" for raw d thought tool s1
    by (rule wp_mono [OF call_tool_shape]) (use quiet_shape [OF that] in blast)+
  have then_odd: "lp_wp (call_tool (E\<lparr>le_tools := []\<rparr>) raw d thought tool) (\<lambda>x s'. turn_shape E s True s')
      (\<lambda>e s'. turn_shape E s False s') s1" if "calls_nothing s s1" for raw d thought tool s1
    by (rule wp_mono [OF call_tool_shape]) (use quiet_shape [OF that] undeclared_shape in blast)+
  have then_finish: "lp_wp (finish_turn E raw d thought) (\<lambda>x s'. turn_shape E s True s') (\<lambda>e s'. turn_shape E s False s') s1"
    if "calls_nothing s s1" for raw d thought s1
    by (rule wp_frame [OF quiet.fr_finished]) (use quiet quiet.frame_trans [OF that] in blast)+
  have "lp_wp (ask_model E) (\<lambda>raw. lp_wp (let d = parse_llm_response (le_loads E) raw; thought = decision_thought E d;
        tool = get_or d ''tool'' JNull in
      if \<not> truthy tool then finish_turn E raw d thought
      else (case tool of JStr name \<Rightarrow> call_tool E raw d thought name | _ \<Rightarrow> odd_tool E raw d thought tool))
    (\<lambda>x s'. turn_shape E s True s') (\<lambda>e s'. turn_shape E s False s')) (\<lambda>e s'. turn_shape E s False s') s"
    by (rule wp_frame [OF quiet.fr_asked])
       (auto simp: Let_def odd_tool_def wp_simps quiet then_call then_odd then_finish split: jval.splits)
  then show ?thesis unfolding loop_turn_def by (simp only: wp_bind)
qed

section \<open>The trace of a run\<close>

text \<open>Every call in a trace is declared, valid and written ahead; \<open>c\<close>: there is a state and a checkpoint.\<close>

definition calls_ok :: "'e loop_env \<Rightarrow> bool \<Rightarrow> 'e loop_effect list \<Rightarrow> bool" where
  "calls_ok E c tr \<longleftrightarrow> (\<forall>xs tool ps ys. tr = xs @ Invoked tool ps # ys
     \<longrightarrow> declared_call E tool ps \<and> (c \<longrightarrow> logged_ahead xs tool ps))"

text \<open>Every call in a trace succeeded, or, if not \<open>all\<close>, every call with a later one.\<close>

definition calls_succeed :: "'e loop_env \<Rightarrow> bool \<Rightarrow> 'e loop_effect list \<Rightarrow> bool" where
  "calls_succeed E all tr \<longleftrightarrow> (\<forall>xs tool ps ys. tr = xs @ Invoked tool ps # ys
     \<longrightarrow> all \<or> list_ex is_invoked ys \<longrightarrow> succeeds E (length (filter is_invoked xs)) tool ps)"

lemma split_quiet:
  assumes "\<not> list_ex is_invoked ys"
  shows "tr @ ys = xs @ Invoked tool ps # zs \<longleftrightarrow> (\<exists>us. zs = us @ ys \<and> tr = xs @ Invoked tool ps # us)"
proof
  assume eq: "tr @ ys = xs @ Invoked tool ps # zs"
  then consider us where "tr = xs @ us" "us @ ys = Invoked tool ps # zs"
    | us where "xs = tr @ us" "ys = us @ Invoked tool ps # zs"
    by (auto simp: append_eq_append_conv2)
  then show "\<exists>us. zs = us @ ys \<and> tr = xs @ Invoked tool ps # us"
  proof cases
    case 1
    then show ?thesis using assms by (cases us) auto
  next
    case 2
    then show ?thesis using assms by simp
  qed
qed auto

lemma calls_ok_quiet: "\<not> list_ex is_invoked ys \<Longrightarrow> calls_ok E c tr \<Longrightarrow> calls_ok E c (tr @ ys)"
  unfolding calls_ok_def by (auto simp: split_quiet)

lemma calls_succeed_quiet: "\<not> list_ex is_invoked ys \<Longrightarrow> calls_succeed E all tr \<Longrightarrow> calls_succeed E all (tr @ ys)"
  unfolding calls_succeed_def by (auto simp: split_quiet)

lemma split_last:
  "tr @ [x] = xs @ y # ys \<longleftrightarrow> (ys = [] \<and> xs = tr \<and> x = y) \<or> (\<exists>us. ys = us @ [x] \<and> tr = xs @ y # us)"
  by (cases ys rule: rev_cases) auto

lemma calls_ok_call:
  "calls_ok E c tr \<Longrightarrow> declared_call E tool ps \<Longrightarrow> (c \<Longrightarrow> logged_ahead tr tool ps) \<Longrightarrow> calls_ok E c (tr @ [Invoked tool ps])"
  unfolding calls_ok_def by (auto simp: split_last)

lemma calls_succeed_call:
  "calls_succeed E True tr \<Longrightarrow> (all \<Longrightarrow> succeeds E (length (filter is_invoked tr)) tool ps)
    \<Longrightarrow> calls_succeed E all (tr @ [Invoked tool ps])"
  unfolding calls_succeed_def by (auto simp: split_last)

lemma calls_succeed_weaken: "calls_succeed E True tr \<Longrightarrow> calls_succeed E all tr"
  unfolding calls_succeed_def by blast

definition run_inv :: "'e loop_env \<Rightarrow> bool \<Rightarrow> bool \<Rightarrow> nat \<Rightarrow> 'e loop \<Rightarrow> bool" where
  "run_inv E c all n s \<longleftrightarrow> calls_ok E c (lp_trace s) \<and> (le_stop_on_failure E \<longrightarrow> calls_succeed E all (lp_trace s))
     \<and> times is_invoked s \<le> n \<and> (c \<longrightarrow> lp_state s \<noteq> None \<and> le_checkpoint E \<noteq> None)"

lemma run_inv_weaken: "run_inv E c True n s \<Longrightarrow> n \<le> m \<Longrightarrow> run_inv E c all m s"
  unfolding run_inv_def using calls_succeed_weaken by auto

lemma run_inv_quiet:
  assumes "run_inv E c all n s" and "calls_nothing s s'"
  shows "run_inv E c all n s'"
proof -
  obtain ys where ys: "lp_trace s' = lp_trace s @ ys" "\<not> list_ex is_invoked ys" "lp_state s' = None \<longleftrightarrow> lp_state s = None"
    using assms(2) by (auto simp: calls_nothing_def)
  with assms show ?thesis
    unfolding run_inv_def by (simp add: calls_ok_quiet calls_succeed_quiet quiet_times)
qed

lemma run_inv_turn:
  assumes "turn_shape E s on s'" and inv: "run_inv E c True n s"
  shows "run_inv E c on (Suc n) s'"
proof -
  from assms(1) consider "calls_nothing s s'" | "calls_once E s on s'" by (auto simp: turn_shape_def)
  then show ?thesis
  proof cases
    case 1
    show ?thesis by (rule run_inv_quiet [OF run_inv_weaken [OF inv] 1]) simp
  next
    case 2
    then obtain tool ps pre post where c: "lp_trace s' = ((lp_trace s @ pre) @ [Invoked tool ps]) @ post"
        "\<not> list_ex is_invoked pre" "\<not> list_ex is_invoked post" "declared_call E tool ps"
        "lp_state s \<noteq> None \<longrightarrow> le_checkpoint E \<noteq> None \<longrightarrow> logged_ahead (lp_trace s @ pre) tool ps"
        "on \<longrightarrow> le_stop_on_failure E \<longrightarrow> succeeds E (times is_invoked s) tool ps"
        "lp_state s' = None \<longleftrightarrow> lp_state s = None"
      by (auto simp: calls_once_def)
    have none: "filter is_invoked pre = []" "filter is_invoked post = []"
      using c(2,3) by (auto simp: filter_empty_conv list_ex_iff)
    have ok: "calls_ok E c (lp_trace s)" and n: "times is_invoked s \<le> n"
      and cp: "c \<longrightarrow> lp_state s \<noteq> None \<and> le_checkpoint E \<noteq> None" using inv by (auto simp: run_inv_def)
    have "calls_ok E c (lp_trace s')"
      unfolding c(1) by (intro calls_ok_quiet [OF c(3)] calls_ok_call calls_ok_quiet [OF c(2)] ok c(4)) (use c(5) cp in blast)
    moreover have "calls_succeed E on (lp_trace s')" if stop: "le_stop_on_failure E"
    proof -
      have "calls_succeed E True (lp_trace s)" using inv stop by (simp add: run_inv_def)
      then show ?thesis
        unfolding c(1)
        by (intro calls_succeed_quiet [OF c(3)] calls_succeed_call calls_succeed_quiet [OF c(2)])
           (use c(6) stop none in \<open>auto simp: times_def\<close>)
    qed
    moreover have "times is_invoked s' \<le> Suc n" using n none by (simp add: times_def c(1))
    ultimately show ?thesis using cp c(7) by (auto simp: run_inv_def)
  qed
qed

lemma rounds_inv:
  "run_inv E c True k s \<Longrightarrow> lp_wp (rounds E n) (\<lambda>x s'. False) (\<lambda>e s'. run_inv E c False (k + n) s') s"
proof (induction n arbitrary: k s)
  case 0
  then have w: "run_inv E c False k s" by (rule run_inv_weaken) simp
  have "run_inv E c False k s'" if "calls_nothing s s'" for s' by (rule run_inv_quiet [OF w that])
  then show ?case
    by (auto simp: wp_simps calls_nothing_def split: option.splits)
next
  case (Suc n)
  have "lp_wp (loop_turn E) (\<lambda>x. lp_wp (rounds E n) (\<lambda>x s'. False) (\<lambda>e s'. run_inv E c False (k + Suc n) s'))
      (\<lambda>e s'. run_inv E c False (k + Suc n) s') s"
  proof (rule wp_mono [OF turn_once])
    fix s' assume "turn_shape E s True s'"
    from Suc.IH [OF run_inv_turn [OF this Suc.prems]]
    show "lp_wp (rounds E n) (\<lambda>x s'. False) (\<lambda>e s'. run_inv E c False (k + Suc n) s') s'" by simp
  next
    fix s' assume "turn_shape E s False s'"
    then have "run_inv E c False (Suc k) s'" by (rule run_inv_turn [OF _ Suc.prems])
    then show "run_inv E c False (k + Suc n) s'" unfolding run_inv_def by auto
  qed
  then show ?case by (simp add: wp_bind)
qed

lemma run_loop_wp: "run_loop E goal st = (s', r) \<Longrightarrow>
   lp_wp (save_checkpoint E) (\<lambda>_. lp_wp (rounds E (nat (max 1 (le_max_steps E)))) Q R) R (start_loop E goal st) \<Longrightarrow>
   (case r of Inl e \<Rightarrow> R e s' | Inr x \<Rightarrow> Q x s')"
  by (auto simp: run_loop_def lp_wp_def lp_bind_def split: prod.splits sum.splits)

text \<open>
  C15: Whatever the model replies, a run calls only declared tools with parameters that satisfy the
  tool's contract, at most once per step of the budget; each call was first written to the
  checkpoint as the last action of the state; and under stop-on-failure a tool is called only
  after every earlier call reported success.
\<close>
theorem loop_calls_governed:
  assumes "run_loop E goal st = (s', r)" and "lp_trace s' = xs @ Invoked tool ps # ys"
  shows "tool \<in> fst ` set (le_tools E) \<and> validate_tool_params (tool_schema E tool) (JDict ps) = Inr []
    \<and> (st \<noteq> None \<longrightarrow> le_checkpoint E \<noteq> None \<longrightarrow> logged_ahead xs tool ps)
    \<and> (le_stop_on_failure E \<longrightarrow> list_ex is_invoked ys \<longrightarrow> succeeds E (length (filter is_invoked xs)) tool ps)
    \<and> length (filter is_invoked (lp_trace s')) \<le> nat (max 1 (le_max_steps E))"
proof -
  let ?c = "st \<noteq> None \<and> le_checkpoint E \<noteq> None"
  let ?R = "\<lambda>e s'. run_inv E ?c False (nat (max 1 (le_max_steps E))) s'"
  have start: "run_inv E ?c True 0 (start_loop E goal st)"
    by (auto simp: run_inv_def start_loop_def calls_ok_def calls_succeed_def times_def)
  have go: "lp_wp (rounds E (nat (max 1 (le_max_steps E)))) (\<lambda>x s'. False) ?R s" if "run_inv E ?c True 0 s" for s
    using rounds_inv [OF that] by simp
  have "lp_wp (save_checkpoint E) (\<lambda>_. lp_wp (rounds E (nat (max 1 (le_max_steps E)))) (\<lambda>x s'. False) ?R) ?R
      (start_loop E goal st)"
    by (rule wp_frame [OF quiet.fr_saved])
       (use go run_inv_quiet [OF start] run_inv_weaken in blast)+
  from run_loop_wp [OF assms(1) this] have inv: "?R e s'" for e by (auto split: sum.splits)
  then show ?thesis
    using assms(2) unfolding run_inv_def calls_ok_def calls_succeed_def declared_call_def times_def by blast
qed


section \<open>How a run ends\<close>

definition accepted_state :: "'e loop_env \<Rightarrow> 'e task_state option \<Rightarrow> bool" where
  "accepted_state E st \<longleftrightarrow> (st \<noteq> None \<longrightarrow> le_verifier E \<noteq> None \<longrightarrow>
     (\<exists>t seen v. st = Some (mark_task TaskComplete t) \<and> verify_rules t seen = Inr v \<and> vd_valid v))"

definition blocked_state :: "'e task_state option \<Rightarrow> bool" where
  "blocked_state st \<longleftrightarrow> (\<forall>t. st = Some t \<longrightarrow> ts_status t = TaskBlocked)"

definition end_ok :: "'e loop_env \<Rightarrow> loop_stop \<Rightarrow> 'e loop \<Rightarrow> bool" where
  "end_ok E e s \<longleftrightarrow> int (lp_replans s) \<le> max 0 (le_max_replans E) \<and> (case e of Raised \<Rightarrow> True | Halted r \<Rightarrow>
     (lr_stopped r = ''final'' \<and> accepted_state E (lp_state s)
      \<or> lr_stopped r = ''verification_failed'' \<and> blocked_state (lp_state s) \<and> int (lp_replans s) = max 0 (le_max_replans E)
      \<or> lr_stopped r = ''action_failed'' \<and> blocked_state (lp_state s)
      \<or> lr_stopped r = ''budget'' \<and> (le_stop_on_failure E \<longrightarrow> blocked_state (lp_state s))))"

definition few_replans :: "'e loop_env \<Rightarrow> 'e loop \<Rightarrow> bool" where
  "few_replans E s \<longleftrightarrow> int (lp_replans s) \<le> max 0 (le_max_replans E)"

lemma ends_ask: "few_replans E s \<Longrightarrow> lp_wp (ask_model E) (\<lambda>x. few_replans E) (end_ok E) s"
  by (auto simp: ask_model_def wp_simps few_replans_def end_ok_def split: reply.splits)

lemma ends_accept:
  "few_replans E s \<Longrightarrow> (\<And>t v. lp_state s = Some t \<Longrightarrow> le_verifier E = Some v \<Longrightarrow> \<exists>seen w. verify_rules t seen = Inr w \<and> vd_valid w)
    \<Longrightarrow> lp_wp (accept E d thought) Q (end_ok E) s"
  by (cases "lp_state s"; cases "le_verifier E")
     (auto simp: accept_def wp_simps few_replans_def end_ok_def accepted_state_def split: option.splits)

lemma ends_reject: "few_replans E s \<Longrightarrow> lp_wp (reject E raw thought v) (\<lambda>x. few_replans E) (end_ok E) s"
  by (cases "lp_state s")
     (auto simp: reject_def Let_def wp_simps few_replans_def end_ok_def blocked_state_def max_def split: option.splits if_splits)

lemma ends_verify:
  "lp_wp (verify_completion E v t) (\<lambda>w s'. lp_state s' = lp_state s \<and> lp_replans s' = lp_replans s
      \<and> (vd_valid w \<longrightarrow> (\<exists>seen w. verify_rules t seen = Inr w \<and> vd_valid w)))
    (\<lambda>e s'. e = Raised \<and> lp_replans s' = lp_replans s) s"
  by (auto simp: verify_completion_def review_def Let_def wp_simps split: sum.splits reply.splits)

lemma ends_finish: "few_replans E s \<Longrightarrow> lp_wp (finish_turn E raw d thought) (\<lambda>x. few_replans E) (end_ok E) s"
proof -
  assume few: "few_replans E s"
  show ?thesis
  proof (cases "lp_state s = None \<or> le_verifier E = None")
    case True
    then show ?thesis
      using ends_accept [OF few] by (auto simp: finish_turn_def wp_simps split: option.splits)
  next
    case False
    then obtain t v where tv: "lp_state s = Some t" "le_verifier E = Some v" by auto
    have "lp_wp (verify_completion E v t) (\<lambda>w. lp_wp (if vd_valid w then accept E d thought else reject E raw thought w)
        (\<lambda>x. few_replans E) (end_ok E)) (end_ok E) s"
    proof (rule wp_mono [OF ends_verify])
      fix w :: verdict and s' :: "'a loop" assume h: "lp_state s' = lp_state s \<and> lp_replans s' = lp_replans s
        \<and> (vd_valid w \<longrightarrow> (\<exists>seen w. verify_rules t seen = Inr w \<and> vd_valid w))"
      with few have few': "few_replans E s'" by (simp add: few_replans_def)
      show "lp_wp (if vd_valid w then accept E d thought else reject E raw thought w) (\<lambda>x. few_replans E) (end_ok E) s'"
        using ends_accept [OF few', of d thought] ends_reject [OF few', of raw thought w] h tv by auto
    qed (use few in \<open>auto simp: end_ok_def few_replans_def\<close>)
    with tv show ?thesis by (simp add: finish_turn_def wp_simps)
  qed
qed

text \<open>An action that leaves the number of replans alone and stops the loop only by an exception.\<close>

definition steady :: "('e, 'a) loop_act \<Rightarrow> bool" where
  "steady m \<longleftrightarrow> (\<forall>s. lp_wp m (\<lambda>x s'. lp_replans s' = lp_replans s) (\<lambda>e s'. e = Raised \<and> lp_replans s' = lp_replans s) s)"

lemma steady_bind:
  fixes m :: "('e, 'a) loop_act"
  assumes "steady m" and "\<And>x. steady (f x)"
  shows "steady (lp_bind m f)"
  unfolding steady_def wp_bind
proof
  fix s
  show "lp_wp m (\<lambda>x. lp_wp (f x) (\<lambda>x s'. lp_replans s' = lp_replans s) (\<lambda>e s'. e = Raised \<and> lp_replans s' = lp_replans s))
      (\<lambda>e s'. e = Raised \<and> lp_replans s' = lp_replans s) s"
  proof (rule wp_mono)
    show "lp_wp m (\<lambda>x s'. lp_replans s' = lp_replans s) (\<lambda>e s'. e = Raised \<and> lp_replans s' = lp_replans s) s"
      using assms(1) by (simp add: steady_def)
  next
    fix x and s' :: "'e loop" assume "lp_replans s' = lp_replans s"
    then show "lp_wp (f x) (\<lambda>x s'. lp_replans s' = lp_replans s) (\<lambda>e s'. e = Raised \<and> lp_replans s' = lp_replans s) s'"
      using spec [OF assms(2) [of x, unfolded steady_def], of s'] by simp
  qed
qed

lemma steady_basic: "steady (lp_return x)" "steady lp_raise" "steady (lp_gets g)" "steady (lp_res q)" "steady (lp_record ev)"
    "steady (lp_update_state h)" "steady (lp_say ms)" "steady (emit le)" "steady (save_checkpoint E)"
    "(\<And>s. lp_replans (k s) = lp_replans s) \<Longrightarrow> steady (lp_modify k)"
  by (auto simp: steady_def wp_simps split: sum.splits option.splits)

lemma steady_observe: "steady (observe E tool params problem)"
  unfolding observe_def by (auto intro!: steady_bind steady_basic split: jval.splits option.splits)

lemma steady_result: "steady (note_result E tool params thought ob)"
  unfolding note_result_def by (auto intro!: steady_bind steady_basic)

lemma ends_steady:
  assumes "steady m" and "\<And>x s'. few_replans E s' \<Longrightarrow> lp_wp (f x) (\<lambda>x. few_replans E) (end_ok E) s'" and "few_replans E s"
  shows "lp_wp (lp_bind m f) (\<lambda>x. few_replans E) (end_ok E) s"
proof -
  have "lp_wp m (\<lambda>x s'. lp_replans s' = lp_replans s) (\<lambda>e s'. e = Raised \<and> lp_replans s' = lp_replans s) s"
    using assms(1) by (simp add: steady_def)
  then show ?thesis
    unfolding wp_bind by (rule wp_mono) (use assms(2,3) in \<open>auto simp: few_replans_def end_ok_def\<close>)
qed

lemma ends_call:
  assumes "few_replans E' s"
  shows "lp_wp (call_tool E raw d thought tool) (\<lambda>x. few_replans E') (end_ok E') s"
  unfolding call_tool_def Let_def
proof (intro ends_steady steady_basic steady_observe steady_result assms)
  fix ob and s' :: "'a loop"
  assume few: "few_replans E' s'"
  show "lp_wp (if le_stop_on_failure E \<and> map_of ob ''success'' \<noteq> Some (JBool True) then
      lp_bind (lp_update_state (mark_task TaskBlocked)) (\<lambda>_. lp_bind (save_checkpoint E) (\<lambda>_.
        lp_halt E (JStr ''governed stage action did not complete; review required'') None ''action_failed'' []))
    else lp_bind (lp_say [le_assistant E raw]) (\<lambda>_. lp_bind (lp_res (deferred_note d)) (\<lambda>note.
      lp_say [Message ''user'' (''Observation from '' @ tool @ '': '' @ observation_message E tool
        (params_dict (or_value (get_or d ''params'' JNull) (JDict []))) ob @ note)])))
    (\<lambda>x. few_replans E') (end_ok E') s'"
    using few
    by (cases "lp_state s'")
       (auto simp: wp_simps few_replans_def end_ok_def blocked_state_def split: option.splits sum.splits)
qed

lemma ends_turn: "few_replans E s \<Longrightarrow> lp_wp (loop_turn E) (\<lambda>x. few_replans E) (end_ok E) s"
proof -
  assume "few_replans E s"
  then have "lp_wp (ask_model E) (\<lambda>raw. lp_wp (let d = parse_llm_response (le_loads E) raw; thought = decision_thought E d;
        tool = get_or d ''tool'' JNull in
      if \<not> truthy tool then finish_turn E raw d thought
      else (case tool of JStr name \<Rightarrow> call_tool E raw d thought name | _ \<Rightarrow> odd_tool E raw d thought tool))
    (\<lambda>x. few_replans E) (end_ok E)) (end_ok E) s"
    by (intro wp_mono [OF ends_ask])
       (auto simp: Let_def odd_tool_def wp_simps ends_finish ends_call end_ok_def few_replans_def split: jval.splits)
  then show ?thesis unfolding loop_turn_def by (simp only: wp_bind)
qed

lemma ends_rounds: "few_replans E s \<Longrightarrow> lp_wp (rounds E n) (\<lambda>x s'. False) (end_ok E) s"
proof (induction n arbitrary: s)
  case 0
  then show ?case
    by (cases "lp_state s") (auto simp: wp_simps few_replans_def end_ok_def blocked_state_def split: option.splits)
next
  case (Suc n)
  have "lp_wp (loop_turn E) (\<lambda>x. lp_wp (rounds E n) (\<lambda>x s'. False) (end_ok E)) (end_ok E) s"
    by (rule wp_mono [OF ends_turn [OF Suc.prems]]) (auto intro: Suc.IH)
  then show ?case by (simp add: wp_bind)
qed


text \<open>
  A run only extends the log of its task state, whatever happens: earlier actions, observations
  and artifacts stay, the revision grows, and a well-formed log stays well formed.
\<close>
theorem loop_log_kept:
  assumes "run_loop E goal (Some t) = (s', r)"
  shows "\<exists>t'. lp_state s' = Some t' \<and> extends_log t t' \<and> (log_inv t \<longrightarrow> log_inv t')"
proof -
  have steps: "extends_log a b \<and> (log_inv a \<longrightarrow> log_inv b)" if "task_step\<^sup>*\<^sup>* a b" for a b :: "'a task_state"
    using that
  proof (induction rule: rtranclp_induct)
    case base
    then show ?case by (simp add: extends_log_def)
  next
    case (step b c)
    then show ?case using extends_log_trans task_step_extends task_step_log by blast
  qed
  have "relates extends_history (lp_bind (save_checkpoint E) (\<lambda>_. rounds E (nat (max 1 (le_max_steps E)))))"
    by (intro history.fr_bind history.fr_saved history.fr_run)
  from relatesD [OF this, of "start_loop E goal (Some t)"] assms
  have "rel_option task_step\<^sup>*\<^sup>* (Some t) (lp_state s')"
    by (simp add: run_loop_def extends_history_def start_loop_def)
  with steps show ?thesis by (cases "lp_state s'") auto
qed

section \<open>A sample run\<close>

definition sample_loop_env :: "'e loop_env" where
  "sample_loop_env = \<lparr>le_tools = [(''file_read'', [])], le_max_steps = 2, le_max_replans = 0, le_stop_on_failure = True,
     le_verifier = Some Rules, le_chat = (\<lambda>n ms. Reply (if n = 0 then ''read'' else ''done'')), le_review = (\<lambda>n. ReplyRaises),
     le_invoke = (\<lambda>n tool ps. Some [(''success'', JBool True), (''summary'', JStr ''ok'')]),
     le_checkpoint = Some (\<lambda>n t. True),
     le_loads = (\<lambda>s. if s = ''read''
       then Some (JDict [(''tool'', JStr ''file_read''), (''params'', JDict [(''path'', JStr ''notes'')])]) else None),
     le_dumps = (\<lambda>d. []), le_str = (\<lambda>v. []), le_render = (\<lambda>t. []), le_prompt = [],
     le_assistant = Message ''assistant''\<rparr>"


lemma sample_run:
  "lp_trace (fst (run_loop sample_loop_env ''goal'' (Some sample_state))) ! 4 = Invoked ''file_read'' [(''path'', JStr ''notes'')]
   \<and> 4 < length (lp_trace (fst (run_loop sample_loop_env ''goal'' (Some sample_state))))"
  by code_simp

theorem loop_calls_governed_witness:
  "\<exists>tr. logged_ahead tr ''file_read'' [(''path'', JStr ''notes'')]
     \<and> tr = take 4 (lp_trace (fst (run_loop sample_loop_env ''goal'' (Some sample_state))))"
proof -
  let ?run = "run_loop sample_loop_env ''goal'' (Some sample_state)"
  have "lp_trace (fst ?run) = take 4 (lp_trace (fst ?run)) @ Invoked ''file_read'' [(''path'', JStr ''notes'')]
      # drop (Suc 4) (lp_trace (fst ?run))"
    using sample_run id_take_nth_drop [of 4 "lp_trace (fst ?run)"] by simp
  from loop_calls_governed [OF surjective_pairing this] show ?thesis by (simp add: sample_loop_env_def)
qed


theorem loop_log_kept_witness:
  "\<exists>t. lp_state (fst (run_loop sample_loop_env ''goal'' (Some sample_state))) = Some t \<and> log_inv t"
proof -
  have "log_inv sample_state" by (simp add: log_inv_def sample_state_def)
  with loop_log_kept [OF surjective_pairing, of sample_loop_env "''goal''" sample_state] show ?thesis by auto
qed

end
