(* ===== verification/HostAgent.thy ===== *)
theory HostAgent
  imports CapRegistry
begin

text \<open>
  The host agent, \<open>agents/host.py\<close>: the dispatch of a host capability to its operation, under the
  filesystem scope and the command policy of the execution context, and \<open>Agent.run\<close> of
  \<open>agents/base.py\<close>, which refuses to act outside the coordinator's context. \<open>json.loads\<close> and Python's
  text of a value are parameters. The operations take and return the disk.
\<close>

record agent_env =
  hv_os :: host_os
  hv_render :: "jval \<Rightarrow> string"
  hv_loads :: "string \<Rightarrow> jval res"

definition host_agent_capabilities :: "string list" where
  "host_agent_capabilities = [''file_read'', ''file_list'', ''file_search'', ''file_write'', ''file_edit'', ''file_fetch'',
     ''list_tools'', ''process_list'', ''process_kill'', ''service_status'', ''service_control'', ''shell_command'',
     ''host_session'']"

text \<open>\<open>params[k]\<close> and \<open>params.get(k, default)\<close> where the operation takes a text.\<close>

definition need_text :: "jdict \<Rightarrow> string \<Rightarrow> string res" where
  "need_text ps k = (case map_of ps k of
     None \<Rightarrow> Inl (KeyError k) | Some (JStr s) \<Rightarrow> Inr s | Some _ \<Rightarrow> Inl (TypeError k))"

definition text_or :: "jdict \<Rightarrow> string \<Rightarrow> string \<Rightarrow> string res" where
  "text_or ps k v = (if map_of ps k = None then Inr v else need_text ps k)"

text \<open>The elements of a non-empty list parameter, as texts.\<close>

definition argv_of :: "(jval \<Rightarrow> string) \<Rightarrow> jdict \<Rightarrow> string list" where
  "argv_of render ps = (case map_of ps ''argv'' of Some (JList vs) \<Rightarrow> map (py_str render) vs | _ \<Rightarrow> [])"

definition resolve_argv :: "(jval \<Rightarrow> string) \<Rightarrow> jdict \<Rightarrow> string list res" where
  "resolve_argv render ps =
     (if argv_of render ps \<noteq> [] then Inr (argv_of render ps)
      else if truthy (get_or ps ''command'' (JStr [])) then res_bind (need_text ps ''command'') shlex_split
      else shlex_split [])"

text \<open>A password on the standard input makes \<open>sudo\<close> read it there.\<close>

definition sudo_stdin :: "string option \<Rightarrow> string list \<Rightarrow> string list" where
  "sudo_stdin stdin argv = (case argv of
     [] \<Rightarrow> []
   | a # as \<Rightarrow> if stdin \<noteq> None \<and> path_name a = ''sudo'' \<and> ''-S'' \<notin> set as then a # ''-S'' # ''-p'' # [] # as else argv)"

definition agent_shell ::
  "'x agent_env_scheme \<Rightarrow> jdict \<Rightarrow> command_policy option \<Rightarrow> string option \<Rightarrow> disk \<Rightarrow> jdict res \<times> disk" where
  "agent_shell E ps policy stdin d = (case policy of
     None \<Rightarrow> (Inr (deny_fields ''no command policy in scope; shell command denied''), d)
   | Some c \<Rightarrow> (case resolve_argv (hv_render E) ps of
       Inl e \<Rightarrow> (Inl e, d)
     | Inr argv \<Rightarrow>
         if argv = [] then (Inr (deny_fields ''empty command''), d)
         else if classify_at (hv_os E) d argv = Destructive then
           (Inr (deny_fields ''command classified DESTRUCTIVE; not permitted via shell_command''), d)
         else run_command (hv_os E) c ((plain_spawn (sudo_stdin stdin argv))\<lparr>sn_stdin := stdin\<rparr>) d))"

text \<open>The steps of a \<open>host_session\<close>: argument vectors, or texts that are split.\<close>

definition step_argv :: "(jval \<Rightarrow> string) \<Rightarrow> jval \<Rightarrow> string list res" where
  "step_argv render v = (case v of JList vs \<Rightarrow> Inr (map (py_str render) vs) | _ \<Rightarrow> shlex_split (py_str render v))"

fun session_steps ::
  "'x agent_env_scheme \<Rightarrow> jval list \<Rightarrow> local_session \<times> disk \<Rightarrow> unit res \<times> local_session \<times> disk" where
  "session_steps E [] st = (Inr (), st)"
| "session_steps E (v # vs) (s, d) = (case step_argv (hv_render E) v of
     Inl e \<Rightarrow> (Inl e, s, d)
   | Inr argv \<Rightarrow>
       if argv \<noteq> [] \<and> classify_at (hv_os E) d argv = Destructive then
         session_steps E vs (s\<lparr>hl_transcript := hl_transcript s
           @ [(argv, hl_cwd s, deny_fields ''DESTRUCTIVE step skipped'')]\<rparr>, d)
       else (case run_in_session (hv_os E) argv (s, d) of
           (Inl e, st) \<Rightarrow> (Inl e, st) | (Inr _, st) \<Rightarrow> session_steps E vs st))"

text \<open>\<open>json.loads\<close> of the steps; anything but a list is refused.\<close>

definition load_steps :: "'x agent_env_scheme \<Rightarrow> string \<Rightarrow> jval list option" where
  "load_steps E commands = (case hv_loads E commands of Inr (JList vs) \<Rightarrow> Some vs | _ \<Rightarrow> None)"

definition agent_session ::
  "'x agent_env_scheme \<Rightarrow> string \<Rightarrow> fs_scope \<Rightarrow> command_policy option \<Rightarrow> disk \<Rightarrow> jdict res \<times> disk" where
  "agent_session E commands scope policy d = (case policy of
     None \<Rightarrow> (Inr (deny_fields ''no command policy in scope; session denied''), d)
   | Some c \<Rightarrow> (case load_steps E commands of
       None \<Rightarrow> (Inr (deny_fields ''commands must be a JSON list of argument vectors''), d)
     | Some vs \<Rightarrow> (case new_session (hv_os E) d (0, c) (Some scope) [] None of
         Inl e \<Rightarrow> (Inl e, d)
       | Inr s \<Rightarrow> (case session_steps E vs (s, d) of
           (Inl e, _, d') \<Rightarrow> (Inl e, d')
         | (Inr _, s', d') \<Rightarrow>
             (Inr (session_summary s' @ [(''ok'', JBool True), (''error'', JStr [])]), d')))))"

definition dispatch ::
  "'x agent_env_scheme \<Rightarrow> string \<Rightarrow> jdict \<Rightarrow> fs_scope \<Rightarrow> command_policy option \<Rightarrow> string option \<Rightarrow> disk \<Rightarrow> jdict res \<times> disk" where
  "dispatch E capability ps scope policy stdin d =
     (let Os = hv_os E; still = (\<lambda>r. (r, d));
          effect = (\<lambda>m. case m of Inl e \<Rightarrow> (Inl e, d) | Inr f \<Rightarrow> f d) in
      if capability = ''file_read'' then
        still (res_bind (need_text ps ''path'') (\<lambda>p. file_read Os d scope p max_read_bytes))
      else if capability = ''file_list'' then still (res_bind (need_text ps ''path'') (file_list Os d scope))
      else if capability = ''file_search'' then
        still (res_bind (need_text ps ''root'') (\<lambda>b. res_bind (need_text ps ''pattern'') (\<lambda>p.
          res_bind (text_or ps ''glob'' ''*'') (\<lambda>g. file_search Os d scope b p g max_search_matches))))
      else if capability = ''file_write'' then
        effect (res_bind (need_text ps ''path'') (\<lambda>p. res_bind (text_or ps ''content'' []) (\<lambda>c. Inr (file_write Os scope p c))))
      else if capability = ''file_edit'' then
        effect (res_bind (need_text ps ''path'') (\<lambda>p. res_bind (need_text ps ''old'') (\<lambda>old.
          res_bind (need_text ps ''new'') (\<lambda>new. Inr (file_edit Os scope p old new)))))
      else if capability = ''file_fetch'' then
        effect (res_bind (need_text ps ''source'') (\<lambda>s. res_bind (need_text ps ''dest'') (\<lambda>t. Inr (file_fetch Os scope s t))))
      else if capability = ''list_tools'' then
        still (res_bind (text_or ps ''query'' []) (\<lambda>q. res_bind (py_int (get_or ps ''limit'' (JInt 400))) (\<lambda>n.
          res_bind (text_or ps ''exact'' []) (\<lambda>x. Inr (list_tools Os d q n x)))))
      else if capability = ''process_list'' then still (Inr (process_list Os 200))
      else if capability = ''process_kill'' then
        still (case map_of ps ''pid'' of None \<Rightarrow> Inl (KeyError ''pid'') | Some v \<Rightarrow> res_bind (py_int v) (\<lambda>n. Inr (process_kill Os n)))
      else if capability = ''service_status'' then effect (res_bind (need_text ps ''name'') (\<lambda>n. Inr (service_status Os n)))
      else if capability = ''service_control'' then
        effect (res_bind (need_text ps ''name'') (\<lambda>n. res_bind (need_text ps ''action'') (\<lambda>a. Inr (service_control Os n a))))
      else if capability = ''shell_command'' then agent_shell E ps policy stdin d
      else if capability = ''host_session'' then
        effect (res_bind (text_or ps ''commands'' []) (\<lambda>c. Inr (agent_session E c scope policy)))
      else still (Inr (deny_fields (''unknown host capability: '' @ capability))))"

definition agent_result :: "(jval \<Rightarrow> string) \<Rightarrow> jdict \<Rightarrow> op_value" where
  "agent_result render data =
     (let ok = truthy (field data ''ok'') in
      \<lparr>ov_success = ok, ov_timed_out = False,
       ov_error = (if ok then [] else py_str render (get_or data ''error'' (JStr ''host operation failed''))),
       ov_stderr = [], ov_normalized = Some (JDict (filter (\<lambda>(k, v). k \<notin> {''ok'', ''error''}) data))\<rparr>)"

definition execute_internal ::
  "'x agent_env_scheme \<Rightarrow> string \<Rightarrow> jdict \<Rightarrow> fs_scope \<Rightarrow> command_policy option \<Rightarrow> string option \<Rightarrow> disk \<Rightarrow> op_value \<times> disk" where
  "execute_internal E capability ps scope policy stdin d = (case dispatch E capability ps scope policy stdin d of
     (Inl e, d') \<Rightarrow> (agent_result (hv_render E) (deny_fields (error_name e @ '': '' @ error_text e)), d')
   | (Inr data, d') \<Rightarrow> (agent_result (hv_render E) data, d'))"

definition agent_run ::
  "'x agent_env_scheme \<Rightarrow> string \<Rightarrow> jdict \<Rightarrow> fs_scope \<Rightarrow> command_policy option \<Rightarrow> string option \<Rightarrow> op_outcome effect" where
  "agent_run E capability ps scope policy stdin w = (case w_context w of
     None \<Rightarrow> (OpError ''Direct agent execution is disabled; use ExecutionCoordinator'', w)
   | Some (action, executor, target) \<Rightarrow>
       if action \<noteq> capability then (OpError ''Direct agent execution is disabled; use ExecutionCoordinator'', w)
       else (case execute_internal E capability ps scope policy stdin (hc_disk (w_host w)) of
           (v, d) \<Rightarrow> (OpValue (Some v), w\<lparr>w_host := (w_host w)\<lparr>hc_disk := d\<rparr>\<rparr>)))"

end
