(* ===== verification/HostControl.thy ===== *)
theory HostControl
  imports HostAgent
begin

text \<open>
  The host controller, \<open>runtime/host_controller.py\<close>: one host capability taken through the
  coordinator. A command is checked against the policy and its outputs against the filesystem scope,
  its executables are resolved and fingerprinted in a READ execution of their own, the resolved action is
  bound to the approval, and before the launch everything is checked once more.

  The controller's fields are part of the world, so every callback of the coordinator, every provider
  call and the human's time to answer can change them. A provider's \<open>execute\<close> is a parameter that may
  end the operation with an exception; a controller method ends early with the result of an
  execution, or by raising.
\<close>

record control_env = agent_env +
  hk_win_abs :: "string \<Rightarrow> bool"
  hk_win_name :: "string \<Rightarrow> string"
  hk_win_join :: "string \<Rightarrow> string list \<Rightarrow> string"
  hk_platform :: string
  hk_env_digest :: "(string, string) dict \<Rightarrow> string"
  hk_execute :: "nat \<times> provider \<Rightarrow> string list \<Rightarrow> int option \<Rightarrow> exec_context option \<Rightarrow> (op_outcome + exec_outcome) effect"
  hk_session_id :: "nat \<Rightarrow> string"
  hk_request_id :: "nat \<Rightarrow> string"
  hk_services :: services

section \<open>Methods and operations\<close>

text \<open>A method ends with a value, with the result of an execution, or by raising.\<close>

datatype ending = Finished execution | Raised py_error

type_synonym 'a job = "world \<Rightarrow> (ending + 'a) \<times> launched list \<times> world"

definition job_return :: "'a \<Rightarrow> 'a job" where
  "job_return x w = (Inr x, [], w)"

definition job_bind :: "'a job \<Rightarrow> ('a \<Rightarrow> 'b job) \<Rightarrow> 'b job" where
  "job_bind m f w = (case m w of
     (Inl s, ls, w1) \<Rightarrow> (Inl s, ls, w1)
   | (Inr x, ls, w1) \<Rightarrow> (case f x w1 of (y, ms, w2) \<Rightarrow> (y, ls @ ms, w2)))"

definition job_lift :: "'a res \<Rightarrow> 'a job" where
  "job_lift r w = (case r of Inl e \<Rightarrow> (Inl (Raised e), [], w) | Inr x \<Rightarrow> (Inr x, [], w))"

definition job_end :: "coordinated \<Rightarrow> 'a job" where
  "job_end res w = (Inl (Finished (Returned res)), [], w)"

definition job_host :: "host_state job" where
  "job_host w = (Inr (w_host w), [], w)"

definition job_update :: "(host_state \<Rightarrow> host_state) \<Rightarrow> unit job" where
  "job_update f w = (Inr (), [], w\<lparr>w_host := f (w_host w)\<rparr>)"

text \<open>A body that the coordinator runs: its steps can end it with an outcome of their own.\<close>

type_synonym 'a step = "world \<Rightarrow> (op_outcome + 'a) \<times> world"

definition step_return :: "'a \<Rightarrow> 'a step" where
  "step_return x w = (Inr x, w)"

definition step_bind :: "'a step \<Rightarrow> ('a \<Rightarrow> 'b step) \<Rightarrow> 'b step" where
  "step_bind m f w = (case m w of (Inl out, w1) \<Rightarrow> (Inl out, w1) | (Inr x, w1) \<Rightarrow> f x w1)"

definition step_end :: "op_outcome \<Rightarrow> 'a step" where
  "step_end out w = (Inl out, w)"

definition step_lift :: "'a res \<Rightarrow> 'a step" where
  "step_lift r w = (case r of Inl e \<Rightarrow> (Inl (OpError (error_text e)), w) | Inr x \<Rightarrow> (Inr x, w))"

definition step_host :: "host_state step" where
  "step_host w = (Inr (w_host w), w)"

definition body_of :: "op_value option step \<Rightarrow> op_outcome effect" where
  "body_of m w = (case m w of (Inl out, w1) \<Rightarrow> (out, w1) | (Inr v, w1) \<Rightarrow> (OpValue v, w1))"

section \<open>Requests\<close>

text \<open>The defaults of \<open>ExecutionRequest\<close> and \<open>ExecutionIdentity\<close>, and the validators of the latter.\<close>

definition identity_fields :: "string list \<Rightarrow> (string, string) dict" where
  "identity_fields vs = zip [''adapter_id'', ''adapter_version'', ''parser_id'', ''parser_version'',
     ''capability_schema_version'', ''arguments_schema_version'', ''result_schema_version'', ''parser_schema_version'',
     ''platform'', ''architecture'', ''environment_version''] vs"

definition empty_identity :: exec_identity where
  "empty_identity = \<lparr>xi_tool = [], xi_tool_version = [], xi_path = [], xi_sha256 = [],
     xi_other = identity_fields (replicate 11 [])\<rparr>"

definition validate_identity :: "(string \<Rightarrow> bool) \<Rightarrow> exec_identity \<Rightarrow> exec_identity res" where
  "validate_identity win_abs x =
     res_bind (ensure (length (xi_tool x) \<le> 128 \<and> length (xi_tool_version x) \<le> 256 \<and> length (xi_path x) \<le> 4096
         \<and> (xi_sha256 x = [] \<or> is_hex64 (xi_sha256 x))
         \<and> length (case map_of (xi_other x) ''platform'' of None \<Rightarrow> [] | Some p \<Rightarrow> p) \<le> 128) (ValueError ''field'')) (\<lambda>_.
     res_bind (ensure (xi_path x = [] \<or> absolute_path win_abs (xi_path x))
         (ValueError ''execution identity executable path must be absolute'')) (\<lambda>_.
     res_bind (ensure ((xi_path x = []) = (xi_sha256 x = []))
         (ValueError ''execution identity path and digest must be provided together'')) (\<lambda>_. Inr x)))"

definition request_of :: "string \<Rightarrow> exec_request" where
  "request_of action =
     \<lparr>xr_action = action, xr_target = [], xr_target_required = False, xr_risk = Write, xr_params = [],
      xr_command = CommandText [], xr_executor = [], xr_privileges = [''user''], xr_credentials = [],
      xr_identity = empty_identity, xr_resolved = None, xr_ttl = 300, xr_expires = None, xr_dependency = [],
      xr_dependency_ok = True, xr_guidance = [], xr_blocked = [], xr_metadata = []\<rparr>"

definition controller_metadata :: "string \<Rightarrow> jdict" where
  "controller_metadata capability = [(''source'', JStr ''host_controller''), (''capability'', JStr capability)]"

text \<open>\<open>self._coordinator.execute(request, operation, preparation=...)\<close>.\<close>

definition coordinate :: "control_env \<Rightarrow> exec_request \<Rightarrow> op_outcome effect option \<Rightarrow> op_outcome effect \<Rightarrow> coordinated job" where
  "coordinate H r prepare body w = (case validate_request r of
     Inl e \<Rightarrow> (Inl (Raised e), [], w)
   | Inr _ \<Rightarrow>
       (let n = hc_requests (w_host w);
            S = (hk_services H)\<lparr>sv_id := hk_request_id H n, sv_prepare := prepare, sv_operation := body\<rparr> in
        case execute S (w\<lparr>w_request := r, w_host := (w_host w)\<lparr>hc_requests := Suc n\<rparr>\<rparr>) of
          ((Returned res, ls), w1) \<Rightarrow> (Inr res, ls, w1)
        | ((CancelRaised res by_provider, ls), w1) \<Rightarrow> (Inl (Finished (CancelRaised res by_provider)), ls, w1)))"

text \<open>The body of a request that only reports: it does nothing.\<close>

definition no_operation :: "op_outcome effect" where
  "no_operation w = (OpValue None, w)"

definition report_request :: "control_env \<Rightarrow> exec_request \<Rightarrow> coordinated job" where
  "report_request H r = coordinate H r None no_operation"

section \<open>The executor\<close>

definition executor_name :: "host_state \<Rightarrow> string" where
  "executor_name h = (case hc_executor h of None \<Rightarrow> ''internal'' | Some (n, p) \<Rightarrow> pv_name p)"

definition uses_external :: "host_state \<Rightarrow> bool" where
  "uses_external h = (case hc_executor h of None \<Rightarrow> False | Some (n, p) \<Rightarrow> pv_name p \<noteq> ''local'')"

definition executor_name_for :: "host_state \<Rightarrow> string \<Rightarrow> string" where
  "executor_name_for h capability =
     (if capability \<in> {''list_tools'', ''shell_command''} then executor_name h else ''internal'')"

definition host_res :: "control_env \<Rightarrow> host_state \<Rightarrow> string \<Rightarrow> path option" where
  "host_res H h = res_at (hv_os H) (hc_disk h)"

definition host_check :: "control_env \<Rightarrow> host_state \<Rightarrow> string \<Rightarrow> bool \<Rightarrow> unit res" where
  "host_check H h p write = fs_check (host_res H h) (hc_scope h) p write"

text \<open>A method of the executor on a host path; without an executor the attribute lookup fails.\<close>

definition map_host_path :: "control_env \<Rightarrow> host_state \<Rightarrow> string \<Rightarrow> bool \<Rightarrow> resolved_path res" where
  "map_host_path H h p write = (case hc_executor h of
     None \<Rightarrow> Inl (TypeError ''no executor'')
   | Some (n, pv) \<Rightarrow> map_path (hk_win_join H) (host_res H h) pv p write)"

text \<open>The governed \<open>execute\<close> of the selected provider, within the coordinator's context only.\<close>

definition provider_execute ::
  "control_env \<Rightarrow> string list \<Rightarrow> int option \<Rightarrow> exec_context option \<Rightarrow> exec_outcome step" where
  "provider_execute H argv timeout context w = (case hc_executor (w_host w) of
     None \<Rightarrow> (Inl (OpError ''no executor''), w)
   | Some (n, pv) \<Rightarrow>
       if provider_matches (w_context w) (pv_name pv) then hk_execute H (n, pv) argv timeout context w
       else (Inl (OpError ''Direct provider execution is disabled; use ExecutionCoordinator with the selected executor''), w))"

definition executed_value :: "exec_outcome \<Rightarrow> op_value" where
  "executed_value out = \<lparr>ov_success = eo_success out, ov_timed_out = eo_timed_out out, ov_error = eo_error out,
     ov_stderr = eo_stderr out, ov_normalized = Some (JDict [])\<rparr>"

text \<open>An \<open>ExecutionResult\<close> that reports a failure.\<close>

definition failure_value :: "string \<Rightarrow> string \<Rightarrow> op_value" where
  "failure_value error stderr = \<lparr>ov_success = False, ov_timed_out = False, ov_error = error, ov_stderr = stderr,
     ov_normalized = Some (JDict [])\<rparr>"

section \<open>Risk\<close>

definition risk_of :: "control_env \<Rightarrow> host_state \<Rightarrow> string list \<Rightarrow> risk_level" where
  "risk_of H h argv = classify_at (hv_os H) (hc_disk h) argv"

text \<open>The worst of the steps; a step without words keeps the risk.\<close>

fun worst_step :: "control_env \<Rightarrow> host_state \<Rightarrow> risk_level \<Rightarrow> jval list \<Rightarrow> risk_level res" where
  "worst_step H h worst [] = Inr worst"
| "worst_step H h worst (v # vs) =
     res_bind (step_argv (hv_render H) v) (\<lambda>argv.
       worst_step H h (if argv \<noteq> [] \<and> risk_order worst < risk_order (risk_of H h argv) then risk_of H h argv else worst) vs)"

definition resolved_risk :: "control_env \<Rightarrow> host_state \<Rightarrow> string \<Rightarrow> jdict \<Rightarrow> risk_level \<Rightarrow> risk_level res" where
  "resolved_risk H h capability ps baseline =
     (if hc_policy h = None then Inr baseline
      else if capability \<in> {''shell_command'', ''session_exec''} then
        res_bind (resolve_argv (hv_render H) ps) (\<lambda>argv. Inr (if argv \<noteq> [] then risk_of H h argv else baseline))
      else if capability = ''host_session'' then
        res_bind (text_or ps ''commands'' ''[]'') (\<lambda>c. (case hv_loads H c of
            Inl e \<Rightarrow> Inr baseline
          | Inr (JList vs) \<Rightarrow> worst_step H h baseline vs
          | Inr _ \<Rightarrow> Inr baseline))
      else Inr baseline)"

text \<open>A command of unknown, network or session effects is at least a WRITE.\<close>

definition raise_risk :: "side_effect set \<Rightarrow> resolved_action option \<Rightarrow> risk_level \<Rightarrow> risk_level" where
  "raise_risk effects action risk = (case action of
     None \<Rightarrow> risk
   | Some a \<Rightarrow> if risk = Read \<and> list_ex (\<lambda>e. e \<in> effects) (ra_effects a) then Write else risk)"

section \<open>Discovery through a provider\<close>

definition digest_word :: "string \<Rightarrow> string" where
  "digest_word out = hd (split_once CHR '' '' out)"

definition found_tool :: "string \<Rightarrow> string \<Rightarrow> string \<Rightarrow> jval" where
  "found_tool name path digest = JDict [(''name'', JStr name), (''path'', JStr path), (''sha256'', JStr digest)]"

definition no_fingerprint :: op_value where
  "no_fingerprint = failure_value ''selected provider could not fingerprint the executable'' []"

definition tools_result ::
  "control_env \<Rightarrow> host_state \<Rightarrow> jval list \<Rightarrow> bool \<Rightarrow> string list \<Rightarrow> op_value" where
  "tools_result H h tools truncated dirs = agent_result (hv_render H)
     [(''ok'', JBool True), (''tools'', JList tools), (''count'', JInt (int (length tools))),
      (''truncated'', JBool truncated), (''path_dirs'', JList (map JStr dirs)),
      (''provider'', JStr (executor_name h)), (''warnings'', JList [])]"

text \<open>The first directory that holds the tool as an executable regular file.\<close>

fun find_exact :: "control_env \<Rightarrow> string \<Rightarrow> string list \<Rightarrow> string list \<Rightarrow> op_value step" where
  "find_exact H exact all_dirs [] =
     step_bind step_host (\<lambda>h. step_return (tools_result H h [] False all_dirs))"
| "find_exact H exact all_dirs (dir # dirs) =
     (let candidate = posix_join (posix_root dir) (posix_parts dir @ [exact]) in
      step_bind (provider_execute H [''/usr/bin/test'', ''-f'', candidate] None None) (\<lambda>regular.
      if \<not> eo_success regular then find_exact H exact all_dirs dirs
      else step_bind (provider_execute H [''/usr/bin/test'', ''-x'', candidate] None None) (\<lambda>executable.
      if \<not> eo_success executable then find_exact H exact all_dirs dirs
      else step_bind (provider_execute H [''/usr/bin/sha256sum'', candidate] None None) (\<lambda>digest.
      if \<not> eo_success digest \<or> \<not> is_hex64 (digest_word (eo_stdout digest)) then step_return no_fingerprint
      else step_bind step_host (\<lambda>h.
        step_return (tools_result H h [found_tool exact candidate (digest_word (eo_stdout digest))] False all_dirs))))))"

fun present_dirs :: "control_env \<Rightarrow> string list \<Rightarrow> string list step" where
  "present_dirs H [] = step_return []"
| "present_dirs H (dir # dirs) =
     step_bind (provider_execute H [''/usr/bin/test'', ''-d'', dir] None None) (\<lambda>present.
     step_bind (present_dirs H dirs) (\<lambda>rest. step_return (if eo_success present then dir # rest else rest)))"

definition find_command :: "string list \<Rightarrow> string list" where
  "find_command dirs = ''/usr/bin/find'' # dirs
     @ [''-maxdepth'', ''1'', ''-executable'', ''-printf'', [CHR ''%'', CHR ''y'', CHR 0x09, CHR ''%'', CHR ''f'', CHR 0x09, CHR ''%'', CHR ''p'', CHR 0x5C, CHR ''n'']]"

text \<open>The lines of the listing: regular files and links whose name matches, the first of each name.\<close>

definition listed_tool :: "string \<Rightarrow> string \<Rightarrow> (string, string) dict \<Rightarrow> (string, string) dict" where
  "listed_tool query line tools = (case split_once CHR 0x09 line of
     [kind, rest] \<Rightarrow> (case split_once CHR 0x09 rest of
       [name, path] \<Rightarrow> if kind \<in> {''f'', ''l''} \<and> has_sub (lower name) query then dict_setdefault name path tools else tools
     | _ \<Rightarrow> tools)
   | _ \<Rightarrow> tools)"

definition list_directories :: "control_env \<Rightarrow> string \<Rightarrow> int \<Rightarrow> string list \<Rightarrow> op_value step" where
  "list_directories H query limit dirs =
     step_bind (provider_execute H (find_command dirs) None None) (\<lambda>first.
     step_bind (if eo_success first \<or> length dirs \<le> 1 then step_return first
                else step_bind (present_dirs H dirs) (\<lambda>present.
                  if present \<noteq> [] \<and> length present < length dirs
                  then provider_execute H (find_command present) None None else step_return first)) (\<lambda>listing.
     if \<not> eo_success listing then step_return (executed_value listing)
     else step_bind step_host (\<lambda>h.
       let tools = fold (listed_tool query) (splitlines (eo_stdout listing)) [] in
       step_return (tools_result H h (map tool_fields (take (nat limit) (sort_key fst tools)))
         (limit < int (length tools)) dirs))))"

definition valid_provider_path :: "string \<Rightarrow> bool" where
  "valid_provider_path value =
     (let dirs = path_dirs_of value in
      value \<noteq> [] \<and> CHR 0x00 \<notin> set value \<and> CHR 0x0A \<notin> set value \<and> length dirs \<le> 128
      \<and> list_all (\<lambda>d. starts_with d ''/'') dirs)"

definition list_provider_tools :: "control_env \<Rightarrow> string \<Rightarrow> int \<Rightarrow> string \<Rightarrow> op_value step" where
  "list_provider_tools H query limit exact =
     (let q = lower query; x = strip exact in
      if x \<noteq> [] \<and> \<not> tool_basename x then step_return (failure_value ''exact tool name must be a basename'' [])
      else step_bind (provider_execute H [''/usr/bin/printenv'', ''PATH''] None None) (\<lambda>env.
      if \<not> eo_success env then step_return (executed_value env)
      else let value = strip (eo_stdout env); dirs = path_dirs_of value in
        if \<not> valid_provider_path value then
          step_return (failure_value ''selected provider returned an invalid PATH for tool discovery'' [])
        else if x \<noteq> [] then find_exact H x dirs dirs
        else list_directories H q limit dirs))"

section \<open>Executables\<close>

definition executable_indexes :: "string list \<Rightarrow> nat list" where
  "executable_indexes argv = (case strip_sudo argv of (is_sudo, inner) \<Rightarrow>
     if is_sudo \<and> inner \<noteq> [] \<and> length argv - length inner \<noteq> 0 then [0, length argv - length inner] else [0])"

definition not_found :: "control_env \<Rightarrow> string \<Rightarrow> op_value" where
  "not_found H requested = agent_result (hv_render H)
     [(''ok'', JBool True), (''found'', JBool False), (''requested'', JStr requested)]"

definition normalized_of :: "op_value \<Rightarrow> jdict" where
  "normalized_of v = (case ov_normalized v of Some (JDict d) \<Rightarrow> d | _ \<Rightarrow> [])"

definition inspect_provider_executable :: "control_env \<Rightarrow> string \<Rightarrow> op_value step" where
  "inspect_provider_executable H executable =
     (if starts_with executable ''/'' then
        (if CHR 0x00 \<in> set executable then step_return (failure_value ''executable path contains NUL'' [])
         else step_bind (provider_execute H [''/usr/bin/test'', ''-x'', executable] None None) (\<lambda>test.
           if \<not> eo_success test then step_return (not_found H executable)
           else step_bind (provider_execute H [''/usr/bin/sha256sum'', executable] None None) (\<lambda>digest.
           if \<not> eo_success digest \<or> \<not> is_hex64 (digest_word (eo_stdout digest)) then step_return no_fingerprint
           else step_return (agent_result (hv_render H)
             [(''ok'', JBool True), (''found'', JBool True), (''name'', JStr (path_name executable)),
              (''path'', JStr executable), (''sha256'', JStr (digest_word (eo_stdout digest)))]))))
      else step_bind (list_provider_tools H [] 1 executable) (\<lambda>inspected.
        if \<not> ov_success inspected then step_return inspected
        else step_return (case get_or (normalized_of inspected) ''tools'' (JList []) of
            JList (JDict t # _) \<Rightarrow> agent_result (hv_render H) ([(''ok'', JBool True), (''found'', JBool True)] @ t)
          | _ \<Rightarrow> not_found H executable)))"

text \<open>\<open>{"argv_index": ..., "requested": ..., **data}\<close>.\<close>

definition identity_entry :: "nat \<Rightarrow> string \<Rightarrow> jdict \<Rightarrow> jdict" where
  "identity_entry index requested data =
     fold (\<lambda>(k, v). dict_set k v) data [(''argv_index'', JInt (int index)), (''requested'', JStr requested)]"

fun inspect_all ::
  "control_env \<Rightarrow> (string, string) dict option \<Rightarrow> (nat \<times> string) list \<Rightarrow> jdict list \<Rightarrow> op_value option step" where
  "inspect_all H env [] found = step_return (Some (agent_result (hv_render H)
     [(''ok'', JBool True), (''executables'', JList (map JDict found))]))"
| "inspect_all H env ((index, executable) # rest) found =
     step_bind step_host (\<lambda>h.
     if uses_external h then
       step_bind (inspect_provider_executable H executable) (\<lambda>v.
         if \<not> ov_success v then step_return (Some v)
         else inspect_all H env rest (found @ [identity_entry index executable (normalized_of v)]))
     else (let search = (case env of None \<Rightarrow> None | Some e \<Rightarrow> Some (case map_of e ''PATH'' of None \<Rightarrow> [] | Some p \<Rightarrow> p));
               data = inspect_executable (hv_os H) (hc_disk h) executable search in
       if field data ''ok'' \<noteq> JBool True then step_return (Some (agent_result (hv_render H) data))
       else inspect_all H env rest (found @ [identity_entry index executable data])))"

text \<open>The entry of an executable that was found, as the resolved action holds it.\<close>

definition resolved_entry :: "control_env \<Rightarrow> jdict \<Rightarrow> resolved_executable res" where
  "resolved_entry H d = (case (map_of d ''argv_index'', map_of d ''path'', map_of d ''sha256'') of
     (Some i, Some p, Some s) \<Rightarrow> res_bind (py_int i) (\<lambda>n.
       (let e = \<lparr>xe_index = nat n, xe_path = py_str (hv_render H) p, xe_sha256 = py_str (hv_render H) s\<rparr> in
        res_bind (ensure (0 \<le> n) (ValueError ''field'')) (\<lambda>_.
        res_bind (validate_executable (hk_win_abs H) e) (\<lambda>_. Inr e))))
   | _ \<Rightarrow> Inl (KeyError ''path''))"

definition put_executable :: "resolved_executable \<Rightarrow> string list \<Rightarrow> string list" where
  "put_executable e argv = argv[xe_index e := xe_path e]"

fun dict_items :: "jval \<Rightarrow> jdict list" where
  "dict_items (JList vs) = List.map_filter (\<lambda>v. case v of JDict d \<Rightarrow> Some d | _ \<Rightarrow> None) vs"
| "dict_items v = []"

definition resolve_executables ::
  "control_env \<Rightarrow> string \<Rightarrow> string list \<Rightarrow> string \<Rightarrow> bool \<Rightarrow> (string, string) dict option
     \<Rightarrow> (string list \<times> resolved_executable list) job" where
  "resolve_executables H capability argv target target_required env =
     job_bind job_host (\<lambda>h.
     let indexes = executable_indexes argv; requested = map ((!) argv) indexes in
     job_bind (coordinate H ((request_of ''resolve_executable'')\<lparr>xr_target := target,
         xr_target_required := target_required, xr_risk := Read, xr_executor := executor_name h,
         xr_params := [(''capability'', JStr capability), (''executables'', JList (map JStr requested))],
         xr_command := CommandArgv (''resolve-executable'' # requested),
         xr_metadata := controller_metadata capability @ [(''purpose'', JStr ''executable_identity'')]\<rparr>)
       None (body_of (inspect_all H env (zip indexes requested) []))) (\<lambda>inspected.
     if \<not> co_success inspected then job_end inspected
     else job_bind job_host (\<lambda>h.
       let items = (case co_value inspected of None \<Rightarrow> [] | Some v \<Rightarrow> dict_items (get_or (normalized_of v) ''executables'' (JList [])))
       in (case filter (\<lambda>d. \<not> truthy (get_or d ''found'' JNull)) items of
         d # _ \<Rightarrow>
           (let name = py_str (hv_render H) (get_or d ''requested'' (JStr [])); dependency = (if name = [] then ''executable'' else name) in
            job_bind (job_lift (resolved_risk H h capability [(''argv'', JList (map JStr argv))] Write)) (\<lambda>risk.
            job_bind (report_request H ((request_of capability)\<lparr>xr_risk := risk, xr_executor := executor_name h,
                xr_command := CommandArgv argv, xr_dependency := dependency, xr_dependency_ok := False,
                xr_guidance := ''Required dependency missing in provider '' @ executor_name h @ '': '' @ dependency
                  @ '' (command not found). Installation was not attempted.'',
                xr_metadata := controller_metadata capability\<rparr>)) job_end))
       | [] \<Rightarrow> job_bind (job_lift (map_res (resolved_entry H) items)) (\<lambda>es.
           job_return (fold put_executable es argv, es))))))"

section \<open>What is approved\<close>

definition resolved_command_action ::
  "control_env \<Rightarrow> host_state \<Rightarrow> string \<Rightarrow> string list \<Rightarrow> string list \<Rightarrow> (string \<times> string) list \<Rightarrow> string \<Rightarrow> string
     \<Rightarrow> bool \<Rightarrow> resolved_executable list \<Rightarrow> resolved_action res" where
  "resolved_command_action H h capability argv original outputs cwd target session_state executables =
     res_bind (command_requires_target original) (\<lambda>network.
     (let effects = (if outputs \<noteq> [] then [FilesystemWrite] else []) @ (if network then [NetworkEffect] else [])
            @ (if session_state then [SessionState] else []) in
      validate_resolved (hk_win_abs H) (hk_win_name H)
        \<lparr>ra_schema = ''1.0.0'', ra_capability = capability,
         ra_provider = (if capability = ''shell_command'' then executor_name_for h capability else executor_name h),
         ra_tool = path_name (hd argv), ra_tool_version = [], ra_target = target, ra_argv = argv,
         ra_executables = executables, ra_cwd = cwd, ra_inputs = [], ra_outputs = outputs,
         ra_effects = (if effects \<noteq> [] then effects else [UnknownEffect]),
         ra_timeout = (case hc_executor h of Some (n, p) \<Rightarrow> if pv_name p \<noteq> ''local'' then pv_timeout p else 60 | None \<Rightarrow> 60),
         ra_idempotency = (if session_state then ''idempotent'' else ''unknown'')\<rparr>))"

definition command_identity :: "control_env \<Rightarrow> host_state \<Rightarrow> resolved_action \<Rightarrow> string \<Rightarrow> exec_identity res" where
  "command_identity H h a capability = (case map_of capabilities capability of
     None \<Rightarrow> Inl (KeyError capability)
   | Some c \<Rightarrow> validate_identity (hk_win_abs H)
       \<lparr>xi_tool = ra_tool a, xi_tool_version = ra_tool_version a,
        xi_path = (case ra_executables a of [] \<Rightarrow> [] | e # _ \<Rightarrow> xe_path e),
        xi_sha256 = (case ra_executables a of [] \<Rightarrow> [] | e # _ \<Rightarrow> xe_sha256 e),
        xi_other = identity_fields ([[], [], [], []] @ ca_versions c
          @ [case hc_executor h of Some (n, p) \<Rightarrow> if pv_name p \<noteq> ''local'' then pv_platform p else hk_platform H
              | None \<Rightarrow> hk_platform H, [], []])\<rparr>)"

section \<open>What is checked before the launch\<close>

text \<open>The executor, its environment, and the roots of the scope as they were at the approval.\<close>

record bound_state =
  bs_executor :: "nat option"
  bs_environment :: "environment option"
  bs_scope :: "string list \<times> string list"

definition scope_roots :: "fs_scope \<Rightarrow> string list \<times> string list" where
  "scope_roots s = (map path_text (fs_read s), map path_text (fs_write s))"

definition bind_state :: "host_state \<Rightarrow> bound_state" where
  "bind_state h = \<lparr>bs_executor = map_option fst (hc_executor h),
     bs_environment = map_option (\<lambda>(n, p). identify p) (hc_executor h), bs_scope = scope_roots (hc_scope h)\<rparr>"

definition check_output :: "control_env \<Rightarrow> host_state \<Rightarrow> string \<times> string \<Rightarrow> unit res" where
  "check_output H h out =
     res_bind (host_check H h (fst out) True) (\<lambda>_.
       if uses_external h then
         res_bind (map_host_path H h (fst out) True) (\<lambda>m.
           ensure (rp_provider m = snd out) (ScopeViolation ''provider output mapping changed''))
       else Inr ())"

definition binding_checks ::
  "control_env \<Rightarrow> host_state \<Rightarrow> resolved_action \<Rightarrow> string list \<Rightarrow> risk_level \<Rightarrow> bound_state \<Rightarrow> unit res" where
  "binding_checks H h a argv risk b =
     res_bind (ensure (scope_roots (hc_scope h) = bs_scope b)
       (ScopeViolation ''filesystem scope changed during preparation'')) (\<lambda>_.
     res_bind (ensure (\<not> fs_is_empty (hc_scope h) \<and> hc_policy h \<noteq> None)
       (ScopeViolation ''host restrictions unavailable before launch'')) (\<lambda>_.
     res_bind (case hc_policy h of None \<Rightarrow> Inr () | Some (n, c) \<Rightarrow> policy_check c argv) (\<lambda>_.
     res_bind (ensure (risk_order (risk_of H h argv) \<le> risk_order risk)
       (ScopeViolation ''command risk changed during preparation'')) (\<lambda>_.
     res_bind (ensure (map_option fst (hc_executor h) = bs_executor b
           \<and> map_option (\<lambda>(n, p). identify p) (hc_executor h) = bs_environment b)
       (ScopeViolation ''provider binding changed during preparation'')) (\<lambda>_.
       iter_res (check_output H h) (ra_outputs a))))))"

text \<open>A refusal becomes a failed value; any other exception goes on.\<close>

definition validate_command_binding ::
  "control_env \<Rightarrow> host_state \<Rightarrow> resolved_action \<Rightarrow> string list \<Rightarrow> risk_level \<Rightarrow> bound_state \<Rightarrow> op_value option res" where
  "validate_command_binding H h a argv risk b = (case binding_checks H h a argv risk b of
     Inr _ \<Rightarrow> Inr None
   | Inl e \<Rightarrow> if refusal e then Inr (Some (failure_value ''host restrictions changed before launch'' [])) else Inl e)"

definition executable_matches :: "control_env \<Rightarrow> resolved_executable \<Rightarrow> bool step" where
  "executable_matches H e =
     step_bind step_host (\<lambda>h.
     if uses_external h then
       step_bind (provider_execute H [''/usr/bin/sha256sum'', xe_path e] None None) (\<lambda>out.
         step_return (eo_success out \<and> digest_word (eo_stdout out) = xe_sha256 e))
     else (let d = inspect_executable (hv_os H) (hc_disk h) (xe_path e) None in
       step_return (field d ''ok'' = JBool True \<and> field d ''found'' = JBool True
         \<and> field d ''path'' = JStr (xe_path e) \<and> field d ''sha256'' = JStr (xe_sha256 e))))"

fun recheck_executables :: "control_env \<Rightarrow> resolved_executable list \<Rightarrow> op_value option step" where
  "recheck_executables H [] = step_return None"
| "recheck_executables H (e # es) =
     step_bind (executable_matches H e) (\<lambda>ok.
       if ok then recheck_executables H es
       else step_return (Some (failure_value ''executable_identity_changed''
         ''Executable identity changed after approval; execution denied'')))"

definition blocked :: "control_env \<Rightarrow> string \<Rightarrow> string \<Rightarrow> coordinated job" where
  "blocked H capability reason =
     job_bind job_host (\<lambda>h. report_request H ((request_of capability)\<lparr>xr_executor := executor_name h,
       xr_blocked := reason, xr_metadata := controller_metadata capability\<rparr>))"

text \<open>\<open>try: ... except (ScopeViolation, ValueError) as exc: return await self._blocked(...)\<close>.\<close>

definition try_blocked :: "control_env \<Rightarrow> string \<Rightarrow> 'a res \<Rightarrow> 'a job" where
  "try_blocked H capability r = (case r of
     Inr x \<Rightarrow> job_return x
   | Inl e \<Rightarrow> if refusal e then job_bind (blocked H capability (error_text e)) job_end else job_lift r)"

section \<open>A shell command\<close>

definition outputs_of :: "control_env \<Rightarrow> host_state \<Rightarrow> string \<Rightarrow> string list \<Rightarrow> string list" where
  "outputs_of H h cwd argv = command_output_paths (out_at (hv_os H) (hc_disk h) cwd) cwd argv"

text \<open>What is known of a command before its executables are resolved.\<close>

record command_plan =
  pl_argv :: "string list"
  pl_target :: string
  pl_target_required :: bool
  pl_outputs :: "string list"
  pl_mapped :: "resolved_path list option"
  pl_provider_argv :: "string list option"
  pl_context :: exec_context

definition path_pairs :: "resolved_path list \<Rightarrow> (string \<times> string) list" where
  "path_pairs ms = map (\<lambda>m. (rp_host m, rp_provider m)) ms"

text \<open>The outputs as the provider sees them, and the context that declares them.\<close>

definition map_outputs :: "control_env \<Rightarrow> host_state \<Rightarrow> string list \<Rightarrow> string list \<Rightarrow> (resolved_path list \<times> string list \<times> exec_context) res" where
  "map_outputs H h argv outputs =
     (let cwd = os_cwd (hv_os H); out = out_at (hv_os H) (hc_disk h) cwd in
      res_bind (map_res (\<lambda>p. map_host_path H h p True) outputs) (\<lambda>ms.
      res_bind (if list_ex (\<lambda>b. cb_index b = None) (command_output_bindings out cwd argv)
                then res_bind (map_host_path H h cwd True) (\<lambda>m. Inr (rp_provider m)) else Inr []) (\<lambda>dir.
      res_bind (validate_context (hk_win_abs H) \<lparr>ex_cwd = dir, ex_env = [], ex_outputs = map rp_provider ms\<rparr>) (\<lambda>c.
        Inr (ms, rewrite_command_output_paths out cwd (path_pairs (rev ms)) argv, c)))))"

definition plan_command :: "control_env \<Rightarrow> host_state \<Rightarrow> command_policy \<Rightarrow> string list \<Rightarrow> string \<Rightarrow> bool \<Rightarrow> command_plan res" where
  "plan_command H h c argv target needs =
     res_bind (policy_check c argv) (\<lambda>_.
     (let outputs = outputs_of H h (os_cwd (hv_os H)) argv in
      res_bind (iter_res (\<lambda>p. host_check H h p True) outputs) (\<lambda>_.
      res_bind (if outputs \<noteq> [] \<and> uses_external h
                then res_bind (map_outputs H h argv outputs) (\<lambda>(ms, pargv, ctx). Inr (Some ms, Some pargv, ctx))
                else Inr (None, None, empty_context)) (\<lambda>(ms, pargv, ctx).
        Inr \<lparr>pl_argv = argv, pl_target = target, pl_target_required = needs, pl_outputs = outputs,
          pl_mapped = ms, pl_provider_argv = pargv, pl_context = ctx\<rparr>))))"

definition declared_outputs :: "host_state \<Rightarrow> command_plan \<Rightarrow> (string \<times> string) list res" where
  "declared_outputs h pl =
     (if \<not> uses_external h then Inr (map (\<lambda>p. (p, p)) (pl_outputs pl))
      else if pl_outputs pl = [] then Inr []
      else (case pl_mapped pl of
          None \<Rightarrow> Inl (RuntimeError ''cannot access local variable'') | Some ms \<Rightarrow> Inr (path_pairs ms)))"

definition text_items :: "string list \<Rightarrow> jval" where
  "text_items xs = JList (map JStr xs)"

text \<open>The parameters shown for approval.\<close>

definition approval_params :: "jdict \<Rightarrow> command_plan \<Rightarrow> jdict" where
  "approval_params ps pl =
     (let with_provider = (case pl_mapped pl of None \<Rightarrow> ps
            | Some ms \<Rightarrow> dict_set ''_provider_outputs'' (text_items (map rp_provider ms)) ps) in
      if pl_outputs pl = [] then with_provider
      else dict_set ''_resolved_outputs'' (text_items (pl_outputs pl)) with_provider)"

text \<open>The launch: revalidated, then the provider or the host agent.\<close>

definition shell_body ::
  "control_env \<Rightarrow> resolved_action \<Rightarrow> command_plan \<Rightarrow> jdict \<Rightarrow> string list \<Rightarrow> risk_level \<Rightarrow> bound_state \<Rightarrow> string option
     \<Rightarrow> op_outcome effect" where
  "shell_body H a pl node_params command risk b stdin w =
     (let h = w_host w in
      case validate_command_binding H h a (pl_argv pl) risk b of
        Inl e \<Rightarrow> (OpError (error_text e), w)
      | Inr (Some v) \<Rightarrow> (OpValue (Some v), w)
      | Inr None \<Rightarrow>
          if uses_external h then
            (if stdin \<noteq> None then
               (OpValue (Some (failure_value ''stdin forwarding is unavailable for the selected external provider'' [])), w)
             else body_of (step_bind (provider_execute H command (Some (ra_timeout a))
                 (if is_empty_context (pl_context pl) then None else Some (pl_context pl)))
               (\<lambda>out. step_return (Some (executed_value out)))) w)
          else agent_run H ''shell_command'' node_params (hc_scope h) (map_option snd (hc_policy h)) stdin w)"

text \<open>The command as it runs, with its executables in place, and the request that binds it.\<close>

definition final_command :: "command_plan \<Rightarrow> string list \<Rightarrow> resolved_executable list \<Rightarrow> string list" where
  "final_command pl resolved es = (case pl_provider_argv pl of
     Some pargv \<Rightarrow> fold put_executable es pargv | None \<Rightarrow> resolved)"

definition shell_request ::
  "host_state \<Rightarrow> jdict \<Rightarrow> command_plan \<Rightarrow> string list \<Rightarrow> risk_level \<Rightarrow> exec_identity \<Rightarrow> resolved_action \<Rightarrow> exec_request" where
  "shell_request h ps pl command risk identity a =
     (request_of ''shell_command'')\<lparr>xr_target := pl_target pl, xr_target_required := pl_target_required pl,
       xr_risk := risk, xr_params := approval_params ps pl, xr_command := CommandArgv command,
       xr_executor := executor_name_for h ''shell_command'', xr_identity := identity, xr_resolved := Some a,
       xr_dependency := ''shell_command'', xr_metadata := controller_metadata ''shell_command''\<rparr>"

definition ask_shell :: "control_env \<Rightarrow> capability \<Rightarrow> jdict \<Rightarrow> string option \<Rightarrow> command_plan \<Rightarrow> coordinated job" where
  "ask_shell H spec ps stdin pl =
     job_bind (resolve_executables H ''shell_command'' (pl_argv pl) (pl_target pl) (pl_target_required pl) None)
       (\<lambda>(resolved, es).
     job_bind job_host (\<lambda>h.
     job_bind (job_lift (declared_outputs h pl)) (\<lambda>outputs.
     job_bind (job_lift (resolved_command_action H h ''shell_command'' (final_command pl resolved es) (pl_argv pl) outputs
         (ex_cwd (pl_context pl)) (pl_target pl) False es)) (\<lambda>a.
     job_bind (job_lift (resolved_risk H h ''shell_command'' ps (ca_risk spec))) (\<lambda>base.
     job_bind (job_lift (command_identity H h a ''shell_command'')) (\<lambda>identity.
     let risk = raise_risk {UnknownEffect, NetworkEffect, SessionState} (Some a) base in
       coordinate H (shell_request h ps pl (final_command pl resolved es) risk identity a)
         (Some (body_of (recheck_executables H (ra_executables a))))
         (shell_body H a pl (dict_set ''argv'' (text_items resolved) ps) (final_command pl resolved es) risk (bind_state h)
           stdin)))))))"

text \<open>A command that cannot be planned is reported with its risk.\<close>

definition checked_plan ::
  "control_env \<Rightarrow> capability \<Rightarrow> jdict \<Rightarrow> host_state \<Rightarrow> command_policy \<Rightarrow> string list \<Rightarrow> string \<Rightarrow> bool \<Rightarrow> command_plan job" where
  "checked_plan H spec ps h c argv target needs = (case plan_command H h c argv target needs of
     Inr pl \<Rightarrow> job_return pl
   | Inl e \<Rightarrow> if \<not> refusal e then job_lift (Inl e)
       else job_bind (job_lift (resolved_risk H h ''shell_command'' ps (ca_risk spec))) (\<lambda>risk.
         job_bind (report_request H ((request_of ''shell_command'')\<lparr>xr_risk := risk, xr_params := ps,
           xr_command := CommandArgv argv, xr_executor := executor_name h, xr_blocked := error_text e,
           xr_metadata := controller_metadata ''shell_command''\<rparr>)) job_end))"

definition run_shell :: "control_env \<Rightarrow> capability \<Rightarrow> jdict \<Rightarrow> string option \<Rightarrow> coordinated job" where
  "run_shell H spec ps stdin =
     job_bind job_host (\<lambda>h. (case hc_policy h of
       None \<Rightarrow> report_request H ((request_of ''shell_command'')\<lparr>xr_risk := ca_risk spec, xr_params := ps, xr_executor := ''internal'',
           xr_blocked := ''no command policy in scope; shell command denied''\<rparr>)
     | Some (n, c) \<Rightarrow>
       job_bind (job_lift (resolve_argv (hv_render H) ps)) (\<lambda>argv.
       job_bind (job_lift (let t = py_str (hv_render H) (get_or ps ''target'' (JStr [])) in
           if t \<noteq> [] then Inr t else command_target argv)) (\<lambda>target.
       job_bind (job_lift (command_requires_target argv)) (\<lambda>needs.
       job_bind (checked_plan H spec ps h c argv target needs) (ask_shell H spec ps stdin))))))"

section \<open>The other capabilities\<close>

text \<open>The steps of a \<open>host_session\<close> are checked before it is asked for; their outputs are collected.\<close>

definition check_step :: "control_env \<Rightarrow> host_state \<Rightarrow> string list \<Rightarrow> string list res" where
  "check_step H h argv =
     res_bind (case hc_policy h of
         None \<Rightarrow> Inl (ScopeViolation ''no command policy in scope; session denied'')
       | Some (n, c) \<Rightarrow> policy_check c argv) (\<lambda>_.
     res_bind (command_requires_target argv) (\<lambda>network.
     res_bind (ensure (\<not> network) (ScopeViolation
       ''network commands are unavailable in host_session; use shell_command with an explicit target'')) (\<lambda>_.
     (let outputs = outputs_of H h (os_cwd (hv_os H)) argv in
      res_bind (iter_res (\<lambda>p. host_check H h p True) outputs) (\<lambda>_. Inr outputs)))))"

fun check_steps :: "control_env \<Rightarrow> host_state \<Rightarrow> string \<Rightarrow> jval list \<Rightarrow> string list job" where
  "check_steps H h capability [] = job_return []"
| "check_steps H h capability (v # vs) =
     job_bind (job_lift (step_argv (hv_render H) v)) (\<lambda>argv.
     job_bind (try_blocked H capability (check_step H h argv)) (\<lambda>outputs.
     job_bind (check_steps H h capability vs) (\<lambda>rest. job_return (outputs @ rest))))"

definition check_host_session :: "control_env \<Rightarrow> jdict \<Rightarrow> jdict job" where
  "check_host_session H ps =
     job_bind job_host (\<lambda>h.
     job_bind (job_lift (need_text ps ''commands'')) (\<lambda>commands.
     (case load_steps H commands of
        Some vs \<Rightarrow> job_bind (check_steps H h ''host_session'' vs) (\<lambda>outputs.
          job_return (if outputs = [] then ps else dict_set ''_resolved_outputs'' (text_items (sort (remdups outputs))) ps))
      | None \<Rightarrow> job_bind (blocked H ''host_session'' ''commands must be a JSON list of argument vectors'') job_end)))"

definition discovery_command :: "control_env \<Rightarrow> jdict \<Rightarrow> string list res" where
  "discovery_command H ps = res_bind (py_int (get_or ps ''limit'' (JInt 400))) (\<lambda>n.
     Inr [''provider-discovery'', py_str (hv_render H) (get_or ps ''query'' (JStr [])), show_int n])"

definition other_body :: "control_env \<Rightarrow> string \<Rightarrow> jdict \<Rightarrow> fs_scope \<Rightarrow> policy_object option \<Rightarrow> string option \<Rightarrow> op_outcome effect" where
  "other_body H capability ps scope policy stdin w =
     (if capability = ''list_tools'' \<and> uses_external (w_host w) then
        body_of (step_bind (step_lift (py_int (get_or ps ''limit'' (JInt 400)))) (\<lambda>n.
          step_bind (list_provider_tools H (py_str (hv_render H) (get_or ps ''query'' (JStr []))) n
              (py_str (hv_render H) (or_value (get_or ps ''exact'' (JStr [])) (JStr [])))) (\<lambda>v. step_return (Some v)))) w
      else agent_run H capability ps scope (map_option snd policy) stdin w)"

definition run_other :: "control_env \<Rightarrow> capability \<Rightarrow> string \<Rightarrow> jdict \<Rightarrow> string option \<Rightarrow> coordinated job" where
  "run_other H spec capability ps stdin =
     job_bind (if capability = ''host_session'' then check_host_session H ps else job_return ps) (\<lambda>approval.
     job_bind job_host (\<lambda>h.
     job_bind (job_lift (resolved_risk H h capability ps (ca_risk spec))) (\<lambda>risk.
     job_bind (if capability = ''list_tools'' \<and> uses_external h
         then job_bind (job_lift (discovery_command H ps)) (\<lambda>c. job_return (CommandArgv c))
         else job_return (CommandText [])) (\<lambda>command.
       coordinate H ((request_of capability)\<lparr>xr_risk := risk, xr_params := approval, xr_command := command,
           xr_executor := executor_name_for h capability, xr_dependency := capability,
           xr_metadata := controller_metadata capability\<rparr>)
         (Some no_operation) (other_body H capability ps (hc_scope h) (hc_policy h) stdin)))))"

text \<open>A capability outside the sessions: looked up, its parameters normalised, and run.\<close>

definition run_capability :: "control_env \<Rightarrow> string \<Rightarrow> jdict \<Rightarrow> string option \<Rightarrow> coordinated job" where
  "run_capability H capability params stdin =
     (case (map_of capabilities capability, capability \<in> set host_agent_capabilities) of
        (Some spec, True) \<Rightarrow> (case normalize_params spec params of
            Inl e \<Rightarrow> if \<not> refusal e then job_lift (Inl e)
              else report_request H ((request_of capability)\<lparr>xr_risk := ca_risk spec, xr_executor := ''internal'',
                xr_blocked := ''invalid parameters: '' @ error_text e, xr_metadata := controller_metadata capability\<rparr>)
          | Inr ps \<Rightarrow> if capability = ''shell_command'' then run_shell H spec ps stdin
              else run_other H spec capability ps stdin)
      | _ \<Rightarrow> report_request H ((request_of (if capability = [] then ''unknown_host_capability'' else capability))
          \<lparr>xr_blocked := ''unknown host capability: '' @ capability\<rparr>))"

end
