(* ===== verification/HostSessions.thy ===== *)
theory HostSessions
  imports HostControl
begin

text \<open>
  The stateful sessions of the host controller, \<open>_run_local_session\<close> and \<open>_run_provider_session\<close> of
  \<open>runtime/host_controller.py\<close>, and \<open>run\<close>, its entry. Session objects live in the stores of the
  controller's state: an operation holds the reference it started with, and before the launch compares it
  with the controller's current one and the object's fields with what was approved.
\<close>

section \<open>Objects\<close>

definition local_at :: "host_state \<Rightarrow> nat \<Rightarrow> local_session" where
  "local_at h r = hc_locals h ! r"

definition put_local :: "nat \<Rightarrow> local_session \<Rightarrow> host_state \<Rightarrow> host_state" where
  "put_local r s h = h\<lparr>hc_locals := (hc_locals h)[r := s]\<rparr>"

definition new_local :: "local_session \<Rightarrow> nat job" where
  "new_local s w = (Inr (length (hc_locals (w_host w))), [], w\<lparr>w_host := (w_host w)\<lparr>hc_locals := hc_locals (w_host w) @ [s]\<rparr>\<rparr>)"

definition remote_at :: "host_state \<Rightarrow> nat \<Rightarrow> provider_session" where
  "remote_at h r = hc_remotes h ! r"

definition put_remote :: "nat \<Rightarrow> provider_session \<Rightarrow> host_state \<Rightarrow> host_state" where
  "put_remote r s h = h\<lparr>hc_remotes := (hc_remotes h)[r := s]\<rparr>"

definition new_remote :: "provider_session \<Rightarrow> nat job" where
  "new_remote s w = (Inr (length (hc_remotes (w_host w))), [], w\<lparr>w_host := (w_host w)\<lparr>hc_remotes := hc_remotes (w_host w) @ [s]\<rparr>\<rparr>)"

definition step_update :: "(host_state \<Rightarrow> host_state) \<Rightarrow> unit step" where
  "step_update f w = (Inr (), w\<lparr>w_host := f (w_host w)\<rparr>)"

text \<open>A value that the body returns to the coordinator.\<close>

definition give :: "op_value \<Rightarrow> op_value option step" where
  "give v = step_return (Some v)"

definition give_result :: "control_env \<Rightarrow> jdict \<Rightarrow> op_value option step" where
  "give_result H data = give (agent_result (hv_render H) data)"

section \<open>Local sessions\<close>

definition requested_cwd :: "control_env \<Rightarrow> jdict \<Rightarrow> string" where
  "requested_cwd H ps = strip (py_str (hv_render H) (or_value (get_or ps ''cwd'' (JStr [])) (JStr [])))"

definition open_local_body :: "control_env \<Rightarrow> string \<Rightarrow> op_outcome effect" where
  "open_local_body H cwd = body_of (step_bind step_host (\<lambda>h. (case hc_policy h of
     None \<Rightarrow> give_result H (deny_fields ''no command policy in scope; session denied'')
   | Some policy \<Rightarrow>
       step_bind (step_lift (new_session (hv_os H) (hc_disk h) policy (Some (hc_scope h)) cwd None)) (\<lambda>s.
       step_bind (step_update (\<lambda>h. h\<lparr>hc_locals := hc_locals h @ [s], hc_local := Some (length (hc_locals h))\<rparr>)) (\<lambda>_.
         give_result H [(''ok'', JBool True), (''cwd'', JStr (hl_cwd s))])))))"

definition open_local :: "control_env \<Rightarrow> jdict \<Rightarrow> coordinated job" where
  "open_local H ps =
     (let cwd = requested_cwd H ps in
      job_bind job_host (\<lambda>h.
      if cwd \<noteq> [] \<and> \<not> fs_allows (host_res H h) (hc_scope h) cwd False then
        blocked H ''session_open'' (''path '' @ quoted cwd @ '' is outside the authorized read scope'')
      else coordinate H ((request_of ''session_open'')\<lparr>xr_risk := Read, xr_executor := ''internal'',
          xr_params := [(''cwd'', JStr cwd)], xr_metadata := controller_metadata ''session_open''\<rparr>)
        None (open_local_body H cwd)))"

definition close_local_body :: "control_env \<Rightarrow> op_outcome effect" where
  "close_local_body H = body_of (step_bind step_host (\<lambda>h.
     let (cwd, n) = (case hc_local h of None \<Rightarrow> ([], 0)
         | Some r \<Rightarrow> (hl_cwd (local_at h r), length (hl_transcript (local_at h r)))) in
     step_bind (step_update (\<lambda>h. h\<lparr>hc_local := None\<rparr>)) (\<lambda>_.
       give_result H [(''ok'', JBool True), (''cwd'', JStr cwd), (''commands_run'', JInt (int n))])))"

definition close_local :: "control_env \<Rightarrow> coordinated job" where
  "close_local H = coordinate H ((request_of ''session_close'')\<lparr>xr_risk := Read, xr_executor := ''internal'',
     xr_metadata := controller_metadata ''session_close''\<rparr>) None (close_local_body H)"

text \<open>The directory that \<open>cd\<close> would enter.\<close>

definition next_dir :: "control_env \<Rightarrow> host_state \<Rightarrow> string \<Rightarrow> string list \<Rightarrow> string res" where
  "next_dir H h cwd argv = (case host_res H h (path_join cwd (cd_argument argv)) of
     None \<Rightarrow> Inl (OSError cwd) | Some q \<Rightarrow> Inr (path_text q))"

definition session_network :: "string list \<Rightarrow> unit res" where
  "session_network argv =
     res_bind (command_requires_target argv) (\<lambda>network.
       ensure (\<not> network) (ScopeViolation
         ''network commands are unavailable in session_exec; use shell_command with an explicit target''))"

definition plan_local ::
  "control_env \<Rightarrow> host_state \<Rightarrow> policy_object \<Rightarrow> local_session \<Rightarrow> string list \<Rightarrow> (string \<times> string list) res" where
  "plan_local H h policy s argv =
     (let cwd = hl_cwd s; is_cd = (hd argv = ''cd'') in
      res_bind (ensure (fst (hl_policy s) = fst policy)
        (ScopeViolation ''session command policy changed; reopen the session'')) (\<lambda>_.
      res_bind (policy_check (snd policy) argv) (\<lambda>_.
      res_bind (session_network argv) (\<lambda>_.
      res_bind (host_check H h cwd False) (\<lambda>_.
      res_bind (ensure (\<not> (is_cd \<and> 2 < length argv)) (ValueError ''cd accepts at most one path'')) (\<lambda>_.
      res_bind (if is_cd then next_dir H h cwd argv else Inr []) (\<lambda>next_cwd.
      res_bind (if next_cwd = [] then Inr ()
          else res_bind (host_check H h next_cwd False) (\<lambda>_.
            ensure (dir_at (hv_os H) (hc_disk h) next_cwd \<noteq> None) (ValueError (''not a directory: '' @ next_cwd)))) (\<lambda>_.
      (let outputs = outputs_of H h cwd argv in
       res_bind (iter_res (\<lambda>p. host_check H h p True) outputs) (\<lambda>_. Inr (next_cwd, outputs)))))))))))"

text \<open>What a session command was approved with.\<close>

record local_plan =
  lo_ref :: nat
  lo_policy :: policy_object
  lo_argv :: "string list"
  lo_cwd :: string
  lo_env :: "(string, string) dict"
  lo_next :: string
  lo_outputs :: "string list"

definition session_changed :: "control_env \<Rightarrow> host_state \<Rightarrow> local_plan \<Rightarrow> bool" where
  "session_changed H h lp =
     (let s = local_at h (lo_ref lp) in
      map_option fst (hc_policy h) \<noteq> Some (fst (lo_policy lp)) \<or> fst (hl_policy s) \<noteq> fst (lo_policy lp)
      \<or> (hc_local h \<noteq> None \<and> hc_local h \<noteq> Some (lo_ref lp))
      \<or> hl_cwd s \<noteq> lo_cwd lp \<or> hl_env s \<noteq> lo_env lp
      \<or> (lo_next lp \<noteq> [] \<and> next_dir H h (lo_cwd lp) (lo_argv lp) \<noteq> Inr (lo_next lp)))"

definition recheck_local :: "control_env \<Rightarrow> host_state \<Rightarrow> local_plan \<Rightarrow> unit res" where
  "recheck_local H h lp =
     res_bind (case hc_policy h of None \<Rightarrow> Inr () | Some (n, c) \<Rightarrow> policy_check c (lo_argv lp)) (\<lambda>_.
     res_bind (host_check H h (lo_cwd lp) False) (\<lambda>_.
     res_bind (if lo_next lp = [] then Inr () else host_check H h (lo_next lp) False) (\<lambda>_.
       iter_res (\<lambda>p. host_check H h p True) (lo_outputs lp))))"

definition exec_local_body :: "control_env \<Rightarrow> local_plan \<Rightarrow> string list \<Rightarrow> op_outcome effect" where
  "exec_local_body H lp command = body_of (step_bind step_host (\<lambda>h.
     if session_changed H h lp then give (failure_value ''session_context_changed'' [])
     else (case recheck_local H h lp of
         Inl e \<Rightarrow> if refusal e then give (failure_value (error_text e) []) else step_lift (Inl e)
       | Inr _ \<Rightarrow>
           step_bind (step_update (\<lambda>h. h\<lparr>hc_local := Some (lo_ref lp)\<rparr>)) (\<lambda>_.
           (case run_in_session (hv_os H) command (local_at h (lo_ref lp), hc_disk h) of
              (r, s, d) \<Rightarrow> step_bind (step_update (\<lambda>h. (put_local (lo_ref lp) s h)\<lparr>hc_disk := d\<rparr>)) (\<lambda>_.
                step_bind (step_lift r) (give_result H)))))))"

definition session_of :: "control_env \<Rightarrow> host_state \<Rightarrow> policy_object \<Rightarrow> nat job" where
  "session_of H h policy = (case hc_local h of
     Some r \<Rightarrow> job_return r
   | None \<Rightarrow> job_bind (job_lift (new_session (hv_os H) (hc_disk h) policy (Some (hc_scope h)) [] None)) new_local)"

definition exec_local :: "control_env \<Rightarrow> jdict \<Rightarrow> coordinated job" where
  "exec_local H ps =
     job_bind (job_lift (resolve_argv (hv_render H) ps)) (\<lambda>argv.
     if argv = [] then report_request H ((request_of ''session_exec'')\<lparr>xr_executor := ''internal'', xr_blocked := ''empty command''\<rparr>)
     else job_bind job_host (\<lambda>h. (case hc_policy h of
       None \<Rightarrow> blocked H ''session_exec'' ''no command policy in scope; session denied''
     | Some policy \<Rightarrow>
       job_bind (session_of H h policy) (\<lambda>r.
       job_bind job_host (\<lambda>h.
       let s = local_at h r; is_cd = (hd argv = ''cd'') in
       job_bind (try_blocked H ''session_exec'' (plan_local H h policy s argv)) (\<lambda>(next_cwd, outputs).
       job_bind (if is_cd then job_return (argv, []) else resolve_executables H ''session_exec'' argv [] False (Some (hl_env s)))
         (\<lambda>(command, es).
       job_bind job_host (\<lambda>h.
       job_bind (job_lift (resolved_command_action H h ''session_exec'' command argv (map (\<lambda>p. (p, p)) outputs)
           (hl_cwd s) [] is_cd es)) (\<lambda>a.
       job_bind (job_lift (resolved_risk H h ''session_exec'' [(''argv'', text_items argv)] Write)) (\<lambda>base.
       job_bind (job_lift (command_identity H h a ''session_exec'')) (\<lambda>identity.
       coordinate H ((request_of ''session_exec'')\<lparr>xr_risk := raise_risk {UnknownEffect, SessionState} (Some a) base,
           xr_executor := executor_name h,
           xr_params := [(''argv'', text_items argv), (''_resolved_cwd'', JStr (hl_cwd s)),
               (''_environment_sha256'', JStr (hk_env_digest H (hl_env s)))]
             @ (if next_cwd = [] then [] else [(''_next_cwd'', JStr next_cwd)])
             @ (if outputs = [] then [] else [(''_resolved_outputs'', text_items outputs)]),
           xr_command := CommandArgv command, xr_identity := identity, xr_resolved := Some a,
           xr_metadata := controller_metadata ''session_exec''\<rparr>)
         (Some (body_of (recheck_executables H (ra_executables a))))
         (exec_local_body H \<lparr>lo_ref = r, lo_policy = policy, lo_argv = argv, lo_cwd = hl_cwd s, lo_env = hl_env s,
           lo_next = next_cwd, lo_outputs = outputs\<rparr> command))))))))))))"

definition run_local_session :: "control_env \<Rightarrow> string \<Rightarrow> jdict \<Rightarrow> coordinated job" where
  "run_local_session H capability ps =
     (if capability = ''session_open'' then open_local H ps
      else if capability = ''session_close'' then close_local H else exec_local H ps)"

section \<open>Provider sessions\<close>

text \<open>The directory a session starts in: the requested one, the current one, or the first root in scope.\<close>

definition first_root :: "fs_scope \<Rightarrow> string res" where
  "first_root s = (case fst (scope_roots s) @ snd (scope_roots s) of
     [] \<Rightarrow> Inl (ScopeViolation ''no authorized filesystem root is available for the session'') | r # _ \<Rightarrow> Inr r)"

definition resolved_text :: "control_env \<Rightarrow> host_state \<Rightarrow> string \<Rightarrow> string res" where
  "resolved_text H h p = (case host_res H h p of None \<Rightarrow> Inl (OSError p) | Some q \<Rightarrow> Inr (path_text q))"

definition session_host_cwd :: "control_env \<Rightarrow> host_state \<Rightarrow> string \<Rightarrow> string res" where
  "session_host_cwd H h requested =
     res_bind (if requested \<noteq> [] then resolved_text H h requested
         else res_bind (resolved_text H h (os_cwd (hv_os H))) (\<lambda>current.
           if fs_allows (host_res H h) (hc_scope h) current False then Inr current
           else res_bind (first_root (hc_scope h)) (resolved_text H h))) (\<lambda>candidate.
     res_bind (host_check H h candidate False) (\<lambda>_. Inr candidate))"

definition provider_dir :: "control_env \<Rightarrow> host_state \<Rightarrow> string \<Rightarrow> string res" where
  "provider_dir H h cwd = res_bind (map_host_path H h cwd False) (\<lambda>m. Inr (rp_provider m))"

definition executor_of :: "host_state \<Rightarrow> provider res" where
  "executor_of h = (case hc_executor h of None \<Rightarrow> Inl (TypeError ''no executor'') | Some (n, p) \<Rightarrow> Inr p)"

definition pending_session :: "control_env \<Rightarrow> host_state \<Rightarrow> string \<Rightarrow> provider_session res" where
  "pending_session H h cwd =
     res_bind (validate_context (hk_win_abs H) (empty_context\<lparr>ex_cwd := cwd\<rparr>)) (\<lambda>c.
     res_bind (executor_of h) (\<lambda>p. open_session (hk_win_abs H) p (hk_session_id H (length (hc_remotes h))) (Some c)))"

definition session_fields :: "provider_session \<Rightarrow> string \<Rightarrow> string \<Rightarrow> jdict" where
  "session_fields s cwd provider_cwd = [(''session_id'', JStr (ps_id s)), (''provider'', JStr (ps_provider s)),
     (''cwd'', JStr cwd), (''provider_cwd'', JStr provider_cwd)]"

definition open_remote :: "control_env \<Rightarrow> jdict \<Rightarrow> coordinated job" where
  "open_remote H ps = job_bind job_host (\<lambda>h.
     if hc_remote h \<noteq> None then blocked H ''session_open'' ''a provider session is already open; close it before opening another''
     else job_bind (try_blocked H ''session_open'' (
         res_bind (session_host_cwd H h (requested_cwd H ps)) (\<lambda>cwd.
         res_bind (provider_dir H h cwd) (\<lambda>dir.
         res_bind (pending_session H h dir) (\<lambda>s. Inr (cwd, dir, s)))))) (\<lambda>(cwd, dir, s).
       job_bind (new_remote s) (\<lambda>r.
       coordinate H ((request_of ''session_open'')\<lparr>xr_risk := Read, xr_executor := executor_name h,
           xr_params := session_fields s cwd dir, xr_metadata := controller_metadata ''session_open''\<rparr>) None
         (body_of (step_bind (step_update (\<lambda>h. h\<lparr>hc_remote := Some r, hc_remote_cwd := cwd\<rparr>)) (\<lambda>_.
           give_result H ((''ok'', JBool True) # session_fields s cwd dir)))))))"

definition close_remote_body :: "control_env \<Rightarrow> nat option \<Rightarrow> op_outcome effect" where
  "close_remote_body H ref = body_of (step_bind step_host (\<lambda>h.
     step_bind (case ref of
         None \<Rightarrow> step_return [(''session_id'', JStr []), (''provider'', JStr (executor_name h)), (''cwd'', JStr []),
             (''provider_cwd'', JStr []), (''commands_run'', JInt 0)]
       | Some r \<Rightarrow>
           (let s = remote_at h r in
            step_bind (step_lift (res_bind (executor_of h) (\<lambda>p. close_provider_session (hk_win_abs H) p s))) (\<lambda>(summary, s').
            step_bind (step_update (put_remote r s')) (\<lambda>_.
              step_return (session_fields s (hc_remote_cwd h) (text_of (field summary ''cwd''))
                @ [(''commands_run'', field summary ''commands_run'')]))))) (\<lambda>fields.
     step_bind (step_update (\<lambda>h. h\<lparr>hc_remote := None, hc_remote_cwd := []\<rparr>)) (\<lambda>_.
       give_result H ((''ok'', JBool True) # fields)))))"

definition close_remote :: "control_env \<Rightarrow> coordinated job" where
  "close_remote H = job_bind job_host (\<lambda>h.
     coordinate H ((request_of ''session_close'')\<lparr>xr_risk := Read, xr_executor := executor_name h,
         xr_params := (''provider'', JStr (executor_name h)) # (case hc_remote h of None \<Rightarrow> []
           | Some r \<Rightarrow> [(''session_id'', JStr (ps_id (remote_at h r))), (''cwd'', JStr (hc_remote_cwd h)),
               (''provider_cwd'', JStr (ex_cwd (ps_context (remote_at h r))))]),
         xr_metadata := controller_metadata ''session_close''\<rparr>) None (close_remote_body H (hc_remote h)))"

text \<open>
  The session a command runs in: the one that is open, whose directory must still map to its context,
  or a fresh one.
\<close>

definition remote_session :: "control_env \<Rightarrow> host_state \<Rightarrow> (string \<times> provider_session) res" where
  "remote_session H h = (case hc_remote h of
     None \<Rightarrow>
       res_bind (session_host_cwd H h []) (\<lambda>cwd.
       res_bind (provider_dir H h cwd) (\<lambda>dir.
       res_bind (pending_session H h dir) (\<lambda>s. Inr (cwd, s))))
   | Some r \<Rightarrow>
       (let s = remote_at h r; cwd = hc_remote_cwd h in
        res_bind (host_check H h cwd False) (\<lambda>_.
        res_bind (provider_dir H h cwd) (\<lambda>dir.
        res_bind (ensure (dir = ex_cwd (ps_context s))
          (ValueError ''provider path mapping changed after the session was opened'')) (\<lambda>_.
        res_bind (executor_of h) (\<lambda>p.
        res_bind (prepare_session_context (hk_win_abs H) p s None) (\<lambda>_. Inr (cwd, s))))))))"

definition plan_remote ::
  "control_env \<Rightarrow> host_state \<Rightarrow> command_policy \<Rightarrow> string list \<Rightarrow> (string \<times> provider_session \<times> resolved_path list) res" where
  "plan_remote H h c argv =
     res_bind (policy_check c argv) (\<lambda>_.
     res_bind (session_network argv) (\<lambda>_.
     res_bind (remote_session H h) (\<lambda>(cwd, s).
     (let outputs = outputs_of H h cwd argv in
      res_bind (iter_res (\<lambda>p. host_check H h p True) outputs) (\<lambda>_.
      res_bind (map_res (\<lambda>p. map_host_path H h p True) outputs) (\<lambda>ms. Inr (cwd, s, ms)))))))"

text \<open>The command as the provider gets it, its context, and for \<open>cd\<close> the directory and context to come.\<close>

record remote_plan =
  re_ref :: nat
  re_existing :: bool
  re_argv :: "string list"
  re_cwd :: string
  re_bound :: exec_context
  re_context :: exec_context
  re_command :: "string list"
  re_next :: "(string \<times> exec_context) option"
  re_params :: jdict

definition plan_cd ::
  "control_env \<Rightarrow> host_state \<Rightarrow> provider_session \<Rightarrow> string \<Rightarrow> string list \<Rightarrow> (string \<times> exec_context) res" where
  "plan_cd H h s cwd argv =
     res_bind (next_dir H h cwd argv) (\<lambda>next_cwd.
     res_bind (host_check H h next_cwd False) (\<lambda>_.
     res_bind (provider_dir H h next_cwd) (\<lambda>dir.
     res_bind (validate_context (hk_win_abs H) \<lparr>ex_cwd = dir, ex_env = ex_env (ps_context s), ex_outputs = []\<rparr>) (\<lambda>c.
       Inr (next_cwd, c)))))"

definition remote_context :: "control_env \<Rightarrow> provider_session \<Rightarrow> string list \<Rightarrow> exec_context res" where
  "remote_context H s outputs = validate_context (hk_win_abs H)
     \<lparr>ex_cwd = ex_cwd (ps_context s), ex_env = ex_env (ps_context s), ex_outputs = outputs\<rparr>"

definition remote_params :: "provider_session \<Rightarrow> string list \<Rightarrow> string \<Rightarrow> jdict" where
  "remote_params s argv cwd = [(''argv'', text_items argv), (''session_id'', JStr (ps_id s)),
     (''provider'', JStr (ps_provider s)), (''_host_cwd'', JStr cwd), (''_provider_cwd'', JStr (ex_cwd (ps_context s)))]"

definition shape_remote ::
  "control_env \<Rightarrow> host_state \<Rightarrow> nat \<Rightarrow> bool \<Rightarrow> provider_session \<Rightarrow> string \<Rightarrow> string list \<Rightarrow> resolved_path list
     \<Rightarrow> remote_plan job" where
  "shape_remote H h r existing s cwd argv ms =
     job_bind (job_lift (remote_context H s [])) (\<lambda>plain.
     let rp = \<lparr>re_ref = r, re_existing = existing, re_argv = argv, re_cwd = cwd, re_bound = ps_context s, re_context = plain,
           re_command = argv, re_next = None, re_params = remote_params s argv cwd\<rparr> in
     if path_name (hd argv) = ''cd'' then
       (if 2 < length argv then job_bind (blocked H ''session_exec'' ''cd accepts at most one path argument'') job_end
        else job_bind (try_blocked H ''session_exec'' (plan_cd H h s cwd argv)) (\<lambda>(next_cwd, c).
          job_return (rp\<lparr>re_command := [''/usr/bin/test'', ''-d'', ex_cwd c], re_next := Some (next_cwd, c),
            re_params := re_params rp @ [(''_next_host_cwd'', JStr next_cwd), (''_next_provider_cwd'', JStr (ex_cwd c))]\<rparr>)))
     else if ms \<noteq> [] then
       job_bind (job_lift (remote_context H s (map rp_provider ms))) (\<lambda>c.
         job_return (rp\<lparr>re_command := rewrite_command_output_paths (out_at (hv_os H) (hc_disk h) cwd) cwd
             (path_pairs (rev ms)) argv, re_context := c,
           re_params := re_params rp @ [(''_resolved_outputs'', text_items (map rp_host ms)),
             (''_provider_outputs'', text_items (map rp_provider ms))]\<rparr>))
     else job_return rp)"

text \<open>What must still hold of the session when the command is launched.\<close>

definition remote_unchanged :: "control_env \<Rightarrow> host_state \<Rightarrow> remote_plan \<Rightarrow> unit res" where
  "remote_unchanged H h rp =
     (let s = remote_at h (re_ref rp) in
      res_bind (ensure (hc_remote h = (if re_existing rp then Some (re_ref rp) else None)
          \<and> ps_context s = re_bound rp \<and> (re_existing rp \<longrightarrow> hc_remote_cwd h = re_cwd rp))
        (ScopeViolation ''provider session changed before launch'')) (\<lambda>_.
      res_bind (host_check H h (re_cwd rp) False) (\<lambda>_.
      res_bind (case re_next rp of None \<Rightarrow> Inr () | Some (dir, c) \<Rightarrow> host_check H h dir False) (\<lambda>_.
      res_bind (provider_dir H h (re_cwd rp)) (\<lambda>dir.
      res_bind (ensure (dir = ex_cwd (re_context rp)) (ScopeViolation ''provider working directory mapping changed'')) (\<lambda>_.
      res_bind (executor_of h) (\<lambda>p.
      res_bind (prepare_session_context (hk_win_abs H) p s (Some (re_context rp))) (\<lambda>_. Inr ()))))))))"

text \<open>\<open>execute_session\<close>: the object is read before the command and noted after it.\<close>

definition execute_session :: "control_env \<Rightarrow> nat \<Rightarrow> string list \<Rightarrow> int \<Rightarrow> exec_context \<Rightarrow> exec_outcome step" where
  "execute_session H r command timeout c =
     step_bind step_host (\<lambda>h.
     step_bind (step_lift (res_bind (executor_of h) (\<lambda>p. start_session_command (hk_win_abs H) p (remote_at h r) (Some c)))) (\<lambda>c'.
     step_bind (provider_execute H command (Some timeout) (Some c')) (\<lambda>out.
     step_bind (step_update (\<lambda>h. put_remote r (note_session_command (command_display (CommandArgv command)) c' out (remote_at h r)) h))
       (\<lambda>_. step_return out))))"

definition provider_session_result :: "control_env \<Rightarrow> exec_outcome \<Rightarrow> provider_session \<Rightarrow> string \<Rightarrow> op_value option step" where
  "provider_session_result H out s cwd =
     (let said = (if eo_error out \<noteq> [] then eo_error out else eo_stderr out);
          error = (if \<not> eo_success out \<and> said = [] then ''provider command exited with status '' @ show_int (eo_exit out) else said) in
      give_result H ([(''ok'', JBool (eo_success out)), (''error'', JStr error)]
        @ session_fields s cwd (ex_cwd (ps_context s))
        @ [(''stdout'', JStr (eo_stdout out)), (''stderr'', JStr (eo_stderr out)), (''exit_code'', JInt (eo_exit out)),
           (''timed_out'', JBool (eo_timed_out out))]))"

definition exec_remote_body ::
  "control_env \<Rightarrow> resolved_action \<Rightarrow> remote_plan \<Rightarrow> string list \<Rightarrow> risk_level \<Rightarrow> bound_state \<Rightarrow> op_outcome effect" where
  "exec_remote_body H a rp command risk b = body_of (step_bind step_host (\<lambda>h.
     step_bind (step_lift (validate_command_binding H h a (re_argv rp) risk b)) (\<lambda>failure. (case failure of
       Some v \<Rightarrow> give v
     | None \<Rightarrow> (case remote_unchanged H h rp of
         Inl e \<Rightarrow> if refusal e then give (failure_value ''provider session restrictions changed before launch'' [])
           else step_lift (Inl e)
       | Inr _ \<Rightarrow>
           step_bind (step_update (\<lambda>h. if re_existing rp then h else h\<lparr>hc_remote := Some (re_ref rp), hc_remote_cwd := re_cwd rp\<rparr>)) (\<lambda>_.
           step_bind (execute_session H (re_ref rp) command (ra_timeout a) (re_context rp)) (\<lambda>out.
           step_bind (case re_next rp of
               Some (dir, c) \<Rightarrow> if eo_success out then
                   step_bind step_host (\<lambda>h.
                   step_bind (step_lift (res_bind (executor_of h) (\<lambda>p.
                       update_session_context (hk_win_abs H) p c (remote_at h (re_ref rp))))) (\<lambda>s.
                     step_update (\<lambda>h. (put_remote (re_ref rp) s h)\<lparr>hc_remote_cwd := dir\<rparr>)))
                 else step_return ()
             | None \<Rightarrow> step_return ()) (\<lambda>_.
           step_bind step_host (\<lambda>h.
             provider_session_result H out (remote_at h (re_ref rp)) (hc_remote_cwd h))))))))))"

definition exec_remote :: "control_env \<Rightarrow> jdict \<Rightarrow> command_policy \<Rightarrow> coordinated job" where
  "exec_remote H ps c =
     job_bind (job_lift (resolve_argv (hv_render H) ps)) (\<lambda>argv.
     if argv = [] then blocked H ''session_exec'' ''empty command''
     else job_bind job_host (\<lambda>h.
       job_bind (try_blocked H ''session_exec'' (plan_remote H h c argv)) (\<lambda>(cwd, s, ms).
       job_bind (case hc_remote h of Some r \<Rightarrow> job_return (r, True) | None \<Rightarrow> job_bind (new_remote s) (\<lambda>r. job_return (r, False)))
         (\<lambda>(r, existing).
       job_bind (shape_remote H h r existing s cwd argv ms) (\<lambda>rp.
       job_bind (resolve_executables H ''session_exec'' (re_command rp) [] False None) (\<lambda>(command, es).
       job_bind job_host (\<lambda>h.
       job_bind (job_lift (resolved_risk H h ''session_exec'' [(''argv'', text_items argv)] Write)) (\<lambda>base.
       job_bind (job_lift (resolved_command_action H h ''session_exec'' command argv (path_pairs ms)
           (ex_cwd (re_context rp)) [] (re_next rp \<noteq> None) es)) (\<lambda>a.
       job_bind (job_lift (command_identity H h a ''session_exec'')) (\<lambda>identity.
       let risk = raise_risk {UnknownEffect, SessionState} (Some a) base in
       coordinate H ((request_of ''session_exec'')\<lparr>xr_risk := risk, xr_executor := executor_name h, xr_params := re_params rp,
           xr_command := CommandArgv command, xr_identity := identity, xr_resolved := Some a,
           xr_metadata := controller_metadata ''session_exec'' @ [(''session_id'', JStr (ps_id s))]\<rparr>)
         (Some (body_of (recheck_executables H (ra_executables a))))
         (exec_remote_body H a rp command risk (bind_state h))))))))))))"

definition run_provider_session :: "control_env \<Rightarrow> string \<Rightarrow> jdict \<Rightarrow> coordinated job" where
  "run_provider_session H capability ps = job_bind job_host (\<lambda>h.
     if hc_executor h = None then blocked H capability ''execution provider is unavailable''
     else (case hc_policy h of
         None \<Rightarrow> blocked H capability ''no command policy in scope; session denied''
       | Some (n, c) \<Rightarrow>
           if capability = ''session_open'' then open_remote H ps
           else if capability = ''session_close'' then close_remote H else exec_remote H ps c))"

section \<open>The entry\<close>

definition session_capabilities :: "string list" where
  "session_capabilities = [''session_open'', ''session_exec'', ''session_close'']"

definition run_session :: "control_env \<Rightarrow> string \<Rightarrow> capability \<Rightarrow> jdict \<Rightarrow> coordinated job" where
  "run_session H capability spec params = (case normalize_params spec params of
     Inl e \<Rightarrow> if refusal e then blocked H capability (''invalid parameters: '' @ error_text e) else job_lift (Inl e)
   | Inr ps \<Rightarrow> job_bind job_host (\<lambda>h. (case hc_executor h of
       Some (n, p) \<Rightarrow>
         if pv_name p = ''local'' then run_local_session H capability ps
         else if \<not> ep_sessions (pv_caps p) then
           blocked H capability (''provider '' @ pv_name p @ '' does not support stateful sessions; no local fallback was used'')
         else run_provider_session H capability ps
     | None \<Rightarrow> run_local_session H capability ps)))"

text \<open>\<open>run\<close>: how it ends, what it launched, and the world it leaves.\<close>

definition run_host ::
  "control_env \<Rightarrow> string \<Rightarrow> jdict \<Rightarrow> string option \<Rightarrow> world \<Rightarrow> (py_error + execution) \<times> launched list \<times> world" where
  "run_host H capability params stdin w =
     (case (case (capability \<in> set session_capabilities, map_of capabilities capability) of
         (True, Some spec) \<Rightarrow> run_session H capability spec params
       | _ \<Rightarrow> run_capability H capability params stdin) w of
        (Inl (Raised e), ls, w1) \<Rightarrow> (Inl e, ls, w1)
      | (Inl (Finished x), ls, w1) \<Rightarrow> (Inr x, ls, w1)
      | (Inr res, ls, w1) \<Rightarrow> (Inr (Returned res), ls, w1))"

end
