(* ===== verification/HostProps.thy ===== *)
theory HostProps
  imports HostSessions
begin

text \<open>
  What the host controller guarantees, whatever the callbacks, the provider calls and the human do in
  between: which requests it launches and what they carry. Two calculi compose the parts of the
  controller, one for what its methods may launch, one for checks whose refusals say why; a command that
  is taken through every step shows that the guarantees can hold.
\<close>

named_theorems job_rules \<open>rules for what a method launches\<close>

section \<open>What a method launches\<close>

definition job_all :: "(launched \<Rightarrow> bool) \<Rightarrow> 'a job \<Rightarrow> bool" where
  "job_all P m \<longleftrightarrow> (\<forall>w x ls w'. m w = (x, ls, w') \<longrightarrow> (\<forall>l \<in> set ls. P l))"

lemma job_allD: "job_all P m \<Longrightarrow> m w = (x, ls, w') \<Longrightarrow> l \<in> set ls \<Longrightarrow> P l"
  by (auto simp: job_all_def)

lemma job_all_simple [job_rules]:
  "job_all P (job_return x)" "job_all P (job_lift r)" "job_all P (job_end res)" "job_all P job_host"
  "job_all P (job_update f)" "job_all P (new_local s)" "job_all P (new_remote s')"
  by (auto simp: job_all_def job_return_def job_lift_def job_end_def job_host_def job_update_def new_local_def
      new_remote_def split: sum.splits)

lemma job_all_bind [job_rules]:
  assumes "job_all P m" "\<And>x. job_all P (f x)"
  shows "job_all P (job_bind m f)"
  unfolding job_all_def
proof (intro allI impI ballI)
  fix w x ls w' l assume r: "job_bind m f w = (x, ls, w')" and l: "l \<in> set ls"
  obtain y ms w1 where m: "m w = (y, ms, w1)" by (metis prod_cases3)
  show "P l"
  proof (cases y)
    case (Inl s)
    with r l m job_allD [OF assms(1) m] show ?thesis by (auto simp: job_bind_def)
  next
    case (Inr z)
    obtain v ns w2 where f: "f z w1 = (v, ns, w2)" by (metis prod_cases3)
    with r l m Inr job_allD [OF assms(1) m] job_allD [OF assms(2) f] show ?thesis by (auto simp: job_bind_def)
  qed
qed

lemma job_all_if [job_rules]:
  "(b \<Longrightarrow> job_all P m) \<Longrightarrow> (\<not> b \<Longrightarrow> job_all P n) \<Longrightarrow> job_all P (if b then m else n)"
  by simp

lemma job_all_option [job_rules]:
  "(x = None \<Longrightarrow> job_all P m) \<Longrightarrow> (\<And>y. x = Some y \<Longrightarrow> job_all P (f y)) \<Longrightarrow> job_all P (case x of None \<Rightarrow> m | Some y \<Rightarrow> f y)"
  by (cases x) auto

lemma job_all_sum [job_rules]:
  "(\<And>e. x = Inl e \<Longrightarrow> job_all P (f e)) \<Longrightarrow> (\<And>y. x = Inr y \<Longrightarrow> job_all P (g y)) \<Longrightarrow> job_all P (case x of Inl e \<Rightarrow> f e | Inr y \<Rightarrow> g y)"
  by (cases x) auto

lemma job_all_prod [job_rules]: "(\<And>a b. job_all P (f a b)) \<Longrightarrow> job_all P (case x of (a, b) \<Rightarrow> f a b)"
  by (cases x) auto

lemma job_all_lift_bind:
  assumes "\<And>x. r = Inr x \<Longrightarrow> job_all P (f x)"
  shows "job_all P (job_bind (job_lift r) f)"
  unfolding job_all_def
proof (intro allI impI ballI)
  fix w x ls w' l assume "job_bind (job_lift r) f w = (x, ls, w')" "l \<in> set ls"
  then show "P l" using job_allD [OF assms]
    by (cases r) (auto simp: job_bind_def job_lift_def split: prod.splits)
qed

text \<open>A request that is blocked, or whose dependency is missing, launches nothing.\<close>

lemma with_expiry_blocked [simp]: "xr_blocked (w_request (with_expiry S w)) = xr_blocked (w_request w)"
  "xr_dependency_ok (w_request (with_expiry S w)) = xr_dependency_ok (w_request w)"
  by (auto simp: with_expiry_def now_def)

lemma execute_blocked:
  assumes "xr_blocked (w_request w) \<noteq> [] \<or> \<not> xr_dependency_ok (w_request w)" "execute S w = ((x, ls), w')"
  shows "ls = [] \<and> (\<exists>res. x = Returned res \<and> \<not> co_success res)"
proof -
  have "\<exists>why. preflight S (w_request (with_expiry S w)) = Some why" using assms(1) by (auto simp: preflight_def)
  with assms(2) show ?thesis by (auto simp: execute_def Let_def split: prod.splits dest: finish_result)
qed

lemma report_blocked:
  assumes "xr_blocked r \<noteq> [] \<or> \<not> xr_dependency_ok r" "report_request H r w = (x, ls, w')"
  shows "ls = [] \<and> (\<forall>res. x = Inr res \<longrightarrow> \<not> co_success res)"
proof (cases "validate_request r")
  case (Inl e)
  with assms(2) show ?thesis by (auto simp: report_request_def coordinate_def)
next
  case (Inr u)
  let ?w = "w\<lparr>w_request := r, w_host := (w_host w)\<lparr>hc_requests := Suc (hc_requests (w_host w))\<rparr>\<rparr>"
    and ?S = "(hk_services H)\<lparr>sv_id := hk_request_id H (hc_requests (w_host w)), sv_prepare := None, sv_operation := no_operation\<rparr>"
  obtain y ms w1 where e: "execute ?S ?w = ((y, ms), w1)" by (metis surj_pair)
  from execute_blocked [OF _ e] assms(1) have "ms = [] \<and> (\<exists>res. y = Returned res \<and> \<not> co_success res)" by simp
  with e assms(2) Inr show ?thesis by (auto simp: report_request_def coordinate_def Let_def)
qed

lemma job_all_report: "xr_blocked r \<noteq> [] \<or> \<not> xr_dependency_ok r \<Longrightarrow> job_all P (report_request H r)"
  unfolding job_all_def using report_blocked by fastforce

lemma job_all_blocked [job_rules]: "reason \<noteq> [] \<Longrightarrow> job_all P (blocked H capability reason)"
  by (auto simp: blocked_def intro!: job_all_bind job_all_report job_rules)

text \<open>A refusal says why, so that the request that reports it is blocked.\<close>

definition spoken :: "'a res \<Rightarrow> bool" where
  "spoken r \<longleftrightarrow> (\<forall>e. r = Inl e \<and> refusal e \<longrightarrow> error_text e \<noteq> [])"

named_theorems spoken_rules \<open>checks whose refusals say why\<close>

lemma spoken_Inr [spoken_rules]: "spoken (Inr x)"
  by (simp add: spoken_def)

lemma spoken_Inl [spoken_rules]: "refusal e \<longrightarrow> error_text e \<noteq> [] \<Longrightarrow> spoken (Inl e)"
  by (simp add: spoken_def)

lemma spoken_ensure [spoken_rules]: "refusal e \<longrightarrow> error_text e \<noteq> [] \<Longrightarrow> spoken (ensure b e)"
  by (auto simp: spoken_def)

lemma spoken_bind [spoken_rules]: "spoken m \<Longrightarrow> (\<And>x. spoken (f x)) \<Longrightarrow> spoken (res_bind m f)"
  by (cases m) (auto simp: spoken_def)

lemma spoken_iter [spoken_rules]: "(\<And>x. spoken (f x)) \<Longrightarrow> spoken (iter_res f xs)"
  by (induction xs) (auto intro: spoken_rules)

lemma spoken_map [spoken_rules]: "(\<And>x. spoken (f x)) \<Longrightarrow> spoken (map_res f xs)"
  by (induction xs) (auto intro: spoken_rules)

lemma spoken_policy_check [spoken_rules]: "spoken (policy_check c argv)"
  by (cases argv) (auto simp: policy_check_def policy_allows_def policy_binary_def quoted_def intro!: spoken_rules split: list.split)

lemma spoken_host_check [spoken_rules]: "spoken (host_check H h p b)"
  by (auto simp: host_check_def fs_check_def quoted_def intro!: spoken_rules)

lemma spoken_matching_roots: "spoken (matching_roots resolve q ms)"
  by (induction ms) (auto intro!: spoken_rules split: option.split)

lemma spoken_map_path [spoken_rules]: "spoken (map_path win_join resolve p s b)"
  by (auto simp: map_path_def quoted_def intro!: spoken_rules spoken_matching_roots split: option.split list.split prod.split)

lemma spoken_map_host_path [spoken_rules]: "spoken (map_host_path H h p b)"
  by (auto simp: map_host_path_def intro!: spoken_rules split: option.split)

lemma spoken_validate_context [spoken_rules]: "spoken (validate_context win_abs c)"
  by (auto simp: validate_context_def Let_def intro!: spoken_rules split: prod.split)

lemma spoken_plan_command [spoken_rules]: "spoken (plan_command H h c argv target needs)"
  by (auto simp: plan_command_def map_outputs_def Let_def intro!: spoken_rules split: prod.split)

lemma spoken_url_hostname [spoken_rules]: "spoken (url_hostname s)"
  by (auto simp: url_hostname_def Let_def intro!: spoken_rules)

lemma spoken_target_among [spoken_rules]: "spoken (target_among binary ws)"
  by (induction ws) (auto simp: Let_def intro!: spoken_rules)

lemma spoken_requires_target [spoken_rules]: "spoken (command_requires_target argv)"
  by (auto simp: command_requires_target_def command_target_def Let_def intro!: spoken_rules split: list.split)

lemma job_all_try_blocked [job_rules]: "spoken r \<Longrightarrow> job_all P (try_blocked H capability r)"
  by (auto simp: try_blocked_def spoken_def intro!: job_rules split: sum.split)

section \<open>The requests that are launched\<close>

text \<open>No other material has the digest of this request's.\<close>

definition unique_digest :: "services \<Rightarrow> exec_request \<Rightarrow> bool" where
  "unique_digest S q \<longleftrightarrow> (\<forall>m. sv_digest S m = sv_digest S (material_of q) \<longrightarrow> m = material_of q)"

definition same_material :: "exec_request \<Rightarrow> exec_request \<Rightarrow> bool" where
  "same_material q r \<longleftrightarrow> (\<exists>t. material_of q = (material_of r)\<lparr>am_expires := t\<rparr>)"

lemma same_material_fields:
  assumes "same_material q r"
  shows "xr_action q = xr_action r" "xr_target q = xr_target r" "xr_risk q = xr_risk r" "xr_command q = xr_command r"
    "xr_executor q = xr_executor r" "xr_identity q = xr_identity r" "xr_resolved q = xr_resolved r"
  using assms by (auto simp: same_material_def material_of_def)

lemma coordinate_launched:
  assumes S: "check_keeps_request (hk_services H)" and c: "coordinate H r prepare body w = (x, ls, w')" and l: "l \<in> set ls"
    and u: "unique_digest (hk_services H) (w_request (launched_world l))"
  shows "same_material (w_request (launched_world l)) r \<and> resolved_action_error (w_request (launched_world l)) = []
    \<and> validate_request r = Inr r"
proof -
  let ?w = "w\<lparr>w_request := r, w_host := (w_host w)\<lparr>hc_requests := Suc (hc_requests (w_host w))\<rparr>\<rparr>"
    and ?S = "(hk_services H)\<lparr>sv_id := hk_request_id H (hc_requests (w_host w)), sv_prepare := prepare, sv_operation := body\<rparr>"
  from c l have v: "validate_request r = Inr r"
    by (auto simp: coordinate_def validate_request_def res_bind_eq_Inr Let_def split: sum.splits)
  obtain y ms w1 where e: "execute ?S ?w = ((y, ms), w1)" by (metis surj_pair)
  with c l v have "l \<in> set ms" by (auto simp: coordinate_def Let_def split: execution.splits)
  then have ne: "ms \<noteq> []" by auto
  have k: "check_keeps_request ?S" using S by (simp add: check_keeps_request_def)
  let ?q = "w_request (launched_world l)"
  have "\<not> material_changed ?S (digest_of ?S (with_expiry ?S ?w)) (launched_world l)"
    using execute_launches [OF e k ne] \<open>l \<in> set ms\<close> by blast
  then have d: "sv_digest (hk_services H) (material_of ?q)
      = sv_digest (hk_services H) (material_of (w_request (with_expiry ?S ?w)))" "resolved_action_error ?q = []"
    by (simp_all add: not_material_changed digest_of_def)
  from d(1) u have "material_of ?q = material_of (w_request (with_expiry ?S ?w))"
    by (simp add: unique_digest_def)
  moreover have "\<exists>t. material_of (w_request (with_expiry ?S ?w)) = (material_of r)\<lparr>am_expires := t\<rparr>"
    by (auto simp: with_expiry_def now_def material_of_def)
  ultimately show ?thesis using d(2) v by (simp add: same_material_def)
qed

lemma job_all_coordinate:
  assumes "check_keeps_request (hk_services H)"
    and "\<And>q. same_material q r \<Longrightarrow> resolved_action_error q = [] \<Longrightarrow> good q"
  shows "job_all (\<lambda>l. unique_digest (hk_services H) (w_request (launched_world l)) \<longrightarrow> good (w_request (launched_world l))) (coordinate H r prepare body)"
  unfolding job_all_def using coordinate_launched [OF assms(1)] assms(2) by metis

text \<open>A command bound to what was approved: the argument vector, its executables and at least WRITE risk.\<close>

definition bound_command :: "exec_request \<Rightarrow> bool" where
  "bound_command q \<longleftrightarrow> xr_risk q \<noteq> Read \<and> (\<exists>a. xr_resolved q = Some a \<and> xr_command q = CommandArgv (ra_argv a)
     \<and> ra_capability a = xr_action q \<and> ra_provider a = xr_executor q \<and> ra_target a = xr_target q
     \<and> list_all (\<lambda>v. v \<noteq> [] \<and> CHR 0x00 \<notin> set v) (ra_argv a)
     \<and> (\<forall>e \<in> set (ra_executables a). xe_index e < length (ra_argv a) \<and> ra_argv a ! xe_index e = xe_path e
          \<and> is_hex64 (xe_sha256 e)))"

lemma iter_res_Inr: "iter_res f xs = Inr u \<Longrightarrow> x \<in> set xs \<Longrightarrow> f x = Inr ()"
  using iter_res_ok [of f xs] by simp

lemma validate_resolved_parts:
  assumes "validate_resolved win_abs win_name a = Inr a'"
  shows "a' = a \<and> list_all (\<lambda>v. v \<noteq> [] \<and> CHR 0x00 \<notin> set v) (ra_argv a)
    \<and> iter_res (validate_executable win_abs) (ra_executables a) = Inr ()
    \<and> iter_res (\<lambda>e. res_bind (ensure (xe_index e < length (ra_argv a))
              (ValueError ''resolved executable argv index is out of range'')) (\<lambda>_.
              ensure (ra_argv a ! xe_index e = xe_path e)
                (ValueError ''resolved executable path must match resolved argv''))) (ra_executables a) = Inr ()"
  using assms unfolding validate_resolved_def Let_def by (elim res_bind_InrE) simp

lemma validate_resolved_ok:
  assumes "validate_resolved win_abs win_name a = Inr a'"
  shows "a' = a" "list_all (\<lambda>v. v \<noteq> [] \<and> CHR 0x00 \<notin> set v) (ra_argv a)"
    "\<forall>e \<in> set (ra_executables a). xe_index e < length (ra_argv a) \<and> ra_argv a ! xe_index e = xe_path e \<and> is_hex64 (xe_sha256 e)"
  using validate_resolved_parts [OF assms] by (auto simp: iter_res_ok validate_executable_def res_bind_eq_Inr)

lemma resolved_command_effects:
  assumes "resolved_command_action H h capability argv original outputs cwd target ss es = Inr a"
  shows "validate_resolved (hk_win_abs H) (hk_win_name H) a = Inr a \<and> list_ex (\<lambda>e. e \<noteq> ReadOnly) (ra_effects a)"
proof -
  define action where "action network = \<lparr>ra_schema = ''1.0.0'', ra_capability = capability,
         ra_provider = (if capability = ''shell_command'' then executor_name_for h capability else executor_name h),
         ra_tool = path_name (hd argv), ra_tool_version = [], ra_target = target, ra_argv = argv,
         ra_executables = es, ra_cwd = cwd, ra_inputs = [], ra_outputs = outputs,
         ra_effects = (let effects = (if outputs \<noteq> [] then [FilesystemWrite] else [])
            @ (if network then [NetworkEffect] else []) @ (if ss then [SessionState] else [])
            in if effects \<noteq> [] then effects else [UnknownEffect]),
         ra_timeout = (case hc_executor h of Some (n, p) \<Rightarrow> if pv_name p \<noteq> ''local'' then pv_timeout p else 60 | None \<Rightarrow> 60),
         ra_idempotency = (if ss then ''idempotent'' else ''unknown'')\<rparr>" for network
  from assms obtain network where v: "validate_resolved (hk_win_abs H) (hk_win_name H) (action network) = Inr a"
    by (auto simp: resolved_command_action_def action_def res_bind_eq_Inr Let_def)
  then have "a = action network" by (rule validate_resolved_ok(1))
  moreover have "list_ex (\<lambda>e. e \<noteq> ReadOnly) (ra_effects (action network))" by (simp add: action_def Let_def)
  ultimately show ?thesis using v by simp
qed

lemma resolved_command_bound:
  assumes "resolved_command_action H h capability argv original outputs cwd target ss es = Inr a"
    and "same_material q r" "resolved_action_error q = []" "xr_resolved r = Some a"
  shows "bound_command q"
proof -
  from resolved_command_effects [OF assms(1)] have e: "list_ex (\<lambda>e. e \<noteq> ReadOnly) (ra_effects a)"
    and v: "validate_resolved (hk_win_abs H) (hk_win_name H) a = Inr a" by blast+
  have q: "xr_resolved q = Some a" using assms(2,4) by (simp add: same_material_fields)
  with assms(3) e have "xr_risk q \<noteq> Read" "ra_capability a = xr_action q" "ra_provider a = xr_executor q"
    "ra_target a = xr_target q" "xr_command q = CommandArgv (ra_argv a)"
    by (simp_all add: resolved_action_error_def split: if_split_asm)
  with q validate_resolved_ok(2,3) [OF v] show ?thesis by (simp add: bound_command_def)
qed

text \<open>The requests a run of a capability may launch.\<close>

definition launch_allowed :: "string \<Rightarrow> exec_request \<Rightarrow> bool" where
  "launch_allowed capability q \<longleftrightarrow>
     xr_action q = ''resolve_executable'' \<and> xr_risk q = Read \<and> xr_resolved q = None
     \<or> xr_action q = capability \<and> (capability \<in> {''shell_command'', ''session_exec''} \<longrightarrow> bound_command q)"

abbreviation allowed_launch :: "control_env \<Rightarrow> string \<Rightarrow> launched \<Rightarrow> bool" where
  "allowed_launch H capability l \<equiv> unique_digest (hk_services H) (w_request (launched_world l))
     \<longrightarrow> launch_allowed capability (w_request (launched_world l))"

lemma job_all_resolve_executables:
  assumes "check_keeps_request (hk_services H)"
  shows "job_all (allowed_launch H capability) (resolve_executables H capability argv target needs env)"
  unfolding resolve_executables_def Let_def
  by (auto intro!: job_all_bind job_rules job_all_report job_all_coordinate [OF assms]
      simp: launch_allowed_def request_of_def same_material_fields split: list.split)

lemma job_all_bind_pair: "job_all P m \<Longrightarrow> (\<And>a b. job_all P (f a b)) \<Longrightarrow> job_all P (job_bind m (\<lambda>(a, b). f a b))"
  by (rule job_all_bind) auto

lemma job_all_bind_triple:
  "job_all P m \<Longrightarrow> (\<And>a b c. job_all P (f a b c)) \<Longrightarrow> job_all P (job_bind m (\<lambda>(a, b, c). f a b c))"
  by (rule job_all_bind) auto

lemma job_all_bound_command:
  assumes "check_keeps_request (hk_services H)" "xr_action r = capability" "xr_resolved r = Some a"
    and "resolved_command_action H h cap command argv outputs cwd target ss es = Inr a"
  shows "job_all (allowed_launch H capability) (coordinate H r prepare body)"
  using resolved_command_bound [OF assms(4)] assms(2,3)
  by (intro job_all_coordinate [OF assms(1)]) (auto simp: launch_allowed_def same_material_fields)

lemma job_all_ask_shell:
  assumes "check_keeps_request (hk_services H)"
  shows "job_all (allowed_launch H ''shell_command'') (ask_shell H spec ps stdin pl)"
  unfolding ask_shell_def Let_def
  by (intro job_all_bind_pair job_all_lift_bind job_all_bind [OF job_all_simple(4)] job_all_resolve_executables [OF assms])
     (rule job_all_bound_command [OF assms], simp_all add: shell_request_def request_of_def)

lemma job_all_run_shell:
  assumes "check_keeps_request (hk_services H)"
  shows "job_all (allowed_launch H ''shell_command'') (run_shell H spec ps stdin)"
proof -
  have "job_all (allowed_launch H ''shell_command'') (checked_plan H spec ps h c argv target needs)" for h c argv target needs
    using spoken_plan_command [of H h c argv target needs]
    by (auto simp: checked_plan_def spoken_def intro!: job_all_bind job_rules job_all_report split: sum.split)
  then show ?thesis
    unfolding run_shell_def
    by (auto intro!: job_all_bind job_rules job_all_report job_all_ask_shell [OF assms] split: option.split)
qed

lemma job_all_run_other:
  assumes "check_keeps_request (hk_services H)" "capability \<notin> {''shell_command'', ''session_exec''}"
  shows "job_all (allowed_launch H capability) (run_other H spec capability ps stdin)"
proof -
  have step: "spoken (check_step H h argv)" for h argv
    by (auto simp: check_step_def Let_def intro!: spoken_rules split: option.split)
  have steps: "job_all (allowed_launch H capability) (check_steps H h c vs)" for h c vs
    by (induction vs) (auto intro!: job_rules step)
  have "job_all (allowed_launch H capability) (check_host_session H ps)"
    unfolding check_host_session_def by (intro job_rules steps) simp
  then show ?thesis
    unfolding run_other_def using assms(2)
    by (intro job_rules job_all_coordinate [OF assms(1)]) (auto simp: launch_allowed_def same_material_fields request_of_def)
qed

lemma job_all_run_capability:
  assumes "check_keeps_request (hk_services H)" "capability \<noteq> ''session_exec''"
  shows "job_all (allowed_launch H capability) (run_capability H capability params stdin)"
proof -
  have "job_all (allowed_launch H capability) (if capability = ''shell_command'' then run_shell H spec ps stdin
      else run_other H spec capability ps stdin)" for spec ps
    using job_all_run_shell [OF assms(1)] job_all_run_other [OF assms(1)] assms(2) by auto
  then show ?thesis
    unfolding run_capability_def
    by (cases "map_of capabilities capability"; cases "capability \<in> set host_agent_capabilities")
       (auto intro!: job_rules job_all_report)
qed

lemma spoken_next_dir [spoken_rules]: "spoken (next_dir H h cwd argv)"
  by (auto simp: next_dir_def intro!: spoken_rules split: option.split)

lemma spoken_resolved_text [spoken_rules]: "spoken (resolved_text H h p)"
  by (auto simp: resolved_text_def intro!: spoken_rules split: option.split)

lemma spoken_executor_of [spoken_rules]: "spoken (executor_of h)"
  by (auto simp: executor_of_def intro!: spoken_rules split: option.split)

lemma spoken_prepare_context [spoken_rules]: "spoken (prepare_context win_abs p c env)"
  by (auto simp: prepare_context_def intro!: spoken_rules split: option.split)

lemma spoken_prepare_session [spoken_rules]: "spoken (prepare_session_context win_abs p s c)"
  by (auto simp: prepare_session_context_def intro!: spoken_rules)

lemma spoken_first_root [spoken_rules]: "spoken (first_root s)"
  by (auto simp: first_root_def intro!: spoken_rules split: list.split)

lemma spoken_session_parts [spoken_rules]:
  "spoken (session_network argv)" "spoken (provider_dir H h cwd)" "spoken (session_host_cwd H h p)"
  "spoken (pending_session H h cwd)"
  by (auto simp: session_network_def provider_dir_def session_host_cwd_def pending_session_def open_session_def
      intro!: spoken_rules)

lemma spoken_remote_session [spoken_rules]: "spoken (remote_session H h)"
  by (auto simp: remote_session_def Let_def intro!: spoken_rules split: option.split)

lemma spoken_plans [spoken_rules]:
  "spoken (plan_local H h policy s argv)" "spoken (plan_remote H h c argv)" "spoken (plan_cd H h s' cwd argv)"
  by (auto simp: plan_local_def plan_remote_def plan_cd_def Let_def intro!: spoken_rules split: prod.split)

lemma job_all_asked:
  assumes "check_keeps_request (hk_services H)" "xr_action r = capability" "capability \<noteq> ''session_exec''" "capability \<noteq> ''shell_command''"
  shows "job_all (allowed_launch H capability) (coordinate H r prepare body)"
  using assms(2-4) by (intro job_all_coordinate [OF assms(1)]) (auto simp: launch_allowed_def same_material_fields)

lemma job_all_exec_local:
  assumes "check_keeps_request (hk_services H)"
  shows "job_all (allowed_launch H ''session_exec'') (exec_local H ps)"
  unfolding exec_local_def session_of_def Let_def
  by (intro job_all_bind_pair job_all_lift_bind job_rules job_all_resolve_executables [OF assms] spoken_rules job_all_report)
     (simp, simp, rule job_all_bound_command [OF assms], simp_all add: request_of_def)

lemma job_all_shape_remote: "job_all P (shape_remote H h r existing s cwd argv ms)"
  unfolding shape_remote_def Let_def by (intro job_rules spoken_rules) simp

lemma job_all_exec_remote:
  assumes "check_keeps_request (hk_services H)"
  shows "job_all (allowed_launch H ''session_exec'') (exec_remote H ps c)"
  unfolding exec_remote_def Let_def
  by (intro job_all_bind_pair job_all_bind_triple job_all_lift_bind job_rules job_all_shape_remote
        job_all_resolve_executables [OF assms] spoken_rules)
     (simp, rule job_all_bound_command [OF assms], simp_all add: request_of_def)

lemma job_all_run_session:
  assumes "check_keeps_request (hk_services H)" "capability \<in> set session_capabilities"
  shows "job_all (allowed_launch H capability) (run_session H capability spec params)"
proof -
  have o: "job_all (allowed_launch H ''session_open'') (open_local H ps)" "job_all (allowed_launch H ''session_open'') (open_remote H ps)" for ps
    unfolding open_local_def open_remote_def Let_def
    by (intro job_all_bind_triple job_rules job_all_asked [OF assms(1)] spoken_rules; simp add: request_of_def)+
  have c: "job_all (allowed_launch H ''session_close'') (close_local H)" "job_all (allowed_launch H ''session_close'') (close_remote H)"
    unfolding close_local_def close_remote_def
    by (intro job_rules job_all_asked [OF assms(1)]; simp add: request_of_def)+
  from assms(2) have "capability = ''session_open'' \<or> capability = ''session_close'' \<or> capability = ''session_exec''"
    by (auto simp: session_capabilities_def)
  then have r: "job_all (allowed_launch H capability) (run_local_session H capability ps)"
    "job_all (allowed_launch H capability) (run_provider_session H capability ps)" for ps
    using o c job_all_exec_local [OF assms(1)] job_all_exec_remote [OF assms(1)]
    by (auto simp: run_local_session_def run_provider_session_def intro!: job_rules)
  show ?thesis
    unfolding run_session_def by (intro job_rules r) simp_all
qed

section \<open>An execution that goes through\<close>

text \<open>Services that let an allowed request through: no hook, a check that agrees, evidence, and a clock that stands.\<close>

definition open_services :: "services \<Rightarrow> bool" where
  "open_services S \<longleftrightarrow> sv_hooks S = Some [] \<and> sv_check S = (\<lambda>n w. (Some [], w)) \<and> sv_clock S = (\<lambda>n. 0)
     \<and> (\<exists>e. sv_capture S = (\<lambda>r res w. (Some e, w)))"

definition ready_world :: "services \<Rightarrow> world \<Rightarrow> bool" where
  "ready_world S w \<longleftrightarrow> al_up (w_audit w) \<and> w_logging_up w \<and> w_feedback_up w \<and> gg_mode (w_gate w) = AutoMode
     \<and> (\<forall>action risk l. risk \<noteq> Destructive \<longrightarrow> al_up l \<longrightarrow> (\<exists>why. sv_evaluate S (w_gate w) action [] risk False l = (Inr (GateAllow, why), l)))"

lemma resolved_action_error_expires: "resolved_action_error (r\<lparr>xr_expires := e\<rparr>) = resolved_action_error r"
  by (cases r) (simp only: resolved_action_error_def exec_request.simps)

lemma execute_allowed:
  assumes S: "open_services S" and w: "ready_world S w"
    and r: "w_request w = r" "xr_target r = []" "\<not> xr_target_required r" "xr_risk r \<noteq> Destructive" "xr_expires r = None" "xr_blocked r = []"
      "xr_dependency_ok r" "resolved_action_error r = []" "1 < xr_ttl r"
    and prep: "\<forall>p v. sv_prepare S = Some p \<longrightarrow> w_host v = w_host w \<longrightarrow> p v = (OpValue None, v)"
    and body: "\<forall>v. w_host v = w_host w \<longrightarrow> w_context v = Some (xr_action r, xr_executor r, xr_target r)
       \<longrightarrow> sv_operation S v = (OpValue (Some val), v\<lparr>w_host := f (w_host v)\<rparr>)" "ov_success val"
  shows "\<exists>res ls v w'. execute S w = ((Returned res, ls), w') \<and> LaunchOperation v \<in> set ls \<and> co_success res \<and> co_value res = Some val
     \<and> w_request v = w_request (with_expiry S w) \<and> w_host w' = f (w_host w) \<and> ready_world S w'"
proof -
  obtain n e where we: "with_expiry S w = w\<lparr>w_request := r\<lparr>xr_expires := e\<rparr>, w_reads := n\<rparr>"
    and e: "\<forall>t. e = Some t \<longrightarrow> 0 < t"
  proof (cases "xr_risk r = Read")
    case True
    with r have "with_expiry S w = w\<lparr>w_request := r\<lparr>xr_expires := None\<rparr>, w_reads := w_reads w\<rparr>"
      by (auto simp: with_expiry_def)
    then show thesis by (rule that) simp
  next
    case False
    with r S have "with_expiry S w = w\<lparr>w_request := r\<lparr>xr_expires := Some (xr_ttl r)\<rparr>, w_reads := Suc (w_reads w)\<rparr>"
      by (auto simp: with_expiry_def now_def open_services_def)
    then show thesis by (rule that) (use r in simp)
  qed
  define q where "q = r\<lparr>xr_expires := e\<rparr>"
  define d where "d = digest_of S (with_expiry S w)"
  define here where "here v \<longleftrightarrow> w_request v = q \<and> w_gate v = w_gate w \<and> w_check v = w_check w \<and> w_reads v = n \<and> al_up (w_audit v)
     \<and> w_logging_up v \<and> w_feedback_up v \<and> w_host v = w_host w" for v :: world
  have start: "here (with_expiry S w)" using w by (simp add: here_def we q_def ready_world_def)
  have q: "xr_target q = []" "\<not> xr_target_required q" "xr_risk q \<noteq> Destructive" "xr_blocked q = []" "xr_dependency_ok q"
    "resolved_action_error q = []" "xr_expires q = e" "xr_action q = xr_action r" "xr_executor q = xr_executor r" "xr_target r = []"
    using r by (simp_all add: q_def resolved_action_error_expires)
  have pre: "preflight S (w_request v) = None" if "here v" for v
    using that q S by (simp add: here_def preflight_def open_services_def)
  have ev: "\<exists>why. evaluate S v = (Inr (GateAllow, why), v)" if h: "here v" for v
  proof -
    obtain why where "sv_evaluate S (w_gate w) (xr_action q) [] (xr_risk q) False (w_audit v) = (Inr (GateAllow, why), w_audit v)"
      using w q(3) h unfolding ready_world_def here_def by blast
    with h q show ?thesis by (auto simp: evaluate_def here_def Let_def)
  qed
  have mat: "\<not> material_changed S d v" if "here v" for v
    using that start q(6) by (simp add: material_changed_def d_def digest_of_def here_def)
  have pc: "pre_check S v = ([], v)" for v using S by (simp add: pre_check_def open_services_def split: option.split)
  have op: "\<exists>u. here (u\<lparr>w_reads := n\<rparr>) \<and> start_operation S d e v = ((Inr (OpValue (Some val)), [LaunchOperation u]), u\<lparr>w_host := f (w_host u)\<rparr>)"
    if "here v" "w_context v = Some (xr_action r, xr_executor r, xr_target r)" for v
  proof (cases e)
    case None
    with that body(1) show ?thesis by (intro exI [of _ v]) (simp add: start_operation_def here_def)
  next
    case (Some t)
    let ?u = "v\<lparr>w_reads := Suc n\<rparr>"
    have "sv_operation S ?u = (OpValue (Some val), ?u\<lparr>w_host := f (w_host ?u)\<rparr>)"
      using that body(1) by (simp add: here_def)
    with Some that e S show ?thesis
      by (intro exI [of _ ?u]) (simp add: start_operation_def here_def now_def open_services_def)
  qed
  have la: "\<exists>u ls. here (u\<lparr>w_reads := n\<rparr>) \<and> LaunchOperation u \<in> set ls
      \<and> launch S d GateAllow e v = ((Inr (OpValue (Some val)), ls), u\<lparr>w_host := f (w_host u)\<rparr>)"
    if "here v" "w_context v = Some (xr_action r, xr_executor r, xr_target r)" for v
  proof -
    from op [OF that] obtain u where u: "here (u\<lparr>w_reads := n\<rparr>)"
      "start_operation S d e v = ((Inr (OpValue (Some val)), [LaunchOperation u]), u\<lparr>w_host := f (w_host u)\<rparr>)" by blast
    show ?thesis
    proof (cases "sv_prepare S")
      case None
      with u show ?thesis by (intro exI [of _ u] exI [of _ "[LaunchOperation u]"]) (simp add: launch_def)
    next
      case (Some p)
      with prep that have "p v = (OpValue None, v)" by (simp add: here_def)
      moreover from ev [OF that(1)] mat [OF that(1)] have "revalidate S d GateAllow (w_check v) (gg_mode (w_gate v)) v = (None, v)"
        by (auto simp: revalidate_def Let_def pc)
      ultimately show ?thesis using Some u
        by (intro exI [of _ u] exI [of _ "[LaunchPrepare v, LaunchOperation u]"]) (simp add: launch_def)
    qed
  qed
  from ev [OF start] have ex: "execute S w = authorize S d GateAllow e (with_expiry S w)"
    using pre [OF start] start q(7) by (auto simp: execute_def Let_def d_def [symmetric] here_def)
  define w2 where "w2 = (with_expiry S w)\<lparr>w_audit := (w_audit w)\<lparr>al_events := al_events (w_audit w)
      @ [redact_event (authorization_event S d q)]\<rparr>\<rparr>"
  have "record_authorization S d (with_expiry S w) = (True, w2)"
    using w by (simp add: record_authorization_def audit_record_def w2_def we q_def ready_world_def)
  with mat [OF start] have au: "execute S w = run_authorized S d GateAllow e w2"
    unfolding ex by (simp add: authorize_def Let_def pc)
  define w3 where "w3 = w2\<lparr>w_context := Some (xr_action q, xr_executor q, xr_target q)\<rparr>"
  have h3: "here w3" using start w by (simp add: w3_def w2_def here_def ready_world_def)
  have r2: "w_request w2 = q" using start by (simp add: w2_def here_def)
  from la [OF h3] obtain u ls where u: "here (u\<lparr>w_reads := n\<rparr>)" "LaunchOperation u \<in> set ls"
    "launch S d GateAllow e w3 = ((Inr (OpValue (Some val)), ls), u\<lparr>w_host := f (w_host u)\<rparr>)"
    by (auto simp: w3_def q)
  obtain ev' where cap: "sv_capture S = (\<lambda>r res w. (Some ev', w))" using S by (auto simp: open_services_def)
  have uu: "al_up (w_audit u)" "w_logging_up u" "w_feedback_up u" "w_request u = q" "w_gate u = w_gate w" "w_host u = w_host w"
    using u(1) by (simp_all add: here_def)
  have "\<exists>res w'. run_authorized S d GateAllow e w2 = ((Returned res, ls), w') \<and> co_success res \<and> co_value res = Some val
      \<and> w_host w' = f (w_host w) \<and> w_gate w' = w_gate w \<and> al_up (w_audit w') \<and> w_logging_up w' \<and> w_feedback_up w'"
    using u(3) body(2) uu
    by (simp add: run_authorized_def Let_def r2 w3_def [symmetric] outcome_result_def settle_def capture_evidence_def cap
        record_terminal_def record_non_audit_def audit_record_def terminal_result_def)
  with au u uu w show ?thesis
    using start by (fastforce simp: ready_world_def here_def)
qed

lemma coordinate_allowed:
  assumes S: "open_services (hk_services H)" and w: "ready_world (hk_services H) w" and v: "validate_request r = Inr r"
    and r: "xr_target r = []" "\<not> xr_target_required r" "xr_risk r \<noteq> Destructive" "xr_expires r = None" "xr_blocked r = []"
      "xr_dependency_ok r" "resolved_action_error r = []" "1 < xr_ttl r"
    and prep: "\<forall>p v. prepare = Some p \<longrightarrow> w_host v = h \<longrightarrow> p v = (OpValue None, v)"
    and body: "\<forall>v. w_host v = h \<longrightarrow> w_context v = Some (xr_action r, xr_executor r, xr_target r)
       \<longrightarrow> body v = (OpValue (Some val), v\<lparr>w_host := f (w_host v)\<rparr>)" "ov_success val"
    and h: "h = (w_host w)\<lparr>hc_requests := Suc (hc_requests (w_host w))\<rparr>"
  shows "\<exists>res ls v w'. coordinate H r prepare body w = (Inr res, ls, w') \<and> LaunchOperation v \<in> set ls \<and> co_success res
     \<and> co_value res = Some val \<and> w_request v = (if xr_risk r = Read then r else r\<lparr>xr_expires := Some (xr_ttl r)\<rparr>)
     \<and> w_host w' = f h \<and> ready_world (hk_services H) w'"
proof -
  let ?S = "(hk_services H)\<lparr>sv_id := hk_request_id H (hc_requests (w_host w)), sv_prepare := prepare, sv_operation := body\<rparr>"
    and ?w = "w\<lparr>w_request := r, w_host := h\<rparr>"
  have S': "open_services ?S" and w': "ready_world ?S ?w" using S w by (simp_all add: open_services_def ready_world_def)
  have q: "w_request (with_expiry ?S ?w) = (if xr_risk r = Read then r else r\<lparr>xr_expires := Some (xr_ttl r)\<rparr>)"
    using S r(4) by (auto simp: with_expiry_def now_def open_services_def)
  have "\<exists>res ls v w'. execute ?S ?w = ((Returned res, ls), w') \<and> LaunchOperation v \<in> set ls \<and> co_success res
     \<and> co_value res = Some val \<and> w_request v = w_request (with_expiry ?S ?w) \<and> w_host w' = f (w_host ?w) \<and> ready_world ?S w'"
    by (rule execute_allowed [OF S' w' _ r]) (use prep body in \<open>simp_all\<close>)
  then obtain res ls v w1 where e: "execute ?S ?w = ((Returned res, ls), w1)" "LaunchOperation v \<in> set ls" "co_success res"
    "co_value res = Some val" "w_request v = w_request (with_expiry ?S ?w)" "w_host w1 = f h" "ready_world ?S w1" by auto
  have "ready_world (hk_services H) w1" using e(7) by (simp add: ready_world_def)
  moreover have "coordinate H r prepare body w = (Inr res, ls, w1)"
    using e(1) v by (simp add: coordinate_def Let_def h [symmetric])
  ultimately show ?thesis using e q by auto
qed


section \<open>A command that runs\<close>

definition cmd_executable :: resolved_executable where
  "cmd_executable = \<lparr>xe_index = 0, xe_path = ''/bin/touch'', xe_sha256 = replicate 64 CHR ''1''\<rparr>"

definition cmd_action :: resolved_action where
  "cmd_action = \<lparr>ra_schema = ''1.0.0'', ra_capability = ''shell_command'', ra_provider = ''internal'', ra_tool = ''touch'',
     ra_tool_version = [], ra_target = [], ra_argv = [''/bin/touch'', ''a''], ra_executables = [cmd_executable], ra_cwd = [],
     ra_inputs = [], ra_outputs = [(''/w/a'', ''/w/a'')], ra_effects = [FilesystemWrite], ra_timeout = 60,
     ra_idempotency = ''unknown''\<rparr>"

definition cmd_identity :: exec_identity where
  "cmd_identity = \<lparr>xi_tool = ''touch'', xi_tool_version = [], xi_path = ''/bin/touch'', xi_sha256 = replicate 64 CHR ''1'',
     xi_other = identity_fields ([[], [], [], []] @ replicate 4 ''1.0.0'' @ [''linux'', [], []])\<rparr>"

definition cmd_plan :: command_plan where
  "cmd_plan = \<lparr>pl_argv = [''touch'', ''a''], pl_target = [], pl_target_required = False, pl_outputs = [''/w/a''],
     pl_mapped = None, pl_provider_argv = None, pl_context = empty_context\<rparr>"

definition cmd_params :: jdict where
  "cmd_params = [(''argv'', text_items [''touch'', ''a''])]"

definition cmd_policy :: command_policy where
  "cmd_policy = \<lparr>cp_allowed = None, cp_denied = []\<rparr>"

definition cmd_state :: "nat \<Rightarrow> host_state" where
  "cmd_state n = bare_host\<lparr>hc_scope := \<lparr>fs_read = [], fs_write = [[''w'']]\<rparr>, hc_policy := Some (0, cmd_policy),
     hc_disk := sample_disk, hc_requests := n\<rparr>"

definition cmd_request :: exec_request where
  "cmd_request = shell_request (cmd_state (Suc 0)) cmd_params cmd_plan [''/bin/touch'', ''a''] Write cmd_identity cmd_action"

definition cmd_control :: control_env where
  "cmd_control = \<lparr>hv_os = sample_os, hv_render = (\<lambda>_. []), hv_loads = (\<lambda>_. Inl (ValueError ''json'')),
     hk_win_abs = (\<lambda>_. False), hk_win_name = path_name, hk_win_join = (\<lambda>_ _. []), hk_platform = ''linux'',
     hk_env_digest = (\<lambda>_. []), hk_execute = (\<lambda>_ _ _ _ w. (Inl OpTimeout, w)), hk_session_id = show_nat, hk_request_id = show_nat,
     hk_services = sample_services\<lparr>sv_clock := (\<lambda>n. 0),
       sv_digest := (\<lambda>m. if m = material_of (cmd_request\<lparr>xr_expires := Some 300\<rparr>) then ''d'' else [])\<rparr>\<rparr>"

definition cmd_world :: world where
  "cmd_world = sample_world\<lparr>w_gate := sample_gate_state, w_host := cmd_state 0\<rparr>"

definition cmd_inspected :: op_value where
  "cmd_inspected = agent_result (\<lambda>_. []) [(''ok'', JBool True), (''executables'', JList [JDict (identity_entry 0 ''touch''
     (ok_fields [(''found'', JBool True), (''name'', JStr ''touch''), (''path'', JStr ''/bin/touch''),
        (''sha256'', JStr (replicate 64 CHR ''1''))]))])]"

lemma cmd_state_fields [simp]:
  "hc_executor (cmd_state n) = None" "hc_policy (cmd_state n) = Some (0, cmd_policy)" "hc_disk (cmd_state n) = sample_disk"
  "hc_requests (cmd_state n) = n" "(cmd_state n)\<lparr>hc_requests := m\<rparr> = cmd_state m" "\<not> uses_external (cmd_state n)"
  "executor_name (cmd_state n) = ''internal''" "executor_name_for (cmd_state n) c = ''internal''"
  "hc_scope (cmd_state n) = \<lparr>fs_read = [], fs_write = [[''w'']]\<rparr>"
  by (simp_all add: cmd_state_def bare_host_def uses_external_def executor_name_def executor_name_for_def)

lemma cmd_control_fields [simp]: "hv_os cmd_control = sample_os" "hv_render cmd_control = (\<lambda>_. [])"
  "hk_win_abs cmd_control = (\<lambda>_. False)"
  by (simp_all add: cmd_control_def)

lemma cmd_inspection:
  "inspect_executable sample_os sample_disk ''touch'' None = ok_fields [(''found'', JBool True), (''name'', JStr ''touch''),
     (''path'', JStr ''/bin/touch''), (''sha256'', JStr (replicate 64 CHR ''1''))]"
  "inspect_executable sample_os sample_disk ''/bin/touch'' None = ok_fields [(''found'', JBool True), (''name'', JStr ''touch''),
     (''path'', JStr ''/bin/touch''), (''sha256'', JStr (replicate 64 CHR ''1''))]"
  by code_simp+

lemma cmd_ready: "ready_world (hk_services cmd_control) cmd_world" "open_services (hk_services cmd_control)"
proof -
  have "\<exists>why. sv_evaluate (hk_services cmd_control) sample_gate_state action [] risk False l = (Inr (GateAllow, why), l)"
    if "risk \<noteq> Destructive" for action risk l
    using that by (cases risk)
      (simp_all add: cmd_control_def sample_fields evaluate_risk_def gate_evaluate_def upper_risk_value upper_risk_names sample_gate_state_def)
  then show "ready_world (hk_services cmd_control) cmd_world"
    by (auto simp: ready_world_def cmd_world_def sample_world_def sample_log_def) (simp add: sample_gate_state_def)
  show "open_services (hk_services cmd_control)"
    by (auto simp: open_services_def cmd_control_def sample_fields)
qed

lemma cmd_resolve_body:
  "w_host v = cmd_state n \<Longrightarrow> body_of (inspect_all cmd_control None [(0, ''touch'')] []) v = (OpValue (Some cmd_inspected), v)"
  by (simp add: body_of_def step_bind_def step_host_def step_return_def cmd_inspection cmd_inspected_def)

lemma cmd_items:
  "dict_items (get_or (normalized_of cmd_inspected) ''executables'' (JList [])) = [identity_entry 0 ''touch''
     (ok_fields [(''found'', JBool True), (''name'', JStr ''touch''), (''path'', JStr ''/bin/touch''),
        (''sha256'', JStr (replicate 64 CHR ''1''))])]"
  "ov_success cmd_inspected"
  by code_simp+

lemma cmd_parts:
  "map_of capabilities ''shell_command'' = Some (snd (host_capability ''shell_command'' Write))"
  "normalize_params (snd (host_capability ''shell_command'' Write)) cmd_params = Inr cmd_params"
  "resolve_argv (\<lambda>_. []) cmd_params = Inr [''touch'', ''a'']"
  "py_str (\<lambda>_. []) (get_or cmd_params ''target'' (JStr [])) = []"
  "command_target [''touch'', ''a''] = Inr []" "command_requires_target [''touch'', ''a''] = Inr False"
  "plan_command cmd_control (cmd_state 0) cmd_policy [''touch'', ''a''] [] False = Inr cmd_plan"
  "executable_indexes [''touch'', ''a''] = [0]"
  "declared_outputs (cmd_state (Suc 0)) cmd_plan = Inr [(''/w/a'', ''/w/a'')]"
  "final_command cmd_plan [''/bin/touch'', ''a''] [cmd_executable] = [''/bin/touch'', ''a'']"
  "resolved_command_action cmd_control (cmd_state (Suc 0)) ''shell_command'' [''/bin/touch'', ''a''] [''touch'', ''a'']
     [(''/w/a'', ''/w/a'')] [] [] False [cmd_executable] = Inr cmd_action"
  "resolved_risk cmd_control (cmd_state (Suc 0)) ''shell_command'' cmd_params Write = Inr Write"
  "command_identity cmd_control (cmd_state (Suc 0)) cmd_action ''shell_command'' = Inr cmd_identity"
  "resolved_entry cmd_control (identity_entry 0 ''touch''
     (ok_fields [(''found'', JBool True), (''name'', JStr ''touch''), (''path'', JStr ''/bin/touch''),
        (''sha256'', JStr (replicate 64 CHR ''1''))])) = Inr cmd_executable"
  by code_simp+

lemma world_host_same [simp]: "v\<lparr>w_host := w_host v\<rparr> = v"
  by (cases v) simp

lemma cmd_resolve:
  assumes "ready_world (hk_services cmd_control) w" "w_host w = cmd_state 0"
  shows "\<exists>ls w'. resolve_executables cmd_control ''shell_command'' [''touch'', ''a''] [] False None w
       = (Inr ([''/bin/touch'', ''a''], [cmd_executable]), ls, w')
     \<and> ready_world (hk_services cmd_control) w' \<and> w_host w' = cmd_state (Suc 0)"
proof -
  define r where "r = (request_of ''resolve_executable'')\<lparr>xr_target := [], xr_target_required := False, xr_risk := Read,
      xr_executor := ''internal'', xr_params := [(''capability'', JStr ''shell_command''), (''executables'', JList [JStr ''touch''])],
      xr_command := CommandArgv [''resolve-executable'', ''touch''],
      xr_metadata := controller_metadata ''shell_command'' @ [(''purpose'', JStr ''executable_identity'')]\<rparr>"
  have r: "validate_request r = Inr r" "xr_target r = []" "\<not> xr_target_required r" "xr_risk r \<noteq> Destructive" "xr_expires r = None"
    "xr_blocked r = []" "xr_dependency_ok r" "resolved_action_error r = []" "1 < xr_ttl r"
    by (simp_all add: r_def request_of_def validate_request_def resolved_action_error_def)
  have "\<exists>res ls v w'. coordinate cmd_control r None (body_of (inspect_all cmd_control None [(0, ''touch'')] [])) w = (Inr res, ls, w')
     \<and> LaunchOperation v \<in> set ls \<and> co_success res \<and> co_value res = Some cmd_inspected
     \<and> w_request v = (if xr_risk r = Read then r else r\<lparr>xr_expires := Some (xr_ttl r)\<rparr>)
     \<and> w_host w' = cmd_state (Suc 0) \<and> ready_world (hk_services cmd_control) w'"
    by (rule coordinate_allowed [where f = "\<lambda>h. h", OF cmd_ready(2) assms(1) r])
       (use assms(2) cmd_items(2) in \<open>simp_all add: cmd_resolve_body del: inspect_all.simps\<close>)
  then obtain res ls w' where c: "coordinate cmd_control r None (body_of (inspect_all cmd_control None [(0, ''touch'')] [])) w = (Inr res, ls, w')"
    "co_success res" "co_value res = Some cmd_inspected" "w_host w' = cmd_state (Suc 0)" "ready_world (hk_services cmd_control) w'" by auto
  have f: "put_executable cmd_executable [''touch'', ''a''] = [''/bin/touch'', ''a'']"
    by (simp add: put_executable_def cmd_executable_def)
  have n: "truthy (get_or (identity_entry 0 ''touch''
     (ok_fields [(''found'', JBool True), (''name'', JStr ''touch''), (''path'', JStr ''/bin/touch''),
        (''sha256'', JStr (replicate 64 CHR ''1''))])) ''found'' JNull)" by code_simp
  show ?thesis
    using c assms(2)
    by (simp add: resolve_executables_def Let_def job_bind_def job_host_def cmd_parts(8) r_def [symmetric] cmd_items(1) n
        job_lift_def job_return_def cmd_parts(14) f)
qed

lemma cmd_recheck: "w_host v = cmd_state n \<Longrightarrow> body_of (recheck_executables cmd_control [cmd_executable]) v = (OpValue None, v)"
proof -
  assume h: "w_host v = cmd_state n"
  have "field (inspect_executable sample_os sample_disk (xe_path cmd_executable) None) k = (if k = ''ok'' then JBool True else
     if k = ''error'' then JStr [] else if k = ''found'' then JBool True else if k = ''name'' then JStr ''touch''
     else if k = ''path'' then JStr (xe_path cmd_executable) else if k = ''sha256'' then JStr (xe_sha256 cmd_executable) else JNull)" for k
    by (simp add: cmd_executable_def cmd_inspection) (simp add: ok_fields_def)
  with h show ?thesis
    by (simp add: body_of_def step_bind_def step_host_def step_return_def executable_matches_def)
qed

definition cmd_result :: op_value where
  "cmd_result = fst (execute_internal cmd_control ''shell_command'' (dict_set ''argv'' (text_items [''/bin/touch'', ''a'']) cmd_params)
     \<lparr>fs_read = [], fs_write = [[''w'']]\<rparr> (Some cmd_policy) None sample_disk)"

lemma cmd_execute:
  "ov_success cmd_result"
  "snd (execute_internal cmd_control ''shell_command'' (dict_set ''argv'' (text_items [''/bin/touch'', ''a'']) cmd_params)
     \<lparr>fs_read = [], fs_write = [[''w'']]\<rparr> (Some cmd_policy) None sample_disk) = sample_disk"
  "binding_checks cmd_control (cmd_state (Suc (Suc 0))) cmd_action [''touch'', ''a''] Write (bind_state (cmd_state (Suc 0))) = Inr ()"
  by code_simp+

lemma cmd_shell_body:
  assumes "w_host v = cmd_state (Suc (Suc 0))" "w_context v = Some (''shell_command'', e, t)"
  shows "shell_body cmd_control cmd_action cmd_plan (dict_set ''argv'' (text_items [''/bin/touch'', ''a'']) cmd_params)
     [''/bin/touch'', ''a''] Write (bind_state (cmd_state (Suc 0))) None v = (OpValue (Some cmd_result), v)"
proof -
  have p: "pl_argv cmd_plan = [''touch'', ''a'']" by (simp add: cmd_plan_def)
  obtain r where x: "execute_internal cmd_control ''shell_command'' (dict_set ''argv'' (text_items [''/bin/touch'', ''a'']) cmd_params)
     \<lparr>fs_read = [], fs_write = [[''w'']]\<rparr> (Some cmd_policy) None sample_disk = (cmd_result, sample_disk)"
    using cmd_execute(2) unfolding cmd_result_def by (metis prod.collapse)
  have d: "(cmd_state (Suc (Suc 0)))\<lparr>hc_disk := sample_disk\<rparr> = cmd_state (Suc (Suc 0))" by (simp add: cmd_state_def)
  have v: "v\<lparr>w_host := cmd_state (Suc (Suc 0))\<rparr> = v" using assms(1) world_host_same [of v] by simp
  show ?thesis
    using assms by (simp add: shell_body_def Let_def validate_command_binding_def p cmd_execute(3) agent_run_def x d v)
qed

lemma cmd_run:
  "\<exists>x ls v w'. run_host cmd_control ''shell_command'' cmd_params None cmd_world = (x, ls, w') \<and> LaunchOperation v \<in> set ls
     \<and> material_of (w_request v) = material_of (cmd_request\<lparr>xr_expires := Some 300\<rparr>)"
proof -
  have w0: "w_host cmd_world = cmd_state 0" by (simp add: cmd_world_def)
  from cmd_resolve [OF cmd_ready(1) w0] obtain ls w1 where res: "resolve_executables cmd_control ''shell_command'' [''touch'', ''a''] [] False None cmd_world
       = (Inr ([''/bin/touch'', ''a''], [cmd_executable]), ls, w1)"
    and w1: "ready_world (hk_services cmd_control) w1" "w_host w1 = cmd_state (Suc 0)" by blast
  let ?body = "shell_body cmd_control cmd_action cmd_plan (dict_set ''argv'' (text_items [''/bin/touch'', ''a'']) cmd_params)
     [''/bin/touch'', ''a''] Write (bind_state (cmd_state (Suc 0))) None"
    and ?prep = "Some (body_of (recheck_executables cmd_control [cmd_executable]))"
  have r: "validate_request cmd_request = Inr cmd_request" "xr_target cmd_request = []" "\<not> xr_target_required cmd_request"
    "xr_risk cmd_request \<noteq> Destructive" "xr_expires cmd_request = None" "xr_blocked cmd_request = []"
    "xr_dependency_ok cmd_request" "resolved_action_error cmd_request = []" "1 < xr_ttl cmd_request" "xr_risk cmd_request = Write"
    "xr_action cmd_request = ''shell_command''" "xr_ttl cmd_request = 300"
    by code_simp+
  have "\<exists>res ls v w'. coordinate cmd_control cmd_request ?prep ?body w1 = (Inr res, ls, w') \<and> LaunchOperation v \<in> set ls
     \<and> co_success res \<and> co_value res = Some cmd_result
     \<and> w_request v = (if xr_risk cmd_request = Read then cmd_request else cmd_request\<lparr>xr_expires := Some (xr_ttl cmd_request)\<rparr>)
     \<and> w_host w' = cmd_state (Suc (Suc 0)) \<and> ready_world (hk_services cmd_control) w'"
    by (rule coordinate_allowed [where f = "\<lambda>h. h", OF cmd_ready(2) w1(1) r(1-9)])
       (use w1(2) cmd_execute(1) in \<open>simp_all add: cmd_recheck cmd_shell_body r del: recheck_executables.simps\<close>)
  then obtain res ms v w2 where c: "coordinate cmd_control cmd_request ?prep ?body w1 = (Inr res, ms, w2)" "LaunchOperation v \<in> set ms"
    "w_request v = cmd_request\<lparr>xr_expires := Some 300\<rparr>" by (auto simp: r)
  have e: "shell_request (cmd_state (Suc 0)) cmd_params cmd_plan [''/bin/touch'', ''a''] Write cmd_identity cmd_action = cmd_request"
    by (simp add: cmd_request_def)
  have p: "pl_argv cmd_plan = [''touch'', ''a'']" "pl_target cmd_plan = []" "\<not> pl_target_required cmd_plan" "ex_cwd (pl_context cmd_plan) = []"
    "ra_executables cmd_action = [cmd_executable]" "raise_risk E (Some cmd_action) Write = Write" for E
    by (simp_all add: cmd_plan_def empty_context_def cmd_action_def raise_risk_def)
  have ask: "ask_shell cmd_control (snd (host_capability ''shell_command'' Write)) cmd_params None cmd_plan cmd_world = (Inr res, ls @ ms, w2)"
    using c(1) w1(2)
    by (simp add: ask_shell_def Let_def job_bind_def job_host_def job_lift_def p res cmd_parts e host_capability_def)
  have ca: "ca_risk (snd (host_capability ''shell_command'' Write)) = Write" by (simp add: host_capability_def)
  have "run_shell cmd_control (snd (host_capability ''shell_command'' Write)) cmd_params None cmd_world = (Inr res, ls @ ms, w2)"
    using ask w0 by (simp add: run_shell_def job_bind_def job_host_def job_lift_def job_return_def cmd_parts checked_plan_def)
  then have "run_host cmd_control ''shell_command'' cmd_params None cmd_world = (Inr (Returned res), ls @ ms, w2)"
    by (simp add: run_host_def run_capability_def cmd_parts host_agent_capabilities_def session_capabilities_def)
  with c show ?thesis by auto
qed


end
