(* ===== verification/HostCommands.thy ===== *)
theory HostCommands
  imports HostProps
begin

text \<open>
  What holds at the moment a command starts: the checks the controller of \<open>runtime/host_controller.py\<close>
  repeats after the approval, just before the launch, for shell commands and for the commands of both
  kinds of session, and what the operations of the host agent may touch.
\<close>

section \<open>Shell commands\<close>

text \<open>The restrictions in force, as a launch needs them.\<close>

definition restrictions_hold :: "control_env \<Rightarrow> host_state \<Rightarrow> resolved_action \<Rightarrow> string list \<Rightarrow> risk_level \<Rightarrow> bound_state \<Rightarrow> bool" where
  "restrictions_hold H h a argv risk b \<longleftrightarrow>
     scope_roots (hc_scope h) = bs_scope b \<and> \<not> fs_is_empty (hc_scope h)
     \<and> (\<exists>n c. hc_policy h = Some (n, c) \<and> policy_check c argv = Inr ())
     \<and> risk_order (risk_of H h argv) \<le> risk_order risk
     \<and> map_option fst (hc_executor h) = bs_executor b \<and> map_option (\<lambda>(n, p). identify p) (hc_executor h) = bs_environment b
     \<and> (\<forall>(host, provider) \<in> set (ra_outputs a). \<exists>q. host_res H h host = Some q \<and> in_write_scope (hc_scope h) q
          \<and> (uses_external h \<longrightarrow> (\<exists>m. map_host_path H h host True = Inr m \<and> rp_provider m = provider)))"

lemma binding_checks_ok: "binding_checks H h a argv risk b = Inr () \<longleftrightarrow> restrictions_hold H h a argv risk b"
  by (auto simp: binding_checks_def restrictions_hold_def res_bind_eq_Inr iter_res_ok check_output_def host_check_def
      fs_check_write split: option.splits prod.splits if_splits)

lemma validate_binding_cases:
  "validate_command_binding H h a argv risk b = Inr None \<longleftrightarrow> restrictions_hold H h a argv risk b"
  "validate_command_binding H h a argv risk b = Inr (Some v) \<Longrightarrow> \<not> ov_success v"
  by (cases "binding_checks H h a argv risk b";
      force simp: validate_command_binding_def binding_checks_ok [symmetric] failure_value_def split: if_split_asm)+

lemma run_command_starts:
  "run_command Os c call d = (r, d') \<Longrightarrow> d' \<noteq> d \<or> (\<exists>data. r = Inr data \<and> truthy (field data ''ok''))
     \<Longrightarrow> policy_check c (sn_argv call) = Inr ()"
  by (auto simp: run_command_def Let_def split: sum.splits prod.splits spawned.splits if_split_asm)

lemma agent_shell_starts:
  assumes "agent_shell E ps policy stdin d = (r, d')" "d' \<noteq> d \<or> (\<exists>data. r = Inr data \<and> truthy (field data ''ok''))"
  shows "\<exists>c argv. policy = Some c \<and> resolve_argv (hv_render E) ps = Inr argv \<and> classify_at (hv_os E) d argv \<noteq> Destructive
     \<and> policy_check c (sudo_stdin stdin argv) = Inr ()"
proof -
  from assms obtain c argv where c: "policy = Some c" "resolve_argv (hv_render E) ps = Inr argv" "classify_at (hv_os E) d argv \<noteq> Destructive"
    and r: "run_command (hv_os E) c ((plain_spawn (sudo_stdin stdin argv))\<lparr>sn_stdin := stdin\<rparr>) d = (r, d')"
    by (auto simp: agent_shell_def split: option.splits sum.splits if_split_asm)
  from run_command_starts [OF r assms(2)] c show ?thesis by (auto simp: plain_spawn_def)
qed

lemma agent_run_starts:
  assumes "agent_run E ''shell_command'' ps scope policy stdin w = (out, w')"
    "w' \<noteq> w \<or> (\<exists>v. out = OpValue (Some v) \<and> ov_success v)"
  shows "\<exists>c argv. policy = Some c \<and> resolve_argv (hv_render E) ps = Inr argv
     \<and> classify_at (hv_os E) (hc_disk (w_host w)) argv \<noteq> Destructive \<and> policy_check c (sudo_stdin stdin argv) = Inr ()"
proof -
  let ?d = "hc_disk (w_host w)"
  obtain r d' where a: "agent_shell E ps policy stdin ?d = (r, d')" by (metis surj_pair)
  then have x: "dispatch E ''shell_command'' ps scope policy stdin ?d = (r, d')" by (simp add: dispatch_def Let_def)
  have same: "w\<lparr>w_host := (w_host w)\<lparr>hc_disk := ?d\<rparr>\<rparr> = w" by (cases w) simp
  have "d' \<noteq> ?d \<or> (\<exists>data. r = Inr data \<and> truthy (field data ''ok''))"
    using assms x same
    by (auto simp: agent_run_def execute_internal_def agent_result_def Let_def split: option.splits prod.splits sum.splits if_split_asm)
  from agent_shell_starts [OF a this] show ?thesis .
qed

text \<open>
  C11: A shell command starts only under the restrictions it was approved with: unless the scope has the
  roots it had, the policy in force allows the command, its risk is not above the approved one, executor and
  environment are the same, and every declared output is still in the write scope and mapped to the same
  provider path, nothing changes and the result is no success. A local command moreover runs the
  resolved vector, which the policy allows as well and which is not destructive; a command with a password on
  its standard input is never forwarded to a provider.
\<close>
theorem command_revalidated:
  assumes "shell_body H a pl (dict_set ''argv'' (text_items resolved) ps) command risk b stdin w = (out, w')" "resolved \<noteq> []"
    and "w' \<noteq> w \<or> (\<exists>v. out = OpValue (Some v) \<and> ov_success v)"
  shows "restrictions_hold H (w_host w) a (pl_argv pl) risk b \<and> (uses_external (w_host w) \<longrightarrow> stdin = None)
    \<and> (\<not> uses_external (w_host w) \<longrightarrow> (\<exists>n c. hc_policy (w_host w) = Some (n, c)
        \<and> policy_check c (sudo_stdin stdin resolved) = Inr () \<and> risk_of H (w_host w) resolved \<noteq> Destructive))"
proof (intro conjI)
  let ?h = "w_host w"
  have v: "validate_command_binding H ?h a (pl_argv pl) risk b = Inr None"
  proof (rule ccontr)
    assume n: "\<not> ?thesis"
    from n assms(1,3) validate_binding_cases(2) show False
      by (auto simp: shell_body_def Let_def split: sum.splits option.splits)
  qed
  then show bound: "restrictions_hold H ?h a (pl_argv pl) risk b" by (simp add: validate_binding_cases)
  from v assms(1,3) show "uses_external ?h \<longrightarrow> stdin = None"
    by (auto simp: shell_body_def Let_def failure_value_def split: if_split_asm)
  have argv: "resolve_argv render (dict_set ''argv'' (text_items resolved) ps) = Inr resolved" for render
    using assms(2) by (simp add: resolve_argv_def argv_of_def text_items_def comp_def)
  show "\<not> uses_external ?h \<longrightarrow> (\<exists>n c. hc_policy ?h = Some (n, c)
        \<and> policy_check c (sudo_stdin stdin resolved) = Inr () \<and> risk_of H ?h resolved \<noteq> Destructive)"
  proof
    assume l: "\<not> uses_external ?h"
    with v assms(1) have "agent_run H ''shell_command'' (dict_set ''argv'' (text_items resolved) ps) (hc_scope ?h)
        (map_option snd (hc_policy ?h)) stdin w = (out, w')" by (simp add: shell_body_def Let_def)
    from agent_run_starts [OF this assms(3)] argv
    show "\<exists>n c. hc_policy ?h = Some (n, c) \<and> policy_check c (sudo_stdin stdin resolved) = Inr ()
        \<and> risk_of H ?h resolved \<noteq> Destructive" by (auto simp: risk_of_def)
  qed
qed


definition cmd_launch :: world where
  "cmd_launch = cmd_world\<lparr>w_host := cmd_state 2, w_context := Some (''shell_command'', ''internal'', [])\<rparr>"

theorem command_revalidated_witness:
  "restrictions_hold cmd_control (w_host cmd_launch) cmd_action (pl_argv cmd_plan) Write (bind_state (cmd_state 1))
     \<and> policy_check cmd_policy [''/bin/touch'', ''a''] = Inr ()"
proof -
  have h: "w_host cmd_launch = cmd_state (Suc (Suc 0))" by (simp add: cmd_launch_def eval_nat_numeral)
  have c: "w_context cmd_launch = Some (''shell_command'', ''internal'', [])" by (simp add: cmd_launch_def)
  from command_revalidated [OF cmd_shell_body [OF h c]] cmd_execute(1) h show ?thesis
    by (auto simp: sudo_stdin_def)
qed

section \<open>Commands of a session\<close>

lemma exec_local_starts:
  assumes "exec_local_body H lp command w = (out, w')" "w' \<noteq> w \<or> (\<exists>v. out = OpValue (Some v) \<and> ov_success v)"
  shows "\<not> session_changed H (w_host w) lp \<and> recheck_local H (w_host w) lp = Inr ()"
  using assms
  by (auto simp: exec_local_body_def body_of_def step_bind_def step_host_def give_def step_return_def step_lift_def failure_value_def
      split: if_split_asm sum.splits)

text \<open>
  C12: A command of a local session starts only when the policy object is the approved one and still allows
  the command, the session has the working directory and the environment it was approved in, the directory is
  in the read scope, and so is the one a \<open>cd\<close> leads to, and every declared output is in the write scope; otherwise nothing changes and the
  result is no success.
\<close>
theorem local_session_revalidated:
  assumes "exec_local_body H lp command w = (out, w')" "w' \<noteq> w \<or> (\<exists>v. out = OpValue (Some v) \<and> ov_success v)"
  shows "(\<exists>c. hc_policy (w_host w) = Some (fst (lo_policy lp), c) \<and> policy_check c (lo_argv lp) = Inr ())
    \<and> hl_cwd (local_at (w_host w) (lo_ref lp)) = lo_cwd lp \<and> hl_env (local_at (w_host w) (lo_ref lp)) = lo_env lp
    \<and> (\<forall>p \<in> {lo_cwd lp, lo_next lp} - {[]}. \<exists>q. host_res H (w_host w) p = Some q \<and> in_read_scope (hc_scope (w_host w)) q)
    \<and> (\<forall>p \<in> set (lo_outputs lp). \<exists>q. host_res H (w_host w) p = Some q \<and> in_write_scope (hc_scope (w_host w)) q)"
  using exec_local_starts [OF assms]
  by (auto simp: session_changed_def recheck_local_def Let_def res_bind_eq_Inr iter_res_ok host_check_def fs_check_write fs_check_read
      split: if_split_asm)

lemma exec_remote_starts:
  assumes "exec_remote_body H a rp command risk b w = (out, w')" "w' \<noteq> w \<or> (\<exists>v. out = OpValue (Some v) \<and> ov_success v)"
  shows "validate_command_binding H (w_host w) a (re_argv rp) risk b = Inr None \<and> remote_unchanged H (w_host w) rp = Inr ()"
  using assms validate_binding_cases(2) [of H "w_host w" a "re_argv rp" risk b]
  by (auto simp: exec_remote_body_def body_of_def step_bind_def step_host_def give_def step_return_def step_lift_def failure_value_def
      split: if_split_asm sum.splits option.splits)

text \<open>
  A command of a provider session starts only under the restrictions it was approved with, in the session it was
  approved for: the current one, or none where a session is opened for it, with the context it had, and with its
  working directory still in the read scope and still mapped to the directory the command carries.
\<close>
theorem provider_session_revalidated:
  assumes "exec_remote_body H a rp command risk b w = (out, w')" "w' \<noteq> w \<or> (\<exists>v. out = OpValue (Some v) \<and> ov_success v)"
  shows "restrictions_hold H (w_host w) a (re_argv rp) risk b
    \<and> hc_remote (w_host w) = (if re_existing rp then Some (re_ref rp) else None)
    \<and> ps_context (remote_at (w_host w) (re_ref rp)) = re_bound rp
    \<and> (\<exists>q. host_res H (w_host w) (re_cwd rp) = Some q \<and> in_read_scope (hc_scope (w_host w)) q)
    \<and> provider_dir H (w_host w) (re_cwd rp) = Inr (ex_cwd (re_context rp))"
  using exec_remote_starts [OF assms]
  by (auto simp: validate_binding_cases remote_unchanged_def Let_def res_bind_eq_Inr host_check_def fs_check_read)

section \<open>Executables\<close>

lemma executable_matches_local:
  assumes "\<not> uses_external (w_host w)"
  shows "\<exists>ok. executable_matches H e w = (Inr ok, w) \<and> (ok \<longrightarrow> (\<exists>found body q.
     os_which (hv_os H) (hc_disk (w_host w)) (strip (xe_path e)) None = Some found
     \<and> read_bytes (hv_os H) (hc_disk (w_host w)) found = Inr body \<and> res_at (hv_os H) (hc_disk (w_host w)) found = Some q
     \<and> path_text q = xe_path e \<and> os_sha256 (hv_os H) body = xe_sha256 e))"
  using assms
  by (auto simp: executable_matches_def step_bind_def step_host_def step_return_def Let_def inspect_executable_def
      ok_fields_def deny_fields_def split: option.splits sum.splits)

text \<open>
  The check of the executables lets a local command go on only when each of its executables is still found,
  resolves to the approved path and has the approved content digest; it changes nothing.
\<close>
theorem executables_unchanged:
  assumes "body_of (recheck_executables H es) w = (OpValue None, w')" "\<not> uses_external (w_host w)"
  shows "w' = w \<and> (\<forall>e \<in> set es. \<exists>found body q.
     os_which (hv_os H) (hc_disk (w_host w)) (strip (xe_path e)) None = Some found
     \<and> read_bytes (hv_os H) (hc_disk (w_host w)) found = Inr body \<and> res_at (hv_os H) (hc_disk (w_host w)) found = Some q
     \<and> path_text q = xe_path e \<and> os_sha256 (hv_os H) body = xe_sha256 e)"
  using assms(1)
proof (induction es)
  case Nil
  then show ?case by (simp add: body_of_def step_return_def)
next
  case (Cons e es)
  from executable_matches_local [OF assms(2), of H e] obtain ok where ok: "executable_matches H e w = (Inr ok, w)"
    and found: "ok \<longrightarrow> (\<exists>found body q.
     os_which (hv_os H) (hc_disk (w_host w)) (strip (xe_path e)) None = Some found
     \<and> read_bytes (hv_os H) (hc_disk (w_host w)) found = Inr body \<and> res_at (hv_os H) (hc_disk (w_host w)) found = Some q
     \<and> path_text q = xe_path e \<and> os_sha256 (hv_os H) body = xe_sha256 e)" by blast
  from ok Cons.prems have "ok" "body_of (recheck_executables H es) w = (OpValue None, w')"
    by (auto simp: body_of_def step_bind_def step_return_def split: if_split_asm)
  with Cons.IH found show ?case by auto
qed

section \<open>Without a policy\<close>

definition refused :: "coordinated job \<Rightarrow> bool" where
  "refused m \<longleftrightarrow> (\<forall>w x ls w'. hc_policy (w_host w) = None \<and> m w = (x, ls, w') \<longrightarrow> ls = []
     \<and> (\<forall>res. x = Inr res \<or> x = Inl (Finished (Returned res)) \<longrightarrow> \<not> co_success res))"

lemma coordinate_finished: "coordinate H r p b w = (Inl (Finished x), ls, w') \<Longrightarrow> \<exists>res by_provider. x = CancelRaised res by_provider"
  by (auto simp: coordinate_def Let_def split: sum.splits prod.splits execution.splits)

lemma refused_report: "xr_blocked r \<noteq> [] \<Longrightarrow> refused (report_request H r)"
  unfolding refused_def using report_blocked [of r H] coordinate_finished [of H r None no_operation]
  by (fastforce simp: report_request_def)

lemma refused_blocked: "reason \<noteq> [] \<Longrightarrow> refused (blocked H capability reason)"
  using refused_report [of "(request_of capability)\<lparr>xr_executor := e, xr_blocked := reason, xr_metadata := m\<rparr>" H for e m]
  by (auto simp: refused_def blocked_def job_bind_def job_host_def)

lemma refused_lift: "refused (job_lift (Inl e))"
  by (simp add: refused_def job_lift_def)

lemma refused_host: "(\<And>h. hc_policy h = None \<Longrightarrow> refused (f h)) \<Longrightarrow> refused (job_bind job_host f)"
  unfolding refused_def job_bind_def job_host_def by (auto split: prod.splits) blast+

lemma refused_lifted: "(\<And>x. refused (f x)) \<Longrightarrow> refused (job_bind (job_lift r) f)"
  by (cases r) (auto simp: refused_def job_bind_def job_lift_def split: prod.splits)

lemma refused_run_shell: "refused (run_shell H spec ps stdin)"
  by (auto simp: run_shell_def intro!: refused_host refused_report)

lemma refused_exec_local: "refused (exec_local H ps)"
  by (auto simp: exec_local_def intro!: refused_host refused_lifted refused_report refused_blocked)

lemma refused_run_provider_session: "refused (run_provider_session H capability ps)"
  by (auto simp: run_provider_session_def intro!: refused_host refused_blocked)

lemma refused_session_exec: "refused (run_session H ''session_exec'' spec ps)"
  by (auto simp: run_session_def run_local_session_def intro!: refused_host refused_blocked refused_exec_local
      refused_run_provider_session refused_lift split: sum.split option.split)

lemma refused_shell: "refused (run_capability H ''shell_command'' ps stdin)"
  by (auto simp: run_capability_def intro!: refused_report refused_lift refused_run_shell split: sum.split option.split bool.split)

text \<open>
  C13: Without a command policy no command runs: asking the controller for a shell command or for a
  command of a session launches nothing, neither an operation nor a preparation, and what comes back is no success.
\<close>
theorem no_policy_no_command:
  assumes "capability \<in> {''shell_command'', ''session_exec''}" "hc_policy (w_host w) = None"
    and "run_host H capability ps stdin w = (x, ls, w')"
  shows "ls = [] \<and> (\<forall>res. x = Inr (Returned res) \<longrightarrow> \<not> co_success res)"
proof -
  have "refused (case (capability \<in> set session_capabilities, map_of capabilities capability) of
         (True, Some spec) \<Rightarrow> run_session H capability spec ps
       | _ \<Rightarrow> run_capability H capability ps stdin)"
  proof (cases "capability = ''shell_command''")
    case True
    then have "capability \<notin> set session_capabilities" by (simp add: session_capabilities_def)
    then show ?thesis using True refused_shell by simp
  next
    case False
    with assms(1) have c: "capability = ''session_exec''" by simp
    show ?thesis
    proof (cases "map_of capabilities capability")
      case None
      then show ?thesis using c
        by (simp add: run_capability_def refused_report split: bool.split)
    next
      case (Some spec)
      then show ?thesis using c refused_session_exec by (simp add: session_capabilities_def)
    qed
  qed
  with assms(2,3) show ?thesis
    by (auto simp: refused_def run_host_def split: sum.splits prod.splits ending.splits) 
qed

theorem no_policy_no_command_witness:
  "fst (snd (run_host cmd_control ''shell_command'' cmd_params None
     (cmd_world\<lparr>w_host := (cmd_state 0)\<lparr>hc_policy := None\<rparr>\<rparr>))) = []"
proof -
  let ?w = "cmd_world\<lparr>w_host := (cmd_state 0)\<lparr>hc_policy := None\<rparr>\<rparr>"
  obtain x ls w' where r: "run_host cmd_control ''shell_command'' cmd_params None ?w = (x, ls, w')" by (metis surj_pair)
  from no_policy_no_command [OF _ _ r] r show ?thesis by simp
qed

theorem executables_unchanged_witness:
  "body_of (recheck_executables cmd_control [cmd_executable]) cmd_launch = (OpValue None, cmd_launch)
   \<and> (\<exists>body. os_sha256 (hv_os cmd_control) body = xe_sha256 cmd_executable)"
proof -
  have h: "w_host cmd_launch = cmd_state 2" by (simp add: cmd_launch_def)
  from cmd_recheck [OF h] executables_unchanged [OF cmd_recheck [OF h]] h show ?thesis by auto
qed

section \<open>What the operations of the agent touch\<close>

lemma dispatch_changes:
  assumes "dispatch E capability ps scope policy stdin d = (r, d')"
    and "capability \<notin> {''shell_command'', ''host_session'', ''service_status'', ''service_control''}"
  shows "changes_only (in_write_scope scope) d d'"
proof -
  have "changes_only (in_write_scope scope) d d'"
    if "(case m of Inl e \<Rightarrow> (Inl e, d) | Inr f \<Rightarrow> f d) = (r, d')"
      "\<And>f. m = Inr f \<Longrightarrow> \<forall>r d'. f d = (r, d') \<longrightarrow> changes_only (in_write_scope scope) d d'" for m
    using that by (auto split: sum.splits)
  note effect = this
  show ?thesis
    using assms
    by (auto simp: dispatch_def Let_def res_bind_eq_Inr split: if_split_asm
        elim!: effect dest!: sym [of "Inr _"] intro: file_write_changes file_edit_changes file_fetch_changes)
qed

lemma field_normalized:
  assumes "k \<notin> {''ok'', ''error''}"
  shows "field (normalized_of (agent_result render data)) k = field data k"
proof -
  have "map_of (filter (\<lambda>(k, v). k \<notin> {''ok'', ''error''}) data) k = map_of data k"
    using assms by (induction data) auto
  then show ?thesis by (simp add: normalized_of_def agent_result_def Let_def field_def)
qed

lemma agent_read:
  assumes "execute_internal E ''file_read'' ps scope policy stdin d = (v, d')" "ov_success v"
  shows "\<exists>p q raw. map_of ps ''path'' = Some (JStr p) \<and> res_at (hv_os E) d p = Some q \<and> in_read_scope scope q
     \<and> map_of (dk_files d) q = Some raw \<and> field (normalized_of v) ''content'' = JStr (os_decode (hv_os E) (take max_read_bytes raw))
     \<and> field (normalized_of v) ''sha256'' = JStr (os_sha256 (hv_os E) raw)"
proof -
  from assms obtain data where v: "v = agent_result (hv_render E) data" "truthy (field data ''ok'')"
    and r: "res_bind (need_text ps ''path'') (\<lambda>p. file_read (hv_os E) d scope p max_read_bytes) = Inr data"
    by (auto simp: execute_internal_def dispatch_def agent_result_def Let_def split: sum.splits)
  from r obtain p where p: "map_of ps ''path'' = Some (JStr p)" and f: "file_read (hv_os E) d scope p max_read_bytes = Inr data"
    by (auto simp: res_bind_eq_Inr need_text_def split: option.splits jval.splits)
  from f v(2) have "field data ''ok'' = JBool True"
    by (auto simp: file_read_def res_bind_eq_Inr deny_fields_def split: sum.splits if_split_asm)
  from file_read_ok [OF f this] p v(1) show ?thesis by (auto simp: field_normalized)
qed



section \<open>Witnesses of the session theorems\<close>

text \<open>A local session in the working directory \<open>/w\<close>, and the plan of a command in it.\<close>

definition session_launch :: world where
  "session_launch = cmd_launch\<lparr>w_host := (cmd_state 2)\<lparr>hc_locals := [\<lparr>hl_policy = (0, cmd_policy), hl_scope = None, hl_cwd = ''/w'',
      hl_env = [(''PATH'', ''/bin'')], hl_transcript = []\<rparr>], hc_local := Some 0\<rparr>\<rparr>"

definition session_launch_plan :: local_plan where
  "session_launch_plan = \<lparr>lo_ref = 0, lo_policy = (0, cmd_policy), lo_argv = [''touch'', ''a''], lo_cwd = ''/w'',
     lo_env = [(''PATH'', ''/bin'')], lo_next = [], lo_outputs = [''/w/a'']\<rparr>"


definition session_launch_out :: op_outcome where
  "session_launch_out = fst (exec_local_body cmd_control session_launch_plan [''/bin/touch'', ''a''] session_launch)"

lemma session_launch_starts: "case session_launch_out of OpValue (Some v) \<Rightarrow> ov_success v | _ \<Rightarrow> False"
  by code_simp

theorem local_session_revalidated_witness:
  "policy_check cmd_policy [''touch'', ''a''] = Inr () \<and> (\<exists>q. host_res cmd_control (w_host session_launch) ''/w/a'' = Some q
     \<and> in_write_scope (hc_scope (w_host session_launch)) q)"
proof -
  obtain w' where r: "exec_local_body cmd_control session_launch_plan [''/bin/touch'', ''a''] session_launch = (session_launch_out, w')"
    unfolding session_launch_out_def by (metis prod.collapse)
  have "\<exists>v. session_launch_out = OpValue (Some v) \<and> ov_success v"
    using session_launch_starts by (auto split: op_outcome.splits option.splits)
  with local_session_revalidated [OF r] show ?thesis
    by (auto simp: session_launch_plan_def session_launch_def)
qed


text \<open>A provider session in \<open>/w/x\<close>, which the provider sees as \<open>/mnt/x\<close>, and the plan of a command in it.\<close>

definition remote_control :: control_env where
  "remote_control = cmd_control\<lparr>hk_execute := (\<lambda>_ _ _ _ w. (Inr \<lparr>eo_success = True, eo_stdout = [], eo_stderr = [], eo_exit = 0,
     eo_timed_out = False, eo_error = []\<rparr>, w))\<rparr>"

definition remote_place :: exec_context where
  "remote_place = empty_context\<lparr>ex_cwd := ''/mnt/x''\<rparr>"

definition remote_launch :: world where
  "remote_launch = cmd_launch\<lparr>w_context := Some (''session_exec'', ''docker/box'', []),
     w_host := (cmd_state 2)\<lparr>hc_executor := Some (1, sample_provider), hc_remote := Some 0, hc_remote_cwd := ''/w/x'',
       hc_remotes := [\<lparr>ps_id = ''s'', ps_provider = ''docker/box'', ps_context = remote_place, ps_limit = 8, ps_commands = 0,
         ps_transcript = [], ps_closed = False\<rparr>]\<rparr>\<rparr>"

definition remote_launch_plan :: remote_plan where
  "remote_launch_plan = \<lparr>re_ref = 0, re_existing = True, re_argv = [''ls''], re_cwd = ''/w/x'', re_bound = remote_place,
     re_context = remote_place, re_command = [''ls''], re_next = None, re_params = []\<rparr>"

definition remote_launch_out :: op_outcome where
  "remote_launch_out = fst (exec_remote_body remote_control (cmd_action\<lparr>ra_outputs := []\<rparr>) remote_launch_plan [''ls''] Write
     (bind_state (w_host remote_launch)) remote_launch)"

lemma remote_launch_starts: "case remote_launch_out of OpValue (Some v) \<Rightarrow> ov_success v | _ \<Rightarrow> False"
  by code_simp

theorem provider_session_revalidated_witness:
  "restrictions_hold remote_control (w_host remote_launch) (cmd_action\<lparr>ra_outputs := []\<rparr>) [''ls''] Write
     (bind_state (w_host remote_launch))
   \<and> provider_dir remote_control (w_host remote_launch) ''/w/x'' = Inr ''/mnt/x''"
proof -
  obtain w' where r: "exec_remote_body remote_control (cmd_action\<lparr>ra_outputs := []\<rparr>) remote_launch_plan [''ls''] Write
     (bind_state (w_host remote_launch)) remote_launch = (remote_launch_out, w')"
    unfolding remote_launch_out_def by (metis prod.collapse)
  have "\<exists>v. remote_launch_out = OpValue (Some v) \<and> ov_success v"
    using remote_launch_starts by (auto split: op_outcome.splits option.splits)
  with provider_session_revalidated [OF r] show ?thesis
    by (auto simp: remote_launch_plan_def remote_place_def)
qed

section \<open>A command that does not parse\<close>

lemma open_quote:
  "normalize_params (snd (host_capability ''shell_command'' Write)) [(''command'', JStr ''echo \"a'')]
     = Inr [(''command'', JStr ''echo \"a'')]"
  "resolve_argv (\<lambda>_. []) [(''command'', JStr ''echo \"a'')] = Inl (ValueError ''No closing quotation'')"
  by code_simp+

text \<open>
  A command line with an open quote is split outside every handler, so that the controller raises
  instead of reporting a blocked request: nothing is recorded and the world is as it was.
\<close>
lemma unparsable_command_raises:
  "run_host cmd_control ''shell_command'' [(''command'', JStr ''echo \"a'')] None cmd_world
     = (Inl (ValueError ''No closing quotation''), [], cmd_world)"
proof -
  have "w_host cmd_world = cmd_state 0" by (simp add: cmd_world_def)
  then show ?thesis
    by (simp add: run_host_def run_capability_def run_shell_def session_capabilities_def host_agent_capabilities_def
        cmd_parts(1) open_quote job_bind_def job_host_def job_lift_def)
qed
end
