(* ===== verification/AgentWiring.thy ===== *)
theory AgentWiring
  imports HostProps
begin

text \<open>
  The agent that ties the parts together, \<open>universal_agent.py\<close>: the scope it puts into force, the route of
  a tool call to the host, a coding command, an external tool or a skill, the requests it makes of them, what the
  model is shown of a result, the resumption of a saved task, and the settings of the coordinator that a loop
  changes and restores. Running an external tool or a skill, the JSON text of a call and the
  attributes of a value are parameters; the callback that only watches results is left out.
\<close>

section \<open>Routes\<close>

datatype routed =
    Refused string
  | ToHost string jdict "string option"
  | Unbuildable string
  | ToMcp cap_entry jdict
  | ToSkill string jdict

definition host_names :: "string list" where
  "host_names = [''file_read'', ''file_list'', ''file_search'', ''file_write'', ''file_edit'', ''file_fetch'', ''list_tools'',
     ''process_list'', ''process_kill'', ''service_status'', ''service_control'', ''shell_command'', ''host_session'',
     ''session_open'', ''session_exec'', ''session_close'']"

text \<open>\<open>objection\<close> is the reason of the stage's check, empty where there is none or it has no objection.\<close>

definition route_call :: "(jval \<Rightarrow> string) \<Rightarrow> cap_registry \<Rightarrow> string \<Rightarrow> string \<Rightarrow> jdict \<Rightarrow> routed res" where
  "route_call render reg objection name params =
     (if objection \<noteq> [] then Inr (Refused objection)
      else if name \<in> set host_names then Inr (ToHost name params None)
      else if is_coding_capability name then (case build_coding_command render name params of
          Inr (argv, stdin) \<Rightarrow> Inr (ToHost ''shell_command'' [(''argv'', JList (map JStr argv))] stdin)
        | Inl (ValueError e) \<Rightarrow> Inr (Unbuildable e)
        | Inl e \<Rightarrow> Inl e)
      else (case get_cap reg name of
          Some c \<Rightarrow> if ce_source c = ''mcp'' then Inr (ToMcp c params) else Inr (ToSkill name params)
        | None \<Rightarrow> Inr (ToSkill name params)))"

section \<open>Requests\<close>

record skill_entry =
  se_target_required :: bool
  se_risk :: risk_level
  se_privileges :: "string list"

definition refused_request :: "string \<Rightarrow> string \<Rightarrow> exec_request" where
  "refused_request name reason = (request_of name)\<lparr>xr_risk := Read, xr_executor := ''internal'', xr_blocked := reason,
     xr_metadata := [(''source'', JStr ''active_stage'')]\<rparr>"

definition raw_command_request :: "string \<Rightarrow> string \<Rightarrow> int option \<Rightarrow> exec_request" where
  "raw_command_request executor text timeout = (request_of ''raw_shell_command'')\<lparr>xr_command := CommandText text, xr_executor := executor,
     xr_blocked := ''raw command execution is disabled; use the governed shell_command host capability'',
     xr_metadata := [(''timeout'', JInt (case timeout of Some t \<Rightarrow> if t = 0 then 120 else t | None \<Rightarrow> 120))]\<rparr>"

definition unknown_skill_request :: "string \<Rightarrow> jdict \<Rightarrow> exec_request" where
  "unknown_skill_request name params = (request_of (if name = [] then ''unknown_skill'' else name))\<lparr>
     xr_target := target_from_params params, xr_params := params, xr_blocked := ''No registered skill found for '' @ quoted name\<rparr>"

definition skill_request :: "string \<Rightarrow> string \<Rightarrow> skill_entry \<Rightarrow> jdict \<Rightarrow> exec_request" where
  "skill_request executor name s params = (request_of name)\<lparr>xr_target := target_from_params params,
     xr_target_required := se_target_required s, xr_risk := se_risk s, xr_params := params, xr_executor := executor,
     xr_privileges := se_privileges s, xr_credentials := credential_refs_from_params params,
     xr_metadata := [(''source'', JStr ''universal_agent'')]\<rparr>"

definition mcp_risk :: "string \<Rightarrow> risk_level" where
  "mcp_risk r = (if r = ''read'' then Read else if r = ''destructive'' then Destructive else Write)"

definition mcp_target_required :: "jdict \<Rightarrow> bool" where
  "mcp_target_required schema = (case map_of schema ''required'' of
     Some (JList vs) \<Rightarrow> list_ex (\<lambda>v. case v of JStr k \<Rightarrow> k \<in> set target_keys | _ \<Rightarrow> False) vs | _ \<Rightarrow> False)"

definition mcp_request :: "(string \<Rightarrow> jdict \<Rightarrow> string) \<Rightarrow> cap_entry \<Rightarrow> jdict \<Rightarrow> exec_request" where
  "mcp_request encode c params = (request_of (ce_name c))\<lparr>xr_target := target_from_params params,
     xr_target_required := mcp_target_required (ce_schema c), xr_risk := mcp_risk (ce_risk c), xr_executor := ''mcp/'' @ ce_server c,
     xr_command := CommandText (encode (ce_tool c) params), xr_params := params,
     xr_metadata := [(''source'', JStr ''mcp''), (''server'', JStr (ce_server c)), (''tool'', JStr (ce_tool c))]\<rparr>"

section \<open>What the model is shown\<close>

text \<open>What a value looks like: an execution result, an agent result or anything else, with its \<open>success\<close> if it has one.\<close>

datatype shape =
    ExecShape string string int string
  | AgentShape string jval
  | OtherShape jval

record agent_calls =
  aw_control :: control_env
  aw_render :: "jval \<Rightarrow> string"
  aw_caps :: cap_registry
  aw_skills :: "(string, skill_entry) dict"
  aw_executor :: string
  aw_encode :: "string \<Rightarrow> jdict \<Rightarrow> string"
  aw_server :: "string \<Rightarrow> unit res"
  aw_run_mcp :: "string \<Rightarrow> command \<Rightarrow> op_outcome effect"
  aw_run_skill :: "string \<Rightarrow> jdict \<Rightarrow> op_outcome effect"
  aw_shape :: "op_value \<Rightarrow> shape"
  aw_success :: "op_value \<Rightarrow> bool option"

definition first_text :: "string list \<Rightarrow> string" where
  "first_text ts = (case filter (\<lambda>t. t \<noteq> []) ts of [] \<Rightarrow> [] | t # _ \<Rightarrow> t)"

definition observe_result :: "agent_calls \<Rightarrow> coordinated \<Rightarrow> jdict" where
  "observe_result A res =
     (let ok = JBool (co_status res = ExSuccess \<and> co_success res
            \<and> (case co_value res of None \<Rightarrow> True | Some v \<Rightarrow> aw_success A v \<noteq> Some False));
          evidence = JDict (case co_evidence res of None \<Rightarrow> [] | Some e \<Rightarrow> [(''id'', JStr (ev_id e)), (''sha256'', JStr (ev_sha256 e))]);
          report = (\<lambda>summary data. [(''success'', ok), (''summary'', JStr (take 400 summary)), (''data'', data), (''evidence'', evidence)]) in
      (case co_value res of
         None \<Rightarrow> report (first_text [co_error res, ''ok'']) (JDict [])
       | Some v \<Rightarrow> (case aw_shape A v of
           ExecShape out err code summary \<Rightarrow> report (first_text [summary, co_error res])
             (JDict [(''stdout'', JStr out), (''stderr'', JStr err), (''exit_code'', JInt code)])
         | AgentShape summary normalized \<Rightarrow> report (first_text [summary, co_error res]) normalized
         | OtherShape x \<Rightarrow> report (first_text [co_error res, ''ok'']) (redact_sensitive [] x))))"

section \<open>A tool call\<close>

datatype call_end = Observed jdict | CallRaised py_error | CallCancelled coordinated string

definition call_end_of :: "agent_calls \<Rightarrow> py_error + execution \<Rightarrow> call_end" where
  "call_end_of A x = (case x of Inl e \<Rightarrow> CallRaised e | Inr (Returned res) \<Rightarrow> Observed (observe_result A res)
     | Inr (CancelRaised res p) \<Rightarrow> CallCancelled res p)"

text \<open>\<open>self._coordinator.execute(request, operation)\<close>.\<close>

definition run_request :: "agent_calls \<Rightarrow> exec_request \<Rightarrow> op_outcome effect \<Rightarrow> world \<Rightarrow> (py_error + execution) \<times> launched list \<times> world" where
  "run_request A r body w = (case coordinate (aw_control A) r None body w of
     (Inl (Raised e), ls, w1) \<Rightarrow> (Inl e, ls, w1)
   | (Inl (Finished x), ls, w1) \<Rightarrow> (Inr x, ls, w1)
   | (Inr res, ls, w1) \<Rightarrow> (Inr (Returned res), ls, w1))"

definition execute_registered_skill :: "agent_calls \<Rightarrow> string \<Rightarrow> jdict \<Rightarrow> world \<Rightarrow> (py_error + execution) \<times> launched list \<times> world" where
  "execute_registered_skill A name params = (case map_of (aw_skills A) name of
     None \<Rightarrow> run_request A (unknown_skill_request name params) no_operation
   | Some s \<Rightarrow> run_request A (skill_request (aw_executor A) name s params) (aw_run_skill A name params))"

definition mcp_invoke :: "agent_calls \<Rightarrow> cap_entry \<Rightarrow> jdict \<Rightarrow> world \<Rightarrow> (py_error + execution) \<times> launched list \<times> world" where
  "mcp_invoke A c params w = (let r = mcp_request (aw_encode A) c params in
     case validate_request r of
       Inl e \<Rightarrow> (Inl e, [], w)
     | Inr _ \<Rightarrow> (case aw_server A (ce_server c) of
         Inl e \<Rightarrow> (Inl e, [], w)
       | Inr _ \<Rightarrow> run_request A r (aw_run_mcp A (ce_server c) (xr_command r)) w))"

text \<open>The result of a coding command, with the signals parsed from it.\<close>

definition with_signals :: "agent_calls \<Rightarrow> string \<Rightarrow> call_end \<Rightarrow> call_end" where
  "with_signals A name e = (case e of
     Observed ob \<Rightarrow> (let data = (case map_of ob ''data'' of Some (JDict d) \<Rightarrow> d | _ \<Rightarrow> []) in
       case summarize_coding_result (aw_render A) name data of
         Inl err \<Rightarrow> CallRaised err
       | Inr signals \<Rightarrow> Observed (dict_set ''data'' (JDict (fold (\<lambda>(k, v). dict_set k v) signals data)) ob))
   | _ \<Rightarrow> e)"

definition invoke_tool :: "agent_calls \<Rightarrow> string \<Rightarrow> string \<Rightarrow> jdict \<Rightarrow> world \<Rightarrow> call_end \<times> launched list \<times> world" where
  "invoke_tool A objection name params w =
     (let done = (\<lambda>(x, ls, w1). (call_end_of A x, ls, w1)) in
      case route_call (aw_render A) (aw_caps A) objection name params of
        Inl e \<Rightarrow> (CallRaised e, [], w)
      | Inr (Refused reason) \<Rightarrow> done (run_request A (refused_request name reason) no_operation w)
      | Inr (Unbuildable why) \<Rightarrow>
          (Observed [(''success'', JBool False), (''summary'', JStr why), (''data'', JDict [])], [], w)
      | Inr (ToHost capability ps stdin) \<Rightarrow> (case done (run_host (aw_control A) capability ps stdin w) of
          (e, ls, w1) \<Rightarrow> (if name \<in> set host_names then e else with_signals A name e, ls, w1))
      | Inr (ToMcp c ps) \<Rightarrow> done (mcp_invoke A c ps w)
      | Inr (ToSkill n ps) \<Rightarrow> done (execute_registered_skill A n ps w))"

text \<open>\<open>execute_command\<close>: an arbitrary command text is refused.\<close>

definition execute_command :: "agent_calls \<Rightarrow> string \<Rightarrow> int option \<Rightarrow> world \<Rightarrow> (py_error + execution) \<times> launched list \<times> world" where
  "execute_command A text timeout = run_request A (raw_command_request (aw_executor A) text timeout) no_operation"

section \<open>Resuming a task\<close>

definition unresolved_action :: "'e task_state \<Rightarrow> bool" where
  "unresolved_action t = (length (ts_actions t) \<noteq> length (ts_observations t)
     \<or> list_ex (\<lambda>(a, ob). ac_step a \<noteq> os_step ob \<or> ac_tool a \<noteq> os_tool ob) (zip (ts_actions t) (ts_observations t)))"

text \<open>\<open>fresh\<close> is the state the loop would start with; \<open>conditions\<close> tells whether the caller gave any.\<close>

definition resume_task :: "string option \<Rightarrow> bool \<Rightarrow> 'e task_state \<Rightarrow> 'e task_state option \<Rightarrow> 'e task_state res" where
  "resume_task session conditions fresh saved = (case saved of
     None \<Rightarrow> Inr fresh
   | Some t \<Rightarrow>
       res_bind (ensure (\<not> ((case session of None \<Rightarrow> True | Some s \<Rightarrow> s = [] \<or> ts_session_id t \<noteq> s)
           \<or> ts_objective t \<noteq> ts_objective fresh \<or> ts_status t \<noteq> Investigating
           \<or> conditions \<and> ts_completion t \<noteq> ts_completion fresh))
         (ValueError ''checkpoint does not match the active task and session'')) (\<lambda>_.
       res_bind (ensure (\<not> unresolved_action t) (ValueError ''checkpoint has an unresolved action; manual review is required'')) (\<lambda>_.
         Inr (t\<lparr>ts_scope := ts_scope fresh, ts_env := ts_env fresh\<rparr>))))"

section \<open>The coordinator's settings\<close>

text \<open>A callback or a check is a number; a check that runs several in turn is their list.\<close>

record coord_settings =
  ks_mode :: permission_mode
  ks_approval :: "nat option"
  ks_checks :: "nat list"
  ks_entries :: "string list"
  ks_allow_all :: bool
  ks_destructive :: bool

record agent_state =
  ua_coordinators :: "coord_settings list"
  ua_current :: nat
  ua_destructive :: bool

definition set_agent_scope :: "string list \<Rightarrow> bool \<Rightarrow> bool option \<Rightarrow> agent_state \<Rightarrow> agent_state" where
  "set_agent_scope entries allow_all destructive st =
     (let previous = ua_coordinators st ! ua_current st;
          d = (case destructive of None \<Rightarrow> ua_destructive st | Some b \<Rightarrow> b);
          k = previous\<lparr>ks_entries := filter (\<lambda>e. e \<noteq> []) (map strip entries), ks_allow_all := allow_all, ks_destructive := d\<rparr> in
      \<lparr>ua_coordinators = ua_coordinators st @ [k], ua_current = length (ua_coordinators st), ua_destructive = d\<rparr>)"

definition at_coordinator :: "nat \<Rightarrow> (coord_settings \<Rightarrow> coord_settings) \<Rightarrow> agent_state \<Rightarrow> agent_state" where
  "at_coordinator k f st = st\<lparr>ua_coordinators := (ua_coordinators st)[k := f (ua_coordinators st ! k)]\<rparr>"

text \<open>
  The frame of \<open>run_tool_loop\<close>: its mode, its approval callback and its check are installed, and put back in the
  \<open>finally\<close> block: the check on the coordinator that the loop began with, the other two on the current one.
\<close>

definition with_loop_settings ::
  "nat option \<Rightarrow> permission_mode option \<Rightarrow> nat option \<Rightarrow> (agent_state \<Rightarrow> 'r \<times> agent_state) \<Rightarrow> agent_state \<Rightarrow> 'r \<times> agent_state" where
  "with_loop_settings check mode approval body st =
     (let k = ua_current st; previous = ua_coordinators st ! k;
          st1 = at_coordinator k (\<lambda>c. c\<lparr>
            ks_checks := (case check of None \<Rightarrow> ks_checks c | Some x \<Rightarrow> ks_checks c @ [x]),
            ks_mode := (case mode of None \<Rightarrow> ks_mode c | Some m \<Rightarrow> m),
            ks_approval := (case approval of None \<Rightarrow> ks_approval c | Some a \<Rightarrow> Some a)\<rparr>) st;
          (r, st2) = body st1;
          st3 = at_coordinator k (\<lambda>c. c\<lparr>ks_checks := ks_checks previous\<rparr>) st2 in
      (r, at_coordinator (ua_current st3) (\<lambda>c. c\<lparr>ks_mode := ks_mode previous, ks_approval := ks_approval previous\<rparr>) st3))"

section \<open>What a call can do\<close>

lemma run_request_blocked:
  assumes "xr_blocked r \<noteq> []" "run_request A r no_operation w = (x, ls, w')"
  shows "ls = [] \<and> (\<forall>res. x = Inr (Returned res) \<longrightarrow> \<not> co_success res)"
proof -
  obtain y ms w1 where c: "report_request (aw_control A) r w = (y, ms, w1)" by (metis prod_cases3)
  from report_blocked [OF _ c] assms(1) have "ms = [] \<and> (\<forall>res. y = Inr res \<longrightarrow> \<not> co_success res)" by simp
  moreover have "\<not> co_success res" if "y = Inl (Finished (Returned res))" for res
    using c that by (auto simp: report_request_def coordinate_def Let_def split: sum.splits prod.splits execution.splits)
  ultimately show ?thesis using assms(2) c
    by (auto simp: run_request_def report_request_def split: sum.splits ending.splits)
qed

lemma observe_success: "map_of (observe_result A res) ''success'' = Some (JBool (co_status res = ExSuccess \<and> co_success res
    \<and> (case co_value res of None \<Rightarrow> True | Some v \<Rightarrow> aw_success A v \<noteq> Some False)))"
  by (auto simp: observe_result_def Let_def split: option.splits shape.splits)

definition reports_success :: "call_end \<Rightarrow> bool" where
  "reports_success e = (case e of Observed ob \<Rightarrow> map_of ob ''success'' = Some (JBool True) | _ \<Rightarrow> False)"

lemma reports_success_end: "reports_success (call_end_of A x) \<Longrightarrow> \<exists>res. x = Inr (Returned res) \<and> co_success res"
  by (auto simp: reports_success_def call_end_of_def observe_success split: sum.splits execution.splits)


lemma command_text_refused: "execute_command A text timeout w = (x, ls, w') \<Longrightarrow> ls = [] \<and> (\<forall>res. x = Inr (Returned res) \<longrightarrow> \<not> co_success res)"
  using run_request_blocked [of "raw_command_request (aw_executor A) text timeout" A w x ls w']
  by (simp add: execute_command_def raw_command_request_def)


lemma map_zip_eq: "length xs = length ys \<Longrightarrow> \<forall>p \<in> set (zip xs ys). f (fst p) = g (snd p) \<Longrightarrow> map f xs = map g ys"
  by (induction xs ys rule: list_induct2) auto

text \<open>
  C19: A saved task is resumed only as what it was: the same session, objective and, where given, conditions, still under
  investigation, every action answered by its own observation; and it goes on with the scope and the environment of
  the caller, not with those that were saved.
\<close>
theorem resumed_task_sound:
  assumes "resume_task session conditions fresh (Some t) = Inr r"
  shows "session = Some (ts_session_id t) \<and> ts_session_id t \<noteq> [] \<and> ts_objective r = ts_objective fresh \<and> ts_status r = Investigating
    \<and> (conditions \<longrightarrow> ts_completion r = ts_completion fresh)
    \<and> map (\<lambda>a. (ac_step a, ac_tool a)) (ts_actions r) = map (\<lambda>ob. (os_step ob, os_tool ob)) (ts_observations r)
    \<and> ts_scope r = ts_scope fresh \<and> ts_env r = ts_env fresh \<and> ts_actions r = ts_actions t \<and> ts_plan r = ts_plan t"
proof -
  from assms have c: "session = Some (ts_session_id t)" "ts_session_id t \<noteq> []" "ts_objective t = ts_objective fresh" "ts_status t = Investigating"
    "conditions \<longrightarrow> ts_completion t = ts_completion fresh" "\<not> unresolved_action t" "r = t\<lparr>ts_scope := ts_scope fresh, ts_env := ts_env fresh\<rparr>"
    by (auto simp: resume_task_def res_bind_eq_Inr split: option.splits)
  from c(6) have len: "length (ts_actions t) = length (ts_observations t)"
    and same: "\<forall>p \<in> set (zip (ts_actions t) (ts_observations t)). ac_step (fst p) = os_step (snd p) \<and> ac_tool (fst p) = os_tool (snd p)"
    by (auto simp: unresolved_action_def list_ex_iff)
  have "map (\<lambda>a. (ac_step a, ac_tool a)) (ts_actions t) = map (\<lambda>ob. (os_step ob, os_tool ob)) (ts_observations t)"
    using len same by (intro map_zip_eq) auto
  with c show ?thesis by simp
qed

text \<open>
  A loop leaves the coordinator as it found it: whatever runs inside, if it does not put another coordinator into force, the
  mode, the approval callback and the checks afterwards are those of before.
\<close>

lemma at_coordinator_current [simp]: "ua_current (at_coordinator k f st) = ua_current st"
  by (simp add: at_coordinator_def)

lemma settings_restored:
  assumes "with_loop_settings check mode approval body st = (r, st')" "ua_current st < length (ua_coordinators st)"
    and "\<And>s r' s'. body s = (r', s') \<Longrightarrow> ua_current s' = ua_current s \<and> length (ua_coordinators s) \<le> length (ua_coordinators s')"
  shows "ua_current st' = ua_current st
    \<and> ks_mode (ua_coordinators st' ! ua_current st) = ks_mode (ua_coordinators st ! ua_current st)
    \<and> ks_approval (ua_coordinators st' ! ua_current st) = ks_approval (ua_coordinators st ! ua_current st)
    \<and> ks_checks (ua_coordinators st' ! ua_current st) = ks_checks (ua_coordinators st ! ua_current st)"
proof -
  define st1 where "st1 = at_coordinator (ua_current st) (\<lambda>c. c\<lparr>
            ks_checks := (case check of None \<Rightarrow> ks_checks c | Some x \<Rightarrow> ks_checks c @ [x]),
            ks_mode := (case mode of None \<Rightarrow> ks_mode c | Some m \<Rightarrow> m),
            ks_approval := (case approval of None \<Rightarrow> ks_approval c | Some a \<Rightarrow> Some a)\<rparr>) st"
  obtain r2 st2 where b: "body st1 = (r2, st2)" by force
  have k: "ua_current st1 = ua_current st" "length (ua_coordinators st1) = length (ua_coordinators st)"
    by (simp_all add: st1_def at_coordinator_def)
  with assms(3) [OF b] have k2: "ua_current st2 = ua_current st" "ua_current st < length (ua_coordinators st2)" using assms(2) by auto
  from assms(1) b have "st' = at_coordinator (ua_current st) (\<lambda>c. c\<lparr>ks_mode := ks_mode (ua_coordinators st ! ua_current st),
      ks_approval := ks_approval (ua_coordinators st ! ua_current st)\<rparr>)
      (at_coordinator (ua_current st) (\<lambda>c. c\<lparr>ks_checks := ks_checks (ua_coordinators st ! ua_current st)\<rparr>) st2)"
    using k2(1) by (simp add: with_loop_settings_def Let_def st1_def [symmetric])
  with k2 show ?thesis by (simp add: at_coordinator_def)
qed

text \<open>A scope set while a loop runs: the new coordinator inherits the check of the loop and keeps it for good.\<close>

definition one_coordinator :: agent_state where
  "one_coordinator = \<lparr>ua_coordinators = [\<lparr>ks_mode = AskMode, ks_approval = None, ks_checks = [], ks_entries = [], ks_allow_all = False,
     ks_destructive = False\<rparr>], ua_current = 0, ua_destructive = False\<rparr>"

lemma stale_stage_check:
  "(case with_loop_settings (Some 7) (Some AutoMode) None (\<lambda>s. ((), set_agent_scope [''a''] False None s)) one_coordinator of
      (r, st) \<Rightarrow> ua_current st = 1 \<and> ks_checks (ua_coordinators st ! 1) = [7] \<and> ks_mode (ua_coordinators st ! 1) = AskMode
        \<and> ks_mode (ua_coordinators st ! 0) = AutoMode \<and> ks_checks (ua_coordinators st ! 0) = [])"
  by code_simp

section \<open>A call that runs\<close>

definition probe_entry :: cap_entry where
  "probe_entry = \<lparr>ce_name = ''probe'', ce_source = ''mcp'', ce_type = ''tool'', ce_description = [], ce_risk = ''other'', ce_executor = [],
     ce_available = True, ce_server = ''s'', ce_tool = ''t'', ce_category = [], ce_schema = []\<rparr>"

definition probe_request :: exec_request where
  "probe_request = mcp_request (\<lambda>t ps. t) probe_entry []"

definition probe_value :: op_value where
  "probe_value = \<lparr>ov_success = True, ov_timed_out = False, ov_error = [], ov_stderr = [], ov_normalized = None\<rparr>"

definition probe_control :: control_env where
  "probe_control = cmd_control\<lparr>hk_services := (hk_services cmd_control)\<lparr>
     sv_digest := (\<lambda>m. if m = material_of (probe_request\<lparr>xr_expires := Some 300\<rparr>) then ''d'' else [])\<rparr>\<rparr>"

definition probe_calls :: agent_calls where
  "probe_calls = \<lparr>aw_control = probe_control, aw_render = (\<lambda>_. []), aw_caps = [(''probe'', probe_entry)], aw_skills = [], aw_executor = ''local'',
     aw_encode = (\<lambda>t ps. t), aw_server = (\<lambda>_. Inr ()), aw_run_mcp = (\<lambda>s c w. (OpValue (Some probe_value), w)),
     aw_run_skill = (\<lambda>n ps w. (OpTimeout, w)), aw_shape = (\<lambda>v. OtherShape JNull), aw_success = (\<lambda>v. Some True)\<rparr>"

lemma probe_ready: "open_services (hk_services probe_control)" "ready_world (hk_services probe_control) cmd_world"
  using cmd_ready by (simp_all add: probe_control_def open_services_def ready_world_def)

lemma probe_runs:
  "\<exists>x ls v w. invoke_tool probe_calls [] ''probe'' [] cmd_world = (x, ls, w) \<and> LaunchOperation v \<in> set ls
     \<and> w_request v = probe_request\<lparr>xr_expires := Some 300\<rparr>"
proof -
  have r: "validate_request probe_request = Inr probe_request" "xr_target probe_request = []" "\<not> xr_target_required probe_request"
    "xr_risk probe_request \<noteq> Destructive" "xr_expires probe_request = None" "xr_blocked probe_request = []"
    "xr_dependency_ok probe_request" "resolved_action_error probe_request = []" "1 < xr_ttl probe_request"
    "xr_risk probe_request = Write" "xr_ttl probe_request = 300"
    by code_simp+
  let ?body = "\<lambda>w. (OpValue (Some probe_value), w)"
  have "\<exists>res ls v w'. coordinate probe_control probe_request None ?body cmd_world = (Inr res, ls, w') \<and> LaunchOperation v \<in> set ls
     \<and> co_success res \<and> co_value res = Some probe_value
     \<and> w_request v = (if xr_risk probe_request = Read then probe_request else probe_request\<lparr>xr_expires := Some (xr_ttl probe_request)\<rparr>)
     \<and> w_host w' = (w_host cmd_world)\<lparr>hc_requests := Suc (hc_requests (w_host cmd_world))\<rparr> \<and> ready_world (hk_services probe_control) w'"
    by (rule coordinate_allowed [where f = "\<lambda>h. h", OF probe_ready r(1-9)]) (simp_all add: probe_value_def)
  then obtain res ls v w' where c: "coordinate probe_control probe_request None ?body cmd_world = (Inr res, ls, w')"
    "LaunchOperation v \<in> set ls" "w_request v = probe_request\<lparr>xr_expires := Some 300\<rparr>" by (auto simp: r)
  have route: "route_call (\<lambda>_. []) [(''probe'', probe_entry)] [] ''probe'' [] = Inr (ToMcp probe_entry [])" by code_simp
  have q: "mcp_request (\<lambda>t ps. t) probe_entry [] = probe_request" by (simp add: probe_request_def)
  have "invoke_tool probe_calls [] ''probe'' [] cmd_world = (call_end_of probe_calls (Inr (Returned res)), ls, w')"
    using c(1) r(1) by (simp add: invoke_tool_def probe_calls_def route mcp_invoke_def Let_def q run_request_def)
  with c(2,3) show ?thesis by blast
qed



definition saved_task :: "unit task_state" where
  "saved_task = sample_state\<lparr>ts_session_id := ''s'', ts_actions := [], ts_observations := [], ts_status := Investigating\<rparr>"

lemma resumed_task_sound_witness:
  "\<exists>r. resume_task (Some ''s'') True saved_task (Some (saved_task\<lparr>ts_scope := (ts_scope saved_task)\<lparr>sv_allow_destructive := True\<rparr>\<rparr>)) = Inr r
     \<and> ts_scope r = ts_scope saved_task \<and> ts_status r = Investigating"
proof -
  let ?t = "saved_task\<lparr>ts_scope := (ts_scope saved_task)\<lparr>sv_allow_destructive := True\<rparr>\<rparr>"
  have "is_ok (resume_task (Some ''s'') True saved_task (Some ?t))"
    by (simp add: resume_task_def saved_task_def unresolved_action_def)
  then obtain r where r: "resume_task (Some ''s'') True saved_task (Some ?t) = Inr r" by (auto simp: is_ok_iff)
  from resumed_task_sound [OF r] r show ?thesis by auto
qed

end
