(* ===== verification/Executors.thy ===== *)
theory Executors
  imports Shlex
begin

text \<open>
  The execution providers \<open>execution/local.py\<close>, \<open>ssh.py\<close>, \<open>wsl.py\<close>, \<open>docker.py\<close> and \<open>mcp.py\<close>, and
  their construction in \<open>factory.py\<close>: what each declares of its environment, the process, container or
  tool call it makes of a command and a context, and what it makes of how that ends. Starting a process,
  the Docker client and the tool client are parameters of the machine: actions on a state of their own.
  \<open>DockerConnect\<close> stands for the whole of \<open>_get_client\<close>, with its cache.
\<close>

section \<open>The machine\<close>

text \<open>A process: a line for the system's shell, or an argument vector.\<close>

datatype proc_call =
    ShellCall string "string option" "(string, string) dict option"
  | ExecCall "string list" "string option" "(string, string) dict option"

text \<open>How it ends; \<open>communicate\<close> gives both streams, decoded, and the return code where there is one.\<close>

datatype proc_end =
    ProcEnded "int option" string string
  | ProcTimeout
  | ProcNotFound string
  | ProcInvalid string
  | ProcFailed string

record container_spec =
  cs_image :: string
  cs_command :: "string list"
  cs_mem :: string
  cs_env :: "(string, string) dict"
  cs_network :: string
  cs_volumes :: "(string, string \<times> string) dict"
  cs_cwd :: "string option"

datatype docker_call =
    DockerConnect
  | DockerCreate container_spec
  | DockerStart
  | DockerWait int
  | DockerStop
  | DockerLogs bool
  | DockerRemove

datatype docker_reply = DockerDone | DockerStatus jval | DockerText string

text \<open>The exceptions the provider tells apart, with their text.\<close>

datatype docker_error = ImageMissing string | WaitTimedOut string | BadValue string | SdkMissing | DockerFails string

datatype tool_end = ToolReturns jval | ToolTimeout | ToolRaises string

record 's machine =
  mc_platform :: string
  mc_which :: "string \<Rightarrow> bool"
  mc_environ :: "(string, string) dict"
  mc_win_abs :: "string \<Rightarrow> bool"
  mc_expand :: "string \<Rightarrow> string"
  mc_spawn :: "proc_call \<Rightarrow> int \<Rightarrow> 's \<Rightarrow> proc_end \<times> 's"
  mc_docker :: "docker_call \<Rightarrow> 's \<Rightarrow> (docker_error + docker_reply) \<times> 's"
  mc_tool :: "string \<Rightarrow> jdict \<Rightarrow> int option \<Rightarrow> 's \<Rightarrow> tool_end \<times> 's"
  mc_loads :: "string \<Rightarrow> jval res"
  mc_dumps :: "jval \<Rightarrow> string"
  mc_lax_bool :: "jval \<Rightarrow> bool option"

section \<open>The providers\<close>

datatype transport =
    LocalExecutor
  | DockerExecutor string string string "path_mapping list"
  | WslExecutor string "path_mapping list"
  | SshExecutor string string int string "path_mapping list"
  | McpExecutor string bool

definition ssh_target :: "string \<Rightarrow> string \<Rightarrow> string" where
  "ssh_target user host = (if user \<noteq> [] then user @ ''@'' @ host else host)"

definition no_capabilities :: env_capabilities where
  "no_capabilities = \<lparr>ep_command = False, ep_discovery = False, ep_cwd = False, ep_environment = False, ep_mapping = False,
     ep_scoped = False, ep_sessions = False\<rparr>"

definition process_capabilities :: "bool \<Rightarrow> bool \<Rightarrow> env_capabilities" where
  "process_capabilities mapped sessions = \<lparr>ep_command = True, ep_discovery = True, ep_cwd = True, ep_environment = True,
     ep_mapping = mapped, ep_scoped = mapped, ep_sessions = sessions\<rparr>"

fun executor_provider :: "string \<Rightarrow> transport \<Rightarrow> provider" where
  "executor_provider platform LocalExecutor = \<lparr>pv_name = ''local'', pv_platform = platform, pv_timeout = 60, pv_mode = Shared,
     pv_caps = process_capabilities True True, pv_mappings = []\<rparr>"
| "executor_provider platform (DockerExecutor img mem network ms) = \<lparr>pv_name = ''docker/'' @ img, pv_platform = ''linux'',
     pv_timeout = 60, pv_mode = Mapped, pv_caps = process_capabilities (ms \<noteq> []) False, pv_mappings = ms\<rparr>"
| "executor_provider platform (WslExecutor distro ms) = \<lparr>pv_name = (if distro \<noteq> [] then ''wsl/'' @ distro else ''wsl''),
     pv_platform = ''linux'', pv_timeout = 120, pv_mode = Mapped, pv_caps = process_capabilities (ms \<noteq> []) True,
     pv_mappings = ms\<rparr>"
| "executor_provider platform (SshExecutor host user port identity ms) =
     \<lparr>pv_name = ''ssh/'' @ ssh_target user host @ '':'' @ show_int port, pv_platform = ''remote'', pv_timeout = 120,
       pv_mode = Remote, pv_caps = process_capabilities (ms \<noteq> []) True, pv_mappings = ms\<rparr>"
| "executor_provider platform (McpExecutor server client) = \<lparr>pv_name = (if server \<noteq> [] then ''mcp/'' @ server else ''mcp''),
     pv_platform = ''semantic'', pv_timeout = 60, pv_mode = NoFiles, pv_caps = no_capabilities\<lparr>ep_command := True\<rparr>,
     pv_mappings = []\<rparr>"

fun default_timeout :: "transport \<Rightarrow> int" where
  "default_timeout (DockerExecutor img mem network ms) = 60"
| "default_timeout (McpExecutor server client) = 60"
| "default_timeout e = 120"

section \<open>Command lines\<close>

definition or_none :: "string \<Rightarrow> string option" where
  "or_none s = (if s = [] then None else Some s)"

definition assignment :: "(string \<Rightarrow> string) \<Rightarrow> string \<times> string \<Rightarrow> string" where
  "assignment quote = (\<lambda>(k, v). k @ ''='' @ quote v)"

text \<open>The line that \<open>ssh\<close> hands to the login shell of the remote host.\<close>

definition ssh_line :: "command \<Rightarrow> exec_context \<Rightarrow> string" where
  "ssh_line cmd c =
     (let r = command_display cmd;
          s = (if ex_env c = [] then r
               else ''/usr/bin/env '' @ join_with '' '' (map (assignment shell_quote) (ex_env c)) @ '' '' @ r) in
      if ex_cwd c = [] then s else ''cd -- '' @ shell_quote (ex_cwd c) @ '' && '' @ s)"

definition ssh_argv :: "string \<Rightarrow> string \<Rightarrow> int \<Rightarrow> string \<Rightarrow> command \<Rightarrow> exec_context \<Rightarrow> string list" where
  "ssh_argv host user port identity cmd c =
     [''ssh'', ''-p'', show_int port, ''-o'', ''BatchMode=yes'', ''-o'', ''StrictHostKeyChecking=accept-new'']
     @ (if identity \<noteq> [] then [''-i'', identity] else []) @ [ssh_target user host, ssh_line cmd c]"

definition shell_argv :: "command \<Rightarrow> string list" where
  "shell_argv cmd = (case cmd of CommandText s \<Rightarrow> [''/bin/sh'', ''-c'', s] | CommandArgv ws \<Rightarrow> ws)"

definition wsl_argv :: "string \<Rightarrow> command \<Rightarrow> exec_context \<Rightarrow> string list" where
  "wsl_argv distro cmd c =
     [''wsl.exe''] @ (if distro \<noteq> [] then [''-d'', distro] else []) @ (if ex_cwd c \<noteq> [] then [''--cd'', ex_cwd c] else [])
     @ [''--''] @ (if ex_env c \<noteq> [] then ''/usr/bin/env'' # map (assignment (\<lambda>v. v)) (ex_env c) else []) @ shell_argv cmd"

section \<open>Outcomes\<close>

definition failed_outcome :: "string \<Rightarrow> string \<Rightarrow> exec_outcome" where
  "failed_outcome error stderr = \<lparr>eo_success = False, eo_stdout = [], eo_stderr = stderr, eo_exit = - 1,
     eo_timed_out = False, eo_error = error\<rparr>"

definition timeout_outcome :: "string \<Rightarrow> string \<Rightarrow> int \<Rightarrow> exec_outcome" where
  "timeout_outcome subject error timeout =
     (failed_outcome error (subject @ '' timed out after '' @ show_int timeout @ ''s''))\<lparr>eo_timed_out := True\<rparr>"

text \<open>The local provider tells a missing program and a bad value apart, the other two do not.\<close>

fun process_outcome :: "bool \<Rightarrow> int \<Rightarrow> proc_end \<Rightarrow> exec_outcome" where
  "process_outcome detailed timeout (ProcEnded code out err) = \<lparr>eo_success = (code = Some 0), eo_stdout = out, eo_stderr = err,
     eo_exit = (case code of None \<Rightarrow> 0 | Some n \<Rightarrow> n), eo_timed_out = False, eo_error = []\<rparr>"
| "process_outcome detailed timeout ProcTimeout = timeout_outcome ''Command'' [] timeout"
| "process_outcome detailed timeout (ProcNotFound e) = failed_outcome (if detailed then ''Command not found: '' @ e else e) e"
| "process_outcome detailed timeout (ProcInvalid e) = failed_outcome (if detailed then ''invalid_execution_context'' else e) e"
| "process_outcome detailed timeout (ProcFailed e) = failed_outcome e e"

definition run_process :: "'s machine \<Rightarrow> bool \<Rightarrow> proc_call \<Rightarrow> int \<Rightarrow> 's \<Rightarrow> exec_outcome \<times> 's" where
  "run_process M detailed call timeout s = (case mc_spawn M call timeout s of
     (r, s') \<Rightarrow> (process_outcome detailed timeout r, s'))"

definition local_call :: "'s machine \<Rightarrow> command \<Rightarrow> exec_context \<Rightarrow> proc_call" where
  "local_call M cmd c =
     (let cwd = or_none (ex_cwd c);
          env = (if ex_env c = [] then None else Some (fold (\<lambda>(k, v). dict_set k v) (ex_env c) (mc_environ M))) in
      case cmd of CommandText s \<Rightarrow> ShellCall s cwd env | CommandArgv ws \<Rightarrow> ExecCall ws cwd env)"

section \<open>A container\<close>

text \<open>
  What \<open>_run_sync\<close> does with the client, and every call it makes on the way, in order. An exception goes on to
  \<open>execute\<close>; the container is removed in a \<open>finally\<close>, whose own failure is swallowed.
\<close>

type_synonym ('s, 'a) docker_run = "'s \<Rightarrow> (docker_error + 'a) \<times> docker_call list \<times> 's"

definition docker_return :: "'a \<Rightarrow> ('s, 'a) docker_run" where
  "docker_return x s = (Inr x, [], s)"

definition docker_raise :: "docker_error \<Rightarrow> ('s, 'a) docker_run" where
  "docker_raise e s = (Inl e, [], s)"

definition docker_do :: "'s machine \<Rightarrow> docker_call \<Rightarrow> ('s, docker_reply) docker_run" where
  "docker_do M c s = (case mc_docker M c s of (r, s') \<Rightarrow> (r, [c], s'))"

text \<open>\<open>try\<close>: the continuation gets the exception or the value.\<close>

definition docker_try :: "('s, 'a) docker_run \<Rightarrow> (docker_error + 'a \<Rightarrow> ('s, 'b) docker_run) \<Rightarrow> ('s, 'b) docker_run" where
  "docker_try m f s = (case m s of (r, cs, s1) \<Rightarrow> (case f r s1 of (x, ds, s2) \<Rightarrow> (x, cs @ ds, s2)))"

definition docker_bind :: "('s, 'a) docker_run \<Rightarrow> ('a \<Rightarrow> ('s, 'b) docker_run) \<Rightarrow> ('s, 'b) docker_run" where
  "docker_bind m f = docker_try m (\<lambda>r. case r of Inl e \<Rightarrow> docker_raise e | Inr x \<Rightarrow> f x)"

definition docker_finally :: "('s, 'a) docker_run \<Rightarrow> ('s, 'b) docker_run \<Rightarrow> ('s, 'a) docker_run" where
  "docker_finally m f = docker_try m (\<lambda>r. docker_try f (\<lambda>_. case r of Inl e \<Rightarrow> docker_raise e | Inr x \<Rightarrow> docker_return x))"

definition exit_status :: "docker_reply \<Rightarrow> int \<times> string" where
  "exit_status reply = (case reply of
     DockerStatus (JDict d) \<Rightarrow> (case map_of d ''StatusCode'' of
         Some (JInt n) \<Rightarrow> (n, []) | _ \<Rightarrow> (- 1, ''invalid_docker_wait_status''))
   | _ \<Rightarrow> (- 1, ''invalid_docker_wait_status''))"

definition reply_text :: "docker_reply \<Rightarrow> string" where
  "reply_text reply = (case reply of DockerText t \<Rightarrow> t | _ \<Rightarrow> [])"

definition await_container :: "'s machine \<Rightarrow> int \<Rightarrow> ('s, int \<times> string \<times> bool) docker_run" where
  "await_container M timeout = docker_try (docker_do M (DockerWait timeout)) (\<lambda>r. case r of
     Inr reply \<Rightarrow> docker_return (fst (exit_status reply), snd (exit_status reply), False)
   | Inl (WaitTimedOut e) \<Rightarrow> docker_try (docker_do M DockerStop) (\<lambda>_. docker_return (- 1, [], True))
   | Inl e \<Rightarrow> docker_raise e)"

definition container_outcome :: "int \<Rightarrow> int \<times> string \<times> bool \<Rightarrow> string \<Rightarrow> string \<Rightarrow> exec_outcome" where
  "container_outcome timeout = (\<lambda>(code, err, timed_out) out stderr.
     \<lparr>eo_success = (code = 0 \<and> \<not> timed_out \<and> err = []), eo_stdout = out,
       eo_stderr = (if stderr \<noteq> [] then stderr
         else if timed_out then ''Timed out after '' @ show_int timeout @ ''s'' else []),
       eo_exit = code, eo_timed_out = timed_out, eo_error = err\<rparr>)"

definition run_container :: "'s machine \<Rightarrow> int \<Rightarrow> ('s, exec_outcome) docker_run" where
  "run_container M timeout =
     docker_bind (docker_do M DockerStart) (\<lambda>_.
     docker_bind (await_container M timeout) (\<lambda>status.
     docker_bind (docker_do M (DockerLogs True)) (\<lambda>out.
     docker_bind (docker_do M (DockerLogs False)) (\<lambda>err.
       docker_return (container_outcome timeout status (reply_text out) (reply_text err))))))"

definition docker_sync :: "'s machine \<Rightarrow> container_spec \<Rightarrow> int \<Rightarrow> ('s, exec_outcome) docker_run" where
  "docker_sync M spec timeout =
     docker_bind (docker_do M DockerConnect) (\<lambda>_.
     docker_try (docker_do M (DockerCreate spec)) (\<lambda>r. case r of
       Inl (ImageMissing e) \<Rightarrow>
         docker_return (failed_outcome ''docker_image_missing'' (''Required Docker image is not cached: '' @ cs_image spec))
     | Inl e \<Rightarrow> docker_raise e
     | Inr _ \<Rightarrow> docker_finally (run_container M timeout) (docker_do M DockerRemove)))"

definition container_of :: "string \<Rightarrow> string \<Rightarrow> string \<Rightarrow> path_mapping list \<Rightarrow> command \<Rightarrow> exec_context \<Rightarrow> container_spec" where
  "container_of img mem network ms cmd c = \<lparr>cs_image = img, cs_command = shell_argv cmd, cs_mem = mem, cs_env = ex_env c,
     cs_network = network,
     cs_volumes = fold (\<lambda>m. dict_set (pm_host m) (pm_provider m, if pm_writable m then ''rw'' else ''ro'')) ms [],
     cs_cwd = or_none (ex_cwd c)\<rparr>"

fun docker_failure :: "docker_error \<Rightarrow> exec_outcome" where
  "docker_failure (BadValue e) = failed_outcome ''invalid_execution_context'' e"
| "docker_failure SdkMissing = failed_outcome ''Docker SDK not installed'' ''Docker SDK not installed''"
| "docker_failure (ImageMissing e) = failed_outcome e e"
| "docker_failure (WaitTimedOut e) = failed_outcome e e"
| "docker_failure (DockerFails e) = failed_outcome e e"

section \<open>A tool call\<close>

text \<open>The structured call a command text stands for: \<open>None\<close> where it is not one.\<close>

definition tool_call :: "(string \<Rightarrow> jval res) \<Rightarrow> string \<Rightarrow> (string \<times> jdict) option" where
  "tool_call loads s = (case loads s of
     Inr (JDict d) \<Rightarrow> (case (map_of d ''tool'', map_of d ''arguments'') of
         (Some (JStr t), None) \<Rightarrow> Some (t, [])
       | (Some (JStr t), Some JNull) \<Rightarrow> Some (t, [])
       | (Some (JStr t), Some (JDict args)) \<Rightarrow> Some (t, args)
       | _ \<Rightarrow> None)
   | _ \<Rightarrow> None)"

definition wait_limit :: "int \<Rightarrow> int option" where
  "wait_limit timeout = (if 0 \<le> timeout then Some timeout else None)"

definition tool_outcome :: "(jval \<Rightarrow> string) \<Rightarrow> int \<Rightarrow> tool_end \<Rightarrow> exec_outcome" where
  "tool_outcome dumps timeout e = (case e of
     ToolTimeout \<Rightarrow> timeout_outcome ''MCP command'' ''timeout'' timeout
   | ToolRaises t \<Rightarrow> failed_outcome t t
   | ToolReturns v \<Rightarrow> \<lparr>eo_success = True, eo_stdout = (case v of JStr t \<Rightarrow> t | _ \<Rightarrow> dumps v), eo_stderr = [], eo_exit = 0,
       eo_timed_out = False, eo_error = []\<rparr>)"

definition mcp_execute :: "'s machine \<Rightarrow> bool \<Rightarrow> command \<Rightarrow> int \<Rightarrow> 's \<Rightarrow> exec_outcome \<times> 's" where
  "mcp_execute M client cmd timeout s = (case cmd of
     CommandArgv ws \<Rightarrow> (failed_outcome ''invalid_mcp_command'' ''MCP commands require a structured JSON payload'', s)
   | CommandText t \<Rightarrow>
       if \<not> client then (failed_outcome ''mcp_not_configured'' ''No MCP client configured for this server'', s)
       else (case tool_call (mc_loads M) t of
           None \<Rightarrow> (failed_outcome ''invalid_mcp_command''
             ''MCP command must be JSON: {\"tool\": \"<name>\", \"arguments\": {...}}'', s)
         | Some (tool, args) \<Rightarrow> (case mc_tool M tool args (wait_limit timeout) s of
             (e, s') \<Rightarrow> (tool_outcome (mc_dumps M) timeout e, s'))))"

section \<open>Execution\<close>

fun execute_prepared :: "'s machine \<Rightarrow> transport \<Rightarrow> command \<Rightarrow> int \<Rightarrow> exec_context \<Rightarrow> 's \<Rightarrow> exec_outcome \<times> 's" where
  "execute_prepared M LocalExecutor cmd timeout c s = run_process M True (local_call M cmd c) timeout s"
| "execute_prepared M (SshExecutor host user port identity ms) cmd timeout c s =
     (if \<not> mc_which M ''ssh'' then (failed_outcome ''SSH client not available'' ''ssh client not found on PATH'', s)
      else run_process M False (ExecCall (ssh_argv host user port identity cmd c) None None) timeout s)"
| "execute_prepared M (WslExecutor distro ms) cmd timeout c s =
     (if \<not> mc_which M ''wsl.exe'' then (failed_outcome ''WSL not available'' ''wsl.exe not found on PATH'', s)
      else run_process M False (ExecCall (wsl_argv distro cmd c) None None) timeout s)"
| "execute_prepared M (DockerExecutor img mem network ms) cmd timeout c s =
     (case docker_sync M (container_of img mem network ms cmd c) timeout s of
        (Inr out, cs, s') \<Rightarrow> (out, s') | (Inl e, cs, s') \<Rightarrow> (docker_failure e, s'))"
| "execute_prepared M (McpExecutor server client) cmd timeout c s = mcp_execute M client cmd timeout s"

definition run_executor ::
  "'s machine \<Rightarrow> transport \<Rightarrow> command \<Rightarrow> int option \<Rightarrow> (string, string) dict option \<Rightarrow> exec_context option
     \<Rightarrow> 's \<Rightarrow> exec_outcome \<times> 's" where
  "run_executor M e cmd timeout env context s =
     (case prepare_context (mc_win_abs M) (executor_provider (mc_platform M) e) context env of
        Inl x \<Rightarrow> (failed_outcome ''invalid_execution_context'' (error_text x), s)
      | Inr c \<Rightarrow> execute_prepared M e cmd (case timeout of None \<Rightarrow> default_timeout e | Some t \<Rightarrow> t) c s)"

text \<open>The wrapper that \<open>ExecutionProvider\<close> puts around every \<open>execute\<close>.\<close>

definition governed_execute ::
  "'s machine \<Rightarrow> (string \<times> string \<times> string) option \<Rightarrow> transport \<Rightarrow> command \<Rightarrow> int option \<Rightarrow> (string, string) dict option
     \<Rightarrow> exec_context option \<Rightarrow> 's \<Rightarrow> exec_outcome res \<times> 's" where
  "governed_execute M active e cmd timeout env context s =
     (if provider_matches active (pv_name (executor_provider (mc_platform M) e)) then
        (case run_executor M e cmd timeout env context s of (out, s') \<Rightarrow> (Inr out, s'))
      else (Inl (RuntimeError ''Direct provider execution is disabled; use ExecutionCoordinator with the selected executor''), s))"

section \<open>Construction\<close>

text \<open>Keyword arguments, of the types the constructors declare; \<open>OptNone\<close> is \<open>None\<close>.\<close>

datatype opt_value = OptNone | OptText string | OptInt int | OptMappings "path_mapping list" | OptClient

type_synonym exec_options = "(string, opt_value) dict"

definition opt_text :: "exec_options \<Rightarrow> string \<Rightarrow> string \<Rightarrow> string" where
  "opt_text kw k v = (case map_of kw k of None \<Rightarrow> v | Some (OptText t) \<Rightarrow> t | Some _ \<Rightarrow> [])"

definition opt_mappings :: "exec_options \<Rightarrow> path_mapping list" where
  "opt_mappings kw = (case map_of kw ''path_mappings'' of Some (OptMappings ms) \<Rightarrow> ms | _ \<Rightarrow> [])"

definition only_options :: "exec_options \<Rightarrow> string list \<Rightarrow> unit res" where
  "only_options kw names = ensure (list_all (\<lambda>(k, v). k \<in> set names) kw) (TypeError ''unexpected keyword argument'')"

text \<open>The classes by their names, with the parameters each constructor takes.\<close>

definition construct :: "string \<Rightarrow> exec_options \<Rightarrow> transport option res" where
  "construct name kw =
     (if name = ''local'' then res_bind (only_options kw []) (\<lambda>_. Inr (Some LocalExecutor))
      else if name = ''docker'' then
        res_bind (only_options kw [''image'', ''mem_limit'', ''network'', ''path_mappings'']) (\<lambda>_.
          Inr (Some (DockerExecutor (opt_text kw ''image'' ''kalilinux/kali-rolling:latest'') (opt_text kw ''mem_limit'' ''512m'')
            (opt_text kw ''network'' ''bridge'') (opt_mappings kw))))
      else if name = ''wsl'' then
        res_bind (only_options kw [''distro'', ''path_mappings'']) (\<lambda>_.
          Inr (Some (WslExecutor (opt_text kw ''distro'' []) (opt_mappings kw))))
      else if name = ''mcp'' then
        res_bind (only_options kw [''server'', ''client'', ''config'']) (\<lambda>_.
          Inr (Some (McpExecutor (opt_text kw ''server'' []) (map_of kw ''client'' = Some OptClient))))
      else if name = ''ssh'' then
        res_bind (only_options kw [''host'', ''user'', ''port'', ''identity_file'', ''path_mappings'']) (\<lambda>_.
        res_bind (ensure (map_of kw ''host'' \<noteq> None) (TypeError ''missing required argument: host'')) (\<lambda>_.
          Inr (Some (SshExecutor (opt_text kw ''host'' []) (opt_text kw ''user'' [])
            (case map_of kw ''port'' of Some (OptInt n) \<Rightarrow> n | _ \<Rightarrow> 22) (opt_text kw ''identity_file'' []) (opt_mappings kw)))))
      else Inr None)"

text \<open>\<open>partition\<close> at a separator: what is before it, whether it is there, and what is after.\<close>

definition partition_at :: "char \<Rightarrow> string \<Rightarrow> string \<times> bool \<times> string" where
  "partition_at c s = (case split_once c s of [k, q] \<Rightarrow> (k, True, q) | _ \<Rightarrow> (s, False, []))"

definition provider_parts :: "string \<Rightarrow> string \<times> string" where
  "provider_parts name =
     (let n = strip name in
      case partition_at (CHR ''/'') n of (k, found, q) \<Rightarrow>
        if found then (lower k, q) else (case partition_at (CHR '':'') n of (k', _, q') \<Rightarrow> (lower k', q')))"

definition create_executor :: "string \<Rightarrow> exec_options \<Rightarrow> transport res" where
  "create_executor name kw =
     (case provider_parts name of (kind, qualifier) \<Rightarrow>
      res_bind (ensure (qualifier = [] \<or> kind = ''wsl'') (ValueError (''Qualified execution provider is not supported: '' @ name))) (\<lambda>_.
      res_bind (construct kind (if qualifier = [] then kw else dict_setdefault ''distro'' (OptText qualifier) kw)) (\<lambda>e.
        (case e of None \<Rightarrow> Inl (ValueError (''Unknown execution provider: '' @ name)) | Some e \<Rightarrow> Inr e))))"

text \<open>\<open>ProviderPathMapping.model_validate\<close> of an entry of the configuration.\<close>

definition parse_style :: "jval \<Rightarrow> path_style res" where
  "parse_style v = (if v = JStr ''posix'' then Inr PosixStyle else if v = JStr ''windows'' then Inr WindowsStyle
     else Inl (ValueError ''provider_style''))"

definition parse_root :: "jdict \<Rightarrow> string \<Rightarrow> string res" where
  "parse_root d k = (case map_of d k of Some (JStr s) \<Rightarrow> Inr s | _ \<Rightarrow> Inl (ValueError k))"

definition parse_mapping :: "'s machine \<Rightarrow> jval \<Rightarrow> path_mapping res" where
  "parse_mapping M v = (case v of
     JDict d \<Rightarrow>
       res_bind (ensure (list_all (\<lambda>(k, x). k \<in> {''host_root'', ''provider_root'', ''writable'', ''provider_style''}) d)
         (ValueError ''extra fields'')) (\<lambda>_.
       res_bind (parse_root d ''host_root'') (\<lambda>h.
       res_bind (parse_root d ''provider_root'') (\<lambda>p.
       res_bind (case map_of d ''writable'' of None \<Rightarrow> Inr False | Some x \<Rightarrow>
           (case mc_lax_bool M x of None \<Rightarrow> Inl (ValueError ''writable'') | Some b \<Rightarrow> Inr b)) (\<lambda>w.
       res_bind (case map_of d ''provider_style'' of None \<Rightarrow> Inr PosixStyle | Some x \<Rightarrow> parse_style x) (\<lambda>st.
         validate_mapping (mc_win_abs M) (mc_expand M)
           \<lparr>pm_host = h, pm_provider = p, pm_writable = w, pm_style = st\<rparr>)))))
   | _ \<Rightarrow> Inl (ValueError ''mapping''))"

definition configured_entries :: "jdict \<Rightarrow> string \<Rightarrow> jval list" where
  "configured_entries cfg name = (case map_of cfg name of Some (JList vs) \<Rightarrow> vs | _ \<Rightarrow> [])"

definition configured_body :: "'s machine \<Rightarrow> string \<Rightarrow> string \<Rightarrow> exec_options \<Rightarrow> transport res" where
  "configured_body M raw name kw =
     res_bind (mc_loads M raw) (\<lambda>v. (case v of
       JDict cfg \<Rightarrow>
         res_bind (ensure (cfg \<noteq> []) (ValueError ''expected a non-empty provider object'')) (\<lambda>_.
         res_bind (create_executor name kw) (\<lambda>e.
         let p = executor_provider (mc_platform M) e in
         if pv_mode p \<notin> {Mapped, Remote} then
           res_bind (ensure (map_of cfg (pv_name p) = None)
             (ValueError ''selected provider does not support path mappings'')) (\<lambda>_. Inr e)
         else
           res_bind (ensure (list_all (\<lambda>(k, x). k \<noteq> [] \<and> (case x of JList vs \<Rightarrow> True | _ \<Rightarrow> False)) cfg)
             (ValueError ''invalid provider mapping entry'')) (\<lambda>_.
           res_bind (map_res (parse_mapping M) (configured_entries cfg (pv_name p))) (\<lambda>ms.
           res_bind (ensure (distinct (map pm_host ms)) (ValueError ''duplicate host roots in provider mapping'')) (\<lambda>_.
           res_bind (ensure (map_of kw ''path_mappings'' = None)
             (ValueError ''path_mappings cannot be supplied twice'')) (\<lambda>_.
             create_executor name (kw @ [(''path_mappings'', OptMappings ms)])))))))
     | _ \<Rightarrow> Inl (ValueError ''expected a non-empty provider object'')))"

text \<open>\<open>raw\<close> is the value of \<open>DECODE_PROVIDER_MAPPINGS\<close>.\<close>

definition create_configured_executor :: "'s machine \<Rightarrow> string \<Rightarrow> string \<Rightarrow> exec_options \<Rightarrow> transport res" where
  "create_configured_executor M raw name kw =
     (if strip raw = [] then create_executor name kw
      else (case configured_body M (strip raw) name kw of
          Inr e \<Rightarrow> Inr e
        | Inl (TypeError e) \<Rightarrow> Inl (ValueError ''Invalid DECODE_PROVIDER_MAPPINGS configuration'')
        | Inl (ValueError e) \<Rightarrow> Inl (ValueError ''Invalid DECODE_PROVIDER_MAPPINGS configuration'')
        | Inl e \<Rightarrow> Inl e))"

section \<open>The line for a remote shell\<close>

text \<open>
  The characters of a line that a shell gives a meaning of its own: those outside quotes, and those
  in double quotes, less the characters of plain words, spaces, and the quote that double quotes carry.
\<close>

fun shell_view :: "char option \<Rightarrow> string \<Rightarrow> string" where
  "shell_view q [] = []"
| "shell_view None (c # cs) = (if lex_quote c then shell_view (Some c) cs else c # shell_view None cs)"
| "shell_view (Some q) (c # cs) =
     (if c = q then shell_view None cs else (if q = CHR 0x22 then [c] else []) @ shell_view (Some q) cs)"

definition active_char :: "char \<Rightarrow> bool" where
  "active_char c = (\<not> shell_safe c \<and> c \<noteq> CHR '' '' \<and> c \<noteq> CHR 0x27)"

definition shell_active :: "string \<Rightarrow> string" where
  "shell_active s = filter active_char (shell_view None s)"

lemma active_plain: "list_all (\<lambda>c. \<not> lex_quote c) s \<Longrightarrow> shell_active (s @ r) = filter active_char s @ shell_active r"
  by (induction s) (auto simp: shell_active_def)

lemma active_quote_char [simp]: "\<not> active_char (CHR 0x27)" "\<not> active_char (CHR '' '')"
  by (simp_all add: active_char_def)

lemma active_quoted_body:
  "filter active_char (shell_view (Some (CHR 0x27))
     (concat (map (\<lambda>c. if c = CHR 0x27 then [CHR 0x27, CHR 0x22, CHR 0x27, CHR 0x22, CHR 0x27] else [c]) s)
       @ CHR 0x27 # r)) = shell_active r"
  by (induction s) (auto simp: shell_active_def lex_quote_def)

lemma active_quote: "shell_active (shell_quote s @ r) = shell_active r"
proof (cases "s \<noteq> [] \<and> list_all shell_safe s")
  case True
  then have "list_all (\<lambda>c. \<not> lex_quote c) s" by (auto simp: list_all_iff dest: shell_safe_plain)
  moreover have "filter active_char s = []" using True by (auto simp: active_char_def list_all_iff filter_empty_conv)
  ultimately show ?thesis using True by (simp add: shell_quote_def active_plain)
next
  case False
  then show ?thesis
    using active_quoted_body [of s r] by (auto simp: shell_quote_def quoted_def shell_active_def lex_quote_def)
qed

lemma active_nil [simp]: "shell_active [] = []"
  by (simp add: shell_active_def)

lemma active_space [simp]: "shell_active (CHR '' '' # r) = shell_active r"
  by (simp add: shell_active_def lex_quote_def)

lemma active_join: "(\<And>w r. w \<in> set ws \<Longrightarrow> shell_active (w @ r) = shell_active r)
   \<Longrightarrow> shell_active (join_with '' '' ws @ r) = shell_active r"
  by (induction "'' ''" ws rule: join_with.induct) auto

lemma env_name_safe: "env_name k \<Longrightarrow> k \<noteq> [] \<and> list_all shell_safe (k @ ''='')"
  by (auto simp: env_name_def shell_safe_def ascii_alnum_def is_ascii_alpha_def list_all_iff split: list.splits)

lemma active_assignment:
  assumes "env_name k"
  shows "shell_active (assignment shell_quote (k, v) @ r) = shell_active r"
proof -
  have "list_all (\<lambda>c. \<not> lex_quote c) (k @ ''='')" "filter active_char (k @ ''='') = []"
    using env_name_safe [OF assms] by (auto simp: list_all_iff active_char_def filter_empty_conv dest: shell_safe_plain)
  with active_plain [of "k @ ''=''" "shell_quote v @ r"] show ?thesis
    by (simp add: assignment_def active_quote)
qed

text \<open>The words of the line.\<close>

lemma lex_quote_in_word: "lex InWord w (shell_quote s @ r) = lex InWord (w @ s) r"
proof (cases "s \<noteq> [] \<and> list_all shell_safe s")
  case True
  then show ?thesis using lex_safe [of s w r] by (simp add: shell_quote_def)
next
  case False
  then show ?thesis
    using lex_quoted_body [of w s r] by (auto simp: shell_quote_def quoted_def lex_space_def lex_quote_def)
qed

definition reads_as :: "string \<Rightarrow> string \<Rightarrow> bool" where
  "reads_as text word \<longleftrightarrow> (\<forall>r. lex Between [] (text @ r) = lex InWord word r)"

lemma reads_quote: "reads_as (shell_quote s) s"
  using lex_word [of s] by (auto simp: reads_as_def)

lemma reads_safe: "s \<noteq> [] \<Longrightarrow> list_all shell_safe s \<Longrightarrow> reads_as s s"
  using reads_quote [of s] by (simp add: shell_quote_def)

lemma reads_assignment:
  assumes "env_name k"
  shows "reads_as (assignment shell_quote (k, v)) (assignment (\<lambda>v. v) (k, v))"
  using reads_safe [of "k @ ''=''"] env_name_safe [OF assms]
  by (simp add: reads_as_def assignment_def lex_quote_in_word)

text \<open>A word and the rest of the line after a space.\<close>

lemma reads_space:
  assumes "reads_as text word" "lex Between [] r = Inr ws"
  shows "lex Between [] (text @ CHR '' '' # r) = Inr (word # ws)"
  using assms by (simp add: reads_as_def lex_space_def cons_res_def)

lemma reads_join:
  assumes "list_all2 reads_as ts us" "ts \<noteq> []" "lex Between [] r = Inr ws"
  shows "lex Between [] (join_with '' '' ts @ CHR '' '' # r) = Inr (us @ ws)"
  using assms
proof (induction ts us rule: list_all2_induct)
  case Nil
  then show ?case by simp
next
  case (Cons t ts u us)
  show ?case
  proof (cases ts)
    case Nil
    with Cons reads_space show ?thesis by auto
  next
    case (Cons t' ts')
    with Cons.IH Cons.prems have "lex Between [] (join_with '' '' ts @ CHR '' '' # r) = Inr (us @ ws)" by simp
    from reads_space [OF Cons.hyps(1) this] Cons show ?thesis by simp
  qed
qed

section \<open>What a remote shell reads\<close>

lemma reads_env: "reads_as ''/usr/bin/env'' ''/usr/bin/env''"
  by (rule reads_safe) (auto simp: shell_safe_def ascii_alnum_def is_dec_def is_lower_ascii_def is_ascii_alpha_def code_point_def)

lemma reads_marks: "reads_as ''cd'' ''cd''" "reads_as ''--'' ''--''"
  by (rule reads_safe; simp add: shell_safe_def ascii_alnum_def is_dec_def is_lower_ascii_def is_ascii_alpha_def code_point_def)+

lemma reads_and: "reads_as ''&&'' ''&&''"
  by (simp add: reads_as_def lex_space_def lex_quote_def lex_escape_def)

lemma prepared_names:
  assumes "validate_context win_abs c = Inr c'"
  shows "\<forall>(k, v) \<in> set (ex_env c'). env_name k"
proof (clarify)
  fix k v assume "(k, v) \<in> set (ex_env c')"
  with assms show "env_name k"
    by (auto simp: validate_context_def Let_def res_bind_eq_Inr iter_res_ok dest!: bspec [where x = "(k, v)"])
qed

text \<open>
  C33: The line that \<open>ssh\<close> sends is exact: for a validated context, the remote shell's word rules give back
  the directory, every assignment and every argument as they were, and the line has no character that a shell
  would act on but the two of the \<open>&&\<close> after \<open>cd\<close>.
\<close>
theorem ssh_line_exact:
  assumes "validate_context win_abs c0 = Inr c"
  shows "shlex_split (ssh_line (CommandArgv ws) c) =
       Inr ((if ex_cwd c = [] then [] else [''cd'', ''--'', ex_cwd c, ''&&''])
         @ (if ex_env c = [] then [] else ''/usr/bin/env'' # map (assignment (\<lambda>v. v)) (ex_env c)) @ ws)
    \<and> shell_active (ssh_line (CommandArgv ws) c) = (if ex_cwd c = [] then [] else ''&&'')"
proof -
  define r where "r = command_display (CommandArgv ws)"
  define s where "s = (if ex_env c = [] then r
    else ''/usr/bin/env'' @ '' '' @ join_with '' '' (map (assignment shell_quote) (ex_env c)) @ '' '' @ r)"
  have line: "ssh_line (CommandArgv ws) c = (if ex_cwd c = [] then s
    else ''cd'' @ '' '' @ ''--'' @ '' '' @ shell_quote (ex_cwd c) @ '' '' @ ''&&'' @ '' '' @ s)"
    by (simp add: ssh_line_def s_def r_def Let_def)
  have names: "env_name k" if "(k, v) \<in> set (ex_env c)" for k v using prepared_names [OF assms] that by auto
  have r: "lex Between [] r = Inr ws" using lex_words [of ws] by (simp add: r_def shlex_split_def)
  have "list_all2 reads_as (map (assignment shell_quote) (ex_env c)) (map (assignment (\<lambda>v. v)) (ex_env c))"
    using names by (auto simp: list_all2_map1 list_all2_map2 list_all2_same intro: reads_assignment)
  from reads_space [OF reads_env reads_join [OF this _ r]] r
  have s: "lex Between [] s = Inr ((if ex_env c = [] then [] else ''/usr/bin/env'' # map (assignment (\<lambda>v. v)) (ex_env c)) @ ws)"
    by (simp add: s_def)
  have "shell_active r = []" using active_join [of "map shell_quote ws" "[]"] by (fastforce simp: r_def active_quote)
  moreover have "shell_active (join_with '' '' (map (assignment shell_quote) (ex_env c)) @ x) = shell_active x" for x
    by (rule active_join) (auto intro: active_assignment names)
  moreover have "shell_active (''/usr/bin/env'' @ x) = shell_active x" for x
    using active_quote [of "''/usr/bin/env''" x] by (simp add: shell_quote_def shell_safe_def ascii_alnum_def is_dec_def is_lower_ascii_def is_ascii_alpha_def code_point_def)
  ultimately have a: "shell_active s = []" by (simp add: s_def)
  show ?thesis
  proof (cases "ex_cwd c = []")
    case True
    with s a show ?thesis by (simp add: line shlex_split_def)
  next
    case False
    have "lex Between [] (ssh_line (CommandArgv ws) c) = Inr ([''cd'', ''--'', ex_cwd c, ''&&''] @
        (if ex_env c = [] then [] else ''/usr/bin/env'' # map (assignment (\<lambda>v. v)) (ex_env c)) @ ws)"
      using reads_space [OF reads_marks(1) reads_space [OF reads_marks(2) reads_space [OF reads_quote reads_space [OF reads_and s]]]]
        False by (simp add: line)
    moreover have "shell_active (''cd -- '' @ x) = shell_active x" for x
      using active_plain [of "''cd -- ''" x]
      by (simp add: lex_quote_def active_char_def shell_safe_def ascii_alnum_def is_dec_def is_lower_ascii_def is_ascii_alpha_def code_point_def)
    moreover have "shell_active (''&&'' @ x) = ''&&'' @ shell_active x" for x
      using active_plain [of "''&&''" x]
      by (simp add: lex_quote_def active_char_def shell_safe_def ascii_alnum_def is_dec_def is_lower_ascii_def is_ascii_alpha_def code_point_def)
    ultimately show ?thesis using False a by (simp add: line active_quote shlex_split_def)
  qed
qed

text \<open>A machine where everything works, but for a container that is too slow and cannot be removed.\<close>

definition sample_machine :: "unit machine" where
  "sample_machine = \<lparr>mc_platform = ''linux'', mc_which = (\<lambda>_. True), mc_environ = [(''PATH'', ''/bin'')], mc_win_abs = (\<lambda>_. False),
     mc_expand = (\<lambda>s. s), mc_spawn = (\<lambda>c t s. (ProcEnded (Some 0) ''out'' [], s)),
     mc_docker = (\<lambda>c s. (case c of DockerWait t \<Rightarrow> Inl (WaitTimedOut ''slow'') | DockerLogs b \<Rightarrow> Inr (DockerText ''log'')
        | DockerRemove \<Rightarrow> Inl (DockerFails ''gone'') | _ \<Rightarrow> Inr DockerDone, s)),
     mc_tool = (\<lambda>n a t s. (ToolReturns (JStr n), s)),
     mc_loads = (\<lambda>t. if t = ''m'' then Inr (JDict [(''docker/i'', JList [JDict [(''host_root'', JStr '' /w ''), (''provider_root'', JStr ''/mnt'')]])])
        else Inr (JDict [(''tool'', JStr t)])),
     mc_dumps = (\<lambda>_. []), mc_lax_bool = (\<lambda>_. None)\<rparr>"

definition sample_context_env :: exec_context where
  "sample_context_env = \<lparr>ex_cwd = ''/a b'', ex_env = [(''X'', ''1;2'')], ex_outputs = []\<rparr>"

theorem ssh_line_exact_witness:
  "shlex_split (ssh_line (CommandArgv [''ls'', ''$(id)'']) sample_context_env)
     = Inr [''cd'', ''--'', ''/a b'', ''&&'', ''/usr/bin/env'', ''X=1;2'', ''ls'', ''$(id)'']"
proof -
  have "validate_context (\<lambda>_. False) sample_context_env = Inr sample_context_env" by code_simp
  from ssh_line_exact [OF this] show ?thesis by (simp add: sample_context_env_def assignment_def)
qed

section \<open>Containers are removed\<close>

lemma docker_run_simps:
  "docker_bind m f s = (case m s of (Inl e, cs, s1) \<Rightarrow> (Inl e, cs, s1)
     | (Inr x, cs, s1) \<Rightarrow> (case f x s1 of (y, ds, s2) \<Rightarrow> (y, cs @ ds, s2)))"
  "docker_finally m g s = (case m s of (r, cs, s1) \<Rightarrow> (case g s1 of (_, ds, s2) \<Rightarrow> (r, cs @ ds, s2)))"
  by (auto simp: docker_bind_def docker_finally_def docker_try_def docker_raise_def docker_return_def split: prod.splits sum.splits)

lemma await_container_calls:
  "await_container M t s = (r, cs, s') \<Longrightarrow> set cs \<subseteq> {DockerWait t, DockerStop}
     \<and> (\<forall>err. r = Inr (0, err, False) \<and> err = [] \<longrightarrow> (\<exists>reply. fst (mc_docker M (DockerWait t) s) = Inr reply \<and> exit_status reply = (0, [])))"
  by (auto simp: await_container_def docker_try_def docker_do_def docker_return_def docker_raise_def
      intro: prod_eqI split: prod.splits sum.splits docker_error.splits)

lemma run_container_calls:
  assumes "run_container M t s = (r, cs, s')"
  shows "\<exists>mid. cs = DockerStart # mid \<and> set mid \<subseteq> {DockerWait t, DockerStop, DockerLogs True, DockerLogs False}
     \<and> (\<forall>out. r = Inr out \<and> eo_success out \<longrightarrow>
          (\<exists>s1 reply. fst (mc_docker M (DockerWait t) s1) = Inr reply \<and> exit_status reply = (0, [])))"
  using assms
  by (auto simp: run_container_def docker_run_simps docker_do_def docker_return_def container_outcome_def
      split: prod.splits sum.splits dest!: await_container_calls; blast)

text \<open>
  A container that was created is removed, and that is the last thing done with it, whether it ends, times
  out or any call to the Docker service fails; nothing is started without being created, and success is only
  reported when the wait ended with status zero.
\<close>
theorem container_removed:
  assumes "docker_sync M spec t s = (r, calls, s')"
  shows "(calls \<in> {[DockerConnect], [DockerConnect, DockerCreate spec]}
      \<or> (\<exists>mid. calls = DockerConnect # DockerCreate spec # DockerStart # mid @ [DockerRemove]
          \<and> set mid \<subseteq> {DockerWait t, DockerStop, DockerLogs True, DockerLogs False}))
    \<and> (\<forall>out. r = Inr out \<and> eo_success out \<longrightarrow> last calls = DockerRemove
        \<and> (\<exists>s1 reply. fst (mc_docker M (DockerWait t) s1) = Inr reply \<and> exit_status reply = (0, [])))"
proof -
  obtain c0 s0 where c0: "mc_docker M DockerConnect s = (c0, s0)" by fastforce
  obtain c1 s1 where c1: "mc_docker M (DockerCreate spec) s0 = (c1, s1)" by fastforce
  obtain r2 cs s2 where run: "run_container M t s1 = (r2, cs, s2)" by (metis surj_pair)
  from run_container_calls [OF run] obtain mid where mid: "cs = DockerStart # mid"
    "set mid \<subseteq> {DockerWait t, DockerStop, DockerLogs True, DockerLogs False}"
    and ok: "\<And>out. r2 = Inr out \<Longrightarrow> eo_success out \<Longrightarrow>
          \<exists>s1 reply. fst (mc_docker M (DockerWait t) s1) = Inr reply \<and> exit_status reply = (0, [])" by blast
  show ?thesis
  proof (cases "is_ok c0 \<and> is_ok c1")
    case True
    with assms c0 c1 run mid(1) have "r = r2" "calls = DockerConnect # DockerCreate spec # DockerStart # mid @ [DockerRemove]"
      by (auto simp: docker_sync_def docker_run_simps docker_try_def docker_do_def is_ok_iff split: prod.splits)
    with mid(2) ok show ?thesis by auto
  next
    case False
    with assms c0 c1 show ?thesis
      by (auto simp: docker_sync_def docker_run_simps docker_try_def docker_do_def docker_raise_def docker_return_def
          failed_outcome_def is_ok_iff split: prod.splits sum.splits docker_error.splits)
  qed
qed

text \<open>The sample container exceeds its time, is stopped, and is removed although the removal fails.\<close>

theorem container_removed_witness:
  "last (fst (snd (docker_sync sample_machine (container_of ''i'' [] [] [] (CommandText ''x'') empty_context) 5 ()))) = DockerRemove"
proof -
  let ?spec = "container_of ''i'' [] [] [] (CommandText ''x'') empty_context"
  obtain r calls s' where r: "docker_sync sample_machine ?spec 5 () = (r, calls, s')" by (metis surj_pair)
  have "length (fst (snd (docker_sync sample_machine ?spec 5 ()))) = 8" by code_simp
  with r have "length calls = 8" by simp
  with container_removed [OF r] r show ?thesis by auto
qed

section \<open>What an outcome means\<close>

definition started_call :: "'s machine \<Rightarrow> transport \<Rightarrow> command \<Rightarrow> exec_context \<Rightarrow> proc_call option" where
  "started_call M e cmd c = (case e of
     LocalExecutor \<Rightarrow> Some (local_call M cmd c)
   | SshExecutor host user port identity ms \<Rightarrow> Some (ExecCall (ssh_argv host user port identity cmd c) None None)
   | WslExecutor distro ms \<Rightarrow> Some (ExecCall (wsl_argv distro cmd c) None None)
   | _ \<Rightarrow> None)"

lemma process_success: "eo_success (process_outcome d t r) \<Longrightarrow> \<exists>out err. r = ProcEnded (Some 0) out err"
  by (cases r) (auto simp: timeout_outcome_def failed_outcome_def)

lemma docker_failure_unsuccessful: "\<not> eo_success (docker_failure e)"
  by (cases e) (auto simp: failed_outcome_def)

text \<open>
  Success is what was observed: nothing starts for a context that the provider does not support, and a
  success of a process provider is the exit status zero of exactly the process the command and the context make,
  of a container its status zero, and of a tool provider a value returned by a structured call.
\<close>
theorem executor_success_observed:
  assumes "run_executor M e cmd timeout env context s = (out, s')"
  shows "(case prepare_context (mc_win_abs M) (executor_provider (mc_platform M) e) context env of
      Inl x \<Rightarrow> s' = s \<and> \<not> eo_success out
    | Inr c \<Rightarrow> eo_success out \<longrightarrow>
        (\<forall>call. started_call M e cmd c = Some call \<longrightarrow>
           (\<exists>t so se. mc_spawn M call t s = (ProcEnded (Some 0) so se, s') \<and> eo_stdout out = so))
        \<and> (\<forall>img mem network ms. e = DockerExecutor img mem network ms \<longrightarrow>
           (\<exists>t s1 reply. fst (mc_docker M (DockerWait t) s1) = Inr reply \<and> exit_status reply = (0, [])))
        \<and> (\<forall>server client. e = McpExecutor server client \<longrightarrow> client
           \<and> (\<exists>t tool args limit v. cmd = CommandText t \<and> tool_call (mc_loads M) t = Some (tool, args)
               \<and> mc_tool M tool args limit s = (ToolReturns v, s'))))"
proof (cases "prepare_context (mc_win_abs M) (executor_provider (mc_platform M) e) context env")
  case (Inl x)
  with assms show ?thesis by (auto simp: run_executor_def failed_outcome_def)
next
  case (Inr c)
  define t where "t = (case timeout of None \<Rightarrow> default_timeout e | Some t \<Rightarrow> t)"
  from Inr assms have x: "execute_prepared M e cmd t c s = (out, s')" by (simp add: run_executor_def t_def)
  show ?thesis
  proof (cases e)
    case LocalExecutor
    with x Inr show ?thesis by (auto simp: started_call_def run_process_def dest!: process_success split: prod.splits; blast)
  next
    case (SshExecutor host user port identity ms)
    with x Inr show ?thesis
      by (auto simp: started_call_def run_process_def failed_outcome_def dest!: process_success split: prod.splits if_split_asm; blast)
  next
    case (WslExecutor distro ms)
    with x Inr show ?thesis
      by (auto simp: started_call_def run_process_def failed_outcome_def dest!: process_success split: prod.splits if_split_asm; blast)
  next
    case (DockerExecutor img mem network ms)
    obtain r cs s1 where d: "docker_sync M (container_of img mem network ms cmd c) t s = (r, cs, s1)" by (metis surj_pair)
    with x DockerExecutor Inr container_removed [OF d] docker_failure_unsuccessful show ?thesis
      by (auto simp: started_call_def split: sum.splits)
  next
    case (McpExecutor server client)
    with x Inr show ?thesis
      by (auto simp: started_call_def mcp_execute_def tool_outcome_def timeout_outcome_def failed_outcome_def
          split: command.splits option.splits prod.splits tool_end.splits if_split_asm)
  qed
qed

theorem executor_success_observed_witness:
  "\<exists>so se. mc_spawn sample_machine (ExecCall (ssh_argv ''h'' [] 22 [] (CommandArgv [''id'']) sample_context_env) None None) 120 ()
     = (ProcEnded (Some 0) so se, ()) \<and> so = ''out''"
proof -
  let ?e = "SshExecutor ''h'' [] 22 [] []"
  have p: "prepare_context (mc_win_abs sample_machine) (executor_provider (mc_platform sample_machine) ?e)
     (Some sample_context_env) None = Inr sample_context_env" by code_simp
  obtain out s' where r: "run_executor sample_machine ?e (CommandArgv [''id'']) None None (Some sample_context_env) () = (out, s')"
    by (metis surj_pair)
  have "eo_success (fst (run_executor sample_machine ?e (CommandArgv [''id'']) None None (Some sample_context_env) ()))"
    by code_simp
  with executor_success_observed [OF r] p r show ?thesis
    by (auto simp: started_call_def sample_machine_def)
qed

section \<open>Configured mappings\<close>

lemma construct_mappings:
  assumes "construct kind kw = Inr (Some e)" "map_of kw ''path_mappings'' = Some (OptMappings ms)"
  shows "pv_mappings (executor_provider platform e) = ms"
  using assms
  by (auto simp: construct_def res_bind_eq_Inr only_options_def opt_mappings_def list_all_iff split: if_split_asm dest!: map_of_SomeD)

lemma construct_shape:
  assumes "construct kind kw = Inr (Some e)" "map_of kw ''path_mappings'' = None"
  shows "pv_mappings (executor_provider platform e) = []"
  using assms
  by (auto simp: construct_def res_bind_eq_Inr opt_mappings_def split: if_split_asm)

lemma create_construct:
  "create_executor name kw = Inr e \<longleftrightarrow> (snd (provider_parts name) = [] \<or> fst (provider_parts name) = ''wsl'')
     \<and> construct (fst (provider_parts name))
         (if snd (provider_parts name) = [] then kw else dict_setdefault ''distro'' (OptText (snd (provider_parts name))) kw) = Inr (Some e)"
  by (auto simp: create_executor_def res_bind_eq_Inr split: prod.splits option.splits)

lemma setdefault_look: "k \<noteq> k' \<Longrightarrow> map_of (dict_setdefault k' v kw) k = map_of kw k"
  by (auto simp: dict_setdefault_def map_add_def split: option.splits)

text \<open>The name of a provider does not depend on its mappings.\<close>

lemma construct_name:
  assumes "construct kind kw = Inr (Some e)" "construct kind kw' = Inr (Some e')"
    "\<And>k. k \<noteq> ''path_mappings'' \<Longrightarrow> map_of kw' k = map_of kw k"
  shows "pv_name (executor_provider platform e') = pv_name (executor_provider platform e)
    \<and> pv_mode (executor_provider platform e') = pv_mode (executor_provider platform e)"
proof -
  have "opt_text kw' k v = opt_text kw k v" if "k \<noteq> ''path_mappings''" for k v
    using assms(3) [OF that] by (simp add: opt_text_def)
  with assms show ?thesis
    by (auto simp: construct_def res_bind_eq_Inr split: if_split_asm)
qed

lemma parse_mapping_valid:
  "parse_mapping M v = Inr m \<Longrightarrow> starts_with (mc_expand M (pm_host m)) ''/'' \<and> pm_provider m \<noteq> []"
  by (auto simp: parse_mapping_def validate_mapping_def Let_def res_bind_eq_Inr split: jval.splits)

lemma map_res_from: "map_res f xs = Inr ys \<Longrightarrow> y \<in> set ys \<Longrightarrow> \<exists>x \<in> set xs. f x = Inr y"
  by (induction xs arbitrary: ys) (auto simp: res_bind_eq_Inr)

lemma configured_body_Inr:
  assumes "configured_body M raw name kw = Inr e"
  shows "\<exists>cfg e0. mc_loads M raw = Inr (JDict cfg) \<and> create_executor name kw = Inr e0
    \<and> (let p = executor_provider (mc_platform M) e0 in
       if pv_mode p \<in> {Mapped, Remote} then
         (\<exists>ms. map_res (parse_mapping M) (configured_entries cfg (pv_name p)) = Inr ms \<and> distinct (map pm_host ms)
            \<and> create_executor name (kw @ [(''path_mappings'', OptMappings ms)]) = Inr e)
       else map_of cfg (pv_name p) = None \<and> e = e0)"
proof -
  from assms obtain v where v: "mc_loads M raw = Inr v" by (auto simp: configured_body_def res_bind_eq_Inr)
  with assms obtain cfg where cfg: "mc_loads M raw = Inr (JDict cfg)" by (cases v) (auto simp: configured_body_def)
  with assms obtain e0 where c: "mc_loads M raw = Inr (JDict cfg)" "create_executor name kw = Inr e0"
    by (auto simp: configured_body_def Let_def res_bind_eq_Inr)
  with assms show ?thesis
    by (intro exI [where x = cfg] exI [where x = e0])
      (auto simp: configured_body_def Let_def res_bind_eq_Inr split: if_split_asm)
qed

text \<open>
  A configured provider maps exactly what the configuration lists under its own name: the entries,
  validated, in their order, with different host roots, each absolute on both sides; a provider that has no file system of
  its own is never given a mapping, and is refused when one is listed for it.
\<close>
theorem configured_mappings_exact:
  assumes "create_configured_executor M raw name kw = Inr e" "strip raw \<noteq> []" "map_of kw ''path_mappings'' = None"
  shows "\<exists>cfg. mc_loads M (strip raw) = Inr (JDict cfg)
    \<and> (let p = executor_provider (mc_platform M) e in
        if pv_mode p \<in> {Mapped, Remote} then
          map_res (parse_mapping M) (configured_entries cfg (pv_name p)) = Inr (pv_mappings p)
          \<and> distinct (map pm_host (pv_mappings p))
          \<and> (\<forall>m \<in> set (pv_mappings p). starts_with (mc_expand M (pm_host m)) ''/'' \<and> pm_provider m \<noteq> [])
        else map_of cfg (pv_name p) = None \<and> pv_mappings p = [])"
proof -
  from assms(1,2) have "configured_body M (strip raw) name kw = Inr e"
    by (auto simp: create_configured_executor_def split: sum.splits py_error.splits)
  from configured_body_Inr [OF this] obtain cfg e0 where ld: "mc_loads M (strip raw) = Inr (JDict cfg)"
    and e0: "create_executor name kw = Inr e0"
    and body: "let p = executor_provider (mc_platform M) e0 in
       if pv_mode p \<in> {Mapped, Remote} then
         (\<exists>ms. map_res (parse_mapping M) (configured_entries cfg (pv_name p)) = Inr ms \<and> distinct (map pm_host ms)
            \<and> create_executor name (kw @ [(''path_mappings'', OptMappings ms)]) = Inr e)
       else map_of cfg (pv_name p) = None \<and> e = e0" by blast
  let ?p0 = "executor_provider (mc_platform M) e0" and ?kind = "fst (provider_parts name)" and ?q = "snd (provider_parts name)"
  let ?with = "\<lambda>kw. if ?q = [] then kw else dict_setdefault ''distro'' (OptText ?q) kw"
  have look: "map_of (?with kw) k = map_of (?with kw') k" if "map_of kw k = map_of kw' k" "map_of kw ''distro'' = map_of kw' ''distro''"
    for kw kw' k using that by (cases "k = ''distro''") (auto simp: setdefault_look dict_setdefault_def map_add_def split: option.splits)
  show ?thesis
  proof (cases "pv_mode ?p0 \<in> {Mapped, Remote}")
    case True
    with body obtain ms where ms: "map_res (parse_mapping M) (configured_entries cfg (pv_name ?p0)) = Inr ms" "distinct (map pm_host ms)"
      and e: "create_executor name (kw @ [(''path_mappings'', OptMappings ms)]) = Inr e" by (auto simp: Let_def)
    let ?kw = "kw @ [(''path_mappings'', OptMappings ms)]"
    have c: "construct ?kind (?with kw) = Inr (Some e0)" "construct ?kind (?with ?kw) = Inr (Some e)"
      using e0 e by (simp_all add: create_construct)
    have "map_of (?with ?kw) k = map_of (?with kw) k" if "k \<noteq> ''path_mappings''" for k
      by (rule look) (use that in \<open>auto simp: map_add_def split: option.splits\<close>)
    from construct_name [OF c this] have same: "pv_name (executor_provider (mc_platform M) e) = pv_name ?p0"
      "pv_mode (executor_provider (mc_platform M) e) = pv_mode ?p0" by auto
    have "map_of ?kw ''path_mappings'' = Some (OptMappings ms)" using assms(3) by (simp add: map_add_def)
    then have "map_of (?with ?kw) ''path_mappings'' = Some (OptMappings ms)" by (simp add: setdefault_look)
    from construct_mappings [OF c(2) this] have "pv_mappings (executor_provider (mc_platform M) e) = ms" .
    moreover have "\<forall>m \<in> set ms. starts_with (mc_expand M (pm_host m)) ''/'' \<and> pm_provider m \<noteq> []"
      using map_res_from [OF ms(1)] parse_mapping_valid by blast
    ultimately show ?thesis using ld ms same True by (auto simp: Let_def)
  next
    case False
    with body have b: "map_of cfg (pv_name ?p0) = None" "e = e0" by (auto simp: Let_def)
    have "map_of (?with kw) ''path_mappings'' = None" using assms(3) by (simp add: setdefault_look)
    with e0 construct_shape have "pv_mappings ?p0 = []" by (auto simp: create_construct)
    with ld b False show ?thesis by (auto simp: Let_def)
  qed
qed

theorem configured_mappings_exact_witness:
  "\<exists>e. create_configured_executor sample_machine ''m'' ''docker'' [(''image'', OptText ''i'')] = Inr e
    \<and> pv_mappings (executor_provider ''linux'' e) = [\<lparr>pm_host = ''/w'', pm_provider = ''/mnt'', pm_writable = False, pm_style = PosixStyle\<rparr>]"
proof -
  let ?e = "DockerExecutor ''i'' ''512m'' ''bridge'' [\<lparr>pm_host = ''/w'', pm_provider = ''/mnt'', pm_writable = False, pm_style = PosixStyle\<rparr>]"
  have r: "create_configured_executor sample_machine ''m'' ''docker'' [(''image'', OptText ''i'')] = Inr ?e" by code_simp
  have "strip ''m'' \<noteq> []" by code_simp
  from configured_mappings_exact [OF r this] r show ?thesis by auto
qed

section \<open>What the code does not do\<close>

text \<open>
  A host whose name begins with a dash becomes an option of \<open>ssh\<close>: nothing separates the options from it.
\<close>

lemma ssh_host_is_option:
  "ssh_argv ''-oProxyCommand=x'' [] 22 [] cmd c =
     [''ssh'', ''-p'', ''22'', ''-o'', ''BatchMode=yes'', ''-o'', ''StrictHostKeyChecking=accept-new'', ''-oProxyCommand=x'', ssh_line cmd c]"
proof -
  have "show_int 22 = ''22''" by code_simp
  then show ?thesis by (simp add: ssh_argv_def ssh_target_def)
qed

text \<open>
  The wrapper around \<open>execute\<close> compares the kinds of provider only: with one SSH host selected, the
  provider of another host runs.
\<close>

lemma other_host_runs:
  "\<exists>out. fst (governed_execute sample_machine (Some (''shell_command'', ''ssh/a:22'', [])) (SshExecutor ''b'' [] 22 [] [])
     (CommandArgv [''id'']) None None None ()) = Inr out \<and> eo_success out"
proof -
  have "case fst (governed_execute sample_machine (Some (''shell_command'', ''ssh/a:22'', [])) (SshExecutor ''b'' [] 22 [] [])
     (CommandArgv [''id'']) None None None ()) of Inr out \<Rightarrow> eo_success out | Inl e \<Rightarrow> False" by code_simp
  then show ?thesis by (auto split: sum.splits)
qed

end
