(* ===== verification/ModelRouting.thy ===== *)
theory ModelRouting
  imports PyValue "HOL-Library.Product_Lexorder"
begin

text \<open>
  The choice of a model, \<open>models/\<close>: the registry of model specifications (\<open>registry.py\<close>), the router with
  its rules, filters, ranking and fallbacks (\<open>routing.py\<close>), the keyword classifier (\<open>classifier.py\<close>), the
  lookup of a price (\<open>cost.py\<close>) and the gateway that resolves a role (\<open>gateway.py\<close>). Scores and prices are only
  compared, so that finite floats are exact as rational numbers; the live catalogue comes in as it
  is after its HTTP request, with the multiplication of its prices as a parameter.
\<close>

section \<open>The registry\<close>

definition class_order :: "(string, nat) dict" where
  "class_order = [(''public'', 0), (''internal'', 1), (''confidential'', 2), (''restricted'', 3)]"

definition classification_rank :: "string \<Rightarrow> nat res" where
  "classification_rank v = (case map_of class_order v of
     None \<Rightarrow> Inl (ValueError (''unknown data classification '' @ quoted v)) | Some n \<Rightarrow> Inr n)"

record model_spec =
  mo_id :: string
  mo_provider :: string
  mo_version :: int
  mo_capabilities :: "string list"
  mo_max_class :: string
  mo_locality :: string
  mo_context :: int
  mo_input_cost :: rat
  mo_output_cost :: rat
  mo_pricing :: string
  mo_latency :: string
  mo_quality :: "(string, rat) dict"
  mo_available :: bool
  mo_rate_limited :: bool
  mo_group :: string

definition validate_model :: "model_spec \<Rightarrow> model_spec res" where
  "validate_model m =
     res_bind (ensure (mo_id m \<noteq> [] \<and> length (mo_id m) \<le> 256) (ValueError ''id'')) (\<lambda>_.
     res_bind (ensure (mo_provider m \<noteq> [] \<and> length (mo_provider m) \<le> 64) (ValueError ''provider'')) (\<lambda>_.
     res_bind (ensure (1 \<le> mo_version m) (ValueError ''version'')) (\<lambda>_.
     res_bind (ensure (1 \<le> mo_context m) (ValueError ''context_limit'')) (\<lambda>_. Inr m))))"

definition accepts_class :: "model_spec \<Rightarrow> string \<Rightarrow> bool res" where
  "accepts_class m c =
     res_bind (classification_rank c) (\<lambda>a. res_bind (classification_rank (mo_max_class m)) (\<lambda>b. Inr (a \<le> b)))"

definition model_name :: "model_spec \<Rightarrow> string" where
  "model_name m = (case split_once CHR ''/'' (mo_id m) of [p, n] \<Rightarrow> n | _ \<Rightarrow> mo_id m)"

definition has_capabilities :: "model_spec \<Rightarrow> string list \<Rightarrow> bool" where
  "has_capabilities m required = list_all (\<lambda>c. c \<in> set (mo_capabilities m)) required"

definition quality_for :: "model_spec \<Rightarrow> string \<Rightarrow> rat" where
  "quality_for m task = (case map_of (mo_quality m) task of None \<Rightarrow> 0 | Some q \<Rightarrow> q)"

type_synonym model_registry = "(string, model_spec) dict"

definition register_model :: "model_spec \<Rightarrow> model_registry \<Rightarrow> model_registry res" where
  "register_model m reg = (if map_of reg (mo_id m) \<noteq> None then Inl (ValueError (''duplicate model id '' @ quoted (mo_id m)))
     else Inr (reg @ [(mo_id m, m)]))"

fun register_models :: "model_spec list \<Rightarrow> model_registry \<Rightarrow> model_registry res" where
  "register_models [] reg = Inr reg"
| "register_models (m # ms) reg = res_bind (register_model m reg) (register_models ms)"

definition all_models :: "model_registry \<Rightarrow> model_spec list" where
  "all_models reg = map snd reg"

definition in_group :: "model_registry \<Rightarrow> string \<Rightarrow> model_spec list" where
  "in_group reg g = filter (\<lambda>m. g \<noteq> [] \<and> mo_group m = g) (all_models reg)"

section \<open>Requests and rules\<close>

record routing_request =
  rq_task :: string
  rq_required :: "string list"
  rq_class :: string
  rq_local_only :: bool
  rq_allowlist :: "string list"
  rq_context :: int
  rq_quality :: rat
  rq_latency :: string
  rq_budget :: rat
  rq_pinned :: string
  rq_fallback :: bool

record routing_rule =
  ru_name :: string
  ru_task :: string
  ru_class :: string
  ru_locality :: string
  ru_capabilities :: "string list"

definition rule_matches :: "routing_rule \<Rightarrow> routing_request \<Rightarrow> bool" where
  "rule_matches ru r = ((ru_task ru = [] \<or> ru_task ru = rq_task r) \<and> (ru_class ru = [] \<or> ru_class ru = rq_class r))"

definition default_rules :: "routing_rule list" where
  "default_rules =
     [\<lparr>ru_name = ''confidential-local'', ru_task = [], ru_class = ''confidential'', ru_locality = ''local'', ru_capabilities = []\<rparr>,
      \<lparr>ru_name = ''restricted-local'', ru_task = [], ru_class = ''restricted'', ru_locality = ''local'', ru_capabilities = []\<rparr>,
      \<lparr>ru_name = ''structured-planning'', ru_task = ''planning'', ru_class = [], ru_locality = [],
        ru_capabilities = [''structured_output'']\<rparr>]"

record routing_decision =
  de_model :: string
  de_selected :: bool
  de_reason :: string
  de_rules :: "string list"
  de_candidates :: "string list"
  de_tried :: "string list"

definition no_decision :: "string \<Rightarrow> routing_decision" where
  "no_decision reason = \<lparr>de_model = [], de_selected = False, de_reason = reason, de_rules = [], de_candidates = [], de_tried = []\<rparr>"

section \<open>The router\<close>

fun add_missing :: "string list \<Rightarrow> string list \<Rightarrow> string list" where
  "add_missing [] required = required"
| "add_missing (c # cs) required = add_missing cs (if c \<in> set required then required else required @ [c])"

text \<open>The request as the matching rules tighten it, and their names.\<close>

fun apply_rules :: "routing_rule list \<Rightarrow> routing_request \<Rightarrow> bool \<times> string list \<times> string list \<Rightarrow> bool \<times> string list \<times> string list" where
  "apply_rules [] r acc = acc"
| "apply_rules (ru # rus) r (local_only, required, matched) =
     apply_rules rus r (if rule_matches ru r
       then (local_only \<or> ru_locality ru = ''local'', add_missing (ru_capabilities ru) required, matched @ [ru_name ru])
       else (local_only, required, matched))"

definition effective_request :: "routing_rule list \<Rightarrow> routing_request \<Rightarrow> routing_request \<times> string list" where
  "effective_request rules r = (case apply_rules rules r (rq_local_only r, rq_required r, []) of
     (l, req, matched) \<Rightarrow> (r\<lparr>rq_local_only := l, rq_required := req\<rparr>, matched))"

definition latency_rank :: "string \<Rightarrow> nat" where
  "latency_rank v = (if v = ''fast'' then 0 else if v = ''slow'' then 2 else 1)"

definition passes_filters :: "model_spec \<Rightarrow> routing_request \<Rightarrow> bool res" where
  "passes_filters m r =
     (if \<not> mo_available m \<or> mo_rate_limited m then Inr False
      else if rq_allowlist r \<noteq> [] \<and> mo_id m \<notin> set (rq_allowlist r) \<and> mo_provider m \<notin> set (rq_allowlist r) then Inr False
      else res_bind (accepts_class m (rq_class r)) (\<lambda>ok. Inr (ok
        \<and> (rq_local_only r \<longrightarrow> mo_locality m = ''local'')
        \<and> has_capabilities m (rq_required r)
        \<and> (rq_context r \<noteq> 0 \<longrightarrow> rq_context r \<le> mo_context m)
        \<and> (rq_quality r \<noteq> 0 \<longrightarrow> rq_quality r \<le> quality_for m (rq_task r))
        \<and> (rq_latency r \<noteq> [] \<longrightarrow> latency_rank (mo_latency m) \<le> latency_rank (rq_latency r))
        \<and> (rq_budget r \<noteq> 0 \<longrightarrow> mo_input_cost m \<le> rq_budget r))))"

definition rank_key :: "model_spec \<Rightarrow> string \<Rightarrow> rat \<times> nat \<times> rat \<times> string" where
  "rank_key m task = (- quality_for m task, latency_rank (mo_latency m), mo_input_cost m, mo_id m)"

fun filter_res :: "('a \<Rightarrow> bool res) \<Rightarrow> 'a list \<Rightarrow> 'a list res" where
  "filter_res P [] = Inr []"
| "filter_res P (x # xs) = res_bind (P x) (\<lambda>b. res_bind (filter_res P xs) (\<lambda>ys. Inr (if b then x # ys else ys)))"

definition may_replace :: "model_spec \<Rightarrow> routing_request \<Rightarrow> string list \<Rightarrow> model_spec \<Rightarrow> bool res" where
  "may_replace current r tried m =
     (if mo_id m \<in> set tried \<or> mo_locality m \<noteq> mo_locality current then Inr False else passes_filters m r)"

definition fallback_pool :: "model_registry \<Rightarrow> model_spec \<Rightarrow> routing_request \<Rightarrow> string list \<Rightarrow> string list res" where
  "fallback_pool reg current r tried =
     res_bind (filter_res (may_replace current r tried) (in_group reg (mo_group current))) (\<lambda>ms.
       Inr (map mo_id (sort_key (\<lambda>m. rank_key m (rq_task r)) ms)))"

definition select_model ::
  "model_registry \<Rightarrow> model_spec \<Rightarrow> routing_request \<Rightarrow> string list \<Rightarrow> string list \<Rightarrow> string \<Rightarrow> routing_decision res" where
  "select_model reg m r matched tried reason =
     res_bind (fallback_pool reg m r tried) (\<lambda>pool. Inr \<lparr>de_model = mo_id m, de_selected = True, de_reason = reason,
       de_rules = matched, de_candidates = pool, de_tried = tried\<rparr>)"

definition route :: "model_registry \<Rightarrow> routing_rule list \<Rightarrow> routing_request \<Rightarrow> routing_decision res" where
  "route reg rules r =
     (if rq_pinned r \<noteq> [] then (case map_of reg (rq_pinned r) of
          None \<Rightarrow> Inr (no_decision (''pinned model '' @ quoted (rq_pinned r) @ '' is not registered''))
        | Some m \<Rightarrow> res_bind (passes_filters m r) (\<lambda>ok.
            if \<not> ok then Inr (no_decision (''pinned model '' @ quoted (rq_pinned r) @ '' fails a hard policy filter''))
            else select_model reg m r [] [mo_id m] ''pinned model''))
      else (case effective_request rules r of (e, matched) \<Rightarrow>
        res_bind (filter_res (\<lambda>m. passes_filters m e) (all_models reg)) (\<lambda>eligible.
          (case sort_key (\<lambda>m. rank_key m (rq_task e)) eligible of
             [] \<Rightarrow> Inr ((no_decision (if rq_local_only e then ''local-only requirement with no registered local model''
               else ''no model satisfies the policy and capability filters''))\<lparr>de_rules := matched\<rparr>)
           | m # ms \<Rightarrow> select_model reg m e matched [mo_id m] (''task='' @ rq_task e @
               ''; passed policy/capability/health filters; ranked top by quality then latency then cost'')))))"

definition next_model :: "model_registry \<Rightarrow> routing_decision \<Rightarrow> routing_request \<Rightarrow> routing_decision res" where
  "next_model reg d r =
     (if \<not> rq_fallback r then Inr ((no_decision ''fallback disabled for this request'')\<lparr>de_tried := de_tried d\<rparr>)
      else (case map_of reg (de_model d) of
        None \<Rightarrow> Inr ((no_decision ''no current model to fall back from'')\<lparr>de_tried := de_tried d\<rparr>)
      | Some current \<Rightarrow> res_bind (fallback_pool reg current r (de_tried d)) (\<lambda>pool. (case pool of
          [] \<Rightarrow> Inr ((no_decision ''no safe fallback within the data and locality policy'')\<lparr>de_tried := de_tried d\<rparr>)
        | k # ks \<Rightarrow> (case map_of reg k of
            None \<Rightarrow> Inl (TypeError ''no model'')
          | Some m \<Rightarrow> res_bind (fallback_pool reg m r (de_tried d @ [k])) (\<lambda>candidates.
              Inr \<lparr>de_model = k, de_selected = True,
                de_reason = ''fallback from '' @ de_model d @ '' within '' @ mo_group current @ ''; same locality and data policy'',
                de_rules = de_rules d, de_candidates = candidates, de_tried = de_tried d @ [k]\<rparr>))))))"

section \<open>The classifier\<close>

definition cues :: "(string \<times> string list) list" where
  "cues = [(''code'', [''code'', ''coding'', ''function'', ''class'', ''method'', ''refactor'', ''implement'', ''debug'', ''bug'',
       ''fix'', ''patch'', ''compile'', ''traceback'', ''exception'', ''unit test'', ''pytest'', ''lint'', ''stack trace'', ''regex'',
       ''endpoint'', ''api'', ''build'', ''dependency'', ''syntax'', ''variable'', ''script'']),
     (''planning'', [''plan'', ''design'', ''architect'', ''architecture'', ''strategy'', ''approach'', ''roadmap'', ''outline'',
       ''break down'', ''prioritize'', ''steps'', ''milestones'', ''propose'', ''blueprint'']),
     (''extraction'', [''extract'', ''parse'', ''enumerate'', ''list all'', ''summarize'', ''summary'', ''pull out'', ''fields'',
       ''csv'', ''table of'', ''scrape'', ''collect the'']),
     (''analysis'', [''analyze'', ''analyse'', ''assess'', ''investigate'', ''evaluate'', ''review'', ''explain'', ''why'',
       ''diagnose'', ''compare'', ''audit'', ''understand''])]"

definition word_char :: "char \<Rightarrow> bool" where
  "word_char c = (is_alnum_char c \<or> c = CHR ''_'')"

definition word_at :: "string \<Rightarrow> bool" where
  "word_at s = (case s of [] \<Rightarrow> False | c # cs \<Rightarrow> word_char c)"

text \<open>A search for a cue that is no part of a longer word; \<open>inside\<close> tells whether a word character came before.\<close>

fun has_cue :: "bool \<Rightarrow> string \<Rightarrow> string \<Rightarrow> bool" where
  "has_cue inside cue [] = False"
| "has_cue inside cue (c # cs) =
     ((\<not> inside \<and> starts_with (map lower_char (c # cs)) cue \<and> \<not> word_at (drop (length cue) (c # cs)))
      \<or> has_cue (word_char c) cue cs)"

definition task_score :: "string \<Rightarrow> string \<Rightarrow> nat" where
  "task_score prompt task = (case map_of cues task of
     None \<Rightarrow> 0 | Some cs \<Rightarrow> length (filter (\<lambda>cue. has_cue False cue prompt) cs))"

definition task_priority :: "string list" where
  "task_priority = [''code'', ''planning'', ''extraction'', ''analysis'']"

definition classify_task :: "string \<Rightarrow> string" where
  "classify_task prompt =
     (let scores = map (task_score prompt) task_priority; best = Max (set scores) in
      if best = 0 then ''analysis'' else hd (filter (\<lambda>t. task_score prompt t = best) task_priority))"

section \<open>Prices and the gateway\<close>

definition find_model_spec :: "model_registry \<Rightarrow> string \<Rightarrow> model_spec option" where
  "find_model_spec reg k =
     (if k = [] then None
      else (case map_of reg k of
          Some m \<Rightarrow> Some m
        | None \<Rightarrow> find (\<lambda>m. model_name m = k \<or> ends_with (mo_id m) (CHR ''/'' # k)) (all_models reg)))"

definition role_task :: "string \<Rightarrow> string" where
  "role_task role = (if role = ''planner'' then ''planning'' else if role = ''coder'' then ''code'' else ''analysis'')"

definition role_env :: "string \<Rightarrow> string" where
  "role_env role = (if role = ''planner'' then ''DECODE_PLANNER_MODEL'' else if role = ''worker'' then ''DECODE_WORKER_MODEL''
     else if role = ''reviewer'' then ''DECODE_REVIEWER_MODEL'' else if role = ''coder'' then ''DECODE_CODER_MODEL'' else [])"

definition known_providers :: "string list" where
  "known_providers = [''openrouter'', ''openai'', ''anthropic'', ''mistral'', ''bedrock'']"

definition plain_request :: "string \<Rightarrow> routing_request" where
  "plain_request task = \<lparr>rq_task = task, rq_required = [], rq_class = ''internal'', rq_local_only = False, rq_allowlist = [],
     rq_context = 0, rq_quality = 0, rq_latency = [], rq_budget = 0, rq_pinned = [], rq_fallback = True\<rparr>"

text \<open>The gateway's environment: variables, the configured provider and model, and whether routing is on.\<close>

record gateway_env =
  gv_env :: "string \<Rightarrow> string"
  gv_provider :: string
  gv_model :: string

definition routing_default :: "gateway_env \<Rightarrow> bool" where
  "routing_default G = (lower (strip (gv_env G ''DECODE_MODEL_ROUTING'')) \<in> {''1'', ''true'', ''yes''})"

definition resolve_role :: "gateway_env \<Rightarrow> model_registry \<Rightarrow> routing_rule list \<Rightarrow> bool \<Rightarrow> string \<Rightarrow> (string \<times> string) res" where
  "resolve_role G reg rules routing role =
     (let override = strip (gv_env G (role_env role)); configured = Inr (gv_provider G, gv_model G) in
      if override \<noteq> [] then (case map_of reg override of
          Some m \<Rightarrow> Inr (mo_provider m, model_name m)
        | None \<Rightarrow> (case split_once CHR ''/'' override of
            [p, n] \<Rightarrow> if p \<in> set known_providers then Inr (p, n) else Inr (gv_provider G, override)
          | _ \<Rightarrow> Inr (gv_provider G, override)))
      else if routing then
        res_bind (route reg rules (plain_request (role_task role))) (\<lambda>d.
          if de_selected d \<and> de_model d \<noteq> [] then (case map_of reg (de_model d) of
              Some m \<Rightarrow> Inr (mo_provider m, model_name m) | None \<Rightarrow> configured)
          else configured)
      else configured)"

text \<open>The cache of built providers: one for each provider and model.\<close>

type_synonym 'p provider_cache = "(string \<times> string, 'p) dict"

definition seed_provider :: "string \<Rightarrow> string \<Rightarrow> 'p \<Rightarrow> 'p provider_cache \<Rightarrow> 'p provider_cache" where
  "seed_provider p n x cache = dict_set (p, n) x cache"

definition for_role ::
  "(string \<times> string \<Rightarrow> 'p res) \<Rightarrow> gateway_env \<Rightarrow> model_registry \<Rightarrow> routing_rule list \<Rightarrow> bool \<Rightarrow> string \<Rightarrow> 'p provider_cache
     \<Rightarrow> ('p \<times> 'p provider_cache) res" where
  "for_role build G reg rules routing role cache =
     res_bind (resolve_role G reg rules routing role) (\<lambda>k. (case map_of cache k of
       Some x \<Rightarrow> Inr (x, cache)
     | None \<Rightarrow> res_bind (build k) (\<lambda>x. Inr (x, dict_set k x cache))))"

section \<open>The live catalogue\<close>

text \<open>An entry as the models API gives it, validated; prices are a text or a number.\<close>

record catalog_entry =
  ce_id :: string
  ce_context :: "int option"
  ce_inputs :: "string list"
  ce_outputs :: "string list"
  ce_prompt :: jval
  ce_completion :: jval
  ce_parameters :: "string list"

record catalog_env =
  ca_entry :: "jval \<Rightarrow> catalog_entry res"
  ca_float :: "jval \<Rightarrow> pyfloat option"
  ca_million :: "rat \<Rightarrow> rat option"

text \<open>\<open>_per_million\<close>: the product, where it is a finite number.\<close>

definition per_million :: "catalog_env \<Rightarrow> jval \<Rightarrow> rat res" where
  "per_million C v = (case ca_float C v of
     Some (Fin q) \<Rightarrow> if q = - 1 then Inr 0 else if q < 0 then Inl (ValueError ''invalid model pricing'')
       else (case ca_million C q of Some x \<Rightarrow> Inr x | None \<Rightarrow> Inl (ValueError ''invalid model pricing''))
   | _ \<Rightarrow> Inl (ValueError ''invalid model pricing''))"

definition pricing_unavailable :: "catalog_env \<Rightarrow> catalog_entry \<Rightarrow> bool" where
  "pricing_unavailable C e = (case ca_float C (ce_prompt e) of
     None \<Rightarrow> False
   | Some p \<Rightarrow> p = Fin (- 1) \<or> ca_float C (ce_completion e) = Some (Fin (- 1)))"

definition catalog_capabilities :: "catalog_entry \<Rightarrow> string list" where
  "catalog_capabilities e =
     (let i = set (ce_inputs e); t = set (ce_outputs e); p = set (ce_parameters e);
          when = (\<lambda>b c. if b then [c] else []) in
      sort (remdups (when (''text'' \<in> t) ''chat'' @ when (''image'' \<in> i) ''vision'' @ when (''image'' \<in> t) ''image_generation''
        @ when (''audio'' \<in> i \<or> ''audio'' \<in> t) ''audio'' @ when (''file'' \<in> i) ''file'' @ when (''embeddings'' \<in> t) ''embeddings''
        @ when (''tools'' \<in> p) ''tools'' @ when (''structured_outputs'' \<in> p \<or> ''response_format'' \<in> p) ''structured_output''
        @ when (''reasoning'' \<in> p \<or> ''include_reasoning'' \<in> p) ''reasoning''
        @ when (case ce_context e of Some n \<Rightarrow> 32768 \<le> n | None \<Rightarrow> False) ''long_context'')))"

definition catalog_group :: "string list \<Rightarrow> string" where
  "catalog_group cs = (case filter (\<lambda>c. c \<in> set cs) [''embeddings'', ''image_generation'', ''audio''] of
     [] \<Rightarrow> ''openrouter-general'' | c # _ \<Rightarrow> ''openrouter-'' @ c)"

definition catalog_model :: "catalog_env \<Rightarrow> catalog_entry \<Rightarrow> model_spec option \<Rightarrow> model_spec res" where
  "catalog_model C e curated =
     (let base = catalog_capabilities e;
          caps = (case curated of Some m \<Rightarrow> if ''code'' \<in> set (mo_capabilities m) then sort (remdups (''code'' # base)) else base
            | None \<Rightarrow> base) in
      res_bind (per_million C (ce_prompt e)) (\<lambda>pin.
      res_bind (per_million C (ce_completion e)) (\<lambda>pout.
        validate_model \<lparr>mo_id = ''openrouter/'' @ ce_id e, mo_provider = ''openrouter'', mo_version = 1, mo_capabilities = caps,
          mo_max_class = ''internal'', mo_locality = ''hosted'',
          mo_context = (case ce_context e of Some n \<Rightarrow> if n = 0 then 8192 else n | None \<Rightarrow> 8192),
          mo_input_cost = pin, mo_output_cost = pout,
          mo_pricing = (if pricing_unavailable C e then ''openrouter-live-unavailable'' else ''openrouter-live''),
          mo_latency = (case curated of Some m \<Rightarrow> mo_latency m | None \<Rightarrow> ''standard''),
          mo_quality = (case curated of Some m \<Rightarrow> mo_quality m | None \<Rightarrow> []),
          mo_available = True, mo_rate_limited = False,
          mo_group = (case curated of Some m \<Rightarrow> mo_group m | None \<Rightarrow> catalog_group caps)\<rparr>)))"

text \<open>The entries in turn; a record that does not validate, or repeats an id, is counted and skipped.\<close>

fun catalog_entries ::
  "catalog_env \<Rightarrow> (string \<Rightarrow> model_spec option) \<Rightarrow> jval list \<Rightarrow> model_registry \<Rightarrow> int \<Rightarrow> (model_registry \<times> int) res" where
  "catalog_entries C curated [] models skipped = Inr (models, skipped)"
| "catalog_entries C curated (v # vs) models skipped =
     (case res_bind (ca_entry C v) (\<lambda>e. res_bind (catalog_model C e (curated (ce_id e))) (\<lambda>m.
           res_bind (ensure (map_of models (mo_id m) = None) (ValueError ''duplicate model id'')) (\<lambda>_. Inr m))) of
        Inr m \<Rightarrow> catalog_entries C curated vs (dict_set (mo_id m) m models) skipped
      | Inl (TypeError e) \<Rightarrow> catalog_entries C curated vs models (skipped + 1)
      | Inl (ValueError e) \<Rightarrow> catalog_entries C curated vs models (skipped + 1)
      | Inl e \<Rightarrow> Inl e)"

record catalog_result =
  cr_models :: "model_spec list"
  cr_total :: int
  cr_skipped :: int

definition curated_models :: "model_registry \<Rightarrow> string \<Rightarrow> model_spec option" where
  "curated_models base k = map_of (rev (map (\<lambda>m. (model_name m, m)) (filter (\<lambda>m. mo_provider m = ''openrouter'') (all_models base)))) k"

text \<open>\<open>payload\<close> is the decoded response, \<open>None\<close> where the request or the decoding failed.\<close>

definition read_catalog :: "catalog_env \<Rightarrow> model_registry \<Rightarrow> jval option \<Rightarrow> catalog_result res" where
  "read_catalog C base payload = (case payload of
     None \<Rightarrow> Inl (RuntimeError ''OpenRouter catalogue request failed'')
   | Some (JDict d) \<Rightarrow> (case map_of d ''data'' of
       Some (JList vs) \<Rightarrow> res_bind (catalog_entries C (curated_models base) vs [] 0) (\<lambda>(models, skipped).
         if models = [] then Inl (RuntimeError ''OpenRouter catalogue contained no valid models'')
         else Inr \<lparr>cr_models = sort_key mo_id (all_models models), cr_total = int (length vs), cr_skipped = skipped\<rparr>)
     | _ \<Rightarrow> Inl (RuntimeError ''OpenRouter catalogue returned an invalid response''))
   | Some _ \<Rightarrow> Inl (RuntimeError ''OpenRouter catalogue returned an invalid response''))"

definition registry_with_catalog :: "catalog_result \<Rightarrow> model_registry \<Rightarrow> model_registry res" where
  "registry_with_catalog c base =
     register_models (filter (\<lambda>m. mo_provider m \<noteq> ''openrouter'') (all_models base) @ cr_models c) []"

section \<open>A well-formed registry\<close>

definition wf_registry :: "model_registry \<Rightarrow> bool" where
  "wf_registry reg \<longleftrightarrow> distinct (map fst reg) \<and> (\<forall>(k, m) \<in> set reg. k = mo_id m)"

lemma wf_registry_look: "wf_registry reg \<Longrightarrow> m \<in> set (all_models reg) \<longleftrightarrow> map_of reg (mo_id m) = Some m"
  by (force simp: wf_registry_def all_models_def dest: map_of_SomeD)

lemma wf_registry_key: "wf_registry reg \<Longrightarrow> map_of reg k = Some m \<Longrightarrow> mo_id m = k"
  by (auto simp: wf_registry_def dest!: map_of_SomeD)

lemma register_model_wf: "register_model m reg = Inr reg' \<Longrightarrow> wf_registry reg \<Longrightarrow> wf_registry reg'"
  by (auto simp: register_model_def wf_registry_def map_of_eq_None_iff split: if_split_asm)

lemma register_models_wf: "register_models ms reg = Inr reg' \<Longrightarrow> wf_registry reg \<Longrightarrow> wf_registry reg'"
  by (induction ms reg rule: register_models.induct) (auto simp: res_bind_eq_Inr dest: register_model_wf)

lemma register_models_all: "register_models ms reg = Inr reg' \<Longrightarrow> all_models reg' = all_models reg @ ms"
  by (induction ms reg rule: register_models.induct)
    (auto simp: res_bind_eq_Inr register_model_def all_models_def split: if_split_asm)

lemma filter_res_Inr: "filter_res P xs = Inr ys \<Longrightarrow> ys = filter (\<lambda>x. P x = Inr True) xs \<and> (\<forall>x \<in> set xs. is_ok (P x))"
  by (induction xs arbitrary: ys) (auto simp: res_bind_eq_Inr is_ok_iff)

section \<open>What a fallback is\<close>

definition replaces :: "model_registry \<Rightarrow> model_spec \<Rightarrow> routing_request \<Rightarrow> string list \<Rightarrow> model_spec \<Rightarrow> bool" where
  "replaces reg current r tried m \<longleftrightarrow> map_of reg (mo_id m) = Some m \<and> mo_group m = mo_group current \<and> mo_group m \<noteq> []
     \<and> mo_locality m = mo_locality current \<and> mo_id m \<notin> set tried \<and> passes_filters m r = Inr True"

lemma fallback_pool_Inr:
  assumes "fallback_pool reg current r tried = Inr pool" "wf_registry reg"
  shows "set pool = {mo_id m |m. replaces reg current r tried m}"
    and "pool \<noteq> [] \<Longrightarrow> \<exists>m. replaces reg current r tried m \<and> hd pool = mo_id m
      \<and> (\<forall>m'. replaces reg current r tried m' \<longrightarrow> rank_key m (rq_task r) \<le> rank_key m' (rq_task r))"
proof -
  from assms(1) obtain ms where ms: "filter_res (may_replace current r tried) (in_group reg (mo_group current)) = Inr ms"
    and pool: "pool = map mo_id (sort_key (\<lambda>m. rank_key m (rq_task r)) ms)"
    by (auto simp: fallback_pool_def res_bind_eq_Inr)
  have set: "set ms = {m. replaces reg current r tried m}"
    using filter_res_Inr [OF ms] wf_registry_look [OF assms(2)]
    by (auto simp: in_group_def may_replace_def replaces_def split: if_split_asm)
  with pool show "set pool = {mo_id m |m. replaces reg current r tried m}" by auto
  assume ne: "pool \<noteq> []"
  let ?s = "sort_key (\<lambda>m. rank_key m (rq_task r)) ms"
  from ne pool obtain x xs where s: "?s = x # xs" by (cases ?s) auto
  have "sorted (map (\<lambda>m. rank_key m (rq_task r)) ?s)" by (rule sorted_sort_key)
  with s have "\<forall>y \<in> set ?s. rank_key x (rq_task r) \<le> rank_key y (rq_task r)" by auto
  moreover have "set ?s = set ms" by simp
  ultimately show "\<exists>m. replaces reg current r tried m \<and> hd pool = mo_id m
      \<and> (\<forall>m'. replaces reg current r tried m' \<longrightarrow> rank_key m (rq_task r) \<le> rank_key m' (rq_task r))"
    using set s pool by (metis (mono_tags, lifting) list.sel(1) list.set_intros(1) list.simps(9) mem_Collect_eq)
qed

section \<open>What routing guarantees\<close>

lemma add_missing_set: "set (add_missing cs required) = set cs \<union> set required"
  by (induction cs required rule: add_missing.induct) auto

lemma apply_rules_sound:
  assumes "apply_rules rus r (l, req, ms) = (l', req', ms')"
  shows "(l \<longrightarrow> l') \<and> set req \<subseteq> set req'
    \<and> (\<forall>ru \<in> set rus. rule_matches ru r \<longrightarrow> (ru_locality ru = ''local'' \<longrightarrow> l') \<and> set (ru_capabilities ru) \<subseteq> set req')"
  using assms
proof (induction rus arbitrary: l req ms)
  case Nil
  then show ?case by simp
next
  case (Cons ru rus)
  show ?case
  proof (cases "rule_matches ru r")
    case True
    with Cons.prems have "apply_rules rus r (l \<or> ru_locality ru = ''local'', add_missing (ru_capabilities ru) req, ms @ [ru_name ru])
      = (l', req', ms')" by simp
    from Cons.IH [OF this] True show ?thesis by (auto simp: add_missing_set)
  next
    case False
    with Cons.prems have "apply_rules rus r (l, req, ms) = (l', req', ms')" by simp
    from Cons.IH [OF this] False show ?thesis by auto
  qed
qed

lemma passes_filters_iff:
  "passes_filters m r = Inr True \<longleftrightarrow> mo_available m \<and> \<not> mo_rate_limited m
     \<and> (rq_allowlist r = [] \<or> mo_id m \<in> set (rq_allowlist r) \<or> mo_provider m \<in> set (rq_allowlist r))
     \<and> accepts_class m (rq_class r) = Inr True \<and> (rq_local_only r \<longrightarrow> mo_locality m = ''local'')
     \<and> set (rq_required r) \<subseteq> set (mo_capabilities m) \<and> (rq_context r \<noteq> 0 \<longrightarrow> rq_context r \<le> mo_context m)
     \<and> (rq_quality r \<noteq> 0 \<longrightarrow> rq_quality r \<le> quality_for m (rq_task r))
     \<and> (rq_latency r \<noteq> [] \<longrightarrow> latency_rank (mo_latency m) \<le> latency_rank (rq_latency r))
     \<and> (rq_budget r \<noteq> 0 \<longrightarrow> mo_input_cost m \<le> rq_budget r)"
  by (auto simp: passes_filters_def res_bind_eq_Inr has_capabilities_def list_all_iff)

lemma effective_request_parts:
  assumes "effective_request rules r = (e, matched)"
  shows "\<exists>l req. e = r\<lparr>rq_local_only := l, rq_required := req\<rparr> \<and> (rq_local_only r \<longrightarrow> l) \<and> set (rq_required r) \<subseteq> set req
    \<and> (\<forall>ru \<in> set rules. rule_matches ru r \<longrightarrow> (ru_locality ru = ''local'' \<longrightarrow> l) \<and> set (ru_capabilities ru) \<subseteq> set req)"
proof -
  obtain l req ms where a: "apply_rules rules r (rq_local_only r, rq_required r, []) = (l, req, ms)" by (metis surj_pair)
  with assms have "e = r\<lparr>rq_local_only := l, rq_required := req\<rparr>" by (simp add: effective_request_def)
  with apply_rules_sound [OF a] show ?thesis by blast
qed

lemma select_model_Inr:
  "select_model reg m r matched tried reason = Inr d \<Longrightarrow> de_model d = mo_id m \<and> de_selected d \<and> de_tried d = tried"
  by (auto simp: select_model_def res_bind_eq_Inr)

lemma route_cases:
  assumes "route reg rules r = Inr d" "de_selected d" "wf_registry reg"
  shows "\<exists>m. map_of reg (de_model d) = Some m \<and> mo_id m = de_model d \<and> de_tried d = [de_model d] \<and> passes_filters m r = Inr True
    \<and> (rq_pinned r = [] \<longrightarrow> passes_filters m (fst (effective_request rules r)) = Inr True
        \<and> (\<forall>m' \<in> set (all_models reg). passes_filters m' (fst (effective_request rules r)) = Inr True
             \<longrightarrow> rank_key m (rq_task r) \<le> rank_key m' (rq_task r)))"
proof (cases "rq_pinned r = []")
  case False
  with assms show ?thesis
    by (auto simp: route_def no_decision_def res_bind_eq_Inr wf_registry_key dest!: select_model_Inr
        split: option.splits if_split_asm)
next
  case True
  obtain e matched where e: "effective_request rules r = (e, matched)" by fastforce
  from effective_request_parts [OF e] obtain l req where parts: "e = r\<lparr>rq_local_only := l, rq_required := req\<rparr>"
    "rq_local_only r \<longrightarrow> l" "set (rq_required r) \<subseteq> set req" by blast
  from assms(1) True e obtain ms where ms: "filter_res (\<lambda>m. passes_filters m e) (all_models reg) = Inr ms"
    by (auto simp: route_def res_bind_eq_Inr)
  let ?s = "sort_key (\<lambda>m. rank_key m (rq_task e)) ms"
  from assms(1,2) True e ms obtain x xs where s: "?s = x # xs"
    by (cases ?s) (auto simp: route_def no_decision_def)
  with assms(1) True e ms have d: "de_model d = mo_id x" "de_tried d = [mo_id x]"
    by (auto simp: route_def dest!: select_model_Inr)
  have set: "set ?s = {m \<in> set (all_models reg). passes_filters m e = Inr True}"
    using filter_res_Inr [OF ms] by simp
  with s have x: "x \<in> set (all_models reg)" "passes_filters x e = Inr True" by auto
  have "sorted (map (\<lambda>m. rank_key m (rq_task e)) ?s)" by (rule sorted_sort_key)
  with s have "\<forall>y \<in> set ?s. rank_key x (rq_task e) \<le> rank_key y (rq_task e)" by auto
  with set parts(1) have best: "\<forall>m' \<in> set (all_models reg). passes_filters m' e = Inr True \<longrightarrow> rank_key x (rq_task r) \<le> rank_key m' (rq_task r)"
    by auto
  have "passes_filters x r = Inr True" using x(2) parts by (auto simp: passes_filters_iff)
  with d x best e wf_registry_look [OF assms(3)] show ?thesis by auto
qed

lemma effective_rules:
  assumes "passes_filters m (fst (effective_request rules r)) = Inr True" "ru \<in> set rules" "rule_matches ru r"
  shows "(ru_locality ru = ''local'' \<longrightarrow> mo_locality m = ''local'') \<and> set (ru_capabilities ru) \<subseteq> set (mo_capabilities m)"
proof -
  obtain e matched where e: "effective_request rules r = (e, matched)" by fastforce
  from effective_request_parts [OF e] obtain l req where parts: "e = r\<lparr>rq_local_only := l, rq_required := req\<rparr>"
    "\<forall>ru \<in> set rules. rule_matches ru r \<longrightarrow> (ru_locality ru = ''local'' \<longrightarrow> l) \<and> set (ru_capabilities ru) \<subseteq> set req" by blast
  have "(l \<longrightarrow> mo_locality m = ''local'') \<and> set req \<subseteq> set (mo_capabilities m)"
    using assms(1) parts(1) e by (simp add: passes_filters_iff)
  with parts(2) assms(2,3) show ?thesis by blast
qed

lemma route_first:
  assumes "route reg rules r = Inr d" "de_selected d" "wf_registry reg"
  shows "\<exists>m. map_of reg (de_model d) = Some m \<and> de_tried d = [de_model d] \<and> passes_filters m r = Inr True
    \<and> (\<forall>ru \<in> set rules. rq_pinned r = [] \<and> rule_matches ru r \<and> ru_locality ru = ''local'' \<longrightarrow> mo_locality m = ''local'')"
  using route_cases [OF assms] effective_rules by blast

text \<open>
  C24: Whatever is selected satisfies the policy: the model is registered, available, permitted to receive
  data of the request's classification, local where the request says so, and capable; unless the request names
  a model, every rule that matches is satisfied as well, and no model that satisfies them all ranks before it.
\<close>
theorem routing_sound:
  assumes "route reg rules r = Inr d" "de_selected d" "wf_registry reg"
  shows "\<exists>m. map_of reg (de_model d) = Some m \<and> mo_available m \<and> \<not> mo_rate_limited m
    \<and> (\<exists>a b. classification_rank (rq_class r) = Inr a \<and> classification_rank (mo_max_class m) = Inr b \<and> a \<le> b)
    \<and> (rq_local_only r \<longrightarrow> mo_locality m = ''local'') \<and> set (rq_required r) \<subseteq> set (mo_capabilities m)
    \<and> (rq_pinned r = [] \<longrightarrow>
        (\<forall>ru \<in> set rules. rule_matches ru r \<longrightarrow> (ru_locality ru = ''local'' \<longrightarrow> mo_locality m = ''local'')
            \<and> set (ru_capabilities ru) \<subseteq> set (mo_capabilities m))
        \<and> (\<forall>m' \<in> set (all_models reg). passes_filters m' (fst (effective_request rules r)) = Inr True
             \<longrightarrow> rank_key m (rq_task r) \<le> rank_key m' (rq_task r)))"
proof -
  from route_cases [OF assms] obtain m where m: "map_of reg (de_model d) = Some m" "passes_filters m r = Inr True"
    "rq_pinned r = [] \<longrightarrow> passes_filters m (fst (effective_request rules r)) = Inr True
        \<and> (\<forall>m' \<in> set (all_models reg). passes_filters m' (fst (effective_request rules r)) = Inr True
             \<longrightarrow> rank_key m (rq_task r) \<le> rank_key m' (rq_task r))" by blast
  then have rules: "rq_pinned r = [] \<longrightarrow> (\<forall>ru \<in> set rules. rule_matches ru r \<longrightarrow>
      (ru_locality ru = ''local'' \<longrightarrow> mo_locality m = ''local'') \<and> set (ru_capabilities ru) \<subseteq> set (mo_capabilities m))"
    using effective_rules by blast
  from m(2) have base: "mo_available m" "\<not> mo_rate_limited m" "accepts_class m (rq_class r) = Inr True"
    "rq_local_only r \<longrightarrow> mo_locality m = ''local''" "set (rq_required r) \<subseteq> set (mo_capabilities m)"
    by (simp_all add: passes_filters_iff)
  from base(3) have "\<exists>a b. classification_rank (rq_class r) = Inr a \<and> classification_rank (mo_max_class m) = Inr b \<and> a \<le> b"
    by (auto simp: accepts_class_def res_bind_eq_Inr)
  with m(1,3) rules base(1,2,4,5) show ?thesis by blast
qed

section \<open>Fallbacks\<close>

text \<open>The decisions reached for a request: the first one, and the fallback after each failed inference.\<close>

inductive attempted :: "model_registry \<Rightarrow> routing_rule list \<Rightarrow> routing_request \<Rightarrow> routing_decision \<Rightarrow> bool" for reg rules r where
  first_choice: "route reg rules r = Inr d \<Longrightarrow> de_selected d \<Longrightarrow> attempted reg rules r d"
| after_failure: "attempted reg rules r d \<Longrightarrow> next_model reg d r = Inr d' \<Longrightarrow> de_selected d' \<Longrightarrow> attempted reg rules r d'"

lemma next_model_Inr:
  assumes "next_model reg d r = Inr d'" "de_selected d'" "wf_registry reg"
  shows "rq_fallback r \<and> (\<exists>current m. map_of reg (de_model d) = Some current \<and> replaces reg current r (de_tried d) m
    \<and> de_model d' = mo_id m \<and> de_tried d' = de_tried d @ [mo_id m])"
proof -
  from assms(1,2) obtain current pool where c: "rq_fallback r" "map_of reg (de_model d) = Some current"
    "fallback_pool reg current r (de_tried d) = Inr pool"
    by (auto simp: next_model_def no_decision_def res_bind_eq_Inr split: option.splits if_split_asm)
  from assms(1,2) c obtain k ks where pool: "pool = k # ks" by (cases pool) (auto simp: next_model_def no_decision_def)
  with assms(1) c have d': "de_model d' = k" "de_tried d' = de_tried d @ [k]"
    by (auto simp: next_model_def res_bind_eq_Inr split: option.splits)
  from fallback_pool_Inr(2) [OF c(3) assms(3)] pool obtain m where "replaces reg current r (de_tried d) m" "k = mo_id m" by auto
  with c d' show ?thesis by auto
qed

lemma attempted_path:
  assumes "attempted reg rules r d" "wf_registry reg"
  shows "\<exists>first. distinct (de_tried d) \<and> de_tried d \<noteq> [] \<and> last (de_tried d) = de_model d
        \<and> map_of reg (hd (de_tried d)) = Some first
        \<and> (\<forall>k \<in> set (de_tried d). \<exists>m. map_of reg k = Some m \<and> passes_filters m r = Inr True \<and> mo_locality m = mo_locality first)
        \<and> (\<forall>ru \<in> set rules. rq_pinned r = [] \<and> rule_matches ru r \<and> ru_locality ru = ''local'' \<longrightarrow> mo_locality first = ''local'')"
  (is "\<exists>first. ?good d first")
  using assms(1)
proof (induction rule: attempted.induct)
  case (first_choice d)
  from route_first [OF first_choice assms(2)] obtain m where m: "map_of reg (de_model d) = Some m" "de_tried d = [de_model d]"
    "passes_filters m r = Inr True"
    "\<forall>ru \<in> set rules. rq_pinned r = [] \<and> rule_matches ru r \<and> ru_locality ru = ''local'' \<longrightarrow> mo_locality m = ''local''" by blast
  then show ?case by (intro exI [where x = m]) simp
next
  case (after_failure d d')
  then obtain first where g: "?good d first" by blast
  from next_model_Inr [OF after_failure.hyps(2,3) assms(2)] obtain current m where
    n: "map_of reg (de_model d) = Some current" "replaces reg current r (de_tried d) m"
      "de_model d' = mo_id m" "de_tried d' = de_tried d @ [mo_id m]" by blast
  from g have g': "distinct (de_tried d)" "de_tried d \<noteq> []" "last (de_tried d) = de_model d"
    "map_of reg (hd (de_tried d)) = Some first"
    "\<forall>k \<in> set (de_tried d). \<exists>m. map_of reg k = Some m \<and> passes_filters m r = Inr True \<and> mo_locality m = mo_locality first"
    "\<forall>ru \<in> set rules. rq_pinned r = [] \<and> rule_matches ru r \<and> ru_locality ru = ''local'' \<longrightarrow> mo_locality first = ''local''"
    by simp_all
  from g'(2,3) have "de_model d \<in> set (de_tried d)" by (metis last_in_set)
  with g'(5) n(1) have "mo_locality current = mo_locality first" by (metis option.inject)
  with n(2) have m: "mo_locality m = mo_locality first" "map_of reg (mo_id m) = Some m" "passes_filters m r = Inr True"
    "mo_id m \<notin> set (de_tried d)" by (simp_all add: replaces_def)
  from g' m show ?case unfolding n(3,4) by (intro exI [where x = first]) simp
qed

text \<open>
  C25: A chain of fallbacks is bounded and never leaves the policy: however often inference fails, no
  model is tried twice, so there are at most as many attempts as models; every model tried passes the
  filters of the request and has the locality of the first, which is local whenever a matching rule demands it.
\<close>
theorem fallbacks_bounded:
  assumes "attempted reg rules r d" "wf_registry reg"
  shows "distinct (de_tried d) \<and> length (de_tried d) \<le> length reg \<and> de_tried d \<noteq> [] \<and> last (de_tried d) = de_model d
    \<and> (\<exists>first. map_of reg (hd (de_tried d)) = Some first
        \<and> (\<forall>k \<in> set (de_tried d). \<exists>m. map_of reg k = Some m \<and> passes_filters m r = Inr True \<and> mo_locality m = mo_locality first)
        \<and> (\<forall>ru \<in> set rules. rq_pinned r = [] \<and> rule_matches ru r \<and> ru_locality ru = ''local'' \<longrightarrow> mo_locality first = ''local''))"
proof -
  from attempted_path [OF assms] obtain first where
    g: "distinct (de_tried d)" "de_tried d \<noteq> []" "last (de_tried d) = de_model d" "map_of reg (hd (de_tried d)) = Some first"
      "\<forall>k \<in> set (de_tried d). \<exists>m. map_of reg k = Some m \<and> passes_filters m r = Inr True \<and> mo_locality m = mo_locality first"
      "\<forall>ru \<in> set rules. rq_pinned r = [] \<and> rule_matches ru r \<and> ru_locality ru = ''local'' \<longrightarrow> mo_locality first = ''local''"
    by blast
  have "set (de_tried d) \<subseteq> set (map fst reg)"
  proof
    fix k assume "k \<in> set (de_tried d)"
    with g(5) obtain m where "map_of reg k = Some m" by blast
    then show "k \<in> set (map fst reg)" by (metis map_of_eq_None_iff option.distinct(1) set_map)
  qed
  then have "card (set (de_tried d)) \<le> length reg"
    by (metis List.finite_set card_mono card_length length_map le_trans)
  moreover have "card (set (de_tried d)) = length (de_tried d)" using g by (auto intro: distinct_card)
  ultimately have "length (de_tried d) \<le> length reg" by simp
  with g show ?thesis by blast
qed


text \<open>A pinned model is held to the request alone: the rules are not applied to it.\<close>

definition routing_sample :: "string \<Rightarrow> string \<Rightarrow> string list \<Rightarrow> rat \<Rightarrow> model_spec" where
  "routing_sample i loc caps q = \<lparr>mo_id = i, mo_provider = ''p'', mo_version = 1, mo_capabilities = caps, mo_max_class = ''confidential'',
     mo_locality = loc, mo_context = 8192, mo_input_cost = 0, mo_output_cost = 0, mo_pricing = [], mo_latency = ''standard'',
     mo_quality = [(''planning'', q)], mo_available = True, mo_rate_limited = False, mo_group = ''g''\<rparr>"

definition routing_registry :: model_registry where
  "routing_registry = map (\<lambda>m. (mo_id m, m)) [routing_sample ''a'' ''hosted'' [''chat'', ''structured_output''] 9, routing_sample ''b'' ''hosted'' [''chat''] 8,
     routing_sample ''c'' ''local'' [''chat'', ''structured_output''] 7]"

lemma routing_registry_wf: "wf_registry routing_registry" by code_simp

definition chosen :: "routing_decision res \<Rightarrow> string option" where
  "chosen x = (case x of Inr d \<Rightarrow> if de_selected d then Some (de_model d) else None | Inl e \<Rightarrow> None)"

definition planning_request :: routing_request where
  "planning_request = (plain_request ''planning'')\<lparr>rq_class := ''confidential''\<rparr>"

lemma chosen_Some: "chosen x = Some k \<Longrightarrow> \<exists>d. x = Inr d \<and> de_selected d \<and> de_model d = k"
  by (auto simp: chosen_def split: sum.splits if_split_asm)

lemma planning_choice: "chosen (route routing_registry default_rules planning_request) = Some ''c''"
  by code_simp

lemma pinned_skips_rules:
  "chosen (route routing_registry default_rules planning_request) = Some ''c''
   \<and> chosen (route routing_registry default_rules (planning_request\<lparr>rq_pinned := ''a''\<rparr>)) = Some ''a''"
  by code_simp

text \<open>A fallback is held to the request alone too: a capability that only a rule demands is lost.\<close>

lemma fallback_skips_rules:
  "(case route routing_registry default_rules (plain_request ''planning'') of
      Inr d \<Rightarrow> de_selected d \<and> de_model d = ''a'' \<and> de_candidates d = []
        \<and> chosen (next_model routing_registry d (plain_request ''planning'')) = Some ''b''
    | Inl e \<Rightarrow> False)"
  by code_simp

section \<open>The properties on a concrete registry\<close>

lemma routing_sound_witness:
  "\<exists>d m. route routing_registry default_rules planning_request = Inr d \<and> map_of routing_registry (de_model d) = Some m
     \<and> mo_available m \<and> set (rq_required planning_request) \<subseteq> set (mo_capabilities m)"
proof -
  obtain d where d: "route routing_registry default_rules planning_request = Inr d" "de_selected d"
    using chosen_Some [OF planning_choice] by blast
  from routing_sound [OF d routing_registry_wf] d(1) show ?thesis by blast
qed

lemma fallbacks_bounded_witness:
  "\<exists>d d'. route routing_registry default_rules (plain_request ''planning'') = Inr d
     \<and> next_model routing_registry d (plain_request ''planning'') = Inr d'
     \<and> distinct (de_tried d') \<and> length (de_tried d') \<le> length routing_registry \<and> de_model d' = ''b''"
proof -
  let ?r = "plain_request ''planning''"
  obtain d where d: "route routing_registry default_rules ?r = Inr d" "chosen (next_model routing_registry d ?r) = Some ''b''"
    "de_selected d"
    using fallback_skips_rules by (auto split: sum.splits)
  from chosen_Some [OF d(2)] obtain d' where d': "next_model routing_registry d ?r = Inr d'" "de_selected d'" "de_model d' = ''b''" by blast
  have "attempted routing_registry default_rules ?r d" using d(1,3) by (rule first_choice)
  then have "attempted routing_registry default_rules ?r d'" using d'(1,2) by (rule after_failure)
  from fallbacks_bounded [OF this routing_registry_wf] d(1) d' show ?thesis by blast
qed

section \<open>The live catalogue\<close>

definition live_model :: "model_spec \<Rightarrow> bool" where
  "live_model m \<longleftrightarrow> mo_provider m = ''openrouter'' \<and> mo_locality m = ''hosted'' \<and> mo_max_class m = ''internal'' \<and> mo_available m
     \<and> 1 \<le> mo_context m \<and> mo_id m \<noteq> [] \<and> length (mo_id m) \<le> 256"

lemma catalog_model_live: "catalog_model C e curated = Inr m \<Longrightarrow> live_model m \<and> mo_id m = ''openrouter/'' @ ce_id e"
  by (auto simp: catalog_model_def Let_def res_bind_eq_Inr validate_model_def ensure_def live_model_def split: if_split_asm)

lemma dict_set_new: "map_of d k = None \<Longrightarrow> dict_set k v d = d @ [(k, v)]"
  by (induction d) (auto simp: dict_set_def split: if_split_asm)

lemma catalog_entries_live:
  assumes "catalog_entries C curated vs models skipped = Inr (models', skipped')"
    "wf_registry models" "\<forall>m \<in> set (all_models models). live_model m"
  shows "wf_registry models' \<and> (\<forall>m \<in> set (all_models models'). live_model m)
    \<and> int (length models') + skipped' = int (length models) + skipped + int (length vs)"
  using assms
proof (induction vs arbitrary: models skipped)
  case Nil
  then show ?case by simp
next
  case (Cons v vs)
  let ?x = "res_bind (ca_entry C v) (\<lambda>e. res_bind (catalog_model C e (curated (ce_id e))) (\<lambda>m.
           res_bind (ensure (map_of models (mo_id m) = None) (ValueError ''duplicate model id'')) (\<lambda>_. Inr m)))"
  show ?case
  proof (cases ?x)
    case (Inr m)
    then have m: "live_model m" "map_of models (mo_id m) = None"
      by (auto simp: res_bind_eq_Inr ensure_def dest: catalog_model_live split: if_split_asm)
    have "wf_registry (dict_set (mo_id m) m models)" "\<forall>x \<in> set (all_models (dict_set (mo_id m) m models)). live_model x"
      using m Cons.prems(2,3) by (auto simp: dict_set_new wf_registry_def all_models_def map_of_eq_None_iff)
    with Cons.IH [of "dict_set (mo_id m) m models" skipped] Cons.prems(1) Inr m(2) show ?thesis by (simp add: dict_set_new)
  next
    case (Inl e)
    then show ?thesis using Cons by (cases e) auto
  qed
qed

lemma read_catalog_live:
  assumes "read_catalog C base payload = Inr c"
  shows "(\<forall>m \<in> set (cr_models c). live_model m) \<and> distinct (map mo_id (cr_models c)) \<and> sorted (map mo_id (cr_models c))
    \<and> cr_models c \<noteq> [] \<and> int (length (cr_models c)) + cr_skipped c = cr_total c"
proof -
  from assms obtain vs models skipped where e: "catalog_entries C (curated_models base) vs [] 0 = Inr (models, skipped)"
    and c: "models \<noteq> []" "c = \<lparr>cr_models = sort_key mo_id (all_models models), cr_total = int (length vs), cr_skipped = skipped\<rparr>"
    by (auto simp: read_catalog_def res_bind_eq_Inr split: option.splits jval.splits if_split_asm)
  have l: "wf_registry models" "\<forall>m \<in> set (all_models models). live_model m" "int (length models) + skipped = int (length vs)"
    using catalog_entries_live [OF e] by (auto simp: wf_registry_def all_models_def)
  have "map mo_id (all_models models) = map fst models"
    using l(1) by (auto simp: all_models_def wf_registry_def)
  with l(1) have "distinct (map mo_id (all_models models))" by (simp add: wf_registry_def)
  then have "distinct (map mo_id (sort_key mo_id (all_models models)))"
    by (metis distinct_map distinct_sort set_sort)
  moreover have len: "length (cr_models c) = length models" using c(2) by (simp add: all_models_def)
  moreover from len c(1) have "cr_models c \<noteq> []" by (metis length_0_conv)
  ultimately show ?thesis using l(2,3) c(2) by auto
qed

text \<open>
  The composition of catalogue, registry, router and fallbacks: a model that the live catalogue
  added is never tried, first or as a fallback, for a request whose data is confidential or restricted.
\<close>
theorem live_models_stay_internal:
  assumes "read_catalog C base payload = Inr c" "registry_with_catalog c base = Inr reg"
    "attempted reg rules r d" "k \<in> set (de_tried d)" "map_of reg k = Some m" "m \<in> set (cr_models c)"
  shows "rq_class r \<in> {''public'', ''internal''} \<and> \<not> rq_local_only r"
proof -
  have "wf_registry reg"
    using assms(2) unfolding registry_with_catalog_def by (rule register_models_wf) (simp add: wf_registry_def)
  from attempted_path [OF assms(3) this] assms(4,5) have "passes_filters m r = Inr True" by auto
  moreover have "live_model m" using read_catalog_live [OF assms(1)] assms(6) by blast
  ultimately show ?thesis
    by (auto simp: passes_filters_iff live_model_def accepts_class_def classification_rank_def class_order_def res_bind_eq_Inr
        split: if_split_asm)
qed

definition sample_entry :: catalog_entry where
  "sample_entry = \<lparr>ce_id = ''z'', ce_context = Some 32768, ce_inputs = [''text''], ce_outputs = [''text''],
     ce_prompt = JStr ''0'', ce_completion = JStr ''0'', ce_parameters = [''response_format'']\<rparr>"

definition sample_catalog :: catalog_env where
  "sample_catalog = \<lparr>ca_entry = (\<lambda>v. if v = JNull then Inl (ValueError ''entry'') else Inr sample_entry),
     ca_float = (\<lambda>v. Some (Fin 0)), ca_million = Some\<rparr>"

definition sample_payload :: jval where
  "sample_payload = JDict [(''data'', JList [JNull, JDict [], JDict []])]"

text \<open>One invalid record and one repeated: a single model, two skipped.\<close>

lemma catalog_sample_read:
  "(case read_catalog sample_catalog [] (Some sample_payload) of
      Inr c \<Rightarrow> map mo_id (cr_models c) = [''openrouter/z''] \<and> cr_skipped c = 2 \<and> cr_total c = 3
        \<and> (case registry_with_catalog c [] of
            Inr reg \<Rightarrow> reg = map (\<lambda>m. (mo_id m, m)) (cr_models c)
              \<and> chosen (route reg default_rules (plain_request ''planning'')) = Some ''openrouter/z''
          | Inl e \<Rightarrow> False)
    | Inl e \<Rightarrow> False)"
  by code_simp

lemma live_models_stay_internal_witness:
  "\<exists>c reg d. read_catalog sample_catalog [] (Some sample_payload) = Inr c \<and> registry_with_catalog c [] = Inr reg
     \<and> route reg default_rules (plain_request ''planning'') = Inr d \<and> de_model d = ''openrouter/z''
     \<and> \<not> rq_local_only (plain_request ''planning'')"
proof -
  from catalog_sample_read obtain c reg where c: "read_catalog sample_catalog [] (Some sample_payload) = Inr c"
      "map mo_id (cr_models c) = [''openrouter/z'']" "registry_with_catalog c [] = Inr reg"
      "reg = map (\<lambda>m. (mo_id m, m)) (cr_models c)"
      "chosen (route reg default_rules (plain_request ''planning'')) = Some ''openrouter/z''"
    by (auto split: sum.splits)
  from chosen_Some [OF c(5)] obtain d where d: "route reg default_rules (plain_request ''planning'') = Inr d" "de_selected d"
    "de_model d = ''openrouter/z''" by blast
  from c(2) obtain m where m: "cr_models c = [m]" "mo_id m = ''openrouter/z''" by auto
  have wf: "wf_registry reg" using m c(4) by (simp add: wf_registry_def)
  have tried: "''openrouter/z'' \<in> set (de_tried d)" using route_first [OF d(1,2) wf] d(3) by auto
  from live_models_stay_internal [OF c(1,3) first_choice [OF d(1,2)] tried, of m] m c(4)
  have "\<not> rq_local_only (plain_request ''planning'')" by simp
  with c(1,3) d(1,3) show ?thesis by blast
qed

end
