(* ===== verification/ArtifactStore.thy ===== *)
theory ArtifactStore
  imports PyValue
begin

text \<open>
  The durable memory of \<open>persistence/store.py\<close>: artifacts with an owner, a version and the history of
  their revisions, the knowledge graph of a project, its events, and the export, compression and deletion of
  a project. A table is the list of its rows; the constraints of the schema that the operations can violate,
  primary and foreign keys, raise \<open>IntegrityError\<close>, and \<open>ON DELETE CASCADE\<close> is part of the deletion.

  Times are the ISO texts the code stores and are compared as SQLite compares them, as texts; the
  time of a call and the uuids it draws are arguments, and \<open>utc\<close> is pydantic's reading of an expiry.
\<close>

section \<open>Owners\<close>

record artifact_owner =
  ow_scope :: string
  ow_project :: "string option"
  ow_session :: "string option"
  ow_user :: "string option"

definition artifact_scopes :: "string list" where
  "artifact_scopes = [''project'', ''session'', ''user'', ''global'', ''unscoped'']"

definition set_text :: "string option \<Rightarrow> bool" where
  "set_text v = (case v of None \<Rightarrow> False | Some s \<Rightarrow> s \<noteq> [])"

definition blank_text :: "string option \<Rightarrow> bool" where
  "blank_text v = (case v of None \<Rightarrow> True | Some s \<Rightarrow> strip s = [])"

definition validate_owner :: "artifact_owner \<Rightarrow> artifact_owner res" where
  "validate_owner w =
     res_bind (ensure (ow_scope w \<in> set artifact_scopes) (ValueError ''scope'')) (\<lambda>_.
     res_bind (ensure (\<not> (ow_scope w = ''project'' \<and> blank_text (ow_project w)
         \<or> ow_scope w = ''session'' \<and> blank_text (ow_session w) \<or> ow_scope w = ''user'' \<and> blank_text (ow_user w)))
       (ValueError ''memory scope requires an owner'')) (\<lambda>_.
     res_bind (ensure (\<not> (ow_scope w \<in> {''user'', ''global'', ''unscoped''} \<and> (ow_project w \<noteq> None \<or> ow_session w \<noteq> None)))
       (ValueError ''memory scope has incompatible owners'')) (\<lambda>_.
     res_bind (ensure (\<not> (ow_scope w \<noteq> ''user'' \<and> ow_user w \<noteq> None)) (ValueError ''user_id requires user scope'')) (\<lambda>_.
     res_bind (ensure (\<not> (ow_scope w = ''session'' \<and> ow_project w \<noteq> None))
       (ValueError ''session scope cannot own project memory'')) (\<lambda>_. Inr w)))))"

definition artifact_scope :: "string option \<Rightarrow> string option \<Rightarrow> string option \<Rightarrow> string option \<Rightarrow> artifact_owner res" where
  "artifact_scope scope project session user =
     validate_owner \<lparr>ow_scope = (case scope of Some s \<Rightarrow> if s = [] then
           (if set_text project then ''project'' else if set_text session then ''session'' else if set_text user then ''user''
            else ''unscoped'') else s
         | None \<Rightarrow> if set_text project then ''project'' else if set_text session then ''session'' else if set_text user then ''user''
            else ''unscoped''),
       ow_project = project, ow_session = session, ow_user = user\<rparr>"

section \<open>Contents and revisions\<close>

record artifact_content =
  ct_key :: string
  ct_value :: string
  ct_sensitive :: bool
  ct_expires :: "string option"
  ct_confidence :: "pyfloat option"

definition valid_confidence :: "pyfloat option \<Rightarrow> bool" where
  "valid_confidence c = (case c of None \<Rightarrow> True | Some (Fin q) \<Rightarrow> 0 \<le> q \<and> q \<le> 1 | Some _ \<Rightarrow> False)"

text \<open>\<open>utc\<close> is \<open>None\<close> for a text that is no time or has no zone.\<close>

definition validate_artifact_content :: "(string \<Rightarrow> string option) \<Rightarrow> artifact_content \<Rightarrow> artifact_content res" where
  "validate_artifact_content utc c =
     (let bad = ValueError ''invalid artifact content or retention metadata'' in
      res_bind (ensure (valid_confidence (ct_confidence c)) bad) (\<lambda>_. (case ct_expires c of
          None \<Rightarrow> Inr c
        | Some t \<Rightarrow> (case utc t of None \<Rightarrow> Inl bad | Some t' \<Rightarrow> Inr (c\<lparr>ct_expires := Some t'\<rparr>)))))"

text \<open>A row without its history, and the row.\<close>

record artifact_version =
  av_id :: string
  av_owner :: artifact_owner
  av_type :: string
  av_content :: artifact_content
  av_number :: int
  av_created :: string
  av_updated :: string

record artifact_row = artifact_version +
  ar_history :: "artifact_version list"

text \<open>The keyword arguments of an edit: the fields of the content, and the names of any others.\<close>

record artifact_changes =
  ch_key :: "string option"
  ch_value :: "string option"
  ch_sensitive :: "bool option"
  ch_expires :: "string option option"
  ch_confidence :: "pyfloat option option"
  ch_other :: "string list"

definition changed :: "'a option \<Rightarrow> 'a \<Rightarrow> 'a" where
  "changed c v = (case c of None \<Rightarrow> v | Some x \<Rightarrow> x)"

definition merge_content :: "artifact_changes \<Rightarrow> artifact_content \<Rightarrow> artifact_content" where
  "merge_content ch c = \<lparr>ct_key = changed (ch_key ch) (ct_key c), ct_value = changed (ch_value ch) (ct_value c),
     ct_sensitive = changed (ch_sensitive ch) (ct_sensitive c), ct_expires = changed (ch_expires ch) (ct_expires c),
     ct_confidence = changed (ch_confidence ch) (ct_confidence c)\<rparr>"

definition artifact_revision ::
  "(string \<Rightarrow> string option) \<Rightarrow> string \<Rightarrow> artifact_row \<Rightarrow> artifact_changes \<Rightarrow> artifact_row res" where
  "artifact_revision utc now r ch =
     res_bind (ensure (ch_other ch = []) (ValueError ''invalid artifact content or retention metadata'')) (\<lambda>_.
     res_bind (validate_artifact_content utc (merge_content ch (av_content r))) (\<lambda>c.
     res_bind (ensure (\<not> (ct_sensitive (av_content r) \<and> \<not> ct_sensitive c)) (ValueError ''sensitive artifacts cannot be downgraded'')) (\<lambda>_.
       Inr (r\<lparr>av_content := c, av_number := av_number r + 1, av_updated := now,
         ar_history := ar_history r @ [artifact_version.truncate r]\<rparr>))))"

definition redacted_content :: "artifact_content \<Rightarrow> artifact_content" where
  "redacted_content c = c\<lparr>ct_key := ''[REDACTED]'', ct_value := ''[REDACTED]''\<rparr>"

definition render_version :: "bool \<Rightarrow> artifact_version \<Rightarrow> artifact_version" where
  "render_version show_all v = (if \<not> show_all \<and> ct_sensitive (av_content v) then v\<lparr>av_content := redacted_content (av_content v)\<rparr> else v)"

text \<open>\<open>render_artifact\<close>: the history of a sensitive artifact is sensitive too.\<close>

definition render_artifact :: "bool \<Rightarrow> artifact_row \<Rightarrow> artifact_row" where
  "render_artifact show_all r =
     (if \<not> show_all \<and> ct_sensitive (av_content r)
      then r\<lparr>av_content := redacted_content (av_content r),
        ar_history := map (\<lambda>v. render_version show_all (v\<lparr>av_content := (av_content v)\<lparr>ct_sensitive := True\<rparr>\<rparr>)) (ar_history r)\<rparr>
      else r\<lparr>ar_history := map (render_version show_all) (ar_history r)\<rparr>)"

section \<open>The tables\<close>

record project_row =
  pj_id :: string
  pj_name :: string
  pj_scope :: string
  pj_created :: string

record knowledge_node =
  kn_id :: string
  kn_project :: string
  kn_type :: string
  kn_name :: string
  kn_description :: string
  kn_provenance :: jdict
  kn_created :: string

record knowledge_edge =
  ke_id :: string
  ke_project :: string
  ke_source :: string
  ke_target :: string
  ke_relationship :: string
  ke_provenance :: jdict
  ke_created :: string

record memory_event =
  me_id :: string
  me_project :: string
  me_event :: string
  me_detail :: string
  me_created :: string

record memory_db =
  md_sessions :: "string list"
  md_projects :: "project_row list"
  md_artifacts :: "artifact_row list"
  md_nodes :: "knowledge_node list"
  md_edges :: "knowledge_edge list"
  md_events :: "memory_event list"

definition project_ids :: "memory_db \<Rightarrow> string list" where
  "project_ids d = map pj_id (md_projects d)"

definition foreign_key :: "string option \<Rightarrow> string list \<Rightarrow> bool" where
  "foreign_key v ids = (case v of None \<Rightarrow> True | Some i \<Rightarrow> i \<in> set ids)"

definition foreign_key_failed :: py_error where
  "foreign_key_failed = IntegrityError ''FOREIGN KEY constraint failed''"

definition unique_failed :: "string \<Rightarrow> py_error" where
  "unique_failed column = IntegrityError (''UNIQUE constraint failed: '' @ column)"

definition create_project :: "string \<Rightarrow> string \<Rightarrow> string \<Rightarrow> string \<Rightarrow> memory_db \<Rightarrow> memory_db res" where
  "create_project now pid name scope d =
     (if pid \<in> set (project_ids d) then Inl (unique_failed ''projects.id'')
      else Inr (d\<lparr>md_projects := md_projects d @ [\<lparr>pj_id = pid, pj_name = name, pj_scope = scope, pj_created = now\<rparr>]\<rparr>))"

definition get_project :: "string \<Rightarrow> memory_db \<Rightarrow> project_row option" where
  "get_project pid d = find (\<lambda>p. pj_id p = pid) (md_projects d)"

definition list_projects :: "nat \<Rightarrow> memory_db \<Rightarrow> project_row list" where
  "list_projects limit d = take limit (rev (sort_key pj_created (md_projects d)))"

section \<open>Artifacts\<close>

record artifact_input =
  ai_type :: string
  ai_content :: artifact_content
  ai_scope :: "string option"
  ai_project :: "string option"
  ai_session :: "string option"
  ai_user :: "string option"

definition add_artifact_row ::
  "(string \<Rightarrow> string option) \<Rightarrow> string \<Rightarrow> string \<Rightarrow> artifact_input \<Rightarrow> memory_db \<Rightarrow> memory_db res" where
  "add_artifact_row utc now aid i d =
     res_bind (artifact_scope (ai_scope i) (ai_project i) (ai_session i) (ai_user i)) (\<lambda>w.
     res_bind (validate_artifact_content utc (ai_content i)) (\<lambda>c.
     res_bind (ensure (aid \<notin> set (map av_id (md_artifacts d))) (unique_failed ''artifacts.id'')) (\<lambda>_.
     res_bind (ensure (foreign_key (ow_project w) (project_ids d) \<and> foreign_key (ow_session w) (md_sessions d)) foreign_key_failed) (\<lambda>_.
       Inr (d\<lparr>md_artifacts := md_artifacts d @ [\<lparr>av_id = aid, av_owner = w, av_type = ai_type i, av_content = c,
         av_number = 1, av_created = now, av_updated = now, ar_history = []\<rparr>]\<rparr>)))))"

record artifact_query =
  qu_session :: "string option"
  qu_project :: "string option"
  qu_type :: "string option"
  qu_scope :: "string option"
  qu_user :: "string option"
  qu_id :: "string option"
  qu_expired :: bool

text \<open>\<open>AND column = ?\<close>, which \<open>NULL\<close> never satisfies, for each argument that is given.\<close>

definition where_is :: "string option \<Rightarrow> string option \<Rightarrow> bool" where
  "where_is wanted column = (case wanted of None \<Rightarrow> True | Some s \<Rightarrow> column = Some s)"

definition unexpired :: "string \<Rightarrow> artifact_content \<Rightarrow> bool" where
  "unexpired now c = (case ct_expires c of None \<Rightarrow> True | Some t \<Rightarrow> now < t)"

definition selects :: "string \<Rightarrow> artifact_query \<Rightarrow> artifact_row \<Rightarrow> bool" where
  "selects now q r = (where_is (qu_session q) (ow_session (av_owner r)) \<and> where_is (qu_project q) (ow_project (av_owner r))
     \<and> where_is (qu_type q) (Some (av_type r)) \<and> where_is (qu_scope q) (Some (ow_scope (av_owner r)))
     \<and> where_is (qu_user q) (ow_user (av_owner r)) \<and> where_is (qu_id q) (Some (av_id r))
     \<and> (qu_expired q \<or> unexpired now (av_content r)))"

definition get_artifacts :: "string \<Rightarrow> artifact_query \<Rightarrow> memory_db \<Rightarrow> artifact_row list" where
  "get_artifacts now q d = sort_key av_created (filter (selects now q) (md_artifacts d))"

definition owner_query :: "artifact_owner \<Rightarrow> artifact_query" where
  "owner_query w = \<lparr>qu_session = ow_session w, qu_project = ow_project w, qu_type = None, qu_scope = Some (ow_scope w),
     qu_user = ow_user w, qu_id = None, qu_expired = False\<rparr>"

definition owned_artifact :: "artifact_owner \<Rightarrow> string \<Rightarrow> artifact_query" where
  "owned_artifact w aid = (owner_query w)\<lparr>qu_id := Some aid, qu_expired := True\<rparr>"

text \<open>
  The two halves of \<open>update_artifact\<close>: what is read and computed, and the guarded \<open>UPDATE\<close>, which finds the
  table as it is then.
\<close>

definition prepare_update ::
  "(string \<Rightarrow> string option) \<Rightarrow> string \<Rightarrow> string \<Rightarrow> int \<Rightarrow> artifact_owner \<Rightarrow> artifact_changes \<Rightarrow> memory_db \<Rightarrow> artifact_row res" where
  "prepare_update utc now aid expected owner ch d =
     res_bind (artifact_scope (Some (ow_scope owner)) (ow_project owner) (ow_session owner) (ow_user owner)) (\<lambda>w.
     (case get_artifacts now (owned_artifact w aid) d of
        [] \<Rightarrow> Inl (ValueError ''artifact not found in memory scope'')
      | r # rs \<Rightarrow> if expected \<noteq> av_number r then Inl (ValueError ''artifact version conflict'')
          else artifact_revision utc now r ch))"

definition at_version :: "string \<Rightarrow> int \<Rightarrow> artifact_row \<Rightarrow> bool" where
  "at_version aid n r = (av_id r = aid \<and> av_number r = n)"

definition overwrite :: "artifact_row \<Rightarrow> artifact_row \<Rightarrow> artifact_row" where
  "overwrite u r = r\<lparr>av_content := av_content u, av_number := av_number u, av_updated := av_updated u, ar_history := ar_history u\<rparr>"

definition write_update :: "string \<Rightarrow> int \<Rightarrow> artifact_row \<Rightarrow> memory_db \<Rightarrow> (int \<times> memory_db) res" where
  "write_update aid expected u d =
     (if length (filter (at_version aid expected) (md_artifacts d)) \<noteq> 1 then Inl (ValueError ''artifact version conflict'')
      else Inr (av_number u, d\<lparr>md_artifacts := map (\<lambda>r. if at_version aid expected r then overwrite u r else r) (md_artifacts d)\<rparr>))"

definition update_artifact ::
  "(string \<Rightarrow> string option) \<Rightarrow> string \<Rightarrow> string \<Rightarrow> int \<Rightarrow> artifact_owner \<Rightarrow> artifact_changes \<Rightarrow> memory_db \<Rightarrow> (int \<times> memory_db) res" where
  "update_artifact utc now aid expected owner ch d =
     res_bind (prepare_update utc now aid expected owner ch d) (\<lambda>u. write_update aid expected u d)"

definition delete_artifact :: "string \<Rightarrow> string \<Rightarrow> artifact_owner \<Rightarrow> memory_db \<Rightarrow> (bool \<times> memory_db) res" where
  "delete_artifact now aid owner d =
     res_bind (artifact_scope (Some (ow_scope owner)) (ow_project owner) (ow_session owner) (ow_user owner)) (\<lambda>w.
       if get_artifacts now (owned_artifact w aid) d = [] then Inr (False, d)
       else Inr (length (filter (\<lambda>r. av_id r = aid) (md_artifacts d)) = 1,
         d\<lparr>md_artifacts := filter (\<lambda>r. av_id r \<noteq> aid) (md_artifacts d)\<rparr>))"

section \<open>A project's knowledge, its events and its lifecycle\<close>

definition add_project_knowledge_node ::
  "string \<Rightarrow> string \<Rightarrow> string \<Rightarrow> string \<Rightarrow> string \<Rightarrow> string \<Rightarrow> jdict \<Rightarrow> memory_db \<Rightarrow> memory_db res" where
  "add_project_knowledge_node now nid pid type name description provenance d =
     res_bind (ensure (nid \<notin> set (map kn_id (md_nodes d))) (unique_failed ''project_knowledge_nodes.id'')) (\<lambda>_.
     res_bind (ensure (pid \<in> set (project_ids d)) foreign_key_failed) (\<lambda>_.
       Inr (d\<lparr>md_nodes := md_nodes d @ [\<lparr>kn_id = nid, kn_project = pid, kn_type = type, kn_name = name,
         kn_description = description, kn_provenance = provenance, kn_created = now\<rparr>]\<rparr>)))"

definition add_project_knowledge_edge ::
  "string \<Rightarrow> string \<Rightarrow> string \<Rightarrow> string \<Rightarrow> string \<Rightarrow> string \<Rightarrow> jdict \<Rightarrow> memory_db \<Rightarrow> memory_db res" where
  "add_project_knowledge_edge now eid pid source target relationship provenance d =
     res_bind (ensure (eid \<notin> set (map ke_id (md_edges d))) (unique_failed ''project_knowledge_edges.id'')) (\<lambda>_.
     res_bind (ensure (pid \<in> set (project_ids d) \<and> source \<in> set (map kn_id (md_nodes d)) \<and> target \<in> set (map kn_id (md_nodes d)))
       foreign_key_failed) (\<lambda>_.
       Inr (d\<lparr>md_edges := md_edges d @ [\<lparr>ke_id = eid, ke_project = pid, ke_source = source, ke_target = target,
         ke_relationship = relationship, ke_provenance = provenance, ke_created = now\<rparr>]\<rparr>)))"

text \<open>\<open>str.split()\<close>, and SQLite's \<open>LOWER\<close> and \<open>LIKE\<close>: only ASCII letters are folded, \<open>%\<close> and \<open>_\<close> are wildcards.\<close>

fun split_words :: "string \<Rightarrow> string \<Rightarrow> string list" where
  "split_words w [] = (if w = [] then [] else [w])"
| "split_words w (c # cs) =
     (if is_space c then (if w = [] then split_words [] cs else w # split_words [] cs) else split_words (w @ [c]) cs)"

definition sql_lower_char :: "char \<Rightarrow> char" where
  "sql_lower_char c = (let n = code_point c in if 65 \<le> n \<and> n \<le> 90 then char_of (n + 32) else c)"

fun sql_like :: "string \<Rightarrow> string \<Rightarrow> bool" where
  "sql_like [] s = (s = [])"
| "sql_like (p # ps) [] = (p = CHR ''%'' \<and> sql_like ps [])"
| "sql_like (p # ps) (c # cs) =
     (if p = CHR ''%'' then sql_like ps (c # cs) \<or> sql_like (p # ps) cs
      else (p = CHR ''_'' \<or> sql_lower_char c = sql_lower_char p) \<and> sql_like ps cs)"

definition search_project_knowledge :: "string \<Rightarrow> string \<Rightarrow> memory_db \<Rightarrow> knowledge_node list" where
  "search_project_knowledge pid query d =
     (let ws = split_words [] (lower query) in
      if ws = [] then []
      else take 20 (rev (sort_key kn_created (filter (\<lambda>n. kn_project n = pid
        \<and> list_ex (\<lambda>w. sql_like (''%'' @ w @ ''%'') (map sql_lower_char (kn_name n @ '' '' @ kn_description n))) ws) (md_nodes d)))))"

definition record_memory_event :: "string \<Rightarrow> string \<Rightarrow> string \<Rightarrow> string \<Rightarrow> string \<Rightarrow> memory_db \<Rightarrow> memory_db res" where
  "record_memory_event now eid pid event detail d =
     res_bind (ensure (eid \<notin> set (map me_id (md_events d))) (unique_failed ''memory_events.id'')) (\<lambda>_.
     res_bind (ensure (pid \<in> set (project_ids d)) foreign_key_failed) (\<lambda>_.
       Inr (d\<lparr>md_events := md_events d @ [\<lparr>me_id = eid, me_project = pid, me_event = event, me_detail = detail,
         me_created = now\<rparr>]\<rparr>)))"

definition any_artifact :: artifact_query where
  "any_artifact = \<lparr>qu_session = None, qu_project = None, qu_type = None, qu_scope = None, qu_user = None, qu_id = None,
     qu_expired = False\<rparr>"

record project_export =
  px_project :: project_row
  px_artifacts :: "artifact_row list"
  px_nodes :: "knowledge_node list"
  px_edges :: "knowledge_edge list"

definition export_project :: "string \<Rightarrow> string \<Rightarrow> string \<Rightarrow> bool \<Rightarrow> memory_db \<Rightarrow> (project_export \<times> memory_db) res" where
  "export_project now eid pid show_all d = (case get_project pid d of
     None \<Rightarrow> Inl (ValueError ''unknown project'')
   | Some p \<Rightarrow> res_bind (record_memory_event now eid pid ''export'' (''sensitive='' @ (if show_all then ''true'' else ''false'')) d) (\<lambda>d'.
       Inr (\<lparr>px_project = p, px_artifacts = map (render_artifact show_all) (get_artifacts now (any_artifact\<lparr>qu_project := Some pid\<rparr>) d),
           px_nodes = sort_key kn_created (filter (\<lambda>n. kn_project n = pid) (md_nodes d)),
           px_edges = sort_key ke_created (filter (\<lambda>e. ke_project e = pid) (md_edges d))\<rparr>, d')))"

definition summary_input :: "string \<Rightarrow> string \<Rightarrow> artifact_input" where
  "summary_input pid summary = \<lparr>ai_type = ''memory_summary'',
     ai_content = \<lparr>ct_key = ''project_summary'', ct_value = summary, ct_sensitive = False, ct_expires = None, ct_confidence = None\<rparr>,
     ai_scope = None, ai_project = Some pid, ai_session = None, ai_user = None\<rparr>"

definition compress_project_artifacts ::
  "(string \<Rightarrow> string option) \<Rightarrow> string \<Rightarrow> string \<Rightarrow> string \<Rightarrow> string \<Rightarrow> memory_db \<Rightarrow> (string option \<times> memory_db) res" where
  "compress_project_artifacts utc now aid eid pid d =
     (let rs = get_artifacts now (any_artifact\<lparr>qu_project := Some pid\<rparr>) d in
      if rs = [] then Inr (None, d)
      else res_bind (add_artifact_row utc now aid (summary_input pid
             (show_nat (length rs) @ '' retained artifacts across: '' @ join_with '', '' (sort (remdups (map av_type rs))))) d) (\<lambda>d1.
           res_bind (record_memory_event now eid pid ''compression'' (''source_artifacts='' @ show_nat (length rs)) d1) (\<lambda>d2.
             Inr (Some aid, d2))))"

text \<open>The deletion of a project's row and what its foreign keys take along.\<close>

definition drop_project :: "string \<Rightarrow> memory_db \<Rightarrow> memory_db" where
  "drop_project pid d =
     (let gone = set (map kn_id (filter (\<lambda>n. kn_project n = pid) (md_nodes d))) in
      d\<lparr>md_projects := filter (\<lambda>p. pj_id p \<noteq> pid) (md_projects d),
        md_artifacts := filter (\<lambda>r. ow_project (av_owner r) \<noteq> Some pid) (md_artifacts d),
        md_nodes := filter (\<lambda>n. kn_project n \<noteq> pid) (md_nodes d),
        md_edges := filter (\<lambda>e. ke_project e \<noteq> pid \<and> ke_source e \<notin> gone \<and> ke_target e \<notin> gone) (md_edges d),
        md_events := filter (\<lambda>e. me_project e \<noteq> pid) (md_events d)\<rparr>)"

definition delete_project_memory :: "string \<Rightarrow> string \<Rightarrow> string \<Rightarrow> memory_db \<Rightarrow> (nat \<times> memory_db) res" where
  "delete_project_memory now eid pid d =
     (let n = length (filter (\<lambda>r. ow_project (av_owner r) = Some pid) (md_artifacts d)) in
      res_bind (record_memory_event now eid pid ''deletion_requested'' (''artifact_count='' @ show_nat n) d) (\<lambda>d'.
        Inr (n, drop_project pid d')))"

section \<open>Well-formed memory\<close>

text \<open>
  The invariant: keys are unique, references exist, an owner is one that validates, versions are counted
  from one, the history holds every earlier version in order, and what was sensitive once is sensitive now.
\<close>

definition wf_row :: "artifact_row \<Rightarrow> bool" where
  "wf_row r \<longleftrightarrow> is_ok (validate_owner (av_owner r)) \<and> av_number r = int (length (ar_history r)) + 1
     \<and> map av_number (ar_history r) = map int [1 ..< Suc (length (ar_history r))]
     \<and> list_all (\<lambda>v. av_id v = av_id r \<and> av_owner v = av_owner r
        \<and> (ct_sensitive (av_content v) \<longrightarrow> ct_sensitive (av_content r))) (ar_history r)"

definition wf_memory :: "memory_db \<Rightarrow> bool" where
  "wf_memory d \<longleftrightarrow> distinct (project_ids d) \<and> distinct (map av_id (md_artifacts d)) \<and> distinct (map kn_id (md_nodes d))
     \<and> list_all (\<lambda>r. wf_row r \<and> foreign_key (ow_project (av_owner r)) (project_ids d)) (md_artifacts d)
     \<and> list_all (\<lambda>n. kn_project n \<in> set (project_ids d)) (md_nodes d)
     \<and> list_all (\<lambda>e. ke_project e \<in> set (project_ids d) \<and> ke_source e \<in> set (map kn_id (md_nodes d))
        \<and> ke_target e \<in> set (map kn_id (md_nodes d))) (md_edges d)
     \<and> list_all (\<lambda>e. me_project e \<in> set (project_ids d)) (md_events d)"

definition no_memory :: "string list \<Rightarrow> memory_db" where
  "no_memory sessions = \<lparr>md_sessions = sessions, md_projects = [], md_artifacts = [], md_nodes = [], md_edges = [], md_events = []\<rparr>"

lemma no_memory_wf: "wf_memory (no_memory sessions)"
  by (simp add: wf_memory_def no_memory_def project_ids_def)

lemma validate_owner_id: "validate_owner w = Inr w' \<Longrightarrow> w' = w"
  by (auto simp: validate_owner_def res_bind_eq_Inr)

lemma artifact_scope_valid: "artifact_scope s p ss u = Inr w \<Longrightarrow> is_ok (validate_owner w) \<and> ow_project w = p \<and> ow_session w = ss \<and> ow_user w = u"
  by (auto simp: artifact_scope_def is_ok_iff dest: validate_owner_id)

lemma artifact_revision_Inr:
  assumes "artifact_revision utc now r ch = Inr u"
  shows "\<exists>c. validate_artifact_content utc (merge_content ch (av_content r)) = Inr c
    \<and> u = r\<lparr>av_content := c, av_number := av_number r + 1, av_updated := now, ar_history := ar_history r @ [artifact_version.truncate r]\<rparr>
    \<and> (ct_sensitive (av_content r) \<longrightarrow> ct_sensitive c)"
  using assms by (auto simp: artifact_revision_def res_bind_eq_Inr)

lemma artifact_revision_wf: "artifact_revision utc now r ch = Inr u \<Longrightarrow> wf_row r \<Longrightarrow> wf_row u \<and> av_id u = av_id r \<and> av_owner u = av_owner r"
  by (auto dest!: artifact_revision_Inr simp: wf_row_def artifact_version.defs list_all_iff)

lemma overwrite_revision: "artifact_revision utc now r ch = Inr u \<Longrightarrow> overwrite u r = u"
  by (auto dest!: artifact_revision_Inr simp: overwrite_def)

lemma project_ids_simps [simp]:
  "project_ids (d\<lparr>md_artifacts := a\<rparr>) = project_ids d" "project_ids (d\<lparr>md_nodes := ns\<rparr>) = project_ids d"
  "project_ids (d\<lparr>md_edges := es\<rparr>) = project_ids d" "project_ids (d\<lparr>md_events := vs\<rparr>) = project_ids d"
  by (simp_all add: project_ids_def)

lemma wf_memory_row: "wf_memory d \<Longrightarrow> r \<in> set (md_artifacts d) \<Longrightarrow> wf_row r"
  by (auto simp: wf_memory_def list_all_iff)

lemma unique_row: "distinct (map av_id rs) \<Longrightarrow> r \<in> set rs \<Longrightarrow> filter (\<lambda>x. av_id x = av_id r \<and> P x) rs = (if P r then [r] else [])"
proof (induction rs)
  case Nil
  then show ?case by simp
next
  case (Cons x rs)
  then show ?case by (cases "x = r") (auto simp: image_iff intro!: filter_False)
qed

lemma get_artifacts_mem: "r \<in> set (get_artifacts now q d) \<longleftrightarrow> r \<in> set (md_artifacts d) \<and> selects now q r"
  by (simp add: get_artifacts_def)

text \<open>A lookup by owner and id finds the artifact of that id, if it is the owner's.\<close>

lemma owned_lookup:
  assumes "wf_memory d" "get_artifacts now (owned_artifact w aid) d = r # rs"
  shows "rs = [] \<and> r \<in> set (md_artifacts d) \<and> av_id r = aid"
proof -
  let ?q = "owned_artifact w aid"
  have sub: "selects now ?q x \<Longrightarrow> av_id x = aid" for x
    by (simp add: selects_def owned_artifact_def where_is_def)
  have r: "r \<in> set (md_artifacts d) \<and> selects now ?q r"
    using assms(2) by (metis get_artifacts_mem list.set_intros(1))
  with sub have id: "av_id r = aid" by blast
  have "filter (selects now ?q) (md_artifacts d) = filter (\<lambda>x. av_id x = av_id r \<and> selects now ?q x) (md_artifacts d)"
    using sub id by (metis (no_types, lifting))
  also have "\<dots> = [r]" using unique_row [of "md_artifacts d" r "selects now ?q"] assms(1) r by (simp add: wf_memory_def)
  finally have "filter (selects now ?q) (md_artifacts d) = [r]" .
  with assms(2) r id show ?thesis by (simp add: get_artifacts_def)
qed

lemma owned_lookup_same:
  assumes "wf_memory d" "r \<in> set (md_artifacts d)" "wf_memory d'" "r \<in> set (md_artifacts d')"
    "get_artifacts now (owned_artifact w aid) d = r # rs"
  shows "get_artifacts now (owned_artifact w aid) d' = [r]"
proof -
  let ?q = "owned_artifact w aid"
  have r: "selects now ?q r" using assms(5) by (metis get_artifacts_mem list.set_intros(1))
  have r': "av_id r = aid" using owned_lookup [OF assms(1,5)] by simp
  have "filter (selects now ?q) (md_artifacts d') = filter (\<lambda>x. av_id x = av_id r \<and> selects now ?q x) (md_artifacts d')"
    using r' by (intro filter_cong) (auto simp: selects_def owned_artifact_def where_is_def)
  also have "\<dots> = [r]" using unique_row [of "md_artifacts d'" r "selects now ?q"] assms(3,4) r by (simp add: wf_memory_def)
  finally show ?thesis by (simp add: get_artifacts_def)
qed

lemma write_update_Inr:
  assumes "write_update aid n u d = Inr (m, d')" "wf_memory d"
  shows "\<exists>r. r \<in> set (md_artifacts d) \<and> av_id r = aid \<and> av_number r = n \<and> m = av_number u
    \<and> d' = d\<lparr>md_artifacts := map (\<lambda>x. if x = r then overwrite u x else x) (md_artifacts d)\<rparr>"
proof -
  from assms(1) obtain r where f: "filter (at_version aid n) (md_artifacts d) = [r]"
    by (auto simp: write_update_def length_Suc_conv split: if_split_asm)
  then have r: "r \<in> set (md_artifacts d)" "at_version aid n r" by (auto simp: filter_eq_Cons_iff)
  have "at_version aid n x \<longleftrightarrow> x = r" if "x \<in> set (md_artifacts d)" for x
  proof -
    have "at_version aid n x \<longleftrightarrow> x \<in> set (filter (at_version aid n) (md_artifacts d))" using that by simp
    then show ?thesis unfolding f by simp
  qed
  then have m: "map (\<lambda>x. if at_version aid n x then overwrite u x else x) (md_artifacts d)
      = map (\<lambda>x. if x = r then overwrite u x else x) (md_artifacts d)" by simp
  from assms(1) f have "d' = d\<lparr>md_artifacts := map (\<lambda>x. if at_version aid n x then overwrite u x else x) (md_artifacts d)\<rparr>"
    "m = av_number u" by (simp_all add: write_update_def)
  then show ?thesis unfolding m using r unfolding at_version_def by blast
qed

lemma prepare_update_Inr:
  assumes "prepare_update utc now aid n owner ch d = Inr u"
  shows "\<exists>w r rs. artifact_scope (Some (ow_scope owner)) (ow_project owner) (ow_session owner) (ow_user owner) = Inr w
    \<and> get_artifacts now (owned_artifact w aid) d = r # rs \<and> n = av_number r \<and> artifact_revision utc now r ch = Inr u"
proof -
  from assms obtain w where w: "artifact_scope (Some (ow_scope owner)) (ow_project owner) (ow_session owner) (ow_user owner) = Inr w"
    by (auto simp: prepare_update_def res_bind_eq_Inr)
  with assms show ?thesis
    by (cases "get_artifacts now (owned_artifact w aid) d") (auto simp: prepare_update_def split: if_split_asm)
qed

lemma update_artifact_Inr:
  assumes "update_artifact utc now aid n owner ch d = Inr (m, d')" "wf_memory d"
  shows "\<exists>r u. r \<in> set (md_artifacts d) \<and> av_id r = aid \<and> av_number r = n \<and> artifact_revision utc now r ch = Inr u
    \<and> m = n + 1 \<and> d' = d\<lparr>md_artifacts := map (\<lambda>x. if x = r then u else x) (md_artifacts d)\<rparr>"
proof -
  from assms(1) obtain u where u: "prepare_update utc now aid n owner ch d = Inr u" "write_update aid n u d = Inr (m, d')"
    by (auto simp: update_artifact_def res_bind_eq_Inr)
  from prepare_update_Inr [OF u(1)] u(2) obtain w r rs where p: "get_artifacts now (owned_artifact w aid) d = r # rs" "n = av_number r"
    "artifact_revision utc now r ch = Inr u" "write_update aid n u d = Inr (m, d')" by blast
  from owned_lookup [OF assms(2) p(1)] have r: "r \<in> set (md_artifacts d)" "av_id r = aid" by auto
  from write_update_Inr [OF p(4) assms(2)] obtain r' where r': "r' \<in> set (md_artifacts d)" "av_id r' = aid" "m = av_number u"
    "d' = d\<lparr>md_artifacts := map (\<lambda>x. if x = r' then overwrite u x else x) (md_artifacts d)\<rparr>" by auto
  have "r' = r" using r r' assms(2) by (auto simp: wf_memory_def distinct_map inj_on_def)
  moreover have "av_number u = n + 1" using artifact_revision_Inr [OF p(3)] p(2) by auto
  moreover have "(\<lambda>x. if x = r then overwrite u x else x) = (\<lambda>x. if x = r then u else x)"
    using overwrite_revision [OF p(3)] by auto
  ultimately show ?thesis using r r' p(2,3) by auto
qed

section \<open>Every operation keeps the invariant\<close>

lemma first_row_wf: "ar_history r = [] \<Longrightarrow> av_number r = 1 \<Longrightarrow> is_ok (validate_owner (av_owner r)) \<Longrightarrow> wf_row r"
  by (simp add: wf_row_def)

lemma add_artifact_Inr:
  assumes "add_artifact_row utc now aid i d = Inr d'"
  shows "\<exists>r. wf_row r \<and> av_id r = aid \<and> aid \<notin> set (map av_id (md_artifacts d))
    \<and> foreign_key (ow_project (av_owner r)) (project_ids d) \<and> d' = d\<lparr>md_artifacts := md_artifacts d @ [r]\<rparr>"
proof -
  from assms obtain w c where w: "artifact_scope (ai_scope i) (ai_project i) (ai_session i) (ai_user i) = Inr w"
    "aid \<notin> set (map av_id (md_artifacts d))" "foreign_key (ow_project w) (project_ids d)"
    "d' = d\<lparr>md_artifacts := md_artifacts d @ [\<lparr>av_id = aid, av_owner = w, av_type = ai_type i, av_content = c,
       av_number = 1, av_created = now, av_updated = now, ar_history = []\<rparr>]\<rparr>"
    by (auto simp: add_artifact_row_def res_bind_eq_Inr)
  with artifact_scope_valid [OF w(1)] show ?thesis
    by (intro exI [where x = "\<lparr>av_id = aid, av_owner = w, av_type = ai_type i, av_content = c,
       av_number = 1, av_created = now, av_updated = now, ar_history = []\<rparr>"]) (simp add: first_row_wf)
qed

lemma add_artifact_wf: "add_artifact_row utc now aid i d = Inr d' \<Longrightarrow> wf_memory d \<Longrightarrow> wf_memory d'"
  by (drule add_artifact_Inr) (auto simp: wf_memory_def list_all_iff)

lemma create_project_wf: "create_project now pid name scope d = Inr d' \<Longrightarrow> wf_memory d \<Longrightarrow> wf_memory d'"
  by (auto simp: create_project_def wf_memory_def list_all_iff project_ids_def foreign_key_def split: if_split_asm option.splits)

lemma add_node_wf: "add_project_knowledge_node now nid pid t n ds pr d = Inr d' \<Longrightarrow> wf_memory d \<Longrightarrow> wf_memory d'"
  by (auto simp: add_project_knowledge_node_def res_bind_eq_Inr wf_memory_def list_all_iff)

lemma add_edge_wf: "add_project_knowledge_edge now eid pid s t rel pr d = Inr d' \<Longrightarrow> wf_memory d \<Longrightarrow> wf_memory d'"
  by (auto simp: add_project_knowledge_edge_def res_bind_eq_Inr wf_memory_def list_all_iff)

lemma record_memory_event_wf: "record_memory_event now eid pid e t d = Inr d' \<Longrightarrow> wf_memory d \<Longrightarrow> wf_memory d'"
  by (auto simp: record_memory_event_def res_bind_eq_Inr wf_memory_def list_all_iff)

lemma delete_artifact_wf: "delete_artifact now aid owner d = Inr (b, d') \<Longrightarrow> wf_memory d \<Longrightarrow> wf_memory d'"
  by (auto simp: delete_artifact_def res_bind_eq_Inr wf_memory_def list_all_iff distinct_map_filter split: if_split_asm)

lemma drop_project_wf:
  assumes "wf_memory d"
  shows "wf_memory (drop_project pid d)"
proof -
  let ?d = "drop_project pid d"
  have ids: "set (project_ids ?d) = set (project_ids d) - {pid}"
    "set (map kn_id (md_nodes ?d)) \<supseteq> set (map kn_id (md_nodes d)) - kn_id ` {n \<in> set (md_nodes d). kn_project n = pid}"
    by (auto simp: drop_project_def Let_def project_ids_def)
  have dist: "distinct (project_ids ?d)" "distinct (map av_id (md_artifacts ?d))" "distinct (map kn_id (md_nodes ?d))"
    using assms by (simp_all add: wf_memory_def drop_project_def Let_def project_ids_def distinct_map_filter)
  have rows: "list_all (\<lambda>r. wf_row r \<and> foreign_key (ow_project (av_owner r)) (project_ids ?d)) (md_artifacts ?d)"
    "list_all (\<lambda>n. kn_project n \<in> set (project_ids ?d)) (md_nodes ?d)"
    "list_all (\<lambda>e. me_project e \<in> set (project_ids ?d)) (md_events ?d)"
    using assms ids(1) by (auto simp: wf_memory_def drop_project_def Let_def list_all_iff foreign_key_def split: option.splits)
  have "ke_project e \<in> set (project_ids ?d) \<and> ke_source e \<in> set (map kn_id (md_nodes ?d)) \<and> ke_target e \<in> set (map kn_id (md_nodes ?d))"
    if "e \<in> set (md_edges ?d)" for e
  proof -
    from that have e: "e \<in> set (md_edges d)" "ke_project e \<noteq> pid"
      "ke_source e \<notin> kn_id ` {n \<in> set (md_nodes d). kn_project n = pid}"
      "ke_target e \<notin> kn_id ` {n \<in> set (md_nodes d). kn_project n = pid}"
      by (auto simp: drop_project_def Let_def)
    with assms have "ke_project e \<in> set (project_ids d)" "ke_source e \<in> set (map kn_id (md_nodes d))"
      "ke_target e \<in> set (map kn_id (md_nodes d))" by (auto simp: wf_memory_def list_all_iff)
    with e ids show ?thesis by blast
  qed
  then have "list_all (\<lambda>e. ke_project e \<in> set (project_ids ?d) \<and> ke_source e \<in> set (map kn_id (md_nodes ?d))
      \<and> ke_target e \<in> set (map kn_id (md_nodes ?d))) (md_edges ?d)" unfolding list_all_iff by blast
  with dist rows show ?thesis unfolding wf_memory_def by blast
qed

lemma update_artifact_wf:
  assumes "update_artifact utc now aid n owner ch d = Inr (m, d')" "wf_memory d"
  shows "wf_memory d'"
proof -
  from update_artifact_Inr [OF assms] obtain r u where r: "r \<in> set (md_artifacts d)" "artifact_revision utc now r ch = Inr u"
    "d' = d\<lparr>md_artifacts := map (\<lambda>x. if x = r then u else x) (md_artifacts d)\<rparr>" by blast
  have u: "wf_row u" "av_id u = av_id r" "av_owner u = av_owner r"
    using artifact_revision_wf [OF r(2) wf_memory_row [OF assms(2) r(1)]] by auto
  have ids: "map av_id (md_artifacts d') = map av_id (md_artifacts d)" using r(3) u(2) by simp
  have same: "project_ids d' = project_ids d" "md_nodes d' = md_nodes d" "md_edges d' = md_edges d" "md_events d' = md_events d"
    using r(3) by simp_all
  have rows: "\<forall>x \<in> set (md_artifacts d'). wf_row x \<and> foreign_key (ow_project (av_owner x)) (project_ids d)"
    using assms(2) r(1,3) u by (auto simp: wf_memory_def list_all_iff)
  show ?thesis using assms(2) rows unfolding wf_memory_def ids same list_all_iff by blast
qed

section \<open>Concurrent use\<close>

text \<open>
  One step of any client of the database, with the ids ever issued: a uuid that is drawn is fresh.
\<close>

inductive memory_step ::
  "(string \<Rightarrow> string option) \<Rightarrow> string set \<times> memory_db \<Rightarrow> string set \<times> memory_db \<Rightarrow> bool" for utc where
  step_project: "create_project now pid name scope d = Inr d' \<Longrightarrow> memory_step utc (used, d) (used, d')"
| step_add: "aid \<notin> used \<Longrightarrow> add_artifact_row utc now aid i d = Inr d' \<Longrightarrow> memory_step utc (used, d) (insert aid used, d')"
| step_update: "update_artifact utc now aid n owner ch d = Inr (m, d') \<Longrightarrow> memory_step utc (used, d) (used, d')"
| step_delete: "delete_artifact now aid owner d = Inr (b, d') \<Longrightarrow> memory_step utc (used, d) (used, d')"
| step_node: "add_project_knowledge_node now nid pid t nm ds pr d = Inr d' \<Longrightarrow> memory_step utc (used, d) (used, d')"
| step_edge: "add_project_knowledge_edge now eid pid src tgt rel pr d = Inr d' \<Longrightarrow> memory_step utc (used, d) (used, d')"
| step_event: "record_memory_event now eid pid ev det d = Inr d' \<Longrightarrow> memory_step utc (used, d) (used, d')"
| step_export: "export_project now eid pid show_all d = Inr (x, d') \<Longrightarrow> memory_step utc (used, d) (used, d')"
| step_compress: "aid \<notin> used \<Longrightarrow> compress_project_artifacts utc now aid eid pid d = Inr (a, d')
    \<Longrightarrow> memory_step utc (used, d) (insert aid used, d')"
| step_forget: "delete_project_memory now eid pid d = Inr (k, d') \<Longrightarrow> memory_step utc (used, d) (used, d')"

text \<open>What a step may do to the rows: add one under an unused id, replace one by a later version, or remove some.\<close>

definition later_rows :: "string set \<Rightarrow> memory_db \<Rightarrow> string set \<Rightarrow> memory_db \<Rightarrow> bool" where
  "later_rows used d used' d' \<longleftrightarrow> used \<subseteq> used' \<and> (\<forall>r' \<in> set (md_artifacts d').
     av_id r' \<in> used' - used \<or> (\<exists>r \<in> set (md_artifacts d). av_id r' = av_id r \<and> av_owner r' = av_owner r
       \<and> (r' = r \<or> av_number r < av_number r') \<and> (ct_sensitive (av_content r) \<longrightarrow> ct_sensitive (av_content r'))))"

lemma later_rows_subset: "used \<subseteq> used' \<Longrightarrow> set (md_artifacts d') \<subseteq> set (md_artifacts d) \<Longrightarrow> later_rows used d used' d'"
  by (auto simp: later_rows_def)

lemma record_memory_event_rows: "record_memory_event now eid pid e t d = Inr d' \<Longrightarrow> md_artifacts d' = md_artifacts d"
  by (auto simp: record_memory_event_def res_bind_eq_Inr)

lemma add_artifact_rows:
  assumes "add_artifact_row utc now aid i d = Inr d'" "aid \<notin> used"
  shows "later_rows used d (insert aid used) d'"
proof -
  from add_artifact_Inr [OF assms(1)] obtain r where "av_id r = aid" "d' = d\<lparr>md_artifacts := md_artifacts d @ [r]\<rparr>" by blast
  with assms(2) show ?thesis by (auto simp: later_rows_def)
qed

lemma update_artifact_rows:
  assumes "update_artifact utc now aid n owner ch d = Inr (m, d')" "wf_memory d"
  shows "later_rows used d used d'"
proof -
  from update_artifact_Inr [OF assms] obtain r u where r: "r \<in> set (md_artifacts d)" "artifact_revision utc now r ch = Inr u"
    "d' = d\<lparr>md_artifacts := map (\<lambda>x. if x = r then u else x) (md_artifacts d)\<rparr>" by blast
  from artifact_revision_Inr [OF r(2)] obtain c where u: "av_id u = av_id r" "av_owner u = av_owner r" "av_number r < av_number u"
    "ct_sensitive (av_content r) \<longrightarrow> ct_sensitive (av_content u)" by auto
  show ?thesis unfolding later_rows_def
  proof (intro conjI ballI)
    fix r' assume "r' \<in> set (md_artifacts d')"
    then obtain x where x: "x \<in> set (md_artifacts d)" "r' = (if x = r then u else x)" unfolding r(3) by auto
    then have "av_id r' = av_id x \<and> av_owner r' = av_owner x \<and> (r' = x \<or> av_number x < av_number r')
      \<and> (ct_sensitive (av_content x) \<longrightarrow> ct_sensitive (av_content r'))" using u by simp
    with x(1) show "av_id r' \<in> used - used \<or> (\<exists>r \<in> set (md_artifacts d). av_id r' = av_id r \<and> av_owner r' = av_owner r
       \<and> (r' = r \<or> av_number r < av_number r') \<and> (ct_sensitive (av_content r) \<longrightarrow> ct_sensitive (av_content r')))" by blast
  qed simp
qed

lemma compress_Inr:
  assumes "compress_project_artifacts utc now aid eid pid d = Inr (a, d')"
  shows "d' = d \<or> (\<exists>d1 i e t. add_artifact_row utc now aid i d = Inr d1 \<and> record_memory_event now eid pid e t d1 = Inr d')"
  using assms by (auto simp: compress_project_artifacts_def Let_def res_bind_eq_Inr split: if_split_asm)

lemma export_project_Inr:
  assumes "export_project now eid pid show_all d = Inr (x, d')"
  shows "\<exists>e t. record_memory_event now eid pid e t d = Inr d'"
  using assms by (auto simp: export_project_def res_bind_eq_Inr split: option.splits)

lemma delete_project_memory_Inr:
  assumes "delete_project_memory now eid pid d = Inr (k, d')"
  shows "\<exists>e t d1. record_memory_event now eid pid e t d = Inr d1 \<and> d' = drop_project pid d1"
  using assms by (auto simp: delete_project_memory_def Let_def res_bind_eq_Inr)

lemma event_step: "record_memory_event now eid pid e t d = Inr d' \<Longrightarrow> wf_memory d \<Longrightarrow> wf_memory d' \<and> later_rows used d used d'"
  using record_memory_event_wf record_memory_event_rows by (metis later_rows_subset order_refl)

lemma add_step:
  "add_artifact_row utc now aid i d = Inr d' \<Longrightarrow> aid \<notin> used \<Longrightarrow> wf_memory d \<Longrightarrow> wf_memory d' \<and> later_rows used d (insert aid used) d'"
  using add_artifact_wf add_artifact_rows by blast

lemma compress_step:
  assumes "compress_project_artifacts utc now aid eid pid d = Inr (a, d')" "aid \<notin> used" "wf_memory d"
  shows "wf_memory d' \<and> later_rows used d (insert aid used) d'"
proof -
  from compress_Inr [OF assms(1)] consider "d' = d"
    | d1 i e t where "add_artifact_row utc now aid i d = Inr d1" "record_memory_event now eid pid e t d1 = Inr d'" by blast
  then show ?thesis
  proof cases
    case 1
    then show ?thesis using assms(3) by (auto intro!: later_rows_subset)
  next
    case 2
    from add_step [OF 2(1) assms(2,3)] event_step [OF 2(2)] record_memory_event_rows [OF 2(2)]
    show ?thesis by (simp add: later_rows_def)
  qed
qed

lemma delete_project_step:
  assumes "delete_project_memory now eid pid d = Inr (k, d')" "wf_memory d"
  shows "wf_memory d' \<and> later_rows used d used d'"
proof -
  from delete_project_memory_Inr [OF assms(1)] obtain e t d1 where d1: "record_memory_event now eid pid e t d = Inr d1"
    "d' = drop_project pid d1" by blast
  then have "wf_memory d'" using record_memory_event_wf [OF d1(1) assms(2)] drop_project_wf by simp
  moreover have "set (md_artifacts d') \<subseteq> set (md_artifacts d)"
    using d1(2) record_memory_event_rows [OF d1(1)] by (auto simp: drop_project_def Let_def)
  ultimately show ?thesis by (simp add: later_rows_subset)
qed

lemma memory_step_rows:
  assumes "memory_step utc (used, d) (used', d')" "wf_memory d"
  shows "wf_memory d' \<and> later_rows used d used' d'"
  using assms(1)
proof (cases rule: memory_step.cases)
  case step_project
  then show ?thesis using create_project_wf assms(2) by (auto simp: create_project_def split: if_split_asm intro!: later_rows_subset)
next
  case step_add
  then show ?thesis using add_step assms(2) by auto
next
  case step_update
  then show ?thesis using update_artifact_wf update_artifact_rows assms(2) by auto
next
  case step_delete
  then show ?thesis using delete_artifact_wf assms(2)
    by (auto simp: delete_artifact_def res_bind_eq_Inr split: if_split_asm intro!: later_rows_subset)
next
  case step_node
  then show ?thesis using add_node_wf assms(2) by (auto simp: add_project_knowledge_node_def res_bind_eq_Inr intro!: later_rows_subset)
next
  case step_edge
  then show ?thesis using add_edge_wf assms(2) by (auto simp: add_project_knowledge_edge_def res_bind_eq_Inr intro!: later_rows_subset)
next
  case step_event
  then show ?thesis using event_step assms(2) by auto
next
  case step_export
  then show ?thesis using event_step export_project_Inr assms(2) by (metis prod.inject)
next
  case step_compress
  then show ?thesis using compress_step assms(2) by auto
next
  case step_forget
  then show ?thesis using delete_project_step assms(2) by auto
qed

abbreviation memory_run :: "(string \<Rightarrow> string option) \<Rightarrow> string set \<times> memory_db \<Rightarrow> string set \<times> memory_db \<Rightarrow> bool" where
  "memory_run utc \<equiv> (memory_step utc)\<^sup>*\<^sup>*"

lemma later_rows_trans:
  assumes "later_rows u0 d0 u1 d1" "later_rows u1 d1 u2 d2"
  shows "later_rows u0 d0 u2 d2"
  unfolding later_rows_def
proof (intro conjI ballI)
  show "u0 \<subseteq> u2" using assms by (auto simp: later_rows_def)
  fix r2 assume r2: "r2 \<in> set (md_artifacts d2)"
  show "av_id r2 \<in> u2 - u0 \<or> (\<exists>r \<in> set (md_artifacts d0). av_id r2 = av_id r \<and> av_owner r2 = av_owner r
       \<and> (r2 = r \<or> av_number r < av_number r2) \<and> (ct_sensitive (av_content r) \<longrightarrow> ct_sensitive (av_content r2)))"
  proof (cases "av_id r2 \<in> u2 - u1")
    case True
    then show ?thesis using assms(1) by (auto simp: later_rows_def)
  next
    case False
    then obtain r1 where r1: "r1 \<in> set (md_artifacts d1)" "av_id r2 = av_id r1" "av_owner r2 = av_owner r1"
      "r2 = r1 \<or> av_number r1 < av_number r2" "ct_sensitive (av_content r1) \<longrightarrow> ct_sensitive (av_content r2)"
      using assms(2) r2 unfolding later_rows_def by blast
    from assms(1) r1(1) consider "av_id r1 \<in> u1 - u0"
      | r where "r \<in> set (md_artifacts d0)" "av_id r1 = av_id r" "av_owner r1 = av_owner r" "r1 = r \<or> av_number r < av_number r1"
        "ct_sensitive (av_content r) \<longrightarrow> ct_sensitive (av_content r1)"
      unfolding later_rows_def by blast
    then show ?thesis
    proof cases
      case 1
      then show ?thesis using assms(2) r1(2) by (auto simp: later_rows_def)
    next
      case 2
      with r1 show ?thesis by (metis less_trans)
    qed
  qed
qed

lemma memory_run_rows:
  assumes "memory_run utc (used, d) (used', d')" "wf_memory d"
  shows "wf_memory d' \<and> later_rows used d used' d'"
proof -
  have "wf_memory (snd s) \<and> later_rows used d (fst s) (snd s)" if "memory_run utc (used, d) s" for s
    using that
  proof (induction rule: rtranclp_induct)
    case base
    then show ?case using assms(2) by (simp add: later_rows_subset)
  next
    case (step s t)
    from step.hyps(2) have "memory_step utc (fst s, snd s) (fst t, snd t)" by simp
    from memory_step_rows [OF this] step.IH later_rows_trans show ?case by blast
  qed
  from this [OF assms(1)] show ?thesis by simp
qed

text \<open>
  C29: No update is lost. An update reads, computes and then writes, and other clients may do anything in between:
  the write either raises a version conflict and changes nothing, or has exactly the effect of an update
  that ran as a whole at the moment of the write.
\<close>
theorem update_is_atomic:
  assumes "prepare_update utc now aid n owner ch d = Inr u" "wf_memory d" "set (map av_id (md_artifacts d)) \<subseteq> used"
    "memory_run utc (used, d) (used', d')"
  shows "write_update aid n u d' = Inl (ValueError ''artifact version conflict'')
    \<or> write_update aid n u d' = update_artifact utc now aid n owner ch d'"
proof (cases "write_update aid n u d'")
  case (Inl e)
  then show ?thesis by (auto simp: write_update_def split: if_split_asm)
next
  case (Inr x)
  obtain m d'' where x: "x = (m, d'')" by (cases x)
  from prepare_update_Inr [OF assms(1)] obtain w r rs where
    p: "artifact_scope (Some (ow_scope owner)) (ow_project owner) (ow_session owner) (ow_user owner) = Inr w"
      "get_artifacts now (owned_artifact w aid) d = r # rs" "n = av_number r" "artifact_revision utc now r ch = Inr u" by blast
  from owned_lookup [OF assms(2) p(2)] have r: "r \<in> set (md_artifacts d)" "av_id r = aid" by auto
  from memory_run_rows [OF assms(4,2)] have run: "wf_memory d'" "later_rows used d used' d'" by auto
  from write_update_Inr [OF _ run(1)] Inr x obtain r' where r': "r' \<in> set (md_artifacts d')" "av_id r' = aid" "av_number r' = n" by blast
  have "aid \<in> used" using r assms(3) by auto
  with run(2) r' obtain r0 where r0: "r0 \<in> set (md_artifacts d)" "av_id r' = av_id r0" "r' = r0 \<or> av_number r0 < av_number r'"
    unfolding later_rows_def by blast
  then have "r0 = r" using r r'(2) assms(2) by (auto simp: wf_memory_def distinct_map inj_on_def)
  with r0 r'(3) p(3) have "r' = r" by auto
  with owned_lookup_same [OF assms(2) r(1) run(1) _ p(2)] r'(1) have "get_artifacts now (owned_artifact w aid) d' = [r]" by simp
  with p have "prepare_update utc now aid n owner ch d' = Inr u" by (simp add: prepare_update_def)
  then show ?thesis by (simp add: update_artifact_def)
qed

section \<open>Export and deletion\<close>

lemma render_plain:
  assumes "wf_row r" "\<not> ct_sensitive (av_content r)"
  shows "render_artifact show_all r = r"
proof -
  have "map (render_version show_all) (ar_history r) = map (\<lambda>v. v) (ar_history r)"
    using assms by (intro map_cong) (auto simp: wf_row_def list_all_iff render_version_def)
  then show ?thesis using assms(2) by (simp add: render_artifact_def)
qed

definition hidden_version :: "artifact_version \<Rightarrow> bool" where
  "hidden_version v \<longleftrightarrow> ct_sensitive (av_content v) \<and> ct_key (av_content v) = ''[REDACTED]'' \<and> ct_value (av_content v) = ''[REDACTED]''"

lemma render_hidden:
  assumes "ct_sensitive (av_content r)"
  shows "list_all hidden_version (artifact_version.truncate (render_artifact False r) # ar_history (render_artifact False r))
    \<and> av_id (render_artifact False r) = av_id r \<and> av_owner (render_artifact False r) = av_owner r"
  using assms by (simp add: render_artifact_def render_version_def redacted_content_def hidden_version_def artifact_version.defs list_all_iff)

text \<open>
  C30: An export without sensitive data contains exactly the project's live artifacts: one that is not
  sensitive as it is with its history, one that is sensitive with its key and value masked in every version,
  also in those written before it became sensitive.
\<close>
theorem export_redacts:
  assumes "export_project now eid pid False d = Inr (x, d')" "wf_memory d"
  shows "md_artifacts d' = md_artifacts d
    \<and> map av_id (px_artifacts x) = map av_id (sort_key av_created
        (filter (\<lambda>r. ow_project (av_owner r) = Some pid \<and> unexpired now (av_content r)) (md_artifacts d)))
    \<and> (\<forall>r \<in> set (px_artifacts x). \<exists>r0 \<in> set (md_artifacts d). av_id r0 = av_id r \<and> ow_project (av_owner r0) = Some pid
        \<and> (if ct_sensitive (av_content r0) then list_all hidden_version (artifact_version.truncate r # ar_history r) else r = r0))"
proof -
  let ?q = "any_artifact\<lparr>qu_project := Some pid\<rparr>"
  from assms(1) have x: "px_artifacts x = map (render_artifact False) (get_artifacts now ?q d)"
    by (auto simp: export_project_def res_bind_eq_Inr split: option.splits)
  have sel: "selects now ?q = (\<lambda>r. ow_project (av_owner r) = Some pid \<and> unexpired now (av_content r))"
    by (simp add: selects_def any_artifact_def where_is_def fun_eq_iff)
  have ids: "av_id (render_artifact show_all r) = av_id r" for show_all r
    by (simp add: render_artifact_def)
  have "\<exists>r0 \<in> set (md_artifacts d). av_id r0 = av_id r \<and> ow_project (av_owner r0) = Some pid
        \<and> (if ct_sensitive (av_content r0) then list_all hidden_version (artifact_version.truncate r # ar_history r) else r = r0)"
    if "r \<in> set (px_artifacts x)" for r
  proof -
    from that x obtain r0 where r0: "r = render_artifact False r0" "r0 \<in> set (md_artifacts d)" "ow_project (av_owner r0) = Some pid"
      by (auto simp: get_artifacts_mem sel)
    with render_plain [OF wf_memory_row [OF assms(2) r0(2)]] render_hidden [of r0] ids show ?thesis
      by (intro bexI [OF _ r0(2)]) simp
  qed
  moreover from export_project_Inr [OF assms(1)] have "md_artifacts d' = md_artifacts d" using record_memory_event_rows by blast
  moreover have "map av_id (px_artifacts x) = map av_id (get_artifacts now ?q d)" by (simp add: x ids)
  ultimately show ?thesis by (simp add: get_artifacts_def sel)
qed

text \<open>
  The deletion of a project is complete and takes nothing else along: it is refused only for an unknown
  project (or a uuid in use), and afterwards no artifact, node, edge or event of the project is left, the
  event that records the deletion included, while every other project keeps what it had.
\<close>
theorem project_forgotten:
  assumes "delete_project_memory now eid pid d = Inr (n, d')" "wf_memory d"
  shows "pid \<in> set (project_ids d) \<and> n = length (filter (\<lambda>r. ow_project (av_owner r) = Some pid) (md_artifacts d))
    \<and> project_ids d' = filter (\<lambda>p. p \<noteq> pid) (project_ids d)
    \<and> md_artifacts d' = filter (\<lambda>r. ow_project (av_owner r) \<noteq> Some pid) (md_artifacts d)
    \<and> md_nodes d' = filter (\<lambda>v. kn_project v \<noteq> pid) (md_nodes d)
    \<and> md_events d' = filter (\<lambda>e. me_project e \<noteq> pid) (md_events d)
    \<and> (\<forall>e \<in> set (md_edges d'). ke_project e \<noteq> pid) \<and> set (md_edges d') \<subseteq> set (md_edges d)
    \<and> (\<forall>e \<in> set (md_edges d). ke_project e \<noteq> pid \<and> e \<notin> set (md_edges d') \<longrightarrow>
        (\<exists>v \<in> set (md_nodes d). kn_project v = pid \<and> (ke_source e = kn_id v \<or> ke_target e = kn_id v)))"
proof -
  from assms(1) obtain d1 det where d1: "record_memory_event now eid pid ''deletion_requested'' det d = Inr d1" "d' = drop_project pid d1"
    "n = length (filter (\<lambda>r. ow_project (av_owner r) = Some pid) (md_artifacts d))"
    by (auto simp: delete_project_memory_def Let_def res_bind_eq_Inr)
  then have "pid \<in> set (project_ids d) \<and> (\<exists>ev. me_project ev = pid \<and> d1 = d\<lparr>md_events := md_events d @ [ev]\<rparr>)"
    by (force simp: record_memory_event_def res_bind_eq_Inr)
  then obtain ev where "me_project ev = pid" "pid \<in> set (project_ids d)" "d1 = d\<lparr>md_events := md_events d @ [ev]\<rparr>" by blast
  with d1(2,3) show ?thesis by (auto simp: drop_project_def Let_def project_ids_def filter_map comp_def)
qed

section \<open>Expiry\<close>

text \<open>
  An expiry is stored as pydantic writes it and compared with the time as \<open>isoformat\<close> writes it: a whole
  second ends with a letter, and so it stays in force until that second is over.
\<close>

lemma expiry_is_textual:
  "unexpired ''2026-01-01T00:00:00.900000+00:00''
     \<lparr>ct_key = [], ct_value = [], ct_sensitive = False, ct_expires = Some ''2026-01-01T00:00:00Z'', ct_confidence = None\<rparr>
   \<and> \<not> unexpired ''2026-01-01T00:00:00.900000+00:00''
     \<lparr>ct_key = [], ct_value = [], ct_sensitive = False, ct_expires = Some ''2026-01-01T00:00:00.000001Z'', ct_confidence = None\<rparr>"
  by code_simp

section \<open>A concrete history\<close>

definition plain_text :: "string \<Rightarrow> string option" where
  "plain_text t = Some t"

definition sample_input :: "bool \<Rightarrow> artifact_input" where
  "sample_input secret = \<lparr>ai_type = ''note'',
     ai_content = \<lparr>ct_key = ''k'', ct_value = ''v'', ct_sensitive = secret, ct_expires = None, ct_confidence = Some (Fin (1 / 2))\<rparr>,
     ai_scope = None, ai_project = Some ''p'', ai_session = None, ai_user = None\<rparr>"

definition sample_memory :: memory_db where
  "sample_memory = (case create_project ''0'' ''p'' ''n'' [] (no_memory []) of Inr d \<Rightarrow>
     (case add_artifact_row plain_text ''1'' ''a'' (sample_input False) d of Inr d' \<Rightarrow> d' | Inl e \<Rightarrow> d) | Inl e \<Rightarrow> no_memory [])"

definition sample_owner :: artifact_owner where
  "sample_owner = \<lparr>ow_scope = ''project'', ow_project = Some ''p'', ow_session = None, ow_user = None\<rparr>"

definition sample_change :: artifact_changes where
  "sample_change = \<lparr>ch_key = None, ch_value = Some ''w'', ch_sensitive = Some True, ch_expires = None, ch_confidence = None, ch_other = []\<rparr>"

definition sample_edited :: memory_db where
  "sample_edited = (case update_artifact plain_text ''2'' ''a'' 1 sample_owner sample_change sample_memory of
     Inr (n, d) \<Rightarrow> d | Inl e \<Rightarrow> sample_memory)"

lemma sample_memory_wf: "wf_memory sample_memory"
  by code_simp

lemma sample_edited_wf: "wf_memory sample_edited"
  by code_simp

lemma sample_update:
  "update_artifact plain_text ''2'' ''a'' 1 sample_owner sample_change sample_memory = Inr (2, sample_edited)
   \<and> map (ct_value \<circ> av_content) (md_artifacts sample_edited) = [''w'']"
  by code_simp

text \<open>Two clients read version one; the first to write wins, the second is told.\<close>

lemma update_is_atomic_witness:
  "\<exists>u. prepare_update plain_text ''3'' ''a'' 1 sample_owner sample_change sample_memory = Inr u
     \<and> write_update ''a'' 1 u sample_edited = Inl (ValueError ''artifact version conflict'')
     \<and> write_update ''a'' 1 u sample_memory = update_artifact plain_text ''3'' ''a'' 1 sample_owner sample_change sample_memory"
proof -
  have ok: "is_ok (prepare_update plain_text ''3'' ''a'' 1 sample_owner sample_change sample_memory)" by code_simp
  then obtain u where u: "prepare_update plain_text ''3'' ''a'' 1 sample_owner sample_change sample_memory = Inr u"
    by (auto simp: is_ok_iff)
  have run: "memory_run plain_text ({''a''}, sample_memory) ({''a''}, sample_edited)"
    using step_update sample_update by blast
  have ids: "set (map av_id (md_artifacts sample_memory)) \<subseteq> {''a''}" by code_simp
  have "write_update ''a'' 1 u sample_edited \<noteq> update_artifact plain_text ''3'' ''a'' 1 sample_owner sample_change sample_edited
      \<or> \<not> is_ok (update_artifact plain_text ''3'' ''a'' 1 sample_owner sample_change sample_edited)" by code_simp
  moreover have "update_artifact plain_text ''3'' ''a'' 1 sample_owner sample_change sample_edited
      = Inl (ValueError ''artifact version conflict'')" by code_simp
  ultimately have one: "write_update ''a'' 1 u sample_edited = Inl (ValueError ''artifact version conflict'')"
    using update_is_atomic [OF u sample_memory_wf ids run] by auto
  have "write_update ''a'' 1 u sample_memory \<noteq> Inl (ValueError ''artifact version conflict'')"
  proof -
    have "length (filter (at_version ''a'' 1) (md_artifacts sample_memory)) = 1" by code_simp
    then show ?thesis by (simp add: write_update_def)
  qed
  with update_is_atomic [OF u sample_memory_wf ids rtranclp.rtrancl_refl] u one show ?thesis by blast
qed

lemma export_redacts_witness:
  "\<exists>x d r. export_project ''3'' ''e'' ''p'' False sample_edited = Inr (x, d) \<and> px_artifacts x = [r]
     \<and> list_all hidden_version (artifact_version.truncate r # ar_history r) \<and> length (ar_history r) = 1"
proof -
  have "is_ok (export_project ''3'' ''e'' ''p'' False sample_edited)" by code_simp
  then obtain x d where x: "export_project ''3'' ''e'' ''p'' False sample_edited = Inr (x, d)" by (auto simp: is_ok_iff)
  have "(case export_project ''3'' ''e'' ''p'' False sample_edited of
     Inr (x, d) \<Rightarrow> length (px_artifacts x) = 1 \<and> list_all (\<lambda>r. length (ar_history r) = 1) (px_artifacts x) | Inl e \<Rightarrow> False)" by code_simp
  with x obtain r where r: "px_artifacts x = [r]" "length (ar_history r) = 1" by (auto simp: length_Suc_conv)
  have "list_all (\<lambda>r. ct_sensitive (av_content r)) (md_artifacts sample_edited)" by code_simp
  with export_redacts [OF x sample_edited_wf] r have "list_all hidden_version (artifact_version.truncate r # ar_history r)"
    by (fastforce simp: list_all_iff)
  with x r show ?thesis by blast
qed

lemma project_forgotten_witness:
  "\<exists>n d. delete_project_memory ''3'' ''e'' ''p'' sample_edited = Inr (n, d) \<and> n = 1 \<and> md_artifacts d = [] \<and> md_events d = []"
proof -
  have "is_ok (delete_project_memory ''3'' ''e'' ''p'' sample_edited)" by code_simp
  then obtain n d where d: "delete_project_memory ''3'' ''e'' ''p'' sample_edited = Inr (n, d)" by (auto simp: is_ok_iff)
  have "filter (\<lambda>r. ow_project (av_owner r) \<noteq> Some ''p'') (md_artifacts sample_edited) = []
      \<and> length (filter (\<lambda>r. ow_project (av_owner r) = Some ''p'') (md_artifacts sample_edited)) = 1
      \<and> md_events sample_edited = []" by code_simp
  with project_forgotten [OF d sample_edited_wf] d show ?thesis by auto
qed

section \<open>The graph and its search\<close>

text \<open>The schema asks of an edge that its nodes exist, not that they are nodes of the edge's project.\<close>

definition knowledge_sample :: memory_db where
  "knowledge_sample = (no_memory [])\<lparr>
     md_projects := map (\<lambda>p. \<lparr>pj_id = p, pj_name = [], pj_scope = [], pj_created = ''0''\<rparr>) [''p'', ''q''],
     md_nodes := [\<lparr>kn_id = ''x'', kn_project = ''p'', kn_type = ''host'', kn_name = ''Web'', kn_description = [], kn_provenance = [], kn_created = ''1''\<rparr>,
       \<lparr>kn_id = ''y'', kn_project = ''q'', kn_type = ''host'', kn_name = [char_of (201 :: nat)], kn_description = [], kn_provenance = [],
         kn_created = ''2''\<rparr>]\<rparr>"

lemma edge_crosses_projects:
  "is_ok (add_project_knowledge_edge ''3'' ''e'' ''p'' ''x'' ''y'' ''runs'' [] knowledge_sample)"
  by code_simp

text \<open>The words of a query are patterns, and a capital outside ASCII, folded in the query only, is never found.\<close>

lemma search_is_pattern:
  "map kn_id (search_project_knowledge ''p'' ''web'' knowledge_sample) = [''x'']
   \<and> map kn_id (search_project_knowledge ''p'' ''w_b'' knowledge_sample) = [''x'']
   \<and> search_project_knowledge ''q'' [char_of (201 :: nat)] knowledge_sample = []"
  by code_simp

end
