(* ===== verification/MemoryLayers.thy ===== *)
theory MemoryLayers
  imports ArtifactStore
begin

text \<open>
  The layers over the durable memory, \<open>memory/layers.py\<close>: the scratchpad of a session, the memories of a
  project, a user and everyone, the knowledge of a project, the hybrid retriever and the manager that
  ties them together. The semantic backends, a function and a store with \<open>retrieve_relevant\<close> and \<open>clear\<close>, are
  parameters. A type or query is folded with \<open>str.casefold\<close> on Latin-1.
\<close>

section \<open>Memories with an owner\<close>

definition casefold :: "string \<Rightarrow> string" where
  "casefold s = concat (map (\<lambda>c. if code_point c = 223 then ''ss'' else [lower_char c]) s)"

definition sensitive_types :: "string list" where
  "sensitive_types = [''credential'', ''token'', ''cookie'', ''jwt'', ''api_key'', ''password'', ''secret'']"

text \<open>A \<open>ScopedMemory\<close>, and whether it is a \<open>ProjectMemory\<close>, whose owner is not validated until it is used.\<close>

record scoped_memory =
  sm_owner :: artifact_owner
  sm_project :: bool

definition scoped_memory_of :: "string \<Rightarrow> string option \<Rightarrow> string option \<Rightarrow> scoped_memory res" where
  "scoped_memory_of scope project user =
     res_bind (artifact_scope (Some scope) project None user) (\<lambda>w. Inr \<lparr>sm_owner = w, sm_project = False\<rparr>)"

definition user_memory :: "string \<Rightarrow> scoped_memory res" where
  "user_memory user = scoped_memory_of ''user'' None (Some user)"

definition global_memory :: "scoped_memory res" where
  "global_memory = scoped_memory_of ''global'' None None"

definition project_memory :: "string option \<Rightarrow> scoped_memory" where
  "project_memory pid = \<lparr>sm_owner = \<lparr>ow_scope = ''project'', ow_project = pid, ow_session = None, ow_user = None\<rparr>, sm_project = True\<rparr>"

definition memory_input ::
  "scoped_memory \<Rightarrow> string \<Rightarrow> string \<Rightarrow> string \<Rightarrow> string option \<Rightarrow> bool option \<Rightarrow> string option \<Rightarrow> pyfloat option \<Rightarrow> artifact_input" where
  "memory_input m type key val session sensitive expires confidence =
     \<lparr>ai_type = type,
       ai_content = \<lparr>ct_key = key, ct_value = val, ct_sensitive = (sensitive = Some True \<or> casefold type \<in> set sensitive_types),
         ct_expires = expires, ct_confidence = confidence\<rparr>,
       ai_scope = Some (ow_scope (sm_owner m)), ai_project = ow_project (sm_owner m), ai_session = session,
       ai_user = ow_user (sm_owner m)\<rparr>"

definition remember ::
  "(string \<Rightarrow> string option) \<Rightarrow> string \<Rightarrow> string \<Rightarrow> scoped_memory \<Rightarrow> string \<Rightarrow> string \<Rightarrow> string \<Rightarrow> string option \<Rightarrow> bool option
     \<Rightarrow> string option \<Rightarrow> pyfloat option \<Rightarrow> memory_db \<Rightarrow> memory_db res" where
  "remember utc now aid m type key val session sensitive expires confidence d =
     add_artifact_row utc now aid (memory_input m type key val session sensitive expires confidence) d"

definition recall :: "string \<Rightarrow> scoped_memory \<Rightarrow> string option \<Rightarrow> memory_db \<Rightarrow> artifact_row list" where
  "recall now m type d =
     (if sm_project m \<and> \<not> set_text (ow_project (sm_owner m)) then []
      else get_artifacts now ((owner_query (sm_owner m))\<lparr>qu_type := type\<rparr>) d)"

definition exact :: "string \<Rightarrow> scoped_memory \<Rightarrow> string \<Rightarrow> memory_db \<Rightarrow> artifact_row list" where
  "exact now m query d =
     (let q = strip (casefold query) in
      if q = [] then []
      else filter (\<lambda>r. \<not> ct_sensitive (av_content r)
          \<and> (has_sub (casefold (ct_key (av_content r))) q \<or> has_sub (casefold (ct_value (av_content r))) q)) (recall now m None d))"

definition edit ::
  "(string \<Rightarrow> string option) \<Rightarrow> string \<Rightarrow> scoped_memory \<Rightarrow> string \<Rightarrow> int \<Rightarrow> artifact_changes \<Rightarrow> memory_db \<Rightarrow> (int \<times> memory_db) res" where
  "edit utc now m aid expected ch d =
     (if ch_other ch \<noteq> [] then Inl (ValueError ''only artifact content and retention may be edited'')
      else update_artifact utc now aid expected (sm_owner m) ch d)"

definition memory_history :: "string \<Rightarrow> scoped_memory \<Rightarrow> string \<Rightarrow> bool \<Rightarrow> memory_db \<Rightarrow> artifact_version list" where
  "memory_history now m aid show_all d =
     (if sm_project m \<and> \<not> set_text (ow_project (sm_owner m)) then []
      else (case get_artifacts now (owned_artifact (sm_owner m) aid) d of
          [] \<Rightarrow> []
        | r # rs \<Rightarrow> (let v = render_artifact show_all r in ar_history v @ [artifact_version.truncate v])))"

definition export_memory :: "string \<Rightarrow> scoped_memory \<Rightarrow> bool \<Rightarrow> memory_db \<Rightarrow> artifact_row list" where
  "export_memory now m show_all d = map (render_artifact show_all) (recall now m None d)"

definition forget :: "string \<Rightarrow> scoped_memory \<Rightarrow> string \<Rightarrow> memory_db \<Rightarrow> (bool \<times> memory_db) res" where
  "forget now m aid d = delete_artifact now aid (sm_owner m) d"

definition hosts :: "string \<Rightarrow> scoped_memory \<Rightarrow> memory_db \<Rightarrow> artifact_row list" where
  "hosts now m d = recall now m (Some ''host'') d"

definition credentials :: "string \<Rightarrow> scoped_memory \<Rightarrow> memory_db \<Rightarrow> artifact_row list" where
  "credentials now m d = recall now m (Some ''credential'') d"

section \<open>Knowledge and retrieval\<close>

definition unverified :: jdict where
  "unverified = [(''source'', JStr ''user''), (''verification'', JStr ''unverified'')]"

definition learn :: "string \<Rightarrow> string \<Rightarrow> string \<Rightarrow> string \<Rightarrow> string \<Rightarrow> string \<Rightarrow> jdict \<Rightarrow> memory_db \<Rightarrow> memory_db res" where
  "learn now nid pid name description type provenance d =
     add_project_knowledge_node now nid pid type name description (if provenance = [] then unverified else provenance) d"

definition relate :: "string \<Rightarrow> string \<Rightarrow> string \<Rightarrow> string \<Rightarrow> string \<Rightarrow> string \<Rightarrow> jdict \<Rightarrow> memory_db \<Rightarrow> memory_db res" where
  "relate now eid pid source target relationship provenance d =
     add_project_knowledge_edge now eid pid source target relationship (if provenance = [] then unverified else provenance) d"

datatype found = FoundArtifact artifact_row | FoundNode knowledge_node | FoundText string | FoundItem jval

record retrieved =
  rv_source :: string
  rv_record :: found
  rv_provenance :: jdict

text \<open>The semantic store: the project it belongs to, and its state, which \<open>clear\<close> empties.\<close>

record 'f semantic =
  sx_project :: "string option"
  sx_state :: 'f

record 'f semantic_calls =
  sl_retrieve :: "'f \<Rightarrow> string \<Rightarrow> string list"
  sl_clear :: "'f \<Rightarrow> 'f"

definition opt_jval :: "string option \<Rightarrow> jval" where
  "opt_jval v = (case v of None \<Rightarrow> JNull | Some s \<Rightarrow> JStr s)"

definition hybrid_retriever ::
  "scoped_memory \<Rightarrow> (string \<Rightarrow> jval list) option \<Rightarrow> 'f semantic option \<Rightarrow> unit res" where
  "hybrid_retriever project search sem =
     res_bind (ensure (\<not> (search \<noteq> None \<and> sem \<noteq> None)) (ValueError ''choose one semantic backend'')) (\<lambda>_.
       ensure (case sem of None \<Rightarrow> True | Some x \<Rightarrow> sx_project x = ow_project (sm_owner project))
         (ValueError ''semantic memory must match the project scope''))"

definition hybrid_retrieve ::
  "'f semantic_calls \<Rightarrow> string \<Rightarrow> scoped_memory \<Rightarrow> string \<Rightarrow> (string \<Rightarrow> jval list) option \<Rightarrow> 'f semantic option \<Rightarrow> string \<Rightarrow> memory_db
     \<Rightarrow> retrieved list" where
  "hybrid_retrieve F now project graph search sem query d =
     map (\<lambda>r. \<lparr>rv_source = ''exact_artifact'', rv_record = FoundArtifact r,
         rv_provenance = [(''artifact_id'', JStr (av_id r)), (''sensitive'', JBool (ct_sensitive (av_content r)))]\<rparr>) (exact now project query d)
     @ map (\<lambda>n. \<lparr>rv_source = ''project_graph'', rv_record = FoundNode n, rv_provenance = kn_provenance n\<rparr>)
         (search_project_knowledge graph query d)
     @ (case sem of None \<Rightarrow> [] | Some x \<Rightarrow> map (\<lambda>t. \<lparr>rv_source = ''semantic'', rv_record = FoundText t,
         rv_provenance = [(''verification'', JStr ''unverified''), (''retrieval'', JStr ''faiss''),
           (''project_id'', opt_jval (ow_project (sm_owner project)))]\<rparr>) (sl_retrieve F (sx_state x) query))
     @ (case search of None \<Rightarrow> [] | Some f \<Rightarrow> map (\<lambda>v. \<lparr>rv_source = ''semantic'', rv_record = FoundItem v,
         rv_provenance = [(''verification'', JStr ''unverified''), (''retrieval'', JStr ''optional_semantic'')]\<rparr>) (f query))"

section \<open>The manager\<close>

text \<open>
  \<open>mm_graph\<close> is the project of a \<open>ProjectKnowledgeMemory\<close>; with any other knowledge there is no retriever. The
  scratchpad maps a key to a value.
\<close>

record 'f memory_manager =
  mm_user :: "scoped_memory option"
  mm_global :: "scoped_memory option"
  mm_semantic :: "'f semantic option"
  mm_search :: "(string \<Rightarrow> jval list) option"
  mm_session :: "string option"
  mm_scratch :: jdict
  mm_project :: scoped_memory
  mm_graph :: "string option"

definition scratch_set :: "string \<Rightarrow> jval \<Rightarrow> 'f memory_manager \<Rightarrow> 'f memory_manager" where
  "scratch_set k v mm = mm\<lparr>mm_scratch := dict_set k v (mm_scratch mm)\<rparr>"

definition scratch_get :: "string \<Rightarrow> jval \<Rightarrow> 'f memory_manager \<Rightarrow> jval" where
  "scratch_get k dflt mm = (case map_of (mm_scratch mm) k of None \<Rightarrow> dflt | Some v \<Rightarrow> v)"

definition opt_memory :: "scoped_memory res option \<Rightarrow> scoped_memory option res" where
  "opt_memory m = (case m of None \<Rightarrow> Inr None | Some x \<Rightarrow> res_bind x (\<lambda>y. Inr (Some y)))"

text \<open>\<open>knowledge\<close>: \<open>None\<close> when not given, \<open>Some (Some pid)\<close> for the knowledge of a project, \<open>Some None\<close> for another graph.\<close>

definition memory_manager_of ::
  "string option \<Rightarrow> string option \<Rightarrow> string option option \<Rightarrow> (string \<Rightarrow> jval list) option \<Rightarrow> string option \<Rightarrow> bool \<Rightarrow> 'f semantic option
     \<Rightarrow> 'f memory_manager res" where
  "memory_manager_of session project knowledge search user include_global sem =
     res_bind (opt_memory (map_option user_memory user)) (\<lambda>um.
     res_bind (opt_memory (if include_global then Some global_memory else None)) (\<lambda>gm.
     res_bind (ensure (\<not> (sem \<noteq> None \<and> \<not> set_text project)) (ValueError ''semantic retrieval requires a project'')) (\<lambda>_.
       (let graph = (case knowledge of Some g \<Rightarrow> g | None \<Rightarrow> if set_text project then project else None) in
        res_bind (if graph = None then Inr () else hybrid_retriever (project_memory project) search sem) (\<lambda>_.
          Inr \<lparr>mm_user = um, mm_global = gm, mm_semantic = sem, mm_search = search, mm_session = session, mm_scratch = [],
            mm_project = project_memory project, mm_graph = graph\<rparr>)))))"

definition capture_host ::
  "(string \<Rightarrow> string option) \<Rightarrow> string \<Rightarrow> string \<Rightarrow> 'f memory_manager \<Rightarrow> string \<Rightarrow> memory_db \<Rightarrow> (string option \<times> memory_db) res" where
  "capture_host utc now aid mm host d =
     (if host = [] then Inr (None, d)
      else res_bind (remember utc now aid (mm_project mm) ''host'' host [] (mm_session mm) None None None d) (\<lambda>d'. Inr (Some aid, d')))"

definition owned_results :: "string \<Rightarrow> string \<Rightarrow> scoped_memory option \<Rightarrow> string \<Rightarrow> memory_db \<Rightarrow> retrieved list" where
  "owned_results now source m query d = (case m of None \<Rightarrow> []
   | Some x \<Rightarrow> map (\<lambda>r. \<lparr>rv_source = source, rv_record = FoundArtifact r,
       rv_provenance = [(''artifact_id'', JStr (av_id r)), (''verification'', JStr ''unverified'')]\<rparr>) (exact now x query d))"

definition retrieve :: "'f semantic_calls \<Rightarrow> string \<Rightarrow> 'f memory_manager \<Rightarrow> string \<Rightarrow> memory_db \<Rightarrow> retrieved list" where
  "retrieve F now mm query d =
     (case mm_graph mm of None \<Rightarrow> []
      | Some g \<Rightarrow> hybrid_retrieve F now (mm_project mm) g (mm_search mm) (mm_semantic mm) query d)
     @ owned_results now ''user_artifact'' (mm_user mm) query d @ owned_results now ''global_artifact'' (mm_global mm) query d"

definition managed_project :: "'f memory_manager \<Rightarrow> string \<Rightarrow> string res" where
  "managed_project mm purpose = (case ow_project (sm_owner (mm_project mm)) of
     Some p \<Rightarrow> if p = [] then Inl (ValueError (''project-scoped memory is required for '' @ purpose)) else Inr p
   | None \<Rightarrow> Inl (ValueError (''project-scoped memory is required for '' @ purpose)))"

definition manager_export :: "string \<Rightarrow> string \<Rightarrow> 'f memory_manager \<Rightarrow> bool \<Rightarrow> memory_db \<Rightarrow> (project_export \<times> memory_db) res" where
  "manager_export now eid mm show_all d =
     res_bind (managed_project mm ''export'') (\<lambda>pid. export_project now eid pid show_all d)"

definition manager_compress ::
  "(string \<Rightarrow> string option) \<Rightarrow> string \<Rightarrow> string \<Rightarrow> string \<Rightarrow> 'f memory_manager \<Rightarrow> memory_db \<Rightarrow> (string option \<times> memory_db) res" where
  "manager_compress utc now aid eid mm d =
     res_bind (managed_project mm ''compression'') (\<lambda>pid. compress_project_artifacts utc now aid eid pid d)"

text \<open>The semantic store is cleared first, and so also where the deletion that follows is refused.\<close>

definition manager_delete ::
  "'f semantic_calls \<Rightarrow> string \<Rightarrow> string \<Rightarrow> 'f memory_manager \<Rightarrow> memory_db \<Rightarrow> (nat \<times> memory_db) res \<times> 'f memory_manager" where
  "manager_delete F now eid mm d = (case managed_project mm ''deletion'' of
     Inl e \<Rightarrow> (Inl e, mm)
   | Inr pid \<Rightarrow> (delete_project_memory now eid pid d,
       mm\<lparr>mm_semantic := map_option (\<lambda>x. x\<lparr>sx_state := sl_clear F (sx_state x)\<rparr>) (mm_semantic mm)\<rparr>))"

section \<open>Isolation\<close>

lemma exact_rows:
  "r \<in> set (exact now m query d) \<Longrightarrow> r \<in> set (md_artifacts d) \<and> \<not> ct_sensitive (av_content r) \<and> unexpired now (av_content r)
     \<and> ow_scope (av_owner r) = ow_scope (sm_owner m) \<and> where_is (ow_project (sm_owner m)) (ow_project (av_owner r))
     \<and> where_is (ow_user (sm_owner m)) (ow_user (av_owner r)) \<and> (sm_project m \<longrightarrow> set_text (ow_project (sm_owner m)))"
  by (auto simp: exact_def recall_def Let_def get_artifacts_mem selects_def owner_query_def where_is_def split: if_split_asm)

lemma never_sensitive: "wf_memory d \<Longrightarrow> r \<in> set (md_artifacts d) \<Longrightarrow> \<not> ct_sensitive (av_content r)
  \<Longrightarrow> list_all (\<lambda>v. \<not> ct_sensitive (av_content v)) (ar_history r)"
  using wf_memory_row by (fastforce simp: wf_row_def list_all_iff)

lemma search_project: "n \<in> set (search_project_knowledge pid query d) \<Longrightarrow> n \<in> set (md_nodes d) \<and> kn_project n = pid"
  by (auto simp: search_project_knowledge_def Let_def dest!: in_set_takeD split: if_split_asm)

definition owned_by :: "artifact_owner \<Rightarrow> string \<Rightarrow> string option \<Rightarrow> string option \<Rightarrow> bool" where
  "owned_by w source project user \<longleftrightarrow>
     (source = ''exact_artifact'' \<and> ow_scope w = ''project'' \<and> ow_project w = project \<and> project \<noteq> None
      \<or> source = ''user_artifact'' \<and> ow_scope w = ''user'' \<and> ow_user w = user \<and> user \<noteq> None
      \<or> source = ''global_artifact'' \<and> ow_scope w = ''global'')"

lemma manager_memories:
  assumes "memory_manager_of session project knowledge search user include_global sem = Inr mm"
  shows "mm_project mm = project_memory project \<and> (\<forall>m. mm_user mm = Some m \<longrightarrow> (\<exists>u. user = Some u \<and> user_memory u = Inr m))
    \<and> (\<forall>m. mm_global mm = Some m \<longrightarrow> include_global \<and> global_memory = Inr m)
    \<and> mm_graph mm = (case knowledge of Some g \<Rightarrow> g | None \<Rightarrow> if set_text project then project else None)"
  using assms by (auto simp: memory_manager_of_def opt_memory_def Let_def res_bind_eq_Inr split: option.splits if_split_asm)

lemma scoped_memory_owner:
  "scoped_memory_of scope project user = Inr m \<Longrightarrow> scope \<noteq> [] \<Longrightarrow> ow_scope (sm_owner m) = scope \<and> ow_project (sm_owner m) = project
     \<and> ow_user (sm_owner m) = user \<and> \<not> sm_project m"
  by (auto simp: scoped_memory_of_def artifact_scope_def res_bind_eq_Inr dest!: validate_owner_id)

text \<open>
  C26: A retrieval crosses no boundary: every artifact it returns is live, belongs to the manager's project, its user or
  to everyone, according to the source it is reported under, and is not sensitive in any of its versions; every
  node belongs to the project of the manager's graph, which is the manager's project unless another was given.
\<close>
theorem retrieval_isolated:
  assumes "memory_manager_of session project knowledge search user include_global sem = Inr mm" "wf_memory d"
    "x \<in> set (retrieve F now mm query d)"
  shows "(case rv_record x of
       FoundArtifact r \<Rightarrow> r \<in> set (md_artifacts d) \<and> unexpired now (av_content r) \<and> owned_by (av_owner r) (rv_source x) project user
         \<and> \<not> ct_sensitive (av_content r) \<and> list_all (\<lambda>v. \<not> ct_sensitive (av_content v)) (ar_history r)
     | FoundNode n \<Rightarrow> n \<in> set (md_nodes d) \<and> Some (kn_project n) = (case knowledge of Some g \<Rightarrow> g | None \<Rightarrow> project)
     | _ \<Rightarrow> rv_source x = ''semantic'')"
proof -
  note mm = manager_memories [OF assms(1)]
  have art: "r \<in> set (md_artifacts d) \<and> unexpired now (av_content r) \<and> \<not> ct_sensitive (av_content r)
      \<and> list_all (\<lambda>v. \<not> ct_sensitive (av_content v)) (ar_history r)" if "r \<in> set (exact now m query d)" for r m
    using exact_rows [OF that] never_sensitive [OF assms(2)] by blast
  have own: "owned_by (av_owner r) ''exact_artifact'' project user" if "r \<in> set (exact now (mm_project mm) query d)" for r
    using exact_rows [OF that] mm by (auto simp: project_memory_def owned_by_def where_is_def set_text_def split: option.splits)
  have usr: "owned_by (av_owner r) ''user_artifact'' project user" if "r \<in> set (exact now m query d)" "mm_user mm = Some m" for r m
    using exact_rows [OF that(1)] mm that(2)
    by (auto simp: user_memory_def owned_by_def where_is_def dest!: scoped_memory_owner)
  have glo: "owned_by (av_owner r) ''global_artifact'' project user" if "r \<in> set (exact now m query d)" "mm_global mm = Some m" for r m
    using exact_rows [OF that(1)] mm that(2)
    by (auto simp: global_memory_def owned_by_def dest!: scoped_memory_owner)
  have node: "Some (kn_project n) = (case knowledge of Some g \<Rightarrow> g | None \<Rightarrow> project) \<and> n \<in> set (md_nodes d)"
    if "mm_graph mm = Some g" "n \<in> set (search_project_knowledge g query d)" for g n
    using search_project [OF that(2)] that(1) mm by (auto split: option.splits if_split_asm)
  from assms(3) consider "x \<in> set (case mm_graph mm of None \<Rightarrow> []
      | Some g \<Rightarrow> hybrid_retrieve F now (mm_project mm) g (mm_search mm) (mm_semantic mm) query d)"
    | "x \<in> set (owned_results now ''user_artifact'' (mm_user mm) query d)"
    | "x \<in> set (owned_results now ''global_artifact'' (mm_global mm) query d)"
    unfolding retrieve_def by auto
  then show ?thesis
  proof cases
    case 1
    then obtain g where g: "mm_graph mm = Some g"
      "x \<in> set (hybrid_retrieve F now (mm_project mm) g (mm_search mm) (mm_semantic mm) query d)"
      by (cases "mm_graph mm") auto
    then show ?thesis using art own node [OF g(1)] by (auto simp: hybrid_retrieve_def split: option.splits)
  next
    case 2
    then show ?thesis using art usr by (auto simp: owned_results_def split: option.splits)
  next
    case 3
    then show ?thesis using art glo by (auto simp: owned_results_def split: option.splits)
  qed
qed


text \<open>Without a project a host is not ignored: the owner fails to validate.\<close>

definition no_semantic :: "unit semantic_calls" where
  "no_semantic = \<lparr>sl_retrieve = (\<lambda>_ _. []), sl_clear = (\<lambda>x. x)\<rparr>"

definition sample_manager :: "string option \<Rightarrow> unit memory_manager res" where
  "sample_manager pid = memory_manager_of None pid None None (Some ''u'') True None"

lemma capture_needs_project:
  "(case sample_manager None of Inr mm \<Rightarrow>
       capture_host plain_text ''3'' ''h'' mm ''10.0.0.1'' sample_memory = Inl (ValueError ''memory scope requires an owner'')
     | Inl e \<Rightarrow> False)"
  by code_simp

lemma retrieval_isolated_witness:
  "\<exists>mm x r. sample_manager (Some ''p'') = Inr mm \<and> x \<in> set (retrieve no_semantic ''3'' mm ''V'' sample_memory)
     \<and> rv_record x = FoundArtifact r \<and> owned_by (av_owner r) (rv_source x) (Some ''p'') (Some ''u'')"
proof -
  have "(case sample_manager (Some ''p'') of Inr mm \<Rightarrow>
       (case retrieve no_semantic ''3'' mm ''V'' sample_memory of [x] \<Rightarrow> (case rv_record x of FoundArtifact r \<Rightarrow> True | _ \<Rightarrow> False) | _ \<Rightarrow> False)
     | Inl e \<Rightarrow> False)" by code_simp
  then obtain mm x r where m: "sample_manager (Some ''p'') = Inr mm" "retrieve no_semantic ''3'' mm ''V'' sample_memory = [x]"
    "rv_record x = FoundArtifact r" by (auto split: sum.splits list.splits found.splits)
  from m(2) have x: "x \<in> set (retrieve no_semantic ''3'' mm ''V'' sample_memory)" by simp
  have "owned_by (av_owner r) (rv_source x) (Some ''p'') (Some ''u'')"
    using retrieval_isolated [OF m(1) [unfolded sample_manager_def] sample_memory_wf x] m(3) by simp
  with m x show ?thesis by blast
qed

end
