(* ===== verification/ReconStore.thy ===== *)
theory ReconStore
  imports PlanStore
begin

text \<open>
  What an assessment records in \<open>persistence/store.py\<close>, targets, ports, findings and evidence rows, the usage
  and the runs of a session, and the tracker of \<open>persistence/target_tracker.py\<close> over them. The port table
  refines a map from a target, a port and a protocol to what was last seen there.

  A row of evidence holds the text of the reference that the protected evidence store gave (\<open>Evidence\<close>).
  Uuids and times are arguments; a sum of two costs is that of the database, a parameter.
\<close>

section \<open>Rows\<close>

record target_row =
  tg_id :: string
  tg_session :: string
  tg_hostname :: string
  tg_ip :: string
  tg_domain :: string
  tg_os :: string
  tg_first :: string
  tg_last :: string
  tg_metadata :: jdict

record port_facts =
  pf_state :: string
  pf_service :: string
  pf_product :: string
  pf_version :: string
  pf_extra :: string

record port_row =
  po_id :: string
  po_target :: string
  po_port :: int
  po_protocol :: string
  po_facts :: port_facts
  po_first :: string
  po_last :: string

record finding_facts =
  ff_title :: string
  ff_description :: string
  ff_severity :: string
  ff_category :: string
  ff_cve :: string
  ff_technique :: string
  ff_tactic :: string
  ff_confidence :: string

record finding_row =
  fd_id :: string
  fd_session :: string
  fd_target :: "string option"
  fd_facts :: finding_facts
  fd_evidence :: "string list"
  fd_created :: string

record evidence_row =
  er_id :: string
  er_session :: string
  er_finding :: "string option"
  er_type :: string
  er_label :: string
  er_data :: string
  er_source :: string
  er_created :: string

record usage_row =
  us_prompt :: int
  us_completion :: int
  us_cost :: pyfloat
  us_model :: string
  us_updated :: string

record run_facts =
  rf_goal :: string
  rf_model :: string
  rf_task_class :: string
  rf_status :: string
  rf_steps :: int
  rf_prompt :: int
  rf_completion :: int
  rf_cost :: pyfloat
  rf_duration :: pyfloat

record run_row =
  rn_id :: string
  rn_session :: string
  rn_facts :: run_facts
  rn_created :: string

record recon_db =
  rc_sessions :: "session_row list"
  rc_targets :: "target_row list"
  rc_ports :: "port_row list"
  rc_findings :: "finding_row list"
  rc_evidence :: "evidence_row list"
  rc_usage :: "(string, usage_row) dict"
  rc_runs :: "run_row list"

definition recon_session :: "string \<Rightarrow> recon_db \<Rightarrow> session_row option" where
  "recon_session sid d = find (\<lambda>r. sn_id r = sid) (rc_sessions d)"

definition foreign_key_error :: py_error where
  "foreign_key_error = IntegrityError ''FOREIGN KEY constraint failed''"

section \<open>Targets and ports\<close>

text \<open>The condition of the query: either column equal, and the stored host name not empty.\<close>

definition same_target :: "string \<Rightarrow> string \<Rightarrow> string \<Rightarrow> target_row \<Rightarrow> bool" where
  "same_target sid hostname ip t = (tg_session t = sid \<and> (tg_hostname t = hostname \<or> tg_ip t = ip) \<and> tg_hostname t \<noteq> [])"

definition upsert_target ::
  "string \<Rightarrow> string \<Rightarrow> string \<Rightarrow> string \<Rightarrow> string \<Rightarrow> string \<Rightarrow> string \<Rightarrow> jdict \<Rightarrow> recon_db \<Rightarrow> (string \<times> recon_db) res" where
  "upsert_target now tid sid hostname ip domain system metadata d =
     (case find (same_target sid hostname ip) (rc_targets d) of
        Some t \<Rightarrow> Inr (tg_id t, d\<lparr>rc_targets := map (\<lambda>x. if tg_id x = tg_id t
            then x\<lparr>tg_last := now, tg_os := (if system = [] then tg_os x else system), tg_metadata := metadata\<rparr> else x) (rc_targets d)\<rparr>)
      | None \<Rightarrow> if sid \<notin> set (map sn_id (rc_sessions d)) then Inl foreign_key_error
          else Inr (tid, d\<lparr>rc_targets := rc_targets d @ [\<lparr>tg_id = tid, tg_session = sid, tg_hostname = hostname, tg_ip = ip,
            tg_domain = domain, tg_os = system, tg_first = now, tg_last = now, tg_metadata = metadata\<rparr>]\<rparr>))"

definition get_target :: "string \<Rightarrow> recon_db \<Rightarrow> target_row option" where
  "get_target tid d = find (\<lambda>t. tg_id t = tid) (rc_targets d)"

definition get_targets :: "string \<Rightarrow> recon_db \<Rightarrow> target_row list" where
  "get_targets sid d = rev (sort_key tg_last (filter (\<lambda>t. tg_session t = sid) (rc_targets d)))"

type_synonym port_key = "string \<times> int \<times> string"

definition port_key :: "port_row \<Rightarrow> port_key" where
  "port_key p = (po_target p, po_port p, po_protocol p)"

definition upsert_port :: "string \<Rightarrow> string \<Rightarrow> port_key \<Rightarrow> port_facts \<Rightarrow> recon_db \<Rightarrow> (string \<times> recon_db) res" where
  "upsert_port now pid k f d =
     (case find (\<lambda>p. port_key p = k) (rc_ports d) of
        Some p \<Rightarrow> Inr (po_id p, d\<lparr>rc_ports := map (\<lambda>x. if po_id x = po_id p then x\<lparr>po_facts := f, po_last := now\<rparr> else x) (rc_ports d)\<rparr>)
      | None \<Rightarrow> if fst k \<notin> set (map tg_id (rc_targets d)) then Inl foreign_key_error
          else Inr (pid, d\<lparr>rc_ports := rc_ports d @ [\<lparr>po_id = pid, po_target = fst k, po_port = fst (snd k), po_protocol = snd (snd k),
            po_facts = f, po_first = now, po_last = now\<rparr>]\<rparr>))"

definition get_ports :: "string \<Rightarrow> recon_db \<Rightarrow> port_row list" where
  "get_ports tid d = sort_key po_port (filter (\<lambda>p. po_target p = tid) (rc_ports d))"

section \<open>Findings and evidence\<close>

definition add_finding_row :: "string \<Rightarrow> string \<Rightarrow> string \<Rightarrow> finding_facts \<Rightarrow> string option \<Rightarrow> recon_db \<Rightarrow> recon_db res" where
  "add_finding_row now fid sid f target d =
     (if sid \<notin> set (map sn_id (rc_sessions d)) \<or> (case target of None \<Rightarrow> False | Some t \<Rightarrow> t \<notin> set (map tg_id (rc_targets d)))
      then Inl foreign_key_error
      else Inr (d\<lparr>rc_findings := rc_findings d @ [\<lparr>fd_id = fid, fd_session = sid, fd_target = target, fd_facts = f,
        fd_evidence = [], fd_created = now\<rparr>]\<rparr>))"

definition get_findings :: "string \<Rightarrow> string option \<Rightarrow> recon_db \<Rightarrow> finding_row list" where
  "get_findings sid severity d = rev (sort_key fd_created (filter (\<lambda>f. fd_session f = sid
     \<and> (case severity of None \<Rightarrow> True | Some s \<Rightarrow> s = [] \<or> ff_severity (fd_facts f) = s)) (rc_findings d)))"

definition link_evidence_to_finding :: "string \<Rightarrow> string \<Rightarrow> recon_db \<Rightarrow> recon_db" where
  "link_evidence_to_finding fid eid d = d\<lparr>rc_findings := map (\<lambda>f.
     if fd_id f = fid \<and> eid \<notin> set (fd_evidence f) then f\<lparr>fd_evidence := fd_evidence f @ [eid]\<rparr> else f) (rc_findings d)\<rparr>"

text \<open>\<open>reference\<close> is the text of the reference, or the error that the capture raised.\<close>

definition add_evidence ::
  "string \<Rightarrow> string \<Rightarrow> string res \<Rightarrow> string \<Rightarrow> string \<Rightarrow> string \<Rightarrow> string \<Rightarrow> string option \<Rightarrow> recon_db \<Rightarrow> recon_db res" where
  "add_evidence now eid reference sid type label source finding d =
     res_bind reference (\<lambda>data.
       if sid \<notin> set (map sn_id (rc_sessions d)) \<or> (case finding of None \<Rightarrow> False | Some f \<Rightarrow> f \<notin> set (map fd_id (rc_findings d)))
       then Inl foreign_key_error
       else (let d' = d\<lparr>rc_evidence := rc_evidence d @ [\<lparr>er_id = eid, er_session = sid, er_finding = finding, er_type = type,
               er_label = label, er_data = data, er_source = source, er_created = now\<rparr>]\<rparr> in
             Inr (case finding of Some f \<Rightarrow> if f = [] then d' else link_evidence_to_finding f eid d' | None \<Rightarrow> d')))"

definition get_evidence :: "string option \<Rightarrow> string option \<Rightarrow> recon_db \<Rightarrow> evidence_row list" where
  "get_evidence sid finding d = sort_key er_created (filter (\<lambda>e.
     case finding of Some f \<Rightarrow> if f \<noteq> [] then er_finding e = Some f
         else (case sid of Some s \<Rightarrow> s = [] \<or> er_session e = s | None \<Rightarrow> True)
     | None \<Rightarrow> (case sid of Some s \<Rightarrow> s = [] \<or> er_session e = s | None \<Rightarrow> True)) (rc_evidence d))"

record session_context =
  sc_session :: session_row
  sc_targets :: "(target_row \<times> port_row list) list"
  sc_findings :: "finding_row list"
  sc_evidence :: "evidence_row list"

definition get_session_context :: "string \<Rightarrow> recon_db \<Rightarrow> session_context option" where
  "get_session_context sid d = map_option (\<lambda>s. \<lparr>sc_session = s,
     sc_targets = map (\<lambda>t. (t, get_ports (tg_id t) d)) (get_targets sid d), sc_findings = get_findings sid None d,
     sc_evidence = get_evidence (Some sid) None d\<rparr>) (recon_session sid d)"

section \<open>Usage and runs\<close>

definition record_usage ::
  "(pyfloat \<Rightarrow> pyfloat \<Rightarrow> pyfloat) \<Rightarrow> string \<Rightarrow> string \<Rightarrow> int \<Rightarrow> int \<Rightarrow> pyfloat \<Rightarrow> string \<Rightarrow> recon_db \<Rightarrow> recon_db" where
  "record_usage add_real now sid prompt completion cost model d = d\<lparr>rc_usage := dict_set sid
     (case map_of (rc_usage d) sid of
        None \<Rightarrow> \<lparr>us_prompt = prompt, us_completion = completion, us_cost = cost, us_model = model, us_updated = now\<rparr>
      | Some u \<Rightarrow> \<lparr>us_prompt = us_prompt u + prompt, us_completion = us_completion u + completion,
          us_cost = add_real (us_cost u) cost, us_model = model, us_updated = now\<rparr>) (rc_usage d)\<rparr>"

definition get_usage :: "string \<Rightarrow> recon_db \<Rightarrow> usage_row" where
  "get_usage sid d = (case map_of (rc_usage d) sid of
     None \<Rightarrow> \<lparr>us_prompt = 0, us_completion = 0, us_cost = Fin 0, us_model = [], us_updated = []\<rparr> | Some u \<Rightarrow> u)"

text \<open>\<open>INSERT OR REPLACE\<close>: the row of the same run is removed and the new one is the last.\<close>

definition record_run :: "string \<Rightarrow> string \<Rightarrow> string \<Rightarrow> run_facts \<Rightarrow> recon_db \<Rightarrow> recon_db" where
  "record_run now rid sid facts d = d\<lparr>rc_runs := filter (\<lambda>r. rn_id r \<noteq> rid) (rc_runs d)
     @ [\<lparr>rn_id = rid, rn_session = sid, rn_facts = facts, rn_created = now\<rparr>]\<rparr>"

definition list_runs :: "string \<Rightarrow> nat \<Rightarrow> recon_db \<Rightarrow> run_row list" where
  "list_runs sid limit d = take limit (rev (sort_key rn_created (filter (\<lambda>r. rn_session r = sid) (rc_runs d))))"

section \<open>The tracker\<close>

record tracker =
  tk_session :: "string option"
  tk_target :: "string option"

definition text_in :: "string option \<Rightarrow> bool" where
  "text_in v = (case v of None \<Rightarrow> False | Some s \<Rightarrow> s \<noteq> [])"

text \<open>\<open>start_session\<close> sets the session that the store created.\<close>

definition start_tracking :: "string \<Rightarrow> tracker \<Rightarrow> tracker" where
  "start_tracking sid tk = tk\<lparr>tk_session := Some sid\<rparr>"

definition resume_session :: "string \<Rightarrow> tracker \<Rightarrow> tracker" where
  "resume_session sid tk = tk\<lparr>tk_session := Some sid\<rparr>"

definition track_target ::
  "string \<Rightarrow> string \<Rightarrow> string \<Rightarrow> string \<Rightarrow> string \<Rightarrow> string \<Rightarrow> jdict \<Rightarrow> tracker \<Rightarrow> recon_db \<Rightarrow> (string \<times> tracker \<times> recon_db) res" where
  "track_target now tid hostname ip domain system metadata tk d =
     (if \<not> text_in (tk_session tk) then Inl (RuntimeError ''No active session. Call start_session() first.'')
      else res_bind (upsert_target now tid (the (tk_session tk)) hostname ip domain system metadata d) (\<lambda>(t, d').
        Inr (t, tk\<lparr>tk_target := Some t\<rparr>, d')))"

definition record_port :: "string \<Rightarrow> string \<Rightarrow> int \<Rightarrow> string \<Rightarrow> port_facts \<Rightarrow> tracker \<Rightarrow> recon_db \<Rightarrow> recon_db res" where
  "record_port now pid port protocol f tk d =
     (if \<not> text_in (tk_target tk) then Inl (RuntimeError ''No current target. Call track_target() first.'')
      else res_bind (upsert_port now pid (the (tk_target tk), port, protocol) f d) (\<lambda>(i, d'). Inr d'))"

definition record_finding :: "string \<Rightarrow> string \<Rightarrow> finding_facts \<Rightarrow> tracker \<Rightarrow> recon_db \<Rightarrow> recon_db res" where
  "record_finding now fid f tk d =
     (if \<not> text_in (tk_session tk) then Inl (RuntimeError ''No active session.'')
      else add_finding_row now fid (the (tk_session tk)) f (tk_target tk) d)"

definition record_evidence ::
  "string \<Rightarrow> string \<Rightarrow> string res \<Rightarrow> string \<Rightarrow> string \<Rightarrow> string \<Rightarrow> string option \<Rightarrow> tracker \<Rightarrow> recon_db \<Rightarrow> recon_db res" where
  "record_evidence now eid reference type label source finding tk d =
     (if \<not> text_in (tk_session tk) then Inl (RuntimeError ''No active session.'')
      else add_evidence now eid reference (the (tk_session tk)) type label source finding d)"

definition text_or_else :: "string \<Rightarrow> string \<Rightarrow> string" where
  "text_or_else a b = (if a = [] then b else a)"

definition port_line :: "port_row \<Rightarrow> string" where
  "port_line p = (let f = po_facts p in
     ''    Port '' @ show_int (po_port p) @ ''/'' @ po_protocol p @ '': '' @ pf_service f
       @ (if pf_product f = [] then [] else '' ('' @ pf_product f @ '' '' @ pf_version f @ '')''))"

definition context_lines :: "(string \<Rightarrow> string) \<Rightarrow> session_context \<Rightarrow> string list" where
  "context_lines upper ctx =
     [''Session: '' @ sn_goal (sc_session ctx)]
     @ concat (map (\<lambda>(t, ps). (''  Target: '' @ text_or_else (tg_hostname t) (text_or_else (tg_ip t) ''unknown'')) # map port_line ps) (sc_targets ctx))
     @ (if sc_findings ctx = [] then [] else (''  Findings ('' @ show_nat (length (sc_findings ctx)) @ ''):'')
         # map (\<lambda>f. ''    ['' @ upper (ff_severity (fd_facts f)) @ ''] '' @ ff_title (fd_facts f)) (sc_findings ctx))"

text \<open>\<open>upper\<close> is \<open>str.upper\<close>; an unknown session gives an empty context, whose \<open>session\<close> is missing.\<close>

definition build_context_prompt :: "(string \<Rightarrow> string) \<Rightarrow> tracker \<Rightarrow> recon_db \<Rightarrow> string res" where
  "build_context_prompt upper tk d =
     (if \<not> text_in (tk_session tk) then Inr ''No active session.''
      else (case get_session_context (the (tk_session tk)) d of
          None \<Rightarrow> Inl (KeyError ''session'')
        | Some ctx \<Rightarrow> Inr (join_with [CHR 0x0A] (context_lines upper ctx))))"

definition get_open_ports_summary :: "tracker \<Rightarrow> recon_db \<Rightarrow> (string \<times> port_row) list" where
  "get_open_ports_summary tk d =
     (if \<not> text_in (tk_session tk) then []
      else (case get_session_context (the (tk_session tk)) d of
          None \<Rightarrow> []
        | Some ctx \<Rightarrow> concat (map (\<lambda>(t, ps). map (\<lambda>p. (text_or_else (tg_hostname t) (tg_ip t), p)) ps) (sc_targets ctx))))"

section \<open>The port table is a map\<close>

definition wf_recon :: "recon_db \<Rightarrow> bool" where
  "wf_recon d \<longleftrightarrow> distinct (map tg_id (rc_targets d)) \<and> distinct (map po_id (rc_ports d)) \<and> distinct (map port_key (rc_ports d))
     \<and> list_all (\<lambda>p. po_target p \<in> set (map tg_id (rc_targets d))) (rc_ports d)
     \<and> distinct (map fd_id (rc_findings d)) \<and> list_all (\<lambda>f. distinct (fd_evidence f)) (rc_findings d)"

text \<open>The specification: for each target, port and protocol the id of its row, what was seen, and the first and last time.\<close>

definition port_map :: "recon_db \<Rightarrow> port_key \<Rightarrow> (string \<times> port_facts \<times> string \<times> string) option" where
  "port_map d k = map_option (\<lambda>p. (po_id p, po_facts p, po_first p, po_last p)) (find (\<lambda>p. port_key p = k) (rc_ports d))"

definition seen_again ::
  "string \<Rightarrow> string \<Rightarrow> port_facts \<Rightarrow> (string \<times> port_facts \<times> string \<times> string) option \<Rightarrow> string \<times> port_facts \<times> string \<times> string" where
  "seen_again now pid f old = (case old of None \<Rightarrow> (pid, f, now, now) | Some (i, _, first, _) \<Rightarrow> (i, f, first, now))"

lemma known_targets: "list_all (\<lambda>p. po_target p \<in> T) ps \<longleftrightarrow> set (map po_target ps) \<subseteq> T"
  by (auto simp: list_all_iff)

lemma find_map_keyed: "(\<And>x. port_key (g x) = port_key x) \<Longrightarrow> find (\<lambda>x. port_key x = k) (map g ps) = map_option g (find (\<lambda>x. port_key x = k) ps)"
  by (induction ps) auto

text \<open>
  C34: Recording a port refines the update of a map: the row of a port that was seen before keeps its id and its
  first time and takes everything else from the new observation, a new port gets a row of its own, no other
  port changes, and there is never a second row for a port.
\<close>
theorem upsert_port_refines:
  assumes "upsert_port now pid k f d = Inr (i, d')" "wf_recon d" "pid \<notin> set (map po_id (rc_ports d))"
  shows "wf_recon d' \<and> port_map d' = (port_map d)(k \<mapsto> seen_again now pid f (port_map d k))
    \<and> i = fst (seen_again now pid f (port_map d k))"
proof (cases "find (\<lambda>p. port_key p = k) (rc_ports d)")
  case (Some p)
  then have p: "p \<in> set (rc_ports d)" "port_key p = k" by (auto simp: find_Some_iff)
  let ?g = "\<lambda>x. if po_id x = po_id p then x\<lparr>po_facts := f, po_last := now\<rparr> else x"
  from assms(1) Some have d': "i = po_id p" "d' = d\<lparr>rc_ports := map ?g (rc_ports d)\<rparr>" by (auto simp: upsert_port_def)
  have g: "port_key (?g x) = port_key x" "po_id (?g x) = po_id x" "po_target (?g x) = po_target x" for x by (simp_all add: port_key_def)
  have maps: "map port_key (map ?g ps) = map port_key ps \<and> map po_id (map ?g ps) = map po_id ps \<and> map po_target (map ?g ps) = map po_target ps"
    for ps using g by (induction ps) auto
  have same: "rc_targets d' = rc_targets d" "rc_findings d' = rc_findings d" "map port_key (rc_ports d') = map port_key (rc_ports d)"
    "map po_id (rc_ports d') = map po_id (rc_ports d)" "set (map po_target (rc_ports d')) = set (map po_target (rc_ports d))"
    using d'(2) maps [of "rc_ports d"] by simp_all
  have wf: "wf_recon d'" using assms(2) unfolding wf_recon_def same known_targets by blast
  have "port_map d' k' = ((port_map d)(k \<mapsto> seen_again now pid f (port_map d k))) k'" for k'
  proof (cases "k' = k")
    case True
    have "port_map d' k = map_option (\<lambda>p. (po_id p, po_facts p, po_first p, po_last p)) (map_option ?g (Some p))"
      unfolding port_map_def d'(2) using find_map_keyed [of ?g, OF g(1)] Some by simp
    then show ?thesis using True Some by (simp add: port_map_def seen_again_def)
  next
    case False
    have same: "?g x = x" if "find (\<lambda>x. port_key x = k') (rc_ports d) = Some x" for x
    proof -
      from that have x: "x \<in> set (rc_ports d)" "port_key x = k'" by (auto simp: find_Some_iff)
      with p False assms(2) have "po_id x \<noteq> po_id p" by (auto simp: wf_recon_def distinct_map inj_on_def)
      then show ?thesis by simp
    qed
    have "port_map d' k' = map_option (\<lambda>p. (po_id p, po_facts p, po_first p, po_last p))
        (map_option ?g (find (\<lambda>x. port_key x = k') (rc_ports d)))"
      unfolding port_map_def d'(2) using find_map_keyed [of ?g, OF g(1)] by simp
    also have "\<dots> = port_map d k'"
      using same unfolding port_map_def by (cases "find (\<lambda>x. port_key x = k') (rc_ports d)") auto
    finally show ?thesis using False by simp
  qed
  with wf d'(1) Some show ?thesis by (auto simp: port_map_def seen_again_def)
next
  case None
  let ?p = "\<lparr>po_id = pid, po_target = fst k, po_port = fst (snd k), po_protocol = snd (snd k), po_facts = f, po_first = now, po_last = now\<rparr>"
  from assms(1) None have d': "i = pid" "d' = d\<lparr>rc_ports := rc_ports d @ [?p]\<rparr>" "fst k \<in> set (map tg_id (rc_targets d))"
    by (auto simp: upsert_port_def split: if_split_asm)
  have key: "port_key ?p = k" by (simp add: port_key_def)
  have new: "k \<notin> set (map port_key (rc_ports d))" using None by (auto simp: find_None_iff)
  have wf: "wf_recon d'" using assms(2,3) d' new key by (simp add: wf_recon_def)
  have app: "find P (xs @ [y]) = (case find P xs of None \<Rightarrow> if P y then Some y else None | Some x \<Rightarrow> Some x)" for P and xs :: "port_row list" and y
    by (induction xs) auto
  have "port_map d' k' = ((port_map d)(k \<mapsto> seen_again now pid f (port_map d k))) k'" for k'
    using None key unfolding port_map_def d'(2) by (auto simp: app seen_again_def split: option.splits)
  with wf d'(1) None show ?thesis by (auto simp: port_map_def seen_again_def)
qed

section \<open>What the code does with targets\<close>

definition no_recon :: recon_db where
  "no_recon = \<lparr>rc_sessions = [\<lparr>sn_id = ''s'', sn_goal = ''g'', sn_focus = [], sn_status = ''active''\<rparr>,
       \<lparr>sn_id = ''t'', sn_goal = ''g'', sn_focus = [], sn_status = ''active''\<rparr>], rc_targets = [], rc_ports = [], rc_findings = [],
     rc_evidence = [], rc_usage = [], rc_runs = []\<rparr>"

definition then_target :: "string \<Rightarrow> string \<Rightarrow> string \<Rightarrow> string \<Rightarrow> recon_db res \<Rightarrow> recon_db res" where
  "then_target tid sid hostname ip r = res_bind r (\<lambda>d. res_bind (upsert_target ''1'' tid sid hostname ip [] [] [] d) (\<lambda>(i, d'). Inr d'))"

text \<open>
  Two hosts without an address are taken for one, since the empty addresses are equal; and a target
  known by its address alone is never found again.
\<close>

lemma hosts_without_address_merge:
  "(case then_target ''y'' ''s'' ''b.example'' [] (then_target ''x'' ''s'' ''a.example'' [] (Inr no_recon)) of
      Inr d \<Rightarrow> map tg_hostname (rc_targets d) = [''a.example''] | Inl e \<Rightarrow> False)
   \<and> (case then_target ''y'' ''s'' [] ''10.0.0.1'' (then_target ''x'' ''s'' [] ''10.0.0.1'' (Inr no_recon)) of
      Inr d \<Rightarrow> map tg_id (rc_targets d) = [''x'', ''y''] | Inl e \<Rightarrow> False)"
  by code_simp

definition blank_finding :: finding_facts where
  "blank_finding = \<lparr>ff_title = ''t'', ff_description = [], ff_severity = ''low'', ff_category = [], ff_cve = [], ff_technique = [],
     ff_tactic = [], ff_confidence = []\<rparr>"

text \<open>A tracker that resumes another session keeps its target, and links the next finding to it.\<close>

lemma resume_keeps_target:
  "(case track_target ''1'' ''x'' ''a'' ''10.0.0.1'' [] [] [] \<lparr>tk_session = Some ''s'', tk_target = None\<rparr> no_recon of
      Inr (i, tk, d) \<Rightarrow> (case record_finding ''2'' ''f'' blank_finding (resume_session ''t'' tk) d of
          Inr d' \<Rightarrow> map (\<lambda>f. (fd_session f, fd_target f)) (rc_findings d') = [(''t'', Some ''x'')]
            \<and> map tg_session (rc_targets d') = [''s'']
        | Inl e \<Rightarrow> False)
    | Inl e \<Rightarrow> False)"
  by code_simp

definition web_port :: "string \<Rightarrow> port_facts" where
  "web_port s = \<lparr>pf_state = s, pf_service = ''http'', pf_product = [], pf_version = [], pf_extra = []\<rparr>"

definition sample_recon :: recon_db where
  "sample_recon = (case then_target ''x'' ''s'' ''a'' ''10.0.0.1'' (Inr no_recon) of
     Inr d \<Rightarrow> (case upsert_port ''1'' ''p'' (''x'', 80, ''tcp'') (web_port ''open'') d of Inr (i, d') \<Rightarrow> d' | Inl e \<Rightarrow> d) | Inl e \<Rightarrow> no_recon)"

lemma upsert_port_refines_witness:
  "\<exists>d. upsert_port ''2'' ''q'' (''x'', 80, ''tcp'') (web_port ''closed'') sample_recon = Inr (''p'', d) \<and> wf_recon d
     \<and> port_map d (''x'', 80, ''tcp'') = Some (''p'', web_port ''closed'', ''1'', ''2'')"
proof -
  have "is_ok (upsert_port ''2'' ''q'' (''x'', 80, ''tcp'') (web_port ''closed'') sample_recon)" by code_simp
  then obtain i d where d: "upsert_port ''2'' ''q'' (''x'', 80, ''tcp'') (web_port ''closed'') sample_recon = Inr (i, d)"
    by (auto simp: is_ok_iff)
  have "wf_recon sample_recon" by code_simp
  moreover have "''q'' \<notin> set (map po_id (rc_ports sample_recon))" by code_simp
  moreover have "port_map sample_recon (''x'', 80, ''tcp'') = Some (''p'', web_port ''open'', ''1'', ''1'')" by code_simp
  ultimately show ?thesis using upsert_port_refines [OF d] d by (simp add: seen_again_def)
qed

end
