(* ===== verification/KnowledgeGraph.thy ===== *)
theory KnowledgeGraph
  imports ArtifactStore
begin

text \<open>
  The graph of \<open>knowledge/graph.py\<close>, with \<open>knowledge/retriever.py\<close>: its word index, its search, and the two
  breadth-first walks over its edges, which may be followed in both directions. \<open>get_related\<close> finds
  exactly what is near; \<open>find_path\<close> finds shortest simple paths first.

  The order in which Python iterates over a set of texts is the argument \<open>order\<close>, the seed of an empty graph is data,
  and pydantic's reading of a stored node and of a stored edge is a parameter.
\<close>

section \<open>The graph\<close>

record graph_node =
  gn_id :: string
  gn_type :: string
  gn_name :: string
  gn_description :: string
  gn_properties :: jdict
  gn_source :: string
  gn_created :: string

record graph_edge =
  ge_source :: string
  ge_target :: string
  ge_relationship :: string
  ge_properties :: jdict

text \<open>\<open>kg_file\<close> is what was last written to the file.\<close>

record knowledge_graph =
  kg_nodes :: "(string, graph_node) dict"
  kg_edges :: "graph_edge list"
  kg_index :: "(string, string list) dict"
  kg_file :: "(graph_node list \<times> graph_edge list) option"

definition node_words :: "graph_node \<Rightarrow> string list" where
  "node_words n = split_words [] (lower (gn_name n @ '' '' @ gn_description n))"

definition index_word :: "string \<Rightarrow> string \<Rightarrow> (string, string list) dict \<Rightarrow> (string, string list) dict" where
  "index_word i w idx = (case map_of idx w of
     None \<Rightarrow> dict_set w [i] idx
   | Some is \<Rightarrow> if i \<in> set is then idx else dict_set w (is @ [i]) idx)"

definition index_node :: "graph_node \<Rightarrow> (string, string list) dict \<Rightarrow> (string, string list) dict" where
  "index_node n idx = fold (index_word (gn_id n)) (node_words n) idx"

definition rebuild_index :: "knowledge_graph \<Rightarrow> knowledge_graph" where
  "rebuild_index g = g\<lparr>kg_index := fold (index_node \<circ> snd) (kg_nodes g) []\<rparr>"

definition save_graph :: "knowledge_graph \<Rightarrow> knowledge_graph" where
  "save_graph g = g\<lparr>kg_file := Some (map snd (kg_nodes g), kg_edges g)\<rparr>"

definition add_graph_node :: "graph_node \<Rightarrow> knowledge_graph \<Rightarrow> knowledge_graph" where
  "add_graph_node n g = save_graph (rebuild_index (g\<lparr>kg_nodes := dict_set (gn_id n) n (kg_nodes g)\<rparr>))"

definition add_graph_edge :: "graph_edge \<Rightarrow> knowledge_graph \<Rightarrow> knowledge_graph" where
  "add_graph_edge e g = save_graph (g\<lparr>kg_edges := kg_edges g @ [e]\<rparr>)"

section \<open>Loading\<close>

text \<open>What can be iterated over without raising at its first item.\<close>

definition items_of :: "jval option \<Rightarrow> jval list option" where
  "items_of v = (case v of None \<Rightarrow> Some [] | Some (JList vs) \<Rightarrow> Some vs | Some (JDict []) \<Rightarrow> Some [] | Some (JStr []) \<Rightarrow> Some []
     | _ \<Rightarrow> None)"

text \<open>The items up to the first that does not validate, and whether all did.\<close>

fun read_items :: "('a \<Rightarrow> 'b option) \<Rightarrow> 'a list \<Rightarrow> 'b list \<times> bool" where
  "read_items read [] = ([], True)"
| "read_items read (v # vs) = (case read v of None \<Rightarrow> ([], False)
     | Some x \<Rightarrow> (case read_items read vs of (xs, ok) \<Rightarrow> (x # xs, ok)))"

definition read_field :: "(jval \<Rightarrow> 'b option) \<Rightarrow> jdict \<Rightarrow> string \<Rightarrow> 'b list \<times> bool" where
  "read_field read d k = (case items_of (map_of d k) of None \<Rightarrow> ([], False) | Some vs \<Rightarrow> read_items read vs)"

definition seeded :: "graph_node list \<Rightarrow> graph_edge list \<Rightarrow> knowledge_graph \<Rightarrow> knowledge_graph" where
  "seeded ns es g = save_graph (rebuild_index (g\<lparr>kg_nodes := fold (\<lambda>n. dict_set (gn_id n) n) ns (kg_nodes g), kg_edges := es\<rparr>))"

text \<open>\<open>data\<close> is the decoded file, \<open>None\<close> where there is none or it does not decode.\<close>

definition load_graph ::
  "(jval \<Rightarrow> graph_node option) \<Rightarrow> (jval \<Rightarrow> graph_edge option) \<Rightarrow> graph_node list \<Rightarrow> graph_edge list \<Rightarrow> jval option \<Rightarrow> knowledge_graph" where
  "load_graph read_node read_edge seed_nodes seed_edges data =
     (let (ns, es) = (case data of
            Some (JDict d) \<Rightarrow> (case read_field read_node d ''nodes'' of
                (ns, ok) \<Rightarrow> (ns, if ok then fst (read_field read_edge d ''edges'') else []))
          | _ \<Rightarrow> ([], []));
          g = \<lparr>kg_nodes = fold (\<lambda>n. dict_set (gn_id n) n) ns [], kg_edges = es, kg_index = [], kg_file = None\<rparr> in
      if kg_nodes g = [] then seeded seed_nodes seed_edges g else rebuild_index g)"

section \<open>Search\<close>

definition ids_of :: "(string, string list) dict \<Rightarrow> string \<Rightarrow> string list" where
  "ids_of idx w = (case map_of idx w of None \<Rightarrow> [] | Some is \<Rightarrow> is)"

definition with_every :: "(string, string list) dict \<Rightarrow> string list \<Rightarrow> string list" where
  "with_every idx ws = (case ws of [] \<Rightarrow> []
     | w # vs \<Rightarrow> filter (\<lambda>i. list_all (\<lambda>v. i \<in> set (ids_of idx v)) vs) (ids_of idx w))"

definition with_some :: "(string, string list) dict \<Rightarrow> string list \<Rightarrow> string list" where
  "with_some idx ws = remdups (concat (map (ids_of idx) ws))"

definition known :: "knowledge_graph \<Rightarrow> string list \<Rightarrow> graph_node list" where
  "known g is = List.map_filter (map_of (kg_nodes g)) is"

definition graph_search :: "(string list \<Rightarrow> string list) \<Rightarrow> knowledge_graph \<Rightarrow> string \<Rightarrow> graph_node list" where
  "graph_search order g query =
     (let ws = split_words [] (lower query); every = with_every (kg_index g) ws in
      if ws = [] then []
      else take 10 (known g (order (if every = [] then with_some (kg_index g) ws else every))))"

definition graph_query :: "(string list \<Rightarrow> string list) \<Rightarrow> knowledge_graph \<Rightarrow> string \<Rightarrow> graph_node list \<times> graph_edge list" where
  "graph_query order g query = (let ns = graph_search order g query; is = set (map gn_id ns) in
     (ns, filter (\<lambda>e. ge_source e \<in> is \<or> ge_target e \<in> is) (kg_edges g)))"

definition type_counts :: "knowledge_graph \<Rightarrow> (string, nat) dict" where
  "type_counts g = fold (\<lambda>n d. dict_set (gn_type n) ((case map_of d (gn_type n) of None \<Rightarrow> 0 | Some k \<Rightarrow> k) + 1) d)
     (map snd (kg_nodes g)) []"

definition get_statistics :: "knowledge_graph \<Rightarrow> nat \<times> nat \<times> (string, nat) dict" where
  "get_statistics g = (length (kg_nodes g), length (kg_edges g), type_counts g)"

section \<open>Techniques\<close>

record attack_technique =
  at_id :: string
  at_name :: string
  at_tactic :: string

definition capability_attack :: "(string, attack_technique) dict" where
  "capability_attack = map (\<lambda>(c, i, n, t). (c, \<lparr>at_id = i, at_name = n, at_tactic = t\<rparr>))
     [(''host_discovery'', ''T1018'', ''Remote System Discovery'', ''Discovery''),
      (''port_scan'', ''T1046'', ''Network Service Discovery'', ''Discovery''),
      (''service_detection'', ''T1046'', ''Network Service Discovery'', ''Discovery''),
      (''os_detection'', ''T1082'', ''System Information Discovery'', ''Discovery''),
      (''subdomain_enum'', ''T1590.005'', ''Gather Victim Network Information: IP Addresses'', ''Reconnaissance''),
      (''osint'', ''T1593'', ''Search Open Websites/Domains'', ''Reconnaissance''),
      (''http_fingerprint'', ''T1592.002'', ''Gather Victim Host Information: Software'', ''Reconnaissance''),
      (''http_probe'', ''T1595.002'', ''Active Scanning: Vulnerability Scanning'', ''Reconnaissance''),
      (''dir_enum'', ''T1083'', ''File and Directory Discovery'', ''Discovery''),
      (''vuln_scan'', ''T1595.002'', ''Active Scanning: Vulnerability Scanning'', ''Reconnaissance''),
      (''sql_injection'', ''T1190'', ''Exploit Public-Facing Application'', ''Initial Access''),
      (''ad_enum'', ''T1087.002'', ''Account Discovery: Domain Account'', ''Discovery''),
      (''smb_enum'', ''T1135'', ''Network Share Discovery'', ''Discovery''),
      (''password_attack'', ''T1110'', ''Brute Force'', ''Credential Access''),
      (''password_cracking'', ''T1110.002'', ''Brute Force: Password Cracking'', ''Credential Access''),
      (''exploit_search'', ''T1588.005'', ''Obtain Capabilities: Exploits'', ''Resource Development'')]"

definition attack_for_capability :: "string \<Rightarrow> attack_technique option" where
  "attack_for_capability c = map_of capability_attack c"

text \<open>Each technique once, and the node that stands for it.\<close>

definition known_techniques :: "attack_technique list" where
  "known_techniques = map snd (fold (\<lambda>t. dict_set (at_id t) t) (map snd capability_attack) [])"

definition attack_node :: "string \<Rightarrow> attack_technique \<Rightarrow> graph_node" where
  "attack_node now t = \<lparr>gn_id = ''attack-'' @ at_id t, gn_type = ''technique'', gn_name = at_id t @ '' - '' @ at_name t,
     gn_description = ''MITRE ATT&CK '' @ at_tactic t @ '' technique '' @ at_id t,
     gn_properties = [(''tactic'', JStr (at_tactic t)), (''technique_id'', JStr (at_id t))], gn_source = ''MITRE ATT&CK'', gn_created = now\<rparr>"

definition seed_attack :: "string \<Rightarrow> knowledge_graph \<Rightarrow> knowledge_graph" where
  "seed_attack now g = (let existing = map fst (kg_nodes g) in
     fold (\<lambda>t g'. if ''attack-'' @ at_id t \<in> set existing then g' else add_graph_node (attack_node now t) g') known_techniques g)"

definition knowledge_for_capabilities :: "string list \<Rightarrow> (string, jdict) dict" where
  "knowledge_for_capabilities cs = fold (\<lambda>c d. case attack_for_capability c of None \<Rightarrow> d
     | Some t \<Rightarrow> dict_set c [(''technique_id'', JStr (at_id t)), (''name'', JStr (at_name t)), (''tactic'', JStr (at_tactic t))] d) cs []"

section \<open>Walks\<close>

text \<open>The edges at a node, each with the node at its other end.\<close>

definition edge_steps :: "graph_edge list \<Rightarrow> string \<Rightarrow> (graph_edge \<times> string) list" where
  "edge_steps es c = concat (map (\<lambda>e. if ge_source e = c then [(e, ge_target e)]
     else if ge_target e = c then [(e, ge_source e)] else []) es)"

lemma edge_steps_length: "length (edge_steps es c) \<le> length es"
  by (induction es) (auto simp: edge_steps_def)

text \<open>The queue loop of \<open>get_related\<close>: the nodes in the order they are visited, and the edges found at them.\<close>

function (sequential) related :: "graph_edge list \<Rightarrow> int \<Rightarrow> (string \<times> nat) list \<Rightarrow> string list \<Rightarrow> string list \<times> graph_edge list" where
  "related es m [] seen = ([], [])"
| "related es m ((c, d) # q) seen =
     (if c \<in> set seen \<or> m < int d then related es m q seen
      else (case related es m (q @ map (\<lambda>(e, x). (x, Suc d)) (edge_steps es c)) (c # seen) of
          (cs, fs) \<Rightarrow> (c # cs, map fst (edge_steps es c) @ fs)))"
  by pat_completeness auto

definition queue_weight :: "nat \<Rightarrow> ('a \<Rightarrow> nat) \<Rightarrow> 'a list \<Rightarrow> nat" where
  "queue_weight n rank q = sum_list (map (\<lambda>x. Suc n ^ rank x) q)"

lemma queue_weight_pop: "queue_weight n rank q < queue_weight n rank (x # q)"
  by (simp add: queue_weight_def)

text \<open>An item that is replaced by at most \<open>n\<close> items of a lower rank makes the queue lighter.\<close>

lemma queue_weight_replace:
  assumes "length new \<le> n" "\<And>y. y \<in> set new \<Longrightarrow> rank y < rank x"
  shows "queue_weight n rank (q @ new) < queue_weight n rank (x # q)"
proof (cases "rank x")
  case 0
  then have "new = []" using assms(2) by (cases new) auto
  then show ?thesis by (simp add: queue_weight_def)
next
  case (Suc k)
  have "sum_list (map (\<lambda>y. Suc n ^ rank y) new) \<le> sum_list (map (\<lambda>y. Suc n ^ k) new)"
    using assms(2) Suc by (intro sum_list_mono) (simp add: less_Suc_eq_le power_increasing)
  also have "\<dots> \<le> n * Suc n ^ k" using assms(1) by (simp add: sum_list_triv)
  also have "\<dots> < Suc n ^ rank x" using Suc by simp
  finally show ?thesis by (simp add: queue_weight_def)
qed

termination related
proof (relation "measure (\<lambda>(es, m, q, seen). queue_weight (length es) (\<lambda>(c, d). nat (m + 1 - int d)) q)", goal_cases)
  case 1
  show ?case by simp
next
  case (2 es m c d q seen)
  then show ?case by (simp add: queue_weight_pop)
next
  case (3 es m c d q seen)
  then show ?case using edge_steps_length [of es c]
    by (auto intro!: queue_weight_replace)
qed

definition get_related :: "knowledge_graph \<Rightarrow> string \<Rightarrow> int \<Rightarrow> graph_node list \<times> graph_edge list" where
  "get_related g a m = (case related (kg_edges g) m [(a, 0)] [] of (cs, fs) \<Rightarrow> (known g cs, fs))"

text \<open>The queue loop of \<open>find_path\<close>, over paths.\<close>

definition extensions :: "graph_edge list \<Rightarrow> string list \<Rightarrow> string list list" where
  "extensions es p = map (\<lambda>(e, x). p @ [x]) (filter (\<lambda>(e, x). x \<notin> set p) (edge_steps es (last p)))"

definition ends_of :: "graph_edge list \<Rightarrow> string set" where
  "ends_of es = ge_source ` set es \<union> ge_target ` set es"

lemma edge_steps_ends: "(e, x) \<in> set (edge_steps es c) \<Longrightarrow> x \<in> ends_of es"
  by (auto simp: edge_steps_def ends_of_def split: if_split_asm)

function (sequential) paths_to :: "graph_edge list \<Rightarrow> string \<Rightarrow> string list list \<Rightarrow> string list list" where
  "paths_to es t [] = []"
| "paths_to es t (p # q) = (if last p = t then p # paths_to es t q else paths_to es t (q @ extensions es p))"
  by pat_completeness auto

lemma extension_rank:
  assumes "r \<in> set (extensions es p)"
  shows "card (ends_of es - set r) < card (ends_of es - set p)"
proof -
  obtain e x where "(e, x) \<in> set (edge_steps es (last p))" "x \<notin> set p" "r = p @ [x]"
    using assms by (auto simp: extensions_def)
  then have "ends_of es - set r \<subset> ends_of es - set p"
    by (auto dest: edge_steps_ends)
  moreover have "finite (ends_of es - set p)" by (simp add: ends_of_def)
  ultimately show ?thesis by (rule psubset_card_mono [rotated])
qed

lemma extensions_length: "length (extensions es p) \<le> length es"
  unfolding extensions_def length_map by (rule order.trans [OF length_filter_le edge_steps_length])

termination paths_to
proof (relation "measure (\<lambda>(es, t, q). queue_weight (length es) (\<lambda>p. card (ends_of es - set p)) q)", goal_cases)
  case 1
  show ?case by simp
next
  case (2 es t p q)
  show ?case by (simp add: queue_weight_pop)
next
  case (3 es t p q)
  show ?case by (auto intro!: queue_weight_replace extension_rank extensions_length)
qed

definition find_path :: "knowledge_graph \<Rightarrow> string \<Rightarrow> string \<Rightarrow> string list list" where
  "find_path g a t = take 5 (paths_to (kg_edges g) t [[a]])"

section \<open>What is near\<close>

definition adjacent :: "graph_edge list \<Rightarrow> string \<Rightarrow> string \<Rightarrow> bool" where
  "adjacent es a b \<longleftrightarrow> (\<exists>e \<in> set es. ge_source e = a \<and> ge_target e = b \<or> ge_target e = a \<and> ge_source e = b)"

fun walk :: "graph_edge list \<Rightarrow> string list \<Rightarrow> bool" where
  "walk es (a # b # p) = (adjacent es a b \<and> walk es (b # p))"
| "walk es p = True"

text \<open>A walk with at most \<open>m\<close> edges.\<close>

definition near :: "graph_edge list \<Rightarrow> int \<Rightarrow> string \<Rightarrow> string \<Rightarrow> bool" where
  "near es m a b \<longleftrightarrow> (\<exists>p. walk es p \<and> p \<noteq> [] \<and> hd p = a \<and> last p = b \<and> int (length p) \<le> m + 1)"

lemma steps_adjacent: "(\<exists>e. (e, x) \<in> set (edge_steps es c)) \<longleftrightarrow> adjacent es c x"
  by (fastforce simp: edge_steps_def adjacent_def split: if_splits)

lemma steps_edges: "map fst (edge_steps es c) = filter (\<lambda>e. ge_source e = c \<or> ge_target e = c) es"
  by (induction es) (auto simp: edge_steps_def)

lemma walk_append: "walk es (p @ c # q) \<longleftrightarrow> walk es (p @ [c]) \<and> walk es (c # q)"
proof (induction p)
  case (Cons a p)
  then show ?case by (cases p) auto
qed simp

lemma walk_Cons: "q \<noteq> [] \<Longrightarrow> walk es (c # q) \<longleftrightarrow> adjacent es c (hd q) \<and> walk es q"
  by (cases q) auto

text \<open>What the walk from \<open>c\<close> at depth \<open>d\<close> can still reach when \<open>seen\<close> must be avoided.\<close>

definition reaches :: "graph_edge list \<Rightarrow> int \<Rightarrow> string list \<Rightarrow> string \<times> nat \<Rightarrow> string \<Rightarrow> bool" where
  "reaches es m seen = (\<lambda>(c, d) x. \<exists>p. walk es p \<and> p \<noteq> [] \<and> hd p = c \<and> last p = x \<and> set p \<inter> set seen = {}
     \<and> int d + int (length p) \<le> m + 1)"

lemma reaches_here: "c \<notin> set seen \<Longrightarrow> int d \<le> m \<Longrightarrow> reaches es m seen (c, d) c"
  by (force simp: reaches_def intro: exI [of _ "[c]"])

lemma reaches_not: "c \<in> set seen \<or> m < int d \<Longrightarrow> \<not> reaches es m seen (c, d) x"
proof -
  assume a: "c \<in> set seen \<or> m < int d"
  have "hd p \<in> set p" "1 \<le> int (length p)" if "p \<noteq> []" for p :: "string list" using that by (cases p; simp)+
  then show "\<not> reaches es m seen (c, d) x" using a unfolding reaches_def by force
qed

lemma reaches_step:
  assumes "adjacent es c y" "reaches es m (c # seen) (y, Suc d) x" "c \<notin> set seen"
  shows "reaches es m seen (c, d) x"
proof -
  obtain p where "walk es p" "p \<noteq> []" "hd p = y" "last p = x" "set p \<inter> set (c # seen) = {}" "int (Suc d) + int (length p) \<le> m + 1"
    using assms(2) by (auto simp: reaches_def)
  then show ?thesis using assms by (auto simp: reaches_def walk_Cons intro!: exI [of _ "c # p"])
qed

text \<open>A walk that meets \<open>c\<close> is cut at the last time it does: what follows is no longer and avoids \<open>c\<close>.\<close>

lemma reaches_split:
  assumes "reaches es m seen (c', d') x" "d \<le> d'" "c \<notin> set seen"
  shows "reaches es m (c # seen) (c', d') x \<or> x = c \<and> int d \<le> m
    \<or> (\<exists>y. adjacent es c y \<and> reaches es m (c # seen) (y, Suc d) x)"
proof -
  obtain p where p: "walk es p" "p \<noteq> []" "hd p = c'" "last p = x" "set p \<inter> set seen = {}" "int d' + int (length p) \<le> m + 1"
    using assms(1) by (auto simp: reaches_def)
  show ?thesis
  proof (cases "c \<in> set p")
    case False
    then show ?thesis using p by (auto simp: reaches_def)
  next
    case True
    then obtain ys zs where s: "p = ys @ c # zs" "c \<notin> set zs" by (meson split_list_last)
    show ?thesis
    proof (cases "zs = []")
      case True
      then show ?thesis using p s assms(2) by auto
    next
      case False
      then have "adjacent es c (hd zs)" "walk es zs" using p(1) unfolding s(1) walk_append [of es ys c zs] by (simp_all add: walk_Cons)
      moreover have "reaches es m (c # seen) (hd zs, Suc d) x"
        using False calculation p s assms(2) by (auto simp: reaches_def intro!: exI [of _ zs])
      ultimately show ?thesis by blast
    qed
  qed
qed

text \<open>The depths in a queue: they never fall, and differ by one at most.\<close>

definition level_queue :: "('a \<Rightarrow> nat) \<Rightarrow> 'a list \<Rightarrow> bool" where
  "level_queue f q \<longleftrightarrow> sorted (map f q) \<and> (\<forall>x \<in> set q. f x \<le> Suc (f (hd q)))"

lemma level_queue_pop: "level_queue f (x # q) \<Longrightarrow> level_queue f q"
  by (cases q) (force simp: level_queue_def)+

lemma level_queue_head: "level_queue f (x # q) \<Longrightarrow> y \<in> set q \<Longrightarrow> f x \<le> f y"
  by (auto simp: level_queue_def)

lemma level_queue_push:
  assumes "level_queue f (x # q)" "\<And>y. y \<in> set new \<Longrightarrow> f y = Suc (f x)"
  shows "level_queue f (q @ new)"
proof (cases q)
  case Nil
  have "sorted (map f new)" using assms(2) by (induction new) auto
  then show ?thesis using Nil assms(2) by (cases new) (auto simp: level_queue_def)
next
  case (Cons z zs)
  have "sorted (map f new)" using assms(2) by (induction new) auto
  then show ?thesis using Cons assms by (auto simp: level_queue_def sorted_append)
qed

lemma related_visits:
  "level_queue snd q \<Longrightarrow> x \<in> set (fst (related es m q seen)) \<longleftrightarrow> (\<exists>i \<in> set q. reaches es m seen i x)"
proof (induction es m q seen rule: related.induct)
  case (2 es m c d q seen)
  note q = level_queue_pop [OF 2(3)]
  show ?case
  proof (cases "c \<in> set seen \<or> m < int d")
    case True
    then show ?thesis using 2(1) [OF True q] reaches_not [OF True] by auto
  next
    case False
    let ?new = "map (\<lambda>(e, y). (y, Suc d)) (edge_steps es c)"
    have new: "i \<in> set ?new \<longleftrightarrow> (\<exists>y. i = (y, Suc d) \<and> adjacent es c y)" for i
      by (force simp: steps_adjacent [symmetric])
    have "level_queue snd (q @ ?new)" by (rule level_queue_push [OF 2(3)]) auto
    then have IH: "x \<in> set (fst (related es m (q @ ?new) (c # seen))) \<longleftrightarrow> (\<exists>i \<in> set (q @ ?new). reaches es m (c # seen) i x)"
      by (rule 2(2) [OF False])
    have l: "x \<in> set (fst (related es m ((c, d) # q) seen)) \<longleftrightarrow> x = c \<or> (\<exists>i \<in> set (q @ ?new). reaches es m (c # seen) i x)"
      using False IH by (auto simp: case_prod_unfold)
    have fewer: "reaches es m (c # seen) i x \<Longrightarrow> reaches es m seen i x" for i
      by (cases i) (auto simp: reaches_def)
    have "x = c \<Longrightarrow> reaches es m seen (c, d) x" using False by (simp add: reaches_here)
    moreover have "adjacent es c y \<Longrightarrow> reaches es m (c # seen) (y, Suc d) x \<Longrightarrow> reaches es m seen (c, d) x" for y
      using False by (blast intro: reaches_step)
    moreover have "i \<in> set ((c, d) # q) \<Longrightarrow> reaches es m seen i x \<Longrightarrow> x = c \<or> (\<exists>i \<in> set (q @ ?new). reaches es m (c # seen) i x)" for i
    proof -
      assume i: "i \<in> set ((c, d) # q)" "reaches es m seen i x"
      obtain c' d' where cd: "i = (c', d')" by (cases i)
      have "d \<le> d'" using i(1) cd level_queue_head [OF 2(3), of i] by auto
      from reaches_split [OF i(2) [unfolded cd] this] False
      consider "reaches es m (c # seen) i x" | "x = c" | y where "adjacent es c y" "reaches es m (c # seen) (y, Suc d) x"
        unfolding cd by blast
      then show ?thesis
      proof cases
        case 1
        then have "i \<noteq> (c, d)" using reaches_not [of c "c # seen" m d es x] by auto
        then show ?thesis using 1 i(1) by auto
      next
        case 3
        then show ?thesis using new by (metis Un_iff set_append)
      qed simp
    qed
    ultimately show ?thesis unfolding l using new fewer by (metis Un_iff list.set_intros(1,2) set_append)
  qed
qed simp

lemma related_distinct: "distinct (fst (related es m q seen)) \<and> set (fst (related es m q seen)) \<inter> set seen = {}"
  by (induction es m q seen rule: related.induct) (auto simp: case_prod_unfold)

lemma related_edges: "snd (related es m q seen) = concat (map (\<lambda>c. filter (\<lambda>e. ge_source e = c \<or> ge_target e = c) es) (fst (related es m q seen)))"
  by (induction es m q seen rule: related.induct) (auto simp: case_prod_unfold steps_edges)

text \<open>A node is filed under its own id.\<close>

definition own_keys :: "(string, graph_node) dict \<Rightarrow> bool" where
  "own_keys d \<longleftrightarrow> (\<forall>k n. map_of d k = Some n \<longrightarrow> gn_id n = k)"

lemma known_set: "set (known g cs) = {n. \<exists>c \<in> set cs. map_of (kg_nodes g) c = Some n}"
  by (induction cs) (auto simp: known_def List.map_filter_simps split: option.splits)

lemma reaches_near: "reaches es m [] (a, 0) x \<longleftrightarrow> near es m a x"
  by (simp add: reaches_def near_def)

text \<open>
  C27: What is related to a node is what is near it: each node that a walk of at most \<open>m\<close> edges reaches is
  given once and no other is, and the edges given are those that have an end at a node so near, whether it
  is one of the graph's nodes or only named by an edge.
\<close>

theorem related_is_near:
  assumes "get_related g a m = (ns, fs)" "own_keys (kg_nodes g)"
  shows "distinct (map gn_id ns)
    \<and> set ns = {n. map_of (kg_nodes g) (gn_id n) = Some n \<and> near (kg_edges g) m a (gn_id n)}
    \<and> set fs = {e \<in> set (kg_edges g). near (kg_edges g) m a (ge_source e) \<or> near (kg_edges g) m a (ge_target e)}"
proof -
  let ?cs = "fst (related (kg_edges g) m [(a, 0)] [])"
  have visited: "x \<in> set ?cs \<longleftrightarrow> near (kg_edges g) m a x" for x
    using related_visits [of "[(a, 0)]" x "kg_edges g" m "[]"] by (simp add: level_queue_def reaches_near)
  have ns: "ns = known g ?cs" and fs: "fs = snd (related (kg_edges g) m [(a, 0)] [])"
    using assms(1) by (simp_all add: get_related_def case_prod_unfold)
  have key: "map_of (kg_nodes g) k = Some n \<Longrightarrow> gn_id n = k" for k n
    using assms(2) by (simp add: own_keys_def)
  have "map gn_id (known g cs) = filter (\<lambda>c. map_of (kg_nodes g) c \<noteq> None) cs" for cs
    by (induction cs) (auto simp: known_def List.map_filter_simps key split: option.splits)
  then have "distinct (map gn_id ns)" using related_distinct [of "kg_edges g" m "[(a, 0)]" "[]"] by (simp add: ns)
  moreover have "set ns = {n. map_of (kg_nodes g) (gn_id n) = Some n \<and> near (kg_edges g) m a (gn_id n)}"
    unfolding ns known_set by (rule Collect_cong) (metis visited key)
  moreover have "set fs = {e \<in> set (kg_edges g). near (kg_edges g) m a (ge_source e) \<or> near (kg_edges g) m a (ge_target e)}"
    unfolding fs related_edges using visited by (auto simp del: related.simps)
  ultimately show ?thesis by blast
qed

section \<open>Shortest paths first\<close>

definition extends :: "graph_edge list \<Rightarrow> string list \<Rightarrow> string list \<Rightarrow> bool" where
  "extends es p p' \<longleftrightarrow> (\<exists>r. p' = p @ r \<and> walk es (last p # r) \<and> distinct r \<and> set r \<inter> set p = {})"

lemma extends_refl: "extends es p p"
  by (simp add: extends_def)

lemma in_extensions: "p' \<in> set (extensions es p) \<longleftrightarrow> (\<exists>x. p' = p @ [x] \<and> adjacent es (last p) x \<and> x \<notin> set p)"
  by (force simp: extensions_def steps_adjacent [symmetric])

lemma extends_iff: "extends es p p' \<longleftrightarrow> p' = p \<or> (\<exists>p1 \<in> set (extensions es p). extends es p1 p')"
proof
  assume "extends es p p'"
  then obtain r where r: "p' = p @ r" "walk es (last p # r)" "distinct r" "set r \<inter> set p = {}" by (auto simp: extends_def)
  show "p' = p \<or> (\<exists>p1 \<in> set (extensions es p). extends es p1 p')"
  proof (cases r)
    case (Cons x s)
    then have "p @ [x] \<in> set (extensions es p)" "extends es (p @ [x]) p'" using r by (auto simp: in_extensions extends_def)
    then show ?thesis by blast
  qed (use r in simp)
next
  assume "p' = p \<or> (\<exists>p1 \<in> set (extensions es p). extends es p1 p')"
  then show "extends es p p'"
  proof
    assume "\<exists>p1 \<in> set (extensions es p). extends es p1 p'"
    then obtain x r where "adjacent es (last p) x" "x \<notin> set p" "p' = (p @ [x]) @ r" "walk es (x # r)" "distinct r" "set r \<inter> set (p @ [x]) = {}"
      by (auto simp: in_extensions extends_def)
    then show ?thesis by (auto simp: extends_def intro!: exI [of _ "x # r"])
  qed (simp add: extends_refl)
qed

lemma extends_end: "extends es p p' \<Longrightarrow> last p' = t \<Longrightarrow> last p = t \<Longrightarrow> p \<noteq> [] \<Longrightarrow> p' = p"
  by (auto simp: extends_def last_append disjoint_iff split: if_split_asm) (metis last_in_set)

lemma paths_to_set:
  "[] \<notin> set q \<Longrightarrow> p' \<in> set (paths_to es t q) \<longleftrightarrow> (\<exists>p \<in> set q. extends es p p' \<and> last p' = t)"
proof (induction es t q rule: paths_to.induct)
  case (2 es t p q)
  show ?case
  proof (cases "last p = t")
    case True
    then show ?thesis using 2(1) [OF True] 2(3) extends_end [of es p p' t] by (auto simp: extends_refl)
  next
    case False
    have "[] \<notin> set (q @ extensions es p)" using 2(3) by (auto simp: in_extensions)
    from 2(2) [OF False this] show ?thesis using False extends_iff [of es p p'] by auto
  qed
qed simp

lemma paths_to_sorted:
  "level_queue length q \<Longrightarrow> sorted (map length (paths_to es t q)) \<and> (\<forall>p \<in> set (paths_to es t q). q \<noteq> [] \<and> length (hd q) \<le> length p)"
proof (induction es t q rule: paths_to.induct)
  case (2 es t p q)
  show ?case
  proof (cases "last p = t")
    case True
    have IH: "sorted (map length (paths_to es t q))" "\<forall>p \<in> set (paths_to es t q). q \<noteq> [] \<and> length (hd q) \<le> length p"
      using 2(1) [OF True level_queue_pop [OF 2(3)]] by auto
    have "length p \<le> length (hd q)" if "q \<noteq> []" using level_queue_head [OF 2(3)] that by simp
    then show ?thesis using True IH by fastforce
  next
    case False
    have "level_queue length (q @ extensions es p)" by (rule level_queue_push [OF 2(3)]) (auto simp: in_extensions)
    from 2(2) [OF False this] have IH: "sorted (map length (paths_to es t (q @ extensions es p)))"
      "\<forall>r \<in> set (paths_to es t (q @ extensions es p)). q @ extensions es p \<noteq> [] \<and> length (hd (q @ extensions es p)) \<le> length r" by auto
    have "length p \<le> length (hd (q @ extensions es p))" if "q @ extensions es p \<noteq> []"
      using level_queue_head [OF 2(3)] that by (cases q) (auto simp: in_extensions dest!: hd_in_set)
    then show ?thesis using False IH by fastforce
  qed
qed simp

text \<open>
  C28: The search for paths ends, and what it gives are the first five of a list that holds exactly the simple
  walks from the one node to the other, the shortest before the longer.
\<close>

theorem find_path_shortest_first:
  "\<exists>ps. find_path g a t = take 5 ps \<and> sorted (map length ps)
    \<and> set ps = {p. walk (kg_edges g) p \<and> distinct p \<and> p \<noteq> [] \<and> hd p = a \<and> last p = t}"
proof -
  let ?ps = "paths_to (kg_edges g) t [[a]]"
  have "sorted (map length ?ps)" using paths_to_sorted [of "[[a]]" "kg_edges g" t] by (simp add: level_queue_def)
  moreover have "p \<in> set ?ps \<longleftrightarrow> walk (kg_edges g) p \<and> distinct p \<and> p \<noteq> [] \<and> hd p = a \<and> last p = t" for p
    using paths_to_set [of "[[a]]" p "kg_edges g" t] by (cases p) (auto simp: extends_def simp del: paths_to.simps)
  ultimately show ?thesis by (intro exI [of _ ?ps]) (auto simp: find_path_def simp del: paths_to.simps)
qed

section \<open>What a search finds\<close>

definition words_indexed :: "knowledge_graph \<Rightarrow> bool" where
  "words_indexed g \<longleftrightarrow> wf_dict (kg_nodes g) \<and> own_keys (kg_nodes g) \<and> kg_index g = kg_index (rebuild_index g)"

lemma index_word_ids: "i \<in> set (ids_of (index_word j w idx) v) \<longleftrightarrow> i \<in> set (ids_of idx v) \<or> i = j \<and> v = w"
  by (auto simp: index_word_def ids_of_def split: option.splits)

lemma index_words_ids: "i \<in> set (ids_of (fold (index_word j) ws idx) v) \<longleftrightarrow> i \<in> set (ids_of idx v) \<or> i = j \<and> v \<in> set ws"
  by (induction ws arbitrary: idx) (auto simp: index_word_ids)

lemma index_nodes_ids:
  "i \<in> set (ids_of (fold (index_node \<circ> snd) kns idx) v) \<longleftrightarrow> i \<in> set (ids_of idx v) \<or> (\<exists>k n. (k, n) \<in> set kns \<and> i = gn_id n \<and> v \<in> set (node_words n))"
  by (induction kns arbitrary: idx) (auto simp: index_node_def index_words_ids, blast)

lemma no_ids: "ids_of [] v = []"
  by (simp add: ids_of_def)

lemma indexed_iff:
  assumes "words_indexed g"
  shows "i \<in> set (ids_of (kg_index g) v) \<longleftrightarrow> (\<exists>n. map_of (kg_nodes g) i = Some n \<and> v \<in> set (node_words n))"
proof -
  have look: "(i, n) \<in> set (kg_nodes g) \<longleftrightarrow> map_of (kg_nodes g) i = Some n" for i n
    using assms by (auto simp: words_indexed_def dict_get_in dest: map_of_SomeD)
  have "kg_index g = fold (index_node \<circ> snd) (kg_nodes g) []" using assms by (simp add: words_indexed_def rebuild_index_def)
  then have "i \<in> set (ids_of (kg_index g) v) \<longleftrightarrow> (\<exists>k n. map_of (kg_nodes g) k = Some n \<and> i = gn_id n \<and> v \<in> set (node_words n))"
    using index_nodes_ids [of i "kg_nodes g" "[]" v] by (simp add: no_ids look [symmetric])
  also have "\<dots> \<longleftrightarrow> (\<exists>n. map_of (kg_nodes g) i = Some n \<and> v \<in> set (node_words n))"
  proof -
    have key: "gn_id n = k" if "map_of (kg_nodes g) k = Some n" for k n
      using assms that by (simp add: words_indexed_def own_keys_def)
    show ?thesis by (intro iffI; elim exE conjE; frule key; auto)
  qed
  finally show ?thesis .
qed

lemma own_keys_set: "own_keys d \<Longrightarrow> own_keys (dict_set (gn_id n) n d)"
  by (auto simp: own_keys_def)

lemma fold_own_keys: "own_keys d \<Longrightarrow> wf_dict d \<Longrightarrow> own_keys (fold (\<lambda>n. dict_set (gn_id n) n) ns d) \<and> wf_dict (fold (\<lambda>n. dict_set (gn_id n) n) ns d)"
  by (induction ns arbitrary: d) (auto simp: own_keys_set)

lemma rebuild_indexed: "wf_dict (kg_nodes g) \<Longrightarrow> own_keys (kg_nodes g) \<Longrightarrow> words_indexed (rebuild_index g)"
  by (simp add: words_indexed_def rebuild_index_def)

lemma save_indexed: "words_indexed (save_graph g) = words_indexed g"
  by (simp add: words_indexed_def save_graph_def rebuild_index_def)

lemma add_node_indexed: "words_indexed g \<Longrightarrow> words_indexed (add_graph_node n g)"
  unfolding add_graph_node_def save_indexed by (rule rebuild_indexed) (auto simp: words_indexed_def own_keys_set)

lemma add_edge_indexed: "words_indexed g \<Longrightarrow> words_indexed (add_graph_edge e g)"
  by (simp add: words_indexed_def add_graph_edge_def save_graph_def rebuild_index_def)

lemma no_keys: "own_keys []" "wf_dict []"
  by (simp_all add: own_keys_def wf_dict_def)

lemma load_indexed: "words_indexed (load_graph rn re sn se data)"
proof -
  have "wf_dict (fold (\<lambda>n. dict_set (gn_id n) n) ns [])" "own_keys (fold (\<lambda>n. dict_set (gn_id n) n) ns [])" for ns
    using fold_own_keys [OF no_keys] by auto
  then show ?thesis
    by (auto simp: load_graph_def seeded_def save_indexed Let_def case_prod_unfold intro!: rebuild_indexed)
qed

lemma with_every_iff: "ws \<noteq> [] \<Longrightarrow> i \<in> set (with_every idx ws) \<longleftrightarrow> (\<forall>w \<in> set ws. i \<in> set (ids_of idx w))"
  by (cases ws) (auto simp: with_every_def list_all_iff)

lemma with_some_iff: "i \<in> set (with_some idx ws) \<longleftrightarrow> (\<exists>w \<in> set ws. i \<in> set (ids_of idx w))"
  by (simp add: with_some_def)

text \<open>
  A search finds the nodes that contain every word of the query, or, where there is none, those that contain one of
  them: nothing else, at most ten, and all of them where there are fewer than ten.
\<close>

theorem search_finds:
  assumes "words_indexed g" "\<And>is. set (order is) = set is" "ws = split_words [] (lower query)" "ws \<noteq> []"
    "nodes = {n. map_of (kg_nodes g) (gn_id n) = Some n}"
    "hits = (if \<exists>n \<in> nodes. set ws \<subseteq> set (node_words n) then {n \<in> nodes. set ws \<subseteq> set (node_words n)}
       else {n \<in> nodes. set ws \<inter> set (node_words n) \<noteq> {}})"
  shows "length (graph_search order g query) \<le> 10 \<and> set (graph_search order g query) \<subseteq> hits
    \<and> (length (graph_search order g query) < 10 \<longrightarrow> set (graph_search order g query) = hits)"
proof -
  let ?every = "with_every (kg_index g) ws"
  let ?is = "if ?every = [] then with_some (kg_index g) ws else ?every"
  have key: "map_of (kg_nodes g) i = Some n \<Longrightarrow> gn_id n = i" for i n using assms(1) by (simp add: words_indexed_def own_keys_def)
  have own: "map_of (kg_nodes g) (gn_id n) = Some n" if "map_of (kg_nodes g) i = Some n" for i n using that key [OF that] by simp
  have every: "i \<in> set ?every \<longleftrightarrow> (\<exists>n. map_of (kg_nodes g) i = Some n \<and> set ws \<subseteq> set (node_words n))" for i
    using assms(4) by (cases ws) (auto simp: with_every_iff indexed_iff [OF assms(1)])
  have some: "i \<in> set (with_some (kg_index g) ws) \<longleftrightarrow> (\<exists>n. map_of (kg_nodes g) i = Some n \<and> set ws \<inter> set (node_words n) \<noteq> {})" for i
    by (auto simp: with_some_iff indexed_iff [OF assms(1)])
  have none: "?every = [] \<longleftrightarrow> \<not> (\<exists>n \<in> nodes. set ws \<subseteq> set (node_words n))"
  proof -
    have "?every = [] \<longleftrightarrow> (\<forall>i. i \<notin> set ?every)" by (cases ?every) auto
    also have "\<dots> \<longleftrightarrow> \<not> (\<exists>i n. map_of (kg_nodes g) i = Some n \<and> set ws \<subseteq> set (node_words n))" unfolding every by simp
    also have "\<dots> \<longleftrightarrow> \<not> (\<exists>n. map_of (kg_nodes g) (gn_id n) = Some n \<and> set ws \<subseteq> set (node_words n))" using own by blast
    finally show ?thesis by (simp add: assms(5))
  qed
  have hit: "{n. \<exists>i \<in> S. map_of (kg_nodes g) i = Some n} = {n \<in> nodes. Q n}"
    if "\<And>i. i \<in> S \<longleftrightarrow> (\<exists>n. map_of (kg_nodes g) i = Some n \<and> Q n)" for S Q
    unfolding assms(5) using that own by (intro set_eqI iffI) fastforce+
  have "set (known g (order ?is)) = {n. \<exists>i \<in> set ?is. map_of (kg_nodes g) i = Some n}" by (simp add: known_set assms(2))
  also have "\<dots> = hits"
  proof (cases "?every = []")
    case True
    then have h: "hits = {n \<in> nodes. set ws \<inter> set (node_words n) \<noteq> {}}" using none assms(6) by simp
    show ?thesis unfolding h using True hit [OF some] by simp
  next
    case False
    then have h: "hits = {n \<in> nodes. set ws \<subseteq> set (node_words n)}" using none assms(6) by simp
    show ?thesis unfolding h using False hit [OF every] by simp
  qed
  finally have all: "set (known g (order ?is)) = hits" .
  have s: "graph_search order g query = take 10 (known g (order ?is))"
    using assms(3,4) by (simp add: graph_search_def Let_def)
  show ?thesis unfolding s using all set_take_subset [of 10 "known g (order ?is)"] by auto
qed

section \<open>The techniques are seeded once\<close>

lemma add_node_keys: "set (map fst (kg_nodes (add_graph_node n g))) = insert (gn_id n) (set (map fst (kg_nodes g)))"
  using keys_dict_set [of "gn_id n" n "kg_nodes g"]
  by (simp add: add_graph_node_def save_graph_def rebuild_index_def)

lemma seed_fold_keys:
  "set (map fst (kg_nodes (fold (\<lambda>t g'. if ''attack-'' @ at_id t \<in> K then g' else add_graph_node (attack_node now t) g') ts g)))
    = set (map fst (kg_nodes g)) \<union> {''attack-'' @ at_id t | t. t \<in> set ts \<and> ''attack-'' @ at_id t \<notin> K}"
proof (induction ts arbitrary: g)
  case (Cons t ts)
  have "gn_id (attack_node now t) = ''attack-'' @ at_id t" by (simp add: attack_node_def)
  then show ?case using Cons.IH add_node_keys [of "attack_node now t" g] by auto
qed simp

lemma seed_fold_known: "(\<forall>t \<in> set ts. ''attack-'' @ at_id t \<in> K)
  \<Longrightarrow> fold (\<lambda>t g'. if ''attack-'' @ at_id t \<in> K then g' else add_graph_node (attack_node now t) g') ts g = g"
  by (induction ts) auto

lemma seeded_once: "seed_attack later (seed_attack now g) = seed_attack now g"
  unfolding seed_attack_def [of later] Let_def
  by (rule seed_fold_known) (auto simp: seed_attack_def Let_def seed_fold_keys [simplified])

lemma seed_indexed: "words_indexed g \<Longrightarrow> words_indexed (seed_attack now g)"
proof -
  have "words_indexed g \<Longrightarrow> words_indexed (fold (\<lambda>t g'. if ''attack-'' @ at_id t \<in> K then g' else add_graph_node (attack_node now t) g') ts g)" for K ts
    by (induction ts arbitrary: g) (auto simp: add_node_indexed)
  then show "words_indexed g \<Longrightarrow> words_indexed (seed_attack now g)" by (simp add: seed_attack_def)
qed

section \<open>A concrete graph\<close>

definition note_of :: "string \<Rightarrow> string \<Rightarrow> graph_node" where
  "note_of i name = \<lparr>gn_id = i, gn_type = ''finding'', gn_name = name, gn_description = [], gn_properties = [], gn_source = ''internal'',
     gn_created = ''1''\<rparr>"

definition edge_of :: "string \<Rightarrow> string \<Rightarrow> graph_edge" where
  "edge_of a b = \<lparr>ge_source = a, ge_target = b, ge_relationship = ''uses'', ge_properties = []\<rparr>"

definition small_graph :: knowledge_graph where
  "small_graph = fold add_graph_edge [edge_of ''a'' ''b'', edge_of ''c'' ''b'', edge_of ''c'' ''d'']
     (fold add_graph_node [note_of ''a'' ''Web login'', note_of ''b'' ''Web form'', note_of ''c'' ''Mail'', note_of ''d'' ''Disk'']
       \<lparr>kg_nodes = [], kg_edges = [], kg_index = [], kg_file = None\<rparr>)"

lemma small_graph_indexed: "words_indexed small_graph"
proof -
  have "words_indexed \<lparr>kg_nodes = [], kg_edges = [], kg_index = [], kg_file = None\<rparr>"
    by (simp add: words_indexed_def rebuild_index_def no_keys)
  then show ?thesis by (simp add: small_graph_def add_node_indexed add_edge_indexed)
qed

lemma related_sample: "map gn_id (fst (get_related small_graph ''a'' 2)) = [''a'', ''b'', ''c'']"
  by code_simp

lemma related_is_near_witness:
  "near (kg_edges small_graph) 2 ''a'' ''c'' \<and> \<not> near (kg_edges small_graph) 2 ''a'' ''d''"
proof -
  obtain ns fs where r: "get_related small_graph ''a'' 2 = (ns, fs)" by (cases "get_related small_graph ''a'' 2")
  have i: "map gn_id ns = [''a'', ''b'', ''c'']" using related_sample r by simp
  have k: "own_keys (kg_nodes small_graph)" using small_graph_indexed by (simp add: words_indexed_def)
  have s: "set ns = {n. map_of (kg_nodes small_graph) (gn_id n) = Some n \<and> near (kg_edges small_graph) 2 ''a'' (gn_id n)}"
    using related_is_near [OF r k] by simp
  let ?d = "note_of ''d'' ''Disk''"
  have c: "''c'' \<in> gn_id ` set ns" and d: "''d'' \<notin> gn_id ` set ns" unfolding set_map [symmetric] i by simp_all
  from c have "near (kg_edges small_graph) 2 ''a'' ''c''" unfolding s by fastforce
  moreover have l: "gn_id ?d = ''d''" "map_of (kg_nodes small_graph) ''d'' = Some ?d" by (simp add: note_of_def) code_simp
  have "?d \<notin> set ns" using d l(1) by (metis image_eqI)
  then have "\<not> near (kg_edges small_graph) 2 ''a'' ''d''" unfolding s using l by simp
  ultimately show ?thesis ..
qed

lemma search_finds_witness: "map gn_id (graph_search rev small_graph ''web LOGIN'') = [''a''] \<and> length (graph_search rev small_graph ''web x'') = 2"
proof -
  let ?n = "{n. map_of (kg_nodes small_graph) (gn_id n) = Some n}"
  have w: "split_words [] (lower ''web x'') = [''web'', ''x'']" by code_simp
  have "length (graph_search rev small_graph ''web x'') \<le> 10"
    using search_finds [OF small_graph_indexed, of rev, OF _ w [symmetric] _ refl refl] by simp
  moreover have "map gn_id (graph_search rev small_graph ''web LOGIN'') = [''a'']" "length (graph_search rev small_graph ''web x'') = 2" by code_simp+
  ultimately show ?thesis by simp
qed

section \<open>What the code does not do\<close>

text \<open>An edge is reported at both of its ends, and parallel edges give a path twice.\<close>

lemma edges_repeated: "snd (get_related small_graph ''a'' 1) = [edge_of ''a'' ''b'', edge_of ''a'' ''b'', edge_of ''c'' ''b'']"
  by code_simp

lemma path_repeated: "find_path (add_graph_edge (edge_of ''b'' ''a'') small_graph) ''a'' ''b'' = [[''a'', ''b''], [''a'', ''b'']]"
  by code_simp

text \<open>A file with one entry that does not validate is read up to that entry, and the next change writes only that much.\<close>

lemma unreadable_rest_lost:
  "kg_file (add_graph_edge (edge_of ''x'' ''x'') (load_graph (\<lambda>v. case v of JStr i \<Rightarrow> Some (note_of i i) | _ \<Rightarrow> None) (\<lambda>v. None) [] []
     (Some (JDict [(''nodes'', JList [JStr ''a'', JNull, JStr ''b'']), (''edges'', JList [])])))) = Some ([note_of ''a'' ''a''], [edge_of ''x'' ''x''])"
  by code_simp

end
