(* ===== verification/LlmProvider.thy ===== *)
theory LlmProvider
  imports PyValue
begin

text \<open>
  The providers of \<open>kernel/provider.py\<close>: the accounting of tokens, the messages each sends, and OpenRouter's
  bounded retries. The HTTP clients are parameters: what a request gave, a reply or an exception with its status
  and its \<open>Retry-After\<close> header, is an argument, and \<open>int_of\<close> is \<open>int()\<close>, \<open>None\<close> where it raises a type or a value error.
\<close>

section \<open>Tokens\<close>

record token_usage =
  tu_last_prompt :: int
  tu_last_completion :: int
  tu_session :: int
  tu_prompt :: int
  tu_completion :: int

definition no_tokens :: token_usage where
  "no_tokens = \<lparr>tu_last_prompt = 0, tu_last_completion = 0, tu_session = 0, tu_prompt = 0, tu_completion = 0\<rparr>"

definition record_usage_counts :: "int \<Rightarrow> int \<Rightarrow> token_usage \<Rightarrow> token_usage" where
  "record_usage_counts p c u = \<lparr>tu_last_prompt = p, tu_last_completion = c, tu_session = tu_session u + (p + c),
     tu_prompt = tu_prompt u + p, tu_completion = tu_completion u + c\<rparr>"

text \<open>\<open>getattr(usage, a, None)\<close>, then \<open>getattr(usage, b, 0)\<close> where that is \<open>None\<close>; \<open>x or 0\<close>.\<close>

definition usage_field :: "jdict \<Rightarrow> string \<Rightarrow> string \<Rightarrow> jval" where
  "usage_field d a b = (case map_of d a of
     Some v \<Rightarrow> if v = JNull then (case map_of d b of Some w \<Rightarrow> w | None \<Rightarrow> JInt 0) else v
   | None \<Rightarrow> (case map_of d b of Some w \<Rightarrow> w | None \<Rightarrow> JInt 0))"

definition or_zero :: "jval \<Rightarrow> jval" where
  "or_zero v = (if truthy v then v else JInt 0)"

definition note_usage :: "(jval \<Rightarrow> int option) \<Rightarrow> jdict option \<Rightarrow> token_usage \<Rightarrow> token_usage" where
  "note_usage int_of usage u = (case usage of
     None \<Rightarrow> u
   | Some d \<Rightarrow> (case int_of (or_zero (usage_field d ''prompt_tokens'' ''input_tokens'')) of
       None \<Rightarrow> u
     | Some p \<Rightarrow> (case int_of (or_zero (usage_field d ''completion_tokens'' ''output_tokens'')) of
         None \<Rightarrow> u
       | Some c \<Rightarrow> record_usage_counts p c u)))"

section \<open>Messages\<close>

type_synonym chat_message = jdict

definition message_of :: "string \<Rightarrow> string \<Rightarrow> chat_message" where
  "message_of role content = [(''role'', JStr role), (''content'', JStr content)]"

definition complete_messages :: "string \<Rightarrow> string option \<Rightarrow> chat_message list" where
  "complete_messages prompt system =
     (case system of Some s \<Rightarrow> if s = [] then [] else [message_of ''system'' s] | None \<Rightarrow> []) @ [message_of ''user'' prompt]"

text \<open>Anthropic and Bedrock take the system prompts apart from the conversation.\<close>

definition is_system :: "chat_message \<Rightarrow> bool" where
  "is_system m = (map_of m ''role'' = Some (JStr ''system''))"

definition system_texts :: "chat_message list \<Rightarrow> string list res" where
  "system_texts ms = map_res (\<lambda>m. case map_of m ''content'' of
     Some (JStr s) \<Rightarrow> Inr s | Some _ \<Rightarrow> Inl (TypeError ''content'') | None \<Rightarrow> Inl (KeyError ''content'')) (filter is_system ms)"

definition split_system :: "chat_message list \<Rightarrow> (string \<times> chat_message list) res" where
  "split_system ms = res_bind (system_texts ms) (\<lambda>ss.
     Inr (join_with [CHR 0x0A, CHR 0x0A] ss, filter (\<lambda>m. \<not> is_system m) ms))"

section \<open>OpenRouter\<close>

datatype chat_reply = Replied "jdict option" string "jval option" | ReplyFailed "int option" "pyfloat option" py_error

record openrouter =
  or_usage :: token_usage
  or_last :: "chat_message option"

definition retryable_status :: "int list" where
  "retryable_status = [429, 500, 502, 503, 529]"

definition max_retries :: nat where
  "max_retries = 4"

definition token_char :: "char \<Rightarrow> bool" where
  "token_char c = (c \<notin> {CHR ''<'', CHR ''>'', CHR ''|'', CHR 0x0D, CHR 0x0A})"

text \<open>A match of the special token pattern: the text after it.\<close>

definition special_token :: "string \<Rightarrow> string option" where
  "special_token s =
     (let body = takeWhile token_char (drop 2 s); rest = dropWhile token_char (drop 2 s) in
      if starts_with s ''<|'' \<and> body \<noteq> [] \<and> length body \<le> 80 \<and> starts_with rest ''|>'' then Some (drop 2 rest) else None)"

lemma special_token_shorter: "special_token s = Some r \<Longrightarrow> length r < length s"
proof -
  assume a: "special_token s = Some r"
  then have "r = drop 2 (dropWhile token_char (drop 2 s))" "s \<noteq> []"
    by (auto simp: special_token_def Let_def starts_with_def split: if_split_asm)
  then show ?thesis using length_dropWhile_le [of token_char "drop 2 s"] by (cases s) auto
qed

function without_tokens :: "string \<Rightarrow> string" where
  "without_tokens s = (case special_token s of
     Some r \<Rightarrow> without_tokens r
   | None \<Rightarrow> (case s of [] \<Rightarrow> [] | c # cs \<Rightarrow> c # without_tokens cs))"
  by pat_completeness auto
termination by (relation "measure length") (auto dest: special_token_shorter)

declare without_tokens.simps [simp del]

definition has_usable_content :: "string \<Rightarrow> bool" where
  "has_usable_content s = (strip (without_tokens s) \<noteq> [])"

text \<open>The seconds before the next attempt: the server's hint where it is a number, else a doubling pause.\<close>

definition retry_delay :: "pyfloat option \<Rightarrow> nat \<Rightarrow> pyfloat" where
  "retry_delay header k = (case header of
     Some (Fin q) \<Rightarrow> Fin (max 0 q) | Some PosInf \<Rightarrow> PosInf | Some _ \<Rightarrow> Fin 0 | None \<Rightarrow> Fin (of_nat (min (2 ^ k) 8)))"

definition unusable_delay :: "nat \<Rightarrow> pyfloat" where
  "unusable_delay k = Fin (min (1 / 4 * 2 ^ k) 2)"

definition history_entry :: "string \<Rightarrow> jval option \<Rightarrow> chat_message" where
  "history_entry content details = message_of ''assistant'' content
     @ (case details of None \<Rightarrow> [] | Some v \<Rightarrow> [(''reasoning_details'', v)])"

text \<open>The loop from attempt \<open>k\<close>, with \<open>n\<close> attempts left: the result, the state and the pauses made.\<close>

fun chat_attempts ::
  "(jval \<Rightarrow> int option) \<Rightarrow> (nat \<Rightarrow> chat_reply) \<Rightarrow> nat \<Rightarrow> nat \<Rightarrow> openrouter \<Rightarrow> string res \<times> openrouter \<times> pyfloat list" where
  "chat_attempts int_of reply k 0 st = (Inl (RuntimeError ''OpenRouter retry loop exited unexpectedly''), st, [])"
| "chat_attempts int_of reply k (Suc n) st = (case reply k of
     Replied usage content details \<Rightarrow>
       (let st1 = st\<lparr>or_usage := note_usage int_of usage (or_usage st)\<rparr> in
        if has_usable_content content then (Inr content, st1\<lparr>or_last := Some (history_entry content details)\<rparr>, [])
        else if n = 0 then (Inl (RuntimeError (''OpenRouter returned no usable response after '' @ show_nat max_retries @ '' attempts'')), st1, [])
        else (case chat_attempts int_of reply (Suc k) n st1 of (r, st2, ps) \<Rightarrow> (r, st2, unusable_delay k # ps)))
   | ReplyFailed status header e \<Rightarrow>
       if (case status of None \<Rightarrow> True | Some c \<Rightarrow> c \<notin> set retryable_status) \<or> n = 0 then (Inl e, st, [])
       else (case chat_attempts int_of reply (Suc k) n st of (r, st2, ps) \<Rightarrow> (r, st2, retry_delay header k # ps)))"

definition openrouter_chat ::
  "(jval \<Rightarrow> int option) \<Rightarrow> bool \<Rightarrow> (nat \<Rightarrow> chat_reply) \<Rightarrow> openrouter \<Rightarrow> string res \<times> openrouter \<times> pyfloat list" where
  "openrouter_chat int_of configured reply st =
     (if \<not> configured then (Inr ''[OpenRouter not configured - set OPENROUTER_API_KEY]'', st, [])
      else chat_attempts int_of reply 0 max_retries (st\<lparr>or_last := None\<rparr>))"

definition assistant_message :: "openrouter \<Rightarrow> string \<Rightarrow> chat_message" where
  "assistant_message st content = (case or_last st of
     Some h \<Rightarrow> if map_of h ''content'' = Some (JStr content) then h else message_of ''assistant'' content
   | None \<Rightarrow> message_of ''assistant'' content)"

section \<open>The other providers\<close>

text \<open>One request each, whose exception is raised on; \<open>None\<close> is a client that could not be built.\<close>

definition single_request ::
  "(jval \<Rightarrow> int option) \<Rightarrow> string \<Rightarrow> (unit \<Rightarrow> chat_reply) option \<Rightarrow> token_usage \<Rightarrow> string res \<times> token_usage" where
  "single_request int_of unconfigured client u = (case client of
     None \<Rightarrow> (Inr unconfigured, u)
   | Some call \<Rightarrow> (case call () of
       Replied usage content details \<Rightarrow> (Inr content, note_usage int_of usage u)
     | ReplyFailed status header e \<Rightarrow> (Inl e, u)))"

text \<open>\<open>OpenAIProvider.chat\<close> makes the call without asking whether there is a client.\<close>

definition openai_chat :: "(jval \<Rightarrow> int option) \<Rightarrow> (unit \<Rightarrow> chat_reply) option \<Rightarrow> token_usage \<Rightarrow> string res \<times> token_usage" where
  "openai_chat int_of client u = (case client of
     None \<Rightarrow> (Inl (AttributeError ''chat''), u) | Some call \<Rightarrow> single_request int_of [] client u)"

definition provider_classes :: "string list" where
  "provider_classes = [''openrouter'', ''openai'', ''anthropic'', ''mistral'', ''bedrock'']"

definition create_provider :: "string \<Rightarrow> string res" where
  "create_provider name = (if lower name \<in> set provider_classes then Inr (lower name)
     else Inl (ValueError (''Unknown provider: '' @ name @ ''. Available: ['' @ join_with '', '' (map quoted provider_classes) @ '']'')))"

section \<open>What a chat guarantees\<close>

text \<open>A reply that is not the last: unusable content, or a failure with a retryable status.\<close>

definition passed_over :: "chat_reply \<Rightarrow> bool" where
  "passed_over r = (case r of Replied usage content details \<Rightarrow> \<not> has_usable_content content
     | ReplyFailed status header e \<Rightarrow> (case status of None \<Rightarrow> False | Some c \<Rightarrow> c \<in> set retryable_status))"

lemma chat_attempts_ends:
  assumes "chat_attempts int_of reply k n st = (r, st', ps)" "0 < n"
  shows "length ps < n \<and> (\<forall>i < length ps. passed_over (reply (k + i)))
    \<and> (case r of
         Inr c \<Rightarrow> has_usable_content c \<and> (\<exists>usage details. reply (k + length ps) = Replied usage c details
           \<and> or_last st' = Some (history_entry c details))
       | Inl e \<Rightarrow> (passed_over (reply (k + length ps)) \<longrightarrow> length ps = n - 1)
           \<and> (or_last st' = or_last st))"
  using assms
proof (induction n arbitrary: k st r st' ps)
  case 0
  then show ?case by simp
next
  case (Suc n)
  have next_step: ?case if c: "chat_attempts int_of reply (Suc k) n st1 = (r, st', qs)" "ps = p # qs" "passed_over (reply k)" "n \<noteq> 0"
    "or_last st1 = or_last st" for st1 p qs
  proof -
    from Suc.IH [OF c(1)] c(4) have ih: "length qs < n \<and> (\<forall>i < length qs. passed_over (reply (Suc k + i)))
      \<and> (case r of
         Inr c \<Rightarrow> has_usable_content c \<and> (\<exists>usage details. reply (Suc k + length qs) = Replied usage c details
           \<and> or_last st' = Some (history_entry c details))
       | Inl e \<Rightarrow> (passed_over (reply (Suc k + length qs)) \<longrightarrow> length qs = n - 1) \<and> (or_last st' = or_last st1))" by simp
    have "passed_over (reply (k + i))" if "i < length ps" for i
      using that c(2,3) ih by (cases i) auto
    with ih c(2,4,5) show ?thesis by (auto split: sum.splits)
  qed
  show ?case
  proof (cases "reply k")
    case (Replied usage content details)
    then show ?thesis using Suc.prems next_step [of "st\<lparr>or_usage := note_usage int_of usage (or_usage st)\<rparr>"]
      by (auto simp: Let_def passed_over_def split: if_split_asm prod.splits)
  next
    case (ReplyFailed status header e)
    then show ?thesis using Suc.prems next_step [of st]
      by (auto simp: passed_over_def split: if_split_asm prod.splits option.splits)
  qed
qed

text \<open>
  A chat makes at most four requests. It returns only a content that is more than special tokens, the content of its
  last request, which is then what the history keeps; it goes on only after an unusable reply or a retryable failure,
  and gives up only when the last failure is not retryable or the fourth request has failed.
\<close>
theorem chat_bounded:
  assumes "openrouter_chat int_of True reply st = (r, st', ps)"
  shows "length ps < 4 \<and> (\<forall>i < length ps. passed_over (reply i))
    \<and> (case r of
         Inr c \<Rightarrow> has_usable_content c \<and> (\<exists>usage details. reply (length ps) = Replied usage c details
           \<and> assistant_message st' c = history_entry c details)
       | Inl e \<Rightarrow> (passed_over (reply (length ps)) \<longrightarrow> length ps = 3) \<and> assistant_message st' = message_of ''assistant'')"
proof -
  from assms have "chat_attempts int_of reply 0 max_retries (st\<lparr>or_last := None\<rparr>) = (r, st', ps)" by (simp add: openrouter_chat_def)
  from chat_attempts_ends [OF this] show ?thesis
    by (auto simp: max_retries_def assistant_message_def history_entry_def message_of_def fun_eq_iff split: sum.splits)
qed

definition two_replies :: "nat \<Rightarrow> chat_reply" where
  "two_replies k = (if k = 0 then ReplyFailed (Some 429) None (RuntimeError ''limit'')
     else if k = 1 then Replied None ''<|end|> '' None else Replied None ''done'' None)"

lemma chat_bounded_witness:
  "\<exists>st. openrouter_chat (\<lambda>v. None) True two_replies \<lparr>or_usage = no_tokens, or_last = None\<rparr> = (Inr ''done'', st, [Fin 1, Fin (1 / 2)])
     \<and> has_usable_content ''done'' \<and> assistant_message st ''done'' = history_entry ''done'' None"
proof -
  have u: "has_usable_content ''done''" "\<not> has_usable_content ''<|end|> ''" by code_simp+
  obtain r st ps where c: "openrouter_chat (\<lambda>v. None) True two_replies \<lparr>or_usage = no_tokens, or_last = None\<rparr> = (r, st, ps)"
    by (metis prod_cases3)
  then have r: "r = Inr ''done''" "ps = [Fin 1, Fin (1 / 2)]"
    using u by (auto simp: openrouter_chat_def max_retries_def numeral_eq_Suc two_replies_def retryable_status_def retry_delay_def
        unusable_delay_def Let_def)
  from chat_bounded [OF c] r have "\<exists>usage details. two_replies 2 = Replied usage ''done'' details
      \<and> assistant_message st ''done'' = history_entry ''done'' details" by (simp add: numeral_2_eq_2)
  then have "assistant_message st ''done'' = history_entry ''done'' None" by (auto simp: two_replies_def)
  with c r u(1) show ?thesis by blast
qed

lemma openai_chat_raises: "openai_chat int_of None u = (Inl (AttributeError ''chat''), u)"
  by (simp add: openai_chat_def)

end
