(* ===== verification/Spec2Isabelle.thy ===== *)
theory Spec2Isabelle
  imports RunReplan LoopProps HostCommands AgentWiring Executors ModelRouting MemoryLayers ReconStore KnowledgeGraph LlmProvider
begin

text \<open>
  A verification library of the governed core of \<open>decode\<close>, the Python package under
  \<open>src/src/decode\<close>. A model proposes actions there; the runtime decides what is done. The library
  models the code that decides, records and resumes, from the data model up to the entry points, and
  proves what makes it trustworthy: nothing runs ungoverned, success is never claimed without evidence,
  a stop is final, and a decision is spent once.

  \<^bold>\<open>The program and its parts.\<close> A user's goal becomes a typed mission. The Core planner selects a
  reviewed workflow for it and issues decisions, one stage at a time; the durable runner enacts them over
  the SQLite store; an agent stage runs a bounded tool-use loop or a single read action; every tool call
  goes through the execution coordinator, which asks the governance gate and, when needed, the human, and
  launches an operation; operations on the host come from the host controller, which resolves,
  binds and rechecks a command before the coordinator starts it, through the execution provider that is
  configured. Which model answers is the decision of the model router; what is remembered of a project, and what
  was found on a target, is kept in further tables of the same store. The theories, in the order of their imports:

  \<^item> \<open>Prelude\<close>, \<open>PyValue\<close>: the Python errors and the result type \<open>py_error + 'a\<close> in which every raise
    is a branch, insertion-ordered dictionaries, string methods; JSON-shaped values with Python's truth,
    equality and integer conversion. Strings hold the code points below 256; integers are unbounded, as
    in Python, and a finite float is a rational number.
  \<^item> \<open>Risk\<close>: \<open>skills/base.py\<close> (risk levels) and \<open>agents/descriptor.py\<close> (capability envelopes, delegation).
  \<^item> \<open>NetScope\<close>, \<open>HostPolicy\<close>, \<open>Governance\<close>: \<open>governance/scope.py\<close>, \<open>hostcontrol/policy.py\<close>,
    \<open>governance/gate.py\<close>, \<open>hostcontrol/hooks.py\<close>, \<open>kernel/safety.py\<close>, \<open>observability/audit.py\<close>.
  \<^item> \<open>Dag\<close>, \<open>TaskState\<close>: \<open>planner/dag.py\<close> and \<open>schema/task_state.py\<close>.
  \<^item> \<open>WorkflowModels\<close>, \<open>CoreModels\<close>, \<open>CorePlanner\<close>: \<open>workflows/models.py\<close> and \<open>workflows/registry.py\<close>.
  \<^item> \<open>Evidence\<close>, \<open>PlanStore\<close>, \<open>TaskStore\<close>: \<open>persistence/evidence.py\<close>, \<open>persistence/store.py\<close> with
    \<open>persistence/manager.py\<close>, and \<open>schema/store.py\<close>.
  \<^item> \<open>HostOps\<close>, \<open>Provider\<close>, \<open>HostState\<close>: \<open>hostcontrol/operations.py\<close>, \<open>execution/base.py\<close>, and
    \<open>hostcontrol/session.py\<close> with the fields of the host controller.
  \<^item> \<open>Coordinator\<close>: \<open>runtime/coordinator.py\<close>. Its \<open>world\<close> holds the request, the gate, the audit log,
    the evidence vault, the clock and the host state; \<open>services\<close> are its callbacks.
  \<^item> \<open>ActiveRuntime\<close>: \<open>workflows/agent_executor.py\<close>.
  \<^item> \<open>Runner\<close>, \<open>RunFrame\<close>, \<open>RunHalt\<close>, \<open>RunSamples\<close>, \<open>RunProps\<close>, \<open>RunReplan\<close>: \<open>workflows/runner.py\<close>,
    its frame, a stored mission to run on, and its guarantees.
  \<^item> \<open>Shlex\<close>, \<open>Capabilities\<close>, \<open>CapRegistry\<close>: \<open>shlex.split\<close>, and the modules of \<open>capabilities/\<close>.
  \<^item> \<open>LlmReply\<close>, \<open>AgentLoop\<close>, \<open>LoopProps\<close>: \<open>utils.py\<close> (reply parsing), \<open>runtime/agent_loop.py\<close> and
    \<open>verification/verifier.py\<close>.
  \<^item> \<open>HostAgent\<close>, \<open>HostControl\<close>, \<open>HostSessions\<close>, \<open>HostProps\<close>, \<open>HostCommands\<close>: \<open>agents/base.py\<close>,
    \<open>agents/host.py\<close> and \<open>runtime/host_controller.py\<close>.
  \<^item> \<open>Executors\<close>: the execution providers \<open>execution/local.py\<close>, \<open>ssh.py\<close>, \<open>wsl.py\<close>, \<open>docker.py\<close>, \<open>mcp.py\<close>,
    and \<open>factory.py\<close>. A \<open>transport\<close> is a provider object; \<open>run_executor\<close> is its \<open>execute\<close>.
  \<^item> \<open>AgentWiring\<close>: \<open>universal_agent.py\<close>: the dispatch of a tool call, the resumption of a task, and the settings
    that a loop installs on the coordinator and puts back.
  \<^item> \<open>ModelRouting\<close>, \<open>LlmProvider\<close>: \<open>models/\<close> and \<open>kernel/provider.py\<close>.
  \<^item> \<open>ArtifactStore\<close>, \<open>MemoryLayers\<close>: the artifacts, projects and knowledge of \<open>persistence/store.py\<close>, and
    \<open>memory/layers.py\<close> over them.
  \<^item> \<open>ReconStore\<close>: targets, ports, findings, evidence, usage and runs of \<open>persistence/store.py\<close>, and
    \<open>persistence/target_tracker.py\<close>.
  \<^item> \<open>KnowledgeGraph\<close>: \<open>knowledge/graph.py\<close>, \<open>knowledge/retriever.py\<close> and \<open>knowledge/attack_map.py\<close>.

  \<^bold>\<open>How the model corresponds to the code.\<close> A class with state is a record and each method a function
  that returns the state updated; a pydantic model is a record with a \<open>validate_\<close> function that
  holds its field constraints and validators in order; an enumeration is a datatype with its values as
  texts. Where a method awaits something that can change the state behind its back, the callback is a
  function of the whole world, so that every theorem about the coordinator holds for whatever such a
  callback does: an \<open>effect\<close> of the coordinator, a \<open>job\<close> (a method of the host controller, which can
  end early with the result of an execution) or a \<open>step\<close> (the body of an operation). Shared mutable
  objects whose identity the code compares are references: sessions are indexes into lists of the host
  state, policies and providers carry a number. What is launched is a list of \<open>launched\<close> values, each with
  the world it started in, so that a property can speak of the moment of the launch.

  \<^bold>\<open>What the lemmas show.\<close> Each component has its well-formedness invariant and its operations keep it;
  each operation has its behaviour on every branch. Interfaces are locales, interpreted on the model:
  \<open>keyed_table\<close> (dictionaries), \<open>gate_contract\<close> and \<open>governed_services\<close> (what the coordinator needs of
  the gate), \<open>durable_plan\<close> (what the runner needs of the store), \<open>run_frame\<close> (an invariant of the store
  that every write of the runner respects; the charge, the isolation of sessions and the finality of a
  stop are its instances), \<open>loop_frame\<close> and \<open>calling_frame\<close> (invariants of the loop's actions). The
  properties that span components follow from them: \<open>Coordinator\<close>, \<open>RunProps\<close> and \<open>RunReplan\<close>, \<open>LoopProps\<close>,
  and, for the host, \<open>HostProps\<close> (every launched command carries an action bound to its
  arguments, executables and risk) and \<open>HostCommands\<close> (what was checked is checked again when the command
  starts, and without a policy nothing starts). \<open>Executors\<close> shows that a remote line reads back as the command it
  was made of, that a container is always removed and that success is observed; \<open>AgentWiring\<close> that a refused call
  launches nothing and an external one no more than the registry says; \<open>ModelRouting\<close> that the policy holds for
  the first choice and for every fallback; \<open>ArtifactStore\<close> that an update is atomic under any other use of the store
  (an inductive relation of steps), that an export masks and that a deletion is complete; \<open>MemoryLayers\<close> that
  retrieval stays within its owners; \<open>ReconStore\<close> that the port table refines a map; \<open>KnowledgeGraph\<close> that
  its walks end and find exactly what is near and exactly the simple paths, shortest first; \<open>LlmProvider\<close> that
  retries are bounded.

  \<^bold>\<open>Termination, fuel and bounds.\<close> Depth-first ordering, path search, the queues of the graph walks, the tool-use loop and the walks over
  lists are total functions with a measure or structural recursion; the loop turns a step budget into
  its measure. The advance loop of the runner takes fuel, and \<open>advance_terminates\<close> shows that one turn
  more than there are unfinished nodes is enough; the walk over a mission's ancestors ends by its own
  limit of 32 sessions. Numeric limits of the code (lengths, time-outs, attempts, budgets) are written out.

  \<^bold>\<open>Parameters.\<close> Code outside the repository is a parameter: SHA-256 and the canonical JSON text that is
  hashed, the JSON decoder, Python's text of a float or a nested value, path resolution through symbolic links, the
  UTF-8 codec, \<open>fnmatch\<close>, \<open>shutil.which\<close>, \<open>subprocess\<close>, \<open>psutil\<close>, Windows path syntax,
  the clock, identifiers, the human's answer, the model's replies, the start of a process, the Docker
  service, an external tool's client, the decoded answer of the model catalogue, pydantic's reading of a time,
  SQLite's sum of a REAL column, the order in which a set is iterated over and the semantic back ends of a retrieval. The host controller's theorems
  leave open what is behind a provider's \<open>execute\<close>, and so hold for every provider of \<open>Executors\<close>. Where a
  theorem needs a parameter to behave (an injective digest on the material at hand, a
  codec that gives a text back), it says so in a hypothesis, and its witness fixes a concrete function.
  SQLite is a record of tables with commit and rollback.

  \<^bold>\<open>Not modelled.\<close> The terminal interface, the command line, start-up, prompts and reports
  (\<open>app/\<close>, \<open>bootstrap/\<close>, \<open>reports/\<close>, \<open>prompting/\<close>), since they are input and output; the MCP server, the
  client's transport, extensions and plug-ins (\<open>mcp/\<close>, \<open>extensions/\<close>, \<open>hostcontrol/mcp.py\<close>), which pass messages
  over pipes and install files; the MongoDB mirror, which repeats the operations of the store over another client,
  with migration, logging, replay and offline evaluation; the notes that are ranked by the similarity of embeddings
  (\<open>memory/self_learning.py\<close>, a third-party index), which no decision
  reads; the list of entries that is shown to the model (\<open>kernel/context.py\<close>). Of \<open>models/\<close> the metadata that is
  shipped and the price of a run, which is floating-point arithmetic; of the execution providers the health checks; of
  \<open>universal_agent.py\<close> the construction of its parts and the approval callback of \<open>execute_registered_skill\<close>; of
  \<open>persistence/store.py\<close> opening the file and adding columns to an old one, of \<open>agents/host.py\<close> the
  summary texts, and of \<open>schema/task_state.py\<close> the text rendered for the model. Concurrency inside one method is modelled where it
  awaits; two methods of the same object at once are not, except for the commands of a provider session and for
  the updates of an artifact.
\<close>

end
